(* ===== verification/Safety_Types.thy ===== *)
theory Safety_Types imports Prelude begin

text \<open>
  The vocabulary of the safety kernel: \<open>src/core/safety/types.ts\<close>,
  \<open>hosts.ts\<close>, \<open>actions.ts\<close> and \<open>src/core/environment/types.ts\<close>.

  The WHATWG \<open>URL\<close> constructor is a platform service, not code of the repository:
  it is the parameter \<open>parse :: url_parser\<close> of every operation that uses it, with
  \<open>None\<close> for the \<open>TypeError\<close> it throws. The record \<open>url\<close> holds the properties
  the sources read.
\<close>

record url =
  u_protocol :: string
  u_username :: string
  u_password :: string
  u_hostname :: string
  u_port :: string
  u_pathname :: string
  u_search :: string
  u_hash :: string
  u_origin :: string

type_synonym url_parser = "string \<Rightarrow> url option"

section \<open>Host classes, classifications and verdicts\<close>

datatype environment_name = Local | Dev | Next

datatype host_class = HC_Production | HC_Dev | HC_Next | HC_Local | HC_UnknownAlphaus
  | HC_External | HC_Static | HC_Telemetry | HC_OptionalSupport | HC_BackgroundGoogle
  | HC_BackgroundUpdate | HC_BackgroundDownload | HC_Internal

datatype semantic_classification = EXPECTED | TELEMETRY | BROWSER_BACKGROUND_GOOGLE
  | BROWSER_BACKGROUND_UPDATE | BROWSER_BACKGROUND_DOWNLOAD | OPTIONAL_THIRD_PARTY_SUPPORT
  | UNKNOWN | PRODUCTION_DENIED

datatype background_classification = BBGoogle | BBUpdate | BBDownload

record background_host =
  bb_host :: string
  bb_classification :: background_classification

datatype verdict = Allow | Deny | BlockTelemetry | BlockOptionalSupport | BlockBrowserBackground

definition isNonFatalBlock :: "verdict \<Rightarrow> bool" where
  "isNonFatalBlock v = (v = BlockTelemetry \<or> v = BlockOptionalSupport \<or> v = BlockBrowserBackground)"

definition isBrowserBackgroundClassification :: "string \<Rightarrow> background_classification option" where
  "isBrowserBackgroundClassification s =
     (if s = ''BROWSER_BACKGROUND_GOOGLE'' then Some BBGoogle
      else if s = ''BROWSER_BACKGROUND_UPDATE'' then Some BBUpdate
      else if s = ''BROWSER_BACKGROUND_DOWNLOAD'' then Some BBDownload
      else None)"

definition browserBackgroundHostClass :: "background_classification \<Rightarrow> host_class" where
  "browserBackgroundHostClass c =
     (if c = BBGoogle then HC_BackgroundGoogle
      else if c = BBUpdate then HC_BackgroundUpdate
      else HC_BackgroundDownload)"

text \<open>The inclusion of \<open>BrowserBackgroundClassification\<close> in \<open>SemanticClassification\<close>.\<close>

fun background_semantic :: "background_classification \<Rightarrow> semantic_classification" where
  "background_semantic BBGoogle = BROWSER_BACKGROUND_GOOGLE"
| "background_semantic BBUpdate = BROWSER_BACKGROUND_UPDATE"
| "background_semantic BBDownload = BROWSER_BACKGROUND_DOWNLOAD"

definition semanticClassificationForHostClass :: "host_class \<Rightarrow> semantic_classification" where
  "semanticClassificationForHostClass c =
     (if c = HC_Production then PRODUCTION_DENIED
      else if c = HC_Telemetry then TELEMETRY
      else if c = HC_OptionalSupport then OPTIONAL_THIRD_PARTY_SUPPORT
      else if c = HC_BackgroundGoogle then BROWSER_BACKGROUND_GOOGLE
      else if c = HC_BackgroundUpdate then BROWSER_BACKGROUND_UPDATE
      else if c = HC_BackgroundDownload then BROWSER_BACKGROUND_DOWNLOAD
      else if c \<in> {HC_Dev, HC_Next, HC_Local, HC_Static, HC_Internal} then EXPECTED
      else UNKNOWN)"

text \<open>
  The closed set of reasons \<open>OutboundPolicy.decide\<close> gives; \<open>reason_text\<close> is the text the
  source persists, with the em dash of the source written as a hyphen.
\<close>

datatype decision_reason = R_Unparsable | R_Credentials | R_TrailingDot | R_NonNetwork
  | R_Background background_classification | R_Allowlisted environment_name | R_Static
  | R_OptionalSupport | R_Telemetry | R_KnownProduction | R_CloudRun | R_UnknownAlphaus
  | R_Legacy | R_Localhost | R_External

record outbound_decision =
  d_verdict :: verdict
  d_hostClass :: host_class
  d_classification :: semantic_classification
  d_host :: string
  d_reason :: decision_reason

section \<open>Environment configuration\<close>

text \<open>Absent optional lists of the source are \<open>[]\<close>: every reader uses \<open>?? []\<close> or \<open>?.\<close>.\<close>

record environment_config =
  e_name :: environment_name
  e_label :: string
  e_uiBaseUrl :: string
  e_apiHosts :: "string list"
  e_authHosts :: "string list"
  e_allowedHosts :: "string list"
  e_staticAssetHosts :: "string list"
  e_telemetryHosts :: "string list"
  e_optionalSupportHosts :: "string list"
  e_browserBackgroundHosts :: "background_host list"
  e_failOn :: "string list"

fun env_host_class :: "environment_name \<Rightarrow> host_class" where
  "env_host_class Local = HC_Local"
| "env_host_class Dev = HC_Dev"
| "env_host_class Next = HC_Next"

fun env_string :: "environment_name \<Rightarrow> string" where
  "env_string Local = ''local''"
| "env_string Dev = ''dev''"
| "env_string Next = ''next''"

section \<open>Host tables\<close>

definition KNOWN_PRODUCTION_HOSTS :: "string list" where
  "KNOWN_PRODUCTION_HOSTS = [''api.alphaus.cloud'', ''bluerpc.alphaus.cloud'', ''blue.alphaus.cloud'',
     ''login.alphaus.cloud'', ''app.alphaus.cloud'', ''service.mobingi.com'', ''login.mobingi.com'',
     ''app.mobingi.com'']"

definition DEV_HOSTS :: "string list" where
  "DEV_HOSTS = [''apidev.alphaus.cloud'', ''logindev.alphaus.cloud'', ''appdev.alphaus.cloud'',
     ''servicedev.mobingi.com'', ''appdev.mobingi.com'']"

definition NEXT_HOSTS :: "string list" where
  "NEXT_HOSTS = [''apinext.alphaus.cloud'', ''loginnext.alphaus.cloud'', ''next.alphaus.cloud'']"

definition LOCAL_HOSTS :: "string list" where
  "LOCAL_HOSTS = [''localhost'', ''127.0.0.1'', ''::1'', ''[::1]'']"

definition CLOUD_RUN_SUFFIX :: string where
  "CLOUD_RUN_SUFFIX = ''.run.app''"

definition hostSet :: "string list \<Rightarrow> string set" where
  "hostSet hosts = set (map lower hosts)"

definition isKnownProductionHost :: "string \<Rightarrow> bool" where
  "isKnownProductionHost h = (lower h \<in> hostSet KNOWN_PRODUCTION_HOSTS)"

definition isDevHost :: "string \<Rightarrow> bool" where
  "isDevHost h = (lower h \<in> hostSet DEV_HOSTS)"

definition isNextHost :: "string \<Rightarrow> bool" where
  "isNextHost h = (lower h \<in> hostSet NEXT_HOSTS)"

lemmas lower_eval = lower_def lower_char_def is_upper_letter_def code_unit_def

lemma host_tables_lower:
  "map lower KNOWN_PRODUCTION_HOSTS = KNOWN_PRODUCTION_HOSTS"
  "map lower DEV_HOSTS = DEV_HOSTS"
  "map lower NEXT_HOSTS = NEXT_HOSTS"
  by (simp_all add: KNOWN_PRODUCTION_HOSTS_def DEV_HOSTS_def NEXT_HOSTS_def lower_eval)

lemma isKnownProductionHost_iff: "isKnownProductionHost h \<longleftrightarrow> lower h \<in> set KNOWN_PRODUCTION_HOSTS"
  by (simp only: isKnownProductionHost_def hostSet_def host_tables_lower)

lemma host_tables_disjoint:
  "set KNOWN_PRODUCTION_HOSTS \<inter> (set DEV_HOSTS \<union> set NEXT_HOSTS) = {}"
  by (simp add: KNOWN_PRODUCTION_HOSTS_def DEV_HOSTS_def NEXT_HOSTS_def)

section \<open>Action kernel\<close>

datatype action_kind = Navigate | Click | Fill | TypeText | Press | Select | Wait | Assert_
  | Hover | Screenshot | OtherAction

record nightwatch_action =
  na_id :: string
  na_kind :: action_kind
  na_label :: string
  na_passive :: bool
  na_note :: "string option"

datatype action_error = ActionNotPassiveError nightwatch_action

definition assertPassiveAction :: "nightwatch_action \<Rightarrow> (action_error, unit) result" where
  "assertPassiveAction a = guard_res (na_passive a) (ActionNotPassiveError a)"

end
