(* ===== verification/Environment_Config.thy ===== *)
theory Environment_Config imports Safety_Types begin

text \<open>
  Fail-closed environment selection and validation of an environment file,
  \<open>src/core/environment/index.ts\<close>. The validator inspects a parsed JSON value and
  returns either the typed configuration or the reason of the refusal; the human
  text of a message is kept as the constructor of \<open>env_error\<close> and the values the
  source interpolates. Reading the file is not modelled.
\<close>

datatype env_error =
    NoEnvironmentSelected
  | EnvironmentNotSupported string
  | ConfigNotAnObject
  | UnknownKey string
  | NameMismatch
  | MissingKey string
  | FieldNotNonEmptyString string
  | FieldNotStringArray string
  | BackgroundNotArray
  | BackgroundNotObject nat
  | BackgroundInvalid nat
  | BackgroundDuplicate string
  | InvalidHostPattern string string string
  | NamesProductionHost string string string
  | NotLoopbackOnly string string
  | UiBaseUrlInvalid
  | UiHostNotLoopback string

definition assertSupportedEnvironment :: "string option \<Rightarrow> (env_error, environment_name) result" where
  "assertSupportedEnvironment name =
     (case name of None \<Rightarrow> Inl NoEnvironmentSelected
      | Some s \<Rightarrow>
         (if trim s = [] then Inl NoEnvironmentSelected
          else if lower (trim s) = ''local'' then Inr Local
          else if lower (trim s) = ''dev'' then Inr Dev
          else if lower (trim s) = ''next'' then Inr Next
          else Inl (EnvironmentNotSupported s)))"

section \<open>Host patterns\<close>

text \<open>\<open>HOST_LABEL_RE = /^[a-z0-9]([a-z0-9-]*[a-z0-9])?$/\<close>\<close>

definition label_char :: "char \<Rightarrow> bool" where
  "label_char c = (is_digit c \<or> is_lower_letter c)"

definition host_label_ok :: "string \<Rightarrow> bool" where
  "host_label_ok s = (s \<noteq> [] \<and> label_char (hd s) \<and> label_char (last s)
     \<and> list_all (\<lambda>c. label_char c \<or> c = CHR ''-'') s)"

definition digits_between :: "nat \<Rightarrow> nat \<Rightarrow> string \<Rightarrow> bool" where
  "digits_between lo hi s = (lo \<le> length s \<and> length s \<le> hi \<and> list_all is_digit s)"

text \<open>\<open>/^\d{1,3}(\.\d{1,3}){3}$/\<close>\<close>

definition dotted_quad :: "string \<Rightarrow> bool" where
  "dotted_quad s = (length (split_on (CHR ''.'') s) = 4
     \<and> list_all (digits_between 1 3) (split_on (CHR ''.'') s))"

fun index_of :: "char \<Rightarrow> string \<Rightarrow> nat option" where
  "index_of c [] = None"
| "index_of c (x # xs) = (if x = c then Some 0 else map_option Suc (index_of c xs))"

definition last_index_of :: "char \<Rightarrow> string \<Rightarrow> nat option" where
  "last_index_of c s = map_option (\<lambda>i. length s - Suc i) (index_of c (rev s))"

definition invalid_bracketed :: "string \<Rightarrow> string option" where
  "invalid_bracketed bare =
     (case index_of (CHR '']'') bare of
        None \<Rightarrow> Some ''unterminated bracketed IPv6 literal''
      | Some close \<Rightarrow>
         (let literal = drop 1 (take close bare); suffix = drop (Suc close) bare in
          if \<not> (2 \<le> length literal \<and> length literal \<le> 45
                \<and> list_all (\<lambda>c. is_hex_digit c \<or> c = CHR '':'' \<or> c = CHR ''.'') literal)
             \<or> \<not> contains '':'' literal then Some ''malformed bracketed IPv6 literal''
          else if suffix \<noteq> [] \<and> \<not> (starts_with '':'' suffix \<and> digits_between 1 5 (drop 1 suffix))
            then Some ''malformed port after bracketed IPv6 literal''
          else None))"

definition invalid_host_port :: "string \<Rightarrow> string option" where
  "invalid_host_port bare =
     (let colon = last_index_of (CHR '':'') bare;
          host = (case colon of None \<Rightarrow> bare | Some i \<Rightarrow> take i bare);
          port = (case colon of None \<Rightarrow> None | Some i \<Rightarrow> Some (drop (Suc i) bare)) in
      if port \<noteq> None \<and> contains '':'' host then Some ''malformed host entry''
      else if (case port of None \<Rightarrow> False
               | Some p \<Rightarrow> \<not> digits_between 1 5 p \<or> dec_value p > 65535) then Some ''malformed port''
      else if host = [] then Some ''empty host''
      else if dotted_quad host then
        (if list_all (\<lambda>part. dec_value part \<le> 255) (split_on (CHR ''.'') host) then None
         else Some ''malformed IPv4 literal'')
      else if list_ex (\<lambda>l. \<not> host_label_ok l) (split_on (CHR ''.'') host)
        then Some ''malformed hostname label''
      else None)"

definition invalidHostEntry :: "string \<Rightarrow> string option" where
  "invalidHostEntry entry =
     (let wild = starts_with ''*.'' entry;
          bare = (if wild then drop 2 entry else entry) in
      if entry = [] \<or> trim entry \<noteq> entry then Some ''empty or untrimmed host entry''
      else if wild \<and> contains ''*'' bare then Some ''only one leading wildcard label is allowed''
      else if wild \<and> bare = [] then Some ''wildcard has no suffix''
      else if \<not> wild \<and> contains ''*'' bare then Some ''a wildcard must be a single leading *. label''
      else if starts_with ''['' bare then invalid_bracketed bare
      else invalid_host_port bare)"

text \<open>\<open>bare.replace(/:\d+$/, '')\<close>\<close>

definition strip_port :: "string \<Rightarrow> string" where
  "strip_port s =
     (case last_index_of (CHR '':'') s of None \<Rightarrow> s
      | Some i \<Rightarrow> if drop (Suc i) s \<noteq> [] \<and> list_all is_digit (drop (Suc i) s) then take i s else s)"

text \<open>\<open>/^\[(?:0*:)*1\]$/i\<close>: zeros and colons, a colon (or nothing) before the final one.\<close>

definition loopback_v6 :: "string \<Rightarrow> bool" where
  "loopback_v6 s =
     (length s \<ge> 3 \<and> hd s = CHR ''['' \<and> last s = CHR '']''
      \<and> (let body = butlast (tl s); pre = butlast body in
         last body = CHR ''1'' \<and> list_all (\<lambda>c. c = CHR ''0'' \<or> c = CHR '':'') pre
         \<and> (pre = [] \<or> last pre = CHR '':'')))"

text \<open>\<open>/^127\.\d{1,3}\.\d{1,3}\.\d{1,3}$/\<close>\<close>

definition loopback_v4 :: "string \<Rightarrow> bool" where
  "loopback_v4 s = (dotted_quad s \<and> hd (split_on (CHR ''.'') s) = ''127'')"

definition isLoopbackEntry :: "string \<Rightarrow> bool" where
  "isLoopbackEntry entry =
     (let bare = (if starts_with ''*.'' entry then drop 2 entry else entry) in
      if starts_with ''['' bare then loopback_v6 (strip_port bare)
      else (let host = (case last_index_of (CHR '':'') bare of None \<Rightarrow> bare | Some i \<Rightarrow> take i bare) in
            host = ''localhost'' \<or> host = ''::1'' \<or> loopback_v4 host))"

definition productionHostCovered :: "string \<Rightarrow> string option" where
  "productionHostCovered entry =
     (let l = lower entry;
          suffix = (if starts_with ''*.'' l then Some (drop 1 l) else None) in
      find (\<lambda>p. l = p \<or> (case suffix of None \<Rightarrow> False | Some s \<Rightarrow> ends_with s p)) KNOWN_PRODUCTION_HOSTS)"

definition assertHostEntry :: "string \<Rightarrow> string \<Rightarrow> (env_error, unit) result" where
  "assertHostEntry field entry =
     (case invalidHostEntry entry of
        Some reason \<Rightarrow> Inl (InvalidHostPattern field entry reason)
      | None \<Rightarrow> (case productionHostCovered entry of
          Some p \<Rightarrow> Inl (NamesProductionHost field entry p)
        | None \<Rightarrow> Inr ()))"

definition assertHostList :: "string \<Rightarrow> string list \<Rightarrow> (env_error, unit) result" where
  "assertHostList field entries = all_ok (assertHostEntry field) entries"

section \<open>Validation of a parsed environment file\<close>

definition ENVIRONMENT_CONFIG_KEYS :: "string list" where
  "ENVIRONMENT_CONFIG_KEYS = [''name'', ''label'', ''uiBaseUrl'', ''apiHosts'', ''authHosts'',
     ''allowedHosts'', ''staticAssetHosts'', ''telemetryHosts'', ''optionalThirdPartySupportHosts'',
     ''browserBackgroundHosts'', ''failOn'']"

definition check_keys :: "(string \<times> json) list \<Rightarrow> (env_error, unit) result" where
  "check_keys fs = all_ok (\<lambda>(k, _). guard_res (k \<in> set ENVIRONMENT_CONFIG_KEYS) (UnknownKey k)) fs"

definition check_required :: "(string \<times> json) list \<Rightarrow> (env_error, unit) result" where
  "check_required fs = all_ok (\<lambda>k. guard_res (map_of fs k \<noteq> None) (MissingKey k))
     [''label'', ''uiBaseUrl'', ''allowedHosts'', ''staticAssetHosts'', ''telemetryHosts'', ''failOn'']"

definition string_field :: "(string \<times> json) list \<Rightarrow> string \<Rightarrow> (env_error, string) result" where
  "string_field fs k =
     (case map_of fs k of
        Some (JStr s) \<Rightarrow> (if trim s = [] then Inl (FieldNotNonEmptyString k) else Inr s)
      | _ \<Rightarrow> Inl (FieldNotNonEmptyString k))"

fun string_array :: "json list \<Rightarrow> string list option" where
  "string_array [] = Some []"
| "string_array (JStr s # xs) = map_option ((#) s) (string_array xs)"
| "string_array (_ # xs) = None"

definition list_field :: "(string \<times> json) list \<Rightarrow> string \<Rightarrow> (env_error, string list) result" where
  "list_field fs k =
     (case map_of fs k of
        None \<Rightarrow> Inr []
      | Some (JArr xs) \<Rightarrow> (case string_array xs of None \<Rightarrow> Inl (FieldNotStringArray k) | Some ys \<Rightarrow> Inr ys)
      | Some _ \<Rightarrow> Inl (FieldNotStringArray k))"

text \<open>The validation of one \<open>browserBackgroundHosts\<close> entry, given the hosts already seen.\<close>

definition background_entry :: "nat \<Rightarrow> string list \<Rightarrow> json \<Rightarrow> (env_error, background_host) result" where
  "background_entry i seen item =
     (case item of
        JObj fs \<Rightarrow>
          (case (map_of fs ''host'', map_of fs ''classification'') of
             (Some (JStr host), Some (JStr cls)) \<Rightarrow>
               (case isBrowserBackgroundClassification cls of
                  None \<Rightarrow> Inl (BackgroundInvalid i)
                | Some c \<Rightarrow>
                   (if trim host \<noteq> host \<or> host = [] \<or> contains ''*'' host \<or> contains ''/'' host
                       \<or> contains '':'' host then Inl (BackgroundInvalid i)
                    else if lower host \<in> set seen then Inl (BackgroundDuplicate (lower host))
                    else Inr \<lparr>bb_host = lower host, bb_classification = c\<rparr>))
           | _ \<Rightarrow> Inl (BackgroundInvalid i))
      | _ \<Rightarrow> Inl (BackgroundNotObject i))"

fun background_entries :: "nat \<Rightarrow> string list \<Rightarrow> json list \<Rightarrow> (env_error, background_host list) result" where
  "background_entries i seen [] = Inr []"
| "background_entries i seen (x # xs) =
     bind_res (background_entry i seen x) (\<lambda>h.
       bind_res (background_entries (Suc i) (bb_host h # seen) xs) (\<lambda>hs. Inr (h # hs)))"

definition background_field :: "(string \<times> json) list \<Rightarrow> (env_error, background_host list) result" where
  "background_field fs =
     (case map_of fs ''browserBackgroundHosts'' of
        None \<Rightarrow> Inr []
      | Some (JArr xs) \<Rightarrow> background_entries 0 [] xs
      | Some _ \<Rightarrow> Inl BackgroundNotArray)"

definition check_host_lists :: "environment_config \<Rightarrow> (env_error, unit) result" where
  "check_host_lists cfg = all_ok (\<lambda>(field, entries). assertHostList field entries)
     [(''allowedHosts'', e_allowedHosts cfg), (''apiHosts'', e_apiHosts cfg),
      (''authHosts'', e_authHosts cfg), (''staticAssetHosts'', e_staticAssetHosts cfg),
      (''telemetryHosts'', e_telemetryHosts cfg),
      (''optionalThirdPartySupportHosts'', e_optionalSupportHosts cfg)]"

definition check_local :: "url_parser \<Rightarrow> environment_config \<Rightarrow> (env_error, unit) result" where
  "check_local parse cfg =
     bind_res (all_ok (\<lambda>(field, entries). all_ok (\<lambda>e. guard_res (isLoopbackEntry e) (NotLoopbackOnly field e)) entries)
        [(''allowedHosts'', e_allowedHosts cfg), (''apiHosts'', e_apiHosts cfg), (''authHosts'', e_authHosts cfg)])
      (\<lambda>_. case parse (e_uiBaseUrl cfg) of
          None \<Rightarrow> Inl UiBaseUrlInvalid
        | Some u \<Rightarrow> guard_res (isLoopbackEntry (u_hostname u)) (UiHostNotLoopback (u_hostname u)))"

definition validateEnvironmentConfig :: "url_parser \<Rightarrow> environment_name \<Rightarrow> json \<Rightarrow> (env_error, environment_config) result" where
  "validateEnvironmentConfig parse name v =
     (case v of JObj fs \<Rightarrow>
        bind_res (check_keys fs) (\<lambda>_.
        bind_res (guard_res (map_of fs ''name'' = Some (JStr (env_string name))) NameMismatch) (\<lambda>_.
        bind_res (check_required fs) (\<lambda>_.
        bind_res (string_field fs ''label'') (\<lambda>label.
        bind_res (string_field fs ''uiBaseUrl'') (\<lambda>ui.
        bind_res (list_field fs ''apiHosts'') (\<lambda>api.
        bind_res (list_field fs ''authHosts'') (\<lambda>auth.
        bind_res (list_field fs ''allowedHosts'') (\<lambda>allowed.
        bind_res (list_field fs ''staticAssetHosts'') (\<lambda>static.
        bind_res (list_field fs ''telemetryHosts'') (\<lambda>telemetry.
        bind_res (list_field fs ''optionalThirdPartySupportHosts'') (\<lambda>optional.
        bind_res (list_field fs ''failOn'') (\<lambda>failOn.
        bind_res (background_field fs) (\<lambda>background.
        (let cfg = \<lparr>e_name = name, e_label = label, e_uiBaseUrl = ui, e_apiHosts = api,
               e_authHosts = auth, e_allowedHosts = allowed, e_staticAssetHosts = static,
               e_telemetryHosts = telemetry, e_optionalSupportHosts = optional,
               e_browserBackgroundHosts = background, e_failOn = failOn\<rparr> in
         bind_res (check_host_lists cfg) (\<lambda>_.
         bind_res (if name = Local then check_local parse cfg else Inr ()) (\<lambda>_.
         Inr cfg))))))))))))))))
      | _ \<Rightarrow> Inl ConfigNotAnObject)"

section \<open>What an accepted configuration guarantees\<close>

text \<open>No entry of a validated list names or wildcard-covers a known production host.\<close>

definition production_free :: "string list \<Rightarrow> bool" where
  "production_free entries = list_all (\<lambda>e. productionHostCovered e = None) entries"

definition safe_config :: "environment_config \<Rightarrow> bool" where
  "safe_config cfg = (production_free (e_allowedHosts cfg) \<and> production_free (e_apiHosts cfg)
     \<and> production_free (e_authHosts cfg) \<and> production_free (e_staticAssetHosts cfg)
     \<and> production_free (e_telemetryHosts cfg) \<and> production_free (e_optionalSupportHosts cfg))"

lemma assertHostEntry_ok:
  "assertHostEntry f e = Inr u \<longleftrightarrow> invalidHostEntry e = None \<and> productionHostCovered e = None"
  by (auto simp: assertHostEntry_def split: option.splits)

lemma assertHostList_ok:
  "assertHostList f es = Inr u \<longleftrightarrow> list_all (\<lambda>e. invalidHostEntry e = None) es \<and> production_free es"
  by (auto simp: assertHostList_def assertHostEntry_ok production_free_def list_all_iff)

lemma check_host_lists_safe: "check_host_lists cfg = Inr u \<Longrightarrow> safe_config cfg"
  by (simp add: check_host_lists_def assertHostList_ok safe_config_def)

lemma validateEnvironmentConfig_checks:
  assumes "validateEnvironmentConfig parse name v = Inr cfg"
  shows "check_host_lists cfg = Inr ()" "e_name cfg = name"
    "name = Local \<Longrightarrow> check_local parse cfg = Inr ()"
  using assms by (auto simp: validateEnvironmentConfig_def Let_def split: json.splits if_splits)

lemma validateEnvironmentConfig_safe:
  "validateEnvironmentConfig parse name v = Inr cfg \<Longrightarrow> safe_config cfg"
  by (blast dest: validateEnvironmentConfig_checks check_host_lists_safe)

lemma validateEnvironmentConfig_loopback:
  assumes "validateEnvironmentConfig parse Local v = Inr cfg"
  shows "list_all isLoopbackEntry (e_allowedHosts cfg)"
  using validateEnvironmentConfig_checks(3) [OF assms]
  by (auto simp: check_local_def list_all_iff)

lemma background_entry_ok:
  assumes "background_entry i seen x = Inr h"
  shows "lower (bb_host h) = bb_host h \<and> CHR ''*'' \<notin> set (bb_host h) \<and> bb_host h \<notin> set seen"
  using assms
  by (auto simp: background_entry_def nonletter_in_lower is_upper_letter_def is_lower_letter_def code_unit_def
      split: json.splits option.splits if_splits)

lemma background_entries_ok:
  "background_entries i seen xs = Inr hs \<Longrightarrow>
   distinct (map bb_host hs) \<and> set (map bb_host hs) \<inter> set seen = {}
   \<and> list_all (\<lambda>h. lower (bb_host h) = bb_host h \<and> CHR ''*'' \<notin> set (bb_host h)) hs"
proof (induction xs arbitrary: i seen hs)
  case Nil
  then show ?case by simp
next
  case (Cons x xs)
  from Cons.prems obtain h hs' where h: "background_entry i seen x = Inr h"
    and hs': "background_entries (Suc i) (bb_host h # seen) xs = Inr hs'" and hs: "hs = h # hs'"
    by auto
  from Cons.IH [OF hs'] background_entry_ok [OF h] show ?case
    by (auto simp: hs)
qed

lemma validateEnvironmentConfig_background:
  assumes "validateEnvironmentConfig parse name v = Inr cfg"
  shows "distinct (map bb_host (e_browserBackgroundHosts cfg))
    \<and> list_all (\<lambda>h. lower (bb_host h) = bb_host h \<and> CHR ''*'' \<notin> set (bb_host h)) (e_browserBackgroundHosts cfg)"
  using assms
  by (auto simp: validateEnvironmentConfig_def background_field_def Let_def
      split: json.splits if_splits option.splits dest: background_entries_ok)

end
