(* ===== verification/Outbound_Policy.thy ===== *)
theory Outbound_Policy imports Environment_Config begin

text \<open>
  The fail-closed outbound request policy, \<open>src/core/safety/outboundPolicy.ts\<close>.
  Every request the harness or the proxy inspects goes through \<open>decide\<close>; the rules
  are tried in the order of the source and the default is a denial. The class
  instance is its bound environment, so \<open>decide\<close> takes the configuration and the
  URL parser as arguments.
\<close>

section \<open>The policy\<close>

definition scheme_char :: "char \<Rightarrow> bool" where
  "scheme_char c = (is_alnum c \<or> c = CHR ''+'' \<or> c = CHR ''.'' \<or> c = CHR ''-'')"

text \<open>\<open>/^[a-z][a-z0-9+.-]*:\/\/([^\/?#]*)/i\<close>, the captured authority.\<close>

definition raw_authority :: "string \<Rightarrow> string option" where
  "raw_authority raw =
     (let scheme = takeWhile scheme_char raw; rest = drop (length scheme) raw in
      if scheme \<noteq> [] \<and> (is_lower_letter (hd scheme) \<or> is_upper_letter (hd scheme))
         \<and> starts_with ''://'' rest
      then Some (takeWhile (\<lambda>c. c \<noteq> CHR ''/'' \<and> c \<noteq> CHR ''?'' \<and> c \<noteq> CHR ''#'') (drop 3 rest))
      else None)"

definition hasUnsupportedTrailingDot :: "string \<Rightarrow> bool" where
  "hasUnsupportedTrailingDot raw =
     (case raw_authority raw of None \<Rightarrow> False
      | Some authority \<Rightarrow> \<not> starts_with ''['' authority \<and> ends_with ''.'' (strip_port authority))"

definition NETWORK_PROTOCOLS :: "string list" where
  "NETWORK_PROTOCOLS = [''http:'', ''https:'', ''ws:'', ''wss:'']"

definition isNetworkUrl :: "url_parser \<Rightarrow> string \<Rightarrow> bool" where
  "isNetworkUrl parse raw =
     (case parse raw of None \<Rightarrow> False | Some u \<Rightarrow> u_protocol u \<in> set NETWORK_PROTOCOLS)"

definition entryMatches :: "string \<Rightarrow> string \<Rightarrow> string \<Rightarrow> bool" where
  "entryMatches hostname hostPortKey entry =
     (let e = lower entry in
      if starts_with ''*.'' e then ends_with (drop 1 e) hostname
      else e = hostname \<or> e = hostPortKey)"

definition hostPortKey :: "url \<Rightarrow> string" where
  "hostPortKey u = (if u_port u \<noteq> [] then lower (u_hostname u) @ '':'' @ u_port u else lower (u_hostname u))"

definition deny :: "string \<Rightarrow> host_class \<Rightarrow> decision_reason \<Rightarrow> outbound_decision" where
  "deny host cls reason = \<lparr>d_verdict = Deny, d_hostClass = cls,
     d_classification = semanticClassificationForHostClass cls, d_host = host, d_reason = reason\<rparr>"

definition listed :: "string list \<Rightarrow> url \<Rightarrow> bool" where
  "listed entries u = list_ex (entryMatches (lower (u_hostname u)) (hostPortKey u)) entries"

definition backgroundEntry :: "environment_config \<Rightarrow> string \<Rightarrow> background_host option" where
  "backgroundEntry env hostname =
     find (\<lambda>b. lower (bb_host b) = hostname \<and> \<not> contains ''*'' (bb_host b)) (e_browserBackgroundHosts env)"

text \<open>Rules R3 to R12, for a parsed network URL that no browser-background entry names.\<close>

definition decide_network :: "environment_config \<Rightarrow> url \<Rightarrow> outbound_decision" where
  "decide_network env u =
     (let hostname = lower (u_hostname u) in
      if listed (e_allowedHosts env) u then
        \<lparr>d_verdict = Allow, d_hostClass = env_host_class (e_name env), d_classification = EXPECTED,
         d_host = hostname, d_reason = R_Allowlisted (e_name env)\<rparr>
      else if listed (e_staticAssetHosts env) u then
        \<lparr>d_verdict = Allow, d_hostClass = HC_Static, d_classification = EXPECTED,
         d_host = hostname, d_reason = R_Static\<rparr>
      else if listed (e_optionalSupportHosts env) u then
        \<lparr>d_verdict = BlockOptionalSupport, d_hostClass = HC_OptionalSupport,
         d_classification = OPTIONAL_THIRD_PARTY_SUPPORT, d_host = hostname, d_reason = R_OptionalSupport\<rparr>
      else if listed (e_telemetryHosts env) u then
        \<lparr>d_verdict = BlockTelemetry, d_hostClass = HC_Telemetry, d_classification = TELEMETRY,
         d_host = hostname, d_reason = R_Telemetry\<rparr>
      else if isKnownProductionHost hostname then deny hostname HC_Production R_KnownProduction
      else if hostname = drop 1 CLOUD_RUN_SUFFIX \<or> ends_with CLOUD_RUN_SUFFIX hostname
        then deny hostname HC_Production R_CloudRun
      else if hostname = ''alphaus.cloud'' \<or> ends_with ''.alphaus.cloud'' hostname
        then deny hostname HC_UnknownAlphaus R_UnknownAlphaus
      else if hostname = ''mobingi.com'' \<or> ends_with ''.mobingi.com'' hostname
        then deny hostname HC_Production R_Legacy
      else if hostname \<in> set LOCAL_HOSTS then deny hostname HC_Local R_Localhost
      else deny hostname HC_External R_External)"

definition decide :: "url_parser \<Rightarrow> environment_config \<Rightarrow> string \<Rightarrow> outbound_decision" where
  "decide parse env raw =
     (case parse raw of
        None \<Rightarrow> deny [] HC_External R_Unparsable
      | Some u \<Rightarrow>
         (if u_username u \<noteq> [] \<or> u_password u \<noteq> [] then deny [] HC_External R_Credentials
          else if hasUnsupportedTrailingDot raw then deny [] HC_External R_TrailingDot
          else if u_protocol u \<notin> set NETWORK_PROTOCOLS then
            \<lparr>d_verdict = Allow, d_hostClass = HC_Internal, d_classification = EXPECTED,
             d_host = lower (u_hostname u), d_reason = R_NonNetwork\<rparr>
          else (case backgroundEntry env (lower (u_hostname u)) of
             Some b \<Rightarrow>
               \<lparr>d_verdict = BlockBrowserBackground,
                d_hostClass = browserBackgroundHostClass (bb_classification b),
                d_classification = background_semantic (bb_classification b),
                d_host = lower (u_hostname u), d_reason = R_Background (bb_classification b)\<rparr>
           | None \<Rightarrow> decide_network env u)))"

section \<open>Lemmas on the rules\<close>

lemma decide_network_Allow_iff:
  "d_verdict (decide_network env u) = Allow
     \<longleftrightarrow> listed (e_allowedHosts env) u \<or> listed (e_staticAssetHosts env) u"
  by (simp add: decide_network_def Let_def deny_def)

lemma decide_Allow_iff:
  "d_verdict (decide parse env raw) = Allow \<longleftrightarrow>
     (\<exists>u. parse raw = Some u \<and> u_username u = [] \<and> u_password u = [] \<and> \<not> hasUnsupportedTrailingDot raw
        \<and> (u_protocol u \<notin> set NETWORK_PROTOCOLS
           \<or> (backgroundEntry env (lower (u_hostname u)) = None
              \<and> (listed (e_allowedHosts env) u \<or> listed (e_staticAssetHosts env) u))))"
  by (auto simp: decide_def deny_def decide_network_Allow_iff split: option.splits)

lemma decide_network_classification:
  "d_classification (decide_network env u) = semanticClassificationForHostClass (d_hostClass (decide_network env u))"
  by (cases "e_name env") (simp_all add: decide_network_def Let_def deny_def semanticClassificationForHostClass_def)

lemma background_classification_agrees:
  "background_semantic c = semanticClassificationForHostClass (browserBackgroundHostClass c)"
  by (cases c) (simp_all add: semanticClassificationForHostClass_def browserBackgroundHostClass_def)

text \<open>A list that covers no production host lists no production host without an explicit port.\<close>

lemma productionHostCovered_None:
  "productionHostCovered e = None \<longleftrightarrow>
     (\<forall>p\<in>set KNOWN_PRODUCTION_HOSTS. lower e \<noteq> p \<and> (starts_with ''*.'' (lower e) \<longrightarrow> \<not> ends_with (drop 1 (lower e)) p))"
  by (auto simp: productionHostCovered_def Let_def find_None_iff split: if_splits)

lemma production_free_not_listed:
  assumes "production_free entries" "isKnownProductionHost (u_hostname u)" "u_port u = []"
  shows "\<not> listed entries u"
  using assms
  by (auto simp: listed_def production_free_def list_all_iff list_ex_iff entryMatches_def Let_def
      hostPortKey_def productionHostCovered_None isKnownProductionHost_iff split: if_splits)

end
