(* ===== verification/Egress_Consumers.thy ===== *)
theory Egress_Consumers imports Outbound_Policy begin

text \<open>
  The two pure consumers of the outbound policy: the policy-logic canary
  (\<open>src/core/safety/canary.ts\<close>) and the proxy's destination parser
  (\<open>src/proxy/policyAdapter.ts\<close>). Both are clients of the interface
  \<open>egress_decider\<close>, which \<open>decide\<close> implements for every parser and configuration.
\<close>

section \<open>The interface\<close>

locale egress_decider =
  fixes verdict_of :: "string \<Rightarrow> outbound_decision"
  assumes classification_agrees:
      "d_classification (verdict_of raw) = semanticClassificationForHostClass (d_hostClass (verdict_of raw))"
    and deny_not_static: "d_verdict (verdict_of raw) = Deny \<Longrightarrow> d_hostClass (verdict_of raw) \<noteq> HC_Static"
    and allow_class: "d_verdict (verdict_of raw) = Allow \<Longrightarrow>
      d_hostClass (verdict_of raw) \<in> {HC_Internal, HC_Static, HC_Local, HC_Dev, HC_Next}"
begin

lemma allow_expected:
  "d_verdict (verdict_of raw) = Allow \<Longrightarrow> d_classification (verdict_of raw) = EXPECTED"
  using allow_class [of raw] by (auto simp: classification_agrees semanticClassificationForHostClass_def)

lemma production_never_allowed:
  "d_classification (verdict_of raw) = PRODUCTION_DENIED \<Longrightarrow> d_verdict (verdict_of raw) \<noteq> Allow"
  using allow_expected [of raw] by auto

end

lemma decide_classification:
  "d_classification (decide parse env raw) = semanticClassificationForHostClass (d_hostClass (decide parse env raw))"
  by (auto simp: decide_def deny_def decide_network_classification background_classification_agrees
      semanticClassificationForHostClass_def split: option.splits)

lemma decide_network_Allow_class:
  "d_verdict (decide_network env u) = Allow \<Longrightarrow>
   d_hostClass (decide_network env u) \<in> {HC_Static, HC_Local, HC_Dev, HC_Next}"
  by (cases "e_name env") (auto simp: decide_network_def Let_def deny_def split: if_splits)

lemma decide_network_Deny_class:
  "d_verdict (decide_network env u) = Deny \<Longrightarrow> d_hostClass (decide_network env u) \<noteq> HC_Static"
  by (auto simp: decide_network_def Let_def deny_def split: if_splits)

interpretation policy_decider: egress_decider "decide parse env" for parse env
proof unfold_locales
  fix raw
  show "d_classification (decide parse env raw)
      = semanticClassificationForHostClass (d_hostClass (decide parse env raw))"
    by (rule decide_classification)
  show "d_verdict (decide parse env raw) = Deny \<Longrightarrow> d_hostClass (decide parse env raw) \<noteq> HC_Static"
    by (auto simp: decide_def deny_def dest: decide_network_Deny_class split: option.splits if_splits)
  show "d_verdict (decide parse env raw) = Allow \<Longrightarrow>
      d_hostClass (decide parse env raw) \<in> {HC_Internal, HC_Static, HC_Local, HC_Dev, HC_Next}"
    by (auto simp: decide_def deny_def dest: decide_network_Allow_class split: option.splits if_splits)
qed

section \<open>The canary\<close>

record canary_check =
  cc_label :: string
  cc_url :: string
  cc_expected :: verdict

record canary_failure =
  cf_label :: string
  cf_expected :: verdict
  cf_decision :: outbound_decision

record canary_result =
  cr_pass :: bool
  cr_total :: nat
  cr_failures :: "canary_failure list"

definition check :: "string \<Rightarrow> string \<Rightarrow> verdict \<Rightarrow> canary_check" where
  "check label u expected = \<lparr>cc_label = label, cc_url = u, cc_expected = expected\<rparr>"

definition defaultCanaryChecks :: "environment_config \<Rightarrow> canary_check list" where
  "defaultCanaryChecks env =
     map (\<lambda>h. check (''prod: '' @ h) (''https://'' @ h @ ''/m/ripple'') Deny) KNOWN_PRODUCTION_HOSTS
     @ [check ''cloud-run: billing-prod-abcdef012.run.app'' ''https://billing-prod-abcdef012.run.app/'' Deny,
        check ''unknown-alphaus: random-host-xyz.alphaus.cloud'' ''https://random-host-xyz.alphaus.cloud/'' Deny,
        check ''external: example.invalid'' ''https://example.invalid/'' Deny,
        check ''legacy-mobingi: anything.mobingi.com'' ''https://anything.mobingi.com/x'' Deny]
     @ map (\<lambda>h. check (''dev: '' @ h) (''https://'' @ h @ ''/m/ripple'')
              (if e_name env = Dev then Allow else Deny)) DEV_HOSTS
     @ map (\<lambda>h. check (''next: '' @ h) (''https://'' @ h @ ''/'')
              (if e_name env = Next then Allow else Deny)) NEXT_HOSTS
     @ map (\<lambda>h. check (''optional support: '' @ h) (''https://'' @ h @ ''/widget/synthetic-app-id'')
              BlockOptionalSupport) (e_optionalSupportHosts env)
     @ map (\<lambda>b. check (''browser background: '' @ bb_host b) (''https://'' @ bb_host b @ ''/background'')
              BlockBrowserBackground) (e_browserBackgroundHosts env)
     @ [check ''local: 127.0.0.1'' ''http://127.0.0.1:1/'' (if e_name env = Local then Allow else Deny),
        check ''local: localhost'' ''http://localhost:1/'' (if e_name env = Local then Allow else Deny)]
     @ map (\<lambda>h. check (''allowlisted: '' @ h) (''https://'' @ h @ ''/'') Allow) (e_allowedHosts env)"

fun canaryFailures :: "(string \<Rightarrow> outbound_decision) \<Rightarrow> canary_check list \<Rightarrow> canary_failure list" where
  "canaryFailures d [] = []"
| "canaryFailures d (c # cs) =
     (if d_verdict (d (cc_url c)) \<noteq> cc_expected c
      then \<lparr>cf_label = cc_label c, cf_expected = cc_expected c, cf_decision = d (cc_url c)\<rparr> # canaryFailures d cs
      else canaryFailures d cs)"

definition runCanary :: "url_parser \<Rightarrow> environment_config \<Rightarrow> canary_check list option \<Rightarrow> canary_result" where
  "runCanary parse env checks =
     (let list = (case checks of None \<Rightarrow> defaultCanaryChecks env | Some cs \<Rightarrow> cs);
          failures = canaryFailures (decide parse env) list in
      \<lparr>cr_pass = (length failures = 0), cr_total = length list, cr_failures = failures\<rparr>)"

datatype canary_error = CanaryFailureError canary_result

definition assertCanary :: "canary_result \<Rightarrow> (canary_error, unit) result" where
  "assertCanary r = guard_res (cr_pass r) (CanaryFailureError r)"

lemma canaryFailures_Nil_iff:
  "canaryFailures d cs = [] \<longleftrightarrow> (\<forall>c\<in>set cs. d_verdict (d (cc_url c)) = cc_expected c)"
  by (induction cs) auto

lemma runCanary_pass_iff:
  "cr_pass (runCanary parse env (Some cs)) \<longleftrightarrow>
     (\<forall>c\<in>set cs. d_verdict (decide parse env (cc_url c)) = cc_expected c)"
  by (simp add: runCanary_def Let_def canaryFailures_Nil_iff)

lemma runCanary_default: "runCanary parse env None = runCanary parse env (Some (defaultCanaryChecks env))"
  by (simp add: runCanary_def)

lemma production_check_in_defaults:
  "h \<in> set KNOWN_PRODUCTION_HOSTS \<Longrightarrow>
   check (''prod: '' @ h) (''https://'' @ h @ ''/m/ripple'') Deny \<in> set (defaultCanaryChecks env)"
  by (simp add: defaultCanaryChecks_def)

section \<open>The proxy's policy adapter\<close>

datatype proxy_protocol = PHttp | PHttpsConnect | PWs | PWss

record proxy_target =
  pt_url :: url
  pt_protocol :: proxy_protocol
  pt_hostname :: string
  pt_port :: nat
  pt_path :: string

record proxy_classification =
  pc_target :: "proxy_target option"
  pc_decision :: outbound_decision
  pc_ruleId :: string

fun background_text :: "background_classification \<Rightarrow> string" where
  "background_text BBGoogle = ''BROWSER_BACKGROUND_GOOGLE''"
| "background_text BBUpdate = ''BROWSER_BACKGROUND_UPDATE''"
| "background_text BBDownload = ''BROWSER_BACKGROUND_DOWNLOAD''"

fun reason_text :: "decision_reason \<Rightarrow> string" where
  "reason_text R_Unparsable = ''unparsable URL''"
| "reason_text R_Credentials = ''embedded credentials in URL''"
| "reason_text R_TrailingDot = ''trailing-dot hostname unsupported''"
| "reason_text R_NonNetwork = ''non-network scheme''"
| "reason_text (R_Background c) = background_text c @ '' host - blocked, not failed''"
| "reason_text (R_Allowlisted n) = ''allowlisted host for '' @ env_string n @ '' environment''"
| "reason_text R_Static = ''classified static asset host''"
| "reason_text R_OptionalSupport = ''optional third-party support widget - blocked, not failed''"
| "reason_text R_Telemetry = ''telemetry host - blocked, not failed''"
| "reason_text R_KnownProduction = ''known Alphaus production host''"
| "reason_text R_CloudRun = ''GCP Cloud Run host (production-class)''"
| "reason_text R_UnknownAlphaus = ''unknown Alphaus host - fail closed''"
| "reason_text R_Legacy = ''legacy Alphaus domain''"
| "reason_text R_Localhost = ''localhost not allowed in this environment allowlist''"
| "reason_text R_External = ''unexpected external host''"

definition ruleId :: "outbound_decision \<Rightarrow> string" where
  "ruleId d =
     (let r = reason_text (d_reason d) in
      if contains ''unparsable'' r then ''parse-failure''
      else if contains ''embedded credentials'' r then ''embedded-credentials''
      else if contains ''allowlisted'' r then ''environment-allowlist''
      else if contains ''static asset'' r then ''static-assets''
      else if d_classification d = BROWSER_BACKGROUND_GOOGLE then ''browser-background-google''
      else if d_classification d = BROWSER_BACKGROUND_UPDATE then ''browser-background-update''
      else if d_classification d = BROWSER_BACKGROUND_DOWNLOAD then ''browser-background-download''
      else if contains ''optional third-party support'' r then ''optional-third-party-support''
      else if contains ''telemetry'' r then ''telemetry''
      else if contains ''known Alphaus production'' r then ''known-production''
      else if contains ''Cloud Run'' r then ''cloud-run-production''
      else if contains ''unknown Alphaus'' r then ''unknown-alphaus''
      else if contains ''legacy Alphaus'' r then ''legacy-alphaus''
      else if contains ''localhost'' r then ''localhost''
      else ''external-default-deny'')"

definition reject :: "url_parser \<Rightarrow> environment_config \<Rightarrow> proxy_classification" where
  "reject parse env = \<lparr>pc_target = None, pc_decision = decide parse env ''not a valid Nightwatch URL'',
     pc_ruleId = ''parse-failure''\<rparr>"

text \<open>\<open>hostname.replace(/^\[/, '').replace(/\]$/, '')\<close>\<close>

definition hostnameForSocket :: "string \<Rightarrow> string" where
  "hostnameForSocket h =
     (let h1 = (if starts_with ''['' h then drop 1 h else h) in
      if ends_with '']'' h1 then butlast h1 else h1)"

text \<open>
  A port of a parsed URL is empty or decimal digits, so \<open>Number(url.port)\<close> is its value;
  \<open>None\<close> is \<open>NaN\<close>, which \<open>Number.isInteger\<close> refuses.
\<close>

definition portFor :: "url \<Rightarrow> string \<Rightarrow> nat option" where
  "portFor u protocol =
     (if u_port u \<noteq> [] then (if list_all is_digit (u_port u) then Some (dec_value (u_port u)) else None)
      else if protocol = ''http:'' \<or> protocol = ''ws:'' then Some 80 else Some 443)"

definition makeTarget :: "url \<Rightarrow> proxy_protocol \<Rightarrow> nat \<Rightarrow> proxy_target" where
  "makeTarget u p port = \<lparr>pt_url = u, pt_protocol = p, pt_hostname = hostnameForSocket (lower (u_hostname u)),
     pt_port = port, pt_path = (if u_pathname u = [] then ''/'' else u_pathname u) @ u_search u\<rparr>"

definition protocol_of :: "string \<Rightarrow> proxy_protocol" where
  "protocol_of p = (if p = ''http:'' then PHttp else if p = ''https:'' then PHttpsConnect
     else if p = ''ws:'' then PWs else PWss)"

definition valid_port :: "nat option \<Rightarrow> bool" where
  "valid_port p = (case p of None \<Rightarrow> False | Some n \<Rightarrow> 1 \<le> n \<and> n \<le> 65535)"

definition classifyProxyUrl ::
  "url_parser \<Rightarrow> environment_config \<Rightarrow> string \<Rightarrow> proxy_protocol option \<Rightarrow> proxy_classification" where
  "classifyProxyUrl parse env raw hint =
     (case parse raw of None \<Rightarrow> reject parse env
      | Some u \<Rightarrow>
         (let protocol = lower (u_protocol u);
              expected = (if hint = Some PHttp then Some ''http:'' else if hint = Some PWs then Some ''ws:'' else None) in
          if u_username u \<noteq> [] \<or> u_password u \<noteq> [] then reject parse env
          else if expected \<noteq> None \<and> expected \<noteq> Some protocol then reject parse env
          else if protocol \<notin> set NETWORK_PROTOCOLS then reject parse env
          else if \<not> valid_port (portFor u protocol) then reject parse env
          else (let d = decide parse env raw in
            \<lparr>pc_target = Some (makeTarget u (protocol_of protocol) (the (portFor u (u_protocol u)))),
             pc_decision = d, pc_ruleId = ruleId d\<rparr>)))"

text \<open>
  \<open>/^\[([^\]]+)\]:(\d+)$/\<close> for a bracketed authority, \<open>/^([^:]+):(\d+)$/\<close> otherwise;
  the two captures.
\<close>

definition authority_match :: "string \<Rightarrow> (string \<times> string) option" where
  "authority_match a =
     (if starts_with ''['' a then
        (let h = takeWhile (\<lambda>c. c \<noteq> CHR '']'') (drop 1 a); rest = drop (Suc (length h)) a in
         if h \<noteq> [] \<and> starts_with '']:'' rest \<and> drop 2 rest \<noteq> [] \<and> list_all is_digit (drop 2 rest)
         then Some (h, drop 2 rest) else None)
      else
        (let h = takeWhile (\<lambda>c. c \<noteq> CHR '':'') a; rest = drop (length h) a in
         if h \<noteq> [] \<and> starts_with '':'' rest \<and> drop 1 rest \<noteq> [] \<and> list_all is_digit (drop 1 rest)
         then Some (h, drop 1 rest) else None))"

definition forbidden_authority_char :: "char \<Rightarrow> bool" where
  "forbidden_authority_char c = (code_unit c = 92 \<or> c = CHR ''/'' \<or> c = CHR ''@'' \<or> c = CHR ''?''
     \<or> c = CHR ''#'' \<or> is_space c)"

text \<open>The protocol of a CONNECT is \<open>'https:'\<close> or \<open>'wss:'\<close>.\<close>

definition classifyProxyConnect ::
  "url_parser \<Rightarrow> environment_config \<Rightarrow> string \<Rightarrow> string \<Rightarrow> proxy_classification" where
  "classifyProxyConnect parse env authority protocol =
     (if authority = [] \<or> trim authority \<noteq> authority \<or> list_ex forbidden_authority_char authority
      then reject parse env
      else (case authority_match authority of None \<Rightarrow> reject parse env
        | Some (h, digits) \<Rightarrow>
           (let port = dec_value digits in
            if ends_with ''.'' h then reject parse env
            else if port < 1 \<or> port > 65535 then reject parse env
            else (case parse (protocol @ ''//'' @ authority @ ''/'') of None \<Rightarrow> reject parse env
              | Some u \<Rightarrow>
                 (if u_username u \<noteq> [] \<or> u_password u \<noteq> [] \<or> u_pathname u \<noteq> ''/'' \<or> u_search u \<noteq> []
                    \<or> u_hash u \<noteq> [] then reject parse env
                  else (let d = decide parse env (protocol @ ''//'' @ u_hostname u @ '':'' @ nat_to_dec port @ ''/'') in
                    \<lparr>pc_target = Some \<lparr>pt_url = u,
                        pt_protocol = (if protocol = ''wss:'' then PWss else PHttpsConnect),
                        pt_hostname = hostnameForSocket (lower (u_hostname u)),
                        pt_port = port, pt_path = ''/''\<rparr>,
                     pc_decision = d, pc_ruleId = ruleId d\<rparr>))))))"

definition classifyForwardRequest ::
  "url_parser \<Rightarrow> environment_config \<Rightarrow> string option \<Rightarrow> string option \<Rightarrow> proxy_classification" where
  "classifyForwardRequest parse env raw hostHeader =
     (case raw of None \<Rightarrow> reject parse env
      | Some r \<Rightarrow>
         (if r = [] then reject parse env
          else if starts_with ''/'' r then
            (case hostHeader of None \<Rightarrow> reject parse env
             | Some h \<Rightarrow> (if h = [] \<or> trim h \<noteq> h then reject parse env
                         else classifyProxyUrl parse env (''http://'' @ h @ r) (Some PHttp)))
          else classifyProxyUrl parse env r (Some PHttp)))"

lemma reject_target [simp]: "pc_target (reject parse env) = None"
  by (simp add: reject_def)

end
