(* ===== verification/Egress_Properties.thy ===== *)
theory Egress_Properties imports Egress_Consumers begin

text \<open>
  The properties of the egress boundary: environment validation, the outbound
  policy, the canary and the proxy adapter, with the concrete URLs and
  configurations their witnesses use.
\<close>

section \<open>Sample inputs\<close>

definition sample_url :: "string \<Rightarrow> string \<Rightarrow> string \<Rightarrow> url" where
  "sample_url protocol host port = \<lparr>u_protocol = protocol, u_username = [], u_password = [], u_hostname = host,
     u_port = port, u_pathname = ''/'', u_search = [], u_hash = [],
     u_origin = protocol @ ''//'' @ host @ (if port = [] then [] else '':'' @ port)\<rparr>"

definition sample_parse :: url_parser where
  "sample_parse = map_of
     [(''https://api.alphaus.cloud/'', sample_url ''https:'' ''api.alphaus.cloud'' []),
      (''https://api.alphaus.cloud:8443/'', sample_url ''https:'' ''api.alphaus.cloud'' ''8443''),
      (''https://x.run.app/'', sample_url ''https:'' ''x.run.app'' []),
      (''https://appdev.alphaus.cloud/'', sample_url ''https:'' ''appdev.alphaus.cloud'' []),
      (''https://appdev.alphaus.cloud:443/'', sample_url ''https:'' ''appdev.alphaus.cloud'' []),
      (''http://127.0.0.1:7311/'', sample_url ''http:'' ''127.0.0.1'' ''7311'')]"

definition sample_json :: "string \<Rightarrow> string \<Rightarrow> string list \<Rightarrow> json" where
  "sample_json name ui allowed = JObj [(''name'', JStr name), (''label'', JStr ''x''), (''uiBaseUrl'', JStr ui),
     (''allowedHosts'', JArr (map JStr allowed)), (''staticAssetHosts'', JArr []),
     (''telemetryHosts'', JArr []), (''failOn'', JArr [])]"

definition sample_config :: "environment_name \<Rightarrow> string \<Rightarrow> string list \<Rightarrow> environment_config" where
  "sample_config name ui allowed = \<lparr>e_name = name, e_label = ''x'', e_uiBaseUrl = ui, e_apiHosts = [],
     e_authHosts = [], e_allowedHosts = allowed, e_staticAssetHosts = [], e_telemetryHosts = [],
     e_optionalSupportHosts = [], e_browserBackgroundHosts = [], e_failOn = []\<rparr>"

lemmas char_eval = is_digit_def is_lower_letter_def is_upper_letter_def is_space_def code_unit_def
  label_char_def digit_value_def

lemmas validate_eval = validateEnvironmentConfig_def check_keys_def ENVIRONMENT_CONFIG_KEYS_def
  check_required_def string_field_def list_field_def background_field_def check_host_lists_def
  assertHostList_def assertHostEntry_def sample_json_def trim_def Let_def

lemmas host_eval = invalidHostEntry_def invalid_host_port_def last_index_of_def dotted_quad_def
  digits_between_def host_label_ok_def trim_def starts_with_def Let_def

lemmas cover_eval = productionHostCovered_def KNOWN_PRODUCTION_HOSTS_def ends_with_def starts_with_def
  lower_eval Let_def

lemma appdev_entry: "assertHostEntry f ''appdev.alphaus.cloud'' = Inr ()"
  by (simp add: assertHostEntry_ok host_eval cover_eval char_eval)

lemma port_entry: "assertHostEntry f ''api.alphaus.cloud:8443'' = Inr ()"
  by (simp add: assertHostEntry_ok host_eval cover_eval char_eval dec_value_def)

lemma run_app_entry: "assertHostEntry f ''*.run.app'' = Inr ()"
  by (simp add: assertHostEntry_ok host_eval cover_eval char_eval)

lemma sample_validates:
  assumes "list_all (\<lambda>e. assertHostEntry ''allowedHosts'' e = Inr ()) hosts"
  shows "validateEnvironmentConfig parse Dev (sample_json ''dev'' ''https://appdev.alphaus.cloud/'' hosts)
    = Inr (sample_config Dev ''https://appdev.alphaus.cloud/'' hosts)"
proof -
  have "string_array (map JStr hosts) = Some hosts"
    by (induction hosts) auto
  moreover have "all_ok (assertHostEntry ''allowedHosts'') hosts = Inr ()"
    using assms by (simp add: list_all_iff)
  ultimately show ?thesis
    by (simp add: validate_eval char_eval sample_config_def guard_res_def)
qed

section \<open>The policy\<close>

text \<open>C1: a request is allowed only when its URL parses and carries no credentials and no
  trailing-dot host; if its scheme is one of the network, then moreover no browser-background entry names its host, and an entry of
  the selected environment's allowlist or static-asset list matches it. There is no other route to an allow.\<close>

theorem network_allow_requires_listing:
  assumes "d_verdict (decide parse env raw) = Allow"
  shows "\<exists>u. parse raw = Some u \<and> u_username u = [] \<and> u_password u = [] \<and> \<not> hasUnsupportedTrailingDot raw
    \<and> (u_protocol u \<in> set NETWORK_PROTOCOLS \<longrightarrow> backgroundEntry env (lower (u_hostname u)) = None
         \<and> (listed (e_allowedHosts env) u \<or> listed (e_staticAssetHosts env) u))"
  using assms unfolding decide_Allow_iff by blast

lemma sample_dev_allowed:
  "d_verdict (decide sample_parse (sample_config Dev ui [''appdev.alphaus.cloud'']) ''https://appdev.alphaus.cloud/'') = Allow"
  by (simp add: decide_def sample_parse_def sample_url_def sample_config_def hasUnsupportedTrailingDot_def
      raw_authority_def scheme_char_def is_alnum_def char_eval starts_with_def ends_with_def strip_port_def
      last_index_of_def NETWORK_PROTOCOLS_def backgroundEntry_def decide_network_def listed_def
      entryMatches_def hostPortKey_def lower_eval Let_def)

theorem network_allow_requires_listing_witness:
  "listed [''appdev.alphaus.cloud''] (sample_url ''https:'' ''appdev.alphaus.cloud'' [])"
proof -
  have "sample_parse ''https://appdev.alphaus.cloud/'' = Some (sample_url ''https:'' ''appdev.alphaus.cloud'' [])"
    by (simp add: sample_parse_def)
  moreover have "u_protocol (sample_url ''https:'' ''appdev.alphaus.cloud'' []) \<in> set NETWORK_PROTOCOLS"
    by (simp add: sample_url_def NETWORK_PROTOCOLS_def)
  ultimately show ?thesis
    using network_allow_requires_listing [OF sample_dev_allowed [of "[]"]]
    by (auto simp: sample_config_def listed_def)
qed

text \<open>C2: under a configuration the validator accepted, a network request to a known production
  host on the default port of its scheme is always stopped: it is denied, or blocked as a
  browser-background host, whatever the URL's path, query or scheme.\<close>

theorem validated_config_stops_production:
  assumes "validateEnvironmentConfig vparse name v = Inr cfg"
    and "parse raw = Some u" and "u_protocol u \<in> set NETWORK_PROTOCOLS"
    and "isKnownProductionHost (u_hostname u)" and "u_port u = []"
  shows "d_verdict (decide parse cfg raw) \<in> {Deny, BlockBrowserBackground}"
proof -
  from validateEnvironmentConfig_safe [OF assms(1)] have safe: "safe_config cfg" .
  have "\<not> listed es u" if "production_free es" for es
    by (rule production_free_not_listed [OF that assms(4,5)])
  then have "d_verdict (decide_network cfg u) = Deny"
    using safe assms(4) by (auto simp: decide_network_def safe_config_def deny_def isKnownProductionHost_iff Let_def)
  then show ?thesis
    using assms(2,3) by (auto simp: decide_def deny_def split: option.splits)
qed

theorem validated_config_stops_production_witness:
  "d_verdict (decide sample_parse (sample_config Dev ''https://appdev.alphaus.cloud/'' [''appdev.alphaus.cloud''])
     ''https://api.alphaus.cloud/'') \<in> {Deny, BlockBrowserBackground}"
proof (rule validated_config_stops_production)
  show "validateEnvironmentConfig sample_parse Dev (sample_json ''dev'' ''https://appdev.alphaus.cloud/'' [''appdev.alphaus.cloud''])
      = Inr (sample_config Dev ''https://appdev.alphaus.cloud/'' [''appdev.alphaus.cloud''])"
    by (rule sample_validates) (simp add: appdev_entry)
  show "sample_parse ''https://api.alphaus.cloud/'' = Some (sample_url ''https:'' ''api.alphaus.cloud'' [])"
    by (simp add: sample_parse_def)
qed (simp_all add: sample_url_def NETWORK_PROTOCOLS_def isKnownProductionHost_iff KNOWN_PRODUCTION_HOSTS_def lower_eval)

text \<open>the guarantee for validated configurations stops at explicit ports. The validator accepts the allowlist entry
  of a known production host with a port, and the policy then allows that production host on
  that port.\<close>

theorem explicit_port_admits_production:
  "\<exists>cfg. validateEnvironmentConfig sample_parse Dev
       (sample_json ''dev'' ''https://appdev.alphaus.cloud/'' [''api.alphaus.cloud:8443'']) = Inr cfg
     \<and> isKnownProductionHost (u_hostname (sample_url ''https:'' ''api.alphaus.cloud'' ''8443''))
     \<and> sample_parse ''https://api.alphaus.cloud:8443/'' = Some (sample_url ''https:'' ''api.alphaus.cloud'' ''8443'')
     \<and> d_verdict (decide sample_parse cfg ''https://api.alphaus.cloud:8443/'') = Allow"
proof (intro exI conjI)
  show "validateEnvironmentConfig sample_parse Dev
       (sample_json ''dev'' ''https://appdev.alphaus.cloud/'' [''api.alphaus.cloud:8443''])
     = Inr (sample_config Dev ''https://appdev.alphaus.cloud/'' [''api.alphaus.cloud:8443''])"
    by (rule sample_validates) (simp add: port_entry)
qed (simp_all add: decide_def sample_parse_def sample_url_def sample_config_def hasUnsupportedTrailingDot_def
      raw_authority_def scheme_char_def is_alnum_def char_eval starts_with_def ends_with_def strip_port_def
      last_index_of_def NETWORK_PROTOCOLS_def backgroundEntry_def decide_network_def listed_def
      entryMatches_def hostPortKey_def lower_eval Let_def isKnownProductionHost_iff KNOWN_PRODUCTION_HOSTS_def)

text \<open>Cloud Run hosts are not protected by the validator at all: the wildcard of the whole
  \<open>run.app\<close> domain is an accepted allowlist entry, and the allowlist rule precedes the Cloud Run
  denial, so the policy then allows a Cloud Run host.\<close>

theorem cloud_run_wildcard_admitted:
  "\<exists>cfg. validateEnvironmentConfig sample_parse Dev
       (sample_json ''dev'' ''https://appdev.alphaus.cloud/'' [''*.run.app'']) = Inr cfg
     \<and> sample_parse ''https://x.run.app/'' = Some (sample_url ''https:'' ''x.run.app'' [])
     \<and> ends_with CLOUD_RUN_SUFFIX ''x.run.app''
     \<and> d_verdict (decide sample_parse cfg ''https://x.run.app/'') = Allow"
proof (intro exI conjI)
  show "validateEnvironmentConfig sample_parse Dev
       (sample_json ''dev'' ''https://appdev.alphaus.cloud/'' [''*.run.app''])
     = Inr (sample_config Dev ''https://appdev.alphaus.cloud/'' [''*.run.app''])"
    by (rule sample_validates) (simp add: run_app_entry)
qed (simp_all add: decide_def sample_parse_def sample_url_def sample_config_def hasUnsupportedTrailingDot_def
      raw_authority_def scheme_char_def is_alnum_def char_eval starts_with_def ends_with_def strip_port_def
      last_index_of_def NETWORK_PROTOCOLS_def backgroundEntry_def decide_network_def listed_def
      entryMatches_def hostPortKey_def lower_eval Let_def CLOUD_RUN_SUFFIX_def)

text \<open>under a validated local configuration, a network request is allowed only through a
  loopback allowlist entry or through the static-asset list (which the validator does not hold
  to loopback).\<close>

theorem local_config_allows_only_loopback:
  assumes "validateEnvironmentConfig vparse Local v = Inr cfg"
    and "parse raw = Some u" and "u_protocol u \<in> set NETWORK_PROTOCOLS"
    and "d_verdict (decide parse cfg raw) = Allow"
  shows "(\<exists>e\<in>set (e_allowedHosts cfg). isLoopbackEntry e
            \<and> entryMatches (lower (u_hostname u)) (hostPortKey u) e)
    \<or> listed (e_staticAssetHosts cfg) u"
proof -
  from assms(2-4) have "listed (e_allowedHosts cfg) u \<or> listed (e_staticAssetHosts cfg) u"
    by (simp add: decide_Allow_iff)
  with validateEnvironmentConfig_loopback [OF assms(1)] show ?thesis
    by (auto simp: listed_def list_ex_iff list_all_iff)
qed

lemma sample_local_validates:
  "validateEnvironmentConfig sample_parse Local (sample_json ''local'' ''http://127.0.0.1:7311/'' [''127.0.0.1''])
    = Inr (sample_config Local ''http://127.0.0.1:7311/'' [''127.0.0.1''])"
  by (simp add: validate_eval host_eval cover_eval char_eval dec_value_def sample_config_def guard_res_def
      check_local_def sample_parse_def sample_url_def isLoopbackEntry_def loopback_v4_def)

theorem local_config_allows_only_loopback_witness:
  "\<exists>e\<in>{''127.0.0.1''}. isLoopbackEntry e \<and> entryMatches ''127.0.0.1'' ''127.0.0.1:7311'' e"
proof -
  have "d_verdict (decide sample_parse (sample_config Local ''http://127.0.0.1:7311/'' [''127.0.0.1'']) ''http://127.0.0.1:7311/'') = Allow"
    by (simp add: decide_def sample_parse_def sample_url_def sample_config_def hasUnsupportedTrailingDot_def
      raw_authority_def scheme_char_def is_alnum_def char_eval starts_with_def ends_with_def strip_port_def
      last_index_of_def NETWORK_PROTOCOLS_def backgroundEntry_def decide_network_def listed_def
      entryMatches_def hostPortKey_def lower_eval Let_def)
  moreover have "sample_parse ''http://127.0.0.1:7311/'' = Some (sample_url ''http:'' ''127.0.0.1'' ''7311'')"
    by (simp add: sample_parse_def)
  moreover have "u_protocol (sample_url ''http:'' ''127.0.0.1'' ''7311'') \<in> set NETWORK_PROTOCOLS"
    by (simp add: sample_url_def NETWORK_PROTOCOLS_def)
  ultimately show ?thesis
    using local_config_allows_only_loopback [OF sample_local_validates]
    by (fastforce simp: sample_config_def sample_url_def listed_def hostPortKey_def lower_eval)
qed

section \<open>The canary and the proxy\<close>

text \<open>when the default canary passes, the policy denies every known production host's probe
  URL and allows every allowlisted entry's probe URL; a failing canary is reported as an error by
  the gate.\<close>

theorem canary_pass_means_production_denied:
  assumes "assertCanary (runCanary parse env None) = Inr u"
  shows "(\<forall>h\<in>set KNOWN_PRODUCTION_HOSTS. d_verdict (decide parse env (''https://'' @ h @ ''/m/ripple'')) = Deny)
    \<and> (\<forall>h\<in>set (e_allowedHosts env). d_verdict (decide parse env (''https://'' @ h @ ''/'')) = Allow)"
proof -
  from assms have "cr_pass (runCanary parse env None)" by (simp add: assertCanary_def)
  then have ok: "\<forall>c\<in>set (defaultCanaryChecks env). d_verdict (decide parse env (cc_url c)) = cc_expected c"
    by (simp add: runCanary_default runCanary_pass_iff)
  then show ?thesis by (simp add: defaultCanaryChecks_def ball_Un check_def)
qed

text \<open>A parser for the URLs the canary builds, \<open>scheme://host[:port]/path\<close>.\<close>

definition plain_parse :: url_parser where
  "plain_parse raw =
     (case raw_authority raw of None \<Rightarrow> None
      | Some a \<Rightarrow> Some (sample_url (takeWhile scheme_char raw @ '':'') (strip_port a)
          (drop (Suc (length (strip_port a))) a)))"

definition canary_config :: environment_config where
  "canary_config = sample_config Dev ''https://appdev.alphaus.cloud/'' DEV_HOSTS"

definition host_text :: "string \<Rightarrow> bool" where
  "host_text h = (h \<noteq> [] \<and> last h \<noteq> CHR ''.'' \<and> lower h = h
     \<and> list_all (\<lambda>c. c \<noteq> CHR ''/'' \<and> c \<noteq> CHR ''?'' \<and> c \<noteq> CHR ''#'' \<and> c \<noteq> CHR '':'' \<and> c \<noteq> CHR ''['') h)"

lemma raw_authority_https:
  assumes "host_text h" shows "raw_authority (''https://'' @ h @ ''/'' @ p) = Some h"
proof -
  have "takeWhile (\<lambda>c. c \<noteq> CHR ''/'' \<and> c \<noteq> CHR ''?'' \<and> c \<noteq> CHR ''#'') (h @ ''/'' @ p) = h"
    using assms by (subst takeWhile_append2) (auto simp: host_text_def list_all_iff)
  then show ?thesis
    by (simp add: raw_authority_def scheme_char_def is_alnum_def char_eval starts_with_def Let_def)
qed

lemma index_of_None: "index_of c s = None \<longleftrightarrow> c \<notin> set s"
  by (induction s) auto

lemma host_text_plain:
  assumes "host_text h" shows "strip_port h = h" "\<not> ends_with ''.'' h" "\<not> starts_with ''['' h"
proof -
  have "index_of (CHR '':'') (rev h) = None"
    using assms by (auto simp: index_of_None host_text_def list_all_iff)
  then show "strip_port h = h" by (simp add: strip_port_def last_index_of_def)
  show "\<not> ends_with ''.'' h" using assms by (auto simp: ends_with_iff host_text_def)
  show "\<not> starts_with ''['' h" using assms by (auto simp: starts_with_iff host_text_def)
qed

text \<open>For a plain host the policy's verdict on a default-port https URL depends on the host only.\<close>

lemma decide_https:
  assumes "host_text h" "e_browserBackgroundHosts env = []"
  shows "decide plain_parse env (''https://'' @ h @ ''/'' @ p) = decide_network env (sample_url ''https:'' h [])"
proof -
  have "plain_parse (''https://'' @ h @ ''/'' @ p) = Some (sample_url ''https:'' h [])"
    using host_text_plain [OF assms(1)] raw_authority_https [OF assms(1), of p]
    by (simp add: plain_parse_def scheme_char_def is_alnum_def char_eval)
  moreover have "\<not> hasUnsupportedTrailingDot (''https://'' @ h @ ''/'' @ p)"
    using host_text_plain [OF assms(1)] raw_authority_https [OF assms(1), of p]
    by (simp add: hasUnsupportedTrailingDot_def)
  ultimately show ?thesis
    using assms by (simp add: decide_def sample_url_def NETWORK_PROTOCOLS_def backgroundEntry_def)
qed

lemmas network_eval = decide_network_def canary_config_def sample_config_def sample_url_def listed_def
  entryMatches_def hostPortKey_def deny_def starts_with_def ends_with_def Let_def

lemma canary_network_dev:
  "list_all (\<lambda>h. host_text h \<and> d_verdict (decide_network canary_config (sample_url ''https:'' h [])) = Allow) DEV_HOSTS"
  by (simp add: host_text_def DEV_HOSTS_def network_eval lower_eval)

lemma listed_dev:
  "listed DEV_HOSTS (sample_url ''https:'' h []) \<longleftrightarrow> lower h \<in> set DEV_HOSTS"
proof -
  have "entryMatches (lower h) (lower h) e \<longleftrightarrow> lower h = e" if "e \<in> set DEV_HOSTS" for e
    using that by (auto simp: DEV_HOSTS_def entryMatches_def starts_with_def lower_eval)
  then show ?thesis
    by (auto simp: listed_def list_ex_iff hostPortKey_def sample_url_def)
qed

lemma canary_network_denied:
  assumes "lower h \<notin> set DEV_HOSTS"
  shows "d_verdict (decide_network canary_config (sample_url ''https:'' h [])) = Deny"
proof -
  have "\<not> listed [] u" for u by (simp add: listed_def)
  then show ?thesis
    using assms by (simp add: decide_network_def canary_config_def sample_config_def listed_dev deny_def Let_def)
qed

lemma canary_hosts_denied:
  "list_all (\<lambda>h. host_text h \<and> lower h \<notin> set DEV_HOSTS) (KNOWN_PRODUCTION_HOSTS @ NEXT_HOSTS
    @ [''billing-prod-abcdef012.run.app'', ''random-host-xyz.alphaus.cloud'', ''example.invalid'', ''anything.mobingi.com''])"
  by (simp add: host_text_def DEV_HOSTS_def NEXT_HOSTS_def KNOWN_PRODUCTION_HOSTS_def lower_eval)

lemma canary_https_denied:
  assumes "h \<in> set (KNOWN_PRODUCTION_HOSTS @ NEXT_HOSTS
    @ [''billing-prod-abcdef012.run.app'', ''random-host-xyz.alphaus.cloud'', ''example.invalid'', ''anything.mobingi.com''])"
  shows "d_verdict (decide plain_parse canary_config (''https://'' @ h @ ''/'' @ p)) = Deny"
proof -
  from canary_hosts_denied assms have h: "host_text h" "lower h \<notin> set DEV_HOSTS"
    unfolding list_all_iff by blast+
  with decide_https [OF h(1), of canary_config p] canary_network_denied [OF h(2)] show ?thesis
    by (simp add: canary_config_def sample_config_def)
qed

lemma canary_https_dev:
  assumes "h \<in> set DEV_HOSTS"
  shows "d_verdict (decide plain_parse canary_config (''https://'' @ h @ ''/'' @ p)) = Allow"
proof -
  from canary_network_dev assms have h: "host_text h"
    "d_verdict (decide_network canary_config (sample_url ''https:'' h [])) = Allow"
    unfolding list_all_iff by blast+
  with decide_https [OF h(1), of canary_config p] show ?thesis
    by (simp add: canary_config_def sample_config_def)
qed

lemma canary_local_denied:
  "list_all (\<lambda>u. d_verdict (decide plain_parse canary_config u) = Deny) [''http://127.0.0.1:1/'', ''http://localhost:1/'']"
  by (simp add: decide_def plain_parse_def hasUnsupportedTrailingDot_def
      raw_authority_def scheme_char_def is_alnum_def char_eval strip_port_def
      last_index_of_def NETWORK_PROTOCOLS_def backgroundEntry_def network_eval DEV_HOSTS_def lower_eval)

lemma canary_misc_denied:
  "d_verdict (decide plain_parse canary_config ''https://billing-prod-abcdef012.run.app/'') = Deny"
  "d_verdict (decide plain_parse canary_config ''https://random-host-xyz.alphaus.cloud/'') = Deny"
  "d_verdict (decide plain_parse canary_config ''https://example.invalid/'') = Deny"
  "d_verdict (decide plain_parse canary_config ''https://anything.mobingi.com/x'') = Deny"
  using canary_https_denied [of "''billing-prod-abcdef012.run.app''" "[]"]
    canary_https_denied [of "''random-host-xyz.alphaus.cloud''" "[]"]
    canary_https_denied [of "''example.invalid''" "[]"]
    canary_https_denied [of "''anything.mobingi.com''" "''x''"]
  by simp_all

lemma canary_config_passes: "cr_pass (runCanary plain_parse canary_config None)"
proof -
  note denied = canary_https_denied [simplified] and dev = canary_https_dev [simplified]
  have env: "e_name canary_config = Dev" "e_allowedHosts canary_config = DEV_HOSTS"
    "e_optionalSupportHosts canary_config = []" "e_browserBackgroundHosts canary_config = []"
    by (simp_all add: canary_config_def sample_config_def)
  show ?thesis
    unfolding runCanary_default runCanary_pass_iff defaultCanaryChecks_def
    using denied [where p = "''m/ripple''"] denied [where p = "[]"] canary_misc_denied
      dev [where p = "''m/ripple''"] dev [where p = "[]"] canary_local_denied
    by (simp add: env check_def ball_Un)
qed

theorem canary_pass_means_production_denied_witness:
  "d_verdict (decide plain_parse canary_config ''https://login.alphaus.cloud/m/ripple'') = Deny"
proof -
  have "assertCanary (runCanary plain_parse canary_config None) = Inr ()"
    by (simp add: assertCanary_def canary_config_passes)
  from canary_pass_means_production_denied [OF this] show ?thesis
    by (simp add: KNOWN_PRODUCTION_HOSTS_def)
qed

text \<open>a CONNECT that the proxy turns into a socket target was parsed into a port between 1 and
  65535, carries neither credentials nor a path, and its decision is the policy's verdict on
  exactly the host and port the socket would use.\<close>

theorem connect_target_is_policy_checked:
  assumes "pc_target (classifyProxyConnect parse env authority protocol) = Some t"
  shows "1 \<le> pt_port t \<and> pt_port t \<le> 65535 \<and> u_username (pt_url t) = [] \<and> u_password (pt_url t) = []
    \<and> pt_path t = ''/'' \<and> pt_hostname t = hostnameForSocket (lower (u_hostname (pt_url t)))
    \<and> pc_decision (classifyProxyConnect parse env authority protocol)
        = decide parse env (protocol @ ''//'' @ u_hostname (pt_url t) @ '':'' @ nat_to_dec (pt_port t) @ ''/'')"
  using assms
  by (auto simp: classifyProxyConnect_def Let_def split: if_splits option.splits prod.splits)

theorem connect_target_is_policy_checked_witness:
  "\<exists>t. pc_target (classifyProxyConnect sample_parse (sample_config Dev [] [''appdev.alphaus.cloud''])
       ''appdev.alphaus.cloud:443'' ''https:'') = Some t
     \<and> pt_port t \<le> 65535"
proof -
  let ?c = "classifyProxyConnect sample_parse (sample_config Dev [] [''appdev.alphaus.cloud''])
       ''appdev.alphaus.cloud:443'' ''https:''"
  have "pc_target ?c \<noteq> None"
    by (simp add: classifyProxyConnect_def authority_match_def forbidden_authority_char_def char_eval trim_def
        starts_with_def ends_with_def dec_value_def sample_parse_def sample_url_def Let_def)
  then obtain t where "pc_target ?c = Some t" by blast
  with connect_target_is_policy_checked [OF this] show ?thesis by blast
qed

text \<open>The rule a decision's reason stands for.\<close>

fun rule_of_reason :: "decision_reason \<Rightarrow> string" where
  "rule_of_reason R_Unparsable = ''parse-failure''"
| "rule_of_reason R_Credentials = ''embedded-credentials''"
| "rule_of_reason R_TrailingDot = ''external-default-deny''"
| "rule_of_reason R_NonNetwork = ''external-default-deny''"
| "rule_of_reason (R_Background BBGoogle) = ''browser-background-google''"
| "rule_of_reason (R_Background BBUpdate) = ''browser-background-update''"
| "rule_of_reason (R_Background BBDownload) = ''browser-background-download''"
| "rule_of_reason (R_Allowlisted n) = ''environment-allowlist''"
| "rule_of_reason R_Static = ''static-assets''"
| "rule_of_reason R_OptionalSupport = ''optional-third-party-support''"
| "rule_of_reason R_Telemetry = ''telemetry''"
| "rule_of_reason R_KnownProduction = ''known-production''"
| "rule_of_reason R_CloudRun = ''cloud-run-production''"
| "rule_of_reason R_UnknownAlphaus = ''unknown-alphaus''"
| "rule_of_reason R_Legacy = ''legacy-alphaus''"
| "rule_of_reason R_Localhost = ''localhost''"
| "rule_of_reason R_External = ''external-default-deny''"

text \<open>The classification \<open>decide\<close> attaches to each reason.\<close>

fun reason_classification :: "decision_reason \<Rightarrow> semantic_classification" where
  "reason_classification (R_Background c) = background_semantic c"
| "reason_classification R_NonNetwork = EXPECTED"
| "reason_classification (R_Allowlisted n) = EXPECTED"
| "reason_classification R_Static = EXPECTED"
| "reason_classification R_OptionalSupport = OPTIONAL_THIRD_PARTY_SUPPORT"
| "reason_classification R_Telemetry = TELEMETRY"
| "reason_classification R_KnownProduction = PRODUCTION_DENIED"
| "reason_classification R_CloudRun = PRODUCTION_DENIED"
| "reason_classification R_Legacy = PRODUCTION_DENIED"
| "reason_classification R_Localhost = EXPECTED"
| "reason_classification _ = UNKNOWN"

lemma decide_network_reason_classification:
  "d_classification (decide_network env u) = reason_classification (d_reason (decide_network env u))"
  by (simp add: decide_network_def deny_def Let_def semanticClassificationForHostClass_def)

lemma decide_reason_classification:
  "d_classification (decide parse env raw) = reason_classification (d_reason (decide parse env raw))"
  by (auto simp: decide_def deny_def decide_network_reason_classification semanticClassificationForHostClass_def
      split: option.splits)

lemma ruleId_by_reason:
  assumes "d_classification d = reason_classification (d_reason d)"
  shows "ruleId d = rule_of_reason (d_reason d)"
proof (cases "d_reason d")
  case (R_Background c)
  with assms show ?thesis by (cases c) (simp_all add: ruleId_def starts_with_def Let_def)
next
  case (R_Allowlisted n)
  with assms show ?thesis by (cases n) (simp_all add: ruleId_def starts_with_def Let_def)
qed (use assms in \<open>simp_all add: ruleId_def starts_with_def Let_def\<close>)

text \<open>the proxy recovers the policy rule from substrings of the reason text; on every decision
  the policy can produce, that substring dispatch yields the identifier of the rule that fired.\<close>

theorem ruleId_identifies_fired_rule:
  "ruleId (decide parse env raw) = rule_of_reason (d_reason (decide parse env raw))"
  by (rule ruleId_by_reason [OF decide_reason_classification])

end
