(* ===== verification/Endpoint_Routes.thy ===== *)
theory Endpoint_Routes imports Environment_Config begin

text \<open>
  Proven route identity and the endpoint semantic registry:
  \<open>src/core/safety/provenRoutes.ts\<close> and \<open>src/core/safety/endpointSemantics.ts\<close>.

  The \<open>RegExp\<close> engine is a platform service. Patterns that the program only learns at
  run time go through the parameter \<open>regex\<close>: \<open>None\<close> is the \<open>SyntaxError\<close> of the
  constructor, \<open>Some f\<close> the compiled expression with \<open>f s\<close> for \<open>test(s)\<close>. Fixed
  literal expressions of the source are written out as predicates.
\<close>

type_synonym regex_compiler = "string \<Rightarrow> (string \<Rightarrow> bool) option"

section \<open>Proven routes\<close>

definition MAX_PROVEN_ROUTE_ENTRIES :: nat where
  "MAX_PROVEN_ROUTE_ENTRIES = 4096"

definition UNKNOWN_ROUTE_MARKER :: string where
  "UNKNOWN_ROUTE_MARKER = ''<UNKNOWN_ROUTE>''"

definition safe_rule_id :: "string \<Rightarrow> bool" where
  "safe_rule_id s = (case s of [] \<Rightarrow> False
     | c # cs \<Rightarrow> is_alnum c \<and> length cs \<le> 119 \<and> (\<forall>x\<in>set cs. is_alnum x \<or> x \<in> set ''._:-''))"

definition safe_emit :: "string \<Rightarrow> bool" where
  "safe_emit s = (1 \<le> length s \<and> length s \<le> 240 \<and> (\<forall>x\<in>set s. is_alnum x \<or> x \<in> set ''._/:<>-''))"

record proven_route_entry =
  pr_test :: "string \<Rightarrow> bool"
  pr_emit :: string

record proven_route_input =
  pi_pattern :: string
  pi_emit :: string

datatype route_error = PROVEN_ROUTE_EMIT_UNSAFE | PROVEN_ROUTE_PATTERN_UNANCHORED
  | PROVEN_ROUTE_PATTERN_INVALID | PROVEN_ROUTE_TABLE_TOO_LARGE
  | PROVEN_ROUTE_RULE_ID_UNSAFE | PROVEN_ROUTE_RULE_SHAPE_INVALID

definition anchored :: "string \<Rightarrow> bool" where
  "anchored p = (starts_with ''^'' p \<and> ends_with ''$'' p)"

definition compileEntry ::
  "regex_compiler \<Rightarrow> proven_route_input \<Rightarrow> (route_error, proven_route_entry) result" where
  "compileEntry regex i =
     (if \<not> safe_emit (pi_emit i) then Inl PROVEN_ROUTE_EMIT_UNSAFE
      else if \<not> anchored (pi_pattern i) then Inl PROVEN_ROUTE_PATTERN_UNANCHORED
      else case regex (pi_pattern i) of
             None \<Rightarrow> Inl PROVEN_ROUTE_PATTERN_INVALID
           | Some f \<Rightarrow> Inr \<lparr>pr_test = f, pr_emit = pi_emit i\<rparr>)"

definition route_table_bind ::
  "regex_compiler \<Rightarrow> proven_route_input list \<Rightarrow> (route_error, proven_route_entry list) result" where
  "route_table_bind regex ins =
     (if MAX_PROVEN_ROUTE_ENTRIES < length ins then Inl PROVEN_ROUTE_TABLE_TOO_LARGE
      else map_res (compileEntry regex) ins)"

definition route_table_match :: "proven_route_entry list \<Rightarrow> string \<Rightarrow> string option" where
  "route_table_match t pathname =
     (if contains ''?'' pathname \<or> contains ''#'' pathname then None
      else map_option pr_emit (find (\<lambda>e. pr_test e pathname) t))"

definition safeRuleMarker :: "string \<Rightarrow> string option" where
  "safeRuleMarker i = (if \<not> safe_rule_id i then None else Some (''<RULE:'' @ i @ ''>''))"

section \<open>Endpoint rules\<close>

datatype endpoint_classification = KNOWN_READ | KNOWN_MUTATION | ENDPOINT_UNKNOWN

record endpoint_rule =
  er_id :: string
  er_host :: string
  er_method :: string
  er_path :: "string option"
  er_pathPattern :: "string option"
  er_classification :: endpoint_classification
  er_provenance :: string

record endpoint_match =
  em_ruleId :: string
  em_classification :: endpoint_classification

definition effective_port :: "url \<Rightarrow> string" where
  "effective_port u = (if u_port u \<noteq> [] then u_port u
     else if u_protocol u = ''https:'' then ''443'' else ''80'')"

definition hostMatches :: "url \<Rightarrow> string \<Rightarrow> bool" where
  "hostMatches u configuredHost =
     (let normalized = lower configuredHost;
          configured = (if contains '':'' normalized then normalized
                        else normalized @ '':'' @ effective_port u);
          actual = lower (u_hostname u) @ '':'' @ effective_port u
      in configured = actual \<or> normalized = lower (u_hostname u))"

definition isApiHost :: "url \<Rightarrow> environment_config \<Rightarrow> bool" where
  "isApiHost u env = list_ex (hostMatches u) (e_apiHosts env)"

definition pathMatches :: "regex_compiler \<Rightarrow> endpoint_rule \<Rightarrow> string \<Rightarrow> bool" where
  "pathMatches regex r pathname =
     (if er_path r = Some pathname then True
      else case er_pathPattern r of
             None \<Rightarrow> False
           | Some p \<Rightarrow> if \<not> starts_with ''^'' p \<or> \<not> ends_with ''$'' p then False
                       else (case regex p of None \<Rightarrow> False | Some f \<Rightarrow> f pathname))"

definition matchRippleEndpoint ::
  "url_parser \<Rightarrow> regex_compiler \<Rightarrow> string \<Rightarrow> string \<Rightarrow> environment_config \<Rightarrow> endpoint_rule list
     \<Rightarrow> endpoint_match option" where
  "matchRippleEndpoint parse regex rawUrl mth env registry =
     (case parse rawUrl of
        None \<Rightarrow> Some \<lparr>em_ruleId = ''invalid-url'', em_classification = ENDPOINT_UNKNOWN\<rparr>
      | Some u \<Rightarrow>
          if \<not> isApiHost u env then None
          else (case find (\<lambda>c. hostMatches u (er_host c) \<and> upper (er_method c) = upper mth
                              \<and> pathMatches regex c (u_pathname u)) registry of
                  None \<Rightarrow> Some \<lparr>em_ruleId = ''unreviewed-api-endpoint'', em_classification = ENDPOINT_UNKNOWN\<rparr>
                | Some r \<Rightarrow> Some \<lparr>em_ruleId = er_id r, em_classification = er_classification r\<rparr>))"

definition isApiUrl :: "url_parser \<Rightarrow> string \<Rightarrow> environment_config \<Rightarrow> bool" where
  "isApiUrl parse rawUrl env = (case parse rawUrl of None \<Rightarrow> True | Some u \<Rightarrow> isApiHost u env)"

definition classifyRippleEndpoint ::
  "url_parser \<Rightarrow> regex_compiler \<Rightarrow> string \<Rightarrow> string \<Rightarrow> environment_config \<Rightarrow> endpoint_rule list
     \<Rightarrow> endpoint_classification option" where
  "classifyRippleEndpoint parse regex rawUrl mth env registry =
     (case matchRippleEndpoint parse regex rawUrl mth env registry of
        Some m \<Rightarrow> Some (em_classification m)
      | None \<Rightarrow> if isApiUrl parse rawUrl env then Some ENDPOINT_UNKNOWN else None)"

text \<open>\<open>rule.path.replace(/[.*+?^${}()|[\]\\]/g, '\\$&')\<close>: a backslash, code unit 92, before
  each character that is special in an expression.\<close>

definition regex_special :: "char \<Rightarrow> bool" where
  "regex_special c = (c \<in> set ''.*+?^${}()|[]'' \<or> code_unit c = 92)"

fun regex_escape :: "string \<Rightarrow> string" where
  "regex_escape [] = []"
| "regex_escape (c # s) = (if regex_special c then [char_of (92::nat), c] else [c]) @ regex_escape s"

definition rule_route_input :: "endpoint_rule \<Rightarrow> (route_error, proven_route_input) result" where
  "rule_route_input r =
     (case (er_path r, er_pathPattern r) of
        (Some p, None) \<Rightarrow> Inr \<lparr>pi_pattern = ''^'' @ regex_escape p @ ''$'', pi_emit = p\<rparr>
      | (_, Some pat) \<Rightarrow>
          (case safeRuleMarker (er_id r) of
             None \<Rightarrow> Inl PROVEN_ROUTE_RULE_ID_UNSAFE
           | Some marker \<Rightarrow> Inr \<lparr>pi_pattern = pat, pi_emit = marker\<rparr>)
      | (None, None) \<Rightarrow> Inl PROVEN_ROUTE_RULE_SHAPE_INVALID)"

definition provenRouteTableFromRules ::
  "regex_compiler \<Rightarrow> endpoint_rule list \<Rightarrow> (route_error, proven_route_entry list) result" where
  "provenRouteTableFromRules regex registry =
     bind_res (map_res rule_route_input registry) (route_table_bind regex)"

section \<open>Properties\<close>

lemma regex_escape_inj: "regex_escape s = regex_escape t \<longleftrightarrow> s = t"
proof (induction s arbitrary: t)
  case Nil
  show ?case by (cases t) auto
next
  case (Cons c s)
  have special: "regex_special (char_of (92::nat))" by (simp add: regex_special_def code_unit_def)
  show ?case
  proof (cases t)
    case Nil then show ?thesis by simp
  next
    case (Cons d t')
    then show ?thesis using Cons.IH special by auto
  qed
qed

text \<open>What the language promises of an escaped literal between anchors.\<close>

definition literal_regex :: "regex_compiler \<Rightarrow> bool" where
  "literal_regex regex = (\<forall>p f s. regex (''^'' @ regex_escape p @ ''$'') = Some f \<longrightarrow> f s = (s = p))"

lemma compileEntry_Inr:
  "compileEntry regex i = Inr e \<Longrightarrow> safe_emit (pr_emit e) \<and> pr_emit e = pi_emit i
     \<and> anchored (pi_pattern i) \<and> regex (pi_pattern i) = Some (pr_test e)"
  by (auto simp: compileEntry_def split: if_splits option.splits)

lemma rule_table_entry:
  assumes "provenRouteTableFromRules regex registry = Inr t" and "e \<in> set t"
  shows "\<exists>r\<in>set registry. \<exists>i. rule_route_input r = Inr i \<and> compileEntry regex i = Inr e"
proof -
  from assms(1) obtain ins where ins: "map_res rule_route_input registry = Inr ins"
      and t: "map_res (compileEntry regex) ins = Inr t"
    by (auto simp: provenRouteTableFromRules_def route_table_bind_def split: if_splits)
  from t assms(2) obtain i where "i \<in> set ins" "compileEntry regex i = Inr e"
    unfolding map_res_Inr_iff by (blast dest: list_all2_memR)
  with ins show ?thesis unfolding map_res_Inr_iff by (blast dest: list_all2_memR)
qed

text \<open>What an authenticated URL may persist is never a concrete parameter: a template
  matched in a table built from reviewed rules is made of safe characters only, and it is
  either the whole pathname, which a rule lists as its exact path, or the marker of a
  rule whose pattern matches; a pathname with a query or fragment mark matches nothing.\<close>

theorem proven_template_never_leaks:
  assumes "literal_regex regex"
    and "provenRouteTableFromRules regex registry = Inr t"
    and "route_table_match t pathname = Some emit"
  shows "safe_emit emit \<and> CHR ''?'' \<notin> set pathname \<and> CHR ''#'' \<notin> set pathname \<and>
    ((emit = pathname \<and> (\<exists>r\<in>set registry. er_path r = Some pathname))
     \<or> (\<exists>r\<in>set registry. \<exists>pat f. emit = ''<RULE:'' @ er_id r @ ''>'' \<and> safe_rule_id (er_id r)
          \<and> er_pathPattern r = Some pat \<and> anchored pat \<and> regex pat = Some f \<and> f pathname))"
proof -
  from assms(3) obtain e where e: "e \<in> set t" "pr_test e pathname" "emit = pr_emit e"
      and clean: "CHR ''?'' \<notin> set pathname" "CHR ''#'' \<notin> set pathname"
    by (auto simp: route_table_match_def split: if_splits dest: find_SomeD)
  obtain r i where r: "r \<in> set registry" "rule_route_input r = Inr i" "compileEntry regex i = Inr e"
    using rule_table_entry [OF assms(2) e(1)] by blast
  note ce = compileEntry_Inr [OF r(3)]
  show ?thesis
  proof (cases "er_pathPattern r")
    case None
    then obtain p where p: "er_path r = Some p" "pi_emit i = p" "pi_pattern i = ''^'' @ regex_escape p @ ''$''"
      using r(2) by (auto simp: rule_route_input_def split: option.splits)
    then have "pathname = p" using assms(1) ce e(2) unfolding literal_regex_def by metis
    then show ?thesis using p ce e clean r(1) by auto
  next
    case (Some pat)
    then have "safe_rule_id (er_id r)" "pi_emit i = ''<RULE:'' @ er_id r @ ''>''" "pi_pattern i = pat"
      using r(2) by (auto simp: rule_route_input_def safeRuleMarker_def split: option.splits if_splits)
    then show ?thesis using Some ce e clean r(1) by auto
  qed
qed

definition escape_regex :: regex_compiler where
  "escape_regex p = Some (\<lambda>s. ''^'' @ regex_escape s @ ''$'' = p)"

lemma literal_escape_regex: "literal_regex escape_regex"
  by (auto simp: literal_regex_def escape_regex_def regex_escape_inj)

definition sample_rule :: "string \<Rightarrow> endpoint_classification \<Rightarrow> endpoint_rule" where
  "sample_rule p c = \<lparr>er_id = ''r1'', er_host = ''h'', er_method = ''GET'', er_path = Some p,
     er_pathPattern = None, er_classification = c, er_provenance = ''doc''\<rparr>"

lemmas route_eval = safe_emit_def is_alnum_def is_digit_def is_lower_letter_def is_upper_letter_def
  code_unit_def regex_special_def starts_with_def ends_with_def

theorem proven_template_never_leaks_witness:
  "\<exists>t. provenRouteTableFromRules escape_regex [sample_rule ''/a'' KNOWN_READ] = Inr t
     \<and> route_table_match t ''/a'' = Some ''/a'' \<and> safe_emit ''/a''"
proof -
  let ?t = "[\<lparr>pr_test = (\<lambda>s. ''^'' @ regex_escape s @ ''$'' = ''^/a$''), pr_emit = ''/a''\<rparr>]"
  have t: "provenRouteTableFromRules escape_regex [sample_rule ''/a'' KNOWN_READ] = Inr ?t"
    by (simp add: provenRouteTableFromRules_def rule_route_input_def sample_rule_def route_table_bind_def
        MAX_PROVEN_ROUTE_ENTRIES_def compileEntry_def anchored_def escape_regex_def route_eval)
  moreover have m: "route_table_match ?t ''/a'' = Some ''/a''"
    by (simp add: route_table_match_def route_eval)
  ultimately show ?thesis
    using proven_template_never_leaks [OF literal_escape_regex t m] by blast
qed

text \<open>An endpoint is classified as a known read only by the first reviewed rule that
  names its host, its method and its whole path, on a host the environment declares
  as an API host; an unparsable URL is unknown and a foreign host is not an endpoint.\<close>

theorem known_read_needs_reviewed_rule:
  "classifyRippleEndpoint parse regex rawUrl mth env registry = Some KNOWN_READ \<longleftrightarrow>
   (\<exists>u before r after. parse rawUrl = Some u \<and> isApiHost u env \<and> registry = before @ r # after
      \<and> hostMatches u (er_host r) \<and> upper (er_method r) = upper mth \<and> pathMatches regex r (u_pathname u)
      \<and> er_classification r = KNOWN_READ
      \<and> filter (\<lambda>c. hostMatches u (er_host c) \<and> upper (er_method c) = upper mth
                     \<and> pathMatches regex c (u_pathname u)) before = [])"
proof (cases "parse rawUrl")
  case None
  then show ?thesis by (simp add: classifyRippleEndpoint_def matchRippleEndpoint_def)
next
  case (Some u)
  let ?P = "\<lambda>c. hostMatches u (er_host c) \<and> upper (er_method c) = upper mth
                \<and> pathMatches regex c (u_pathname u)"
  have "classifyRippleEndpoint parse regex rawUrl mth env registry = Some KNOWN_READ \<longleftrightarrow>
      isApiHost u env \<and> (\<exists>r. find ?P registry = Some r \<and> er_classification r = KNOWN_READ)"
    using Some by (auto simp: classifyRippleEndpoint_def matchRippleEndpoint_def isApiUrl_def
        split: option.splits)
  then show ?thesis using Some unfolding find_split by fastforce
qed

end
