(* ===== verification/Interfaces.thy ===== *)
theory Interfaces imports Prelude begin

text \<open>
  The contracts that several components share, stated once as locales and
  interpreted by the component theories on their own definitions:
  \<open>revocable_authority\<close> (authority that, once lost, never returns),
  \<open>metered\<close> (operations charged against a cap) and \<open>transition_table\<close> (a closed
  table of lifecycle transitions in which every edge makes progress).
\<close>

section \<open>Sequences of operations\<close>

text \<open>
  An operation takes the state and an argument and returns the next state with
  whether the argument was accepted. A refused operation may change the state too.
\<close>

fun run_ops :: "('s \<Rightarrow> 'e \<Rightarrow> 's \<times> bool) \<Rightarrow> 's \<Rightarrow> 'e list \<Rightarrow> 's" where
  "run_ops f s [] = s"
| "run_ops f s (e # es) = run_ops f (fst (f s e)) es"

fun accepted :: "('s \<Rightarrow> 'e \<Rightarrow> 's \<times> bool) \<Rightarrow> 's \<Rightarrow> 'e list \<Rightarrow> 'e list" where
  "accepted f s [] = []"
| "accepted f s (e # es) = (if snd (f s e) then [e] else []) @ accepted f (fst (f s e)) es"

lemma run_ops_append [simp]: "run_ops f s (es @ fs) = run_ops f (run_ops f s es) fs"
  by (induction es arbitrary: s) auto

lemma accepted_append [simp]:
  "accepted f s (es @ fs) = accepted f s es @ accepted f (run_ops f s es) fs"
  by (induction es arbitrary: s) auto

lemma length_accepted_le: "length (accepted f s es) \<le> length es"
  by (induction es arbitrary: s) (auto intro: le_SucI)

lemma accepted_subset: "set (accepted f s es) \<subseteq> set es"
  by (induction es arbitrary: s) auto

lemma run_ops_invariant:
  assumes "\<And>s e. I s \<Longrightarrow> I (fst (f s e))" and "I s"
  shows "I (run_ops f s es)"
  using assms(2) by (induction es arbitrary: s) (auto intro: assms(1))

section \<open>Metered operations\<close>

locale metered =
  fixes step :: "'s \<Rightarrow> 'e \<Rightarrow> 's \<times> bool"
    and inv :: "'s \<Rightarrow> bool"
    and spent :: "'s \<Rightarrow> 'v::ordered_comm_monoid_add"
    and cost :: "'e \<Rightarrow> 'v"
    and cap :: 'v
  assumes keeps: "inv s \<Longrightarrow> inv (fst (step s e))"
    and charges: "inv s \<Longrightarrow> snd (step s e) \<Longrightarrow> spent s + cost e \<le> spent (fst (step s e))"
    and refuses: "inv s \<Longrightarrow> \<not> snd (step s e) \<Longrightarrow> spent s \<le> spent (fst (step s e))"
    and capped: "inv s \<Longrightarrow> spent s \<le> cap"
begin

lemma inv_run: "inv s \<Longrightarrow> inv (run_ops step s es)"
  by (rule run_ops_invariant) (auto intro: keeps)

text \<open>However the operations are interleaved, the accepted ones fit under the cap.\<close>

lemma accepted_cost_spent:
  assumes "inv s"
  shows "spent s + sum_list (map cost (accepted step s es)) \<le> spent (run_ops step s es)"
  using assms
proof (induction es arbitrary: s)
  case (Cons e es)
  let ?t = "fst (step s e)" and ?rest = "sum_list (map cost (accepted step (fst (step s e)) es))"
  have IH: "spent ?t + ?rest \<le> spent (run_ops step ?t es)"
    using Cons.IH keeps Cons.prems by blast
  have "spent s + (if snd (step s e) then cost e else 0) \<le> spent ?t"
    using charges refuses Cons.prems by auto
  then have "spent s + (if snd (step s e) then cost e else 0) + ?rest \<le> spent ?t + ?rest"
    by (rule add_right_mono)
  with IH show ?case by (auto simp: add.assoc)
qed simp

lemma accepted_cost_capped:
  "inv s \<Longrightarrow> spent s + sum_list (map cost (accepted step s es)) \<le> cap"
  using accepted_cost_spent capped inv_run order_trans by blast

end

section \<open>Authority that is lost for good\<close>

locale revocable_authority =
  fixes step :: "'s \<Rightarrow> 's \<Rightarrow> bool"
    and wf :: "'s \<Rightarrow> bool"
    and known :: "'s \<Rightarrow> 'i \<Rightarrow> bool"
    and active :: "'s \<Rightarrow> 'i \<Rightarrow> bool"
  assumes wf_step: "wf s \<Longrightarrow> step s t \<Longrightarrow> wf t"
    and known_step: "wf s \<Longrightarrow> step s t \<Longrightarrow> known s i \<Longrightarrow> known t i"
    and lost_step: "wf s \<Longrightarrow> step s t \<Longrightarrow> known s i \<Longrightarrow> \<not> active s i \<Longrightarrow> \<not> active t i"
begin

lemma wf_steps: "step\<^sup>*\<^sup>* s t \<Longrightarrow> wf s \<Longrightarrow> wf t"
  by (induction rule: rtranclp_induct) (auto intro: wf_step)

lemma lost_for_good:
  assumes "step\<^sup>*\<^sup>* s t" and "wf s" and "known s i" and "\<not> active s i"
  shows "known t i \<and> \<not> active t i"
  using assms
proof (induction rule: rtranclp_induct)
  case (step t u)
  then show ?case using wf_steps known_step lost_step by blast
qed simp

end

section \<open>Lifecycle tables\<close>

text \<open>
  \<open>next\<close> lists the states an edge leads to, \<open>rank\<close> grows along every edge and is
  bounded; so a run of the lifecycle is short, never revisits a state, and stops at
  a state with no edges.
\<close>

fun path_of :: "('s \<Rightarrow> 's list) \<Rightarrow> 's \<Rightarrow> 's list \<Rightarrow> bool" where
  "path_of nxt s [] = True"
| "path_of nxt s (t # ts) = (t \<in> set (nxt s) \<and> path_of nxt t ts)"

locale transition_table =
  fixes nxt :: "'s \<Rightarrow> 's list"
    and rank :: "'s \<Rightarrow> nat"
    and top :: nat
  assumes progress: "t \<in> set (nxt s) \<Longrightarrow> rank s < rank t"
    and bounded: "rank s \<le> top"
begin

lemma path_rank: "path_of nxt s ts \<Longrightarrow> rank s + length ts \<le> rank (last (s # ts))"
proof (induction ts arbitrary: s)
  case (Cons t ts)
  then have "rank s < rank t" "rank t + length ts \<le> rank (last (t # ts))"
    using progress by auto
  then show ?case by simp
qed simp

lemma path_short: "path_of nxt s ts \<Longrightarrow> length ts \<le> top - rank s"
  using path_rank [of s ts] bounded [of "last (s # ts)"] by linarith

lemma path_above: "path_of nxt s ts \<Longrightarrow> t \<in> set ts \<Longrightarrow> rank s < rank t"
proof (induction ts arbitrary: s)
  case (Cons u ts)
  then show ?case using progress by (metis order_less_trans path_of.simps(2) set_ConsD)
qed simp

lemma path_distinct: "path_of nxt s ts \<Longrightarrow> distinct (s # ts)"
proof (induction ts arbitrary: s)
  case (Cons t ts)
  then have "distinct (t # ts)" by auto
  moreover have "s \<notin> set (t # ts)" using path_above [OF Cons.prems] by (metis order_less_irrefl)
  ultimately show ?case by simp
qed simp

lemma never_back: "path_of nxt s ts \<Longrightarrow> s \<notin> set ts"
  using path_distinct by auto

end

end
