(* ===== verification/Causal_Generations.thy ===== *)
theory Causal_Generations imports Interfaces begin

text \<open>
  Causal request generations, \<open>src/core/safety/causalGenerations.ts\<close>: the registry
  that opens and settles the generations under which product requests are admitted.
  \<open>GenerationRegistry\<close> is the record \<open>gen_registry\<close>; its \<open>Map\<close> is an association
  list in insertion order.
\<close>

definition MAX_OPEN_GENERATIONS :: nat where
  "MAX_OPEN_GENERATIONS = 16"

definition MAX_GENERATIONS_TOTAL :: nat where
  "MAX_GENERATIONS_TOTAL = 4096"

datatype generation_kind = GK_Action | GK_Navigation

datatype generation_state = G_Open | G_Settled

record generation =
  g_id :: string
  g_kind :: generation_kind
  g_seq :: nat
  g_state :: generation_state

datatype attribution = AttrGeneration string | AttrNone | AttrAmbiguous "string list"

record gen_registry =
  gr_map :: "(string \<times> generation) list"
  gr_counter :: nat

datatype gen_error = GENERATION_BUDGET_EXCEEDED | GENERATION_UNKNOWN

definition empty_registry :: gen_registry where
  "empty_registry = \<lparr>gr_map = [], gr_counter = 0\<rparr>"

definition countOpen :: "gen_registry \<Rightarrow> nat" where
  "countOpen r = length (filter (\<lambda>g. g_state g = G_Open) (map snd (gr_map r)))"

definition gen_id :: "nat \<Rightarrow> string" where
  "gen_id n = ''gen:'' @ pad_start 6 CHR ''0'' (nat_to_dec n)"

definition open_generation ::
  "generation_kind \<Rightarrow> gen_registry \<Rightarrow> (gen_error, generation \<times> gen_registry) result" where
  "open_generation kind r =
     (if MAX_OPEN_GENERATIONS \<le> countOpen r then Inl GENERATION_BUDGET_EXCEEDED
      else if MAX_GENERATIONS_TOTAL \<le> gr_counter r then Inl GENERATION_BUDGET_EXCEEDED
      else let n = gr_counter r + 1;
               g = \<lparr>g_id = gen_id n, g_kind = kind, g_seq = n, g_state = G_Open\<rparr>
           in Inr (g, \<lparr>gr_map = map_set (gr_map r) (gen_id n) g, gr_counter = n\<rparr>))"

definition settle :: "string \<Rightarrow> gen_registry \<Rightarrow> (gen_error, generation \<times> gen_registry) result" where
  "settle i r =
     (case map_get (gr_map r) i of
        None \<Rightarrow> Inl GENERATION_UNKNOWN
      | Some g \<Rightarrow>
          if g_state g = G_Settled then Inr (g, r)
          else let s = g\<lparr>g_state := G_Settled\<rparr>
               in Inr (s, r\<lparr>gr_map := map_set (gr_map r) i s\<rparr>))"

definition get_generation :: "gen_registry \<Rightarrow> string \<Rightarrow> generation option" where
  "get_generation r i = map_get (gr_map r) i"

definition isActive :: "gen_registry \<Rightarrow> string \<Rightarrow> bool" where
  "isActive r i = (case map_get (gr_map r) i of None \<Rightarrow> False | Some g \<Rightarrow> g_state g = G_Open)"

definition attributeExplicit :: "gen_registry \<Rightarrow> string \<Rightarrow> attribution" where
  "attributeExplicit r i =
     (if \<not> map_has (gr_map r) i then AttrNone
      else if \<not> isActive r i then AttrNone
      else AttrGeneration i)"

definition openIds :: "gen_registry \<Rightarrow> string list" where
  "openIds r = sort_by str_le (map g_id (filter (\<lambda>g. g_state g = G_Open) (map snd (gr_map r))))"

definition attributeImplicit :: "gen_registry \<Rightarrow> attribution" where
  "attributeImplicit r =
     (case openIds r of
        [] \<Rightarrow> AttrNone
      | [i] \<Rightarrow> AttrGeneration i
      | is \<Rightarrow> AttrAmbiguous is)"

section \<open>The registry as a step relation\<close>

inductive gen_step :: "gen_registry \<Rightarrow> gen_registry \<Rightarrow> bool" where
  step_open: "open_generation kind r = Inr (g, r') \<Longrightarrow> gen_step r r'"
| step_settle: "settle i r = Inr (g, r') \<Longrightarrow> gen_step r r'"

inductive_cases gen_stepE [elim]: "gen_step r r'"

definition gen_ok :: "nat \<Rightarrow> string \<times> generation \<Rightarrow> bool" where
  "gen_ok n p = (case p of (i, g) \<Rightarrow> g_id g = i \<and> i = gen_id (g_seq g) \<and> 1 \<le> g_seq g \<and> g_seq g \<le> n)"

definition registry_wf :: "gen_registry \<Rightarrow> bool" where
  "registry_wf r = (distinct (map fst (gr_map r)) \<and> (\<forall>p\<in>set (gr_map r). gen_ok (gr_counter r) p)
     \<and> length (gr_map r) = gr_counter r
     \<and> gr_counter r \<le> MAX_GENERATIONS_TOTAL \<and> countOpen r \<le> MAX_OPEN_GENERATIONS)"

lemma registry_wf_empty: "registry_wf empty_registry"
  by (simp add: registry_wf_def empty_registry_def countOpen_def)

lemma gen_id_inj: "gen_id m = gen_id n \<longleftrightarrow> m = n"
  unfolding gen_id_def by (metis append_same_eq dec_value_nat_to_dec dec_value_pad same_append_eq)

lemma registry_fresh:
  assumes "registry_wf r" and "gr_counter r < n"
  shows "gen_id n \<notin> fst ` set (gr_map r)"
proof
  assume "gen_id n \<in> fst ` set (gr_map r)"
  then obtain i g where "(i, g) \<in> set (gr_map r)" "i = gen_id n" by auto
  with assms(1) have "gen_id n = gen_id (g_seq g)" "g_seq g \<le> gr_counter r"
    by (auto simp: registry_wf_def gen_ok_def)
  with assms(2) show False by (simp add: gen_id_inj)
qed

lemma open_generation_Inr:
  assumes "registry_wf r" and "open_generation k r = Inr (g, r')"
  shows "gr_map r' = gr_map r @ [(gen_id (gr_counter r'), g)] \<and> gr_counter r' = gr_counter r + 1
    \<and> g = \<lparr>g_id = gen_id (gr_counter r'), g_kind = k, g_seq = gr_counter r', g_state = G_Open\<rparr>
    \<and> countOpen r < MAX_OPEN_GENERATIONS \<and> gr_counter r < MAX_GENERATIONS_TOTAL"
  using assms(2) map_set_fresh [OF registry_fresh [OF assms(1), of "gr_counter r + 1"]]
  by (auto simp: open_generation_def Let_def split: if_splits)

lemma settle_Inr:
  assumes "settle i r = Inr (g, r')"
  shows "\<exists>g0. map_get (gr_map r) i = Some g0 \<and> g = g0\<lparr>g_state := G_Settled\<rparr> \<and> gr_counter r' = gr_counter r
    \<and> (gr_map r' = map_set (gr_map r) i g \<or> r' = r \<and> g0 = g)"
  using assms by (auto simp: settle_def Let_def split: option.splits if_splits)

lemma gen_ok_mono: "gen_ok n p \<Longrightarrow> n \<le> m \<Longrightarrow> gen_ok m p"
  by (auto simp: gen_ok_def)

lemma open_generation_wf:
  assumes "registry_wf r" and "open_generation k r = Inr (g, r')"
  shows "registry_wf r'"
proof -
  note new = open_generation_Inr [OF assms] registry_fresh [OF assms(1), of "gr_counter r'"]
  have "countOpen r' = Suc (countOpen r)" using new by (simp add: countOpen_def)
  then show ?thesis using new assms(1)
    by (auto simp: registry_wf_def gen_ok_def)
qed

lemma settle_wf:
  assumes "registry_wf r" and "settle i r = Inr (g, r')"
  shows "registry_wf r'"
proof -
  obtain g0 where g0: "map_get (gr_map r) i = Some g0" "g = g0\<lparr>g_state := G_Settled\<rparr>"
      "gr_counter r' = gr_counter r" "gr_map r' = map_set (gr_map r) i g \<or> r' = r"
    using settle_Inr [OF assms(2)] by blast
  show ?thesis
  proof (cases "r' = r")
    case False
    then have upd: "gr_map r' = map_set (gr_map r) i g" using g0 by blast
    have mem: "(i, g0) \<in> set (gr_map r)" using g0(1) by (rule map_get_in_set)
    then have key: "i \<in> fst ` set (gr_map r)" by force
    have "gen_ok (gr_counter r) (i, g)" using mem g0(2) assms(1) by (auto simp: registry_wf_def gen_ok_def)
    then have ok: "\<forall>p\<in>set (gr_map r'). gen_ok (gr_counter r) p"
      using upd set_map_set_subset [of "gr_map r" i g] assms(1) by (auto simp: registry_wf_def)
    have "countOpen r' \<le> countOpen r"
      using filter_map_set_drop [of "\<lambda>p. g_state (snd p) = G_Open" i g "gr_map r"] g0(2) upd
      by (simp add: countOpen_def filter_map o_def)
    then show ?thesis using assms(1) ok upd key g0(3)
      by (simp add: registry_wf_def map_keys_set length_map_set_present)
  qed (use assms in simp)
qed

lemma gen_step_wf: "registry_wf r \<Longrightarrow> gen_step r r' \<Longrightarrow> registry_wf r'"
  by (auto intro: open_generation_wf settle_wf)

lemma isActive_open:
  "open_generation k r = Inr (g, r') \<Longrightarrow> isActive r' i \<longleftrightarrow> i = g_id g \<or> isActive r i"
  by (auto simp: open_generation_def Let_def isActive_def map_get_set split: if_splits)

lemma isActive_settle:
  "settle j r = Inr (g, r') \<Longrightarrow> isActive r' i \<longleftrightarrow> i \<noteq> j \<and> isActive r i"
  by (auto simp: settle_def Let_def isActive_def map_get_set split: option.splits if_splits)

lemma isActive_iff:
  "distinct (map fst (gr_map r)) \<Longrightarrow> isActive r i \<longleftrightarrow> (\<exists>g. (i, g) \<in> set (gr_map r) \<and> g_state g = G_Open)"
  by (simp add: isActive_def map_get_iff [symmetric] split: option.split)

lemma known_open: "open_generation k r = Inr (g, r') \<Longrightarrow> map_has (gr_map r) i \<Longrightarrow> map_has (gr_map r') i"
  by (auto simp: open_generation_def Let_def split: if_splits)

lemma known_settle: "settle j r = Inr (g, r') \<Longrightarrow> map_has (gr_map r) i \<Longrightarrow> map_has (gr_map r') i"
  by (auto simp: settle_def Let_def split: if_splits option.splits)

lemma gen_step_lost:
  assumes "registry_wf r" and "gen_step r r'" and "map_has (gr_map r) i" and "\<not> isActive r i"
  shows "\<not> isActive r' i"
  using assms(2)
proof cases
  case (step_open k g)
  note new = open_generation_Inr [OF assms(1) step_open]
  then have "gen_id (gr_counter r') \<notin> fst ` set (gr_map r)" by (intro registry_fresh [OF assms(1)]) simp
  moreover have "g_id g = gen_id (gr_counter r')" using new by simp
  ultimately have "i \<noteq> g_id g" using assms(3) by (metis map_has_iff)
  then show ?thesis using isActive_open [OF step_open] assms(4) by simp
next
  case (step_settle j g)
  then show ?thesis using isActive_settle assms(4) by blast
qed

interpretation generations: revocable_authority gen_step registry_wf "\<lambda>r. map_has (gr_map r)" isActive
proof unfold_locales
  show "registry_wf t" if "registry_wf s" "gen_step s t" for s t using that by (rule gen_step_wf)
  show "map_has (gr_map t) i" if "registry_wf s" "gen_step s t" "map_has (gr_map s) i" for s t i
    using that(2,3) by (auto intro: known_open known_settle)
  show "\<not> isActive t i"
    if "registry_wf s" "gen_step s t" "map_has (gr_map s) i" "\<not> isActive s i" for s t i
    using that by (rule gen_step_lost)
qed

lemma openIds_set:
  assumes "registry_wf r"
  shows "set (openIds r) = {i. isActive r i}" and "distinct (openIds r)"
proof -
  have d: "distinct (map fst (gr_map r))" and ids: "\<forall>(i, g)\<in>set (gr_map r). g_id g = i"
    using assms by (auto simp: registry_wf_def gen_ok_def)
  have eq: "map (\<lambda>p. g_id (snd p)) (filter P (gr_map r)) = map fst (filter P (gr_map r))" for P
    using ids by (intro map_cong) auto
  then have names: "map g_id (filter (\<lambda>g. g_state g = G_Open) (map snd (gr_map r)))
      = map fst (filter (\<lambda>p. g_state (snd p) = G_Open) (gr_map r))"
    by (simp add: filter_map o_def)
  show "distinct (openIds r)"
    unfolding openIds_def distinct_sort_by names using d by (simp add: distinct_map_filter)
  show "set (openIds r) = {i. isActive r i}"
    unfolding openIds_def set_sort_by names
    by (force simp: isActive_iff [OF d])
qed

text \<open>However generations are opened and settled, at most sixteen are open and at
  most 4096 are ever created; an opened generation has an id no earlier one had.\<close>

theorem generations_bounded:
  assumes "gen_step\<^sup>*\<^sup>* empty_registry r"
  shows "length (openIds r) \<le> 16 \<and> length (gr_map r) \<le> 4096
    \<and> (\<forall>k g r'. open_generation k r = Inr (g, r') \<longrightarrow>
         get_generation r (g_id g) = None \<and> isActive r' (g_id g))"
proof -
  have wf: "registry_wf r" using assms registry_wf_empty by (rule generations.wf_steps)
  moreover have "length (openIds r) = countOpen r" by (simp add: openIds_def countOpen_def)
  moreover have "get_generation r (g_id g) = None \<and> isActive r' (g_id g)"
    if "open_generation k r = Inr (g, r')" for k g r'
    using isActive_open [OF that] open_generation_Inr [OF wf that]
      registry_fresh [OF wf, of "gr_counter r'"]
    by (simp add: get_generation_def map_get_None_iff)
  ultimately show ?thesis
    by (auto simp: registry_wf_def MAX_OPEN_GENERATIONS_def MAX_GENERATIONS_TOTAL_def)
qed

lemma first_open_step:
  "gen_step empty_registry
     \<lparr>gr_map = [(gen_id 1, \<lparr>g_id = gen_id 1, g_kind = GK_Action, g_seq = 1, g_state = G_Open\<rparr>)],
      gr_counter = 1\<rparr>" (is "gen_step _ ?r")
  by (rule step_open [of GK_Action])
     (simp add: open_generation_def empty_registry_def countOpen_def MAX_OPEN_GENERATIONS_def
        MAX_GENERATIONS_TOTAL_def map_set_def Let_def)

theorem generations_bounded_witness:
  "\<exists>r. gen_step\<^sup>*\<^sup>* empty_registry r \<and> r \<noteq> empty_registry \<and> length (openIds r) \<le> 16"
proof (intro exI conjI)
  let ?r = "\<lparr>gr_map = [(gen_id 1, \<lparr>g_id = gen_id 1, g_kind = GK_Action, g_seq = 1, g_state = G_Open\<rparr>)],
      gr_counter = 1\<rparr>"
  show reach: "gen_step\<^sup>*\<^sup>* empty_registry ?r" using first_open_step by blast
  show "?r \<noteq> empty_registry" by (simp add: empty_registry_def)
  show "length (openIds ?r) \<le> 16" using generations_bounded [OF reach] by blast
qed

text \<open>C6: A settled generation never regains authority: after \<open>settle\<close> returns, no
  later sequence of opens and settles makes the id active or attributable, explicitly
  or implicitly.\<close>

theorem settled_generation_stays_closed:
  assumes "gen_step\<^sup>*\<^sup>* empty_registry r" and "settle i r = Inr (g, r')" and "gen_step\<^sup>*\<^sup>* r' t"
  shows "\<not> isActive t i \<and> attributeExplicit t i = AttrNone \<and> attributeImplicit t \<noteq> AttrGeneration i"
proof -
  have wf: "registry_wf r" using assms(1) registry_wf_empty by (rule generations.wf_steps)
  then have wf': "registry_wf r'" using assms(2) by (rule settle_wf)
  have "map_has (gr_map r) i" using settle_Inr [OF assms(2)] by (auto simp: map_has_def map_get_def)
  then have "map_has (gr_map r') i" using assms(2) known_settle by blast
  moreover have "\<not> isActive r' i" using isActive_settle [OF assms(2)] by simp
  ultimately have lost: "\<not> isActive t i"
    using generations.lost_for_good [OF assms(3) wf'] by blast
  then have "i \<notin> set (openIds t)"
    using openIds_set(1) generations.wf_steps [OF assms(3) wf'] by simp
  with lost show ?thesis
    by (auto simp: attributeExplicit_def attributeImplicit_def split: list.splits)
qed

theorem settled_generation_stays_closed_witness:
  "\<exists>r g r'. settle (gen_id 1) r = Inr (g, r') \<and> isActive r (gen_id 1) \<and> \<not> isActive r' (gen_id 1)"
proof -
  let ?g = "\<lparr>g_id = gen_id 1, g_kind = GK_Action, g_seq = 1, g_state = G_Open\<rparr>"
  let ?r = "\<lparr>gr_map = [(gen_id 1, ?g)], gr_counter = 1\<rparr>"
  let ?s = "?g\<lparr>g_state := G_Settled\<rparr>"
  have s: "settle (gen_id 1) ?r = Inr (?s, \<lparr>gr_map = [(gen_id 1, ?s)], gr_counter = 1\<rparr>)"
    by (simp add: settle_def map_get_def map_set_def Let_def)
  moreover have "isActive ?r (gen_id 1)" by (simp add: isActive_def map_get_def)
  moreover have "gen_step\<^sup>*\<^sup>* empty_registry ?r" using first_open_step by blast
  ultimately show ?thesis
    using settled_generation_stays_closed [OF _ s rtranclp.rtrancl_refl] by blast
qed

text \<open>Implicit attribution credits a generation exactly when it is the only active
  one, reports none exactly when none is active, and otherwise lists all active ones.\<close>

theorem implicit_attribution_exact:
  assumes "gen_step\<^sup>*\<^sup>* empty_registry r"
  shows "case attributeImplicit r of
           AttrGeneration i \<Rightarrow> {j. isActive r j} = {i}
         | AttrNone \<Rightarrow> {j. isActive r j} = {}
         | AttrAmbiguous is \<Rightarrow> set is = {j. isActive r j} \<and> 2 \<le> card {j. isActive r j}"
proof -
  have wf: "registry_wf r" using assms registry_wf_empty by (rule generations.wf_steps)
  define A where "A = {j. isActive r j}"
  have ids: "set (openIds r) = A" "distinct (openIds r)" using openIds_set [OF wf] by (simp_all add: A_def)
  then have "card A = length (openIds r)" by (metis distinct_card)
  then show ?thesis unfolding A_def [symmetric]
    using ids(1) by (cases "openIds r" rule: remdups_adj.cases) (auto simp: attributeImplicit_def)
qed

theorem implicit_attribution_exact_witness:
  "\<exists>r. gen_step\<^sup>*\<^sup>* empty_registry r \<and> attributeImplicit r = AttrGeneration (gen_id 1)
     \<and> {j. isActive r j} = {gen_id 1}"
proof -
  let ?r = "\<lparr>gr_map = [(gen_id 1, \<lparr>g_id = gen_id 1, g_kind = GK_Action, g_seq = 1, g_state = G_Open\<rparr>)],
      gr_counter = 1\<rparr>"
  have reach: "gen_step\<^sup>*\<^sup>* empty_registry ?r" using first_open_step by blast
  have attr: "attributeImplicit ?r = AttrGeneration (gen_id 1)"
    by (simp add: attributeImplicit_def openIds_def sort_by_def)
  show ?thesis using implicit_attribution_exact [OF reach] reach attr by auto
qed

end
