(* ===== verification/Admission.thy ===== *)
theory Admission imports Endpoint_Routes Causal_Generations begin

text \<open>
  Semantic request admission: the bounded bootstrap exemptions
  (\<open>src/core/safety/bootstrapExemptions.ts\<close>) and the admission decision
  (\<open>src/core/safety/semanticAdmission.ts\<close>) every transport consults before a product
  request leaves. \<open>decode\<close> is \<open>decodeURIComponent\<close> (\<open>None\<close> when it throws), \<open>parse\<close>
  the URL constructor and \<open>regex\<close> the expression compiler. The exemption table is the one
  piece of mutable state: every operation returns it updated.
\<close>

type_synonym uri_decoder = "string \<Rightarrow> string option"

definition decode_safe :: "uri_decoder \<Rightarrow> string \<Rightarrow> string" where
  "decode_safe decode s = (case decode s of None \<Rightarrow> s | Some t \<Rightarrow> t)"

definition normalizeMethod :: "string \<Rightarrow> string" where
  "normalizeMethod m = upper (trim m)"

section \<open>Bootstrap exemptions\<close>

definition MAX_BOOTSTRAP_EXEMPTIONS :: nat where
  "MAX_BOOTSTRAP_EXEMPTIONS = 64"

datatype bootstrap_refusal = BOOTSTRAP_UNREGISTERED | BOOTSTRAP_MISMATCH | BOOTSTRAP_EXHAUSTED
  | BOOTSTRAP_STALE

record bootstrap_exemption =
  be_id :: string
  be_environment :: string
  be_origin :: string
  be_method :: string
  be_routePattern :: string
  be_sourceProof :: string
  be_sourceCurrent :: bool
  be_max :: rat

record bootstrap_request =
  br_method :: string
  br_url :: string
  br_environment :: string

record bootstrap_grant =
  bg_exemptionId :: string
  bg_navigationGeneration :: string
  bg_consumedCount :: nat
  bg_routeTemplate :: string
  bg_routePattern :: string
  bg_sourceProof :: string

datatype bootstrap_consumption = Granted bootstrap_grant | NotGranted bootstrap_refusal

datatype exemption_error = EXEMPTION_ID_UNSAFE | EXEMPTION_METHOD_NOT_READ_ONLY
  | EXEMPTION_PATTERN_UNANCHORED | EXEMPTION_PATTERN_UNSAFE | EXEMPTION_ORIGIN_UNSAFE
  | EXEMPTION_BUDGET_UNSAFE | EXEMPTION_PATTERN_SYNTAX | EXEMPTION_TABLE_TOO_LARGE | EXEMPTION_DUPLICATE

record bootstrap_table =
  bt_entries :: "bootstrap_exemption list"
  bt_counts :: "(string \<times> (string \<times> nat) list) list"

definition exemption_id_ok :: "string \<Rightarrow> bool" where
  "exemption_id_ok s = (case s of [] \<Rightarrow> False
     | c # cs \<Rightarrow> (is_lower_letter c \<or> is_upper_letter c) \<and> length cs \<le> 63
               \<and> (\<forall>x\<in>set cs. is_alnum x \<or> x \<in> set ''._-''))"

definition validateExemption :: "regex_compiler \<Rightarrow> bootstrap_exemption \<Rightarrow> (exemption_error, unit) result" where
  "validateExemption regex e =
     (if \<not> exemption_id_ok (be_id e) then Inl EXEMPTION_ID_UNSAFE
      else if normalizeMethod (be_method e) \<noteq> ''GET'' \<and> normalizeMethod (be_method e) \<noteq> ''HEAD''
        then Inl EXEMPTION_METHOD_NOT_READ_ONLY
      else if \<not> starts_with ''^'' (be_routePattern e) \<or> \<not> ends_with ''$'' (be_routePattern e)
        then Inl EXEMPTION_PATTERN_UNANCHORED
      else if contains ''#'' (be_routePattern e) then Inl EXEMPTION_PATTERN_UNSAFE
      else if \<not> starts_with ''http://'' (be_origin e) \<and> \<not> starts_with ''https://'' (be_origin e)
           \<and> \<not> starts_with ''ws://'' (be_origin e) \<and> \<not> starts_with ''wss://'' (be_origin e)
        then Inl EXEMPTION_ORIGIN_UNSAFE
      else if be_max e < 1 \<or> 1024 < be_max e then Inl EXEMPTION_BUDGET_UNSAFE
      else case regex (be_routePattern e) of None \<Rightarrow> Inl EXEMPTION_PATTERN_SYNTAX | Some _ \<Rightarrow> Inr ())"

fun check_exemptions ::
  "regex_compiler \<Rightarrow> string list \<Rightarrow> bootstrap_exemption list \<Rightarrow> (exemption_error, unit) result" where
  "check_exemptions regex seen [] = Inr ()"
| "check_exemptions regex seen (e # es) =
     bind_res (validateExemption regex e) (\<lambda>_.
       if be_id e \<in> set seen then Inl EXEMPTION_DUPLICATE
       else check_exemptions regex (be_id e # seen) es)"

definition exemption_table_of ::
  "regex_compiler \<Rightarrow> bootstrap_exemption list \<Rightarrow> (exemption_error, bootstrap_table) result" where
  "exemption_table_of regex entries =
     (if MAX_BOOTSTRAP_EXEMPTIONS < length entries then Inl EXEMPTION_TABLE_TOO_LARGE
      else bind_res (check_exemptions regex [] entries)
             (\<lambda>_. Inr \<lparr>bt_entries = entries, bt_counts = []\<rparr>))"

definition patternFor :: "bootstrap_table \<Rightarrow> string \<Rightarrow> string option" where
  "patternFor t i = map_option be_routePattern (find (\<lambda>e. be_id e = i) (bt_entries t))"

text \<open>
  \<open>new RegExp(pattern).test(s)\<close> at request time. Every pattern of a table was compiled
  when the table was built, so the constructor cannot throw here
  (\<open>table_patterns_compile\<close>).
\<close>

definition regex_test :: "regex_compiler \<Rightarrow> string \<Rightarrow> string \<Rightarrow> bool" where
  "regex_test regex p s = (case regex p of None \<Rightarrow> False | Some f \<Rightarrow> f s)"

definition consumed_count :: "bootstrap_table \<Rightarrow> string \<Rightarrow> string \<Rightarrow> nat" where
  "consumed_count t nav i =
     (case map_get (case map_get (bt_counts t) nav of None \<Rightarrow> [] | Some m \<Rightarrow> m) i of
        None \<Rightarrow> 0 | Some n \<Rightarrow> n)"

definition spend_unit :: "bootstrap_table \<Rightarrow> string \<Rightarrow> string \<Rightarrow> bootstrap_table" where
  "spend_unit t nav i =
     t\<lparr>bt_counts := map_set (bt_counts t) nav
         (map_set (case map_get (bt_counts t) nav of None \<Rightarrow> [] | Some m \<Rightarrow> m) i
            (consumed_count t nav i + 1))\<rparr>"

definition exemption_family :: "bootstrap_table \<Rightarrow> bootstrap_request \<Rightarrow> url \<Rightarrow> bootstrap_exemption list" where
  "exemption_family t q u =
     filter (\<lambda>e. be_environment e = br_environment q \<and> be_origin e = u_origin u
               \<and> normalizeMethod (be_method e) = normalizeMethod (br_method q)) (bt_entries t)"

definition bootstrap_consume ::
  "url_parser \<Rightarrow> regex_compiler \<Rightarrow> uri_decoder \<Rightarrow> string option \<Rightarrow> bootstrap_request \<Rightarrow> bootstrap_table
     \<Rightarrow> bootstrap_consumption \<times> bootstrap_table" where
  "bootstrap_consume parse regex decode nav q t =
     (if nav = None \<or> nav = Some [] then (NotGranted BOOTSTRAP_UNREGISTERED, t)
      else case parse (br_url q) of
        None \<Rightarrow> (NotGranted BOOTSTRAP_MISMATCH, t)
      | Some u \<Rightarrow>
          (let pathname = decode_safe decode (u_pathname u);
               family = exemption_family t q u
           in if family = [] then (NotGranted BOOTSTRAP_UNREGISTERED, t)
              else case find (\<lambda>e. regex_test regex (be_routePattern e) pathname) family of
                None \<Rightarrow> (NotGranted BOOTSTRAP_MISMATCH, t)
              | Some e \<Rightarrow>
                  if \<not> be_sourceCurrent e then (NotGranted BOOTSTRAP_STALE, t)
                  else let consumed = consumed_count t (the nav) (be_id e)
                       in if be_max e \<le> of_nat consumed then (NotGranted BOOTSTRAP_EXHAUSTED, t)
                          else (Granted
                                  \<lparr>bg_exemptionId = be_id e, bg_navigationGeneration = the nav,
                                   bg_consumedCount = consumed + 1,
                                   bg_routeTemplate = (case safeRuleMarker (be_id e) of
                                        None \<Rightarrow> UNKNOWN_ROUTE_MARKER | Some m \<Rightarrow> m),
                                   bg_routePattern = be_routePattern e,
                                   bg_sourceProof = be_sourceProof e\<rparr>,
                                spend_unit t (the nav) (be_id e))))"

section \<open>Admission\<close>

datatype admission_transport = PLAYWRIGHT_ROUTE | CDP_FETCH | WEBSOCKET | API_RELAY | L5_PROXY

datatype request_class = PROVEN_READ | BOOTSTRAP_EXEMPT_READ

datatype refusal_code = ADMISSION_UNKNOWN | ADMISSION_MUTATION | ADMISSION_MISSING_PROOF
  | ADMISSION_STALE_PROOF | ADMISSION_AMBIGUOUS | ADMISSION_METHOD_MISMATCH
  | ADMISSION_ENVIRONMENT_MISMATCH | ADMISSION_UNBOUND_GENERATION | ADMISSION_GENERATION_CLOSED
  | ADMISSION_TRANSPORT_DISAGREEMENT | ADMISSION_BOOTSTRAP_UNREGISTERED
  | ADMISSION_BOOTSTRAP_MISMATCH | ADMISSION_BOOTSTRAP_EXHAUSTED | ADMISSION_BOOTSTRAP_STALE
  | ADMISSION_UNPARSEABLE

record admission_handle =
  ah_environment :: string
  ah_origin :: string
  ah_method :: string
  ah_routeTemplate :: string
  ah_ruleId :: string
  ah_classification :: request_class
  ah_sourceProof :: string
  ah_generationId :: string
  ah_transport :: admission_transport

record admission_refusal =
  ar_code :: refusal_code
  ar_environment :: string
  ar_origin :: string
  ar_method :: string
  ar_ruleId :: "string option"
  ar_attribution :: string
  ar_transport :: admission_transport

datatype admission_decision = Admitted admission_handle | Refused admission_refusal

record admission_request =
  aq_method :: string
  aq_url :: string
  aq_environment :: string
  aq_transport :: admission_transport
  aq_attribution :: attribution

record rule_binding =
  rb_rule :: endpoint_rule
  rb_sourceProof :: string
  rb_sourceCurrent :: bool

text \<open>The frozen part of the snapshot; its exemption table is passed beside it.\<close>

record admission_snapshot =
  as_environment :: string
  as_bindings :: "rule_binding list"
  as_active :: "string \<Rightarrow> bool"
  as_navigation :: "string option"

definition attributionLabel :: "attribution \<Rightarrow> string" where
  "attributionLabel a = (case a of AttrGeneration i \<Rightarrow> i | AttrNone \<Rightarrow> ''NONE'' | AttrAmbiguous _ \<Rightarrow> ''AMBIGUOUS'')"

definition refusal ::
  "refusal_code \<Rightarrow> admission_request \<Rightarrow> url option \<Rightarrow> string option \<Rightarrow> string \<Rightarrow> admission_decision" where
  "refusal code q parsed rid label =
     Refused \<lparr>ar_code = code, ar_environment = aq_environment q,
       ar_origin = (case parsed of None \<Rightarrow> ''unparseable:'' | Some u \<Rightarrow> u_origin u),
       ar_method = normalizeMethod (aq_method q), ar_ruleId = rid, ar_attribution = label,
       ar_transport = aq_transport q\<rparr>"

definition provenTemplate :: "endpoint_rule \<Rightarrow> string" where
  "provenTemplate r = (case er_path r of
       Some p \<Rightarrow> p
     | None \<Rightarrow> (case safeRuleMarker (er_id r) of Some m \<Rightarrow> m | None \<Rightarrow> ''<UNKNOWN_ROUTE>''))"

fun bootstrap_code :: "bootstrap_refusal \<Rightarrow> refusal_code" where
  "bootstrap_code BOOTSTRAP_MISMATCH = ADMISSION_BOOTSTRAP_MISMATCH"
| "bootstrap_code BOOTSTRAP_EXHAUSTED = ADMISSION_BOOTSTRAP_EXHAUSTED"
| "bootstrap_code BOOTSTRAP_STALE = ADMISSION_BOOTSTRAP_STALE"
| "bootstrap_code BOOTSTRAP_UNREGISTERED = ADMISSION_BOOTSTRAP_UNREGISTERED"

definition pathFamily :: "regex_compiler \<Rightarrow> admission_snapshot \<Rightarrow> url \<Rightarrow> string \<Rightarrow> rule_binding list" where
  "pathFamily regex snap u pathname =
     filter (\<lambda>b. hostMatches u (er_host (rb_rule b)) \<and> pathMatches regex (rb_rule b) pathname) (as_bindings snap)"

text \<open>The route is known to no binding: only a bootstrap exemption is left.\<close>

definition admit_bootstrap ::
  "url_parser \<Rightarrow> regex_compiler \<Rightarrow> uri_decoder \<Rightarrow> admission_snapshot \<Rightarrow> admission_request \<Rightarrow> url \<Rightarrow> string
     \<Rightarrow> bootstrap_table \<Rightarrow> admission_decision \<times> bootstrap_table" where
  "admit_bootstrap parse regex decode snap q u gen t =
     (case bootstrap_consume parse regex decode (as_navigation snap)
             \<lparr>br_method = normalizeMethod (aq_method q), br_url = aq_url q, br_environment = aq_environment q\<rparr> t of
        (NotGranted c, t') \<Rightarrow> (refusal (bootstrap_code c) q (Some u) None (attributionLabel (aq_attribution q)), t')
      | (Granted g, t') \<Rightarrow>
          if \<not> as_active snap (bg_navigationGeneration g) \<or> \<not> as_active snap gen
          then (refusal ADMISSION_GENERATION_CLOSED q (Some u) None (attributionLabel (aq_attribution q)), t')
          else (Admitted \<lparr>ah_environment = as_environment snap, ah_origin = u_origin u,
                  ah_method = normalizeMethod (aq_method q), ah_routeTemplate = bg_routeTemplate g,
                  ah_ruleId = bg_exemptionId g, ah_classification = BOOTSTRAP_EXEMPT_READ,
                  ah_sourceProof = bg_sourceProof g, ah_generationId = bg_navigationGeneration g,
                  ah_transport = aq_transport q\<rparr>, t'))"

text \<open>A binding names host, path and method.\<close>

definition admit_binding ::
  "admission_snapshot \<Rightarrow> admission_request \<Rightarrow> url \<Rightarrow> string \<Rightarrow> rule_binding \<Rightarrow> admission_decision" where
  "admit_binding snap q u gen b =
     (let r = rb_rule b; no = (\<lambda>c. refusal c q (Some u) (Some (er_id r)) (attributionLabel (aq_attribution q)))
      in if er_classification r = KNOWN_MUTATION then no ADMISSION_MUTATION
         else if er_classification r \<noteq> KNOWN_READ then no ADMISSION_UNKNOWN
         else if rb_sourceProof b = [] then no ADMISSION_MISSING_PROOF
         else if \<not> rb_sourceCurrent b then no ADMISSION_STALE_PROOF
         else if \<not> as_active snap gen then no ADMISSION_GENERATION_CLOSED
         else Admitted \<lparr>ah_environment = as_environment snap, ah_origin = u_origin u,
                ah_method = normalizeMethod (aq_method q), ah_routeTemplate = provenTemplate r,
                ah_ruleId = er_id r, ah_classification = PROVEN_READ,
                ah_sourceProof = rb_sourceProof b, ah_generationId = gen, ah_transport = aq_transport q\<rparr>)"

definition evaluateAdmission ::
  "url_parser \<Rightarrow> regex_compiler \<Rightarrow> uri_decoder \<Rightarrow> admission_request \<Rightarrow> admission_snapshot \<Rightarrow> bootstrap_table
     \<Rightarrow> admission_decision \<times> bootstrap_table" where
  "evaluateAdmission parse regex decode q snap t =
     (let label = attributionLabel (aq_attribution q)
      in case parse (aq_url q) of
           None \<Rightarrow> (refusal ADMISSION_UNPARSEABLE q None None label, t)
         | Some u \<Rightarrow>
             if aq_environment q \<noteq> as_environment snap
             then (refusal ADMISSION_ENVIRONMENT_MISMATCH q (Some u) None label, t)
             else case aq_attribution q of
                    AttrNone \<Rightarrow> (refusal ADMISSION_UNBOUND_GENERATION q (Some u) None label, t)
                  | AttrAmbiguous _ \<Rightarrow> (refusal ADMISSION_AMBIGUOUS q (Some u) None label, t)
                  | AttrGeneration gen \<Rightarrow>
                      (let pathname = decode_safe decode (u_pathname u);
                           family = pathFamily regex snap u pathname
                       in case find (\<lambda>b. normalizeMethod (er_method (rb_rule b)) = normalizeMethod (aq_method q)) family of
                            Some b \<Rightarrow> (admit_binding snap q u gen b, t)
                          | None \<Rightarrow>
                              (case family of
                                 [] \<Rightarrow> admit_bootstrap parse regex decode snap q u gen t
                               | twin # _ \<Rightarrow>
                                   (if list_ex (\<lambda>c. er_classification (rb_rule c) = KNOWN_MUTATION) family
                                    then (refusal ADMISSION_MUTATION q (Some u) (Some (er_id (rb_rule twin))) label, t)
                                    else (refusal ADMISSION_METHOD_MISMATCH q (Some u) (Some (er_id (rb_rule twin))) label, t)))))"

definition bootstrap_codes :: "refusal_code set" where
  "bootstrap_codes = {ADMISSION_BOOTSTRAP_UNREGISTERED, ADMISSION_BOOTSTRAP_MISMATCH,
     ADMISSION_BOOTSTRAP_EXHAUSTED, ADMISSION_BOOTSTRAP_STALE}"

definition handles_agree :: "admission_handle \<Rightarrow> admission_handle \<Rightarrow> bool" where
  "handles_agree f h = (ah_ruleId f = ah_ruleId h \<and> ah_generationId f = ah_generationId h
     \<and> ah_method f = ah_method h \<and> ah_origin f = ah_origin h
     \<and> ah_routeTemplate f = ah_routeTemplate h \<and> ah_sourceProof f = ah_sourceProof h)"

definition consumeAdmission ::
  "url_parser \<Rightarrow> regex_compiler \<Rightarrow> uri_decoder \<Rightarrow> admission_handle \<Rightarrow> admission_request \<Rightarrow> admission_snapshot
     \<Rightarrow> bootstrap_table \<Rightarrow> admission_decision \<times> bootstrap_table" where
  "consumeAdmission parse regex decode h q snap t =
     (let disagree = refusal ADMISSION_TRANSPORT_DISAGREEMENT q (parse (aq_url q)) (Some (ah_ruleId h))
                       (attributionLabel (aq_attribution q))
      in case evaluateAdmission parse regex decode q snap t of
           (Refused r, t') \<Rightarrow>
             (if ar_code r = ADMISSION_UNKNOWN \<or> ar_code r \<in> bootstrap_codes then disagree else Refused r, t')
         | (Admitted fresh, t') \<Rightarrow>
             (if \<not> handles_agree fresh h then disagree
              else Admitted (h\<lparr>ah_transport := aq_transport q\<rparr>), t'))"

end
