(* ===== verification/Admission_Properties.thy ===== *)
theory Admission_Properties imports Admission begin

text \<open>
  What semantic admission guarantees: the authority behind every admitted request,
  what a refusal may cost, the bootstrap budgets over any sequence of requests, and
  what a second layer that consumes a handle can and cannot change.
\<close>

section \<open>Bootstrap exemptions\<close>

lemma check_exemptions_ok:
  "check_exemptions regex seen es = Inr u \<Longrightarrow>
     distinct (map be_id es) \<and> set (map be_id es) \<inter> set seen = {}
     \<and> (\<forall>e\<in>set es. validateExemption regex e = Inr ())"
proof (induction es arbitrary: seen)
  case (Cons e es)
  then have "check_exemptions regex (be_id e # seen) es = Inr u" "be_id e \<notin> set seen"
    by (auto split: if_splits)
  with Cons.IH [of "be_id e # seen"] Cons.prems show ?case by auto
qed simp

lemma validateExemption_ok:
  "validateExemption regex e = Inr () \<Longrightarrow>
     exemption_id_ok (be_id e) \<and> normalizeMethod (be_method e) \<in> {''GET'', ''HEAD''}
     \<and> 1 \<le> be_max e \<and> be_max e \<le> 1024 \<and> regex (be_routePattern e) \<noteq> None"
  by (auto simp: validateExemption_def split: if_splits option.splits)

lemma exemption_table_ok:
  "exemption_table_of regex es = Inr t \<Longrightarrow>
     bt_entries t = es \<and> bt_counts t = [] \<and> distinct (map be_id es)
     \<and> (\<forall>e\<in>set es. validateExemption regex e = Inr ())"
  by (auto simp: exemption_table_of_def dest: check_exemptions_ok split: if_splits)

lemma table_patterns_compile:
  "exemption_table_of regex es = Inr t \<Longrightarrow> e \<in> set (bt_entries t) \<Longrightarrow> regex (be_routePattern e) \<noteq> None"
  by (auto dest!: exemption_table_ok validateExemption_ok)

lemma consumed_count_spend:
  "consumed_count (spend_unit t nav i) nav' i' =
     consumed_count t nav' i' + (if nav' = nav \<and> i' = i then 1 else 0)"
  by (auto simp: consumed_count_def spend_unit_def map_get_set split: option.splits)

lemma spend_unit_entries [simp]: "bt_entries (spend_unit t nav i) = bt_entries t"
  by (simp add: spend_unit_def)

definition grants :: "regex_compiler \<Rightarrow> uri_decoder \<Rightarrow> bootstrap_request \<Rightarrow> url \<Rightarrow> string
    \<Rightarrow> bootstrap_table \<Rightarrow> bootstrap_exemption \<Rightarrow> bool" where
  "grants regex decode q u nav t e =
     (nav \<noteq> [] \<and> find (\<lambda>e. regex_test regex (be_routePattern e) (decode_safe decode (u_pathname u)))
            (exemption_family t q u) = Some e
      \<and> be_sourceCurrent e \<and> of_nat (consumed_count t nav (be_id e)) < be_max e)"

lemma grants_entry:
  "grants regex decode q u nav t e \<Longrightarrow> e \<in> set (bt_entries t) \<and> be_environment e = br_environment q
     \<and> be_origin e = u_origin u \<and> normalizeMethod (be_method e) = normalizeMethod (br_method q)
     \<and> regex_test regex (be_routePattern e) (decode_safe decode (u_pathname u))"
  by (auto simp: grants_def exemption_family_def dest!: find_SomeD)

lemma bootstrap_consume_Granted:
  assumes "bootstrap_consume parse regex decode nav q t = (Granted g, t')"
  obtains n u e where "nav = Some n" "parse (br_url q) = Some u" "grants regex decode q u n t e"
    "t' = spend_unit t n (be_id e)" "bg_exemptionId g = be_id e" "bg_navigationGeneration g = n"
    "bg_consumedCount g = consumed_count t n (be_id e) + 1" "bg_sourceProof g = be_sourceProof e"
proof -
  from assms obtain n where n: "nav = Some n" "n \<noteq> []"
    by (cases nav) (auto simp: bootstrap_consume_def split: if_splits)
  with assms obtain u where u: "parse (br_url q) = Some u"
    by (auto simp: bootstrap_consume_def split: option.splits)
  with assms n obtain e where e: "find (\<lambda>e. regex_test regex (be_routePattern e)
      (decode_safe decode (u_pathname u))) (exemption_family t q u) = Some e"
    by (auto simp: bootstrap_consume_def Let_def split: if_splits option.splits)
  have "be_sourceCurrent e" "\<not> be_max e \<le> of_nat (consumed_count t n (be_id e))"
    using assms n u e by (auto simp: bootstrap_consume_def Let_def split: if_splits)
  with assms n u e show ?thesis
    by (intro that [OF n(1) u]) (auto simp: bootstrap_consume_def grants_def Let_def split: if_splits)
qed

lemma bootstrap_consume_NotGranted:
  "bootstrap_consume parse regex decode nav q t = (NotGranted c, t') \<Longrightarrow> t' = t"
  by (auto simp: bootstrap_consume_def Let_def split: if_splits option.splits)

lemma bootstrap_consume_entries:
  "bt_entries (snd (bootstrap_consume parse regex decode nav q t)) = bt_entries t"
proof (cases "bootstrap_consume parse regex decode nav q t")
  case (Pair c t')
  then show ?thesis
    by (cases c) (auto dest: bootstrap_consume_NotGranted elim: bootstrap_consume_Granted)
qed

text \<open>Requests in any order, seen as charges against one exemption in one navigation.\<close>

definition grant_step ::
  "url_parser \<Rightarrow> regex_compiler \<Rightarrow> uri_decoder \<Rightarrow> string \<Rightarrow> string \<Rightarrow> bootstrap_table
     \<Rightarrow> string option \<times> bootstrap_request \<Rightarrow> bootstrap_table \<times> bool" where
  "grant_step parse regex decode nav i t e =
     (case bootstrap_consume parse regex decode (fst e) (snd e) t of
        (Granted g, t') \<Rightarrow> (t', bg_navigationGeneration g = nav \<and> bg_exemptionId g = i)
      | (NotGranted _, t') \<Rightarrow> (t', False))"

definition within_budget :: "bootstrap_exemption list \<Rightarrow> string \<Rightarrow> bootstrap_exemption \<Rightarrow> bootstrap_table \<Rightarrow> bool" where
  "within_budget es nav e t =
     (bt_entries t = es \<and> distinct (map be_id es) \<and> e \<in> set es
      \<and> consumed_count t nav (be_id e) \<le> nat \<lceil>be_max e\<rceil>)"

lemma less_imp_Suc_le_ceiling: "of_nat n < (q :: rat) \<Longrightarrow> Suc n \<le> nat \<lceil>q\<rceil>"
  by (metis Suc_leI less_ceiling_iff of_int_of_nat_eq zless_nat_eq_int_zless)

lemma grant_step_spent:
  "consumed_count (fst (grant_step parse regex decode nav i t e)) nav i
     = consumed_count t nav i + (if snd (grant_step parse regex decode nav i t e) then 1 else 0)"
proof (cases "bootstrap_consume parse regex decode (fst e) (snd e) t")
  case (Pair c t')
  then show ?thesis
  proof (cases c)
    case (Granted g)
    with Pair have "bootstrap_consume parse regex decode (fst e) (snd e) t = (Granted g, t')" by simp
    then show ?thesis
      by (auto elim!: bootstrap_consume_Granted simp: grant_step_def consumed_count_spend)
  next
    case (NotGranted r)
    with Pair have "t' = t" using bootstrap_consume_NotGranted by blast
    then show ?thesis using Pair NotGranted by (simp add: grant_step_def)
  qed
qed

lemma grant_step_within:
  assumes "within_budget es nav x t"
  shows "within_budget es nav x (fst (grant_step parse regex decode nav (be_id x) t e))"
proof (cases "bootstrap_consume parse regex decode (fst e) (snd e) t")
  case (Pair c t')
  show ?thesis
  proof (cases c)
    case (NotGranted r)
    with Pair have "t' = t" using bootstrap_consume_NotGranted by blast
    then show ?thesis using Pair NotGranted assms by (simp add: grant_step_def)
  next
    case (Granted g)
    with Pair have eq: "bootstrap_consume parse regex decode (fst e) (snd e) t = (Granted g, t')" by simp
    from eq obtain n u y where y: "grants regex decode (snd e) u n t y" "t' = spend_unit t n (be_id y)"
      by (rule bootstrap_consume_Granted)
    have "y \<in> set es" using grants_entry [OF y(1)] assms by (simp add: within_budget_def)
    then have same: "y = x" if "be_id y = be_id x"
      using that assms by (auto simp: within_budget_def distinct_map dest: inj_onD)
    have room: "Suc (consumed_count t n (be_id y)) \<le> nat \<lceil>be_max y\<rceil>"
      by (rule less_imp_Suc_le_ceiling) (use y(1) in \<open>simp add: grants_def\<close>)
    have "consumed_count t' nav (be_id x) \<le> nat \<lceil>be_max x\<rceil>"
    proof (cases "nav = n \<and> be_id x = be_id y")
      case True
      then have "y = x" using same by metis
      then show ?thesis using True room y(2) by (simp add: consumed_count_spend)
    next
      case False
      then show ?thesis using assms y(2) by (auto simp: consumed_count_spend within_budget_def)
    qed
    then show ?thesis using Pair Granted y assms by (simp add: grant_step_def within_budget_def)
  qed
qed

interpretation bootstrap_meter: metered
  "grant_step parse regex decode nav (be_id x)" "within_budget es nav x"
  "\<lambda>t. consumed_count t nav (be_id x)" "\<lambda>_. 1 :: nat" "nat \<lceil>be_max x\<rceil>"
  for parse regex decode nav x es
proof unfold_locales
  fix t e assume "within_budget es nav x t"
  then show "within_budget es nav x (fst (grant_step parse regex decode nav (be_id x) t e))"
    by (rule grant_step_within)
qed (simp_all add: grant_step_spent, simp add: within_budget_def)

text \<open>C4: However requests of all navigations are interleaved, one exemption is granted
  at most its declared count times within one navigation generation, and at most 1024 times.\<close>

theorem bootstrap_grants_bounded:
  assumes "exemption_table_of regex es = Inr t" and "x \<in> set es"
  shows "length (accepted (grant_step parse regex decode nav (be_id x)) t requests) \<le> nat \<lceil>be_max x\<rceil>
    \<and> nat \<lceil>be_max x\<rceil> \<le> 1024"
proof -
  note ok = exemption_table_ok [OF assms(1)]
  have "within_budget es nav x t"
    using ok assms(2) by (simp add: within_budget_def consumed_count_def map_get_def)
  from bootstrap_meter.accepted_cost_capped [OF this, of parse regex decode requests]
  have "length (accepted (grant_step parse regex decode nav (be_id x)) t requests) \<le> nat \<lceil>be_max x\<rceil>"
    by (simp add: sum_list_triv)
  moreover have "\<lceil>be_max x\<rceil> \<le> 1024"
    using ok assms(2) by (auto simp: ceiling_le_iff dest!: bspec validateExemption_ok)
  ultimately show ?thesis by (simp add: nat_le_iff)
qed

section \<open>Admission\<close>

lemma refusal_simps [simp]:
  "refusal c q u r l \<noteq> Admitted h" "\<exists>x. refusal c q u r l = Refused x \<and> ar_code x = c"
  by (simp_all add: refusal_def)

lemma admit_binding_Admitted:
  "admit_binding snap q u gen b = Admitted h \<Longrightarrow>
     er_classification (rb_rule b) = KNOWN_READ \<and> rb_sourceProof b \<noteq> [] \<and> rb_sourceCurrent b
     \<and> as_active snap gen \<and> ah_generationId h = gen \<and> ah_classification h = PROVEN_READ
     \<and> ah_ruleId h = er_id (rb_rule b) \<and> ah_sourceProof h = rb_sourceProof b \<and> ah_origin h = u_origin u
     \<and> ah_method h = normalizeMethod (aq_method q) \<and> ah_environment h = as_environment snap
     \<and> ah_routeTemplate h = provenTemplate (rb_rule b) \<and> ah_transport h = aq_transport q"
  by (auto simp: admit_binding_def Let_def split: if_splits)

lemma evaluateAdmission_Admitted:
  assumes "evaluateAdmission parse regex decode q snap t = (Admitted h, t')"
  obtains u gen where "parse (aq_url q) = Some u" "aq_environment q = as_environment snap"
    "aq_attribution q = AttrGeneration gen"
    "(\<exists>b. find (\<lambda>b. normalizeMethod (er_method (rb_rule b)) = normalizeMethod (aq_method q))
             (pathFamily regex snap u (decode_safe decode (u_pathname u))) = Some b
          \<and> admit_binding snap q u gen b = Admitted h \<and> t' = t)
     \<or> (pathFamily regex snap u (decode_safe decode (u_pathname u)) = []
          \<and> admit_bootstrap parse regex decode snap q u gen t = (Admitted h, t'))"
proof (cases "parse (aq_url q)")
  case None
  with assms show ?thesis by (simp add: evaluateAdmission_def)
next
  case (Some u)
  with assms have env: "aq_environment q = as_environment snap"
    by (simp add: evaluateAdmission_def Let_def split: if_splits)
  show ?thesis
  proof (cases "aq_attribution q")
    case (AttrGeneration gen)
    let ?F = "pathFamily regex snap u (decode_safe decode (u_pathname u))"
    let ?b = "find (\<lambda>b. normalizeMethod (er_method (rb_rule b)) = normalizeMethod (aq_method q)) ?F"
    show ?thesis
    proof (cases ?b)
      case None
      with assms Some env AttrGeneration have "?F = []"
        by (cases ?F) (auto simp: evaluateAdmission_def Let_def split: if_splits)
      with None assms Some env AttrGeneration show ?thesis
        by (intro that) (auto simp: evaluateAdmission_def Let_def)
    next
      case (Some b)
      with assms \<open>parse (aq_url q) = Some u\<close> env AttrGeneration show ?thesis
        by (intro that) (auto simp: evaluateAdmission_def Let_def)
    qed
  qed (use assms Some env in \<open>auto simp: evaluateAdmission_def Let_def\<close>)
qed

lemma evaluate_unknown_route:
  assumes "parse (aq_url q) = Some u" and "aq_environment q = as_environment snap"
    and "aq_attribution q = AttrGeneration gen"
    and "pathFamily regex snap u (decode_safe decode (u_pathname u)) = []"
  shows "evaluateAdmission parse regex decode q snap t = admit_bootstrap parse regex decode snap q u gen t"
  using assms by (simp add: evaluateAdmission_def Let_def)

lemma evaluate_known_route:
  assumes "parse (aq_url q) = Some u" and "aq_environment q = as_environment snap"
    and "aq_attribution q = AttrGeneration gen"
    and "find (\<lambda>b. normalizeMethod (er_method (rb_rule b)) = normalizeMethod (aq_method q))
           (pathFamily regex snap u (decode_safe decode (u_pathname u))) = Some b"
  shows "evaluateAdmission parse regex decode q snap t = (admit_binding snap q u gen b, t)"
  using assms by (simp add: evaluateAdmission_def Let_def)

lemma admit_bootstrap_Admitted:
  assumes "admit_bootstrap parse regex decode snap q u gen t = (Admitted h, t')"
    and "parse (aq_url q) = Some u"
  obtains nav e where "as_navigation snap = Some nav"
    "grants regex decode \<lparr>br_method = normalizeMethod (aq_method q), br_url = aq_url q,
        br_environment = aq_environment q\<rparr> u nav t e"
    "as_active snap nav" "as_active snap gen" "t' = spend_unit t nav (be_id e)"
    "ah_classification h = BOOTSTRAP_EXEMPT_READ" "ah_generationId h = nav" "ah_ruleId h = be_id e"
    "ah_method h = normalizeMethod (aq_method q)" "ah_origin h = u_origin u"
    "ah_transport h = aq_transport q"
proof -
  let ?q = "\<lparr>br_method = normalizeMethod (aq_method q), br_url = aq_url q, br_environment = aq_environment q\<rparr>"
  from assms obtain g where g: "bootstrap_consume parse regex decode (as_navigation snap) ?q t = (Granted g, t')"
      "as_active snap (bg_navigationGeneration g)" "as_active snap gen"
      "h = \<lparr>ah_environment = as_environment snap, ah_origin = u_origin u,
              ah_method = normalizeMethod (aq_method q), ah_routeTemplate = bg_routeTemplate g,
              ah_ruleId = bg_exemptionId g, ah_classification = BOOTSTRAP_EXEMPT_READ,
              ah_sourceProof = bg_sourceProof g, ah_generationId = bg_navigationGeneration g,
              ah_transport = aq_transport q\<rparr>"
    by (auto simp: admit_bootstrap_def split: prod.splits bootstrap_consumption.splits if_splits)
  from g(1) show ?thesis
    by (rule bootstrap_consume_Granted) (rule that; use g assms(2) in simp)
qed

lemmas grant_lookup = grants_def bootstrap_consume_def Let_def

lemma bootstrap_consume_by_grants:
  assumes "parse (br_url q) = Some u" and "grants regex decode q u nav t e"
  shows "\<exists>g. bootstrap_consume parse regex decode (Some nav) q t = (Granted g, spend_unit t nav (be_id e))
    \<and> bg_exemptionId g = be_id e \<and> bg_navigationGeneration g = nav"
  using assms by (auto simp: grant_lookup)

text \<open>C3: Every admitted request has pre-effect authority. Its URL parses, it speaks for the
  snapshot's environment and it is credited to one active generation; and either a
  current, proven binding names its host, path and method as a known read, or no binding
  names its route at all and a current exemption of that environment, origin, method
  and path was granted in the active navigation generation with budget left.\<close>

theorem admitted_has_read_authority:
  assumes "evaluateAdmission parse regex decode q snap t = (Admitted h, t')"
  shows "\<exists>u gen. parse (aq_url q) = Some u \<and> aq_environment q = as_environment snap
    \<and> aq_attribution q = AttrGeneration gen \<and> as_active snap gen \<and> as_active snap (ah_generationId h)
    \<and> ah_origin h = u_origin u \<and> ah_method h = normalizeMethod (aq_method q) \<and>
    (case ah_classification h of
       PROVEN_READ \<Rightarrow>
         t' = t \<and> ah_generationId h = gen \<and>
         (\<exists>b\<in>set (as_bindings snap). er_classification (rb_rule b) = KNOWN_READ
            \<and> ah_ruleId h = er_id (rb_rule b) \<and> hostMatches u (er_host (rb_rule b))
            \<and> pathMatches regex (rb_rule b) (decode_safe decode (u_pathname u))
            \<and> normalizeMethod (er_method (rb_rule b)) = ah_method h
            \<and> rb_sourceCurrent b \<and> rb_sourceProof b \<noteq> [])
     | BOOTSTRAP_EXEMPT_READ \<Rightarrow>
         pathFamily regex snap u (decode_safe decode (u_pathname u)) = []
         \<and> as_navigation snap = Some (ah_generationId h) \<and>
         (\<exists>e\<in>set (bt_entries t). ah_ruleId h = be_id e \<and> be_environment e = aq_environment q
            \<and> be_origin e = u_origin u \<and> be_sourceCurrent e
            \<and> regex_test regex (be_routePattern e) (decode_safe decode (u_pathname u))
            \<and> of_nat (consumed_count t (ah_generationId h) (be_id e)) < be_max e
            \<and> t' = spend_unit t (ah_generationId h) (be_id e)))"
proof -
  from assms obtain u gen where base: "parse (aq_url q) = Some u" "aq_environment q = as_environment snap"
      "aq_attribution q = AttrGeneration gen"
    and disj: "(\<exists>b. find (\<lambda>b. normalizeMethod (er_method (rb_rule b)) = normalizeMethod (aq_method q))
             (pathFamily regex snap u (decode_safe decode (u_pathname u))) = Some b
          \<and> admit_binding snap q u gen b = Admitted h \<and> t' = t)
     \<or> (pathFamily regex snap u (decode_safe decode (u_pathname u)) = []
          \<and> admit_bootstrap parse regex decode snap q u gen t = (Admitted h, t'))"
    by (rule evaluateAdmission_Admitted)
  from disj show ?thesis
  proof (elim disjE exE conjE)
    fix b assume f: "find (\<lambda>b. normalizeMethod (er_method (rb_rule b)) = normalizeMethod (aq_method q))
             (pathFamily regex snap u (decode_safe decode (u_pathname u))) = Some b"
      and a: "admit_binding snap q u gen b = Admitted h" and t: "t' = t"
    note b = admit_binding_Admitted [OF a]
    from find_SomeD [OF f] have "b \<in> set (as_bindings snap)" "hostMatches u (er_host (rb_rule b))"
      "pathMatches regex (rb_rule b) (decode_safe decode (u_pathname u))"
      "normalizeMethod (er_method (rb_rule b)) = normalizeMethod (aq_method q)"
      by (auto simp: pathFamily_def)
    with base b t show ?thesis by auto
  next
    assume none: "pathFamily regex snap u (decode_safe decode (u_pathname u)) = []"
      and a: "admit_bootstrap parse regex decode snap q u gen t = (Admitted h, t')"
    from a base(1) show ?thesis
    proof (rule admit_bootstrap_Admitted)
      fix nav e
      assume n: "as_navigation snap = Some nav" and g: "grants regex decode
          \<lparr>br_method = normalizeMethod (aq_method q), br_url = aq_url q, br_environment = aq_environment q\<rparr> u nav t e"
        and rest: "as_active snap nav" "as_active snap gen" "t' = spend_unit t nav (be_id e)"
        "ah_classification h = BOOTSTRAP_EXEMPT_READ" "ah_generationId h = nav" "ah_ruleId h = be_id e"
        "ah_method h = normalizeMethod (aq_method q)" "ah_origin h = u_origin u"
      have "be_sourceCurrent e" "of_nat (consumed_count t nav (be_id e)) < be_max e"
        using g by (auto simp: grants_def)
      with grants_entry [OF g] base none n rest show ?thesis by auto
    qed
  qed
qed

lemma admit_bootstrap_refused:
  assumes "admit_bootstrap parse regex decode snap q u gen t = (Refused r, t')"
    and "ar_code r \<noteq> ADMISSION_GENERATION_CLOSED"
  shows "t' = t"
proof (cases "bootstrap_consume parse regex decode (as_navigation snap)
    \<lparr>br_method = normalizeMethod (aq_method q), br_url = aq_url q, br_environment = aq_environment q\<rparr> t")
  case (Pair c s)
  then show ?thesis using assms
    by (cases c) (auto simp: admit_bootstrap_def refusal_def split: if_splits
        dest: bootstrap_consume_NotGranted)
qed

lemma evaluateAdmission_cases:
  assumes "evaluateAdmission parse regex decode q snap t = (d, t')"
  shows "t' = t \<or> (\<exists>u gen. parse (aq_url q) = Some u \<and> aq_attribution q = AttrGeneration gen
    \<and> aq_environment q = as_environment snap
    \<and> admit_bootstrap parse regex decode snap q u gen t = (d, t'))"
  using assms
  by (auto simp: evaluateAdmission_def Let_def split: option.splits attribution.splits if_splits list.splits)

text \<open>A refusal costs nothing: whenever a request is refused for any reason but a closed
  generation, in particular when it is unattributed or its attribution is ambiguous,
  the exemption budgets are unchanged; and no proven read spends bootstrap budget.\<close>

theorem refusal_spends_nothing:
  assumes "evaluateAdmission parse regex decode q snap t = (d, t')" and "t' \<noteq> t"
  shows "(\<exists>gen. aq_attribution q = AttrGeneration gen) \<and>
    (case d of Admitted h \<Rightarrow> ah_classification h = BOOTSTRAP_EXEMPT_READ
     | Refused r \<Rightarrow> ar_code r = ADMISSION_GENERATION_CLOSED)"
proof -
  from evaluateAdmission_cases [OF assms(1)] assms(2) obtain u gen where
      u: "parse (aq_url q) = Some u" "aq_attribution q = AttrGeneration gen"
      and b: "admit_bootstrap parse regex decode snap q u gen t = (d, t')"
    by blast
  show ?thesis
  proof (cases d)
    case (Admitted h)
    then show ?thesis using u b by (auto elim: admit_bootstrap_Admitted)
  next
    case (Refused r)
    then show ?thesis using u b assms(2) admit_bootstrap_refused by fastforce
  qed
qed

text \<open>When a bootstrap exemption covers the request but the credited generation has been
  settled, the request is refused as closed and the exemption's unit is spent all the same.\<close>

theorem closed_generation_burns_unit:
  assumes "parse (aq_url q) = Some u" and "aq_environment q = as_environment snap"
    and "aq_attribution q = AttrGeneration gen" and "\<not> as_active snap gen"
    and "pathFamily regex snap u (decode_safe decode (u_pathname u)) = []"
    and "as_navigation snap = Some nav"
    and "grants regex decode \<lparr>br_method = normalizeMethod (aq_method q), br_url = aq_url q,
           br_environment = aq_environment q\<rparr> u nav t e"
  shows "\<exists>r t'. evaluateAdmission parse regex decode q snap t = (Refused r, t')
    \<and> ar_code r = ADMISSION_GENERATION_CLOSED
    \<and> consumed_count t' nav (be_id e) = consumed_count t nav (be_id e) + 1"
proof -
  let ?q = "\<lparr>br_method = normalizeMethod (aq_method q), br_url = aq_url q, br_environment = aq_environment q\<rparr>"
  obtain g where "bootstrap_consume parse regex decode (Some nav) ?q t = (Granted g, spend_unit t nav (be_id e))"
    using bootstrap_consume_by_grants [OF _ assms(7), of parse] assms(1) by auto
  with assms show ?thesis
    by (auto simp: evaluateAdmission_def Let_def admit_bootstrap_def refusal_def consumed_count_spend)
qed

definition with_transport :: "admission_transport \<Rightarrow> admission_decision \<Rightarrow> admission_decision" where
  "with_transport tr d = (case d of Admitted h \<Rightarrow> Admitted (h\<lparr>ah_transport := tr\<rparr>)
     | Refused r \<Rightarrow> Refused (r\<lparr>ar_transport := tr\<rparr>))"

lemma refusal_transport:
  "refusal c (q\<lparr>aq_transport := tr\<rparr>) u r l = with_transport tr (refusal c q u r l)"
  by (simp add: refusal_def with_transport_def)

lemma admit_binding_transport:
  "admit_binding snap (q\<lparr>aq_transport := tr\<rparr>) u gen b = with_transport tr (admit_binding snap q u gen b)"
  by (simp add: admit_binding_def Let_def refusal_transport) (simp add: with_transport_def)

lemma admit_bootstrap_transport:
  "admit_bootstrap parse regex decode snap (q\<lparr>aq_transport := tr\<rparr>) u gen t
     = map_prod (with_transport tr) id (admit_bootstrap parse regex decode snap q u gen t)"
  by (auto simp: admit_bootstrap_def refusal_transport split: prod.split bootstrap_consumption.split)
     (simp_all add: with_transport_def)

text \<open>The transport never changes the verdict: the same request seen by another transport
  gets the same decision, with the same state afterwards, and only the recorded transport
  differs.\<close>

theorem transport_never_changes_verdict:
  "evaluateAdmission parse regex decode (q\<lparr>aq_transport := tr\<rparr>) snap t
     = map_prod (with_transport tr) id (evaluateAdmission parse regex decode q snap t)"
  by (auto simp: evaluateAdmission_def Let_def refusal_transport admit_binding_transport
      admit_bootstrap_transport split: option.split attribution.split list.split)

text \<open>C5: A layer that consumes a handle never turns a denial into an allow: it admits only if
  the request is admitted afresh from the same snapshot with the handle's rule,
  generation, method, origin, template and proof, and it returns the handle it was given,
  stamped with its own transport.\<close>

theorem consume_never_upgrades:
  assumes "consumeAdmission parse regex decode h q snap t = (Admitted h', t')"
  shows "\<exists>fresh. evaluateAdmission parse regex decode q snap t = (Admitted fresh, t')
    \<and> handles_agree fresh h \<and> h' = h\<lparr>ah_transport := aq_transport q\<rparr>"
proof (cases "evaluateAdmission parse regex decode q snap t")
  case (Pair d s)
  then show ?thesis using assms
    by (cases d) (auto simp: consumeAdmission_def Let_def refusal_def split: if_splits)
qed

definition boot_handle ::
  "admission_snapshot \<Rightarrow> admission_request \<Rightarrow> url \<Rightarrow> string \<Rightarrow> bootstrap_exemption \<Rightarrow> admission_handle" where
  "boot_handle snap q u nav e =
     \<lparr>ah_environment = as_environment snap, ah_origin = u_origin u, ah_method = normalizeMethod (aq_method q),
      ah_routeTemplate = (case safeRuleMarker (be_id e) of None \<Rightarrow> UNKNOWN_ROUTE_MARKER | Some m \<Rightarrow> m),
      ah_ruleId = be_id e, ah_classification = BOOTSTRAP_EXEMPT_READ, ah_sourceProof = be_sourceProof e,
      ah_generationId = nav, ah_transport = aq_transport q\<rparr>"

lemma admit_bootstrap_grants:
  assumes "parse (aq_url q) = Some u" and "as_navigation snap = Some nav"
    and "grants regex decode \<lparr>br_method = normalizeMethod (aq_method q), br_url = aq_url q,
           br_environment = aq_environment q\<rparr> u nav t e"
    and "as_active snap nav" and "as_active snap gen"
  shows "admit_bootstrap parse regex decode snap q u gen t
    = (Admitted (boot_handle snap q u nav e), spend_unit t nav (be_id e))"
  using assms by (auto simp: admit_bootstrap_def grant_lookup boot_handle_def)

text \<open>Consuming a bootstrap handle charges the exemption a second time: evaluated on the
  state the first evaluation left, the consuming layer spends another unit, so a
  request whose exemption is then used up is refused by the second layer as a
  transport disagreement, although nothing else has changed.\<close>

theorem bootstrap_handle_charged_twice:
  assumes first: "evaluateAdmission parse regex decode q snap t = (Admitted h, t1)"
    and boot: "ah_classification h = BOOTSTRAP_EXEMPT_READ"
    and unique: "distinct (map be_id (bt_entries t))"
    and e: "e \<in> set (bt_entries t)" "be_id e = ah_ruleId h"
  shows "if be_max e \<le> of_nat (consumed_count t (ah_generationId h) (be_id e) + 1)
    then \<exists>r. consumeAdmission parse regex decode h q snap t1 = (Refused r, t1)
           \<and> ar_code r = ADMISSION_TRANSPORT_DISAGREEMENT
    else \<exists>h' t2. consumeAdmission parse regex decode h q snap t1 = (Admitted h', t2)
           \<and> consumed_count t2 (ah_generationId h) (be_id e)
               = consumed_count t (ah_generationId h) (be_id e) + 2"
proof -
  let ?q = "\<lparr>br_method = normalizeMethod (aq_method q), br_url = aq_url q, br_environment = aq_environment q\<rparr>"
  from first obtain u gen where base: "parse (aq_url q) = Some u" "aq_environment q = as_environment snap"
      "aq_attribution q = AttrGeneration gen"
    and disj: "(\<exists>b. find (\<lambda>b. normalizeMethod (er_method (rb_rule b)) = normalizeMethod (aq_method q))
             (pathFamily regex snap u (decode_safe decode (u_pathname u))) = Some b
          \<and> admit_binding snap q u gen b = Admitted h \<and> t1 = t)
     \<or> (pathFamily regex snap u (decode_safe decode (u_pathname u)) = []
          \<and> admit_bootstrap parse regex decode snap q u gen t = (Admitted h, t1))"
    by (rule evaluateAdmission_Admitted)
  have none: "pathFamily regex snap u (decode_safe decode (u_pathname u)) = []"
    and adm: "admit_bootstrap parse regex decode snap q u gen t = (Admitted h, t1)"
    using disj boot by (auto dest: admit_binding_Admitted)
  have again: "evaluateAdmission parse regex decode q snap s = admit_bootstrap parse regex decode snap q u gen s" for s
    using base none by (intro evaluate_unknown_route)
  from adm base(1) obtain nav y where y: "as_navigation snap = Some nav" "grants regex decode ?q u nav t y"
      "as_active snap nav" "as_active snap gen" "t1 = spend_unit t nav (be_id y)"
      "ah_generationId h = nav" "ah_ruleId h = be_id y"
    by (rule admit_bootstrap_Admitted)
  have "y \<in> set (bt_entries t)" using grants_entry [OF y(2)] by simp
  with unique e y(7) have ye: "y = e" by (metis distinct_map inj_onD)
  have count1: "consumed_count t1 nav (be_id e) = consumed_count t nav (be_id e) + 1"
    using y(5) ye by (simp add: consumed_count_spend)
  have fam: "exemption_family t1 ?q u = exemption_family t ?q u"
    using y(5) by (simp add: exemption_family_def)
  show ?thesis
  proof (cases "be_max e \<le> of_nat (consumed_count t1 nav (be_id e))")
    case True
    have ne: "exemption_family t ?q u \<noteq> []" using y(2) by (auto simp: grants_def)
    have "bootstrap_consume parse regex decode (Some nav) ?q t1 = (NotGranted BOOTSTRAP_EXHAUSTED, t1)"
      using y(2) base(1) True ne unfolding ye
      by (simp add: bootstrap_consume_def Let_def fam grants_def)
    then have "evaluateAdmission parse regex decode q snap t1
        = (refusal ADMISSION_BOOTSTRAP_EXHAUSTED q (Some u) None (attributionLabel (aq_attribution q)), t1)"
      using y(1) by (simp add: again admit_bootstrap_def)
    then show ?thesis using True count1 y(6)
      by (simp add: consumeAdmission_def Let_def refusal_def bootstrap_codes_def)
  next
    case False
    then have "grants regex decode ?q u nav t1 e"
      using y(2) unfolding ye by (simp add: grants_def fam)
    then have "evaluateAdmission parse regex decode q snap t1
        = (Admitted (boot_handle snap q u nav e), spend_unit t1 nav (be_id e))"
      unfolding again using y(1,3,4) base(1) by (intro admit_bootstrap_grants)
    moreover have "admit_bootstrap parse regex decode snap q u gen t
        = (Admitted (boot_handle snap q u nav y), spend_unit t nav (be_id y))"
      using y(1-4) base(1) by (intro admit_bootstrap_grants)
    then have "h = boot_handle snap q u nav e" using adm ye by simp
    ultimately show ?thesis using y(6) count1 False
      by (simp add: consumeAdmission_def Let_def consumed_count_spend handles_agree_def)
  qed
qed

section \<open>Concrete requests\<close>

definition w_url :: "string \<Rightarrow> url" where
  "w_url path = \<lparr>u_protocol = ''https:'', u_username = [], u_password = [], u_hostname = ''h'', u_port = [],
     u_pathname = path, u_search = [], u_hash = [], u_origin = ''https://h''\<rparr>"

definition w_parse :: url_parser where
  "w_parse s = Some (w_url s)"

definition w_exemption :: bootstrap_exemption where
  "w_exemption = \<lparr>be_id = ''boot'', be_environment = ''dev'', be_origin = ''https://h'', be_method = ''GET'',
     be_routePattern = ''^/b$'', be_sourceProof = ''doc'', be_sourceCurrent = True, be_max = 1\<rparr>"

definition w_table :: bootstrap_table where
  "w_table = \<lparr>bt_entries = [w_exemption], bt_counts = []\<rparr>"

definition w_snap :: "string list \<Rightarrow> admission_snapshot" where
  "w_snap open_ids = \<lparr>as_environment = ''dev'',
     as_bindings = [\<lparr>rb_rule = sample_rule ''/a'' KNOWN_READ, rb_sourceProof = ''doc'', rb_sourceCurrent = True\<rparr>],
     as_active = (\<lambda>i. i \<in> set open_ids), as_navigation = Some ''n''\<rparr>"

definition w_request :: "string \<Rightarrow> admission_request" where
  "w_request path = \<lparr>aq_method = ''GET'', aq_url = path, aq_environment = ''dev'',
     aq_transport = CDP_FETCH, aq_attribution = AttrGeneration ''g''\<rparr>"

lemma w_simps:
  "aq_method (w_request p) = ''GET''" "aq_url (w_request p) = p" "aq_environment (w_request p) = ''dev''"
  "aq_attribution (w_request p) = AttrGeneration ''g''" "aq_transport (w_request p) = CDP_FETCH"
  "as_environment (w_snap ids) = ''dev''" "as_navigation (w_snap ids) = Some ''n''"
  "as_active (w_snap ids) i \<longleftrightarrow> i \<in> set ids" "w_parse p = Some (w_url p)"
  "decode_safe Some (u_pathname (w_url p)) = p" "u_origin (w_url p) = ''https://h''"
  by (simp_all add: w_request_def w_snap_def w_parse_def w_url_def decode_safe_def)

lemma w_host: "hostMatches (w_url p) ''h''"
  by (simp add: hostMatches_def w_url_def effective_port_def Let_def)

lemma w_get: "normalizeMethod ''GET'' = ''GET''"
  by (simp add: normalizeMethod_def trim_def is_space_def upper_def upper_char_def is_lower_letter_def code_unit_def)

lemma w_family:
  "pathFamily escape_regex (w_snap ids) (w_url p) p' =
     (if p' = ''/a'' then [\<lparr>rb_rule = sample_rule ''/a'' KNOWN_READ, rb_sourceProof = ''doc'', rb_sourceCurrent = True\<rparr>]
      else [])"
  using w_host by (simp add: pathFamily_def w_snap_def sample_rule_def pathMatches_def)

lemma w_grants:
  "grants escape_regex Some \<lparr>br_method = normalizeMethod (aq_method (w_request ''/b'')),
     br_url = aq_url (w_request ''/b''), br_environment = aq_environment (w_request ''/b'')\<rparr>
     (w_url ''/b'') ''n'' w_table w_exemption"
  by (simp add: grants_def w_simps w_get w_table_def w_exemption_def exemption_family_def
      regex_test_def escape_regex_def consumed_count_def map_get_def route_eval)

lemma w_read:
  "evaluateAdmission w_parse escape_regex Some (w_request ''/a'') (w_snap [''g'']) w_table
     = (Admitted \<lparr>ah_environment = ''dev'', ah_origin = ''https://h'', ah_method = ''GET'',
          ah_routeTemplate = ''/a'', ah_ruleId = ''r1'', ah_classification = PROVEN_READ,
          ah_sourceProof = ''doc'', ah_generationId = ''g'', ah_transport = CDP_FETCH\<rparr>, w_table)"
proof -
  let ?b = "\<lparr>rb_rule = sample_rule ''/a'' KNOWN_READ, rb_sourceProof = ''doc'', rb_sourceCurrent = True\<rparr>"
  have "evaluateAdmission w_parse escape_regex Some (w_request ''/a'') (w_snap [''g'']) w_table
      = (admit_binding (w_snap [''g'']) (w_request ''/a'') (w_url ''/a'') ''g'' ?b, w_table)"
    by (rule evaluate_known_route) (simp_all add: w_simps w_family sample_rule_def)
  then show ?thesis
    by (simp add: admit_binding_def Let_def w_simps w_get sample_rule_def provenTemplate_def)
qed

lemma w_boot:
  "evaluateAdmission w_parse escape_regex Some (w_request ''/b'') (w_snap [''g'', ''n'']) w_table
     = (Admitted (boot_handle (w_snap [''g'', ''n'']) (w_request ''/b'') (w_url ''/b'') ''n'' w_exemption),
        spend_unit w_table ''n'' (be_id w_exemption))"
proof -
  have "evaluateAdmission w_parse escape_regex Some (w_request ''/b'') (w_snap [''g'', ''n'']) w_table
      = admit_bootstrap w_parse escape_regex Some (w_snap [''g'', ''n'']) (w_request ''/b'') (w_url ''/b'') ''g'' w_table"
    by (rule evaluate_unknown_route) (simp_all add: w_simps w_family)
  also have "\<dots> = (Admitted (boot_handle (w_snap [''g'', ''n'']) (w_request ''/b'') (w_url ''/b'') ''n'' w_exemption),
        spend_unit w_table ''n'' (be_id w_exemption))"
    by (rule admit_bootstrap_grants [where nav = "''n''" and e = w_exemption])
       (simp_all add: w_simps w_grants [simplified w_simps])
  finally show ?thesis .
qed

theorem bootstrap_grants_bounded_witness:
  "\<exists>t. exemption_table_of escape_regex [w_exemption] = Inr t
     \<and> length (accepted (grant_step w_parse escape_regex Some ''n'' (be_id w_exemption)) t
          [(Some ''n'', \<lparr>br_method = ''GET'', br_url = ''/b'', br_environment = ''dev''\<rparr>),
           (Some ''n'', \<lparr>br_method = ''GET'', br_url = ''/b'', br_environment = ''dev''\<rparr>)]) \<le> 1"
proof -
  have ok: "validateExemption escape_regex w_exemption = Inr ()"
    by (simp add: validateExemption_def w_exemption_def exemption_id_ok_def w_get escape_regex_def route_eval)
  have t: "exemption_table_of escape_regex [w_exemption] = Inr w_table"
    by (simp add: exemption_table_of_def MAX_BOOTSTRAP_EXEMPTIONS_def ok w_table_def)
  have "be_max w_exemption = 1" by (simp add: w_exemption_def)
  with bootstrap_grants_bounded [OF t, of w_exemption w_parse Some "''n''"
      "[(Some ''n'', \<lparr>br_method = ''GET'', br_url = ''/b'', br_environment = ''dev''\<rparr>),
        (Some ''n'', \<lparr>br_method = ''GET'', br_url = ''/b'', br_environment = ''dev''\<rparr>)]"] t
  show ?thesis by auto
qed

theorem admitted_has_read_authority_witness:
  "\<exists>h. evaluateAdmission w_parse escape_regex Some (w_request ''/a'') (w_snap [''g'']) w_table = (Admitted h, w_table)
     \<and> as_active (w_snap [''g'']) (ah_generationId h)"
  using admitted_has_read_authority [OF w_read] w_read by blast

theorem refusal_spends_nothing_witness:
  "\<exists>d t'. evaluateAdmission w_parse escape_regex Some (w_request ''/b'') (w_snap [''g'', ''n'']) w_table = (d, t')
     \<and> t' \<noteq> w_table \<and> (\<exists>gen. aq_attribution (w_request ''/b'') = AttrGeneration gen)"
proof -
  have "consumed_count (spend_unit w_table ''n'' (be_id w_exemption)) ''n'' (be_id w_exemption)
      = consumed_count w_table ''n'' (be_id w_exemption) + 1" by (simp add: consumed_count_spend)
  then have "spend_unit w_table ''n'' (be_id w_exemption) \<noteq> w_table" by (metis n_not_Suc_n Suc_eq_plus1)
  then show ?thesis using refusal_spends_nothing [OF w_boot] w_boot by blast
qed

theorem closed_generation_burns_unit_witness:
  "\<exists>r t'. evaluateAdmission w_parse escape_regex Some (w_request ''/b'') (w_snap [''n'']) w_table = (Refused r, t')
     \<and> consumed_count t' ''n'' (be_id w_exemption) = consumed_count w_table ''n'' (be_id w_exemption) + 1"
proof -
  have "pathFamily escape_regex (w_snap [''n'']) (w_url ''/b'') (decode_safe Some (u_pathname (w_url ''/b''))) = []"
    by (simp add: w_simps w_family)
  from closed_generation_burns_unit [OF _ _ _ _ this _ w_grants, of w_parse "''g''"]
  show ?thesis by (auto simp: w_simps)
qed

lemma w_boot_handle:
  "ah_classification (boot_handle s q u n e) = BOOTSTRAP_EXEMPT_READ"
  "ah_ruleId (boot_handle s q u n e) = be_id e" "ah_generationId (boot_handle s q u n e) = n"
  by (simp_all add: boot_handle_def)

theorem bootstrap_handle_charged_twice_witness:
  "\<exists>h t1 r. evaluateAdmission w_parse escape_regex Some (w_request ''/b'') (w_snap [''g'', ''n'']) w_table = (Admitted h, t1)
     \<and> consumeAdmission w_parse escape_regex Some h (w_request ''/b'') (w_snap [''g'', ''n'']) t1 = (Refused r, t1)
     \<and> ar_code r = ADMISSION_TRANSPORT_DISAGREEMENT"
proof -
  let ?h = "boot_handle (w_snap [''g'', ''n'']) (w_request ''/b'') (w_url ''/b'') ''n'' w_exemption"
  let ?t1 = "spend_unit w_table ''n'' (be_id w_exemption)"
  have "consumed_count w_table ''n'' (be_id w_exemption) = 0"
    by (simp add: consumed_count_def w_table_def map_get_def)
  moreover have "be_max w_exemption = 1" by (simp add: w_exemption_def)
  moreover have "distinct (map be_id (bt_entries w_table))" "w_exemption \<in> set (bt_entries w_table)"
    by (simp_all add: w_table_def)
  ultimately show ?thesis
    using bootstrap_handle_charged_twice [OF w_boot, of w_exemption] w_boot
    unfolding w_boot_handle by force
qed

theorem consume_never_upgrades_witness:
  "\<exists>h. consumeAdmission w_parse escape_regex Some h (w_request ''/a'') (w_snap [''g'']) w_table = (Admitted h, w_table)
     \<and> (\<exists>fresh. evaluateAdmission w_parse escape_regex Some (w_request ''/a'') (w_snap [''g'']) w_table
                  = (Admitted fresh, w_table) \<and> handles_agree fresh h)"
proof -
  let ?h = "\<lparr>ah_environment = ''dev'', ah_origin = ''https://h'', ah_method = ''GET'',
          ah_routeTemplate = ''/a'', ah_ruleId = ''r1'', ah_classification = PROVEN_READ,
          ah_sourceProof = ''doc'', ah_generationId = ''g'', ah_transport = CDP_FETCH\<rparr>"
  have c: "consumeAdmission w_parse escape_regex Some ?h (w_request ''/a'') (w_snap [''g'']) w_table = (Admitted ?h, w_table)"
    by (simp add: consumeAdmission_def Let_def w_read handles_agree_def w_simps)
  show ?thesis using c consume_never_upgrades [OF c] by blast
qed

end
