(* ===== verification/Admission_Tickets.thy ===== *)
theory Admission_Tickets imports Admission begin

text \<open>
  One-shot admission tickets for the lower transports,
  \<open>src/core/safety/admissionTickets.ts\<close>: the ledger that layers mint into for every
  admitted effect and that the proxy consumes from before it forwards a request or opens
  a tunnel. \<open>AdmissionTicketLedger\<close> is the record \<open>ticket_ledger\<close>; the process-wide
  singleton is one value of it.
\<close>

definition MAX_ADMISSION_TICKETS :: nat where
  "MAX_ADMISSION_TICKETS = 4096"

definition MAX_TUNNELS_PER_HOST :: nat where
  "MAX_TUNNELS_PER_HOST = 8"

record ticket_input =
  ti_environment :: string
  ti_origin :: string
  ti_method :: string
  ti_matchPattern :: string
  ti_ruleId :: string
  ti_sourceProof :: string
  ti_generationId :: string
  ti_transport :: string

record ticket =
  tk_input :: ticket_input
  tk_consumed :: bool

record ticket_request =
  tq_origin :: string
  tq_method :: string
  tq_pathname :: string

record ticket_ledger =
  tl_tickets :: "ticket list"
  tl_tunnels :: "(string \<times> nat) list"

datatype ticket_error = TICKET_PATTERN_UNANCHORED | TICKET_PATTERN_UNSAFE | TICKET_PATTERN_SYNTAX
  | TICKET_BUDGET_EXCEEDED | TICKET_ORIGIN_UNPARSABLE

datatype ticket_code = PROXY_ADMISSION_TICKET_MISSING | PROXY_TUNNEL_CAPABILITY_MISSING
  | PROXY_TUNNEL_BUDGET_EXCEEDED

datatype ticket_verdict = TicketAdmitted | TicketRefused ticket_code

definition empty_ledger :: ticket_ledger where
  "empty_ledger = \<lparr>tl_tickets = [], tl_tunnels = []\<rparr>"

text \<open>The compiled pattern, as the test the caller applies to a path.\<close>

definition safePattern :: "regex_compiler \<Rightarrow> string \<Rightarrow> (ticket_error, string \<Rightarrow> bool) result" where
  "safePattern regex p =
     (if starts_with ''^'' p
      then if \<not> ends_with ''$'' p then Inl TICKET_PATTERN_UNANCHORED
           else (case regex p of None \<Rightarrow> Inl TICKET_PATTERN_SYNTAX | Some f \<Rightarrow> Inr f)
      else if contains ''?'' p \<or> contains ''#'' p \<or> contains ''..'' p then Inl TICKET_PATTERN_UNSAFE
      else Inr (\<lambda>s. p = s))"

text \<open>\<open>findIndex(consumed)\<close> and \<open>splice(index, 1)\<close>.\<close>

fun evict_consumed :: "ticket list \<Rightarrow> ticket list" where
  "evict_consumed [] = []"
| "evict_consumed (t # ts) = (if tk_consumed t then ts else t # evict_consumed ts)"

definition mint :: "regex_compiler \<Rightarrow> ticket_input \<Rightarrow> ticket_ledger \<Rightarrow> (ticket_error, unit) result \<times> ticket_ledger" where
  "mint regex i l =
     (let kept = (if MAX_ADMISSION_TICKETS \<le> length (tl_tickets l) then evict_consumed (tl_tickets l)
                  else tl_tickets l)
      in if MAX_ADMISSION_TICKETS \<le> length kept then (Inl TICKET_BUDGET_EXCEEDED, l\<lparr>tl_tickets := kept\<rparr>)
         else case safePattern regex (ti_matchPattern i) of
                Inl e \<Rightarrow> (Inl e, l\<lparr>tl_tickets := kept\<rparr>)
              | Inr _ \<Rightarrow> (Inr (), l\<lparr>tl_tickets := kept @ [\<lparr>tk_input = i, tk_consumed = False\<rparr>]\<rparr>))"

definition ticket_applies :: "ticket_request \<Rightarrow> ticket \<Rightarrow> bool" where
  "ticket_applies q t = (\<not> tk_consumed t \<and> ti_origin (tk_input t) = tq_origin q
     \<and> upper (ti_method (tk_input t)) = upper (trim (tq_method q)))"

text \<open>The loop over the tickets: \<open>Some ts'\<close> when one matched and was marked consumed.\<close>

fun consume_loop ::
  "regex_compiler \<Rightarrow> ticket_request \<Rightarrow> string \<Rightarrow> ticket list \<Rightarrow> (ticket_error, ticket list option) result" where
  "consume_loop regex q pathname [] = Inr None"
| "consume_loop regex q pathname (t # ts) =
     (if \<not> ticket_applies q t
      then bind_res (consume_loop regex q pathname ts) (\<lambda>r. Inr (map_option ((#) t) r))
      else bind_res (safePattern regex (ti_matchPattern (tk_input t)))
             (\<lambda>f. if f pathname then Inr (Some (t\<lparr>tk_consumed := True\<rparr> # ts))
                  else bind_res (consume_loop regex q pathname ts) (\<lambda>r. Inr (map_option ((#) t) r))))"

definition ticket_consume ::
  "regex_compiler \<Rightarrow> uri_decoder \<Rightarrow> ticket_request \<Rightarrow> ticket_ledger \<Rightarrow> (ticket_error, ticket_verdict \<times> ticket_ledger) result" where
  "ticket_consume regex decode q l =
     bind_res (consume_loop regex q (decode_safe decode (tq_pathname q)) (tl_tickets l))
       (\<lambda>r. Inr (case r of None \<Rightarrow> (TicketRefused PROXY_ADMISSION_TICKET_MISSING, l)
                | Some ts \<Rightarrow> (TicketAdmitted, l\<lparr>tl_tickets := ts\<rparr>)))"

text \<open>\<open>tickets.some(ticket => new URL(ticket.origin).hostname === hostname)\<close>: the constructor
  throws on an origin that does not parse, unless an earlier ticket already matched.\<close>

fun host_has_authority :: "url_parser \<Rightarrow> string \<Rightarrow> ticket list \<Rightarrow> (ticket_error, bool) result" where
  "host_has_authority parse h [] = Inr False"
| "host_has_authority parse h (t # ts) =
     (case parse (ti_origin (tk_input t)) of
        None \<Rightarrow> Inl TICKET_ORIGIN_UNPARSABLE
      | Some u \<Rightarrow> if u_hostname u = h then Inr True else host_has_authority parse h ts)"

definition tunnels_open :: "ticket_ledger \<Rightarrow> string \<Rightarrow> nat" where
  "tunnels_open l h = (case map_get (tl_tunnels l) h of None \<Rightarrow> 0 | Some n \<Rightarrow> n)"

definition authorizeTunnel ::
  "url_parser \<Rightarrow> string \<Rightarrow> ticket_ledger \<Rightarrow> (ticket_error, ticket_verdict \<times> ticket_ledger) result" where
  "authorizeTunnel parse h l =
     bind_res (host_has_authority parse h (tl_tickets l))
       (\<lambda>ok. Inr (if \<not> ok then (TicketRefused PROXY_TUNNEL_CAPABILITY_MISSING, l)
                  else if MAX_TUNNELS_PER_HOST \<le> tunnels_open l h then (TicketRefused PROXY_TUNNEL_BUDGET_EXCEEDED, l)
                  else (TicketAdmitted, l\<lparr>tl_tunnels := map_set (tl_tunnels l) h (tunnels_open l h + 1)\<rparr>)))"

definition reset_ledger :: "ticket_ledger \<Rightarrow> ticket_ledger" where
  "reset_ledger l = \<lparr>tl_tickets = [], tl_tunnels = []\<rparr>"

definition unconsumedCount :: "ticket_ledger \<Rightarrow> nat" where
  "unconsumedCount l = length (filter (\<lambda>t. \<not> tk_consumed t) (tl_tickets l))"

definition totalCount :: "ticket_ledger \<Rightarrow> nat" where
  "totalCount l = length (tl_tickets l)"

section \<open>Operations in sequence\<close>

datatype ticket_op = OpMint ticket_input | OpConsume ticket_request | OpTunnel string | OpReset

text \<open>One operation of the ledger, with whether it granted something; a throw leaves the
  state its operation had reached.\<close>

fun ticket_step ::
  "url_parser \<Rightarrow> regex_compiler \<Rightarrow> uri_decoder \<Rightarrow> ticket_ledger \<Rightarrow> ticket_op \<Rightarrow> ticket_ledger \<times> bool" where
  "ticket_step parse regex decode l (OpMint i) =
     (case mint regex i l of (Inl _, l') \<Rightarrow> (l', False) | (Inr _, l') \<Rightarrow> (l', True))"
| "ticket_step parse regex decode l (OpConsume q) =
     (case ticket_consume regex decode q l of Inl _ \<Rightarrow> (l, False) | Inr (v, l') \<Rightarrow> (l', v = TicketAdmitted))"
| "ticket_step parse regex decode l (OpTunnel h) =
     (case authorizeTunnel parse h l of Inl _ \<Rightarrow> (l, False) | Inr (v, l') \<Rightarrow> (l', v = TicketAdmitted))"
| "ticket_step parse regex decode l OpReset = (reset_ledger l, True)"

lemma evict_consumed_unconsumed:
  "filter (\<lambda>t. \<not> tk_consumed t) (evict_consumed ts) = filter (\<lambda>t. \<not> tk_consumed t) ts"
  by (induction ts) auto

lemma evict_consumed_subset: "set (evict_consumed ts) \<subseteq> set ts"
  by (induction ts) auto

lemma length_evict_consumed: "length (evict_consumed ts) \<le> length ts"
  by (induction ts) auto

lemma consume_loop_Some:
  assumes "consume_loop regex q p ts = Inr (Some ts')"
  obtains before t after f where "ts = before @ t # after" "ts' = before @ t\<lparr>tk_consumed := True\<rparr> # after"
    "ticket_applies q t" "safePattern regex (ti_matchPattern (tk_input t)) = Inr f" "f p"
  using assms
proof (induction ts arbitrary: ts' thesis)
  case (Cons a ts)
  show ?case
  proof (cases "\<exists>f. ticket_applies q a \<and> safePattern regex (ti_matchPattern (tk_input a)) = Inr f \<and> f p")
    case True
    then obtain f where f: "ticket_applies q a" "safePattern regex (ti_matchPattern (tk_input a)) = Inr f" "f p"
      by blast
    with Cons.prems(2) have "ts' = a\<lparr>tk_consumed := True\<rparr> # ts" by simp
    then show ?thesis using Cons.prems(1) [of "[]" a ts f] f by simp
  next
    case False
    with Cons.prems(2) obtain us where us: "ts' = a # us" "consume_loop regex q p ts = Inr (Some us)"
      by (auto split: if_splits)
    from us(2) show ?thesis
    proof (rule Cons.IH [rotated])
      fix before t after f
      assume "ts = before @ t # after" "us = before @ t\<lparr>tk_consumed := True\<rparr> # after"
        "ticket_applies q t" "safePattern regex (ti_matchPattern (tk_input t)) = Inr f" "f p"
      then show thesis using Cons.prems(1) [of "a # before" t after f] us(1) by simp
    qed
  qed
qed simp

text \<open>Consuming turns exactly one unconsumed ticket into a consumed one.\<close>

lemma ticket_consume_admitted:
  assumes "ticket_consume regex decode q l = Inr (TicketAdmitted, l')"
  obtains before t after f where
    "tl_tickets l = before @ t # after" "tl_tickets l' = before @ t\<lparr>tk_consumed := True\<rparr> # after"
    "tl_tunnels l' = tl_tunnels l" "ticket_applies q t"
    "safePattern regex (ti_matchPattern (tk_input t)) = Inr f" "f (decode_safe decode (tq_pathname q))"
proof -
  from assms obtain ts where c: "consume_loop regex q (decode_safe decode (tq_pathname q)) (tl_tickets l) = Inr (Some ts)"
    and l': "l' = l\<lparr>tl_tickets := ts\<rparr>"
    by (auto simp: ticket_consume_def split: option.splits)
  from c obtain before t after f where "tl_tickets l = before @ t # after"
      "ts = before @ t\<lparr>tk_consumed := True\<rparr> # after" "ticket_applies q t"
      "safePattern regex (ti_matchPattern (tk_input t)) = Inr f" "f (decode_safe decode (tq_pathname q))"
    by (rule consume_loop_Some)
  with l' show ?thesis by (intro that [of before t after f]) simp_all
qed

lemma ticket_consume_refused:
  "ticket_consume regex decode q l = Inr (TicketRefused c, l') \<Longrightarrow> l' = l"
  by (auto simp: ticket_consume_def split: option.splits)

lemma authorizeTunnel_result:
  "authorizeTunnel parse h l = Inr (v, l') \<Longrightarrow> tl_tickets l' = tl_tickets l
     \<and> (v = TicketAdmitted \<longrightarrow> tunnels_open l h < MAX_TUNNELS_PER_HOST \<and> tunnels_open l' h = tunnels_open l h + 1)
     \<and> (v \<noteq> TicketAdmitted \<longrightarrow> l' = l)
     \<and> (\<forall>h'. h' \<noteq> h \<longrightarrow> tunnels_open l' h' = tunnels_open l h')"
  by (auto simp: authorizeTunnel_def tunnels_open_def map_get_set split: if_splits)

section \<open>Bounds and one-shot use\<close>

fun is_consume :: "ticket_op \<Rightarrow> bool" where
  "is_consume (OpConsume q) = True"
| "is_consume _ = False"

fun is_mint :: "ticket_op \<Rightarrow> bool" where
  "is_mint (OpMint i) = True"
| "is_mint _ = False"

lemma mint_state:
  assumes "mint regex i l = (r, l')"
  shows "tl_tunnels l' = tl_tunnels l
    \<and> (length (tl_tickets l) \<le> MAX_ADMISSION_TICKETS \<longrightarrow> length (tl_tickets l') \<le> MAX_ADMISSION_TICKETS)
    \<and> unconsumedCount l' = unconsumedCount l + (if r = Inr () then 1 else 0)"
proof -
  let ?ts = "tl_tickets l"
  let ?kept = "if MAX_ADMISSION_TICKETS \<le> length ?ts then evict_consumed ?ts else ?ts"
  have "filter (\<lambda>t. \<not> tk_consumed t) ?kept = filter (\<lambda>t. \<not> tk_consumed t) ?ts"
    by (simp add: evict_consumed_unconsumed)
  moreover have "length ?kept \<le> length ?ts" by (simp add: length_evict_consumed)
  ultimately show ?thesis using assms unfolding mint_def Let_def unconsumedCount_def
    by (auto split: if_splits sum.splits)
qed

lemma consume_state:
  assumes "ticket_consume regex decode q l = Inr (v, l')"
  shows "tl_tunnels l' = tl_tunnels l \<and> length (tl_tickets l') = length (tl_tickets l)
    \<and> unconsumedCount l = unconsumedCount l' + (if v = TicketAdmitted then 1 else 0)"
proof (cases v)
  case TicketAdmitted
  with assms have "ticket_consume regex decode q l = Inr (TicketAdmitted, l')" by simp
  then show ?thesis
    by (rule ticket_consume_admitted) (simp add: unconsumedCount_def ticket_applies_def TicketAdmitted)
next
  case (TicketRefused c)
  with assms have "l' = l" using ticket_consume_refused by blast
  then show ?thesis using TicketRefused by simp
qed

lemma step_unconsumed:
  "unconsumedCount (fst (ticket_step parse regex decode l op))
     + (if snd (ticket_step parse regex decode l op) \<and> is_consume op then 1 else 0)
   \<le> unconsumedCount l + (if snd (ticket_step parse regex decode l op) \<and> is_mint op then 1 else 0)"
proof (cases op)
  case (OpMint i)
  then show ?thesis by (cases "mint regex i l") (auto dest!: mint_state split: sum.split)
next
  case (OpConsume q)
  then show ?thesis
    by (cases "ticket_consume regex decode q l") (auto dest!: consume_state split: sum.split prod.split)
next
  case (OpTunnel h)
  then show ?thesis
    by (cases "authorizeTunnel parse h l")
       (auto dest!: authorizeTunnel_result simp: unconsumedCount_def split: sum.split prod.split)
next
  case OpReset
  then show ?thesis by (simp add: reset_ledger_def unconsumedCount_def)
qed

lemma consumes_at_most_mints:
  "length (filter is_consume (accepted (ticket_step parse regex decode) l ops))
     + unconsumedCount (run_ops (ticket_step parse regex decode) l ops)
   \<le> length (filter is_mint (accepted (ticket_step parse regex decode) l ops)) + unconsumedCount l"
proof (induction ops arbitrary: l)
  case (Cons op ops)
  show ?case
    using step_unconsumed [of parse regex decode l op] Cons.IH [of "fst (ticket_step parse regex decode l op)"]
    by (cases "snd (ticket_step parse regex decode l op)"; cases "is_consume op"; cases "is_mint op")
       (simp_all del: ticket_step.simps)
qed simp

text \<open>C7: Tickets are one-shot: over any sequence of mints, consumptions, tunnels and resets,
  starting from the empty ledger, the requests admitted by a ticket are at most the tickets
  minted, and the ledger never holds more than 4096 tickets.\<close>

theorem tickets_are_one_shot:
  "length (filter is_consume (accepted (ticket_step parse regex decode) empty_ledger ops))
     \<le> length (filter is_mint (accepted (ticket_step parse regex decode) empty_ledger ops))
   \<and> totalCount (run_ops (ticket_step parse regex decode) empty_ledger ops) \<le> 4096"
proof
  show "length (filter is_consume (accepted (ticket_step parse regex decode) empty_ledger ops))
     \<le> length (filter is_mint (accepted (ticket_step parse regex decode) empty_ledger ops))"
    using consumes_at_most_mints [of parse regex decode empty_ledger ops]
    by (simp add: empty_ledger_def unconsumedCount_def)
  have "length (tl_tickets (fst (ticket_step parse regex decode l op))) \<le> MAX_ADMISSION_TICKETS"
    if "length (tl_tickets l) \<le> MAX_ADMISSION_TICKETS" for l op
    using that
    by (cases op) (auto simp: reset_ledger_def split: sum.split prod.split
        dest: mint_state consume_state authorizeTunnel_result)
  moreover have "length (tl_tickets empty_ledger) \<le> MAX_ADMISSION_TICKETS" by (simp add: empty_ledger_def)
  ultimately have "length (tl_tickets (run_ops (ticket_step parse regex decode) empty_ledger ops)) \<le> MAX_ADMISSION_TICKETS"
    by (rule run_ops_invariant)
  then show "totalCount (run_ops (ticket_step parse regex decode) empty_ledger ops) \<le> 4096"
    by (simp add: totalCount_def MAX_ADMISSION_TICKETS_def)
qed

text \<open>A request forwarded on a ticket matches what was admitted: an unconsumed ticket of the
  ledger has its origin and method, and the ticket's pattern accepts its decoded path; the
  consumption marks exactly that ticket and leaves every other ticket and all tunnels.\<close>

theorem consumed_ticket_matches_request:
  assumes "ticket_consume regex decode q l = Inr (TicketAdmitted, l')"
  shows "\<exists>before t after f. tl_tickets l = before @ t # after \<and> \<not> tk_consumed t
    \<and> ti_origin (tk_input t) = tq_origin q \<and> upper (ti_method (tk_input t)) = upper (trim (tq_method q))
    \<and> safePattern regex (ti_matchPattern (tk_input t)) = Inr f \<and> f (decode_safe decode (tq_pathname q))
    \<and> l' = \<lparr>tl_tickets = before @ t\<lparr>tk_consumed := True\<rparr> # after, tl_tunnels = tl_tunnels l\<rparr>"
proof -
  from assms obtain before t after f where
    t: "tl_tickets l = before @ t # after" "tl_tickets l' = before @ t\<lparr>tk_consumed := True\<rparr> # after"
    "tl_tunnels l' = tl_tunnels l" "ticket_applies q t"
    "safePattern regex (ti_matchPattern (tk_input t)) = Inr f" "f (decode_safe decode (tq_pathname q))"
    by (rule ticket_consume_admitted)
  moreover have "l' = \<lparr>tl_tickets = before @ t\<lparr>tk_consumed := True\<rparr> # after, tl_tunnels = tl_tunnels l\<rparr>"
    using t(2,3) by simp
  ultimately show ?thesis unfolding ticket_applies_def by blast
qed

text \<open>Between two resets, tunnels to one host are charged against the cap.\<close>

definition tunnel_step ::
  "url_parser \<Rightarrow> regex_compiler \<Rightarrow> uri_decoder \<Rightarrow> string \<Rightarrow> ticket_ledger \<Rightarrow> ticket_op \<Rightarrow> ticket_ledger \<times> bool" where
  "tunnel_step parse regex decode h l op =
     (if op = OpReset then (l, False)
      else (fst (ticket_step parse regex decode l op), snd (ticket_step parse regex decode l op) \<and> op = OpTunnel h))"

lemma mint_tunnels [simp]: "tunnels_open (snd (mint regex i l)) h = tunnels_open l h"
  using mint_state [of regex i l] by (cases "mint regex i l") (simp add: tunnels_open_def)

lemma consume_tunnels: "ticket_consume regex decode q l = Inr (v, l') \<Longrightarrow> tunnels_open l' h = tunnels_open l h"
  using consume_state by (fastforce simp: tunnels_open_def)

lemma tunnel_step_open:
  "tunnels_open (fst (tunnel_step parse regex decode h l op)) h
     = tunnels_open l h + (if snd (tunnel_step parse regex decode h l op) then 1 else 0)
   \<and> (snd (tunnel_step parse regex decode h l op) \<longrightarrow> tunnels_open l h < MAX_TUNNELS_PER_HOST)"
proof (cases op)
  case (OpMint i)
  then show ?thesis using mint_tunnels [of regex i l h]
    by (cases "mint regex i l") (auto simp: tunnel_step_def split: sum.split)
next
  case (OpConsume q)
  then show ?thesis
    by (auto simp: tunnel_step_def split: sum.split prod.split dest: consume_tunnels)
next
  case (OpTunnel h')
  then show ?thesis
    by (cases "authorizeTunnel parse h' l")
       (auto simp: tunnel_step_def split: sum.split prod.split dest!: authorizeTunnel_result)
qed (simp add: tunnel_step_def)

interpretation tunnel_meter: metered
  "tunnel_step parse regex decode h" "\<lambda>l. tunnels_open l h \<le> MAX_TUNNELS_PER_HOST"
  "\<lambda>l. tunnels_open l h" "\<lambda>_. 1 :: nat" MAX_TUNNELS_PER_HOST
  for parse regex decode h
proof unfold_locales
  fix l op assume "tunnels_open l h \<le> MAX_TUNNELS_PER_HOST"
  then show "tunnels_open (fst (tunnel_step parse regex decode h l op)) h \<le> MAX_TUNNELS_PER_HOST"
    using tunnel_step_open [of parse regex decode h l op] by (auto split: if_splits)
qed (auto simp: tunnel_step_open)

lemma tunnel_step_accepted:
  "OpReset \<notin> set ops \<Longrightarrow>
     filter (\<lambda>op. op = OpTunnel h) (accepted (ticket_step parse regex decode) l ops)
       = accepted (tunnel_step parse regex decode h) l ops"
proof (induction ops arbitrary: l)
  case (Cons op ops)
  then have "fst (tunnel_step parse regex decode h l op) = fst (ticket_step parse regex decode l op)"
    "snd (tunnel_step parse regex decode h l op) = (snd (ticket_step parse regex decode l op) \<and> op = OpTunnel h)"
    by (auto simp: tunnel_step_def)
  with Cons show ?case by (cases "op = OpTunnel h") (simp_all del: ticket_step.simps)
qed simp

text \<open>Between two resets at most eight tunnels are authorized to one host, whatever else the
  ledger does in between.\<close>

theorem tunnels_per_host_bounded:
  assumes "OpReset \<notin> set ops"
  shows "length (filter (\<lambda>op. op = OpTunnel h) (accepted (ticket_step parse regex decode) (reset_ledger l) ops)) \<le> 8"
proof -
  have zero: "tunnels_open (reset_ledger l) h = 0"
    by (simp add: tunnels_open_def reset_ledger_def map_get_def)
  have "length (accepted (tunnel_step parse regex decode h) (reset_ledger l) ops) \<le> MAX_TUNNELS_PER_HOST"
    using tunnel_meter.accepted_cost_capped [of "reset_ledger l" h parse regex decode ops] zero
    by (simp add: sum_list_triv)
  then show ?thesis using tunnel_step_accepted [OF assms] by (simp add: MAX_TUNNELS_PER_HOST_def)
qed

definition w_ticket :: ticket_input where
  "w_ticket = \<lparr>ti_environment = ''dev'', ti_origin = ''o'', ti_method = ''GET'', ti_matchPattern = ''/a'',
     ti_ruleId = ''r'', ti_sourceProof = ''d'', ti_generationId = ''g'', ti_transport = ''t''\<rparr>"

definition w_ledger :: "bool \<Rightarrow> ticket_ledger" where
  "w_ledger c = \<lparr>tl_tickets = [\<lparr>tk_input = w_ticket, tk_consumed = c\<rparr>], tl_tunnels = []\<rparr>"

definition w_ticket_request :: ticket_request where
  "w_ticket_request = \<lparr>tq_origin = ''o'', tq_method = ''GET'', tq_pathname = ''/a''\<rparr>"

lemma w_consume:
  "ticket_consume regex Some w_ticket_request (w_ledger False) = Inr (TicketAdmitted, w_ledger True)"
  by (simp add: ticket_consume_def w_ledger_def w_ticket_request_def w_ticket_def ticket_applies_def
      safePattern_def decode_safe_def starts_with_def upper_def upper_char_def is_lower_letter_def
      code_unit_def trim_def is_space_def)

theorem consumed_ticket_matches_request_witness:
  "\<exists>t. t \<in> set (tl_tickets (w_ledger False)) \<and> \<not> tk_consumed t
     \<and> ti_origin (tk_input t) = tq_origin w_ticket_request"
  using consumed_ticket_matches_request [OF w_consume, of "\<lambda>_. None"] by auto

theorem tunnels_per_host_bounded_witness:
  "length (filter (\<lambda>op. op = OpTunnel ''h'')
     (accepted (ticket_step (\<lambda>_. None) (\<lambda>_. None) Some) (reset_ledger empty_ledger)
        (OpMint w_ticket # replicate 12 (OpTunnel ''h'')))) \<le> 8"
  by (rule tunnels_per_host_bounded) simp

end
