(* ===== verification/Address_Policy.thy ===== *)
theory Address_Policy imports Environment_Config "HOL-Library.Word" begin

text \<open>
  The resolved-address policy of the outbound proxy, \<open>src/proxy/addressPolicy.ts\<close>:
  exact parsing and formatting of IPv4 and IPv6 text, the numeric range classes, and the
  admission of a whole DNS answer set. A \<open>bigint\<close> is a \<open>nat\<close>; shifts and masks are
  \<open>push_bit\<close>, \<open>drop_bit\<close> and \<open>AND\<close>. \<open>localeCompare\<close> is the parameter \<open>le\<close>, true when
  the comparison is not positive.
\<close>

unbundle bit_operations_syntax

definition MAX_RESOLVED_ADDRESS_COUNT :: nat where
  "MAX_RESOLVED_ADDRESS_COUNT = 8"

definition MAX_RESOLVED_ADDRESS_LENGTH :: nat where
  "MAX_RESOLVED_ADDRESS_LENGTH = 45"

datatype address_class = AC_Unspecified | AC_Loopback | AC_Private | AC_UniqueLocal | AC_LinkLocal
  | AC_Shared | AC_Documentation | AC_Benchmark | AC_Multicast | AC_Broadcast | AC_Reserved
  | AC_SpecialUse | AC_GlobalUnicast | AC_Invalid

record parsed_address =
  pa_canonical :: string
  pa_family :: nat
  pa_value :: nat
  pa_mapped :: bool
  pa_mappedIpv4 :: "string option"

record address_classification =
  cl_valid :: bool
  cl_canonical :: "string option"
  cl_family :: "nat option"
  cl_class :: address_class
  cl_mapped :: bool
  cl_mappedIpv4 :: "string option"

datatype admission_reason = EMPTY_ANSWER | ANSWER_SET_OVERSIZED | ANSWER_ADDRESS_OVERSIZED
  | MALFORMED_ADDRESS | ADDRESS_FAMILY_MISMATCH | LOCAL_ADDRESS_NOT_EXACT | ADDRESS_POLICY_DENIED
  | MIXED_ANSWER_SET | MAPPED_ADDRESS_UNSUPPORTED

record admitted_address =
  aa_address :: string
  aa_family :: nat
  aa_class :: address_class
  aa_mapped :: bool

datatype address_admission =
    SetAdmitted "admitted_address list" admitted_address nat
  | SetDenied nat admission_reason
  | SetFailed nat admission_reason

section \<open>IPv4 text\<close>

definition parseDecimalOctet :: "string \<Rightarrow> nat option" where
  "parseDecimalOctet s =
     (if \<not> digits_between 1 3 s \<or> (1 < length s \<and> starts_with ''0'' s) then None
      else if dec_value s \<le> 255 then Some (dec_value s) else None)"

fun map_option_list :: "('a \<Rightarrow> 'b option) \<Rightarrow> 'a list \<Rightarrow> 'b list option" where
  "map_option_list f [] = Some []"
| "map_option_list f (x # xs) =
     (case f x of None \<Rightarrow> None
      | Some y \<Rightarrow> (case map_option_list f xs of None \<Rightarrow> None | Some ys \<Rightarrow> Some (y # ys)))"

definition parseIpv4Value :: "string \<Rightarrow> nat option" where
  "parseIpv4Value s =
     (let parts = split_on CHR ''.'' s
      in if length parts \<noteq> 4 then None
         else map_option (foldl (\<lambda>v octet. (push_bit 8 v) OR octet) 0) (map_option_list parseDecimalOctet parts))"

definition formatIpv4Value :: "nat \<Rightarrow> string" where
  "formatIpv4Value v =
     join_with ''.'' (map (\<lambda>shift. nat_to_dec ((drop_bit shift v) AND 255)) [24, 16, 8, 0])"

section \<open>IPv6 text\<close>

definition hex_char :: "nat \<Rightarrow> char" where
  "hex_char d = (if d < 10 then char_of (48 + d) else char_of (87 + d))"

fun nat_to_hex :: "nat \<Rightarrow> string" where
  "nat_to_hex n = (if n < 16 then [hex_char n] else nat_to_hex (n div 16) @ [hex_char (n mod 16)])"

declare nat_to_hex.simps [simp del]

definition hex_digit_value :: "char \<Rightarrow> nat" where
  "hex_digit_value c = (if is_digit c then code_unit c - 48
     else if is_lower_letter c then code_unit c - 87 else code_unit c - 55)"

definition hex_value :: "string \<Rightarrow> nat" where
  "hex_value s = foldl (\<lambda>v c. 16 * v + hex_digit_value c) 0 s"

definition parseHexGroup :: "string \<Rightarrow> nat option" where
  "parseHexGroup s =
     (if 1 \<le> length s \<and> length s \<le> 4 \<and> (\<forall>c\<in>set s. is_hex_digit c) then Some (hex_value s) else None)"

text \<open>The text before and after the first \<open>::\<close>, from \<open>indexOf\<close> and \<open>slice\<close>.\<close>

fun split_double :: "string \<Rightarrow> (string \<times> string) option" where
  "split_double (a # b # s) =
     (if a = CHR '':'' \<and> b = CHR '':'' then Some ([], s)
      else map_option (\<lambda>(l, r). (a # l, r)) (split_double (b # s)))"
| "split_double _ = None"

definition part_groups :: "string \<Rightarrow> nat list option" where
  "part_groups p =
     (if contains ''.'' p then map_option (\<lambda>v. [(drop_bit 16 v) AND 65535, v AND 65535]) (parseIpv4Value p)
      else map_option (\<lambda>g. [g]) (parseHexGroup p))"

definition dotted_ok :: "string list \<Rightarrow> bool" where
  "dotted_ok parts = (case filter (contains ''.'') parts of
       [] \<Rightarrow> True | [d] \<Rightarrow> last parts = d | _ \<Rightarrow> False)"

text \<open>The groups found, with the missing zeros of a double colon put in.\<close>

definition expand_groups :: "bool \<Rightarrow> nat \<Rightarrow> nat list \<Rightarrow> nat list option" where
  "expand_groups compressed leftGroups groups =
     (if \<not> compressed then (if length groups = 8 then Some groups else None)
      else if 8 \<le> length groups then None
      else Some (take leftGroups groups @ replicate (8 - length groups) 0 @ drop leftGroups groups))"

definition parts_groups :: "bool \<Rightarrow> nat \<Rightarrow> string list \<Rightarrow> nat list option" where
  "parts_groups compressed leftGroups parts =
     (case map_option_list part_groups parts of
        None \<Rightarrow> None
      | Some gss \<Rightarrow> expand_groups compressed leftGroups (concat gss))"

definition parseIpv6Groups :: "string \<Rightarrow> nat list option" where
  "parseIpv6Groups s =
     (if s = [] \<or> contains ''%'' s \<or> (\<exists>c\<in>set s. \<not> (is_hex_digit c \<or> c = CHR '':'' \<or> c = CHR ''.'')) then None
      else let compression = split_double s
      in if (case compression of None \<Rightarrow> False | Some (l, r) \<Rightarrow> split_double r \<noteq> None) then None
      else let leftText = (case compression of None \<Rightarrow> s | Some (l, r) \<Rightarrow> l);
               rightText = (case compression of None \<Rightarrow> [] | Some (l, r) \<Rightarrow> r);
               left = (if leftText = [] then [] else split_on CHR '':'' leftText);
               right = (if rightText = [] then [] else split_on CHR '':'' rightText);
               parts = left @ right
      in if [] \<in> set left \<or> [] \<in> set right then None
      else if \<not> dotted_ok parts then None
      else if filter (contains ''.'') parts \<noteq> [] \<and> compression \<noteq> None \<and> right = [] then None
      else parts_groups (compression \<noteq> None) (length left) parts)"

definition groupsToValue :: "nat list \<Rightarrow> nat" where
  "groupsToValue gs = foldl (\<lambda>v g. (push_bit 16 v) OR g) 0 gs"

definition valueToGroups :: "nat \<Rightarrow> nat list" where
  "valueToGroups v = map (\<lambda>shift. (drop_bit shift v) AND 65535) [112, 96, 80, 64, 48, 32, 16, 0]"

text \<open>The scan for the longest run of zeros, longer than one, the first such: position,
  then the best start and length so far.\<close>

function best_run :: "nat list \<Rightarrow> nat \<Rightarrow> nat option \<times> nat \<Rightarrow> nat option \<times> nat" where
  "best_run gs i best =
     (if length gs \<le> i then best
      else if gs ! i \<noteq> 0 then best_run gs (i + 1) best
      else let len = length (takeWhile (\<lambda>g. g = 0) (drop i gs))
           in best_run gs (i + len) (if snd best < len then (Some i, len) else best))"
  by auto
termination
proof (relation "measure (\<lambda>(gs, i, _). length gs - i)", goal_cases)
  case (3 gs i best len)
  then have "drop i gs = gs ! i # drop (Suc i) gs" by (metis Cons_nth_drop_Suc not_le)
  with 3 have "0 < len" by simp
  moreover have "i < length gs" using 3 by simp
  ultimately show ?case by (simp add: diff_less_mono2)
qed auto

declare best_run.simps [simp del]

definition formatIpv6Value :: "nat \<Rightarrow> string" where
  "formatIpv6Value v =
     (let groups = valueToGroups v
      in case best_run groups 0 (None, 1) of
           (None, _) \<Rightarrow> join_with '':'' (map nat_to_hex groups)
         | (Some start, len) \<Rightarrow>
             (let left = join_with '':'' (map nat_to_hex (take start groups));
                  right = join_with '':'' (map nat_to_hex (drop (start + len) groups))
              in if left = [] \<and> right = [] then ''::''
                 else if left = [] then ''::'' @ right
                 else if right = [] then left @ ''::''
                 else left @ ''::'' @ right))"

definition parseAddress :: "string \<Rightarrow> nat option \<Rightarrow> parsed_address option" where
  "parseAddress a family =
     (if a = [] \<or> MAX_RESOLVED_ADDRESS_LENGTH < length a then None
      else if family \<noteq> None \<and> family \<noteq> Some 4 \<and> family \<noteq> Some 6 then None
      else if contains '':'' a then
        (if family = Some 4 \<or> contains ''['' a \<or> contains '']'' a then None
         else case parseIpv6Groups a of
                None \<Rightarrow> None
              | Some groups \<Rightarrow>
                  (let v = groupsToValue groups; mapped = (drop_bit 32 v = 65535)
                   in Some \<lparr>pa_canonical = formatIpv6Value v, pa_family = 6, pa_value = v, pa_mapped = mapped,
                        pa_mappedIpv4 = (if mapped then Some (formatIpv4Value (v AND 4294967295)) else None)\<rparr>))
      else if family = Some 6 then None
      else case parseIpv4Value a of
             None \<Rightarrow> None
           | Some v \<Rightarrow> Some \<lparr>pa_canonical = formatIpv4Value v, pa_family = 4, pa_value = v,
                          pa_mapped = False, pa_mappedIpv4 = None\<rparr>)"

section \<open>Classes\<close>

definition ipv4InRange :: "nat \<Rightarrow> string \<Rightarrow> nat \<Rightarrow> bool" where
  "ipv4InRange v base prefix = (case parseIpv4Value base of None \<Rightarrow> False
     | Some start \<Rightarrow> drop_bit (32 - prefix) v = drop_bit (32 - prefix) start)"

definition ipv6InRange :: "nat \<Rightarrow> string \<Rightarrow> nat \<Rightarrow> bool" where
  "ipv6InRange v base prefix = (case parseAddress base (Some 6) of None \<Rightarrow> False
     | Some p \<Rightarrow> drop_bit (128 - prefix) v = drop_bit (128 - prefix) (pa_value p))"

definition classifyIpv4 :: "nat \<Rightarrow> address_class" where
  "classifyIpv4 v =
     (if ipv4InRange v ''0.0.0.0'' 8 then AC_Unspecified
      else if ipv4InRange v ''127.0.0.0'' 8 then AC_Loopback
      else if ipv4InRange v ''10.0.0.0'' 8 \<or> ipv4InRange v ''172.16.0.0'' 12 \<or> ipv4InRange v ''192.168.0.0'' 16
        then AC_Private
      else if ipv4InRange v ''169.254.0.0'' 16 then AC_LinkLocal
      else if ipv4InRange v ''100.64.0.0'' 10 then AC_Shared
      else if ipv4InRange v ''224.0.0.0'' 4 then AC_Multicast
      else if v = 4294967295 then AC_Broadcast
      else if ipv4InRange v ''192.0.2.0'' 24 \<or> ipv4InRange v ''198.51.100.0'' 24 \<or> ipv4InRange v ''203.0.113.0'' 24
        then AC_Documentation
      else if ipv4InRange v ''198.18.0.0'' 15 then AC_Benchmark
      else if ipv4InRange v ''192.0.0.0'' 24 \<or> ipv4InRange v ''192.31.196.0'' 24
           \<or> ipv4InRange v ''192.52.193.0'' 24 \<or> ipv4InRange v ''192.88.99.0'' 24
        then AC_SpecialUse
      else if ipv4InRange v ''240.0.0.0'' 4 then AC_Reserved
      else AC_GlobalUnicast)"

definition classifyIpv6 :: "nat \<Rightarrow> address_class" where
  "classifyIpv6 v =
     (if v = 0 then AC_Unspecified
      else if v = 1 then AC_Loopback
      else if ipv6InRange v ''fe80::'' 10 then AC_LinkLocal
      else if ipv6InRange v ''fc00::'' 7 then AC_UniqueLocal
      else if ipv6InRange v ''ff00::'' 8 then AC_Multicast
      else if ipv6InRange v ''2001:db8::'' 32 then AC_Documentation
      else if ipv6InRange v ''2001:2::'' 48 then AC_Benchmark
      else if ipv6InRange v ''100::'' 64 \<or> ipv6InRange v ''64:ff9b::'' 96 \<or> ipv6InRange v ''64:ff9b:1::'' 48
           \<or> ipv6InRange v ''2001::'' 32 \<or> ipv6InRange v ''2001:1::'' 32 \<or> ipv6InRange v ''2001:3::'' 32
           \<or> ipv6InRange v ''2001:10::'' 28 \<or> ipv6InRange v ''2001:20::'' 28 \<or> ipv6InRange v ''2002::'' 16
        then AC_SpecialUse
      else if 42535295865117307932921825928971026432 \<le> v \<and> v \<le> 85070591730234615865843651857942052863
        then AC_GlobalUnicast
      else AC_Reserved)"

definition classifyResolvedAddress :: "string \<Rightarrow> nat option \<Rightarrow> address_classification" where
  "classifyResolvedAddress a family =
     (case parseAddress a family of
        None \<Rightarrow> \<lparr>cl_valid = False, cl_canonical = None, cl_family = None, cl_class = AC_Invalid,
                 cl_mapped = False, cl_mappedIpv4 = None\<rparr>
      | Some p \<Rightarrow>
          \<lparr>cl_valid = True, cl_canonical = Some (pa_canonical p), cl_family = Some (pa_family p),
           cl_class = (if pa_mapped p then classifyIpv4 ((pa_value p) AND 4294967295)
                       else if pa_family p = 4 then classifyIpv4 (pa_value p)
                       else classifyIpv6 (pa_value p)),
           cl_mapped = pa_mapped p, cl_mappedIpv4 = pa_mappedIpv4 p\<rparr>)"

definition normalizeResolvedAddress :: "string \<Rightarrow> nat option \<Rightarrow> string option" where
  "normalizeResolvedAddress a family = map_option pa_canonical (parseAddress a family)"

section \<open>Answer sets\<close>

definition exactLocalLoopback :: "address_classification \<Rightarrow> bool" where
  "exactLocalLoopback c = (cl_valid c \<and> \<not> cl_mapped c
     \<and> ((cl_family c = Some 4 \<and> cl_canonical c = Some ''127.0.0.1'')
        \<or> (cl_family c = Some 6 \<and> cl_canonical c = Some ''::1'')))"

definition acceptableForEnvironment :: "environment_name \<Rightarrow> address_classification \<Rightarrow> bool" where
  "acceptableForEnvironment env c =
     (if \<not> cl_valid c \<or> cl_mapped c then False
      else if env = Local then exactLocalLoopback c
      else cl_class c = AC_GlobalUnicast)"

definition rejectedReason :: "environment_name \<Rightarrow> address_classification list \<Rightarrow> admission_reason" where
  "rejectedReason env items =
     (if list_ex cl_mapped items then MAPPED_ADDRESS_UNSUPPORTED
      else if env = Local then LOCAL_ADDRESS_NOT_EXACT
      else ADDRESS_POLICY_DENIED)"

text \<open>The shape checks on one answer of the resolver.\<close>

definition answer_record :: "json \<Rightarrow> (admission_reason, string \<times> nat) result" where
  "answer_record j =
     (case j of
        JObj fs \<Rightarrow>
          if length fs \<noteq> 2 \<or> list_ex (\<lambda>k. k \<noteq> ''address'' \<and> k \<noteq> ''family'') (map fst fs) then Inl MALFORMED_ADDRESS
          else (case map_of fs ''address'' of
                  Some (JStr a) \<Rightarrow>
                    if MAX_RESOLVED_ADDRESS_LENGTH < length a then Inl ANSWER_ADDRESS_OVERSIZED
                    else if map_of fs ''family'' = Some (JNum 4) then Inr (a, 4)
                    else if map_of fs ''family'' = Some (JNum 6) then Inr (a, 6)
                    else Inl MALFORMED_ADDRESS
                | _ \<Rightarrow> Inl MALFORMED_ADDRESS)
      | _ \<Rightarrow> Inl MALFORMED_ADDRESS)"

definition classify_answer :: "json \<Rightarrow> (admission_reason, address_classification) result" where
  "classify_answer j = bind_res (answer_record j) (\<lambda>(a, f).
     let c = classifyResolvedAddress a (Some f)
     in if \<not> cl_valid c
        then Inl (if cl_valid (classifyResolvedAddress a None) then ADDRESS_FAMILY_MISMATCH else MALFORMED_ADDRESS)
        else Inr c)"

text \<open>The key \<open>`${family}:${canonicalAddress}`\<close>.\<close>

definition answer_key :: "address_classification \<Rightarrow> string" where
  "answer_key c = nat_to_dec (the (cl_family c)) @ '':'' @ the (cl_canonical c)"

definition collect_answer ::
  "(string \<times> address_classification) list \<Rightarrow> json \<Rightarrow> (admission_reason, (string \<times> address_classification) list) result" where
  "collect_answer m j = bind_res (classify_answer j) (\<lambda>c. Inr (map_set m (answer_key c) c))"

definition address_le :: "(string \<Rightarrow> string \<Rightarrow> bool) \<Rightarrow> admitted_address \<Rightarrow> admitted_address \<Rightarrow> bool" where
  "address_le le a b = (if aa_family a \<noteq> aa_family b then aa_family a < aa_family b
     else le (aa_address a) (aa_address b))"

definition admitted_of :: "address_classification \<Rightarrow> admitted_address" where
  "admitted_of c = \<lparr>aa_address = the (cl_canonical c), aa_family = the (cl_family c),
     aa_class = cl_class c, aa_mapped = cl_mapped c\<rparr>"

definition admitResolvedAddressSet ::
  "(string \<Rightarrow> string \<Rightarrow> bool) \<Rightarrow> environment_name \<Rightarrow> json list \<Rightarrow> address_admission" where
  "admitResolvedAddressSet le env answers =
     (let n = length answers
      in if answers = [] then SetFailed 0 EMPTY_ANSWER
         else if MAX_RESOLVED_ADDRESS_COUNT < n then SetFailed n ANSWER_SET_OVERSIZED
         else case foldM_res collect_answer [] answers of
                Inl r \<Rightarrow> SetFailed n r
              | Inr unique \<Rightarrow>
                  (let items = map snd unique;
                       ok = filter (acceptableForEnvironment env) items
                   in if length ok \<noteq> length items
                      then SetDenied n (if ok \<noteq> [] then MIXED_ANSWER_SET else rejectedReason env items)
                      else let addresses = sort_by (address_le le) (map admitted_of ok)
                           in if addresses = [] then SetFailed n EMPTY_ANSWER
                              else SetAdmitted addresses (hd addresses) n))"

end
