(* ===== verification/Address_Text.thy ===== *)
theory Address_Text imports Address_Policy begin

text \<open>
  Text of resolved addresses: shifts and masks as arithmetic, decimal and hexadecimal
  numerals, splitting what was joined, and from these the two facts the proxy's
  connection depends on: an IPv4 text has one spelling, and parsing the canonical text
  of an address gives that address back.
\<close>

section \<open>Shifts and masks\<close>

lemma push_or_add: "b < 2 ^ n \<Longrightarrow> (push_bit n a) OR b = a * 2 ^ n + (b :: nat)"
proof -
  assume b: "b < 2 ^ n"
  have "(push_bit n a) OR b = push_bit n a + b"
  proof (rule disjunctive_add [symmetric])
    fix k
    show "\<not> bit (push_bit n a) k \<or> \<not> bit b k"
    proof (cases "k < n")
      case True
      then show ?thesis by (simp add: bit_push_bit_iff_nat)
    next
      case False
      then have "(2 :: nat) ^ n \<le> 2 ^ k" by (intro power_increasing) auto
      with b have "b < 2 ^ k" by (rule order_less_le_trans)
      then show ?thesis by (simp add: bit_iff_odd)
    qed
  qed
  then show ?thesis by (simp add: push_bit_eq_mult)
qed

lemma and_255: "v AND 255 = v mod (256 :: nat)"
  using take_bit_eq_mask [of 8 v] by (simp add: take_bit_eq_mod mask_eq_exp_minus_1)

lemma and_65535: "v AND 65535 = v mod (65536 :: nat)"
  using take_bit_eq_mask [of 16 v] by (simp add: take_bit_eq_mod mask_eq_exp_minus_1)

lemmas bits_arith = drop_bit_eq_div and_255 and_65535

section \<open>Decimal octets\<close>

lemma is_digit_cases: "is_digit c \<Longrightarrow> c = digit_char (digit_value c) \<and> digit_value c < 10"
  by (auto simp: is_digit_def digit_char_def digit_value_def code_unit_def)

lemma digit_char_inj: "d < 10 \<Longrightarrow> e < 10 \<Longrightarrow> digit_char d = digit_char e \<longleftrightarrow> d = e"
  by (metis digit_value_char)

lemma zero_char: "CHR ''0'' = digit_char 0"
  by (simp add: digit_char_def char_of_def bit_iff_odd)

lemma hd_append_snoc: "t \<noteq> [] \<Longrightarrow> hd (t @ [c]) = hd t"
  by simp

lemma nat_to_dec_no_leading_zero: "0 < n \<Longrightarrow> hd (nat_to_dec n) \<noteq> CHR ''0''"
proof (induction n rule: nat_to_dec.induct)
  case (1 n)
  show ?case
  proof (cases "n < 10")
    case True
    then show ?thesis using 1 by (simp add: nat_to_dec.simps [of n] zero_char digit_char_inj)
  next
    case False
    then show ?thesis using 1 by (simp add: nat_to_dec.simps [of n])
  qed
qed

lemma length_nat_to_dec: "n < 10 ^ Suc k \<Longrightarrow> length (nat_to_dec n) \<le> Suc k"
proof (induction k arbitrary: n)
  case 0
  then show ?case by (simp add: nat_to_dec.simps [of n])
next
  case (Suc k)
  then show ?case by (simp add: nat_to_dec.simps [of n] less_mult_imp_div_less mult.commute)
qed

lemma dec_value_pos: "\<forall>c\<in>set s. is_digit c \<Longrightarrow> s \<noteq> [] \<Longrightarrow> hd s \<noteq> CHR ''0'' \<Longrightarrow> 0 < dec_value s"
proof (induction s rule: rev_induct)
  case (snoc c s)
  show ?case
  proof (cases "s = []")
    case True
    with snoc.prems have "c = digit_char (digit_value c)" "c \<noteq> digit_char 0"
      by (auto simp: zero_char dest: is_digit_cases)
    then have "digit_value c \<noteq> 0" by metis
    then show ?thesis using True by simp
  next
    case False
    then show ?thesis using snoc by simp
  qed
qed simp

lemma nat_to_dec_dec_value:
  "\<forall>c\<in>set s. is_digit c \<Longrightarrow> s \<noteq> [] \<Longrightarrow> 1 < length s \<longrightarrow> hd s \<noteq> CHR ''0'' \<Longrightarrow> nat_to_dec (dec_value s) = s"
proof (induction s rule: rev_induct)
  case (snoc c s)
  have c: "c = digit_char (digit_value c)" "digit_value c < 10" using snoc.prems is_digit_cases by auto
  show ?case
  proof (cases "s = []")
    case True
    then show ?thesis using c by (simp add: nat_to_dec.simps [of "digit_value c"])
  next
    case False
    with snoc.prems have "hd s \<noteq> CHR ''0''" by (cases s) auto
    with False snoc have "nat_to_dec (dec_value s) = s" "0 < dec_value s" by (auto intro!: dec_value_pos)
    then show ?thesis using c by (simp add: nat_to_dec.simps [of "10 * dec_value s + digit_value c"])
  qed
qed simp

lemma parseDecimalOctet_Some:
  "parseDecimalOctet s = Some n \<longleftrightarrow> n \<le> 255 \<and> s = nat_to_dec n"
proof
  assume s: "parseDecimalOctet s = Some n"
  then have d: "digits_between 1 3 s" "\<not> (1 < length s \<and> starts_with ''0'' s)" "n = dec_value s" "n \<le> 255"
    by (auto simp: parseDecimalOctet_def split: if_splits)
  then have "nat_to_dec (dec_value s) = s"
    by (intro nat_to_dec_dec_value)
       (cases s; auto simp: digits_between_def list_all_iff starts_with_def)+
  with d show "n \<le> 255 \<and> s = nat_to_dec n" by simp
next
  assume n: "n \<le> 255 \<and> s = nat_to_dec n"
  have "1 < length (nat_to_dec n) \<longrightarrow> \<not> starts_with ''0'' (nat_to_dec n)"
  proof
    assume "1 < length (nat_to_dec n)"
    then have "0 < n" by (cases n) (auto simp: nat_to_dec.simps [of 0])
    from nat_to_dec_no_leading_zero [OF this] show "\<not> starts_with ''0'' (nat_to_dec n)"
      by (cases "nat_to_dec n") (auto simp: starts_with_def)
  qed
  moreover have "digits_between 1 3 (nat_to_dec n)"
    using n length_nat_to_dec [of n 2] nat_to_dec_nonempty [of n]
    by (auto simp: digits_between_def list_all_iff Suc_le_eq dest: nat_to_dec_digits)
  ultimately show "parseDecimalOctet s = Some n" using n by (simp add: parseDecimalOctet_def)
qed

section \<open>IPv4\<close>

lemma map_option_list_Some:
  "map_option_list f xs = Some ys \<longleftrightarrow> list_all2 (\<lambda>x y. f x = Some y) xs ys"
proof (induction xs arbitrary: ys)
  case (Cons x xs)
  show ?case by (auto simp: list_all2_Cons1 Cons.IH [symmetric] split: option.splits)
qed auto

definition octets_value :: "nat \<Rightarrow> nat \<Rightarrow> nat \<Rightarrow> nat \<Rightarrow> nat" where
  "octets_value a b c d = ((a * 256 + b) * 256 + c) * 256 + d"

lemma fold_octets:
  "\<lbrakk>a \<le> 255; b \<le> 255; c \<le> 255; d \<le> 255\<rbrakk> \<Longrightarrow>
     foldl (\<lambda>v octet. (push_bit 8 v) OR octet) 0 [a, b, c, d] = octets_value a b c d"
  by (simp add: push_or_add octets_value_def)

lemma horner_256: "d \<le> 255 \<Longrightarrow> (x * 256 + d) div 256 = x" "d \<le> 255 \<Longrightarrow> (x * 256 + d) mod 256 = (d :: nat)"
  by auto

lemma div_256_256: "(v :: nat) div 65536 = v div 256 div 256" "v div 16777216 = v div 256 div 256 div 256"
  by (simp_all add: div_mult2_eq [symmetric])

lemma octets_value_digits:
  assumes "a \<le> 255" and "b \<le> 255" and "c \<le> 255" and "d \<le> 255"
  shows "octets_value a b c d < 4294967296"
    "octets_value a b c d div 16777216 mod 256 = a" "octets_value a b c d div 65536 mod 256 = b"
    "octets_value a b c d div 256 mod 256 = c" "octets_value a b c d mod 256 = d"
proof -
  show "octets_value a b c d < 4294967296" using assms by (auto simp: octets_value_def)
  have "a mod 256 = a" using assms(1) by simp
  then show "octets_value a b c d div 16777216 mod 256 = a"
    by (simp only: octets_value_def div_256_256 horner_256 assms)
qed (simp_all only: octets_value_def div_256_256 horner_256 assms)

lemma value_octets:
  assumes "v < 4294967296"
  shows "octets_value (v div 16777216 mod 256) (v div 65536 mod 256) (v div 256 mod 256) (v mod 256) = (v :: nat)"
proof -
  have "v div 256 div 256 div 256 < 256" using assms by (simp add: div_256_256 [symmetric] less_mult_imp_div_less)
  then have "v div 256 div 256 div 256 mod 256 = v div 256 div 256 div 256" by simp
  then show ?thesis unfolding octets_value_def div_256_256 by (simp only: div_mult_mod_eq)
qed

lemma formatIpv4Value_eq:
  "formatIpv4Value v = join_with ''.'' (map nat_to_dec
     [v div 16777216 mod 256, v div 65536 mod 256, v div 256 mod 256, v mod 256])"
  by (simp add: formatIpv4Value_def bits_arith)

lemma nat_to_dec_no_char: "\<not> is_digit c \<Longrightarrow> c \<notin> set (nat_to_dec n)"
  using nat_to_dec_digits by blast

lemma dot_not_digit [simp]: "\<not> is_digit CHR ''.''" "\<not> is_digit CHR '':''"
  by (simp_all add: is_digit_def code_unit_def)

lemma split_dotted:
  "ns \<noteq> [] \<Longrightarrow> split_on CHR ''.'' (join_with ''.'' (map nat_to_dec ns)) = map nat_to_dec ns"
  by (rule split_join) (auto simp: nat_to_dec_no_char)

lemma length_4_list: "length xs = 4 \<Longrightarrow> \<exists>a b c d. xs = [a, b, c, d]"
  by (auto simp: numeral_eq_Suc length_Suc_conv)

text \<open>IPv4 text is canonical: a text parses to a value exactly when it is the text the
  formatter writes for that 32-bit value.\<close>

lemma ipv4_canonical:
  "parseIpv4Value s = Some v \<longleftrightarrow> v < 4294967296 \<and> s = formatIpv4Value v"
proof
  assume "parseIpv4Value s = Some v"
  then obtain ns where len: "length (split_on CHR ''.'' s) = 4"
      and ns: "list_all2 (\<lambda>p n. parseDecimalOctet p = Some n) (split_on CHR ''.'' s) ns"
      and v: "v = foldl (\<lambda>v octet. (push_bit 8 v) OR octet) 0 ns"
    by (auto simp: parseIpv4Value_def Let_def map_option_list_Some split: if_splits)
  have "length ns = 4" using len list_all2_lengthD [OF ns] by simp
  then obtain a b c d where abcd: "ns = [a, b, c, d]" using length_4_list by blast
  have parts: "split_on CHR ''.'' s = map nat_to_dec ns" "\<forall>n\<in>set ns. n \<le> 255"
    using ns by (induction rule: list_all2_induct) (auto simp: parseDecimalOctet_Some)
  have small: "a \<le> 255" "b \<le> 255" "c \<le> 255" "d \<le> 255" using parts(2) abcd by auto
  have v': "v = octets_value a b c d" using v abcd fold_octets small by simp
  have "s = join_with ''.'' (map nat_to_dec ns)" using join_split [of "CHR ''.''" s] parts(1) by simp
  then show "v < 4294967296 \<and> s = formatIpv4Value v"
    unfolding formatIpv4Value_eq v' octets_value_digits [OF small] using octets_value_digits(1) [OF small] abcd
    by simp
next
  assume v: "v < 4294967296 \<and> s = formatIpv4Value v"
  let ?ns = "[v div 16777216 mod 256, v div 65536 mod 256, v div 256 mod 256, v mod 256]"
  have small: "n \<in> set ?ns \<Longrightarrow> n \<le> 255" for n by (auto simp: less_Suc_eq_le [symmetric])
  have "split_on CHR ''.'' s = map nat_to_dec ?ns"
    using v split_dotted [of ?ns] by (simp add: formatIpv4Value_eq)
  moreover have "map_option_list parseDecimalOctet (map nat_to_dec ?ns) = Some ?ns"
    unfolding map_option_list_Some by (simp add: parseDecimalOctet_Some less_Suc_eq_le [symmetric])
  moreover have "foldl (\<lambda>v octet. (push_bit 8 v) OR octet) 0 ?ns = v"
    using v value_octets by (subst fold_octets) (auto intro: small)
  ultimately show "parseIpv4Value s = Some v" by (simp add: parseIpv4Value_def Let_def)
qed

section \<open>Hexadecimal groups\<close>

lemma hex_char_facts:
  "d < 16 \<Longrightarrow> is_hex_digit (hex_char d) \<and> hex_digit_value (hex_char d) = d"
  by (cases "d < 10")
     (auto simp: hex_char_def is_hex_digit_def is_digit_def is_lower_letter_def hex_digit_value_def code_unit_def)

lemma nat_to_hex_digits: "c \<in> set (nat_to_hex n) \<Longrightarrow> is_hex_digit c"
proof (induction n rule: nat_to_hex.induct)
  case (1 n)
  then show ?case by (cases "n < 16") (auto simp: nat_to_hex.simps [of n] hex_char_facts)
qed

lemma nat_to_hex_nonempty [simp]: "nat_to_hex n \<noteq> []"
  by (simp add: nat_to_hex.simps [of n])

lemma length_nat_to_hex: "n < 16 ^ Suc k \<Longrightarrow> length (nat_to_hex n) \<le> Suc k"
proof (induction k arbitrary: n)
  case 0
  then show ?case by (simp add: nat_to_hex.simps [of n])
next
  case (Suc k)
  then show ?case by (simp add: nat_to_hex.simps [of n] less_mult_imp_div_less mult.commute)
qed

lemma hex_value_snoc [simp]: "hex_value (s @ [c]) = 16 * hex_value s + hex_digit_value c"
  by (simp add: hex_value_def)

lemma hex_value_nat_to_hex [simp]: "hex_value (nat_to_hex n) = n"
proof (induction n rule: nat_to_hex.induct)
  case (1 n)
  then show ?case
    by (cases "n < 16") (simp_all add: nat_to_hex.simps [of n] hex_char_facts, simp add: hex_value_def hex_char_facts)
qed

lemma hex_digit_value_bound: "is_hex_digit c \<Longrightarrow> hex_digit_value c < 16"
  by (auto simp: is_hex_digit_def is_digit_def is_lower_letter_def hex_digit_value_def)

lemma hex_value_bound: "\<forall>c\<in>set s. is_hex_digit c \<Longrightarrow> hex_value s < 16 ^ length s"
proof (induction s rule: rev_induct)
  case Nil
  then show ?case by (simp add: hex_value_def)
next
  case (snoc c s)
  then have "hex_value s < 16 ^ length s" "hex_digit_value c < 16" by (auto intro: hex_digit_value_bound)
  then have "16 * Suc (hex_value s) \<le> 16 * 16 ^ length s" by (intro mult_le_mono2) simp
  then show ?case using \<open>hex_digit_value c < 16\<close> by simp
qed

lemma parseHexGroup_nat_to_hex: "g < 65536 \<Longrightarrow> parseHexGroup (nat_to_hex g) = Some g"
  using length_nat_to_hex [of g 3] nat_to_hex_digits [of _ g] nat_to_hex_nonempty [of g]
  by (auto simp: parseHexGroup_def Suc_le_eq simp del: nat_to_hex_nonempty)

lemma parseHexGroup_bound: "parseHexGroup s = Some g \<Longrightarrow> g < 65536"
proof -
  assume "parseHexGroup s = Some g"
  then have s: "length s \<le> 4" "\<forall>c\<in>set s. is_hex_digit c" "g = hex_value s"
    by (auto simp: parseHexGroup_def split: if_splits)
  have "hex_value s < 16 ^ length s" using hex_value_bound s(2) by blast
  also have "(16 :: nat) ^ length s \<le> 16 ^ 4" using s(1) by (intro power_increasing) auto
  finally show ?thesis using s(3) by simp
qed

lemma hex_not_sep [simp]: "\<not> is_hex_digit CHR ''.''" "\<not> is_hex_digit CHR '':''" "\<not> is_hex_digit CHR ''[''"
    "\<not> is_hex_digit CHR '']''" "\<not> is_hex_digit CHR ''%''"
  by (simp_all add: is_hex_digit_def is_digit_def code_unit_def)

lemma nat_to_hex_no_char: "\<not> is_hex_digit c \<Longrightarrow> c \<notin> set (nat_to_hex n)"
  using nat_to_hex_digits by blast

lemma set_join_hex: "c \<in> set (join_with '':'' (map nat_to_hex gs)) \<Longrightarrow> is_hex_digit c \<or> c = CHR '':''"
proof (induction gs)
  case (Cons g gs)
  then show ?case by (cases "gs = []") (auto simp: join_with_Cons dest: nat_to_hex_digits)
qed simp

lemma length_join_hex: "\<forall>g\<in>set gs. g < 65536 \<Longrightarrow> length (join_with '':'' (map nat_to_hex gs)) \<le> 5 * length gs"
proof (induction gs)
  case (Cons g gs)
  have "length (nat_to_hex g) \<le> 4" using Cons.prems length_nat_to_hex [of g 3] by simp
  with Cons show ?case by (cases gs) auto
qed simp

lemma join_hex_empty: "join_with '':'' (map nat_to_hex gs) = [] \<longleftrightarrow> gs = []"
  by (cases gs; cases "tl gs") auto

section \<open>The double colon\<close>

lemma split_double_skip:
  "CHR '':'' \<notin> set p \<Longrightarrow> split_double (p @ s) = map_option (\<lambda>(l, r). (p @ l, r)) (split_double s)"
proof (induction p)
  case (Cons a p)
  have "split_double (a # t) = map_option (\<lambda>(l, r). (a # l, r)) (split_double t)" for t
    using Cons.prems by (cases t) auto
  with Cons show ?case by (cases "split_double s") auto
next
  case Nil
  show ?case by (cases "split_double s") auto
qed

lemma split_double_free: "CHR '':'' \<notin> set p \<Longrightarrow> split_double p = None"
  using split_double_skip [of p "[]"] by simp

lemma split_double_colon: "s \<noteq> [] \<Longrightarrow> hd s \<noteq> CHR '':'' \<Longrightarrow> split_double (CHR '':'' # s) = map_option (\<lambda>(l, r). (CHR '':'' # l, r)) (split_double s)"
  by (cases s) auto

lemma hd_join_hex: "gs \<noteq> [] \<Longrightarrow> hd (join_with '':'' (map nat_to_hex gs) @ s) \<noteq> CHR '':''"
proof -
  assume "gs \<noteq> []"
  then obtain g gs' where "gs = g # gs'" by (cases gs) auto
  moreover have "hd (nat_to_hex g) \<noteq> CHR '':''" 
    by (metis hd_in_set hex_not_sep(2) nat_to_hex_nonempty nat_to_hex_digits)
  ultimately show ?thesis by (cases gs') (auto simp: hd_append)
qed

text \<open>What follows a joined list decides where the first double colon is.\<close>

lemma split_double_join:
  "split_double (join_with '':'' (map nat_to_hex gs) @ s)
     = map_option (\<lambda>(l, r). (join_with '':'' (map nat_to_hex gs) @ l, r)) (split_double s)"
proof (induction gs)
  case Nil
  show ?case by (cases "split_double s") auto
next
  case (Cons g gs)
  have colon: "CHR '':'' \<notin> set (nat_to_hex g)" by (simp add: nat_to_hex_no_char)
  show ?case
  proof (cases "gs = []")
    case True
    then show ?thesis using split_double_skip [OF colon] by simp
  next
    case False
    let ?t = "join_with '':'' (map nat_to_hex gs) @ s"
    have "?t \<noteq> []" using False by (simp add: join_hex_empty)
    then have "split_double (CHR '':'' # ?t) = map_option (\<lambda>(l, r). (CHR '':'' # l, r)) (split_double ?t)"
      using hd_join_hex [OF False] by (rule split_double_colon)
    then show ?thesis using False Cons.IH split_double_skip [OF colon, of "CHR '':'' # ?t"]
      by (cases "split_double s") (auto simp: join_with_Cons)
  qed
qed

lemma split_double_join_none: "split_double (join_with '':'' (map nat_to_hex gs)) = None"
  using split_double_join [of gs "[]"] by simp

lemma split_double_join_some:
  "split_double (join_with '':'' (map nat_to_hex gs) @ ''::'' @ r) = Some (join_with '':'' (map nat_to_hex gs), r)"
  using split_double_join [of gs "''::'' @ r"] by simp

section \<open>Groups and values\<close>

lemma groupsToValue_snoc: "g < 65536 \<Longrightarrow> groupsToValue (gs @ [g]) = groupsToValue gs * 65536 + g"
  using push_or_add [of g 16 "groupsToValue gs"] by (simp add: groupsToValue_def)

lemma groupsToValue_bound:
  "\<forall>g\<in>set gs. g < 65536 \<Longrightarrow> groupsToValue gs < 65536 ^ length gs"
proof (induction gs rule: rev_induct)
  case (snoc g gs)
  then have "Suc (groupsToValue gs) * 65536 \<le> 65536 ^ length gs * 65536" by (intro mult_le_mono1) simp
  then show ?case using snoc.prems by (simp add: groupsToValue_snoc)
qed (simp add: groupsToValue_def)

lemma length_valueToGroups [simp]: "length (valueToGroups v) = 8"
  by (simp add: valueToGroups_def)

lemma valueToGroups_small: "g \<in> set (valueToGroups v) \<Longrightarrow> g < 65536"
  by (auto simp: valueToGroups_def bits_arith)

lemma valueToGroups_div:
  "valueToGroups v = [v div 65536 ^ 7 mod 65536, v div 65536 ^ 6 mod 65536, v div 65536 ^ 5 mod 65536,
     v div 65536 ^ 4 mod 65536, v div 65536 ^ 3 mod 65536, v div 65536 ^ 2 mod 65536,
     v div 65536 mod 65536, v mod 65536]"
  by (simp add: valueToGroups_def bits_arith)

lemma groupsToValue_valueToGroups:
  assumes "v < 2 ^ 128"
  shows "groupsToValue (valueToGroups v) = v"
proof -
  define d where "d n = v div 65536 ^ n" for n
  have step: "d (Suc n) * 65536 + d n mod 65536 = d n" for n
    unfolding d_def power_Suc2 div_mult2_eq by (rule div_mult_mod_eq)
  have low: "d 2 * 65536 + d 1 mod 65536 = d 1" "d 1 * 65536 + d 0 mod 65536 = d 0"
    using step [of 1] step [of 0] by (simp_all only: numeral_2_eq_2 One_nat_def)
  have mid: "d 3 * 65536 + d 2 mod 65536 = d 2"
    using step [of 2] by (simp only: numeral_2_eq_2 numeral_3_eq_3)
  have high: "d 7 * 65536 + d 6 mod 65536 = d 6" "d 6 * 65536 + d 5 mod 65536 = d 5"
    "d 5 * 65536 + d 4 mod 65536 = d 4" "d 4 * 65536 + d 3 mod 65536 = d 3"
    by (rule step [of 6, simplified] step [of 5, simplified] step [of 4, simplified] step [of 3, simplified])+
  note steps = high mid low
  have "v < 65536 * 65536 ^ 7" using assms by simp
  then have "d 7 < 65536" unfolding d_def by (rule less_mult_imp_div_less)
  then have top: "d 7 mod 65536 = d 7" by simp
  have gv: "groupsToValue [a, b, c, d, e, f, g, h]
      = ((((((a * 65536 + b) * 65536 + c) * 65536 + d) * 65536 + e) * 65536 + f) * 65536 + g) * 65536 + h"
    if "a < 65536" "b < 65536" "c < 65536" "d < 65536" "e < 65536" "f < 65536" "g < 65536" "h < 65536"
    for a b c d e f g h :: nat
    using that push_or_add [of _ 16] by (simp add: groupsToValue_def)
  have "valueToGroups v = [d 7 mod 65536, d 6 mod 65536, d 5 mod 65536, d 4 mod 65536,
      d 3 mod 65536, d 2 mod 65536, d 1 mod 65536, d 0 mod 65536]"
    unfolding valueToGroups_div d_def by simp
  moreover have "groupsToValue [d 7 mod 65536, d 6 mod 65536, d 5 mod 65536, d 4 mod 65536,
      d 3 mod 65536, d 2 mod 65536, d 1 mod 65536, d 0 mod 65536] = d 0"
    by (subst gv; (simp; fail)?) (simp only: top steps)
  ultimately show ?thesis by (simp add: d_def)
qed

section \<open>The longest run of zeros\<close>

definition zero_run :: "nat list \<Rightarrow> nat option \<times> nat \<Rightarrow> bool" where
  "zero_run gs best = (case best of (None, n) \<Rightarrow> 1 \<le> n
     | (Some s, n) \<Rightarrow> 2 \<le> n \<and> gs = take s gs @ replicate n 0 @ drop (s + n) gs)"

lemma takeWhile_zero_run:
  "i \<le> length gs \<Longrightarrow> n = length (takeWhile (\<lambda>g. g = 0) (drop i gs)) \<Longrightarrow>
     gs = take i gs @ replicate n (0 :: nat) @ drop (i + n) gs"
proof -
  assume n: "n = length (takeWhile (\<lambda>g. g = 0) (drop i gs))"
  have "takeWhile (\<lambda>g. g = 0) xs = replicate (length (takeWhile (\<lambda>g. g = 0) xs)) 0" for xs :: "nat list"
    by (induction xs) auto
  then have "takeWhile (\<lambda>g. g = 0) (drop i gs) = replicate n 0" using n by metis
  moreover have "dropWhile (\<lambda>g. g = 0) (drop i gs) = drop (i + n) gs"
    using n by (simp add: dropWhile_eq_drop add.commute)
  ultimately show ?thesis by (metis append_take_drop_id takeWhile_dropWhile_id)
qed

lemma best_run_zero: "zero_run gs best \<Longrightarrow> zero_run gs (best_run gs i best)"
proof (induction gs i best rule: best_run.induct)
  case (1 gs i best)
  show ?case
  proof (cases "length gs \<le> i")
    case True
    then show ?thesis using "1.prems" by (simp add: best_run.simps)
  next
    case in_range: False
    let ?len = "length (takeWhile (\<lambda>g. g = 0) (drop i gs))"
    show ?thesis
    proof (cases "gs ! i = 0")
      case False
      then show ?thesis using "1.IH"(1) "1.prems" in_range by (simp add: best_run.simps [of gs i])
    next
      case True
      have "1 \<le> snd best" using "1.prems" by (auto simp: zero_run_def split: prod.splits option.splits)
      then have "zero_run gs (if snd best < ?len then (Some i, ?len) else best)"
        using "1.prems" takeWhile_zero_run [of i gs ?len] in_range by (auto simp: zero_run_def)
      then show ?thesis using "1.IH"(2) [OF in_range _ refl] True in_range
        by (simp add: best_run.simps [of gs i] Let_def)
    qed
  qed
qed

section \<open>IPv6\<close>

lemma part_groups_hex: "g < 65536 \<Longrightarrow> part_groups (nat_to_hex g) = Some [g]"
  by (simp add: part_groups_def nat_to_hex_no_char parseHexGroup_nat_to_hex)

lemma map_part_groups:
  "\<forall>g\<in>set gs. g < 65536 \<Longrightarrow> map_option_list part_groups (map nat_to_hex gs) = Some (map (\<lambda>g. [g]) gs)"
  by (induction gs) (auto simp: part_groups_hex)

lemma no_dotted: "filter (contains ''.'') (map nat_to_hex gs) = []"
  by (auto simp: filter_empty_conv nat_to_hex_no_char)

lemma split_hex:
  "(if join_with '':'' (map nat_to_hex gs) = [] then [] else split_on CHR '':'' (join_with '':'' (map nat_to_hex gs)))
     = map nat_to_hex gs"
  by (auto simp: join_hex_empty nat_to_hex_no_char intro!: split_join)

lemma hex_parts_nonempty: "[] \<notin> set (map nat_to_hex gs)"
  by (auto dest: arg_cong [of _ _ length] simp del: nat_to_hex_nonempty) (metis nat_to_hex_nonempty)

lemma parse_plain_groups:
  assumes "length gs = 8" and "\<forall>g\<in>set gs. g < 65536"
  shows "parseIpv6Groups (join_with '':'' (map nat_to_hex gs)) = Some gs"
proof -
  let ?s = "join_with '':'' (map nat_to_hex gs)"
  have ne: "?s \<noteq> []" using assms(1) by (auto simp: join_hex_empty)
  have all: "\<forall>c\<in>set ?s. is_hex_digit c \<or> c = CHR '':''" by (auto dest: set_join_hex)
  have percent: "CHR ''%'' \<notin> set ?s"
    using bspec [OF all, of "CHR ''%''"] by auto
  have chars: "\<not> (\<exists>c\<in>set ?s. \<not> (is_hex_digit c \<or> c = CHR '':'' \<or> c = CHR ''.''))"
    using all by blast
  have split: "split_on CHR '':'' ?s = map nat_to_hex gs" using split_hex [of gs] ne by simp
  show ?thesis
    using ne percent chars assms hex_parts_nonempty [of gs] no_dotted [of gs] map_part_groups [of gs]
    by (simp add: parseIpv6Groups_def split_double_join_none split Let_def dotted_ok_def concat_map_singleton expand_groups_def parts_groups_def)
qed

lemma parse_double_groups:
  assumes "length ls + length rs < 8" and "\<forall>g\<in>set (ls @ rs). g < 65536"
  shows "parseIpv6Groups (join_with '':'' (map nat_to_hex ls) @ ''::'' @ join_with '':'' (map nat_to_hex rs))
    = Some (ls @ replicate (8 - (length ls + length rs)) 0 @ rs)"
proof -
  let ?l = "join_with '':'' (map nat_to_hex ls)" and ?r = "join_with '':'' (map nat_to_hex rs)"
  let ?s = "?l @ ''::'' @ ?r"
  have all: "\<forall>c\<in>set ?s. is_hex_digit c \<or> c = CHR '':''" by (auto dest: set_join_hex)
  have percent: "CHR ''%'' \<notin> set ?s"
    using bspec [OF all, of "CHR ''%''"] by auto
  have chars: "\<not> (\<exists>c\<in>set ?s. \<not> (is_hex_digit c \<or> c = CHR '':'' \<or> c = CHR ''.''))"
    using all by blast
  have double: "split_double ?s = Some (?l, ?r)" "split_double ?r = None"
    by (simp_all only: split_double_join_some split_double_join_none)
  have parts: "[] \<notin> set (map nat_to_hex ls)" "[] \<notin> set (map nat_to_hex rs)"
    "filter (contains ''.'') (map nat_to_hex ls @ map nat_to_hex rs) = []"
    using hex_parts_nonempty no_dotted by simp_all
  have groups: "map_option_list part_groups (map nat_to_hex ls @ map nat_to_hex rs) = Some (map (\<lambda>g. [g]) (ls @ rs))"
    using map_part_groups [of "ls @ rs"] assms(2) by simp
  have ne: "?s \<noteq> []" by simp
  show ?thesis unfolding parseIpv6Groups_def Let_def double option.case prod.case split_hex parts_groups_def groups dotted_ok_def parts(3)
    using ne percent chars double(2) parts(1,2) assms(1) by (simp add: concat_map_singleton expand_groups_def parts_groups_def del: map_append)
qed

theorem parse_format_groups:
  "parseIpv6Groups (formatIpv6Value v) = Some (valueToGroups v)"
proof -
  let ?g = "valueToGroups v"
  have small: "\<forall>g\<in>set ?g. g < 65536" using valueToGroups_small by blast
  have run: "zero_run ?g (best_run ?g 0 (None, 1))" by (rule best_run_zero) (simp add: zero_run_def)
  show ?thesis
  proof (cases "best_run ?g 0 (None, 1)")
    case (Pair st len)
    show ?thesis
    proof (cases st)
      case None
      then show ?thesis using Pair small by (simp add: formatIpv6Value_def Let_def parse_plain_groups)
    next
      case (Some start)
      with run Pair have eq: "?g = take start ?g @ replicate len 0 @ drop (start + len) ?g" and len: "2 \<le> len"
        by (simp_all add: zero_run_def)
      let ?l = "take start ?g" and ?r = "drop (start + len) ?g"
      have "length ?g = length ?l + len + length ?r" by (metis eq length_append length_replicate add.assoc)
      then have lens: "length ?l + length ?r < 8" "8 - (length ?l + length ?r) = len" using len by simp_all
      have "formatIpv6Value v = join_with '':'' (map nat_to_hex ?l) @ ''::'' @ join_with '':'' (map nat_to_hex ?r)"
        using Some Pair by (simp add: formatIpv6Value_def Let_def)
      moreover have "\<forall>g\<in>set (?l @ ?r). g < 65536" using small by (auto dest: in_set_takeD in_set_dropD)
      ultimately show ?thesis using parse_double_groups [OF lens(1)] lens(2) eq by simp
    qed
  qed
qed

end
