(* ===== verification/Address_Properties.thy ===== *)
theory Address_Properties imports Address_Text begin

text \<open>
  What the resolved-address policy guarantees: the canonical text of a classified address
  parses back to the same address, the IPv4 classes are the documented intervals, and an
  admitted answer set contains nothing but addresses the environment may dial.
\<close>

section \<open>Canonical text\<close>

lemma part_groups_small: "part_groups p = Some gs \<Longrightarrow> g \<in> set gs \<Longrightarrow> g < 65536"
  by (auto simp: part_groups_def and_65535 parseHexGroup_bound split: if_splits)

lemma concat_part_groups_small:
  "map_option_list part_groups ps = Some gss \<Longrightarrow> g \<in> set (concat gss) \<Longrightarrow> g < 65536"
  unfolding map_option_list_Some by (auto dest: list_all2_memR part_groups_small)

lemma expand_groups_shape:
  "expand_groups c n xs = Some ys \<Longrightarrow> length ys = 8 \<and> set ys \<subseteq> insert 0 (set xs)"
  by (auto simp: expand_groups_def min_def split: if_splits dest: in_set_takeD in_set_dropD)

lemma parseIpv6Groups_shape:
  assumes "parseIpv6Groups s = Some gs"
  shows "length gs = 8 \<and> (\<forall>g\<in>set gs. g < 65536)"
proof -
  have "\<exists>c n ps. parts_groups c n ps = Some gs"
    using assms unfolding parseIpv6Groups_def Let_def by (simp split: if_split_asm) blast+
  then obtain ps gss c n where gss: "map_option_list part_groups ps = Some gss"
      and gs: "expand_groups c n (concat gss) = Some gs"
    by (auto simp: parts_groups_def split: option.splits)
  have "length gs = 8" "set gs \<subseteq> insert 0 (set (concat gss))"
    using expand_groups_shape [OF gs] by simp_all
  moreover have "g < 65536" if "g \<in> insert 0 (set (concat gss))" for g
    using that concat_part_groups_small [OF gss, of g] by (cases "g = 0") simp_all
  ultimately show ?thesis by blast
qed

lemma parseAddress_family:
  "parseAddress a f = Some p \<Longrightarrow> pa_family p = 4 \<or> pa_family p = 6"
  by (auto simp: parseAddress_def Let_def split: if_splits option.splits)

lemma parseAddress_value:
  assumes "parseAddress a f = Some p"
  shows "pa_family p = 4 \<Longrightarrow> pa_value p < 2 ^ 32 \<and> pa_canonical p = formatIpv4Value (pa_value p) \<and> \<not> pa_mapped p \<and> pa_mappedIpv4 p = None"
    and "pa_family p = 6 \<Longrightarrow> pa_value p < 2 ^ 128 \<and> pa_canonical p = formatIpv6Value (pa_value p)
      \<and> pa_mapped p = (drop_bit 32 (pa_value p) = 65535)
      \<and> pa_mappedIpv4 p = (if pa_mapped p then Some (formatIpv4Value ((pa_value p) AND 4294967295)) else None)"
proof -
  have six: "groupsToValue gs < 2 ^ 128" if "parseIpv6Groups a = Some gs" for gs
    using groupsToValue_bound [of gs] parseIpv6Groups_shape [OF that] by simp
  show "pa_family p = 4 \<Longrightarrow> pa_value p < 2 ^ 32 \<and> pa_canonical p = formatIpv4Value (pa_value p) \<and> \<not> pa_mapped p \<and> pa_mappedIpv4 p = None"
    using assms by (auto simp: parseAddress_def Let_def ipv4_canonical split: if_splits option.splits)
  show "pa_family p = 6 \<Longrightarrow> pa_value p < 2 ^ 128 \<and> pa_canonical p = formatIpv6Value (pa_value p)
      \<and> pa_mapped p = (drop_bit 32 (pa_value p) = 65535)
      \<and> pa_mappedIpv4 p = (if pa_mapped p then Some (formatIpv4Value ((pa_value p) AND 4294967295)) else None)"
    using assms six by (auto simp: parseAddress_def Let_def split: if_splits option.splits)
qed

lemma format6_chars: "c \<in> set (formatIpv6Value v) \<Longrightarrow> is_hex_digit c \<or> c = CHR '':''"
  by (auto simp: formatIpv6Value_def Let_def split: prod.splits option.splits if_splits dest: set_join_hex)

lemma colon_in_join: "2 \<le> length gs \<Longrightarrow> CHR '':'' \<in> set (join_with '':'' (map nat_to_hex gs))"
  by (cases gs; cases "tl gs") auto

lemma format6_colon: "CHR '':'' \<in> set (formatIpv6Value v)"
proof (cases "best_run (valueToGroups v) 0 (None, 1)")
  case (Pair st len)
  then show ?thesis using colon_in_join [of "valueToGroups v"]
    by (cases st) (simp_all add: formatIpv6Value_def Let_def)
qed

lemma format6_length: "length (formatIpv6Value v) \<le> MAX_RESOLVED_ADDRESS_LENGTH"
proof -
  let ?g = "valueToGroups v"
  have small: "\<forall>g\<in>set xs. g < 65536" if "set xs \<subseteq> set ?g" for xs using that valueToGroups_small by blast
  show ?thesis
  proof (cases "best_run ?g 0 (None, 1)")
    case (Pair st len)
    show ?thesis
    proof (cases st)
      case None
      then show ?thesis using Pair length_join_hex [OF small, of ?g]
        by (simp add: formatIpv6Value_def Let_def MAX_RESOLVED_ADDRESS_LENGTH_def)
    next
      case (Some start)
      let ?l = "take start ?g" and ?r = "drop (start + len) ?g"
      have "length (formatIpv6Value v) \<le> length (join_with '':'' (map nat_to_hex ?l))
          + 2 + length (join_with '':'' (map nat_to_hex ?r))"
        using Some Pair by (simp add: formatIpv6Value_def Let_def)
      also have "\<dots> \<le> 5 * length ?l + 2 + 5 * length ?r"
        using length_join_hex [OF small, of ?l] length_join_hex [OF small, of ?r]
        by (simp add: set_take_subset set_drop_subset)
      also have "\<dots> \<le> 42"
      proof -
        have "length ?l + length ?r \<le> 8" by (simp add: min_def) arith
        then show ?thesis by linarith
      qed
      finally show ?thesis by (simp add: MAX_RESOLVED_ADDRESS_LENGTH_def)
    qed
  qed
qed

lemma parse_format6:
  assumes "v < 2 ^ 128"
  shows "\<exists>p. parseAddress (formatIpv6Value v) (Some 6) = Some p \<and> pa_value p = v \<and> pa_family p = 6"
proof -
  have "CHR ''['' \<notin> set (formatIpv6Value v)" "CHR '']'' \<notin> set (formatIpv6Value v)"
    using format6_chars [of "CHR ''[''" v] format6_chars [of "CHR '']''" v] by auto
  moreover have "formatIpv6Value v \<noteq> []" using format6_colon [of v] by auto
  ultimately show ?thesis
    using format6_colon [of v] format6_length [of v] assms
    by (simp add: parseAddress_def Let_def parse_format_groups groupsToValue_valueToGroups)
qed

lemma format4_chars: "c \<in> set (formatIpv4Value v) \<Longrightarrow> is_digit c \<or> c = CHR ''.''"
  by (auto simp: formatIpv4Value_eq dest: nat_to_dec_digits)

lemma format4_length: "length (formatIpv4Value v) \<le> MAX_RESOLVED_ADDRESS_LENGTH"
proof -
  have "length (nat_to_dec (n mod 256)) \<le> 3" for n
    using length_nat_to_dec [of "n mod 256" 2] by (simp add: order_less_trans [OF mod_less_divisor])
  from this [of "v div 16777216"] this [of "v div 65536"] this [of "v div 256"] this [of v] show ?thesis
    by (simp add: formatIpv4Value_eq MAX_RESOLVED_ADDRESS_LENGTH_def)
qed

lemma parse_format4:
  assumes "v < 2 ^ 32"
  shows "\<exists>p. parseAddress (formatIpv4Value v) (Some 4) = Some p \<and> pa_value p = v \<and> pa_family p = 4"
proof -
  have "parseIpv4Value (formatIpv4Value v) = Some v" using assms by (simp add: ipv4_canonical)
  moreover have "CHR '':'' \<notin> set (formatIpv4Value v)"
    using format4_chars [of "CHR '':''" v] by auto
  moreover have "formatIpv4Value v \<noteq> []" by (simp add: formatIpv4Value_eq)
  ultimately show ?thesis using format4_length [of v] by (simp add: parseAddress_def)
qed

lemma parsed_eqI:
  assumes "pa_value p = pa_value q" and "pa_family p = pa_family q"
    and "parseAddress a f = Some p" and "parseAddress b g = Some q"
  shows "p = q"
proof -
  note p = parseAddress_value [OF assms(3)] and q = parseAddress_value [OF assms(4)]
  from parseAddress_family [OF assms(3)]
  have "pa_canonical p = pa_canonical q \<and> pa_mapped p = pa_mapped q \<and> pa_mappedIpv4 p = pa_mappedIpv4 q"
  proof
    assume "pa_family p = 4"
    with assms(2) have "pa_family q = 4" by simp
    with p(1) [OF \<open>pa_family p = 4\<close>] q(1) assms(1) show ?thesis by simp
  next
    assume "pa_family p = 6"
    with assms(2) have "pa_family q = 6" by simp
    with p(2) [OF \<open>pa_family p = 6\<close>] q(2) assms(1) show ?thesis by simp
  qed
  with assms(1,2) show ?thesis by (intro parsed_address.equality) simp_all
qed

lemma canonical_reparse:
  assumes "parseAddress a f = Some p"
  shows "parseAddress (pa_canonical p) (Some (pa_family p)) = Some p"
proof -
  from assms have "pa_family p = 4 \<or> pa_family p = 6" by (rule parseAddress_family)
  then obtain q where q: "parseAddress (pa_canonical p) (Some (pa_family p)) = Some q"
      "pa_value q = pa_value p" "pa_family q = pa_family p"
    using parseAddress_value [OF assms] parse_format4 parse_format6 by metis
  then have "q = p" using parsed_eqI assms by blast
  with q(1) show ?thesis by simp
qed

text \<open>The address that is dialled is the address that was classified: parsing the
  canonical text of any parsed address, under its own family, gives exactly the same
  address again (same value, same mapping, same canonical text), and an IPv4 text
  that parses at all is already canonical.\<close>

theorem canonical_text_reparses:
  assumes "parseAddress a f = Some p"
  shows "parseAddress (pa_canonical p) (Some (pa_family p)) = Some p \<and> (pa_family p = 4 \<longrightarrow> pa_canonical p = a)"
proof
  show "parseAddress (pa_canonical p) (Some (pa_family p)) = Some p" using assms by (rule canonical_reparse)
  show "pa_family p = 4 \<longrightarrow> pa_canonical p = a"
    using assms by (auto simp: parseAddress_def Let_def ipv4_canonical split: if_splits option.splits)
qed

section \<open>Range classes\<close>

text \<open>The special-use ranges as intervals of values, in the order of the code.\<close>

definition ipv4_intervals :: "(nat \<times> nat \<times> address_class) list" where
  "ipv4_intervals = [(0, 16777215, AC_Unspecified),
     (2130706432, 2147483647, AC_Loopback),
     (167772160, 184549375, AC_Private),
     (2886729728, 2887778303, AC_Private),
     (3232235520, 3232301055, AC_Private),
     (2851995648, 2852061183, AC_LinkLocal),
     (1681915904, 1686110207, AC_Shared),
     (3758096384, 4026531839, AC_Multicast),
     (4294967295, 4294967295, AC_Broadcast),
     (3221225984, 3221226239, AC_Documentation),
     (3325256704, 3325256959, AC_Documentation),
     (3405803776, 3405804031, AC_Documentation),
     (3323068416, 3323199487, AC_Benchmark),
     (3221225472, 3221225727, AC_SpecialUse),
     (3223307264, 3223307519, AC_SpecialUse),
     (3224682752, 3224683007, AC_SpecialUse),
     (3227017984, 3227018239, AC_SpecialUse),
     (4026531840, 4294967295, AC_Reserved)]"

definition ipv6_intervals :: "(nat \<times> nat \<times> address_class) list" where
  "ipv6_intervals = [(0, 0, AC_Unspecified),
     (1, 1, AC_Loopback),
     (338288524927261089654018896841347694592, 338620831926207318622244848606417780735, AC_LinkLocal),
     (334965454937798799971759379190646833152, 337623910929368631717566993311207522303, AC_UniqueLocal),
     (338953138925153547590470800371487866880, 340282366920938463463374607431768211455, AC_Multicast),
     (42540766411282592856903984951653826560, 42540766490510755371168322545197776895, AC_Documentation),
     (42540488320432167789079031612388147200, 42540488320433376714898646241562853375, AC_Benchmark),
     (1329227995784915872903807060280344576, 1329227995784915891350551133989896191, AC_SpecialUse),
     (524413980667603649783483181312245760, 524413980667603649783483185607213055, AC_SpecialUse),
     (524413980668812575603097810486951936, 524413980670021501422712439661658111, AC_SpecialUse),
     (42540488161975842760550356425300246528, 42540488241204005274814694018844196863, AC_SpecialUse),
     (42540488241204005274814694018844196864, 42540488320432167789079031612388147199, AC_SpecialUse),
     (42540488399660330303343369205932097536, 42540488478888492817607706799476047871, AC_SpecialUse),
     (42540489429626442988779757922003451904, 42540490697277043217009159418706657279, AC_SpecialUse),
     (42540490697277043217009159418706657280, 42540491964927643445238560915409862655, AC_SpecialUse),
     (42545680458834377588178886921629466624, 42550872755692912415807417417958686719, AC_SpecialUse),
     (42535295865117307932921825928971026432, 85070591730234615865843651857942052863, AC_GlobalUnicast)]"

fun class_of :: "(nat \<times> nat \<times> address_class) list \<Rightarrow> address_class \<Rightarrow> nat \<Rightarrow> address_class" where
  "class_of [] d v = d"
| "class_of ((lo, hi, c) # t) d v = (if lo \<le> v \<and> v \<le> hi then c else class_of t d v)"

lemma digit_char_eval:
  "digit_char 0 = CHR ''0''" "digit_char 1 = CHR ''1''" "digit_char (Suc 0) = CHR ''1''" "digit_char 2 = CHR ''2''"
  "digit_char 3 = CHR ''3''" "digit_char 4 = CHR ''4''" "digit_char 5 = CHR ''5''" "digit_char 6 = CHR ''6''"
  "digit_char 7 = CHR ''7''" "digit_char 8 = CHR ''8''" "digit_char 9 = CHR ''9''"
  by (simp_all add: digit_char_def char_of_def bit_iff_odd)

lemma hex_char_eval:
  "hex_char 0 = CHR ''0''" "hex_char 1 = CHR ''1''" "hex_char (Suc 0) = CHR ''1''" "hex_char 2 = CHR ''2''"
  "hex_char 3 = CHR ''3''" "hex_char 4 = CHR ''4''" "hex_char 5 = CHR ''5''" "hex_char 6 = CHR ''6''"
  "hex_char 7 = CHR ''7''" "hex_char 8 = CHR ''8''" "hex_char 9 = CHR ''9''" "hex_char 10 = CHR ''a''"
  "hex_char 11 = CHR ''b''" "hex_char 12 = CHR ''c''" "hex_char 13 = CHR ''d''" "hex_char 14 = CHR ''e''"
  "hex_char 15 = CHR ''f''"
  by (simp_all add: hex_char_def char_of_def bit_iff_odd)

lemma div_eq_interval: "0 < (d :: nat) \<Longrightarrow> v div d = c \<longleftrightarrow> c * d \<le> v \<and> v \<le> c * d + (d - 1)"
proof -
  assume d: "0 < d"
  then have "c \<le> v div d \<longleftrightarrow> c * d \<le> v" "v div d < Suc c \<longleftrightarrow> v < Suc c * d"
    by (rule less_eq_div_iff_mult_less_eq, rule div_less_iff_less_mult)
  moreover have "v < Suc c * d \<longleftrightarrow> v \<le> c * d + (d - 1)" using d by simp arith
  ultimately show ?thesis by auto
qed

lemma ipv4InRange_interval:
  assumes "base = formatIpv4Value lo" and "lo < 4294967296" and "lo = c * 2 ^ (32 - p)"
  shows "ipv4InRange v base p \<longleftrightarrow> lo \<le> v \<and> v \<le> lo + (2 ^ (32 - p) - 1)"
proof -
  have "parseIpv4Value base = Some lo" using assms(1,2) ipv4_canonical by simp
  then show ?thesis using div_eq_interval [of "2 ^ (32 - p)" v c] assms(3)
    by (simp add: ipv4InRange_def drop_bit_eq_div)
qed


lemma ipv4_ranges:
  "ipv4InRange v ''0.0.0.0'' 8 \<longleftrightarrow> 0 \<le> v \<and> v \<le> 16777215"
  "ipv4InRange v ''127.0.0.0'' 8 \<longleftrightarrow> 2130706432 \<le> v \<and> v \<le> 2147483647"
  "ipv4InRange v ''10.0.0.0'' 8 \<longleftrightarrow> 167772160 \<le> v \<and> v \<le> 184549375"
  "ipv4InRange v ''172.16.0.0'' 12 \<longleftrightarrow> 2886729728 \<le> v \<and> v \<le> 2887778303"
  "ipv4InRange v ''192.168.0.0'' 16 \<longleftrightarrow> 3232235520 \<le> v \<and> v \<le> 3232301055"
  "ipv4InRange v ''169.254.0.0'' 16 \<longleftrightarrow> 2851995648 \<le> v \<and> v \<le> 2852061183"
  "ipv4InRange v ''100.64.0.0'' 10 \<longleftrightarrow> 1681915904 \<le> v \<and> v \<le> 1686110207"
  "ipv4InRange v ''224.0.0.0'' 4 \<longleftrightarrow> 3758096384 \<le> v \<and> v \<le> 4026531839"
  "ipv4InRange v ''192.0.2.0'' 24 \<longleftrightarrow> 3221225984 \<le> v \<and> v \<le> 3221226239"
  "ipv4InRange v ''198.51.100.0'' 24 \<longleftrightarrow> 3325256704 \<le> v \<and> v \<le> 3325256959"
  "ipv4InRange v ''203.0.113.0'' 24 \<longleftrightarrow> 3405803776 \<le> v \<and> v \<le> 3405804031"
  "ipv4InRange v ''198.18.0.0'' 15 \<longleftrightarrow> 3323068416 \<le> v \<and> v \<le> 3323199487"
  "ipv4InRange v ''192.0.0.0'' 24 \<longleftrightarrow> 3221225472 \<le> v \<and> v \<le> 3221225727"
  "ipv4InRange v ''192.31.196.0'' 24 \<longleftrightarrow> 3223307264 \<le> v \<and> v \<le> 3223307519"
  "ipv4InRange v ''192.52.193.0'' 24 \<longleftrightarrow> 3224682752 \<le> v \<and> v \<le> 3224683007"
  "ipv4InRange v ''192.88.99.0'' 24 \<longleftrightarrow> 3227017984 \<le> v \<and> v \<le> 3227018239"
  "ipv4InRange v ''240.0.0.0'' 4 \<longleftrightarrow> 4026531840 \<le> v \<and> v \<le> 4294967295"

  subgoal by (subst ipv4InRange_interval [where lo = 0 and c = 0]) (simp_all add: formatIpv4Value_eq nat_to_dec.simps digit_char_eval)
  subgoal by (subst ipv4InRange_interval [where lo = 2130706432 and c = 127]) (simp_all add: formatIpv4Value_eq nat_to_dec.simps digit_char_eval)
  subgoal by (subst ipv4InRange_interval [where lo = 167772160 and c = 10]) (simp_all add: formatIpv4Value_eq nat_to_dec.simps digit_char_eval)
  subgoal by (subst ipv4InRange_interval [where lo = 2886729728 and c = 2753]) (simp_all add: formatIpv4Value_eq nat_to_dec.simps digit_char_eval)
  subgoal by (subst ipv4InRange_interval [where lo = 3232235520 and c = 49320]) (simp_all add: formatIpv4Value_eq nat_to_dec.simps digit_char_eval)
  subgoal by (subst ipv4InRange_interval [where lo = 2851995648 and c = 43518]) (simp_all add: formatIpv4Value_eq nat_to_dec.simps digit_char_eval)
  subgoal by (subst ipv4InRange_interval [where lo = 1681915904 and c = 401]) (simp_all add: formatIpv4Value_eq nat_to_dec.simps digit_char_eval)
  subgoal by (subst ipv4InRange_interval [where lo = 3758096384 and c = 14]) (simp_all add: formatIpv4Value_eq nat_to_dec.simps digit_char_eval)
  subgoal by (subst ipv4InRange_interval [where lo = 3221225984 and c = 12582914]) (simp_all add: formatIpv4Value_eq nat_to_dec.simps digit_char_eval)
  subgoal by (subst ipv4InRange_interval [where lo = 3325256704 and c = 12989284]) (simp_all add: formatIpv4Value_eq nat_to_dec.simps digit_char_eval)
  subgoal by (subst ipv4InRange_interval [where lo = 3405803776 and c = 13303921]) (simp_all add: formatIpv4Value_eq nat_to_dec.simps digit_char_eval)
  subgoal by (subst ipv4InRange_interval [where lo = 3323068416 and c = 25353]) (simp_all add: formatIpv4Value_eq nat_to_dec.simps digit_char_eval)
  subgoal by (subst ipv4InRange_interval [where lo = 3221225472 and c = 12582912]) (simp_all add: formatIpv4Value_eq nat_to_dec.simps digit_char_eval)
  subgoal by (subst ipv4InRange_interval [where lo = 3223307264 and c = 12591044]) (simp_all add: formatIpv4Value_eq nat_to_dec.simps digit_char_eval)
  subgoal by (subst ipv4InRange_interval [where lo = 3224682752 and c = 12596417]) (simp_all add: formatIpv4Value_eq nat_to_dec.simps digit_char_eval)
  subgoal by (subst ipv4InRange_interval [where lo = 3227017984 and c = 12605539]) (simp_all add: formatIpv4Value_eq nat_to_dec.simps digit_char_eval)
  subgoal by (subst ipv4InRange_interval [where lo = 4026531840 and c = 15]) (simp_all add: formatIpv4Value_eq nat_to_dec.simps digit_char_eval)
  done


lemma zero_groups: "groupsToValue (gs @ replicate n 0) = groupsToValue gs * 65536 ^ n"
  by (induction n) (simp_all add: groupsToValue_snoc replicate_append_same [symmetric] del: replicate_append_same flip: append_assoc)

lemma ipv6InRange_interval:
  assumes "base = join_with '':'' (map nat_to_hex ls) @ ''::''" and "length ls < 8" and "\<forall>g\<in>set ls. g < 65536"
    and "groupsToValue ls * 65536 ^ (8 - length ls) = lo" and "lo = c * 2 ^ (128 - p)"
  shows "ipv6InRange v base p \<longleftrightarrow> lo \<le> v \<and> v \<le> lo + (2 ^ (128 - p) - 1)"
proof -
  have groups: "parseIpv6Groups base = Some (ls @ replicate (8 - length ls) 0)"
    using parse_double_groups [of ls "[]"] assms(1-3) by simp
  have "length base \<le> 37" using length_join_hex [OF assms(3)] assms(1,2) by simp
  moreover have "CHR ''['' \<notin> set base" "CHR '']'' \<notin> set base"
    using set_join_hex [of "CHR ''[''" ls] set_join_hex [of "CHR '']''" ls] assms(1) by auto
  ultimately have "\<exists>q. parseAddress base (Some 6) = Some q \<and> pa_value q = lo"
    using groups assms(1,4) by (simp add: zero_groups parseAddress_def Let_def MAX_RESOLVED_ADDRESS_LENGTH_def)
  then show ?thesis using div_eq_interval [of "2 ^ (128 - p)" v c] assms(5)
    by (auto simp: ipv6InRange_def drop_bit_eq_div)
qed

lemma groupsToValue_Nil: "groupsToValue [] = 0"
  by (simp add: groupsToValue_def)

lemma groupsToValue_single: "g < 65536 \<Longrightarrow> groupsToValue [g] = g"
  using groupsToValue_snoc [of g "[]"] by (simp add: groupsToValue_def)

lemma groupsToValue_pair: "g < 65536 \<Longrightarrow> h < 65536 \<Longrightarrow> groupsToValue [g, h] = g * 65536 + h"
  using groupsToValue_snoc [of h "[g]"] by (simp add: groupsToValue_single)

lemma groupsToValue_triple:
  "g < 65536 \<Longrightarrow> h < 65536 \<Longrightarrow> i < 65536 \<Longrightarrow> groupsToValue [g, h, i] = (g * 65536 + h) * 65536 + i"
  using groupsToValue_snoc [of i "[g, h]"] by (simp add: groupsToValue_pair)

lemmas groups_eval = groupsToValue_single groupsToValue_pair groupsToValue_triple
  nat_to_hex.simps hex_char_eval


lemma ipv6_ranges:
  "ipv6InRange v ''fe80::'' 10 \<longleftrightarrow> 338288524927261089654018896841347694592 \<le> v \<and> v \<le> 338620831926207318622244848606417780735"
  "ipv6InRange v ''fc00::'' 7 \<longleftrightarrow> 334965454937798799971759379190646833152 \<le> v \<and> v \<le> 337623910929368631717566993311207522303"
  "ipv6InRange v ''ff00::'' 8 \<longleftrightarrow> 338953138925153547590470800371487866880 \<le> v \<and> v \<le> 340282366920938463463374607431768211455"
  "ipv6InRange v ''2001:db8::'' 32 \<longleftrightarrow> 42540766411282592856903984951653826560 \<le> v \<and> v \<le> 42540766490510755371168322545197776895"
  "ipv6InRange v ''2001:2::'' 48 \<longleftrightarrow> 42540488320432167789079031612388147200 \<le> v \<and> v \<le> 42540488320433376714898646241562853375"
  "ipv6InRange v ''100::'' 64 \<longleftrightarrow> 1329227995784915872903807060280344576 \<le> v \<and> v \<le> 1329227995784915891350551133989896191"
  "ipv6InRange v ''64:ff9b::'' 96 \<longleftrightarrow> 524413980667603649783483181312245760 \<le> v \<and> v \<le> 524413980667603649783483185607213055"
  "ipv6InRange v ''64:ff9b:1::'' 48 \<longleftrightarrow> 524413980668812575603097810486951936 \<le> v \<and> v \<le> 524413980670021501422712439661658111"
  "ipv6InRange v ''2001::'' 32 \<longleftrightarrow> 42540488161975842760550356425300246528 \<le> v \<and> v \<le> 42540488241204005274814694018844196863"
  "ipv6InRange v ''2001:1::'' 32 \<longleftrightarrow> 42540488241204005274814694018844196864 \<le> v \<and> v \<le> 42540488320432167789079031612388147199"
  "ipv6InRange v ''2001:3::'' 32 \<longleftrightarrow> 42540488399660330303343369205932097536 \<le> v \<and> v \<le> 42540488478888492817607706799476047871"
  "ipv6InRange v ''2001:10::'' 28 \<longleftrightarrow> 42540489429626442988779757922003451904 \<le> v \<and> v \<le> 42540490697277043217009159418706657279"
  "ipv6InRange v ''2001:20::'' 28 \<longleftrightarrow> 42540490697277043217009159418706657280 \<le> v \<and> v \<le> 42540491964927643445238560915409862655"
  "ipv6InRange v ''2002::'' 16 \<longleftrightarrow> 42545680458834377588178886921629466624 \<le> v \<and> v \<le> 42550872755692912415807417417958686719"

  subgoal by (subst ipv6InRange_interval [where lo = 338288524927261089654018896841347694592 and c = 1018 and ls = "[65152]"]) (simp_all add: groups_eval)
  subgoal by (subst ipv6InRange_interval [where lo = 334965454937798799971759379190646833152 and c = 126 and ls = "[64512]"]) (simp_all add: groups_eval)
  subgoal by (subst ipv6InRange_interval [where lo = 338953138925153547590470800371487866880 and c = 255 and ls = "[65280]"]) (simp_all add: groups_eval)
  subgoal by (subst ipv6InRange_interval [where lo = 42540766411282592856903984951653826560 and c = 536939960 and ls = "[8193, 3512]"]) (simp_all add: groups_eval)
  subgoal by (subst ipv6InRange_interval [where lo = 42540488320432167789079031612388147200 and c = 35188667187200 and ls = "[8193, 2]"]) (simp_all add: groups_eval)
  subgoal by (subst ipv6InRange_interval [where lo = 1329227995784915872903807060280344576 and c = 72057594037927936 and ls = "[256]"]) (simp_all add: groups_eval)
  subgoal by (subst ipv6InRange_interval [where lo = 524413980667603649783483181312245760 and c = 122099644659926101980610560 and ls = "[100, 65435]"]) (simp_all add: groups_eval)
  subgoal by (subst ipv6InRange_interval [where lo = 524413980668812575603097810486951936 and c = 433785077761 and ls = "[100, 65435, 1]"]) (simp_all add: groups_eval)
  subgoal by (subst ipv6InRange_interval [where lo = 42540488161975842760550356425300246528 and c = 536936448 and ls = "[8193]"]) (simp_all add: groups_eval)
  subgoal by (subst ipv6InRange_interval [where lo = 42540488241204005274814694018844196864 and c = 536936449 and ls = "[8193, 1]"]) (simp_all add: groups_eval)
  subgoal by (subst ipv6InRange_interval [where lo = 42540488399660330303343369205932097536 and c = 536936451 and ls = "[8193, 3]"]) (simp_all add: groups_eval)
  subgoal by (subst ipv6InRange_interval [where lo = 42540489429626442988779757922003451904 and c = 33558529 and ls = "[8193, 16]"]) (simp_all add: groups_eval)
  subgoal by (subst ipv6InRange_interval [where lo = 42540490697277043217009159418706657280 and c = 33558530 and ls = "[8193, 32]"]) (simp_all add: groups_eval)
  subgoal by (subst ipv6InRange_interval [where lo = 42545680458834377588178886921629466624 and c = 8194 and ls = "[8194]"]) (simp_all add: groups_eval)
  done

lemma class_intervals:
  "classifyIpv4 v = class_of ipv4_intervals AC_GlobalUnicast v"
  "classifyIpv6 v = class_of ipv6_intervals AC_Reserved v"
proof -
  have if_disj: "(if P \<or> Q then x else y) = (if P then x else if Q then x else y)" for P Q and x y :: address_class
    by simp
  have le_eq: "a \<le> v \<and> v \<le> a \<longleftrightarrow> v = a" for a by auto
  show "classifyIpv4 v = class_of ipv4_intervals AC_GlobalUnicast v"
    unfolding classifyIpv4_def ipv4_ranges ipv4_intervals_def class_of.simps if_disj le_eq by (rule refl)
  show "classifyIpv6 v = class_of ipv6_intervals AC_Reserved v"
    unfolding classifyIpv6_def ipv6_ranges ipv6_intervals_def class_of.simps if_disj le_eq by (rule refl)
qed

text \<open>The class of an address is a lookup of its value in disjoint documented intervals:
  the textual ranges of the classifier, with their prefix lengths, are exactly the listed
  intervals of 32-bit and 128-bit values; everything else is global unicast for IPv4
  and reserved for IPv6.\<close>

theorem classes_are_intervals:
  "classifyIpv4 v = class_of ipv4_intervals AC_GlobalUnicast v \<and>
   classifyIpv6 v = class_of ipv6_intervals AC_Reserved v"
  by (simp add: class_intervals)

section \<open>Answer sets\<close>

definition classification_of :: "parsed_address \<Rightarrow> address_classification" where
  "classification_of p =
     \<lparr>cl_valid = True, cl_canonical = Some (pa_canonical p), cl_family = Some (pa_family p),
      cl_class = (if pa_mapped p then classifyIpv4 ((pa_value p) AND 4294967295)
                  else if pa_family p = 4 then classifyIpv4 (pa_value p)
                  else classifyIpv6 (pa_value p)),
      cl_mapped = pa_mapped p, cl_mappedIpv4 = pa_mappedIpv4 p\<rparr>"

lemma parseAddress_asked_family: "parseAddress a (Some f) = Some p \<Longrightarrow> pa_family p = f"
  by (auto simp: parseAddress_def Let_def split: if_splits option.splits)

lemma classify_answer_Inr:
  assumes "classify_answer j = Inr c"
  obtains a f p where "answer_record j = Inr (a, f)" "parseAddress a (Some f) = Some p"
    "c = classification_of p" "pa_family p = f"
proof -
  from assms obtain a f where r: "answer_record j = Inr (a, f)"
      and v: "cl_valid (classifyResolvedAddress a (Some f))" "c = classifyResolvedAddress a (Some f)"
    by (auto simp: classify_answer_def Let_def split: if_splits)
  then obtain p where p: "parseAddress a (Some f) = Some p"
    by (cases "parseAddress a (Some f)") (auto simp: classifyResolvedAddress_def)
  then have "c = classification_of p" using v(2) by (simp add: classifyResolvedAddress_def classification_of_def)
  with r p show ?thesis using that parseAddress_asked_family by blast
qed

definition good_item :: "string \<times> address_classification \<Rightarrow> bool" where
  "good_item i = (fst i = answer_key (snd i) \<and> (\<exists>a f p. parseAddress a f = Some p \<and> snd i = classification_of p))"

lemma answer_key_inj:
  assumes "parseAddress a f = Some p" and "parseAddress b g = Some q"
    and "answer_key (classification_of p) = answer_key (classification_of q)"
  shows "p = q"
proof -
  have fam: "pa_family p \<in> {4, 6}" "pa_family q \<in> {4, 6}"
    using parseAddress_family assms(1,2) by blast+
  have key: "answer_key (classification_of x) = digit_char (pa_family x) # CHR '':'' # pa_canonical x"
    if "pa_family x \<in> {4, 6}" for x
    using that by (auto simp: answer_key_def classification_of_def nat_to_dec.simps [of 4] nat_to_dec.simps [of 6])
  have "digit_char (pa_family p) = digit_char (pa_family q)" "pa_canonical p = pa_canonical q"
    using assms(3) unfolding key [OF fam(1)] key [OF fam(2)] by simp_all
  moreover have "pa_family p < 10" "pa_family q < 10" using fam by auto
  ultimately have "pa_family p = pa_family q" "pa_canonical p = pa_canonical q"
    using digit_char_inj by blast+
  then show ?thesis
    using canonical_reparse [OF assms(1)] canonical_reparse [OF assms(2)] by (metis option.inject)
qed

lemma collect_answers:
  assumes "foldM_res collect_answer m js = Inr m'" and "\<forall>i\<in>set m. good_item i"
  shows "(\<forall>i\<in>set m'. good_item i) \<and> set m \<subseteq> set m'
    \<and> (\<forall>j\<in>set js. \<exists>c. classify_answer j = Inr c \<and> (answer_key c, c) \<in> set m')
    \<and> (\<forall>i\<in>set m'. i \<in> set m \<or> (\<exists>j\<in>set js. classify_answer j = Inr (snd i)))"
  using assms
proof (induction js arbitrary: m)
  case (Cons j js)
  then obtain t where t: "collect_answer m j = Inr t" "foldM_res collect_answer t js = Inr m'" by auto
  then obtain c where c: "classify_answer j = Inr c"
      and rest: "foldM_res collect_answer (map_set m (answer_key c) c) js = Inr m'"
    by (auto simp: collect_answer_def [of m j])
  let ?m = "map_set m (answer_key c) c"
  from c obtain a f p where p: "parseAddress a (Some f) = Some p" "c = classification_of p"
    by (rule classify_answer_Inr)
  then have new: "good_item (answer_key c, c)" by (auto simp: good_item_def)
  have keep: "i \<in> set ?m" if "i \<in> set m" for i
  proof -
    obtain b g q where q: "fst i = answer_key (snd i)" "parseAddress b g = Some q" "snd i = classification_of q"
      using Cons.prems(2) \<open>i \<in> set m\<close> by (auto simp: good_item_def)
    then have "fst i \<noteq> answer_key c \<or> snd i = c" using answer_key_inj p by metis
    then show ?thesis using in_map_set_keep [of "fst i" "snd i" m "answer_key c" c] that by simp
  qed
  have sub: "set ?m \<subseteq> insert (answer_key c, c) (set m)" by (rule set_map_set_subset)
  with new Cons.prems(2) have "\<forall>i\<in>set ?m. good_item i" by blast
  from Cons.IH [OF rest this] keep sub in_map_set [of "answer_key c" c m] c show ?case by fastforce
qed simp

text \<open>C8: An admitted answer set contains only addresses the environment may dial. The set has
  at most eight answers; every answer is well formed, parses under its declared family and
  is not an IPv4-mapped address; in the local environment it is exactly 127.0.0.1 or ::1,
  elsewhere its class is global unicast. The admitted addresses are exactly the canonical
  texts of the answers, each parsing back to the address that was classified, and
  the selected address is one of them. One unacceptable answer refuses the whole set.\<close>

theorem admitted_answers_are_dialable:
  assumes "admitResolvedAddressSet le env answers = SetAdmitted addrs sel n"
  shows "n = length answers \<and> n \<le> 8 \<and> sel \<in> set addrs
    \<and> (\<forall>j\<in>set answers. \<exists>a f p. answer_record j = Inr (a, f) \<and> parseAddress a (Some f) = Some p
          \<and> admitted_of (classification_of p) \<in> set addrs)
    \<and> (\<forall>x\<in>set addrs. \<exists>p. x = admitted_of (classification_of p)
          \<and> parseAddress (aa_address x) (Some (aa_family x)) = Some p \<and> \<not> pa_mapped p
          \<and> (if env = Local then (aa_family x = 4 \<and> aa_address x = ''127.0.0.1'') \<or> (aa_family x = 6 \<and> aa_address x = ''::1'')
             else aa_class x = AC_GlobalUnicast))"
proof -
  from assms obtain m where m: "foldM_res collect_answer [] answers = Inr m"
      and n: "n = length answers" "n \<le> 8"
      and all: "length (filter (acceptableForEnvironment env) (map snd m)) = length (map snd m)"
      and addrs: "addrs = sort_by (address_le le) (map admitted_of (filter (acceptableForEnvironment env) (map snd m)))"
      and sel: "addrs \<noteq> []" "sel = hd addrs"
    by (auto simp: admitResolvedAddressSet_def Let_def MAX_RESOLVED_ADDRESS_COUNT_def
        split: if_splits sum.splits)
  note collected = collect_answers [OF m]
  have accept: "filter (acceptableForEnvironment env) (map snd m) = map snd m"
    using all length_filter_less [of _ "map snd m"] by (metis filter_True less_irrefl)
  then have ok: "acceptableForEnvironment env (snd i)" if "i \<in> set m" for i
  proof -
    have "snd i \<in> set (filter (acceptableForEnvironment env) (map snd m))" unfolding accept using that by simp
    then show ?thesis by simp
  qed
  have set_addrs: "set addrs = admitted_of ` snd ` set m" using addrs accept by (simp add: image_image)
  have answers: "\<exists>a f p. answer_record j = Inr (a, f) \<and> parseAddress a (Some f) = Some p
          \<and> admitted_of (classification_of p) \<in> set addrs" if j: "j \<in> set answers" for j
  proof -
    obtain c where c: "classify_answer j = Inr c" "(answer_key c, c) \<in> set m"
      using collected j by auto
    from c(1) obtain a f p where "answer_record j = Inr (a, f)" "parseAddress a (Some f) = Some p"
      "c = classification_of p" by (rule classify_answer_Inr)
    then show ?thesis using c(2) set_addrs by force
  qed
  have items: "\<exists>p. x = admitted_of (classification_of p)
          \<and> parseAddress (aa_address x) (Some (aa_family x)) = Some p \<and> \<not> pa_mapped p
          \<and> (if env = Local then (aa_family x = 4 \<and> aa_address x = ''127.0.0.1'') \<or> (aa_family x = 6 \<and> aa_address x = ''::1'')
             else aa_class x = AC_GlobalUnicast)" if x: "x \<in> set addrs" for x
  proof -
    obtain i where i: "i \<in> set m" "x = admitted_of (snd i)" using x set_addrs by auto
    then obtain a f p where p: "parseAddress a f = Some p" "snd i = classification_of p"
      using collected by (auto simp: good_item_def)
    have "aa_address x = pa_canonical p" "aa_family x = pa_family p"
      using i(2) p(2) by (simp_all add: admitted_of_def classification_of_def)
    then have "parseAddress (aa_address x) (Some (aa_family x)) = Some p"
      using canonical_reparse [OF p(1)] by simp
    moreover have "acceptableForEnvironment env (classification_of p)" using ok [OF i(1)] p(2) by simp
    ultimately show ?thesis using i(2) p(2)
      by (intro exI [of _ p])
         (auto simp: acceptableForEnvironment_def exactLocalLoopback_def admitted_of_def classification_of_def
           split: if_splits)
  qed
  show ?thesis using n sel answers items by (metis hd_in_set)
qed

section \<open>Concrete addresses\<close>

lemma w_parse4:
  "parseAddress ''8.8.4.4'' (Some 4) = Some \<lparr>pa_canonical = ''8.8.4.4'', pa_family = 4, pa_value = 134743044,
     pa_mapped = False, pa_mappedIpv4 = None\<rparr>"
proof -
  have f: "formatIpv4Value 134743044 = ''8.8.4.4''"
    by (simp add: formatIpv4Value_eq nat_to_dec.simps digit_char_eval)
  then have "parseIpv4Value ''8.8.4.4'' = Some 134743044" using ipv4_canonical by simp
  then show ?thesis by (simp add: parseAddress_def MAX_RESOLVED_ADDRESS_LENGTH_def f starts_with_def)
qed

theorem canonical_text_reparses_witness:
  "\<exists>p. parseAddress ''8.8.4.4'' (Some 4) = Some p \<and> parseAddress (pa_canonical p) (Some (pa_family p)) = Some p"
  using canonical_text_reparses [OF w_parse4] w_parse4 by blast

definition w_answer :: json where
  "w_answer = JObj [(''address'', JStr ''8.8.4.4''), (''family'', JNum 4)]"

lemma w_admit:
  "admitResolvedAddressSet str_le Dev [w_answer] =
     SetAdmitted [\<lparr>aa_address = ''8.8.4.4'', aa_family = 4, aa_class = AC_GlobalUnicast, aa_mapped = False\<rparr>]
       \<lparr>aa_address = ''8.8.4.4'', aa_family = 4, aa_class = AC_GlobalUnicast, aa_mapped = False\<rparr> 1"
proof -
  let ?c = "\<lparr>cl_valid = True, cl_canonical = Some ''8.8.4.4'', cl_family = Some 4, cl_class = AC_GlobalUnicast,
      cl_mapped = False, cl_mappedIpv4 = None\<rparr>"
  have "classifyIpv4 134743044 = AC_GlobalUnicast"
    by (simp add: class_intervals ipv4_intervals_def)
  then have "classifyResolvedAddress ''8.8.4.4'' (Some 4) = ?c"
    by (simp add: classifyResolvedAddress_def w_parse4)
  then have "classify_answer w_answer = Inr ?c"
    by (simp add: classify_answer_def answer_record_def w_answer_def MAX_RESOLVED_ADDRESS_LENGTH_def)
  then show ?thesis
    by (simp add: admitResolvedAddressSet_def MAX_RESOLVED_ADDRESS_COUNT_def collect_answer_def Let_def
        acceptableForEnvironment_def sort_by_def admitted_of_def map_set_def)
qed

theorem admitted_answers_are_dialable_witness:
  "\<exists>addrs sel. admitResolvedAddressSet str_le Dev [w_answer] = SetAdmitted addrs sel 1
     \<and> sel \<in> set addrs \<and> (\<forall>x\<in>set addrs. aa_class x = AC_GlobalUnicast)"
  using admitted_answers_are_dialable [OF w_admit] w_admit by auto

end
