(* ===== verification/Production_Ledger.thy ===== *)
theory Production_Ledger imports Interfaces begin

text \<open>
  The production budget ledger, the breaker board and the kill switch:
  \<open>src/core/prodObserve/budget.ts\<close>, \<open>breakers.ts\<close> and \<open>killSwitch.ts\<close>.
  Times are finite doubles, here rationals; counters are natural numbers. The
  \<open>Set\<close> of outstanding reservation ids is a list without duplicates.
\<close>

section \<open>Budget ledger\<close>

record budget_limits =
  bl_campaignRequests :: nat
  bl_serviceRequests :: nat
  bl_routeRequests :: nat
  bl_redirectsPerRequest :: nat
  bl_responseBytes :: nat
  bl_concurrency :: nat
  bl_failures :: nat
  bl_campaignWindowMs :: rat

definition PRODUCTION_BUDGET_DEFAULTS :: budget_limits where
  "PRODUCTION_BUDGET_DEFAULTS = \<lparr>bl_campaignRequests = 200, bl_serviceRequests = 50, bl_routeRequests = 10,
     bl_redirectsPerRequest = 3, bl_responseBytes = 2 * 1024 * 1024, bl_concurrency = 1, bl_failures = 3,
     bl_campaignWindowMs = 60 * 60 * 1000\<rparr>"

datatype budget_scope = Scope_Campaign | Scope_Service | Scope_Route | Scope_Concurrency
  | Scope_Failures | Scope_Window

record reservation =
  rs_id :: nat
  rs_serviceKey :: string
  rs_routeKey :: string

datatype reservation_result = Reserved reservation | Exhausted budget_scope

record budget_request =
  bq_serviceKey :: string
  bq_routeKey :: string
  bq_nowMs :: rat

record ledger =
  lg_limits :: budget_limits
  lg_startedAtMs :: rat
  lg_campaignUsed :: nat
  lg_inFlight :: nat
  lg_failures :: nat
  lg_nextId :: nat
  lg_serviceUsed :: "(string \<times> nat) list"
  lg_routeUsed :: "(string \<times> nat) list"
  lg_outstanding :: "nat list"

datatype budget_error = PRODUCTION_BUDGET_KEY_INVALID

datatype settle_outcome = Success | Failure

definition new_ledger :: "budget_limits option \<Rightarrow> rat \<Rightarrow> ledger" where
  "new_ledger limits startedAtMs =
     \<lparr>lg_limits = (case limits of None \<Rightarrow> PRODUCTION_BUDGET_DEFAULTS | Some l \<Rightarrow> l), lg_startedAtMs = startedAtMs,
      lg_campaignUsed = 0, lg_inFlight = 0, lg_failures = 0, lg_nextId = 1, lg_serviceUsed = [],
      lg_routeUsed = [], lg_outstanding = []\<rparr>"

definition budget_key_ok :: "string \<Rightarrow> bool" where
  "budget_key_ok s = (1 \<le> length s \<and> length s \<le> 128 \<and> (\<forall>c\<in>set s. is_alnum c \<or> c \<in> set ''_.:-''))"

definition used_count :: "(string \<times> nat) list \<Rightarrow> string \<Rightarrow> nat" where
  "used_count m k = (case map_get m k of None \<Rightarrow> 0 | Some n \<Rightarrow> n)"

definition serviceRequestsUsed :: "ledger \<Rightarrow> string \<Rightarrow> nat" where
  "serviceRequestsUsed l k = used_count (lg_serviceUsed l) k"

definition routeRequestsUsed :: "ledger \<Rightarrow> string \<Rightarrow> nat" where
  "routeRequestsUsed l k = used_count (lg_routeUsed l) k"

definition reserve :: "budget_request \<Rightarrow> ledger \<Rightarrow> (budget_error, reservation_result \<times> ledger) result" where
  "reserve q l =
     (if \<not> budget_key_ok (bq_serviceKey q) \<or> \<not> budget_key_ok (bq_routeKey q) then Inl PRODUCTION_BUDGET_KEY_INVALID
      else if bl_campaignWindowMs (lg_limits l) \<le> bq_nowMs q - lg_startedAtMs l then Inr (Exhausted Scope_Window, l)
      else if bl_failures (lg_limits l) \<le> lg_failures l then Inr (Exhausted Scope_Failures, l)
      else if bl_concurrency (lg_limits l) \<le> lg_inFlight l then Inr (Exhausted Scope_Concurrency, l)
      else if bl_campaignRequests (lg_limits l) \<le> lg_campaignUsed l then Inr (Exhausted Scope_Campaign, l)
      else if bl_serviceRequests (lg_limits l) \<le> serviceRequestsUsed l (bq_serviceKey q)
        then Inr (Exhausted Scope_Service, l)
      else if bl_routeRequests (lg_limits l) \<le> routeRequestsUsed l (bq_routeKey q)
        then Inr (Exhausted Scope_Route, l)
      else Inr (Reserved \<lparr>rs_id = lg_nextId l, rs_serviceKey = bq_serviceKey q, rs_routeKey = bq_routeKey q\<rparr>,
        l\<lparr>lg_campaignUsed := lg_campaignUsed l + 1, lg_inFlight := lg_inFlight l + 1,
          lg_outstanding := (if lg_nextId l \<in> set (lg_outstanding l) then lg_outstanding l
                             else lg_outstanding l @ [lg_nextId l]),
          lg_serviceUsed := map_set (lg_serviceUsed l) (bq_serviceKey q) (serviceRequestsUsed l (bq_serviceKey q) + 1),
          lg_routeUsed := map_set (lg_routeUsed l) (bq_routeKey q) (routeRequestsUsed l (bq_routeKey q) + 1),
          lg_nextId := lg_nextId l + 1\<rparr>))"

definition releaseReservation :: "reservation \<Rightarrow> ledger \<Rightarrow> ledger" where
  "releaseReservation r l =
     (if rs_id r \<notin> set (lg_outstanding l) then l
      else l\<lparr>lg_outstanding := filter (\<lambda>i. i \<noteq> rs_id r) (lg_outstanding l),
             lg_inFlight := (if 0 < lg_inFlight l then lg_inFlight l - 1 else lg_inFlight l)\<rparr>)"

definition settle_reservation :: "reservation \<Rightarrow> settle_outcome \<Rightarrow> ledger \<Rightarrow> ledger" where
  "settle_reservation r out l =
     (if rs_id r \<notin> set (lg_outstanding l) then l
      else let l1 = l\<lparr>lg_outstanding := filter (\<lambda>i. i \<noteq> rs_id r) (lg_outstanding l),
                       lg_inFlight := (if 0 < lg_inFlight l then lg_inFlight l - 1 else lg_inFlight l)\<rparr>
           in if out = Failure then l1\<lparr>lg_failures := lg_failures l1 + 1\<rparr> else l1)"

section \<open>Breakers\<close>

datatype breaker_category = PRIVACY_VIOLATION | CONTAINMENT_ANOMALY | UNEXPECTED_REDIRECT
  | RESPONSE_SIZE_VIOLATION | ROUTE_MISMATCH | MUTATION_SIGNAL | AUTHORIZATION_INVALIDATION
  | BUDGET_EXHAUSTION | PERSISTENCE_FAILURE

record breaker_board =
  bk_opened :: "breaker_category list"

definition breaker_isOpen :: "breaker_board \<Rightarrow> bool" where
  "breaker_isOpen b = (0 < length (bk_opened b))"

definition firstOpened :: "breaker_board \<Rightarrow> breaker_category option" where
  "firstOpened b = (case bk_opened b of [] \<Rightarrow> None | c # _ \<Rightarrow> Some c)"

definition open_breaker :: "breaker_category \<Rightarrow> breaker_board \<Rightarrow> breaker_board" where
  "open_breaker c b = (if c \<notin> set (bk_opened b) then b\<lparr>bk_opened := bk_opened b @ [c]\<rparr> else b)"

text \<open>\<open>None\<close> is \<open>CLOSED\<close>.\<close>

definition breakerState :: "breaker_board \<Rightarrow> breaker_category option" where
  "breakerState b = firstOpened b"

text \<open>A breaker never closes, and the first category stays the one reported.\<close>

lemma open_breaker_sticks: "breaker_isOpen (open_breaker c b)"
  and open_breaker_first: "breaker_isOpen b \<Longrightarrow> breakerState (open_breaker c b) = breakerState b"
  by (auto simp: breaker_isOpen_def open_breaker_def breakerState_def firstOpened_def split: list.splits)

section \<open>Kill switch\<close>

text \<open>What the injected probe does when it is asked: it answers or it throws.\<close>

datatype probe_answer = ProbeReturns bool | ProbeThrows

datatype kill_switch_state = KS_Absent | KS_Engaged

fun evaluateKillSwitch :: "probe_answer \<Rightarrow> kill_switch_state" where
  "evaluateKillSwitch ProbeThrows = KS_Engaged"
| "evaluateKillSwitch (ProbeReturns engaged) = (if engaged then KS_Engaged else KS_Absent)"

text \<open>The file-backed probe: \<open>exists\<close> answers or throws.\<close>

fun createStopFileKillSwitchProbe :: "bool option \<Rightarrow> probe_answer" where
  "createStopFileKillSwitchProbe (Some present) = ProbeReturns present"
| "createStopFileKillSwitchProbe None = ProbeReturns True"

section \<open>Invariant\<close>

definition ledger_wf :: "ledger \<Rightarrow> bool" where
  "ledger_wf l = (distinct (lg_outstanding l) \<and> lg_inFlight l = length (lg_outstanding l)
     \<and> (\<forall>i\<in>set (lg_outstanding l). i < lg_nextId l)
     \<and> lg_inFlight l \<le> bl_concurrency (lg_limits l) \<and> lg_campaignUsed l \<le> bl_campaignRequests (lg_limits l)
     \<and> (\<forall>k. serviceRequestsUsed l k \<le> bl_serviceRequests (lg_limits l))
     \<and> (\<forall>k. routeRequestsUsed l k \<le> bl_routeRequests (lg_limits l)))"

lemma new_ledger_wf: "ledger_wf (new_ledger limits t)"
  by (simp add: ledger_wf_def new_ledger_def serviceRequestsUsed_def routeRequestsUsed_def used_count_def map_get_def)

lemma used_count_set: "used_count (map_set m k n) k' = (if k' = k then n else used_count m k')"
  by (simp add: used_count_def map_get_set)

lemma reserve_Reserved:
  assumes "reserve q l = Inr (Reserved r, l')" and "ledger_wf l"
  shows "rs_id r = lg_nextId l \<and> lg_nextId l' = lg_nextId l + 1 \<and> lg_outstanding l' = lg_outstanding l @ [rs_id r]
    \<and> lg_inFlight l' = lg_inFlight l + 1 \<and> lg_campaignUsed l' = lg_campaignUsed l + 1
    \<and> lg_limits l' = lg_limits l \<and> lg_startedAtMs l' = lg_startedAtMs l \<and> lg_failures l' = lg_failures l
    \<and> lg_failures l < bl_failures (lg_limits l)
    \<and> bq_nowMs q - lg_startedAtMs l < bl_campaignWindowMs (lg_limits l)
    \<and> rs_serviceKey r = bq_serviceKey q \<and> rs_routeKey r = bq_routeKey q"
proof -
  have "lg_nextId l \<notin> set (lg_outstanding l)" using assms(2) by (auto simp: ledger_wf_def)
  then show ?thesis using assms(1) by (auto simp: reserve_def split: if_splits)
qed

lemma reserve_wf:
  assumes "reserve q l = Inr (v, l')" and "ledger_wf l"
  shows "ledger_wf l'"
proof (cases v)
  case (Reserved r)
  have "lg_nextId l \<notin> set (lg_outstanding l)" using assms(2) by (auto simp: ledger_wf_def)
  then show ?thesis using assms Reserved
    by (auto simp: reserve_def ledger_wf_def serviceRequestsUsed_def routeRequestsUsed_def used_count_set
        less_SucI split: if_splits)
next
  case (Exhausted s)
  then show ?thesis using assms by (auto simp: reserve_def split: if_splits)
qed

lemma length_filter_neq: "distinct xs \<Longrightarrow> x \<in> set xs \<Longrightarrow> length (filter (\<lambda>y. y \<noteq> x) xs) = length xs - 1"
proof (induction xs)
  case (Cons a xs)
  show ?case
  proof (cases "a = x")
    case True
    then have "filter (\<lambda>y. y \<noteq> x) xs = xs" using Cons.prems by (intro filter_True) auto
    then show ?thesis using True by simp
  next
    case False
    then have "x \<in> set xs" using Cons.prems by simp
    then have "0 < length xs" by (rule length_pos_if_in_set)
    then show ?thesis using False Cons by simp
  qed
qed simp

lemma drop_outstanding_wf:
  assumes "ledger_wf l" and "i \<in> set (lg_outstanding l)"
  shows "ledger_wf (l\<lparr>lg_outstanding := filter (\<lambda>j. j \<noteq> i) (lg_outstanding l),
    lg_inFlight := (if 0 < lg_inFlight l then lg_inFlight l - 1 else lg_inFlight l)\<rparr>)"
proof -
  have "length (filter (\<lambda>j. j \<noteq> i) (lg_outstanding l)) = length (lg_outstanding l) - 1"
    using assms by (intro length_filter_neq) (auto simp: ledger_wf_def)
  then show ?thesis using assms(1)
    by (auto simp: ledger_wf_def serviceRequestsUsed_def routeRequestsUsed_def)
qed

lemma releaseReservation_wf: "ledger_wf l \<Longrightarrow> ledger_wf (releaseReservation r l)"
  by (simp add: releaseReservation_def drop_outstanding_wf)

lemma settle_reservation_wf:
  assumes "ledger_wf l"
  shows "ledger_wf (settle_reservation r out l)"
proof (cases "rs_id r \<in> set (lg_outstanding l)")
  case True
  have fail: "ledger_wf (x\<lparr>lg_failures := n\<rparr>) = ledger_wf x" for x n
    by (simp add: ledger_wf_def serviceRequestsUsed_def routeRequestsUsed_def)
  show ?thesis using drop_outstanding_wf [OF assms True] True
    by (simp add: settle_reservation_def Let_def fail)
qed (use assms in \<open>simp add: settle_reservation_def\<close>)

section \<open>The ledger under any use\<close>

datatype ledger_op = OpReserve budget_request | OpRelease reservation | OpSettle reservation settle_outcome

fun ledger_step :: "ledger \<Rightarrow> ledger_op \<Rightarrow> ledger \<times> bool" where
  "ledger_step l (OpReserve q) =
     (case reserve q l of Inl _ \<Rightarrow> (l, False) | Inr (Reserved _, l') \<Rightarrow> (l', True) | Inr (Exhausted _, l') \<Rightarrow> (l', False))"
| "ledger_step l (OpRelease r) = (releaseReservation r l, False)"
| "ledger_step l (OpSettle r out) = (settle_reservation r out l, False)"

lemma ledger_step_wf: "ledger_wf l \<Longrightarrow> ledger_wf (fst (ledger_step l op))"
  by (cases op) (auto simp: releaseReservation_wf settle_reservation_wf dest: reserve_wf
      split: sum.split reservation_result.split)

lemma ledger_step_limits: "lg_limits (fst (ledger_step l op)) = lg_limits l"
  by (cases op) (auto simp: releaseReservation_def settle_reservation_def Let_def reserve_def
      split: sum.split reservation_result.split if_splits)

definition ledger_inv :: "budget_limits \<Rightarrow> ledger \<Rightarrow> bool" where
  "ledger_inv limits l = (ledger_wf l \<and> lg_limits l = limits)"

lemma ledger_inv_step: "ledger_inv limits l \<Longrightarrow> ledger_inv limits (fst (ledger_step l op))"
  by (simp add: ledger_inv_def ledger_step_wf ledger_step_limits)

lemma ledger_step_campaign:
  "ledger_wf l \<Longrightarrow> lg_campaignUsed (fst (ledger_step l op)) = lg_campaignUsed l + (if snd (ledger_step l op) then 1 else 0)"
  by (cases op) (auto simp: releaseReservation_def settle_reservation_def Let_def reserve_def
      split: sum.split reservation_result.split if_splits)

interpretation campaign_meter: metered ledger_step "ledger_inv limits" lg_campaignUsed "\<lambda>_. 1 :: nat" "bl_campaignRequests limits"
  for limits
proof unfold_locales
  fix l op assume inv: "ledger_inv limits l"
  then show "ledger_inv limits (fst (ledger_step l op))" by (rule ledger_inv_step)
  show "snd (ledger_step l op) \<Longrightarrow> lg_campaignUsed l + 1 \<le> lg_campaignUsed (fst (ledger_step l op))"
    and "\<not> snd (ledger_step l op) \<Longrightarrow> lg_campaignUsed l \<le> lg_campaignUsed (fst (ledger_step l op))"
    using ledger_step_campaign inv by (auto simp: ledger_inv_def)
  show "lg_campaignUsed l \<le> bl_campaignRequests limits" using inv by (auto simp: ledger_inv_def ledger_wf_def)
qed

text \<open>The service and route budgets, seen one key at a time.\<close>

definition keyed_step :: "(budget_request \<Rightarrow> bool) \<Rightarrow> ledger \<Rightarrow> ledger_op \<Rightarrow> ledger \<times> bool" where
  "keyed_step P l op = (fst (ledger_step l op), snd (ledger_step l op) \<and> (\<exists>q. op = OpReserve q \<and> P q))"

lemma keyed_accepted:
  "accepted (keyed_step P) l ops = filter (\<lambda>op. \<exists>q. op = OpReserve q \<and> P q) (accepted ledger_step l ops)"
  by (induction ops arbitrary: l) (auto simp: keyed_step_def)

lemma keyed_run: "run_ops (keyed_step P) l ops = run_ops ledger_step l ops"
  by (induction ops arbitrary: l) (auto simp: keyed_step_def)

lemma ledger_step_route:
  "ledger_wf l \<Longrightarrow> routeRequestsUsed (fst (ledger_step l op)) k = routeRequestsUsed l k
     + (if snd (ledger_step l op) \<and> (\<exists>q. op = OpReserve q \<and> bq_routeKey q = k) then 1 else 0)"
  by (cases op) (auto simp: releaseReservation_def settle_reservation_def Let_def reserve_def routeRequestsUsed_def
      used_count_set split: sum.split reservation_result.split if_splits)

lemma ledger_step_service:
  "ledger_wf l \<Longrightarrow> serviceRequestsUsed (fst (ledger_step l op)) k = serviceRequestsUsed l k
     + (if snd (ledger_step l op) \<and> (\<exists>q. op = OpReserve q \<and> bq_serviceKey q = k) then 1 else 0)"
  by (cases op) (auto simp: releaseReservation_def settle_reservation_def Let_def reserve_def serviceRequestsUsed_def
      used_count_set split: sum.split reservation_result.split if_splits)

interpretation route_meter: metered "keyed_step (\<lambda>q. bq_routeKey q = k)" "ledger_inv limits"
  "\<lambda>l. routeRequestsUsed l k" "\<lambda>_. 1 :: nat" "bl_routeRequests limits" for k limits
proof unfold_locales
  let ?s = "keyed_step (\<lambda>q. bq_routeKey q = k)"
  fix l op assume inv: "ledger_inv limits l"
  then show "ledger_inv limits (fst (?s l op))" by (simp add: keyed_step_def ledger_inv_step)
  show "snd (?s l op) \<Longrightarrow> routeRequestsUsed l k + 1 \<le> routeRequestsUsed (fst (?s l op)) k"
    and "\<not> snd (?s l op) \<Longrightarrow> routeRequestsUsed l k \<le> routeRequestsUsed (fst (?s l op)) k"
    using ledger_step_route [of l op k] inv by (auto simp: ledger_inv_def keyed_step_def)
  show "routeRequestsUsed l k \<le> bl_routeRequests limits" using inv by (auto simp: ledger_inv_def ledger_wf_def)
qed

interpretation service_meter: metered "keyed_step (\<lambda>q. bq_serviceKey q = k)" "ledger_inv limits"
  "\<lambda>l. serviceRequestsUsed l k" "\<lambda>_. 1 :: nat" "bl_serviceRequests limits" for k limits
proof unfold_locales
  let ?s = "keyed_step (\<lambda>q. bq_serviceKey q = k)"
  fix l op assume inv: "ledger_inv limits l"
  then show "ledger_inv limits (fst (?s l op))" by (simp add: keyed_step_def ledger_inv_step)
  show "snd (?s l op) \<Longrightarrow> serviceRequestsUsed l k + 1 \<le> serviceRequestsUsed (fst (?s l op)) k"
    and "\<not> snd (?s l op) \<Longrightarrow> serviceRequestsUsed l k \<le> serviceRequestsUsed (fst (?s l op)) k"
    using ledger_step_service [of l op k] inv by (auto simp: ledger_inv_def keyed_step_def)
  show "serviceRequestsUsed l k \<le> bl_serviceRequests limits" using inv by (auto simp: ledger_inv_def ledger_wf_def)
qed

text \<open>C11: Whatever sequence of reservations, releases and settlements a caller performs, with
  any tokens, a fresh ledger grants at most the campaign, service and route limits, never
  has more in flight than the concurrency limit, and counts in flight exactly the
  reservations that are outstanding.\<close>

theorem ledger_never_overspends:
  assumes "l = new_ledger (Some limits) t"
  shows "length (accepted ledger_step l ops) \<le> bl_campaignRequests limits
    \<and> length (filter (\<lambda>op. \<exists>q. op = OpReserve q \<and> bq_serviceKey q = k) (accepted ledger_step l ops)) \<le> bl_serviceRequests limits
    \<and> length (filter (\<lambda>op. \<exists>q. op = OpReserve q \<and> bq_routeKey q = k) (accepted ledger_step l ops)) \<le> bl_routeRequests limits
    \<and> lg_inFlight (run_ops ledger_step l ops) \<le> bl_concurrency limits
    \<and> lg_inFlight (run_ops ledger_step l ops) = length (lg_outstanding (run_ops ledger_step l ops))"
proof -
  have inv: "ledger_inv limits l" using assms by (simp add: ledger_inv_def new_ledger_wf) (simp add: new_ledger_def)
  have "ledger_inv limits (run_ops ledger_step l ops)" using campaign_meter.inv_run [OF inv] .
  then have "lg_inFlight (run_ops ledger_step l ops) \<le> bl_concurrency limits"
    "lg_inFlight (run_ops ledger_step l ops) = length (lg_outstanding (run_ops ledger_step l ops))"
    by (auto simp: ledger_inv_def ledger_wf_def)
  moreover have "length (accepted ledger_step l ops) \<le> bl_campaignRequests limits"
    using campaign_meter.accepted_cost_capped [OF inv, of ops] by (simp add: sum_list_triv)
  moreover have "length (accepted (keyed_step (\<lambda>q. bq_serviceKey q = k)) l ops) \<le> bl_serviceRequests limits"
    using service_meter.accepted_cost_capped [OF inv, of k ops] by (simp add: sum_list_triv)
  moreover have "length (accepted (keyed_step (\<lambda>q. bq_routeKey q = k)) l ops) \<le> bl_routeRequests limits"
    using route_meter.accepted_cost_capped [OF inv, of k ops] by (simp add: sum_list_triv)
  ultimately show ?thesis unfolding keyed_accepted by blast
qed

definition w_budget_request :: budget_request where
  "w_budget_request = \<lparr>bq_serviceKey = ''s'', bq_routeKey = ''r'', bq_nowMs = 5\<rparr>"

lemma w_reserve:
  "\<exists>r l. reserve w_budget_request (new_ledger None 0) = Inr (Reserved r, l)"
  by (simp add: reserve_def w_budget_request_def new_ledger_def PRODUCTION_BUDGET_DEFAULTS_def budget_key_ok_def
      is_alnum_def is_digit_def is_lower_letter_def code_unit_def serviceRequestsUsed_def routeRequestsUsed_def
      used_count_def map_get_def)

theorem ledger_never_overspends_witness:
  "length (accepted ledger_step (new_ledger (Some PRODUCTION_BUDGET_DEFAULTS) 0)
     (replicate 3 (OpReserve w_budget_request))) \<le> 200"
  using ledger_never_overspends [of "new_ledger (Some PRODUCTION_BUDGET_DEFAULTS) 0" PRODUCTION_BUDGET_DEFAULTS 0
      "replicate 3 (OpReserve w_budget_request)" "''s''"]
  by (simp add: PRODUCTION_BUDGET_DEFAULTS_def)

lemma first_reservation:
  "reserve q (new_ledger limits t) = Inr (Reserved r, l) \<Longrightarrow>
     rs_id r = 1 \<and> lg_outstanding l = [1] \<and> lg_inFlight l = 1 \<and> lg_failures l = 0"
  using reserve_Reserved [of q "new_ledger limits t" r l] new_ledger_wf [of limits t]
  by (simp add: new_ledger_def)

text \<open>Reservation tokens are only as good as their small integer: the first token of
  any other ledger releases this ledger's first reservation, or settles it and charges
  it a failure, after which the owner's own token does nothing.\<close>

theorem foreign_token_settles:
  assumes "reserve q1 (new_ledger limits1 t1) = Inr (Reserved own, l)"
    and "reserve q2 (new_ledger limits2 t2) = Inr (Reserved foreign, l')"
  shows "lg_inFlight (releaseReservation foreign l) = 0
    \<and> lg_failures (settle_reservation foreign Failure l) = 1
    \<and> settle_reservation own out (settle_reservation foreign Failure l) = settle_reservation foreign Failure l"
  using first_reservation [OF assms(1)] first_reservation [OF assms(2)]
  by (simp add: releaseReservation_def settle_reservation_def Let_def)

theorem foreign_token_settles_witness:
  "\<exists>own l. reserve w_budget_request (new_ledger None 0) = Inr (Reserved own, l)
     \<and> lg_failures (settle_reservation own Failure l) = 1"
proof -
  obtain r l where r: "reserve w_budget_request (new_ledger None 0) = Inr (Reserved r, l)" using w_reserve by blast
  show ?thesis using foreign_token_settles [OF r r] r by blast
qed

end
