(* ===== verification/Production_Grants.thy ===== *)
theory Production_Grants imports Interfaces begin

text \<open>
  Production observation grants, \<open>src/core/prodObserve/authorization.ts\<close>. A grant is
  recognised by object identity, so the model has an explicit store: a reference is
  a natural number and \<open>gw_heap\<close> gives the fields of the object it names. The module-private
  registry maps a grant id to the reference it minted and its state. \<open>OpForge\<close> is any other
  code that builds an object of a grant's shape, a JSON revival for instance. The random
  part of an id comes from \<open>crypto.randomBytes\<close> and is an argument.
\<close>

datatype observation_stage = Stage_P0 | Stage_PQ | Stage_P1 | Stage_P2 | Stage_P3 | Stage_P4

datatype grant_state = GS_Issued | GS_Consumed | GS_Revoked

record grant =
  gn_authorizationClass :: string
  gn_grantId :: string
  gn_campaignId :: string
  gn_stage :: observation_stage
  gn_notBeforeMs :: rat
  gn_expiresAtMs :: rat

record grant_world =
  gw_heap :: "nat \<Rightarrow> grant option"
  gw_next :: nat
  gw_registry :: "(string \<times> (nat \<times> grant_state)) list"

text \<open>\<open>unknown\<close>: something that is not an object, or a reference.\<close>

datatype grant_candidate = NotAnObject | ObjectRef nat

datatype grant_error = GRANT_CAMPAIGN_INVALID | GRANT_WINDOW_INVALID

datatype grant_denial = AUTHORIZATION_ABSENT | AUTHORIZATION_EXPIRED | AUTHORIZATION_SCOPE_MISMATCH
  | ALREADY_CONSUMED

definition PROD_OBSERVE_AUTHORIZATION_CLASS :: string where
  "PROD_OBSERVE_AUTHORIZATION_CLASS = ''PROD_OBSERVE''"

definition empty_world :: grant_world where
  "empty_world = \<lparr>gw_heap = (\<lambda>_. None), gw_next = 0, gw_registry = []\<rparr>"

definition grant_id_ok :: "string \<Rightarrow> bool" where
  "grant_id_ok s = (starts_with ''pog_'' s \<and> length s = 36
     \<and> (\<forall>c\<in>set (drop 4 s). is_digit c \<or> (97 \<le> code_unit c \<and> code_unit c \<le> 102)))"

record issue_request =
  iq_campaignId :: string
  iq_stage :: observation_stage
  iq_notBeforeMs :: "rat option"
  iq_expiresAtMs :: "rat option"

text \<open>A time is \<open>None\<close> when it is not a finite number.\<close>

definition issueProdObserveGrant ::
  "string \<Rightarrow> issue_request \<Rightarrow> grant_world \<Rightarrow> (grant_error, nat \<times> grant_world) result" where
  "issueProdObserveGrant hex q w =
     (if trim (iq_campaignId q) = [] then Inl GRANT_CAMPAIGN_INVALID
      else case (iq_notBeforeMs q, iq_expiresAtMs q) of
        (Some from_ms, Some to_ms) \<Rightarrow>
          if to_ms \<le> from_ms then Inl GRANT_WINDOW_INVALID
          else let g = \<lparr>gn_authorizationClass = PROD_OBSERVE_AUTHORIZATION_CLASS, gn_grantId = ''pog_'' @ hex,
                        gn_campaignId = iq_campaignId q, gn_stage = iq_stage q,
                        gn_notBeforeMs = from_ms, gn_expiresAtMs = to_ms\<rparr>;
                   r = gw_next w
               in Inr (r, \<lparr>gw_heap = (gw_heap w)(r := Some g), gw_next = r + 1,
                           gw_registry = map_set (gw_registry w) (''pog_'' @ hex) (r, GS_Issued)\<rparr>)
      | _ \<Rightarrow> Inl GRANT_WINDOW_INVALID)"

definition candidate_fields :: "grant_world \<Rightarrow> grant_candidate \<Rightarrow> (nat \<times> grant) option" where
  "candidate_fields w c = (case c of NotAnObject \<Rightarrow> None
     | ObjectRef r \<Rightarrow> (case gw_heap w r of None \<Rightarrow> None | Some g \<Rightarrow> Some (r, g)))"

definition registered_entry :: "grant_world \<Rightarrow> grant_candidate \<Rightarrow> (grant \<times> grant_state) option" where
  "registered_entry w c =
     (case candidate_fields w c of
        None \<Rightarrow> None
      | Some (r, g) \<Rightarrow>
          if \<not> grant_id_ok (gn_grantId g) then None
          else case map_get (gw_registry w) (gn_grantId g) of
                 None \<Rightarrow> None
               | Some (r', s) \<Rightarrow> if r' = r then Some (g, s) else None)"

definition isRegisteredGrant :: "grant_world \<Rightarrow> grant_candidate \<Rightarrow> bool" where
  "isRegisteredGrant w c = (registered_entry w c \<noteq> None)"

definition grantLifecycleState :: "grant_world \<Rightarrow> grant_candidate \<Rightarrow> grant_state option" where
  "grantLifecycleState w c = map_option snd (registered_entry w c)"

definition validateProdObserveGrant ::
  "grant_world \<Rightarrow> grant_candidate \<Rightarrow> string \<Rightarrow> rat \<Rightarrow> (grant_denial, grant) result" where
  "validateProdObserveGrant w c campaignId nowMs =
     (case registered_entry w c of
        None \<Rightarrow> Inl AUTHORIZATION_ABSENT
      | Some (g, s) \<Rightarrow>
          if s = GS_Consumed then Inl ALREADY_CONSUMED
          else if s = GS_Revoked then Inl AUTHORIZATION_ABSENT
          else if gn_campaignId g \<noteq> campaignId then Inl AUTHORIZATION_SCOPE_MISMATCH
          else if nowMs < gn_notBeforeMs g \<or> gn_expiresAtMs g \<le> nowMs then Inl AUTHORIZATION_EXPIRED
          else Inr g)"

definition set_grant_state :: "grant_world \<Rightarrow> grant_candidate \<Rightarrow> grant_state \<Rightarrow> grant_world" where
  "set_grant_state w c s =
     (case candidate_fields w c of
        None \<Rightarrow> w
      | Some (r, g) \<Rightarrow> w\<lparr>gw_registry := map_set (gw_registry w) (gn_grantId g) (r, s)\<rparr>)"

definition consumeProdObserveGrant :: "grant_candidate \<Rightarrow> grant_world \<Rightarrow> grant_denial option \<times> grant_world" where
  "consumeProdObserveGrant c w =
     (case registered_entry w c of
        None \<Rightarrow> (Some AUTHORIZATION_ABSENT, w)
      | Some (g, s) \<Rightarrow>
          if s \<noteq> GS_Issued then (Some ALREADY_CONSUMED, w)
          else (None, set_grant_state w c GS_Consumed))"

definition revokeProdObserveGrant :: "grant_candidate \<Rightarrow> grant_world \<Rightarrow> grant_world" where
  "revokeProdObserveGrant c w =
     (case registered_entry w c of
        None \<Rightarrow> w
      | Some (g, s) \<Rightarrow> if s = GS_Issued then set_grant_state w c GS_Revoked else w)"

definition clearProdObserveGrantRegistryForTest :: "grant_world \<Rightarrow> grant_world" where
  "clearProdObserveGrantRegistryForTest w = w\<lparr>gw_registry := []\<rparr>"

section \<open>The world as a step relation\<close>

definition forge :: "grant \<Rightarrow> grant_world \<Rightarrow> grant_world" where
  "forge g w = w\<lparr>gw_heap := (gw_heap w)(gw_next w := Some g), gw_next := gw_next w + 1\<rparr>"

datatype grant_op = OpIssue string issue_request | OpConsumeGrant grant_candidate
  | OpRevoke grant_candidate | OpForge grant | OpClear

fun grant_step_op :: "grant_world \<Rightarrow> grant_op \<Rightarrow> grant_world \<times> bool" where
  "grant_step_op w (OpIssue hex q) =
     (case issueProdObserveGrant hex q w of Inl _ \<Rightarrow> (w, False) | Inr (_, w') \<Rightarrow> (w', True))"
| "grant_step_op w (OpConsumeGrant c) = (case consumeProdObserveGrant c w of (d, w') \<Rightarrow> (w', d = None))"
| "grant_step_op w (OpRevoke c) = (revokeProdObserveGrant c w, False)"
| "grant_step_op w (OpForge g) = (forge g w, False)"
| "grant_step_op w OpClear = (clearProdObserveGrantRegistryForTest w, False)"

definition grant_world_step :: "grant_world \<Rightarrow> grant_world \<Rightarrow> bool" where
  "grant_world_step w w' = (\<exists>op. w' = fst (grant_step_op w op))"

definition world_wf :: "grant_world \<Rightarrow> bool" where
  "world_wf w = ((\<forall>r. gw_next w \<le> r \<longrightarrow> gw_heap w r = None)
     \<and> (\<forall>i r s. map_get (gw_registry w) i = Some (r, s) \<longrightarrow> (\<exists>g. gw_heap w r = Some g \<and> gn_grantId g = i)))"

definition grant_allocated :: "grant_world \<Rightarrow> nat \<Rightarrow> bool" where
  "grant_allocated w r = (gw_heap w r \<noteq> None)"

definition grant_issued :: "grant_world \<Rightarrow> nat \<Rightarrow> bool" where
  "grant_issued w r = (grantLifecycleState w (ObjectRef r) = Some GS_Issued)"

lemma empty_world_wf: "world_wf empty_world"
  by (simp add: world_wf_def empty_world_def map_get_def)

lemma grant_issued_iff:
  "grant_issued w r \<longleftrightarrow> (\<exists>g. gw_heap w r = Some g \<and> grant_id_ok (gn_grantId g)
     \<and> map_get (gw_registry w) (gn_grantId g) = Some (r, GS_Issued))"
  by (auto simp: grant_issued_def grantLifecycleState_def registered_entry_def candidate_fields_def
      split: option.splits)

lemma registered_entry_NotAnObject [simp]: "registered_entry w NotAnObject = None"
  by (simp add: registered_entry_def candidate_fields_def)

lemma registered_entry_Some:
  "registered_entry w c = Some (g, s) \<longleftrightarrow> (\<exists>r. c = ObjectRef r \<and> gw_heap w r = Some g
     \<and> grant_id_ok (gn_grantId g) \<and> map_get (gw_registry w) (gn_grantId g) = Some (r, s))"
  by (cases c) (auto simp: registered_entry_def candidate_fields_def split: option.splits)

lemma set_grant_state_registered:
  "registered_entry w c = Some (g, s) \<Longrightarrow> \<exists>r. c = ObjectRef r \<and> gw_heap w r = Some g \<and>
     set_grant_state w c s' = w\<lparr>gw_registry := map_set (gw_registry w) (gn_grantId g) (r, s')\<rparr>"
  by (auto simp: registered_entry_Some set_grant_state_def candidate_fields_def)

lemma set_grant_state_wf:
  "world_wf w \<Longrightarrow> registered_entry w c = Some (g, s) \<Longrightarrow> world_wf (set_grant_state w c s')"
  by (drule set_grant_state_registered [of w c g s s']) (auto simp: world_wf_def map_get_set split: if_splits)

lemma grant_step_wf: "world_wf w \<Longrightarrow> world_wf (fst (grant_step_op w op))"
proof (cases op)
  case (OpIssue hex q)
  assume "world_wf w"
  then show ?thesis using OpIssue
    by (fastforce simp: issueProdObserveGrant_def Let_def world_wf_def map_get_set
        split: option.split sum.split if_splits)
next
  case (OpConsumeGrant c)
  assume "world_wf w"
  then show ?thesis using OpConsumeGrant set_grant_state_wf
    by (auto simp: consumeProdObserveGrant_def split: option.split)
next
  case (OpRevoke c)
  assume "world_wf w"
  then show ?thesis using OpRevoke set_grant_state_wf
    by (auto simp: revokeProdObserveGrant_def split: option.split)
next
  case (OpForge g)
  assume "world_wf w"
  then show ?thesis using OpForge by (fastforce simp: forge_def world_wf_def)
next
  case OpClear
  assume "world_wf w"
  then show ?thesis using OpClear by (auto simp: clearProdObserveGrantRegistryForTest_def world_wf_def map_get_def)
qed

lemma heap_kept: "world_wf w \<Longrightarrow> gw_heap w r = Some g \<Longrightarrow> gw_heap (fst (grant_step_op w op)) r = Some g"
  by (cases op)
     (auto simp: issueProdObserveGrant_def Let_def consumeProdObserveGrant_def revokeProdObserveGrant_def forge_def
       set_grant_state_def clearProdObserveGrantRegistryForTest_def world_wf_def not_less_eq_eq [symmetric]
       split: option.split sum.split prod.split)

lemma issued_step_back:
  assumes wf: "world_wf w" and known: "grant_allocated w r" and after: "grant_issued (fst (grant_step_op w op)) r"
  shows "grant_issued w r"
proof -
  obtain g where g: "gw_heap w r = Some g" using known by (auto simp: grant_allocated_def)
  then have g': "gw_heap (fst (grant_step_op w op)) r = Some g" by (rule heap_kept [OF wf])
  with after have ok: "grant_id_ok (gn_grantId g)"
      and reg: "map_get (gw_registry (fst (grant_step_op w op))) (gn_grantId g) = Some (r, GS_Issued)"
    by (auto simp: grant_issued_iff)
  have "map_get (gw_registry w) (gn_grantId g) = Some (r, GS_Issued)"
  proof (cases op)
    case (OpIssue hex q)
    have "r \<noteq> gw_next w" using g wf by (auto simp: world_wf_def)
    then show ?thesis using OpIssue reg
      by (auto simp: issueProdObserveGrant_def Let_def map_get_set split: if_splits option.splits sum.splits)
  next
    case (OpConsumeGrant c)
    then show ?thesis using reg
      by (auto simp: consumeProdObserveGrant_def map_get_set split: if_splits option.splits
          dest!: set_grant_state_registered [where s' = GS_Consumed])
  next
    case (OpRevoke c)
    then show ?thesis using reg
      by (auto simp: revokeProdObserveGrant_def map_get_set split: if_splits option.splits
          dest!: set_grant_state_registered [where s' = GS_Revoked])
  next
    case (OpForge f)
    then show ?thesis using reg by (simp add: forge_def)
  next
    case OpClear
    then show ?thesis using reg by (simp add: clearProdObserveGrantRegistryForTest_def map_get_def)
  qed
  with g ok show ?thesis by (simp add: grant_issued_iff)
qed

interpretation grants: revocable_authority grant_world_step world_wf grant_allocated grant_issued
proof unfold_locales
  show "world_wf w'" if "world_wf w" "grant_world_step w w'" for w w'
    using that grant_step_wf by (auto simp: grant_world_step_def)
  show "grant_allocated w' r" if "world_wf w" "grant_world_step w w'" "grant_allocated w r" for w w' r
    using that heap_kept by (fastforce simp: grant_world_step_def grant_allocated_def)
  show "\<not> grant_issued w' r"
    if "world_wf w" "grant_world_step w w'" "grant_allocated w r" "\<not> grant_issued w r" for w w' r
    using that issued_step_back by (auto simp: grant_world_step_def)
qed

lemma run_ops_steps: "grant_world_step\<^sup>*\<^sup>* w (run_ops grant_step_op w ops)"
proof (induction ops arbitrary: w)
  case (Cons op ops)
  have "grant_world_step w (fst (grant_step_op w op))" by (auto simp: grant_world_step_def)
  with Cons show ?case by (auto intro: converse_rtranclp_into_rtranclp)
qed simp

lemma consume_ok:
  "consumeProdObserveGrant c w = (None, w') \<longleftrightarrow>
     (\<exists>r. c = ObjectRef r \<and> grant_issued w r) \<and> w' = set_grant_state w c GS_Consumed"
  by (cases c) (auto simp: consumeProdObserveGrant_def grant_issued_def grantLifecycleState_def split: option.splits)

lemma consumed_not_issued:
  assumes "consumeProdObserveGrant (ObjectRef r) w = (None, w')"
  shows "\<not> grant_issued w' r \<and> gw_heap w' = gw_heap w"
proof -
  have "grant_issued w r" "w' = set_grant_state w (ObjectRef r) GS_Consumed"
    using assms by (auto simp: consume_ok)
  then show ?thesis
    by (auto simp: grant_issued_iff set_grant_state_def candidate_fields_def map_get_set)
qed

text \<open>C12: A grant is one-shot. Whatever is issued, consumed, revoked, forged or cleared in between,
  an object that has been consumed or revoked once (or was never registered) is never consumed
  again: no later state validates it or lets it be consumed.\<close>

theorem grant_is_one_shot:
  assumes "world_wf w" and "grant_allocated w r" and "\<not> grant_issued w r"
  shows "fst (consumeProdObserveGrant (ObjectRef r) (run_ops grant_step_op w ops)) \<noteq> None
    \<and> (\<forall>campaign now g. validateProdObserveGrant (run_ops grant_step_op w ops) (ObjectRef r) campaign now \<noteq> Inr g)"
proof -
  let ?w = "run_ops grant_step_op w ops"
  have lost: "\<not> grant_issued ?w r"
    using grants.lost_for_good [OF run_ops_steps assms] by blast
  then have "fst (consumeProdObserveGrant (ObjectRef r) ?w) \<noteq> None"
    using consume_ok [of "ObjectRef r" ?w] by (cases "consumeProdObserveGrant (ObjectRef r) ?w") auto
  moreover have "validateProdObserveGrant ?w (ObjectRef r) campaign now \<noteq> Inr g" for campaign now g
    using lost by (auto simp: validateProdObserveGrant_def grant_issued_def grantLifecycleState_def
        split: option.splits prod.splits if_splits) (metis grant_state.exhaust)
  ultimately show ?thesis by blast
qed

definition w_hex :: string where
  "w_hex = replicate 32 CHR ''0''"

definition w_issue :: issue_request where
  "w_issue = \<lparr>iq_campaignId = ''c'', iq_stage = Stage_PQ, iq_notBeforeMs = Some 0, iq_expiresAtMs = Some 10\<rparr>"

definition w_grant :: grant where
  "w_grant = \<lparr>gn_authorizationClass = PROD_OBSERVE_AUTHORIZATION_CLASS, gn_grantId = ''pog_'' @ w_hex,
     gn_campaignId = ''c'', gn_stage = Stage_PQ, gn_notBeforeMs = 0, gn_expiresAtMs = 10\<rparr>"

definition w_world :: "grant_state \<Rightarrow> grant_world" where
  "w_world s = \<lparr>gw_heap = [0 \<mapsto> w_grant], gw_next = 1, gw_registry = [(''pog_'' @ w_hex, (0, s))]\<rparr>"

lemma w_issued: "issueProdObserveGrant w_hex w_issue empty_world = Inr (0, w_world GS_Issued)"
  by (simp add: issueProdObserveGrant_def w_issue_def empty_world_def w_world_def w_grant_def Let_def trim_def
      is_space_def code_unit_def map_set_def)

lemma w_world_wf: "world_wf (w_world s)"
  by (auto simp: world_wf_def w_world_def map_get_def w_grant_def)

lemma w_id_ok: "grant_id_ok (gn_grantId w_grant)"
  by (simp add: grant_id_ok_def w_grant_def w_hex_def starts_with_def is_digit_def code_unit_def)

lemma w_grant_consume: "consumeProdObserveGrant (ObjectRef 0) (w_world GS_Issued) = (None, w_world GS_Consumed)"
  using w_id_ok
  by (simp add: consumeProdObserveGrant_def registered_entry_def candidate_fields_def w_world_def map_get_def
      w_grant_def set_grant_state_def map_set_def)

theorem grant_is_one_shot_witness:
  "consumeProdObserveGrant (ObjectRef 0) (w_world GS_Issued) = (None, w_world GS_Consumed)
   \<and> fst (consumeProdObserveGrant (ObjectRef 0) (run_ops grant_step_op (w_world GS_Consumed)
       [OpIssue w_hex w_issue, OpForge w_grant, OpClear])) \<noteq> None"
proof -
  have "\<not> grant_issued (w_world GS_Consumed) 0" using consumed_not_issued [OF w_grant_consume] by simp
  moreover have "grant_allocated (w_world GS_Consumed) 0" by (simp add: grant_allocated_def w_world_def)
  ultimately show ?thesis using grant_is_one_shot [OF w_world_wf] w_grant_consume by blast
qed

end
