(* ===== verification/Production_Gate.thy ===== *)
theory Production_Gate imports Production_Ledger Production_Grants begin

text \<open>
  The production admission kernel, \<open>src/core/prodObserve/productionRunGate.ts\<close>, over the
  ordered chain and the tables of \<open>types.ts\<close>, with the checks it calls: the route vocabulary
  guard (\<open>src/core/prodPrivacy/routeVocabulary.ts\<close>, \<open>vocabularyAuthority.ts\<close>), the
  parameter handle guard (\<open>parameterProvenance.ts\<close>), the privacy policy
  (\<open>policy.ts\<close>) and host admission (\<open>src/core/prodObserve/observationConfig.ts\<close>).

  The kill-switch probe is a function the caller injects: \<open>probe n w\<close> is its n-th answer and
  what it leaves of the grant registry, so the race in which a grant is lost between
  validation and consumption is part of the model. The digest is a parameter.
\<close>

section \<open>The chain\<close>

datatype admission_gate =
    G_KILL_SWITCH_ENTRY | G_OWNER_AUTHORIZATION | G_AUTHORIZATION_CLASS |
    G_CONFIGURATION_INTEGRITY | G_ORGANIZATION_WINDOW | G_OBSERVER_IDENTITY | G_SOURCE_CURRENCY |
    G_READ_ONLY_PROOF | G_ROUTE_AUTHORITY | G_HOST_ADMISSION | G_ADDRESS_POLICY |
    G_METHOD_AND_BODY | G_PARAMETER_PROVENANCE | G_PRIVACY_CAPABILITY | G_CONTAINMENT_READINESS |
    G_BUDGET_RESERVATION | G_BREAKER_STATE | G_KILL_SWITCH_PREDISPATCH

datatype denial_code =
    PD_KILL_SWITCH_ENGAGED_AT_ENTRY | PD_AUTHORIZATION_ABSENT | PD_AUTHORIZATION_EXPIRED |
    PD_AUTHORIZATION_SCOPE_MISMATCH | PD_ALREADY_CONSUMED |
    PD_AUTHORIZATION_CLASS_NOT_PROD_OBSERVE | PD_ORGANIZATION_WINDOW_ABSENT |
    PD_ORGANIZATION_WINDOW_NOT_YET_VALID | PD_ORGANIZATION_WINDOW_EXPIRED |
    PD_CONFIGURATION_INTEGRITY_FAILED | PD_OBSERVER_IDENTITY_BELOW_STAGE_MINIMUM |
    PD_OBSERVER_IDENTITY_UNKNOWN | PD_SOURCE_INCOMPLETE | PD_SOURCE_STALE |
    PD_READ_ONLY_PROOF_ABSENT | PD_READ_ONLY_PROOF_STALE | PD_ROUTE_NOT_SOURCE_PROVEN |
    PD_ROUTE_VOCABULARY_UNTRUSTED | PD_HOST_NOT_ADMITTED | PD_RESOLVED_ADDRESS_NOT_ADMITTED |
    PD_METHOD_NOT_PERMITTED | PD_BODY_PRESENT | PD_MUTATION_CLASSIFICATION_PRESENT |
    PD_PARAMETER_PROVENANCE_INVALID | PD_PARAMETER_CONCRETE_VALUE_PRESENT |
    PD_PRIVACY_CAPABILITY_ABSENT | PD_PRIVACY_CONE_NOT_PRODUCTION | PD_CONTAINMENT_NOT_READY |
    PD_BUDGET_EXHAUSTED | PD_BREAKER_OPEN | PD_KILL_SWITCH_ENGAGED_BEFORE_DISPATCH |
    PD_CHAIN_DEFINITION_INVALID | PD_POLICY_NOT_PROVIDED

definition PRODUCTION_ADMISSION_GATES :: "admission_gate list" where
  "PRODUCTION_ADMISSION_GATES =
    [G_KILL_SWITCH_ENTRY, G_OWNER_AUTHORIZATION, G_AUTHORIZATION_CLASS, G_CONFIGURATION_INTEGRITY,
     G_ORGANIZATION_WINDOW, G_OBSERVER_IDENTITY, G_SOURCE_CURRENCY, G_READ_ONLY_PROOF,
     G_ROUTE_AUTHORITY, G_HOST_ADMISSION, G_ADDRESS_POLICY, G_METHOD_AND_BODY,
     G_PARAMETER_PROVENANCE, G_PRIVACY_CAPABILITY, G_CONTAINMENT_READINESS, G_BUDGET_RESERVATION,
     G_BREAKER_STATE, G_KILL_SWITCH_PREDISPATCH]"

fun GATE_DENIAL_CODES :: "admission_gate \<Rightarrow> denial_code list" where
  "GATE_DENIAL_CODES G_KILL_SWITCH_ENTRY = [PD_KILL_SWITCH_ENGAGED_AT_ENTRY]"
| "GATE_DENIAL_CODES G_OWNER_AUTHORIZATION = [PD_AUTHORIZATION_ABSENT, PD_AUTHORIZATION_EXPIRED, PD_AUTHORIZATION_SCOPE_MISMATCH, PD_ALREADY_CONSUMED]"
| "GATE_DENIAL_CODES G_AUTHORIZATION_CLASS = [PD_AUTHORIZATION_CLASS_NOT_PROD_OBSERVE]"
| "GATE_DENIAL_CODES G_ORGANIZATION_WINDOW = [PD_ORGANIZATION_WINDOW_ABSENT, PD_ORGANIZATION_WINDOW_NOT_YET_VALID, PD_ORGANIZATION_WINDOW_EXPIRED]"
| "GATE_DENIAL_CODES G_CONFIGURATION_INTEGRITY = [PD_CONFIGURATION_INTEGRITY_FAILED]"
| "GATE_DENIAL_CODES G_OBSERVER_IDENTITY = [PD_OBSERVER_IDENTITY_BELOW_STAGE_MINIMUM, PD_OBSERVER_IDENTITY_UNKNOWN]"
| "GATE_DENIAL_CODES G_SOURCE_CURRENCY = [PD_SOURCE_INCOMPLETE, PD_SOURCE_STALE]"
| "GATE_DENIAL_CODES G_READ_ONLY_PROOF = [PD_READ_ONLY_PROOF_ABSENT, PD_READ_ONLY_PROOF_STALE]"
| "GATE_DENIAL_CODES G_ROUTE_AUTHORITY = [PD_ROUTE_NOT_SOURCE_PROVEN, PD_ROUTE_VOCABULARY_UNTRUSTED]"
| "GATE_DENIAL_CODES G_HOST_ADMISSION = [PD_HOST_NOT_ADMITTED]"
| "GATE_DENIAL_CODES G_ADDRESS_POLICY = [PD_RESOLVED_ADDRESS_NOT_ADMITTED]"
| "GATE_DENIAL_CODES G_METHOD_AND_BODY = [PD_METHOD_NOT_PERMITTED, PD_BODY_PRESENT, PD_MUTATION_CLASSIFICATION_PRESENT]"
| "GATE_DENIAL_CODES G_PARAMETER_PROVENANCE = [PD_PARAMETER_PROVENANCE_INVALID, PD_PARAMETER_CONCRETE_VALUE_PRESENT]"
| "GATE_DENIAL_CODES G_PRIVACY_CAPABILITY = [PD_PRIVACY_CAPABILITY_ABSENT, PD_PRIVACY_CONE_NOT_PRODUCTION]"
| "GATE_DENIAL_CODES G_CONTAINMENT_READINESS = [PD_CONTAINMENT_NOT_READY]"
| "GATE_DENIAL_CODES G_BUDGET_RESERVATION = [PD_BUDGET_EXHAUSTED]"
| "GATE_DENIAL_CODES G_BREAKER_STATE = [PD_BREAKER_OPEN]"
| "GATE_DENIAL_CODES G_KILL_SWITCH_PREDISPATCH = [PD_KILL_SWITCH_ENGAGED_BEFORE_DISPATCH]"

text \<open>The historical identifiers and the gates the chain has gained since.\<close>

definition HISTORICAL_GATE_MAPPING :: "(string \<times> admission_gate list) list" where
  "HISTORICAL_GATE_MAPPING =
    [(''G0'', [G_OWNER_AUTHORIZATION]), (''G1'', [G_AUTHORIZATION_CLASS]), (''G2'', [G_OBSERVER_IDENTITY]),
     (''G3'', [G_SOURCE_CURRENCY]), (''G4'', [G_READ_ONLY_PROOF]), (''G5'', [G_ROUTE_AUTHORITY]),
     (''G6'', [G_HOST_ADMISSION, G_ADDRESS_POLICY]), (''G7'', [G_METHOD_AND_BODY]), (''G8'', [G_BUDGET_RESERVATION]),
     (''G9'', [G_BREAKER_STATE]), (''G10'', [G_PRIVACY_CAPABILITY]),
     (''G11'', [G_KILL_SWITCH_PREDISPATCH, G_KILL_SWITCH_ENTRY])]"

definition REVIEW_ADDED_GATES :: "admission_gate list" where
  "REVIEW_ADDED_GATES = [G_ORGANIZATION_WINDOW, G_CONFIGURATION_INTEGRITY, G_PARAMETER_PROVENANCE, G_CONTAINMENT_READINESS]"

text \<open>Every gate of the chain has exactly one origin, and the chain has every gate.\<close>

lemma gate_origins:
  "mset (concat (map snd HISTORICAL_GATE_MAPPING) @ REVIEW_ADDED_GATES) = mset PRODUCTION_ADMISSION_GATES"
  by (simp add: HISTORICAL_GATE_MAPPING_def REVIEW_ADDED_GATES_def PRODUCTION_ADMISSION_GATES_def)

lemma chain_complete: "g \<in> set PRODUCTION_ADMISSION_GATES"
  by (cases g) (simp_all add: PRODUCTION_ADMISSION_GATES_def)

fun gate_text :: "admission_gate \<Rightarrow> string" where
  "gate_text G_KILL_SWITCH_ENTRY = ''G_KILL_SWITCH_ENTRY''"
| "gate_text G_OWNER_AUTHORIZATION = ''G_OWNER_AUTHORIZATION''"
| "gate_text G_AUTHORIZATION_CLASS = ''G_AUTHORIZATION_CLASS''"
| "gate_text G_CONFIGURATION_INTEGRITY = ''G_CONFIGURATION_INTEGRITY''"
| "gate_text G_ORGANIZATION_WINDOW = ''G_ORGANIZATION_WINDOW''"
| "gate_text G_OBSERVER_IDENTITY = ''G_OBSERVER_IDENTITY''"
| "gate_text G_SOURCE_CURRENCY = ''G_SOURCE_CURRENCY''"
| "gate_text G_READ_ONLY_PROOF = ''G_READ_ONLY_PROOF''"
| "gate_text G_ROUTE_AUTHORITY = ''G_ROUTE_AUTHORITY''"
| "gate_text G_HOST_ADMISSION = ''G_HOST_ADMISSION''"
| "gate_text G_ADDRESS_POLICY = ''G_ADDRESS_POLICY''"
| "gate_text G_METHOD_AND_BODY = ''G_METHOD_AND_BODY''"
| "gate_text G_PARAMETER_PROVENANCE = ''G_PARAMETER_PROVENANCE''"
| "gate_text G_PRIVACY_CAPABILITY = ''G_PRIVACY_CAPABILITY''"
| "gate_text G_CONTAINMENT_READINESS = ''G_CONTAINMENT_READINESS''"
| "gate_text G_BUDGET_RESERVATION = ''G_BUDGET_RESERVATION''"
| "gate_text G_BREAKER_STATE = ''G_BREAKER_STATE''"
| "gate_text G_KILL_SWITCH_PREDISPATCH = ''G_KILL_SWITCH_PREDISPATCH''"

fun code_text :: "denial_code \<Rightarrow> string" where
  "code_text PD_KILL_SWITCH_ENGAGED_AT_ENTRY = ''KILL_SWITCH_ENGAGED_AT_ENTRY''"
| "code_text PD_AUTHORIZATION_ABSENT = ''AUTHORIZATION_ABSENT''"
| "code_text PD_AUTHORIZATION_EXPIRED = ''AUTHORIZATION_EXPIRED''"
| "code_text PD_AUTHORIZATION_SCOPE_MISMATCH = ''AUTHORIZATION_SCOPE_MISMATCH''"
| "code_text PD_ALREADY_CONSUMED = ''ALREADY_CONSUMED''"
| "code_text PD_AUTHORIZATION_CLASS_NOT_PROD_OBSERVE = ''AUTHORIZATION_CLASS_NOT_PROD_OBSERVE''"
| "code_text PD_ORGANIZATION_WINDOW_ABSENT = ''ORGANIZATION_WINDOW_ABSENT''"
| "code_text PD_ORGANIZATION_WINDOW_NOT_YET_VALID = ''ORGANIZATION_WINDOW_NOT_YET_VALID''"
| "code_text PD_ORGANIZATION_WINDOW_EXPIRED = ''ORGANIZATION_WINDOW_EXPIRED''"
| "code_text PD_CONFIGURATION_INTEGRITY_FAILED = ''CONFIGURATION_INTEGRITY_FAILED''"
| "code_text PD_OBSERVER_IDENTITY_BELOW_STAGE_MINIMUM = ''OBSERVER_IDENTITY_BELOW_STAGE_MINIMUM''"
| "code_text PD_OBSERVER_IDENTITY_UNKNOWN = ''OBSERVER_IDENTITY_UNKNOWN''"
| "code_text PD_SOURCE_INCOMPLETE = ''SOURCE_INCOMPLETE''"
| "code_text PD_SOURCE_STALE = ''SOURCE_STALE''"
| "code_text PD_READ_ONLY_PROOF_ABSENT = ''READ_ONLY_PROOF_ABSENT''"
| "code_text PD_READ_ONLY_PROOF_STALE = ''READ_ONLY_PROOF_STALE''"
| "code_text PD_ROUTE_NOT_SOURCE_PROVEN = ''ROUTE_NOT_SOURCE_PROVEN''"
| "code_text PD_ROUTE_VOCABULARY_UNTRUSTED = ''ROUTE_VOCABULARY_UNTRUSTED''"
| "code_text PD_HOST_NOT_ADMITTED = ''HOST_NOT_ADMITTED''"
| "code_text PD_RESOLVED_ADDRESS_NOT_ADMITTED = ''RESOLVED_ADDRESS_NOT_ADMITTED''"
| "code_text PD_METHOD_NOT_PERMITTED = ''METHOD_NOT_PERMITTED''"
| "code_text PD_BODY_PRESENT = ''BODY_PRESENT''"
| "code_text PD_MUTATION_CLASSIFICATION_PRESENT = ''MUTATION_CLASSIFICATION_PRESENT''"
| "code_text PD_PARAMETER_PROVENANCE_INVALID = ''PARAMETER_PROVENANCE_INVALID''"
| "code_text PD_PARAMETER_CONCRETE_VALUE_PRESENT = ''PARAMETER_CONCRETE_VALUE_PRESENT''"
| "code_text PD_PRIVACY_CAPABILITY_ABSENT = ''PRIVACY_CAPABILITY_ABSENT''"
| "code_text PD_PRIVACY_CONE_NOT_PRODUCTION = ''PRIVACY_CONE_NOT_PRODUCTION''"
| "code_text PD_CONTAINMENT_NOT_READY = ''CONTAINMENT_NOT_READY''"
| "code_text PD_BUDGET_EXHAUSTED = ''BUDGET_EXHAUSTED''"
| "code_text PD_BREAKER_OPEN = ''BREAKER_OPEN''"
| "code_text PD_KILL_SWITCH_ENGAGED_BEFORE_DISPATCH = ''KILL_SWITCH_ENGAGED_BEFORE_DISPATCH''"
| "code_text PD_CHAIN_DEFINITION_INVALID = ''CHAIN_DEFINITION_INVALID''"
| "code_text PD_POLICY_NOT_PROVIDED = ''POLICY_NOT_PROVIDED''"

section \<open>Guards the chain calls\<close>

datatype vocabulary_marker = Marker_Production | Marker_TestOnly

text \<open>\<open>rv_marker\<close> is the entry of the runtime brand for this object, \<open>None\<close> when the object
  was never minted.\<close>

record route_vocabulary =
  rv_marker :: "vocabulary_marker option"
  rv_templates :: "string list"

datatype route_source = NoVocabulary | RouteVocabulary route_vocabulary

datatype privacy_failure = ROUTE_TEMPLATE_INVALID | CAPABILITY_NOT_MINTED | CAPABILITY_TEST_ONLY
  | ROUTE_NOT_SOURCE_PROVEN | VALUE_SUPPLIED_WHERE_HANDLE_REQUIRED | CONE_MISMATCH

text \<open>The message of \<open>ProductionPrivacyError\<close>: reason code and detail code.\<close>

fun privacy_message :: "privacy_failure \<Rightarrow> string" where
  "privacy_message ROUTE_TEMPLATE_INVALID = ''PRODUCTION_PRIVACY_ROUTE_PROVENANCE_UNRESOLVED:ROUTE_TEMPLATE_INVALID''"
| "privacy_message CAPABILITY_NOT_MINTED = ''PRODUCTION_PRIVACY_VOCABULARY_INVALID:CAPABILITY_NOT_MINTED''"
| "privacy_message CAPABILITY_TEST_ONLY = ''PRODUCTION_PRIVACY_VOCABULARY_INVALID:CAPABILITY_TEST_ONLY''"
| "privacy_message ROUTE_NOT_SOURCE_PROVEN = ''PRODUCTION_PRIVACY_ROUTE_PROVENANCE_UNRESOLVED:ROUTE_NOT_SOURCE_PROVEN''"
| "privacy_message VALUE_SUPPLIED_WHERE_HANDLE_REQUIRED =
     ''PRODUCTION_PRIVACY_PARAMETER_VALUE_EXPOSED:VALUE_SUPPLIED_WHERE_HANDLE_REQUIRED''"
| "privacy_message CONE_MISMATCH = ''PRODUCTION_PRIVACY_BOUNDARY_VIOLATION:CONE_MISMATCH''"

definition route_segment :: "string \<Rightarrow> bool" where
  "route_segment s =
     ((s \<noteq> [] \<and> (\<forall>c\<in>set s. is_alnum c \<or> c \<in> set ''._~-''))
      \<or> (3 \<le> length s \<and> hd s = CHR ''{'' \<and> last s = CHR ''}''
          \<and> (is_lower_letter (s ! 1) \<or> is_upper_letter (s ! 1))
          \<and> (\<forall>c\<in>set (butlast (drop 2 s)). is_alnum c \<or> c = CHR ''_'')))"

definition route_path_ok :: "string \<Rightarrow> bool" where
  "route_path_ok p =
     (let parts = split_on CHR ''/'' p;
          core = (if 1 < length parts \<and> last parts = [] then butlast parts else parts)
      in list_all route_segment core)"

definition route_template_ok :: "string \<Rightarrow> bool" where
  "route_template_ok s =
     (list_ex (\<lambda>m. starts_with m s \<and> route_path_ok (drop (length m) s)) [''GET /'', ''HEAD /'', ''OPTIONS /''])"

definition assertProductionVocabularyAuthority :: "route_vocabulary \<Rightarrow> (privacy_failure, unit) result" where
  "assertProductionVocabularyAuthority v =
     (case rv_marker v of
        None \<Rightarrow> Inl CAPABILITY_NOT_MINTED
      | Some m \<Rightarrow> if m \<noteq> Marker_Production then Inl CAPABILITY_TEST_ONLY else Inr ())"

fun isSourceProvenRoute :: "route_source \<Rightarrow> string \<Rightarrow> bool" where
  "isSourceProvenRoute NoVocabulary t = False"
| "isSourceProvenRoute (RouteVocabulary v) t = (rv_marker v \<noteq> None \<and> t \<in> set (rv_templates v))"

definition assertSourceProvenRoute :: "route_source \<Rightarrow> string \<Rightarrow> (privacy_failure, unit) result" where
  "assertSourceProvenRoute src t =
     bind_res (guard_res (route_template_ok t) ROUTE_TEMPLATE_INVALID) (\<lambda>_.
     bind_res (case src of NoVocabulary \<Rightarrow> Inr () | RouteVocabulary v \<Rightarrow> assertProductionVocabularyAuthority v) (\<lambda>_.
     guard_res (isSourceProvenRoute src t) ROUTE_NOT_SOURCE_PROVEN))"

definition PARAMETER_PROVENANCE_VERSION :: string where
  "PARAMETER_PROVENANCE_VERSION = ''nightwatch.request-parameter-provenance.v1''"

definition parameter_handle_ok :: "string \<Rightarrow> bool" where
  "parameter_handle_ok s = (starts_with ''pph_'' s \<and> length s = 36
     \<and> (\<forall>c\<in>set (drop 4 s). is_digit c \<or> (97 \<le> code_unit c \<and> code_unit c \<le> 102)))"

definition assertHandleNotValue :: "json \<Rightarrow> (privacy_failure, unit) result" where
  "assertHandleNotValue j =
     (if json_field j ''version'' \<noteq> Some (JStr PARAMETER_PROVENANCE_VERSION) then Inl VALUE_SUPPLIED_WHERE_HANDLE_REQUIRED
      else case json_field j ''handle'' of
             Some (JStr h) \<Rightarrow> guard_res (parameter_handle_ok h) VALUE_SUPPLIED_WHERE_HANDLE_REQUIRED
           | _ \<Rightarrow> Inl VALUE_SUPPLIED_WHERE_HANDLE_REQUIRED)"

fun any_suffix :: "(string \<Rightarrow> bool) \<Rightarrow> string \<Rightarrow> bool" where
  "any_suffix P [] = P []"
| "any_suffix P (c # s) = (P (c # s) \<or> any_suffix P s)"

text \<open>\<open>/\/\d{3,}(?:\/|$)/\<close>: a slash, at least three digits, and a slash or the end.\<close>

definition numeric_segment :: "string \<Rightarrow> bool" where
  "numeric_segment = any_suffix (\<lambda>t. t \<noteq> [] \<and> hd t = CHR ''/'' \<and>
     (let r = tl t; n = length (takeWhile is_digit r)
      in 3 \<le> n \<and> (drop n r = [] \<or> hd (drop n r) = CHR ''/'')))"

datatype privacy_cone = Cone_Production | Cone_Dev

record privacy_policy =
  pp_cone :: privacy_cone
  pp_screenshots :: string
  pp_playwrightTrace :: string
  pp_pageConsoleText :: string
  pp_responseBodyRetention :: string
  pp_urlRetention :: string
  pp_keyProvenanceRequirement :: string
  pp_durableValueDigest :: string
  pp_storeIdentity :: string
  pp_browserProfile :: string

definition assertProductionCone :: "privacy_policy \<Rightarrow> (privacy_failure, unit) result" where
  "assertProductionCone p = guard_res (pp_cone p = Cone_Production) CONE_MISMATCH"

record observation_window =
  ow_notBeforeMs :: rat
  ow_notAfterMs :: rat

record prod_config =
  pc_admittedHosts :: "string list"
  pc_observationWindow :: observation_window

definition isAdmittedProductionHost :: "prod_config \<Rightarrow> string \<Rightarrow> bool" where
  "isAdmittedProductionHost c host = (if host = [] then False else lower host \<in> set (pc_admittedHosts c))"

section \<open>The input\<close>

datatype inventory_state = Inventory_Complete | Inventory_Truncated | Inventory_Unknown

datatype currency_state = Currency_Current | Currency_Stale | Currency_Unknown

record source_facts =
  sf_repository :: string
  sf_sourceSha :: string
  sf_inventoryState :: inventory_state
  sf_currencyState :: currency_state

record read_only_proof =
  rp_proven :: bool
  rp_witnessCount :: nat
  rp_stale :: bool
  rp_proofIdentity :: string

record request_intent =
  ri_method :: string
  ri_host :: string
  ri_routeTemplate :: string
  ri_hasBody :: bool
  ri_mutationClassification :: "string option"
  ri_parameters :: "json list"
  ri_serviceKey :: string
  ri_routeKey :: string

datatype containment_state = Containment_Proven | Containment_NotExercised | Containment_NotReady

datatype environment_class = EC_Local | EC_Clean | EC_CI | EC_Predev

datatype observer_identity = Identity_OrgReadOnly | Identity_OrdinaryUser | Identity_Unknown

datatype identity_minimum = NoneRequired | Requires observer_identity

record admission_input =
  ai_campaignId :: string
  ai_stage :: observation_stage
  ai_nowMs :: rat
  ai_environmentClass :: environment_class
  ai_probe :: "nat \<Rightarrow> grant_world \<Rightarrow> probe_answer \<times> grant_world"
  ai_requestedClass :: string
  ai_grant :: grant_candidate
  ai_config :: "prod_config option"
  ai_observerIdentity :: observer_identity
  ai_source :: source_facts
  ai_proof :: read_only_proof
  ai_routeVocabulary :: route_source
  ai_addressesAdmitted :: bool
  ai_intent :: request_intent
  ai_privacyPolicy :: "privacy_policy option"
  ai_containment :: containment_state
  ai_breakers :: breaker_board

definition containmentSatisfies :: "containment_state \<Rightarrow> environment_class \<Rightarrow> bool" where
  "containmentSatisfies s e =
     (if s = Containment_Proven then True
      else if s = Containment_NotExercised then e = EC_CI
      else False)"

fun STAGE_OBSERVER_IDENTITY_MINIMUM :: "observation_stage \<Rightarrow> identity_minimum" where
  "STAGE_OBSERVER_IDENTITY_MINIMUM Stage_P0 = NoneRequired"
| "STAGE_OBSERVER_IDENTITY_MINIMUM Stage_PQ = NoneRequired"
| "STAGE_OBSERVER_IDENTITY_MINIMUM Stage_P1 = Requires Identity_OrdinaryUser"
| "STAGE_OBSERVER_IDENTITY_MINIMUM Stage_P2 = Requires Identity_OrgReadOnly"
| "STAGE_OBSERVER_IDENTITY_MINIMUM Stage_P3 = Requires Identity_OrgReadOnly"
| "STAGE_OBSERVER_IDENTITY_MINIMUM Stage_P4 = Requires Identity_OrgReadOnly"

definition observerIdentitySatisfies :: "observation_stage \<Rightarrow> observer_identity \<Rightarrow> denial_code option" where
  "observerIdentitySatisfies stage actual =
     (let minimum = STAGE_OBSERVER_IDENTITY_MINIMUM stage
      in if minimum = NoneRequired then None
         else if actual = Identity_Unknown then Some PD_OBSERVER_IDENTITY_UNKNOWN
         else if minimum = Requires Identity_OrgReadOnly \<and> actual \<noteq> Identity_OrgReadOnly
           then Some PD_OBSERVER_IDENTITY_BELOW_STAGE_MINIMUM
         else None)"

fun grant_denial_code :: "grant_denial \<Rightarrow> denial_code" where
  "grant_denial_code AUTHORIZATION_ABSENT = PD_AUTHORIZATION_ABSENT"
| "grant_denial_code AUTHORIZATION_EXPIRED = PD_AUTHORIZATION_EXPIRED"
| "grant_denial_code AUTHORIZATION_SCOPE_MISMATCH = PD_AUTHORIZATION_SCOPE_MISMATCH"
| "grant_denial_code ALREADY_CONSUMED = PD_ALREADY_CONSUMED"

section \<open>The evaluator\<close>

datatype gate_result = Gate_Pass | Gate_Deny | Gate_NotEvaluated

record gate_outcome =
  go_gate :: admission_gate
  go_result :: gate_result
  go_denialCode :: "denial_code option"

text \<open>What the loop over the gates reads and changes: the grant registry and the number of
  probe calls so far, the budget ledger, and the four local variables of the evaluator.\<close>

record gate_state =
  gs_world :: grant_world
  gs_probes :: nat
  gs_budget :: ledger
  gs_outcomes :: "gate_outcome list"
  gs_reservation :: "reservation option"
  gs_denialCode :: "denial_code option"
  gs_deniedAtGate :: "admission_gate option"

text \<open>What leaves the evaluator by a throw.\<close>

datatype gate_error = GATE_DENIAL_CODE_INVALID admission_gate denial_code | GateBudgetError budget_error

definition pass_gate :: "admission_gate \<Rightarrow> gate_state \<Rightarrow> gate_state" where
  "pass_gate g st = st\<lparr>gs_outcomes := gs_outcomes st @ [\<lparr>go_gate = g, go_result = Gate_Pass, go_denialCode = None\<rparr>]\<rparr>"

definition deny_gate :: "admission_gate \<Rightarrow> denial_code \<Rightarrow> gate_state \<Rightarrow> (gate_error, gate_state) result" where
  "deny_gate g c st =
     (if c \<notin> set (GATE_DENIAL_CODES g) then Inl (GATE_DENIAL_CODE_INVALID g c)
      else Inr (st\<lparr>gs_outcomes := gs_outcomes st @ [\<lparr>go_gate = g, go_result = Gate_Deny, go_denialCode = Some c\<rparr>],
                   gs_denialCode := Some c, gs_deniedAtGate := Some g\<rparr>))"

definition ask_probe :: "admission_input \<Rightarrow> gate_state \<Rightarrow> kill_switch_state \<times> gate_state" where
  "ask_probe i st =
     (case ai_probe i (gs_probes st) (gs_world st) of
        (answer, w) \<Rightarrow> (evaluateKillSwitch answer, st\<lparr>gs_world := w, gs_probes := gs_probes st + 1\<rparr>))"

definition route_denial :: "privacy_failure \<Rightarrow> denial_code" where
  "route_denial f =
     (let m = upper (privacy_message f)
      in if contains ''AUTHORITY'' m \<or> contains ''TEST_ONLY'' m \<or> contains ''BRAND'' m
         then PD_ROUTE_VOCABULARY_UNTRUSTED else PD_ROUTE_NOT_SOURCE_PROVEN)"

definition PRODUCTION_READ_METHODS :: "string list" where
  "PRODUCTION_READ_METHODS = [''GET'', ''HEAD'']"

definition grant_class :: "grant_world \<Rightarrow> grant_candidate \<Rightarrow> string option" where
  "grant_class w c = map_option (\<lambda>(r, g). gn_authorizationClass g) (candidate_fields w c)"

text \<open>The verdict of the gates that neither ask the probe nor touch the budget: \<open>None\<close> passes.\<close>

fun gate_verdict :: "admission_input \<Rightarrow> grant_world \<Rightarrow> admission_gate \<Rightarrow> denial_code option" where
  "gate_verdict i w G_OWNER_AUTHORIZATION =
     (case validateProdObserveGrant w (ai_grant i) (ai_campaignId i) (ai_nowMs i) of
        Inl d \<Rightarrow> Some (grant_denial_code d)
      | Inr _ \<Rightarrow> None)"
| "gate_verdict i w G_AUTHORIZATION_CLASS =
     (if ai_requestedClass i \<noteq> PROD_OBSERVE_AUTHORIZATION_CLASS
        \<or> grant_class w (ai_grant i) \<noteq> Some PROD_OBSERVE_AUTHORIZATION_CLASS
      then Some PD_AUTHORIZATION_CLASS_NOT_PROD_OBSERVE else None)"
| "gate_verdict i w G_ORGANIZATION_WINDOW =
     (case ai_config i of
        None \<Rightarrow> Some PD_ORGANIZATION_WINDOW_ABSENT
      | Some c \<Rightarrow>
          if ai_nowMs i < ow_notBeforeMs (pc_observationWindow c) then Some PD_ORGANIZATION_WINDOW_NOT_YET_VALID
          else if ow_notAfterMs (pc_observationWindow c) \<le> ai_nowMs i then Some PD_ORGANIZATION_WINDOW_EXPIRED
          else None)"
| "gate_verdict i w G_CONFIGURATION_INTEGRITY =
     (if ai_config i = None then Some PD_CONFIGURATION_INTEGRITY_FAILED else None)"
| "gate_verdict i w G_OBSERVER_IDENTITY = observerIdentitySatisfies (ai_stage i) (ai_observerIdentity i)"
| "gate_verdict i w G_SOURCE_CURRENCY =
     (if sf_inventoryState (ai_source i) \<noteq> Inventory_Complete then Some PD_SOURCE_INCOMPLETE
      else if sf_currencyState (ai_source i) \<noteq> Currency_Current then Some PD_SOURCE_STALE
      else None)"
| "gate_verdict i w G_READ_ONLY_PROOF =
     (if \<not> rp_proven (ai_proof i) \<or> rp_witnessCount (ai_proof i) < 2 then Some PD_READ_ONLY_PROOF_ABSENT
      else if rp_stale (ai_proof i) then Some PD_READ_ONLY_PROOF_STALE
      else None)"
| "gate_verdict i w G_ROUTE_AUTHORITY =
     (case assertSourceProvenRoute (ai_routeVocabulary i) (ri_routeTemplate (ai_intent i)) of
        Inl f \<Rightarrow> Some (route_denial f)
      | Inr _ \<Rightarrow> None)"
| "gate_verdict i w G_HOST_ADMISSION =
     (case ai_config i of
        None \<Rightarrow> Some PD_HOST_NOT_ADMITTED
      | Some c \<Rightarrow> if \<not> isAdmittedProductionHost c (ri_host (ai_intent i)) then Some PD_HOST_NOT_ADMITTED else None)"
| "gate_verdict i w G_ADDRESS_POLICY =
     (if \<not> ai_addressesAdmitted i then Some PD_RESOLVED_ADDRESS_NOT_ADMITTED else None)"
| "gate_verdict i w G_METHOD_AND_BODY =
     (if ri_method (ai_intent i) \<notin> set PRODUCTION_READ_METHODS then Some PD_METHOD_NOT_PERMITTED
      else if ri_hasBody (ai_intent i) then Some PD_BODY_PRESENT
      else if ri_mutationClassification (ai_intent i) \<noteq> None then Some PD_MUTATION_CLASSIFICATION_PRESENT
      else None)"
| "gate_verdict i w G_PARAMETER_PROVENANCE =
     (case all_ok assertHandleNotValue (ri_parameters (ai_intent i)) of
        Inl _ \<Rightarrow> Some PD_PARAMETER_PROVENANCE_INVALID
      | Inr _ \<Rightarrow> if numeric_segment (ri_routeTemplate (ai_intent i)) then Some PD_PARAMETER_CONCRETE_VALUE_PRESENT
                 else None)"
| "gate_verdict i w G_PRIVACY_CAPABILITY =
     (case ai_privacyPolicy i of
        None \<Rightarrow> Some PD_PRIVACY_CAPABILITY_ABSENT
      | Some p \<Rightarrow> (case assertProductionCone p of Inl _ \<Rightarrow> Some PD_PRIVACY_CONE_NOT_PRODUCTION | Inr _ \<Rightarrow> None))"
| "gate_verdict i w G_CONTAINMENT_READINESS =
     (if \<not> containmentSatisfies (ai_containment i) (ai_environmentClass i) then Some PD_CONTAINMENT_NOT_READY else None)"
| "gate_verdict i w G_BREAKER_STATE = (if breaker_isOpen (ai_breakers i) then Some PD_BREAKER_OPEN else None)"
| "gate_verdict i w G_KILL_SWITCH_ENTRY = None"
| "gate_verdict i w G_BUDGET_RESERVATION = None"
| "gate_verdict i w G_KILL_SWITCH_PREDISPATCH = None"

definition settle_gate :: "admission_gate \<Rightarrow> denial_code option \<Rightarrow> gate_state \<Rightarrow> (gate_error, gate_state) result" where
  "settle_gate g v st = (case v of None \<Rightarrow> Inr (pass_gate g st) | Some c \<Rightarrow> deny_gate g c st)"

definition kill_switch_gate ::
  "admission_input \<Rightarrow> admission_gate \<Rightarrow> denial_code \<Rightarrow> gate_state \<Rightarrow> (gate_error, gate_state) result" where
  "kill_switch_gate i g c st =
     (case ask_probe i st of (ks, st') \<Rightarrow> settle_gate g (if ks = KS_Engaged then Some c else None) st')"

definition budget_gate :: "admission_input \<Rightarrow> gate_state \<Rightarrow> (gate_error, gate_state) result" where
  "budget_gate i st =
     (case reserve \<lparr>bq_serviceKey = ri_serviceKey (ai_intent i), bq_routeKey = ri_routeKey (ai_intent i),
                    bq_nowMs = ai_nowMs i\<rparr> (gs_budget st) of
        Inl e \<Rightarrow> Inl (GateBudgetError e)
      | Inr (Exhausted s, b) \<Rightarrow> deny_gate G_BUDGET_RESERVATION PD_BUDGET_EXHAUSTED (st\<lparr>gs_budget := b\<rparr>)
      | Inr (Reserved r, b) \<Rightarrow> Inr (pass_gate G_BUDGET_RESERVATION (st\<lparr>gs_budget := b, gs_reservation := Some r\<rparr>)))"

definition gate_step :: "admission_input \<Rightarrow> gate_state \<Rightarrow> admission_gate \<Rightarrow> (gate_error, gate_state) result" where
  "gate_step i st g =
     (if gs_denialCode st \<noteq> None
        then Inr (st\<lparr>gs_outcomes := gs_outcomes st @ [\<lparr>go_gate = g, go_result = Gate_NotEvaluated, go_denialCode = None\<rparr>]\<rparr>)
      else if g = G_KILL_SWITCH_ENTRY then kill_switch_gate i g PD_KILL_SWITCH_ENGAGED_AT_ENTRY st
      else if g = G_KILL_SWITCH_PREDISPATCH then kill_switch_gate i g PD_KILL_SWITCH_ENGAGED_BEFORE_DISPATCH st
      else if g = G_BUDGET_RESERVATION then budget_gate i st
      else settle_gate g (gate_verdict i (gs_world st) g) st)"

definition PRODUCTION_ADMISSION_CHAIN_VERSION :: string where
  "PRODUCTION_ADMISSION_CHAIN_VERSION = ''nightwatch.production-admission-chain.v1''"

text \<open>\<open>JSON.stringify\<close> of the chain definition. Gate and code names have no character that
  JSON escapes.\<close>

definition quoted :: "string \<Rightarrow> string" where
  "quoted s = CHR 0x22 # s @ [CHR 0x22]"

definition json_list :: "string list \<Rightarrow> string" where
  "json_list xs = ''['' @ join_with '','' xs @ '']''"

definition chain_definition_text :: string where
  "chain_definition_text =
     ''{'' @ quoted ''version'' @ '':'' @ quoted PRODUCTION_ADMISSION_CHAIN_VERSION @ '','' @
     quoted ''gates'' @ '':'' @ json_list (map (quoted \<circ> gate_text) PRODUCTION_ADMISSION_GATES) @ '','' @
     quoted ''denialCodes'' @ '':'' @
     json_list (map (\<lambda>g. json_list (map (quoted \<circ> code_text) (GATE_DENIAL_CODES g))) PRODUCTION_ADMISSION_GATES) @ ''}''"

definition productionChainDefinitionDigest :: "(string \<Rightarrow> string) \<Rightarrow> string" where
  "productionChainDefinitionDigest digest = ''prodchain:'' @ digest chain_definition_text"

record admission_outcome =
  ao_chainVersion :: string
  ao_gateDefinitionDigest :: string
  ao_orderedGates :: "admission_gate list"
  ao_outcomes :: "gate_outcome list"
  ao_allowed :: bool
  ao_denialCode :: "denial_code option"
  ao_deniedAtGate :: "admission_gate option"
  ao_deniedBeforeDispatch :: bool
  ao_reservation :: "reservation option"

definition outcome_of :: "(string \<Rightarrow> string) \<Rightarrow> gate_state \<Rightarrow> admission_outcome" where
  "outcome_of digest st =
     \<lparr>ao_chainVersion = PRODUCTION_ADMISSION_CHAIN_VERSION,
      ao_gateDefinitionDigest = productionChainDefinitionDigest digest,
      ao_orderedGates = PRODUCTION_ADMISSION_GATES, ao_outcomes = gs_outcomes st,
      ao_allowed = (gs_denialCode st = None), ao_denialCode = gs_denialCode st,
      ao_deniedAtGate = gs_deniedAtGate st, ao_deniedBeforeDispatch = (gs_denialCode st \<noteq> None),
      ao_reservation = gs_reservation st\<rparr>"

definition release_held :: "gate_state \<Rightarrow> gate_state" where
  "release_held st = (case gs_reservation st of None \<Rightarrow> st
     | Some r \<Rightarrow> st\<lparr>gs_budget := releaseReservation r (gs_budget st)\<rparr>)"

definition lost_race :: "grant_denial \<Rightarrow> gate_state \<Rightarrow> gate_state" where
  "lost_race d st =
     (release_held st)\<lparr>gs_outcomes := (gs_outcomes st)[1 := \<lparr>go_gate = G_OWNER_AUTHORIZATION, go_result = Gate_Deny,
                                                       go_denialCode = Some (grant_denial_code d)\<rparr>],
       gs_denialCode := Some (grant_denial_code d), gs_deniedAtGate := Some G_OWNER_AUTHORIZATION\<rparr>"

definition initial_gate_state :: "grant_world \<Rightarrow> ledger \<Rightarrow> gate_state" where
  "initial_gate_state w b = \<lparr>gs_world = w, gs_probes = 0, gs_budget = b, gs_outcomes = [], gs_reservation = None,
     gs_denialCode = None, gs_deniedAtGate = None\<rparr>"

definition evaluateProductionAdmission ::
  "admission_input \<Rightarrow> (string \<Rightarrow> string) \<Rightarrow> grant_world \<Rightarrow> ledger
     \<Rightarrow> (gate_error, admission_outcome \<times> grant_world \<times> ledger) result" where
  "evaluateProductionAdmission i digest w b =
     bind_res (foldM_res (gate_step i) (initial_gate_state w b) PRODUCTION_ADMISSION_GATES) (\<lambda>st.
       let st' = (if gs_denialCode st \<noteq> None then release_held st
                  else case consumeProdObserveGrant (ai_grant i) (gs_world st) of
                         (None, w') \<Rightarrow> st\<lparr>gs_world := w'\<rparr>
                       | (Some d, w') \<Rightarrow> lost_race d (st\<lparr>gs_world := w'\<rparr>))
       in Inr (outcome_of digest st', gs_world st', gs_budget st'))"

end
