(* ===== verification/Production_Gate_Properties.thy ===== *)
theory Production_Gate_Properties imports Production_Gate begin

text \<open>
  What the production admission chain guarantees: what an allowed decision rests on, the shape of
  a denial, what a denial leaves of the budget and of the grant, and that the chain always ends.
\<close>

section \<open>Folding over the gates\<close>

lemma foldM_res_append: "foldM_res f s (xs @ ys) = bind_res (foldM_res f s xs) (\<lambda>t. foldM_res f t ys)"
  by (induction xs arbitrary: s) (auto simp: bind_res_def split: sum.split)

lemma foldM_res_prefix:
  assumes "foldM_res f s xs = Inr t" and "I [] s"
    and "\<And>seen x s s'. I seen s \<Longrightarrow> f s x = Inr s' \<Longrightarrow> \<exists>rest. xs = seen @ x # rest \<Longrightarrow> I (seen @ [x]) s'"
  shows "I xs t"
proof -
  have "foldM_res f s' ys = Inr t \<Longrightarrow> I seen s' \<Longrightarrow> xs = seen @ ys \<Longrightarrow> I xs t" for ys seen s'
  proof (induction ys arbitrary: seen s')
    case (Cons y ys)
    then obtain s'' where "f s' y = Inr s''" "foldM_res f s'' ys = Inr t" by auto
    with Cons.IH [of s'' "seen @ [y]"] Cons.prems assms(3) show ?case by simp
  qed simp
  then show ?thesis using assms(1,2) by fastforce
qed

lemma foldM_res_total:
  assumes "\<And>s x. I s \<Longrightarrow> x \<in> set xs \<Longrightarrow> \<exists>s'. f s x = Inr s' \<and> I s'" and "I s"
  shows "\<exists>t. foldM_res f s xs = Inr t \<and> I t"
  using assms
proof (induction xs arbitrary: s)
  case (Cons x xs)
  obtain s' where s': "f s x = Inr s'" "I s'" using Cons.prems by (meson list.set_intros(1))
  have "\<exists>t. foldM_res f s' xs = Inr t \<and> I t" using Cons.IH [OF _ s'(2)] Cons.prems(1) by simp
  then show ?case using s'(1) by simp
qed auto

lemma grant_denial_listed: "grant_denial_code d \<in> set (GATE_DENIAL_CODES G_OWNER_AUTHORIZATION)"
  by (cases d) simp_all

lemma verdict_code: "gate_verdict i w g = Some c \<Longrightarrow> c \<in> set (GATE_DENIAL_CODES g)"
proof (cases g)
  case G_OWNER_AUTHORIZATION
  assume "gate_verdict i w g = Some c"
  then obtain d where "c = grant_denial_code d" using G_OWNER_AUTHORIZATION by (auto split: sum.splits)
  then show ?thesis using G_OWNER_AUTHORIZATION grant_denial_listed by simp
next
  case G_ROUTE_AUTHORITY
  assume "gate_verdict i w g = Some c"
  then show ?thesis using G_ROUTE_AUTHORITY by (auto simp: route_denial_def Let_def split: sum.splits if_splits)
qed (auto simp: observerIdentitySatisfies_def Let_def split: option.splits sum.splits if_splits)

lemma settle_gate_ok:
  "(\<And>c. v = Some c \<Longrightarrow> c \<in> set (GATE_DENIAL_CODES g)) \<Longrightarrow>
   settle_gate g v st = Inr (case v of None \<Rightarrow> pass_gate g st
     | Some c \<Rightarrow> st\<lparr>gs_outcomes := gs_outcomes st @ [\<lparr>go_gate = g, go_result = Gate_Deny, go_denialCode = Some c\<rparr>],
                   gs_denialCode := Some c, gs_deniedAtGate := Some g\<rparr>)"
  by (cases v) (auto simp: settle_gate_def deny_gate_def)

definition pass_outcome :: "admission_gate \<Rightarrow> gate_outcome" where
  "pass_outcome g = \<lparr>go_gate = g, go_result = Gate_Pass, go_denialCode = None\<rparr>"

definition deny_outcome :: "admission_gate \<Rightarrow> denial_code \<Rightarrow> gate_outcome" where
  "deny_outcome g c = \<lparr>go_gate = g, go_result = Gate_Deny, go_denialCode = Some c\<rparr>"

definition skip_outcome :: "admission_gate \<Rightarrow> gate_outcome" where
  "skip_outcome g = \<lparr>go_gate = g, go_result = Gate_NotEvaluated, go_denialCode = None\<rparr>"

lemma gate_step_effect:
  assumes "gate_step i st g = Inr st'" and "gs_denialCode st = None"
  shows "(gs_denialCode st' = None \<and> gs_deniedAtGate st' = gs_deniedAtGate st \<and> gs_outcomes st' = gs_outcomes st @ [pass_outcome g])
    \<or> (\<exists>c\<in>set (GATE_DENIAL_CODES g). gs_denialCode st' = Some c \<and> gs_deniedAtGate st' = Some g
         \<and> gs_outcomes st' = gs_outcomes st @ [deny_outcome g c])"
  using assms
  by (auto simp: gate_step_def kill_switch_gate_def ask_probe_def settle_gate_def deny_gate_def budget_gate_def pass_gate_def
      pass_outcome_def deny_outcome_def split: if_splits prod.splits option.splits sum.splits reservation_result.splits)

lemma gate_step_skips:
  "gs_denialCode st \<noteq> None \<Longrightarrow> gate_step i st g = Inr (st\<lparr>gs_outcomes := gs_outcomes st @ [skip_outcome g]\<rparr>)"
  by (simp add: gate_step_def skip_outcome_def)

text \<open>Only the budget gate touches the ledger and the reservation.\<close>

lemma gate_step_budget:
  assumes "gate_step i st g = Inr st'" and "g \<noteq> G_BUDGET_RESERVATION"
  shows "gs_budget st' = gs_budget st \<and> gs_reservation st' = gs_reservation st"
  using assms
  by (auto simp: gate_step_def kill_switch_gate_def ask_probe_def settle_gate_def deny_gate_def pass_gate_def
      split: if_splits prod.splits option.splits)

lemma reserve_refused: "reserve q l = Inr (Exhausted s, l') \<Longrightarrow> l' = l"
  by (auto simp: reserve_def split: if_splits)

definition gate_request :: "admission_input \<Rightarrow> budget_request" where
  "gate_request i = \<lparr>bq_serviceKey = ri_serviceKey (ai_intent i), bq_routeKey = ri_routeKey (ai_intent i), bq_nowMs = ai_nowMs i\<rparr>"

section \<open>The invariant of the loop\<close>

definition chain_shape :: "admission_gate list \<Rightarrow> gate_state \<Rightarrow> bool" where
  "chain_shape seen st =
     (if gs_denialCode st = None then gs_outcomes st = map pass_outcome seen \<and> gs_deniedAtGate st = None
      else \<exists>us g vs c. seen = us @ g # vs \<and> c \<in> set (GATE_DENIAL_CODES g) \<and> gs_denialCode st = Some c
             \<and> gs_deniedAtGate st = Some g
             \<and> gs_outcomes st = map pass_outcome us @ deny_outcome g c # map skip_outcome vs)"

definition chain_budget :: "admission_input \<Rightarrow> ledger \<Rightarrow> admission_gate list \<Rightarrow> gate_state \<Rightarrow> bool" where
  "chain_budget i b seen st =
     (if gs_reservation st = None then gs_budget st = b
      else G_BUDGET_RESERVATION \<in> set seen
        \<and> (\<exists>r. gs_reservation st = Some r \<and> reserve (gate_request i) b = Inr (Reserved r, gs_budget st)))"

lemma chain_shape_denied:
  "c \<in> set (GATE_DENIAL_CODES g) \<Longrightarrow> gs_denialCode st = Some c \<Longrightarrow> gs_deniedAtGate st = Some g \<Longrightarrow>
   gs_outcomes st = map pass_outcome us @ deny_outcome g c # map skip_outcome vs \<Longrightarrow> chain_shape (us @ g # vs) st"
  unfolding chain_shape_def by (metis option.distinct(1))

lemma chain_shape_step: "chain_shape seen st \<Longrightarrow> gate_step i st g = Inr st' \<Longrightarrow> chain_shape (seen @ [g]) st'"
proof (cases "gs_denialCode st = None")
  case True
  assume "chain_shape seen st" and step: "gate_step i st g = Inr st'"
  then have st: "gs_outcomes st = map pass_outcome seen" "gs_deniedAtGate st = None"
    using True by (simp_all add: chain_shape_def)
  from gate_step_effect [OF step True] show ?thesis
  proof (elim disjE bexE)
    fix c assume c: "c \<in> set (GATE_DENIAL_CODES g)"
      and "gs_denialCode st' = Some c \<and> gs_deniedAtGate st' = Some g \<and> gs_outcomes st' = gs_outcomes st @ [deny_outcome g c]"
    then show ?thesis using st chain_shape_denied [OF c, where us = seen and vs = "[]"] by simp
  qed (use st in \<open>simp add: chain_shape_def\<close>)
next
  case False
  assume "chain_shape seen st" and step: "gate_step i st g = Inr st'"
  then obtain us h vs c where "seen = us @ h # vs" "c \<in> set (GATE_DENIAL_CODES h)" "gs_denialCode st = Some c"
      "gs_deniedAtGate st = Some h" "gs_outcomes st = map pass_outcome us @ deny_outcome h c # map skip_outcome vs"
    using False by (auto simp: chain_shape_def)
  moreover have "st' = st\<lparr>gs_outcomes := gs_outcomes st @ [skip_outcome g]\<rparr>"
    using step gate_step_skips [OF False] by simp
  ultimately show ?thesis
    using chain_shape_denied [of c h st' us "vs @ [g]"] by simp
qed

lemma chain_budget_step:
  assumes inv: "chain_budget i b seen st" and step: "gate_step i st g = Inr st'" and fresh: "g \<notin> set seen"
  shows "chain_budget i b (seen @ [g]) st'"
proof (cases "g = G_BUDGET_RESERVATION")
  case False
  then show ?thesis using inv gate_step_budget [OF step] by (auto simp: chain_budget_def)
next
  case True
  then have none: "gs_reservation st = None" "gs_budget st = b"
    using inv fresh by (auto simp: chain_budget_def split: if_splits)
  show ?thesis
  proof (cases "gs_denialCode st = None")
    case False
    then have "st' = st\<lparr>gs_outcomes := gs_outcomes st @ [skip_outcome g]\<rparr>" using step gate_step_skips by simp
    then show ?thesis using none by (simp add: chain_budget_def)
  next
    case none': True
    then have "budget_gate i st = Inr st'" using step True by (simp add: gate_step_def)
    then show ?thesis using none True
      by (auto simp: budget_gate_def deny_gate_def pass_gate_def chain_budget_def gate_request_def
          dest: reserve_refused split: sum.splits prod.splits reservation_result.splits)
  qed
qed

text \<open>The probe is asked once before and once after the other gates.\<close>

fun probed_world :: "admission_input \<Rightarrow> grant_world \<Rightarrow> nat \<Rightarrow> grant_world" where
  "probed_world i w 0 = w"
| "probed_world i w (Suc n) = snd (ai_probe i n (probed_world i w n))"

definition chain_world :: "admission_input \<Rightarrow> grant_world \<Rightarrow> admission_gate list \<Rightarrow> gate_state \<Rightarrow> bool" where
  "chain_world i w seen st =
     (gs_world st = probed_world i w (gs_probes st)
      \<and> gs_probes st \<le> length (filter (\<lambda>g. g \<in> {G_KILL_SWITCH_ENTRY, G_KILL_SWITCH_PREDISPATCH}) seen))"

lemma gate_step_world:
  assumes "gate_step i st g = Inr st'" and "g \<noteq> G_KILL_SWITCH_ENTRY" and "g \<noteq> G_KILL_SWITCH_PREDISPATCH"
  shows "gs_world st' = gs_world st \<and> gs_probes st' = gs_probes st"
  using assms
  by (auto simp: gate_step_def budget_gate_def settle_gate_def deny_gate_def pass_gate_def
      split: if_splits prod.splits option.splits sum.splits reservation_result.splits)

lemma gate_step_probe:
  assumes "gate_step i st g = Inr st'"
  shows "(gs_world st' = gs_world st \<and> gs_probes st' = gs_probes st)
    \<or> (gs_world st' = snd (ai_probe i (gs_probes st) (gs_world st)) \<and> gs_probes st' = gs_probes st + 1)"
  using assms
  by (auto simp: gate_step_def budget_gate_def kill_switch_gate_def ask_probe_def settle_gate_def deny_gate_def pass_gate_def
      split: if_splits prod.splits option.splits sum.splits reservation_result.splits)

lemma chain_world_step:
  assumes "chain_world i w seen st" and step: "gate_step i st g = Inr st'"
  shows "chain_world i w (seen @ [g]) st'"
proof (cases "g \<in> {G_KILL_SWITCH_ENTRY, G_KILL_SWITCH_PREDISPATCH}")
  case True
  then show ?thesis using assms(1) gate_step_probe [OF step] by (auto simp: chain_world_def)
next
  case False
  then show ?thesis using assms(1) gate_step_world [OF step] by (auto simp: chain_world_def)
qed

lemma chain_world_end:
  assumes "foldM_res (gate_step i) (initial_gate_state w b) PRODUCTION_ADMISSION_GATES = Inr st"
  shows "\<exists>n\<le>2. gs_world st = probed_world i w n"
proof -
  have "chain_world i w PRODUCTION_ADMISSION_GATES st"
    using assms by (rule foldM_res_prefix) (simp add: chain_world_def initial_gate_state_def, rule chain_world_step)
  then show ?thesis by (auto simp: chain_world_def PRODUCTION_ADMISSION_GATES_def numeral_2_eq_2)
qed

lemma gates_distinct: "distinct PRODUCTION_ADMISSION_GATES"
  by (simp add: PRODUCTION_ADMISSION_GATES_def)

lemma chain_invariant:
  assumes "foldM_res (gate_step i) (initial_gate_state w b) PRODUCTION_ADMISSION_GATES = Inr st"
  shows "chain_shape PRODUCTION_ADMISSION_GATES st \<and> chain_budget i b PRODUCTION_ADMISSION_GATES st"
proof (rule foldM_res_prefix [OF assms])
  show "chain_shape [] (initial_gate_state w b) \<and> chain_budget i b [] (initial_gate_state w b)"
    by (simp add: chain_shape_def chain_budget_def initial_gate_state_def)
next
  fix seen g s s'
  assume inv: "chain_shape seen s \<and> chain_budget i b seen s" and step: "gate_step i s g = Inr s'"
    and pos: "\<exists>rest. PRODUCTION_ADMISSION_GATES = seen @ g # rest"
  obtain rest where "PRODUCTION_ADMISSION_GATES = seen @ g # rest" using pos by blast
  then have "distinct (seen @ g # rest)" using gates_distinct by simp
  then have "g \<notin> set seen" by simp
  then show "chain_shape (seen @ [g]) s' \<and> chain_budget i b (seen @ [g]) s'"
    using inv step chain_shape_step chain_budget_step by blast
qed

section \<open>Allowed decisions\<close>

definition plain_gates :: "admission_gate list" where
  "plain_gates = [G_OWNER_AUTHORIZATION, G_AUTHORIZATION_CLASS, G_CONFIGURATION_INTEGRITY, G_ORGANIZATION_WINDOW,
     G_OBSERVER_IDENTITY, G_SOURCE_CURRENCY, G_READ_ONLY_PROOF, G_ROUTE_AUTHORITY, G_HOST_ADMISSION, G_ADDRESS_POLICY,
     G_METHOD_AND_BODY, G_PARAMETER_PROVENANCE, G_PRIVACY_CAPABILITY, G_CONTAINMENT_READINESS]"

lemma gates_split:
  "PRODUCTION_ADMISSION_GATES =
     [G_KILL_SWITCH_ENTRY] @ plain_gates @ [G_BUDGET_RESERVATION, G_BREAKER_STATE, G_KILL_SWITCH_PREDISPATCH]"
  by (simp add: PRODUCTION_ADMISSION_GATES_def plain_gates_def)

lemma denial_sticky: "foldM_res (gate_step i) st gs = Inr st' \<Longrightarrow> gs_denialCode st \<noteq> None \<Longrightarrow> gs_denialCode st' \<noteq> None"
  by (induction gs arbitrary: st) (auto simp: gate_step_skips)

lemma plain_step:
  assumes "gate_step i st g = Inr st'" and "gs_denialCode st = None" and "gs_denialCode st' = None"
    and "g \<notin> {G_KILL_SWITCH_ENTRY, G_KILL_SWITCH_PREDISPATCH, G_BUDGET_RESERVATION}"
  shows "st' = pass_gate g st \<and> gate_verdict i (gs_world st) g = None"
  using assms by (auto simp: gate_step_def settle_gate_def deny_gate_def split: option.splits if_splits)

lemma plain_fold:
  assumes "foldM_res (gate_step i) st gs = Inr st'" and "gs_denialCode st' = None"
    and "\<forall>g\<in>set gs. g \<notin> {G_KILL_SWITCH_ENTRY, G_KILL_SWITCH_PREDISPATCH, G_BUDGET_RESERVATION}"
  shows "st' = st\<lparr>gs_outcomes := gs_outcomes st @ map pass_outcome gs\<rparr>
    \<and> (\<forall>g\<in>set gs. gate_verdict i (gs_world st) g = None)"
  using assms
proof (induction gs arbitrary: st)
  case (Cons g gs)
  obtain s where s: "gate_step i st g = Inr s" "foldM_res (gate_step i) s gs = Inr st'" using Cons.prems(1) by auto
  have "gs_denialCode s = None" using denial_sticky [OF s(2)] Cons.prems(2) by blast
  moreover from this have "gs_denialCode st = None" using gate_step_skips [of st i g] s(1) by fastforce
  ultimately have "s = pass_gate g st" "gate_verdict i (gs_world st) g = None"
    using plain_step [OF s(1)] Cons.prems(3) by simp_all
  with Cons.IH [OF s(2) Cons.prems(2)] Cons.prems(3) show ?case by (simp add: pass_gate_def pass_outcome_def)
qed simp

lemma kill_switch_gate_passes:
  assumes "kill_switch_gate i g c st = Inr st'" and "gs_denialCode st = None" and "gs_denialCode st' = None"
  shows "\<exists>a w. ai_probe i (gs_probes st) (gs_world st) = (a, w) \<and> evaluateKillSwitch a = KS_Absent
    \<and> st' = pass_gate g (st\<lparr>gs_world := w, gs_probes := gs_probes st + 1\<rparr>)"
  using assms
  by (auto simp: kill_switch_gate_def ask_probe_def settle_gate_def deny_gate_def
      intro: kill_switch_state.exhaust split: prod.splits if_splits)

lemma budget_gate_passes:
  assumes "budget_gate i st = Inr st'" and "gs_denialCode st' = None"
  shows "\<exists>r b. reserve (gate_request i) (gs_budget st) = Inr (Reserved r, b)
    \<and> st' = pass_gate G_BUDGET_RESERVATION (st\<lparr>gs_budget := b, gs_reservation := Some r\<rparr>)"
  using assms
  by (auto simp: budget_gate_def gate_request_def deny_gate_def split: sum.splits prod.splits reservation_result.splits if_splits)

lemma chain_allowed:
  assumes run: "foldM_res (gate_step i) (initial_gate_state w b) PRODUCTION_ADMISSION_GATES = Inr st"
    and ok: "gs_denialCode st = None"
  shows "\<exists>a1 w1 a2 r. ai_probe i 0 w = (a1, w1) \<and> evaluateKillSwitch a1 = KS_Absent
    \<and> (\<forall>g\<in>set (G_BREAKER_STATE # plain_gates). gate_verdict i w1 g = None)
    \<and> ai_probe i 1 w1 = (a2, gs_world st) \<and> evaluateKillSwitch a2 = KS_Absent
    \<and> gs_reservation st = Some r \<and> reserve (gate_request i) b = Inr (Reserved r, gs_budget st)"
proof -
  let ?s = "initial_gate_state w b"
  obtain s1 s2 s3 s4 where
      1: "gate_step i ?s G_KILL_SWITCH_ENTRY = Inr s1" and 2: "foldM_res (gate_step i) s1 plain_gates = Inr s2"
      and 3: "gate_step i s2 G_BUDGET_RESERVATION = Inr s3" and 4: "gate_step i s3 G_BREAKER_STATE = Inr s4"
      and 5: "gate_step i s4 G_KILL_SWITCH_PREDISPATCH = Inr st"
    using run unfolding gates_split by (auto simp: foldM_res_append)
  have d4: "gs_denialCode s4 = None" using gate_step_skips [of s4] 5 ok by fastforce
  then have d3: "gs_denialCode s3 = None" using gate_step_skips [of s3] 4 by fastforce
  then have d2: "gs_denialCode s2 = None" using gate_step_skips [of s2] 3 by fastforce
  then have d1: "gs_denialCode s1 = None" using denial_sticky [OF 2] by blast
  have d0: "gs_denialCode ?s = None" by (simp add: initial_gate_state_def)
  have k1: "kill_switch_gate i G_KILL_SWITCH_ENTRY PD_KILL_SWITCH_ENGAGED_AT_ENTRY ?s = Inr s1"
    using 1 d0 by (simp add: gate_step_def)
  have k5: "kill_switch_gate i G_KILL_SWITCH_PREDISPATCH PD_KILL_SWITCH_ENGAGED_BEFORE_DISPATCH s4 = Inr st"
    using 5 d4 by (simp add: gate_step_def)
  obtain a1 w1 where e1: "ai_probe i 0 w = (a1, w1)" "evaluateKillSwitch a1 = KS_Absent"
      "s1 = pass_gate G_KILL_SWITCH_ENTRY (?s\<lparr>gs_world := w1, gs_probes := 1\<rparr>)"
    using kill_switch_gate_passes [OF k1 d0 d1] by (auto simp: initial_gate_state_def)
  have e2: "s2 = s1\<lparr>gs_outcomes := gs_outcomes s1 @ map pass_outcome plain_gates\<rparr>"
      "\<forall>g\<in>set plain_gates. gate_verdict i (gs_world s1) g = None"
    using plain_fold [OF 2 d2] by (auto simp: plain_gates_def)
  obtain r b' where e3: "reserve (gate_request i) (gs_budget s2) = Inr (Reserved r, b')"
      "s3 = pass_gate G_BUDGET_RESERVATION (s2\<lparr>gs_budget := b', gs_reservation := Some r\<rparr>)"
    using budget_gate_passes [of i s2 s3] 3 d2 d3 by (auto simp: gate_step_def)
  have e4: "s4 = pass_gate G_BREAKER_STATE s3" "gate_verdict i (gs_world s3) G_BREAKER_STATE = None"
    using plain_step [OF 4 d3 d4] by auto
  obtain a2 w2 where e5: "ai_probe i (gs_probes s4) (gs_world s4) = (a2, w2)" "evaluateKillSwitch a2 = KS_Absent"
      "st = pass_gate G_KILL_SWITCH_PREDISPATCH (s4\<lparr>gs_world := w2, gs_probes := gs_probes s4 + 1\<rparr>)"
    using kill_switch_gate_passes [OF k5 d4 ok] by auto
  show ?thesis using e1 e2 e3 e4 e5 by (simp add: pass_gate_def initial_gate_state_def)
qed

section \<open>The decision\<close>

text \<open>The facts of the input an admitted request must have, apart from the grant, the kill
  switch and the budget.\<close>

definition admissible_request :: "admission_input \<Rightarrow> bool" where
  "admissible_request i =
     ((\<exists>c. ai_config i = Some c \<and> lower (ri_host (ai_intent i)) \<in> set (pc_admittedHosts c)
         \<and> ow_notBeforeMs (pc_observationWindow c) \<le> ai_nowMs i \<and> ai_nowMs i < ow_notAfterMs (pc_observationWindow c))
      \<and> (\<exists>v. ai_routeVocabulary i = RouteVocabulary v \<and> rv_marker v = Some Marker_Production
            \<and> ri_routeTemplate (ai_intent i) \<in> set (rv_templates v))
      \<and> ri_method (ai_intent i) \<in> {''GET'', ''HEAD''} \<and> \<not> ri_hasBody (ai_intent i)
      \<and> ri_mutationClassification (ai_intent i) = None
      \<and> (\<forall>p\<in>set (ri_parameters (ai_intent i)). assertHandleNotValue p = Inr ())
      \<and> \<not> numeric_segment (ri_routeTemplate (ai_intent i))
      \<and> rp_proven (ai_proof i) \<and> 2 \<le> rp_witnessCount (ai_proof i) \<and> \<not> rp_stale (ai_proof i)
      \<and> sf_inventoryState (ai_source i) = Inventory_Complete \<and> sf_currencyState (ai_source i) = Currency_Current
      \<and> ai_addressesAdmitted i
      \<and> (\<exists>p. ai_privacyPolicy i = Some p \<and> pp_cone p = Cone_Production)
      \<and> (ai_containment i = Containment_Proven \<or> (ai_containment i = Containment_NotExercised \<and> ai_environmentClass i = EC_CI))
      \<and> bk_opened (ai_breakers i) = [] \<and> ai_requestedClass i = PROD_OBSERVE_AUTHORIZATION_CLASS
      \<and> (ai_stage i \<in> {Stage_P2, Stage_P3, Stage_P4} \<longrightarrow> ai_observerIdentity i = Identity_OrgReadOnly)
      \<and> (ai_stage i = Stage_P1 \<longrightarrow> ai_observerIdentity i \<noteq> Identity_Unknown))"

lemma identity_ok:
  "observerIdentitySatisfies s a = None \<Longrightarrow>
     (s \<in> {Stage_P2, Stage_P3, Stage_P4} \<longrightarrow> a = Identity_OrgReadOnly) \<and> (s = Stage_P1 \<longrightarrow> a \<noteq> Identity_Unknown)"
  by (cases s; cases a) (auto simp: observerIdentitySatisfies_def Let_def)

lemma route_ok:
  "assertSourceProvenRoute src t = Inr u \<Longrightarrow>
     \<exists>v. src = RouteVocabulary v \<and> rv_marker v = Some Marker_Production \<and> t \<in> set (rv_templates v)"
  by (cases src) (auto simp: assertSourceProvenRoute_def assertProductionVocabularyAuthority_def split: option.splits if_splits)

lemma all_ok_case: "(case all_ok f xs of Inl e \<Rightarrow> Some c | Inr u \<Rightarrow> v) = None \<Longrightarrow> (\<forall>x\<in>set xs. f x = Inr ()) \<and> v = None"
  by (cases "all_ok f xs") (auto simp: all_ok_Inr_iff [of f xs, symmetric])

lemma verdicts_admissible:
  assumes "\<forall>g\<in>set (G_BREAKER_STATE # plain_gates). gate_verdict i w g = None"
  shows "admissible_request i \<and> (\<exists>g. validateProdObserveGrant w (ai_grant i) (ai_campaignId i) (ai_nowMs i) = Inr g)"
proof -
  have v: "gate_verdict i w g = None" if "g \<in> set (G_BREAKER_STATE # plain_gates)" for g using assms that by blast
  note v' = v [unfolded plain_gates_def]
  have "\<exists>g. validateProdObserveGrant w (ai_grant i) (ai_campaignId i) (ai_nowMs i) = Inr g"
    using v' [of G_OWNER_AUTHORIZATION] by (simp split: sum.splits)
  moreover have "ai_requestedClass i = PROD_OBSERVE_AUTHORIZATION_CLASS"
    using v' [of G_AUTHORIZATION_CLASS] by (simp split: if_splits)
  moreover have "\<exists>c. ai_config i = Some c \<and> lower (ri_host (ai_intent i)) \<in> set (pc_admittedHosts c)
         \<and> ow_notBeforeMs (pc_observationWindow c) \<le> ai_nowMs i \<and> ai_nowMs i < ow_notAfterMs (pc_observationWindow c)"
    using v' [of G_ORGANIZATION_WINDOW] v' [of G_HOST_ADMISSION]
    by (auto simp: isAdmittedProductionHost_def split: option.splits if_splits)
  moreover have "sf_inventoryState (ai_source i) = Inventory_Complete \<and> sf_currencyState (ai_source i) = Currency_Current"
    using v' [of G_SOURCE_CURRENCY] by (simp split: if_splits)
  moreover have "rp_proven (ai_proof i) \<and> 2 \<le> rp_witnessCount (ai_proof i) \<and> \<not> rp_stale (ai_proof i)"
    using v' [of G_READ_ONLY_PROOF] by (simp split: if_splits)
  moreover have "\<exists>v. ai_routeVocabulary i = RouteVocabulary v \<and> rv_marker v = Some Marker_Production
            \<and> ri_routeTemplate (ai_intent i) \<in> set (rv_templates v)"
    using v' [of G_ROUTE_AUTHORITY] by (auto split: sum.splits intro: route_ok)
  moreover have "ai_addressesAdmitted i" using v' [of G_ADDRESS_POLICY] by (simp split: if_splits)
  moreover have "ri_method (ai_intent i) \<in> {''GET'', ''HEAD''} \<and> \<not> ri_hasBody (ai_intent i)
      \<and> ri_mutationClassification (ai_intent i) = None"
    using v' [of G_METHOD_AND_BODY] by (simp add: PRODUCTION_READ_METHODS_def split: if_splits)
  moreover have "(\<forall>p\<in>set (ri_parameters (ai_intent i)). assertHandleNotValue p = Inr ())
      \<and> \<not> numeric_segment (ri_routeTemplate (ai_intent i))"
    using all_ok_case [OF v' [of G_PARAMETER_PROVENANCE, unfolded gate_verdict.simps]] by (auto split: if_splits)
  moreover have "\<exists>p. ai_privacyPolicy i = Some p \<and> pp_cone p = Cone_Production"
    using v' [of G_PRIVACY_CAPABILITY] by (auto simp: assertProductionCone_def guard_res_def split: option.splits sum.splits if_splits)
  moreover have "ai_containment i = Containment_Proven \<or> (ai_containment i = Containment_NotExercised \<and> ai_environmentClass i = EC_CI)"
    using v' [of G_CONTAINMENT_READINESS] by (auto simp: containmentSatisfies_def split: if_splits)
  moreover have "bk_opened (ai_breakers i) = []"
    using v' [of G_BREAKER_STATE] by (simp add: breaker_isOpen_def split: if_splits)
  moreover note identity_ok [OF v' [of G_OBSERVER_IDENTITY, unfolded gate_verdict.simps]]
  ultimately show ?thesis unfolding admissible_request_def by simp
qed

lemma validated_issued:
  "validateProdObserveGrant w c campaign now = Inr g \<Longrightarrow>
     \<exists>r. c = ObjectRef r \<and> grant_issued w r \<and> gn_campaignId g = campaign
       \<and> gn_notBeforeMs g \<le> now \<and> now < gn_expiresAtMs g"
  by (auto simp: validateProdObserveGrant_def registered_entry_Some grant_issued_iff
      split: option.splits if_splits) (metis grant_state.exhaust)+

lemma evaluate_cases:
  assumes "evaluateProductionAdmission i digest w b = Inr (d, w', b')"
  obtains st where "foldM_res (gate_step i) (initial_gate_state w b) PRODUCTION_ADMISSION_GATES = Inr st"
    and "gs_denialCode st \<noteq> None" and "d = outcome_of digest (release_held st)"
    and "w' = gs_world st" and "b' = gs_budget (release_held st)"
  | st where "foldM_res (gate_step i) (initial_gate_state w b) PRODUCTION_ADMISSION_GATES = Inr st"
    and "gs_denialCode st = None" and "consumeProdObserveGrant (ai_grant i) (gs_world st) = (None, w')"
    and "d = outcome_of digest (st\<lparr>gs_world := w'\<rparr>)" and "b' = gs_budget st"
  | st e where "foldM_res (gate_step i) (initial_gate_state w b) PRODUCTION_ADMISSION_GATES = Inr st"
    and "gs_denialCode st = None" and "consumeProdObserveGrant (ai_grant i) (gs_world st) = (Some e, w')"
    and "d = outcome_of digest (lost_race e st)" and "b' = gs_budget (release_held st)"
proof -
  obtain st where run: "foldM_res (gate_step i) (initial_gate_state w b) PRODUCTION_ADMISSION_GATES = Inr st"
    using assms by (auto simp: evaluateProductionAdmission_def)
  show thesis
  proof (cases "gs_denialCode st")
    case (Some c)
    have "gs_world (release_held st) = gs_world st" by (simp add: release_held_def split: option.split)
    then show thesis using assms run Some that(1) [OF run] by (simp add: evaluateProductionAdmission_def Let_def)
  next
    case None
    obtain v w2 where c: "consumeProdObserveGrant (ai_grant i) (gs_world st) = (v, w2)" by force
    show thesis
    proof (cases v)
      case None
      then show thesis using assms run \<open>gs_denialCode st = None\<close> c that(2) [OF run]
        by (auto simp: evaluateProductionAdmission_def)
    next
      case (Some e)
      have w2: "w2 = gs_world st" using c Some by (auto simp: consumeProdObserveGrant_def split: option.splits prod.splits if_splits)
      have same: "st\<lparr>gs_world := gs_world st\<rparr> = st" by simp
      have "gs_world (lost_race e st) = gs_world st" "gs_budget (lost_race e st) = gs_budget (release_held st)"
        by (simp_all add: lost_race_def release_held_def split: option.split)
      then show thesis using assms run \<open>gs_denialCode st = None\<close> c Some w2 same that(3) [OF run]
        by (simp add: evaluateProductionAdmission_def)
    qed
  qed
qed

section \<open>Properties\<close>

text \<open>C9: The chain allows a request only when every gate's fact holds: an organisation
  window and an admitted host, a route of a production vocabulary, a read method without
  body or mutation, opaque parameters, a fresh two-witness read-only proof over complete
  and current source, containment, closed breakers, a kill switch that answered absent
  twice, and a registered grant for this campaign and time, issued until this very decision
  and consumed by it; the budget reservation is held by the ledger it returns.\<close>

theorem production_allow_rests_on_every_gate:
  assumes "evaluateProductionAdmission i digest w b = Inr (d, w', b')" and "ao_allowed d" and "ledger_wf b"
  shows "admissible_request i
    \<and> (\<exists>a1 w1 a2 w2 r g k. ai_probe i 0 w = (a1, w1) \<and> ai_probe i 1 w1 = (a2, w2)
         \<and> a1 = ProbeReturns False \<and> a2 = ProbeReturns False
         \<and> ai_grant i = ObjectRef r
         \<and> validateProdObserveGrant w1 (ObjectRef r) (ai_campaignId i) (ai_nowMs i) = Inr g
         \<and> grant_issued w2 r \<and> \<not> grant_issued w' r
         \<and> ao_reservation d = Some k \<and> rs_id k \<in> set (lg_outstanding b') \<and> ledger_wf b')"
proof -
  have absent: "a = ProbeReturns False" if "evaluateKillSwitch a = KS_Absent" for a
    using that by (cases a) (auto split: if_splits)
  from assms(1) obtain st where run: "foldM_res (gate_step i) (initial_gate_state w b) PRODUCTION_ADMISSION_GATES = Inr st"
      and ok: "gs_denialCode st = None" and c: "consumeProdObserveGrant (ai_grant i) (gs_world st) = (None, w')"
      and d: "d = outcome_of digest (st\<lparr>gs_world := w'\<rparr>)" and b': "b' = gs_budget st"
    by (rule evaluate_cases) (use assms(2) in \<open>auto simp: outcome_of_def lost_race_def release_held_def split: option.splits\<close>)
  obtain a1 w1 a2 k where e: "ai_probe i 0 w = (a1, w1)" "evaluateKillSwitch a1 = KS_Absent"
      "\<forall>g\<in>set (G_BREAKER_STATE # plain_gates). gate_verdict i w1 g = None"
      "ai_probe i 1 w1 = (a2, gs_world st)" "evaluateKillSwitch a2 = KS_Absent"
      "gs_reservation st = Some k" "reserve (gate_request i) b = Inr (Reserved k, gs_budget st)"
    using chain_allowed [OF run ok] by blast
  obtain r where r: "ai_grant i = ObjectRef r" "grant_issued (gs_world st) r" using c by (auto simp: consume_ok)
  have lost: "\<not> grant_issued w' r" using consumed_not_issued c r by simp
  note facts = verdicts_admissible [OF e(3)]
  obtain g where "validateProdObserveGrant w1 (ObjectRef r) (ai_campaignId i) (ai_nowMs i) = Inr g"
    using facts r by auto
  moreover have "rs_id k \<in> set (lg_outstanding b')" using reserve_Reserved [OF e(7) assms(3)] b' by simp
  moreover have "ledger_wf b'" using reserve_wf [OF e(7) assms(3)] b' by simp
  ultimately show ?thesis using facts e r lost d absent [OF e(2)] absent [OF e(5)]
    by (auto simp: outcome_of_def)
qed

text \<open>A denial from the chain names exactly one gate: everything before it passed,
  nothing after it was evaluated, and its code is one the chain definition gives that gate.
  The only other denial is a grant lost between validation and consumption, which is
  reported at the owner authorization gate.\<close>

theorem production_denial_shape:
  assumes "evaluateProductionAdmission i digest w b = Inr (d, w', b')" and "\<not> ao_allowed d"
  shows "ao_deniedBeforeDispatch d \<and> (\<exists>us g vs c. PRODUCTION_ADMISSION_GATES = us @ g # vs
     \<and> ao_deniedAtGate d = Some g \<and> ao_denialCode d = Some c \<and> c \<in> set (GATE_DENIAL_CODES g)
     \<and> (ao_outcomes d = map pass_outcome us @ deny_outcome g c # map skip_outcome vs
        \<or> (g = G_OWNER_AUTHORIZATION \<and> ao_outcomes d = map pass_outcome us @ deny_outcome g c # map pass_outcome vs)))"
  using assms(1)
proof (cases rule: evaluate_cases)
  case (1 st)
  have same: "gs_denialCode (release_held st) = gs_denialCode st" "gs_deniedAtGate (release_held st) = gs_deniedAtGate st"
      "gs_outcomes (release_held st) = gs_outcomes st"
    by (simp_all add: release_held_def split: option.split)
  show ?thesis using chain_invariant [OF 1(1)] 1(2,3) same
    unfolding chain_shape_def by (simp add: outcome_of_def) blast
next
  case (2 st)
  then show ?thesis using assms(2) by (simp add: outcome_of_def)
next
  case (3 st e)
  have pass: "gs_outcomes st = map pass_outcome PRODUCTION_ADMISSION_GATES"
    using chain_invariant [OF 3(1)] 3(2) by (simp add: chain_shape_def)
  have gates: "PRODUCTION_ADMISSION_GATES = [G_KILL_SWITCH_ENTRY] @ G_OWNER_AUTHORIZATION # drop 2 PRODUCTION_ADMISSION_GATES"
    by (simp add: PRODUCTION_ADMISSION_GATES_def)
  have out: "ao_outcomes d = map pass_outcome [G_KILL_SWITCH_ENTRY] @ deny_outcome G_OWNER_AUTHORIZATION (grant_denial_code e)
      # map pass_outcome (drop 2 PRODUCTION_ADMISSION_GATES)"
    by (subst 3(4)) (simp add: outcome_of_def lost_race_def pass PRODUCTION_ADMISSION_GATES_def deny_outcome_def)
  have "ao_deniedAtGate d = Some G_OWNER_AUTHORIZATION" "ao_denialCode d = Some (grant_denial_code e)" "ao_deniedBeforeDispatch d"
    using 3(4) by (simp_all add: outcome_of_def lost_race_def)
  then show ?thesis using gates out grant_denial_listed by blast
qed

lemma release_of_reserve:
  assumes "reserve q b = Inr (Reserved r, b1)" and "ledger_wf b"
  shows "lg_outstanding (releaseReservation r b1) = lg_outstanding b \<and> lg_inFlight (releaseReservation r b1) = lg_inFlight b
    \<and> lg_failures (releaseReservation r b1) = lg_failures b"
proof -
  have "lg_nextId b \<notin> set (lg_outstanding b)" using assms(2) by (auto simp: ledger_wf_def)
  then have "filter (\<lambda>i. i \<noteq> lg_nextId b) (lg_outstanding b) = lg_outstanding b" by (intro filter_True) auto
  then show ?thesis using reserve_Reserved [OF assms] by (simp add: releaseReservation_def)
qed

text \<open>C10: A denial, at whatever gate, leaves no concurrency slot held and charges no
  failure, keeps the ledger within its limits, and does not touch the grant registry:
  what the registry holds afterwards is what the kill-switch probes left there.\<close>

theorem production_denial_leaves_no_slot:
  assumes "evaluateProductionAdmission i digest w b = Inr (d, w', b')" and "\<not> ao_allowed d" and "ledger_wf b"
  shows "lg_outstanding b' = lg_outstanding b \<and> lg_inFlight b' = lg_inFlight b \<and> lg_failures b' = lg_failures b
    \<and> ledger_wf b'
    \<and> (w' = w \<or> w' = snd (ai_probe i 0 w) \<or> w' = snd (ai_probe i 1 (snd (ai_probe i 0 w))))"
proof -
  have held: "lg_outstanding (gs_budget (release_held st)) = lg_outstanding b \<and> lg_inFlight (gs_budget (release_held st)) = lg_inFlight b
      \<and> lg_failures (gs_budget (release_held st)) = lg_failures b \<and> ledger_wf (gs_budget (release_held st))"
    if run: "foldM_res (gate_step i) (initial_gate_state w b) PRODUCTION_ADMISSION_GATES = Inr st" for st
  proof (cases "gs_reservation st")
    case None
    then show ?thesis using chain_invariant [OF run] assms(3) by (simp add: release_held_def chain_budget_def)
  next
    case (Some r)
    then have r: "reserve (gate_request i) b = Inr (Reserved r, gs_budget st)"
      using chain_invariant [OF run] by (simp add: chain_budget_def)
    show ?thesis using release_of_reserve [OF r assms(3)] releaseReservation_wf [OF reserve_wf [OF r assms(3)]] Some
      by (simp add: release_held_def)
  qed
  have world: "gs_world st = w \<or> gs_world st = snd (ai_probe i 0 w) \<or> gs_world st = snd (ai_probe i 1 (snd (ai_probe i 0 w)))"
    if run: "foldM_res (gate_step i) (initial_gate_state w b) PRODUCTION_ADMISSION_GATES = Inr st" for st
    using chain_world_end [OF run] by (auto simp: le_Suc_eq numeral_2_eq_2)
  from assms(1) show ?thesis
  proof (cases rule: evaluate_cases)
    case (1 st)
    then show ?thesis using held world by simp
  next
    case (2 st)
    then show ?thesis using assms(2) by (simp add: outcome_of_def)
  next
    case (3 st e)
    have "w' = gs_world st" using 3(3) by (auto simp: consumeProdObserveGrant_def split: option.splits prod.splits if_splits)
    then show ?thesis using held world 3 by simp
  qed
qed

text \<open>The evaluator always answers: no gate can emit a code the chain definition does
  not give it, and with well-formed budget keys nothing is thrown, whatever the input.\<close>

theorem production_chain_answers:
  assumes "budget_key_ok (ri_serviceKey (ai_intent i))" and "budget_key_ok (ri_routeKey (ai_intent i))"
  shows "\<exists>d w' b'. evaluateProductionAdmission i digest w b = Inr (d, w', b') \<and> length (ao_outcomes d) = 18"
proof -
  have "\<exists>st'. gate_step i st g = Inr st'" for st g
  proof (cases "gs_denialCode st = None")
    case True
    have "\<exists>st'. budget_gate i st = Inr st'" using assms
      by (auto simp: budget_gate_def reserve_def deny_gate_def split: if_splits)
    moreover have "\<exists>st'. kill_switch_gate i G_KILL_SWITCH_ENTRY PD_KILL_SWITCH_ENGAGED_AT_ENTRY st = Inr st'"
      "\<exists>st'. kill_switch_gate i G_KILL_SWITCH_PREDISPATCH PD_KILL_SWITCH_ENGAGED_BEFORE_DISPATCH st = Inr st'"
      by (auto simp: kill_switch_gate_def settle_gate_def deny_gate_def split: prod.split)
    ultimately show ?thesis using True by (auto simp: gate_step_def settle_gate_ok verdict_code)
  next
    case False
    then show ?thesis using gate_step_skips by blast
  qed
  then have "\<exists>st. foldM_res (gate_step i) (initial_gate_state w b) PRODUCTION_ADMISSION_GATES = Inr st \<and> True"
    by (intro foldM_res_total [where I = "\<lambda>_. True"]) auto
  then obtain st where run: "foldM_res (gate_step i) (initial_gate_state w b) PRODUCTION_ADMISSION_GATES = Inr st" by blast
  obtain d w' b' where d: "evaluateProductionAdmission i digest w b = Inr (d, w', b')"
    using run by (simp add: evaluateProductionAdmission_def Let_def)
  have len: "length (gs_outcomes st) = 18"
    using chain_invariant [OF run]
    by (auto simp: chain_shape_def PRODUCTION_ADMISSION_GATES_def split: if_splits dest!: arg_cong [where f = length])
  have "length (gs_outcomes (release_held st)) = 18" "length (gs_outcomes (lost_race e st)) = 18" for e
    using len by (simp_all add: release_held_def lost_race_def split: option.split)
  moreover have "ao_outcomes (outcome_of digest x) = gs_outcomes x" for x by (simp add: outcome_of_def)
  ultimately have "length (ao_outcomes d) = 18" using d len run by (auto elim!: evaluate_cases)
  with d show ?thesis by blast
qed

section \<open>A concrete run\<close>

definition w_intent :: request_intent where
  "w_intent = \<lparr>ri_method = ''GET'', ri_host = ''h'', ri_routeTemplate = ''GET /a'', ri_hasBody = False,
     ri_mutationClassification = None, ri_parameters = [], ri_serviceKey = ''s'', ri_routeKey = ''r''\<rparr>"

definition w_input_at :: "observation_stage \<Rightarrow> bool \<Rightarrow> admission_input" where
  "w_input_at stage engaged =
     \<lparr>ai_campaignId = ''c'', ai_stage = stage, ai_nowMs = 5, ai_environmentClass = EC_CI,
      ai_probe = (\<lambda>n w. (ProbeReturns (engaged \<and> n = 1), w)), ai_requestedClass = ''PROD_OBSERVE'',
      ai_grant = ObjectRef 0,
      ai_config = Some \<lparr>pc_admittedHosts = [''h''], pc_observationWindow = \<lparr>ow_notBeforeMs = 0, ow_notAfterMs = 9\<rparr>\<rparr>,
      ai_observerIdentity = Identity_OrgReadOnly,
      ai_source = \<lparr>sf_repository = ''x'', sf_sourceSha = ''x'', sf_inventoryState = Inventory_Complete, sf_currencyState = Currency_Current\<rparr>,
      ai_proof = \<lparr>rp_proven = True, rp_witnessCount = 2, rp_stale = False, rp_proofIdentity = ''x''\<rparr>,
      ai_routeVocabulary = RouteVocabulary \<lparr>rv_marker = Some Marker_Production, rv_templates = [''GET /a'']\<rparr>,
      ai_addressesAdmitted = True, ai_intent = w_intent,
      ai_privacyPolicy = Some \<lparr>pp_cone = Cone_Production, pp_screenshots = [], pp_playwrightTrace = [], pp_pageConsoleText = [],
        pp_responseBodyRetention = [], pp_urlRetention = [], pp_keyProvenanceRequirement = [], pp_durableValueDigest = [],
        pp_storeIdentity = [], pp_browserProfile = []\<rparr>,
      ai_containment = Containment_Proven, ai_breakers = \<lparr>bk_opened = []\<rparr>\<rparr>"

lemma w_probe [simp]: "ai_probe (w_input_at sg e) n w = (ProbeReturns (e \<and> n = 1), w)"
  and w_candidate [simp]: "ai_grant (w_input_at sg e) = ObjectRef 0"
  by (simp_all add: w_input_at_def)

lemma w_validate: "validateProdObserveGrant (w_world GS_Issued) (ObjectRef 0) ''c'' 5 = Inr w_grant"
  using w_id_ok
  by (simp add: validateProdObserveGrant_def registered_entry_def candidate_fields_def w_world_def map_get_def w_grant_def)

lemma w_class: "grant_class (w_world s) (ObjectRef 0) = Some ''PROD_OBSERVE''"
  by (simp add: grant_class_def candidate_fields_def w_world_def w_grant_def PROD_OBSERVE_AUTHORIZATION_CLASS_def)

lemma w_route:
  "assertSourceProvenRoute (RouteVocabulary \<lparr>rv_marker = Some Marker_Production, rv_templates = [''GET /a'']\<rparr>) ''GET /a'' = Inr ()"
  by (simp add: assertSourceProvenRoute_def assertProductionVocabularyAuthority_def route_template_ok_def route_path_ok_def
      route_segment_def starts_with_def is_alnum_def is_digit_def is_lower_letter_def code_unit_def guard_res_def)

lemma w_identity: "observerIdentitySatisfies s Identity_OrgReadOnly = None"
  by (cases s) (simp_all add: observerIdentitySatisfies_def)

lemma w_verdicts: "\<forall>g\<in>set (G_BREAKER_STATE # plain_gates). gate_verdict (w_input_at sg e) (w_world GS_Issued) g = None"
  by (simp add: plain_gates_def w_input_at_def w_intent_def w_validate w_class w_route PROD_OBSERVE_AUTHORIZATION_CLASS_def
      w_identity isAdmittedProductionHost_def lower_def lower_char_def is_upper_letter_def code_unit_def
      PRODUCTION_READ_METHODS_def numeric_segment_def Let_def assertProductionCone_def guard_res_def
      containmentSatisfies_def breaker_isOpen_def)

lemma plain_fold_forward:
  assumes "gs_denialCode st = None" and "\<forall>g\<in>set gs. gate_verdict i (gs_world st) g = None"
    and "\<forall>g\<in>set gs. g \<notin> {G_KILL_SWITCH_ENTRY, G_KILL_SWITCH_PREDISPATCH, G_BUDGET_RESERVATION}"
  shows "foldM_res (gate_step i) st gs = Inr (st\<lparr>gs_outcomes := gs_outcomes st @ map pass_outcome gs\<rparr>)"
  using assms
proof (induction gs arbitrary: st)
  case (Cons g gs)
  have "gate_step i st g = Inr (pass_gate g st)" using Cons.prems by (simp add: gate_step_def settle_gate_def)
  then show ?case using Cons.IH [of "pass_gate g st"] Cons.prems by (simp add: pass_gate_def pass_outcome_def)
qed simp

lemma w_before_predispatch:
  assumes "reserve (gate_request (w_input_at sg e)) b = Inr (Reserved r, b')"
  shows "\<exists>s. foldM_res (gate_step (w_input_at sg e)) (initial_gate_state (w_world GS_Issued) b)
      ([G_KILL_SWITCH_ENTRY] @ plain_gates @ [G_BUDGET_RESERVATION, G_BREAKER_STATE]) = Inr s
    \<and> gs_world s = w_world GS_Issued \<and> gs_probes s = 1 \<and> gs_denialCode s = None \<and> gs_budget s = b' \<and> gs_reservation s = Some r
    \<and> 2 < length (gs_outcomes s)"
proof -
  let ?i = "w_input_at sg e" and ?s0 = "initial_gate_state (w_world GS_Issued) b"
  let ?s1 = "pass_gate G_KILL_SWITCH_ENTRY (?s0\<lparr>gs_probes := 1\<rparr>)"
  let ?s2 = "?s1\<lparr>gs_outcomes := gs_outcomes ?s1 @ map pass_outcome plain_gates\<rparr>"
  let ?s3 = "pass_gate G_BUDGET_RESERVATION (?s2\<lparr>gs_budget := b', gs_reservation := Some r\<rparr>)"
  have 1: "gate_step ?i ?s0 G_KILL_SWITCH_ENTRY = Inr ?s1"
    by (simp add: gate_step_def kill_switch_gate_def ask_probe_def settle_gate_def initial_gate_state_def)
  have 2: "foldM_res (gate_step ?i) ?s1 plain_gates = Inr ?s2"
    using w_verdicts [of sg e] by (intro plain_fold_forward) (auto simp: pass_gate_def initial_gate_state_def plain_gates_def)
  have 3: "gate_step ?i ?s2 G_BUDGET_RESERVATION = Inr ?s3" using assms
    by (simp add: gate_step_def budget_gate_def pass_gate_def initial_gate_state_def gate_request_def)
  have 4: "gate_step ?i ?s3 G_BREAKER_STATE = Inr (pass_gate G_BREAKER_STATE ?s3)"
    using w_verdicts [of sg e] by (simp add: gate_step_def settle_gate_def pass_gate_def initial_gate_state_def)
  have "foldM_res (gate_step ?i) ?s0 ([G_KILL_SWITCH_ENTRY] @ plain_gates @ [G_BUDGET_RESERVATION, G_BREAKER_STATE])
      = Inr (pass_gate G_BREAKER_STATE ?s3)"
    by (simp only: append_Cons append_Nil foldM_res.simps foldM_res_append bind_res_simps 1 2 3 4)
  moreover have "2 < length plain_gates" by (simp add: plain_gates_def)
  ultimately show ?thesis by (intro exI) (auto simp: pass_gate_def initial_gate_state_def)
qed

lemma w_reserved: "\<exists>r b'. reserve (gate_request (w_input_at sg e)) (new_ledger None 0) = Inr (Reserved r, b')"
proof -
  have "gate_request (w_input_at sg e) = w_budget_request"
    by (simp add: gate_request_def w_input_at_def w_intent_def w_budget_request_def)
  then show ?thesis using w_reserve by simp
qed

lemma w_allowed:
  "\<exists>d w' b'. evaluateProductionAdmission (w_input_at sg False) id (w_world GS_Issued) (new_ledger None 0) = Inr (d, w', b') \<and> ao_allowed d"
proof -
  obtain r b' where r: "reserve (gate_request (w_input_at sg False)) (new_ledger None 0) = Inr (Reserved r, b')" using w_reserved by blast
  obtain s where s: "foldM_res (gate_step (w_input_at sg False)) (initial_gate_state (w_world GS_Issued) (new_ledger None 0))
      ([G_KILL_SWITCH_ENTRY] @ plain_gates @ [G_BUDGET_RESERVATION, G_BREAKER_STATE]) = Inr s"
      "gs_world s = w_world GS_Issued" "gs_probes s = 1" "gs_denialCode s = None" using w_before_predispatch [OF r] by blast
  let ?t = "pass_gate G_KILL_SWITCH_PREDISPATCH (s\<lparr>gs_world := gs_world s, gs_probes := gs_probes s + 1\<rparr>)"
  have "gate_step (w_input_at sg False) s G_KILL_SWITCH_PREDISPATCH = Inr ?t"
    using s by (simp add: gate_step_def kill_switch_gate_def ask_probe_def settle_gate_def)
  then have run: "foldM_res (gate_step (w_input_at sg False)) (initial_gate_state (w_world GS_Issued) (new_ledger None 0)) PRODUCTION_ADMISSION_GATES = Inr ?t"
    using s(1) unfolding gates_split by (simp add: foldM_res_append del: bind_res_Inr_iff) auto
  then show ?thesis using run s w_grant_consume
    by (simp add: evaluateProductionAdmission_def pass_gate_def outcome_of_def)
qed

lemma w_denied:
  "\<exists>d w' b'. evaluateProductionAdmission (w_input_at sg True) id (w_world GS_Issued) (new_ledger None 0) = Inr (d, w', b')
     \<and> \<not> ao_allowed d \<and> ao_denialCode d = Some PD_KILL_SWITCH_ENGAGED_BEFORE_DISPATCH"
proof -
  obtain r b' where r: "reserve (gate_request (w_input_at sg True)) (new_ledger None 0) = Inr (Reserved r, b')" using w_reserved by blast
  obtain s where s: "foldM_res (gate_step (w_input_at sg True)) (initial_gate_state (w_world GS_Issued) (new_ledger None 0))
      ([G_KILL_SWITCH_ENTRY] @ plain_gates @ [G_BUDGET_RESERVATION, G_BREAKER_STATE]) = Inr s"
      "gs_world s = w_world GS_Issued" "gs_probes s = 1" "gs_denialCode s = None" using w_before_predispatch [OF r] by blast
  have "\<exists>t. gate_step (w_input_at sg True) s G_KILL_SWITCH_PREDISPATCH = Inr t
      \<and> gs_denialCode t = Some PD_KILL_SWITCH_ENGAGED_BEFORE_DISPATCH"
    using s by (simp add: gate_step_def kill_switch_gate_def ask_probe_def settle_gate_def deny_gate_def)
  then obtain t where "gate_step (w_input_at sg True) s G_KILL_SWITCH_PREDISPATCH = Inr t"
      and t: "gs_denialCode t = Some PD_KILL_SWITCH_ENGAGED_BEFORE_DISPATCH" by blast
  then have run: "foldM_res (gate_step (w_input_at sg True)) (initial_gate_state (w_world GS_Issued) (new_ledger None 0)) PRODUCTION_ADMISSION_GATES = Inr t"
    using s(1) unfolding gates_split by (simp add: foldM_res_append del: bind_res_Inr_iff) auto
  have "gs_denialCode (release_held t) = gs_denialCode t" by (simp add: release_held_def split: option.split)
  then show ?thesis using run t by (simp add: evaluateProductionAdmission_def Let_def outcome_of_def)
qed

text \<open>A grant carries a stage, but the chain never compares it with the stage it qualifies:
  a grant issued for the qualification stage is accepted, and consumed, at every stage.\<close>

theorem grant_stage_not_enforced:
  "gn_stage w_grant = Stage_PQ
   \<and> (\<exists>d w' b'. evaluateProductionAdmission (w_input_at stage False) id (w_world GS_Issued) (new_ledger None 0) = Inr (d, w', b')
        \<and> ai_grant (w_input_at stage False) = ObjectRef 0 \<and> gw_heap (w_world GS_Issued) 0 = Some w_grant
        \<and> ai_stage (w_input_at stage False) = stage \<and> ao_allowed d)"
proof -
  obtain d w' b' where "evaluateProductionAdmission (w_input_at stage False) id (w_world GS_Issued) (new_ledger None 0) = Inr (d, w', b')"
      "ao_allowed d" using w_allowed by blast
  moreover have "ai_stage (w_input_at stage False) = stage" by (simp add: w_input_at_def)
  ultimately show ?thesis by (auto simp: w_grant_def w_world_def)
qed

theorem production_allow_rests_on_every_gate_witness:
  "\<exists>d w' b'. evaluateProductionAdmission (w_input_at Stage_PQ False) id (w_world GS_Issued) (new_ledger None 0) = Inr (d, w', b')
     \<and> ao_allowed d \<and> \<not> grant_issued w' 0 \<and> lg_outstanding b' \<noteq> []"
proof -
  obtain d w' b' where run: "evaluateProductionAdmission (w_input_at Stage_PQ False) id (w_world GS_Issued) (new_ledger None 0) = Inr (d, w', b')"
      and ok: "ao_allowed d" using w_allowed by blast
  then show ?thesis using production_allow_rests_on_every_gate [OF run ok new_ledger_wf] run ok by auto
qed

theorem production_denial_shape_witness:
  "\<exists>d w' b' g. evaluateProductionAdmission (w_input_at Stage_PQ True) id (w_world GS_Issued) (new_ledger None 0) = Inr (d, w', b')
     \<and> ao_deniedAtGate d = Some g \<and> PD_KILL_SWITCH_ENGAGED_BEFORE_DISPATCH \<in> set (GATE_DENIAL_CODES g)"
proof -
  obtain d w' b' where run: "evaluateProductionAdmission (w_input_at Stage_PQ True) id (w_world GS_Issued) (new_ledger None 0) = Inr (d, w', b')"
      and no: "\<not> ao_allowed d" and code: "ao_denialCode d = Some PD_KILL_SWITCH_ENGAGED_BEFORE_DISPATCH" using w_denied by blast
  show ?thesis using production_denial_shape [OF run no] run code by auto
qed

theorem production_denial_leaves_no_slot_witness:
  "\<exists>d w' b'. evaluateProductionAdmission (w_input_at Stage_PQ True) id (w_world GS_Issued) (new_ledger None 0) = Inr (d, w', b')
     \<and> \<not> ao_allowed d \<and> lg_outstanding b' = [] \<and> lg_inFlight b' = 0"
proof -
  obtain d w' b' where run: "evaluateProductionAdmission (w_input_at Stage_PQ True) id (w_world GS_Issued) (new_ledger None 0) = Inr (d, w', b')"
      and no: "\<not> ao_allowed d" using w_denied by blast
  have "lg_outstanding (new_ledger None 0) = []" "lg_inFlight (new_ledger None 0) = 0" by (simp_all add: new_ledger_def)
  then show ?thesis using production_denial_leaves_no_slot [OF run no new_ledger_wf] run no by auto
qed

theorem production_chain_answers_witness:
  "\<exists>d w' b'. evaluateProductionAdmission (w_input_at Stage_PQ True) id empty_world (new_ledger None 0) = Inr (d, w', b')
     \<and> length (ao_outcomes d) = 18"
  by (rule production_chain_answers)
     (simp_all add: w_input_at_def w_intent_def budget_key_ok_def is_alnum_def is_lower_letter_def code_unit_def)

end
