(* ===== verification/Exploration_Types.thy ===== *)
theory Exploration_Types imports Prelude begin

text \<open>
  The data of the bounded explorer, \<open>src/core/exploration/types.ts\<close>. A closed string union
  stays a string where the code compares it with literals only, and becomes a datatype where it is
  a result of the code (\<open>ExplorationTerminationReason\<close>, the exclusion reasons, the replay status).
  An object used as a dictionary is an association list with distinct keys; limits are integers.
  \<open>safe_action\<close> holds the part of \<open>SafeAction\<close> the failure minimizer reads,
  \<open>explore_action\<close> extends it by the rest.
\<close>

section \<open>Actions\<close>

record safe_action =
  sfa_actionId :: string
  sfa_status :: string
  sfa_semanticClass :: string
  sfa_persistedPreferenceEffect :: string
  sfa_routeEffect :: string
  sfa_expectedRouteClass :: string
  sfa_routeClasses :: "string list"

record safety_vector =
  sv_productionAttempts :: nat
  sv_proxyViolations :: nat
  sv_unknownDestinations :: nat
  sv_unknownApprovals :: nat
  sv_knownMutations :: nat
  sv_actionCausedUnknown :: nat
  sv_dbQueries :: nat

datatype scalar = S_Str string | S_Num rat | S_Bool bool

type_synonym scalar_map = "(string \<times> scalar) list"
type_synonym flag_map = "(string \<times> bool) list"

record provenance =
  pv_repository :: string
  pv_file :: string
  pv_symbol :: string
  pv_sourceSha :: string
  pv_trackingRef :: string
  pv_freshness :: string

datatype locator =
    Selector_Option (lo_surface: string) (lo_labels: "string list") (lo_value: string) (lo_options: "string list")
  | Vendor_Tab (lo_surface: string) (lo_value: string) (lo_options: "string list")
  | Column_Header (lo_surface: string) (lo_labels: "string list") (lo_column: string)
  | Approved_Route (lo_route: string)

record explore_action = safe_action +
  xa_product :: string
  xa_anchorJourney :: string
  xa_surface :: string
  xa_control :: string
  xa_sourceProvenance :: "provenance list"
  xa_actionKind :: string
  xa_requiredStructuralFlags :: "flag_map option"
  xa_requiredSafeViewState :: "scalar_map option"
  xa_forbiddenSafeViewState :: "scalar_map option"
  xa_locator :: locator
  xa_expectedStructuralDelta :: scalar_map
  xa_expectedReadFamilies :: "string list"
  xa_forbiddenRequestFamilies :: "string list"
  xa_analyticsEffect :: string
  xa_privacyPolicy :: string
  xa_replayPolicy :: string

section \<open>States and results\<close>

record state_input =
  si_product :: string
  si_surface :: string
  si_routeClass :: string
  si_structuralFlags :: flag_map
  si_safeViewState :: scalar_map
  si_availableActionIds :: "string list"
  si_semanticReadFamilies :: "string list"
  si_authStateClass :: string
  si_terminalFlags :: flag_map

record exploration_state = state_input +
  xs_schemaVersion :: string
  xs_stateId :: string

record network_observation =
  no_family :: string
  no_classification :: string
  no_disposition :: string
  no_hostClass :: string

record action_result =
  ar_status :: string
  ar_nextState :: state_input
  ar_routeDelta :: scalar_map
  ar_structuralDelta :: scalar_map
  ar_semanticRequestDelta :: "network_observation list"
  ar_oracleResults :: "string list"
  ar_safety :: safety_vector
  ar_durationClass :: string
  ar_failureCode :: "string option"

section \<open>Limits\<close>

record envelope =
  en_envelopeId :: string
  en_anchorJourney :: string
  en_allowedRoutes :: "string list"
  en_allowedActionIds :: "string list"
  en_expectedReadFamilies :: "string list"
  en_forbiddenRequestFamilies :: "string list"
  en_maxActionsPerSequence :: int
  en_maxDepth :: int
  en_maxStates :: int
  en_maxTransitions :: int
  en_maxStateVisits :: int
  en_maxTransitionVisits :: int
  en_maxImmediateBacktracks :: int
  en_maxRouteChanges :: int

record exploration_budget =
  xb_policyVersion :: string
  xb_maxActionsPerSequence :: int
  xb_maxDepth :: int
  xb_maxStates :: int
  xb_maxTransitions :: int
  xb_maxRouteChanges :: int
  xb_maxRuntimeMs :: int
  xb_maxRealContexts :: int
  xb_maxSeeds :: int

section \<open>Decisions, transitions and outcomes\<close>

datatype exclusion_reason = PRECONDITION_FALSE | ACTION_ALREADY_EXHAUSTED | MAX_VISITS_REACHED | ROUTE_NOT_APPROVED
  | RUNTIME_CONTROL_ABSENT | SEMANTIC_POLICY_BLOCK | NEW_HOST_BLOCK | UNKNOWN_ACTION_EFFECT | STALE_SOURCE | BUDGET_LIMIT

record planner_decision =
  pd_index :: nat
  pd_stateId :: string
  pd_eligibleActions :: "string list"
  pd_excludedActions :: "(string \<times> exclusion_reason) list"
  pd_rngDrawIndex :: nat
  pd_rngDraw :: string
  pd_chosenAction :: "string option"
  pd_budgetRemaining :: int

datatype verification = Source_Allowed | Runtime_Observed | Blocked | Invalidated

record transition_input =
  tr_fromStateId :: string
  tr_actionId :: string
  tr_seedDecisionIndex :: nat
  tr_toStateId :: string
  tr_actionOutcome :: string
  tr_routeDelta :: scalar_map
  tr_structuralDelta :: scalar_map
  tr_semanticRequestDelta :: "network_observation list"
  tr_oracleResults :: "string list"
  tr_safetyResult :: safety_vector
  tr_durationClass :: string
  tr_verification :: verification

record exploration_transition = transition_input +
  tr_schemaVersion :: string
  tr_transitionId :: string

datatype termination_reason = Term_BUDGET_EXHAUSTED | Term_SAFE_FRONTIER_EXHAUSTED | Term_MODEL_TERMINAL_STATE
  | Term_AUTH_INVALID | Term_SAFETY_BLOCK | Term_ACTION_CAUSED_UNKNOWN | Term_KNOWN_MUTATION_DETECTED
  | Term_NEW_HOST_BLOCKED | Term_UNEXPECTED_ROUTE_ESCAPE | Term_FATAL_ORACLE | Term_RUNTIME_FAILURE
  | Term_REPLAY_DIVERGENCE | Term_RUN_INCOMPLETE

datatype replay_match = STRICT_MATCH | REPLAY_PRECONDITION_DIVERGENCE | INVARIANT_DIVERGENCE | REPLAY_SAFETY_BLOCK

record exact_replay =
  xr_status :: replay_match
  xr_observedActions :: "string list"
  xr_stateIds :: "string list"
  xr_transitionIds :: "string list"
  xr_firstDivergentIndex :: "nat option"
  xr_terminationReason :: "termination_reason option"

text \<open>\<open>src/core/exploration/acceptance.ts\<close>: the terminations that count as success.\<close>

definition PHASE4_SUCCESS_TERMINATION_REASONS :: "termination_reason list" where
  "PHASE4_SUCCESS_TERMINATION_REASONS = [Term_BUDGET_EXHAUSTED, Term_SAFE_FRONTIER_EXHAUSTED, Term_MODEL_TERMINAL_STATE]"

definition isSuccessfulPhase4Termination :: "termination_reason \<Rightarrow> bool" where
  "isSuccessfulPhase4Termination r = (r \<in> set PHASE4_SUCCESS_TERMINATION_REASONS)"

end
