(* ===== verification/Minimizer.thy ===== *)
theory Minimizer imports Exploration_Types "HOL-Library.While_Combinator" "HOL-Library.Sublist" begin

text \<open>
  The failure minimizer, \<open>src/core/triage/minimizer.ts\<close>, with the shared outcome rule of
  \<open>executorNormalization.ts\<close> and the data of \<open>types.ts\<close>. The replay callback is a parameter
  that may answer differently at every call: it gets the number of replays made so far, the
  phase and the actions, and throws (\<open>None\<close>) or returns an outcome. The two \<open>while\<close> loops
  are \<open>while_option\<close>, so that not returning would be a value; counters are natural numbers and
  the budget's limits are integers.
\<close>

section \<open>Data\<close>

record min_action =
  ma_actionId :: string
  ma_semanticClass :: string
  ma_routeClass :: string
  ma_sourceApproved :: bool
  ma_catalogVersion :: string
  ma_preconditionKey :: "string option"

record min_budget =
  mb_maxCandidateEvaluations :: int
  mb_maxTotalReplays :: int

record safety_contract =
  sk_devOnly :: bool
  sk_authValid :: bool
  sk_outboundPolicySatisfied :: bool
  sk_safeActionCatalogSatisfied :: bool
  sk_semanticReadOnly :: bool
  sk_mutationTripwireZero :: bool
  sk_unknownTripwireZero :: bool
  sk_routeEnvelopeSatisfied :: bool
  sk_privacySatisfied :: bool

datatype guard_reason = ACTION_NOT_IN_ORIGINAL | ACTION_NOT_APPROVED | PRECONDITION_DIVERGENCE | DEV_GATE_FAILED
  | AUTH_GATE_FAILED | OUTBOUND_POLICY_FAILED | SEMANTIC_POLICY_FAILED | MUTATION_TRIPWIRE | UNKNOWN_TRIPWIRE
  | ROUTE_ENVELOPE_FAILED | PRIVACY_POLICY_FAILED | SAFETY_VECTOR_NONZERO

datatype guard_result = Guard_Valid | Guard_Invalid "guard_reason option"

datatype replay_status = Replay_Failure | Replay_Pass | Replay_Invalid

datatype executor_failure = EXECUTOR_THROW | EXECUTOR_NONDETERMINISTIC

record replay_outcome =
  ro_status :: replay_status
  ro_anomalyFingerprint :: "string option"
  ro_semanticFindingFingerprint :: "string option"
  ro_semanticContractIdentity :: "string option"
  ro_safety :: safety_vector
  ro_invalidReason :: "guard_reason option"
  ro_executorFailure :: "executor_failure option"
  ro_routeClass :: "string option"

datatype replay_phase = FRESH_EXACT_REPLAY | REDUCED_CANDIDATE

datatype disposition = REPRODUCES | DOES_NOT_REPRODUCE | INVALID | NOT_EVALUATED_BUDGET

datatype eval_reason = BUDGET_EXHAUSTED | TOTAL_REPLAY_BUDGET_EXHAUSTED | Guard_Reason guard_reason
  | CANDIDATE_GUARD_FAILED | Executor_Failed executor_failure | EXACT_ANOMALY_FINGERPRINT_MATCH
  | DIFFERENT_OR_NO_FINGERPRINT | FAILURE_NOT_OBSERVED

record evaluation =
  ev_sequence :: "string list"
  ev_occurrenceOrdinals :: "nat list"
  ev_semanticFindingFingerprint :: "string option"
  ev_semanticContractIdentity :: "string option"
  ev_disposition :: disposition
  ev_reason :: eval_reason
  ev_fingerprintMatch :: bool

record min_options =
  mo_originalSequence :: "min_action list"
  mo_anomalyFingerprint :: string
  mo_sourceVersion :: string
  mo_catalogVersion :: string
  mo_approvedActionIds :: "string list option"
  mo_safeActionCatalog :: "safe_action list option"
  mo_safety :: "safety_contract option"
  mo_budget :: "min_budget option"
  mo_preconditionCheck :: "(min_action list \<Rightarrow> guard_result) option"
  mo_replay :: "nat \<Rightarrow> replay_phase \<Rightarrow> min_action list \<Rightarrow> replay_outcome option"

record occurrence =
  oc_index :: nat
  oc_action :: min_action

record evaluated =
  ed_occurrenceSequence :: "occurrence list"
  ed_outcome :: replay_outcome
  ed_evaluation :: evaluation

datatype evidence_class = MINIMALITY_PROVEN | MINIMALITY_NOT_PROVEN | NO_REDUCIBLE_CANDIDATE
  | REDUCTION_PRECONDITION_UNAVAILABLE

datatype min_status = MINIMIZED | UNCHANGED | NO_REPRODUCTION | BOUNDED_BUDGET_EXHAUSTED | INVALID_ORIGINAL

datatype guarantee = ONE_MINIMAL | BOUNDED_MINIMAL | NO_GUARANTEE

datatype fresh_result = FRESH_REPRODUCED | FRESH_NOT_REPRODUCED | FRESH_INVALID

datatype confidence = HIGH | MEDIUM | LOW | UNRESOLVED_CONFIDENCE

record min_result =
  mr_status :: min_status
  mr_originalSequence :: "string list"
  mr_minimalReproducingSequence :: "string list"
  mr_minimalOrdinals :: "nat list option"
  mr_removedActions :: "string list"
  mr_reproductionCount :: nat
  mr_anomalyFingerprint :: string
  mr_catalogVersion :: string
  mr_sourceVersion :: string
  mr_confidence :: confidence
  mr_minimalityGuarantee :: guarantee
  mr_reductionEvidenceClass :: evidence_class
  mr_budget :: min_budget
  mr_replayCount :: nat
  mr_candidateEvaluationCount :: nat
  mr_candidateEvaluations :: "evaluation list"
  mr_invalidCandidateCount :: nat
  mr_safetyRejectionCount :: nat
  mr_freshExactReplay :: fresh_result

datatype min_error = MINIMIZATION_BUDGET_INVALID | MINIMIZATION_ORIGINAL_SEQUENCE_EMPTY

definition REAL_DEV_MINIMIZATION_BUDGET :: min_budget where
  "REAL_DEV_MINIMIZATION_BUDGET = \<lparr>mb_maxCandidateEvaluations = 4, mb_maxTotalReplays = 5\<rparr>"

definition SYNTHETIC_MINIMIZATION_BUDGET :: min_budget where
  "SYNTHETIC_MINIMIZATION_BUDGET = \<lparr>mb_maxCandidateEvaluations = 64, mb_maxTotalReplays = 65\<rparr>"

definition PASSIVE_MINIMIZATION_SAFETY :: safety_contract where
  "PASSIVE_MINIMIZATION_SAFETY = \<lparr>sk_devOnly = True, sk_authValid = True, sk_outboundPolicySatisfied = True,
     sk_safeActionCatalogSatisfied = True, sk_semanticReadOnly = True, sk_mutationTripwireZero = True,
     sk_unknownTripwireZero = True, sk_routeEnvelopeSatisfied = True, sk_privacySatisfied = True\<rparr>"

definition ZERO_SAFETY :: safety_vector where
  "ZERO_SAFETY = \<lparr>sv_productionAttempts = 0, sv_proxyViolations = 0, sv_unknownDestinations = 0,
     sv_unknownApprovals = 0, sv_knownMutations = 0, sv_actionCausedUnknown = 0, sv_dbQueries = 0\<rparr>"

datatype safe_action_error = SAFE_ACTION_NOT_APPROVED string | SAFE_ACTION_SEMANTIC_UNSAFE string
  | SAFE_ACTION_SERVER_STATE string | SAFE_ACTION_ROUTE_UNSAFE string

definition minimizationActionFromSafeAction :: "safe_action \<Rightarrow> (safe_action_error, min_action) result" where
  "minimizationActionFromSafeAction a =
     (if sfa_status a \<noteq> ''APPROVED'' then Inl (SAFE_ACTION_NOT_APPROVED (sfa_actionId a))
      else if sfa_semanticClass a \<noteq> ''KNOWN_READ'' \<and> sfa_semanticClass a \<noteq> ''LOCAL_ONLY''
        then Inl (SAFE_ACTION_SEMANTIC_UNSAFE (sfa_actionId a))
      else if sfa_persistedPreferenceEffect a = ''SERVER_STATE'' then Inl (SAFE_ACTION_SERVER_STATE (sfa_actionId a))
      else if sfa_routeEffect a \<noteq> ''UNCHANGED'' \<and> sfa_routeEffect a \<noteq> ''APPROVED_ROUTE''
        then Inl (SAFE_ACTION_ROUTE_UNSAFE (sfa_actionId a))
      else Inr \<lparr>ma_actionId = sfa_actionId a, ma_semanticClass = sfa_semanticClass a,
                ma_routeClass = sfa_expectedRouteClass a, ma_sourceApproved = True,
                ma_catalogVersion = ''nightwatch.safe-actions.phase4.v1'',
                ma_preconditionKey = Some (join_with ''|'' (sfa_routeClasses a))\<rparr>)"

section \<open>Guards\<close>

definition sequenceKey :: "occurrence list \<Rightarrow> string" where
  "sequenceKey s = join_with ''>'' (map (\<lambda>x. nat_to_dec (oc_index x) @ '':'' @ ma_actionId (oc_action x)) s)"

definition actionIds :: "occurrence list \<Rightarrow> string list" where
  "actionIds s = map (\<lambda>x. ma_actionId (oc_action x)) s"

definition occurrenceOrdinals :: "occurrence list \<Rightarrow> nat list" where
  "occurrenceOrdinals s = map oc_index s"

definition allZeroSafety :: "safety_vector \<Rightarrow> bool" where
  "allZeroSafety s = (sv_productionAttempts s = 0 \<and> sv_proxyViolations s = 0 \<and> sv_unknownDestinations s = 0
     \<and> sv_unknownApprovals s = 0 \<and> sv_knownMutations s = 0 \<and> sv_actionCausedUnknown s = 0 \<and> sv_dbQueries s = 0)"

definition safeGuardFromContract :: "safety_contract \<Rightarrow> guard_result" where
  "safeGuardFromContract c =
     (if \<not> sk_devOnly c then Guard_Invalid (Some DEV_GATE_FAILED)
      else if \<not> sk_authValid c then Guard_Invalid (Some AUTH_GATE_FAILED)
      else if \<not> sk_outboundPolicySatisfied c then Guard_Invalid (Some OUTBOUND_POLICY_FAILED)
      else if \<not> sk_safeActionCatalogSatisfied c then Guard_Invalid (Some ACTION_NOT_APPROVED)
      else if \<not> sk_semanticReadOnly c then Guard_Invalid (Some SEMANTIC_POLICY_FAILED)
      else if \<not> sk_mutationTripwireZero c then Guard_Invalid (Some MUTATION_TRIPWIRE)
      else if \<not> sk_unknownTripwireZero c then Guard_Invalid (Some UNKNOWN_TRIPWIRE)
      else if \<not> sk_routeEnvelopeSatisfied c then Guard_Invalid (Some ROUTE_ENVELOPE_FAILED)
      else if \<not> sk_privacySatisfied c then Guard_Invalid (Some PRIVACY_POLICY_FAILED)
      else Guard_Valid)"

definition action_id_ok :: "string \<Rightarrow> bool" where
  "action_id_ok s = (1 \<le> length s \<and> length s \<le> 120 \<and> (\<forall>c\<in>set s. is_alnum c \<or> c \<in> set ''_.-''))"

definition route_class_ok :: "string \<Rightarrow> bool" where
  "route_class_ok s = (s \<noteq> [] \<and> hd s = CHR ''/''
     \<and> (\<forall>c\<in>set (tl s). is_alnum c \<or> c \<in> set ''._~!$&()*+,;=:@%/-'' \<or> c = CHR 0x27))"

definition validateActionCatalog ::
  "min_action \<Rightarrow> string list \<Rightarrow> (string \<times> safe_action) list \<Rightarrow> guard_result" where
  "validateActionCatalog a approvedIds safeActions =
     (if ma_actionId a \<notin> set approvedIds then Guard_Invalid (Some ACTION_NOT_APPROVED)
      else if (case map_get safeActions (ma_actionId a) of None \<Rightarrow> False | Some s \<Rightarrow> sfa_status s \<noteq> ''APPROVED'')
        then Guard_Invalid (Some ACTION_NOT_APPROVED)
      else if \<not> ma_sourceApproved a \<or> (ma_semanticClass a \<noteq> ''KNOWN_READ'' \<and> ma_semanticClass a \<noteq> ''LOCAL_ONLY'')
        then Guard_Invalid (Some ACTION_NOT_APPROVED)
      else if \<not> action_id_ok (ma_actionId a) then Guard_Invalid (Some ACTION_NOT_APPROVED)
      else if \<not> route_class_ok (ma_routeClass a) then Guard_Invalid (Some ROUTE_ENVELOPE_FAILED)
      else Guard_Valid)"

text \<open>The values the body of \<open>minimizeFailure\<close> closes over.\<close>

record min_context =
  mc_options :: min_options
  mc_budget :: min_budget
  mc_originalIds :: "string list"
  mc_approvedIds :: "string list"
  mc_safeActions :: "(string \<times> safe_action) list"
  mc_safety :: safety_contract

fun guard_items :: "min_context \<Rightarrow> occurrence list \<Rightarrow> guard_result" where
  "guard_items c [] = Guard_Valid"
| "guard_items c (o1 # os) =
     (if ma_actionId (oc_action o1) \<notin> set (mc_originalIds c) then Guard_Invalid (Some ACTION_NOT_IN_ORIGINAL)
      else case validateActionCatalog (oc_action o1) (mc_approvedIds c) (mc_safeActions c) of
             Guard_Invalid r \<Rightarrow> Guard_Invalid r
           | Guard_Valid \<Rightarrow> guard_items c os)"

definition guardSequence :: "min_context \<Rightarrow> occurrence list \<Rightarrow> guard_result" where
  "guardSequence c s =
     (case safeGuardFromContract (mc_safety c) of
        Guard_Invalid r \<Rightarrow> Guard_Invalid r
      | Guard_Valid \<Rightarrow>
          (case guard_items c s of
             Guard_Invalid r \<Rightarrow> Guard_Invalid r
           | Guard_Valid \<Rightarrow>
               (case mo_preconditionCheck (mc_options c) of
                  None \<Rightarrow> Guard_Valid
                | Some check \<Rightarrow> check (map oc_action s))))"

section \<open>Chunks\<close>

fun chunks_from :: "nat \<Rightarrow> nat \<Rightarrow> nat \<Rightarrow> 'a list \<Rightarrow> 'a list list" where
  "chunks_from 0 base remainder xs = []"
| "chunks_from (Suc k) base remainder xs =
     (let size = base + (if 0 < remainder then 1 else 0)
      in take size xs # chunks_from k base (remainder - 1) (drop size xs))"

definition splitIntoChunks :: "'a list \<Rightarrow> nat \<Rightarrow> 'a list list" where
  "splitIntoChunks items n =
     (let actual = max 1 (min n (length items))
      in chunks_from actual (length items div actual) (length items mod actual) items)"

definition withoutChunk :: "'a list \<Rightarrow> 'a list \<Rightarrow> 'a list" where
  "withoutChunk items chunk = filter (\<lambda>x. x \<notin> set chunk) items"

definition remove_position :: "nat \<Rightarrow> 'a list \<Rightarrow> 'a list" where
  "remove_position i xs = take i xs @ drop (Suc i) xs"

section \<open>Outcomes\<close>

definition normalizeExecutorOutcome :: "replay_outcome \<Rightarrow> string \<Rightarrow> replay_outcome" where
  "normalizeExecutorOutcome r target =
     (if ro_status r = Replay_Failure \<and> ro_anomalyFingerprint r \<noteq> None \<and> ro_anomalyFingerprint r \<noteq> Some target
      then \<lparr>ro_status = Replay_Pass, ro_anomalyFingerprint = None,
            ro_semanticFindingFingerprint = ro_semanticFindingFingerprint r,
            ro_semanticContractIdentity = ro_semanticContractIdentity r, ro_safety = ro_safety r,
            ro_invalidReason = None, ro_executorFailure = None, ro_routeClass = ro_routeClass r\<rparr>
      else r)"

definition outcomeReason :: "replay_outcome \<Rightarrow> string \<Rightarrow> disposition \<times> eval_reason \<times> bool" where
  "outcomeReason r target =
     (case ro_executorFailure r of
        Some f \<Rightarrow> (INVALID, Executor_Failed f, False)
      | None \<Rightarrow>
          if ro_status r = Replay_Invalid
            then (INVALID, Guard_Reason (case ro_invalidReason r of None \<Rightarrow> PRECONDITION_DIVERGENCE | Some g \<Rightarrow> g), False)
          else if \<not> allZeroSafety (ro_safety r) then (INVALID, Guard_Reason SAFETY_VECTOR_NONZERO, False)
          else if ro_status r = Replay_Failure \<and> ro_anomalyFingerprint r = Some target
            then (REPRODUCES, EXACT_ANOMALY_FINGERPRINT_MATCH, True)
          else (DOES_NOT_REPRODUCE,
                if ro_status r = Replay_Failure then DIFFERENT_OR_NO_FINGERPRINT else FAILURE_NOT_OBSERVED, False))"

definition confidenceFor :: "bool \<Rightarrow> nat \<Rightarrow> guarantee \<Rightarrow> bool \<Rightarrow> confidence" where
  "confidenceFor fresh reproductionCount g budgetExhausted =
     (if \<not> fresh \<or> reproductionCount = 0 then UNRESOLVED_CONFIDENCE
      else if \<not> budgetExhausted \<and> g = ONE_MINIMAL \<and> 2 \<le> reproductionCount then HIGH
      else if \<not> budgetExhausted then MEDIUM
      else LOW)"

definition removedActionIds :: "occurrence list \<Rightarrow> occurrence list \<Rightarrow> string list" where
  "removedActionIds original minimal = actionIds (filter (\<lambda>x. x \<notin> set minimal) original)"

section \<open>Evaluating a candidate\<close>

text \<open>The local variables of \<open>minimizeFailure\<close> that \<open>evaluate\<close> reads and writes.\<close>

record min_state =
  ms_replayCount :: nat
  ms_candidateEvaluations :: nat
  ms_invalidCandidateCount :: nat
  ms_safetyRejectionCount :: nat
  ms_reproductionCount :: nat
  ms_reducedReplayInvocations :: nat
  ms_evaluations :: "evaluation list"
  ms_cache :: "(string \<times> evaluated) list"

definition initial_min_state :: min_state where
  "initial_min_state = \<lparr>ms_replayCount = 0, ms_candidateEvaluations = 0, ms_invalidCandidateCount = 0,
     ms_safetyRejectionCount = 0, ms_reproductionCount = 0, ms_reducedReplayInvocations = 0, ms_evaluations = [], ms_cache = []\<rparr>"

definition invalid_outcome :: "guard_reason option \<Rightarrow> executor_failure option \<Rightarrow> replay_outcome" where
  "invalid_outcome r f = \<lparr>ro_status = Replay_Invalid, ro_anomalyFingerprint = None, ro_semanticFindingFingerprint = None,
     ro_semanticContractIdentity = None, ro_safety = ZERO_SAFETY, ro_invalidReason = r, ro_executorFailure = f, ro_routeClass = None\<rparr>"

definition plain_evaluation :: "occurrence list \<Rightarrow> disposition \<Rightarrow> eval_reason \<Rightarrow> evaluation" where
  "plain_evaluation s d r = \<lparr>ev_sequence = actionIds s, ev_occurrenceOrdinals = occurrenceOrdinals s,
     ev_semanticFindingFingerprint = None, ev_semanticContractIdentity = None, ev_disposition = d, ev_reason = r,
     ev_fingerprintMatch = False\<rparr>"

definition skip_candidate :: "occurrence list \<Rightarrow> eval_reason \<Rightarrow> min_state \<Rightarrow> evaluated \<times> min_state" where
  "skip_candidate cand r st =
     (let e = plain_evaluation cand NOT_EVALUATED_BUDGET r
      in (\<lparr>ed_occurrenceSequence = cand, ed_outcome = invalid_outcome (Some PRECONDITION_DIVERGENCE) None, ed_evaluation = e\<rparr>,
          st\<lparr>ms_evaluations := ms_evaluations st @ [e]\<rparr>))"

definition record_evaluated :: "evaluated \<Rightarrow> min_state \<Rightarrow> evaluated \<times> min_state" where
  "record_evaluated ed st =
     (ed, st\<lparr>ms_cache := map_set (ms_cache st) (sequenceKey (ed_occurrenceSequence ed)) ed,
             ms_evaluations := ms_evaluations st @ [ed_evaluation ed]\<rparr>)"

definition reject_candidate ::
  "occurrence list \<Rightarrow> replay_phase \<Rightarrow> guard_reason option \<Rightarrow> min_state \<Rightarrow> evaluated \<times> min_state" where
  "reject_candidate cand phase r st =
     (let n = (if phase = REDUCED_CANDIDATE then 1 else 0)
      in record_evaluated
           \<lparr>ed_occurrenceSequence = cand, ed_outcome = invalid_outcome r None,
            ed_evaluation = plain_evaluation cand INVALID (case r of None \<Rightarrow> CANDIDATE_GUARD_FAILED | Some g \<Rightarrow> Guard_Reason g)\<rparr>
           (st\<lparr>ms_candidateEvaluations := ms_candidateEvaluations st + n,
               ms_invalidCandidateCount := ms_invalidCandidateCount st + n\<rparr>))"

definition replay_result :: "min_context \<Rightarrow> occurrence list \<Rightarrow> replay_phase \<Rightarrow> nat \<Rightarrow> replay_outcome" where
  "replay_result c cand phase n =
     normalizeExecutorOutcome
       (case mo_replay (mc_options c) n phase (map oc_action cand) of
          None \<Rightarrow> invalid_outcome None (Some EXECUTOR_THROW)
        | Some r \<Rightarrow> r)
       (mo_anomalyFingerprint (mc_options c))"

definition replay_evaluated :: "min_context \<Rightarrow> occurrence list \<Rightarrow> replay_outcome \<Rightarrow> evaluated" where
  "replay_evaluated c cand outcome =
     (case outcomeReason outcome (mo_anomalyFingerprint (mc_options c)) of
        (d, why, hit) \<Rightarrow>
          \<lparr>ed_occurrenceSequence = cand, ed_outcome = outcome,
           ed_evaluation = \<lparr>ev_sequence = actionIds cand, ev_occurrenceOrdinals = occurrenceOrdinals cand,
             ev_semanticFindingFingerprint = ro_semanticFindingFingerprint outcome,
             ev_semanticContractIdentity = ro_semanticContractIdentity outcome,
             ev_disposition = d, ev_reason = why, ev_fingerprintMatch = hit\<rparr>\<rparr>)"

definition count_replay :: "replay_phase \<Rightarrow> evaluated \<Rightarrow> min_state \<Rightarrow> min_state" where
  "count_replay phase ed st =
     (let d = ev_disposition (ed_evaluation ed); n = (if phase = REDUCED_CANDIDATE then 1 else 0)
      in st\<lparr>ms_replayCount := ms_replayCount st + 1,
            ms_reducedReplayInvocations := ms_reducedReplayInvocations st + n,
            ms_safetyRejectionCount := ms_safetyRejectionCount st
              + (if ro_status (ed_outcome ed) \<noteq> Replay_Invalid \<and> \<not> allZeroSafety (ro_safety (ed_outcome ed)) then 1 else 0),
            ms_invalidCandidateCount := ms_invalidCandidateCount st + (if d = INVALID then n else 0),
            ms_reproductionCount := ms_reproductionCount st + (if d = REPRODUCES then 1 else 0)\<rparr>)"

definition replay_candidate ::
  "min_context \<Rightarrow> occurrence list \<Rightarrow> replay_phase \<Rightarrow> min_state \<Rightarrow> evaluated \<times> min_state" where
  "replay_candidate c cand phase st =
     (let ed = replay_evaluated c cand (replay_result c cand phase (ms_replayCount st))
      in record_evaluated ed (count_replay phase ed st))"

definition evaluate ::
  "min_context \<Rightarrow> occurrence list \<Rightarrow> replay_phase \<Rightarrow> min_state \<Rightarrow> evaluated \<times> min_state" where
  "evaluate c cand phase st =
     (case map_get (ms_cache st) (sequenceKey cand) of
        Some ed \<Rightarrow> (ed, st)
      | None \<Rightarrow>
          if phase = REDUCED_CANDIDATE \<and> mb_maxCandidateEvaluations (mc_budget c) \<le> int (ms_candidateEvaluations st)
            then skip_candidate cand BUDGET_EXHAUSTED st
          else case guardSequence c cand of
            Guard_Invalid r \<Rightarrow> reject_candidate cand phase r st
          | Guard_Valid \<Rightarrow>
              let st1 = st\<lparr>ms_candidateEvaluations := ms_candidateEvaluations st + (if phase = REDUCED_CANDIDATE then 1 else 0)\<rparr>
              in if mb_maxTotalReplays (mc_budget c) \<le> int (ms_replayCount st1)
                 then skip_candidate cand TOTAL_REPLAY_BUDGET_EXHAUSTED st1
                 else replay_candidate c cand phase st1)"

section \<open>Reduction\<close>

record loop_state =
  ls_current :: "occurrence list"
  ls_granularity :: nat
  ls_budgetExhausted :: bool
  ls_reduced :: bool
  ls_stop :: bool
  ls_state :: min_state

datatype chunk_result = No_Chunk | Chunk_Budget | Chunk_Accepted "occurrence list"

fun try_chunks ::
  "min_context \<Rightarrow> occurrence list \<Rightarrow> occurrence list list \<Rightarrow> min_state \<Rightarrow> chunk_result \<times> min_state" where
  "try_chunks c current [] st = (No_Chunk, st)"
| "try_chunks c current (chunk # chunks) st =
     (let cand = withoutChunk current chunk
      in if cand = [] then try_chunks c current chunks st
         else case evaluate c cand REDUCED_CANDIDATE st of
           (ed, st') \<Rightarrow>
             (case ev_disposition (ed_evaluation ed) of
                NOT_EVALUATED_BUDGET \<Rightarrow> (Chunk_Budget, st')
              | REPRODUCES \<Rightarrow> (Chunk_Accepted cand, st')
              | _ \<Rightarrow> try_chunks c current chunks st'))"

definition reduce_going :: "loop_state \<Rightarrow> bool" where
  "reduce_going s = (1 < length (ls_current s) \<and> \<not> ls_budgetExhausted s \<and> \<not> ls_stop s)"

definition reduce_step :: "min_context \<Rightarrow> loop_state \<Rightarrow> loop_state" where
  "reduce_step c s =
     (case try_chunks c (ls_current s) (splitIntoChunks (ls_current s) (ls_granularity s)) (ls_state s) of
        (Chunk_Budget, st) \<Rightarrow> s\<lparr>ls_budgetExhausted := True, ls_state := st\<rparr>
      | (Chunk_Accepted cand, st) \<Rightarrow>
          s\<lparr>ls_current := cand, ls_granularity := max 2 (ls_granularity s - 1), ls_reduced := True, ls_state := st\<rparr>
      | (No_Chunk, st) \<Rightarrow>
          if length (ls_current s) \<le> ls_granularity s then s\<lparr>ls_stop := True, ls_state := st\<rparr>
          else s\<lparr>ls_granularity := min (length (ls_current s)) (ls_granularity s * 2), ls_state := st\<rparr>)"

section \<open>Audit\<close>

record audit_state =
  as_current :: "occurrence list"
  as_budgetExhausted :: bool
  as_reduced :: bool
  as_changed :: bool
  as_dispositions :: "disposition list"
  as_state :: min_state

fun audit_pass ::
  "min_context \<Rightarrow> occurrence list \<Rightarrow> nat list \<Rightarrow> disposition list \<Rightarrow> min_state
     \<Rightarrow> chunk_result \<times> disposition list \<times> min_state" where
  "audit_pass c current [] ds st = (No_Chunk, ds, st)"
| "audit_pass c current (i # is) ds st =
     (let cand = remove_position i current
      in case evaluate c cand REDUCED_CANDIDATE st of
           (ed, st') \<Rightarrow>
             let d = ev_disposition (ed_evaluation ed)
             in if d = NOT_EVALUATED_BUDGET then (Chunk_Budget, ds @ [d], st')
                else if d = REPRODUCES then (Chunk_Accepted cand, ds @ [d], st')
                else audit_pass c current is (ds @ [d]) st')"

definition audit_going :: "audit_state \<Rightarrow> bool" where
  "audit_going s = (as_changed s \<and> \<not> as_budgetExhausted s \<and> 1 < length (as_current s))"

definition audit_step :: "min_context \<Rightarrow> audit_state \<Rightarrow> audit_state" where
  "audit_step c s =
     (case audit_pass c (as_current s) [0..<length (as_current s)] [] (as_state s) of
        (Chunk_Budget, ds, st) \<Rightarrow> s\<lparr>as_changed := False, as_dispositions := ds, as_budgetExhausted := True, as_state := st\<rparr>
      | (Chunk_Accepted cand, ds, st) \<Rightarrow>
          s\<lparr>as_changed := True, as_dispositions := ds, as_current := cand, as_reduced := True, as_state := st\<rparr>
      | (No_Chunk, ds, st) \<Rightarrow> s\<lparr>as_changed := False, as_dispositions := ds, as_state := st\<rparr>)"

section \<open>The minimizer\<close>

definition classifyReductionEvidence ::
  "bool \<Rightarrow> nat \<Rightarrow> nat \<Rightarrow> bool \<Rightarrow> bool \<Rightarrow> bool \<Rightarrow> bool \<Rightarrow> nat \<Rightarrow> evidence_class" where
  "classifyReductionEvidence freshReproduced originalLength finalLength budgetExhausted genuineNonRepro invalidCandidate
     fullyExercised exercisedCount =
     (if \<not> freshReproduced then NO_REDUCIBLE_CANDIDATE
      else if budgetExhausted then MINIMALITY_NOT_PROVEN
      else if originalLength = 1 \<or> finalLength = 1 then NO_REDUCIBLE_CANDIDATE
      else if genuineNonRepro then
        (if \<not> fullyExercised then MINIMALITY_NOT_PROVEN
         else if exercisedCount < 1 then MINIMALITY_NOT_PROVEN
         else MINIMALITY_PROVEN)
      else if invalidCandidate then REDUCTION_PRECONDITION_UNAVAILABLE
      else MINIMALITY_NOT_PROVEN)"

definition resultBase ::
  "min_context \<Rightarrow> occurrence list \<Rightarrow> occurrence list \<Rightarrow> min_state \<Rightarrow> nat \<Rightarrow> fresh_result \<Rightarrow> guarantee \<Rightarrow> bool
     \<Rightarrow> min_status \<Rightarrow> evidence_class \<Rightarrow> min_result" where
  "resultBase c original minimal st invalidCount fresh g budgetExhausted status evidence =
     (let reproduced = (fresh = FRESH_REPRODUCED)
      in \<lparr>mr_status = status, mr_originalSequence = actionIds original,
          mr_minimalReproducingSequence = (if reproduced then actionIds minimal else []),
          mr_minimalOrdinals = (if reproduced then Some (occurrenceOrdinals minimal) else None),
          mr_removedActions = (if reproduced then removedActionIds original minimal else []),
          mr_reproductionCount = ms_reproductionCount st,
          mr_anomalyFingerprint = mo_anomalyFingerprint (mc_options c),
          mr_catalogVersion = mo_catalogVersion (mc_options c), mr_sourceVersion = mo_sourceVersion (mc_options c),
          mr_confidence = confidenceFor reproduced (ms_reproductionCount st) g budgetExhausted,
          mr_minimalityGuarantee = (if reproduced then g else NO_GUARANTEE),
          mr_reductionEvidenceClass = evidence, mr_budget = mc_budget c, mr_replayCount = ms_replayCount st,
          mr_candidateEvaluationCount =
            length (filter (\<lambda>e. ev_disposition e \<noteq> NOT_EVALUATED_BUDGET) (ms_evaluations st))
              - (if ms_evaluations st = [] then 0 else 1),
          mr_candidateEvaluations = ms_evaluations st, mr_invalidCandidateCount = invalidCount,
          mr_safetyRejectionCount = ms_safetyRejectionCount st, mr_freshExactReplay = fresh\<rparr>)"

definition min_context_of :: "min_options \<Rightarrow> min_context" where
  "min_context_of opts =
     (let ids = map ma_actionId (mo_originalSequence opts)
      in \<lparr>mc_options = opts,
          mc_budget = (case mo_budget opts of None \<Rightarrow> REAL_DEV_MINIMIZATION_BUDGET | Some b \<Rightarrow> b),
          mc_originalIds = ids,
          mc_approvedIds = (case mo_approvedActionIds opts of None \<Rightarrow> ids | Some a \<Rightarrow> a),
          mc_safeActions = foldl (\<lambda>m a. map_set m (sfa_actionId a) a) []
            (case mo_safeActionCatalog opts of None \<Rightarrow> [] | Some a \<Rightarrow> a),
          mc_safety = (case mo_safety opts of None \<Rightarrow> PASSIVE_MINIMIZATION_SAFETY | Some s \<Rightarrow> s)\<rparr>)"

definition occurrences :: "min_action list \<Rightarrow> occurrence list" where
  "occurrences as = map (\<lambda>(i, a). \<lparr>oc_index = i, oc_action = a\<rparr>) (zip [0..<length as] as)"

text \<open>The part after the fresh replay, once both loops have ended.\<close>

definition conclude :: "min_context \<Rightarrow> occurrence list \<Rightarrow> audit_state \<Rightarrow> min_result" where
  "conclude c original a =
     (let current = as_current a; st = as_state a; reducedEvaluations = tl (ms_evaluations st);
          genuine = list_ex (\<lambda>e. ev_disposition e = DOES_NOT_REPRODUCE) reducedEvaluations;
          invalid = list_ex (\<lambda>e. ev_disposition e = INVALID) reducedEvaluations;
          fully = (length current = 1 \<or> (length (as_dispositions a) = length current
                     \<and> list_all (\<lambda>d. d = DOES_NOT_REPRODUCE) (as_dispositions a)));
          g = (if \<not> as_budgetExhausted a \<and> fully then ONE_MINIMAL else BOUNDED_MINIMAL);
          status = (if as_budgetExhausted a then BOUNDED_BUDGET_EXHAUSTED else if as_reduced a then MINIMIZED else UNCHANGED)
      in resultBase c original current st (ms_invalidCandidateCount st) FRESH_REPRODUCED g (as_budgetExhausted a) status
           (classifyReductionEvidence True (length original) (length current) (as_budgetExhausted a) genuine invalid fully
              (ms_reducedReplayInvocations st)))"

definition audit_of :: "loop_state \<Rightarrow> audit_state" where
  "audit_of s = \<lparr>as_current = ls_current s, as_budgetExhausted = ls_budgetExhausted s, as_reduced = ls_reduced s,
     as_changed = True, as_dispositions = [], as_state = ls_state s\<rparr>"

definition reduce_start :: "occurrence list \<Rightarrow> min_state \<Rightarrow> loop_state" where
  "reduce_start original st = \<lparr>ls_current = original, ls_granularity = min 2 (length original),
     ls_budgetExhausted = False, ls_reduced = False, ls_stop = False, ls_state = st\<rparr>"

text \<open>\<open>None\<close> in the right component: one of the loops does not end.\<close>

definition minimizeFailure :: "min_options \<Rightarrow> (min_error, min_result option) result" where
  "minimizeFailure opts =
     (let c = min_context_of opts; b = mc_budget c
      in if mb_maxCandidateEvaluations b < 0 \<or> mb_maxTotalReplays b < 1
            \<or> mb_maxTotalReplays b < mb_maxCandidateEvaluations b then Inl MINIMIZATION_BUDGET_INVALID
         else if mo_originalSequence opts = [] then Inl MINIMIZATION_ORIGINAL_SEQUENCE_EMPTY
         else let original = occurrences (mo_originalSequence opts)
              in Inr (if guardSequence c original \<noteq> Guard_Valid
                      then Some (resultBase c original original initial_min_state 1 FRESH_INVALID NO_GUARANTEE False
                                   INVALID_ORIGINAL REDUCTION_PRECONDITION_UNAVAILABLE)
                      else case evaluate c original FRESH_EXACT_REPLAY initial_min_state of
                        (fresh, st) \<Rightarrow>
                          (let d = ev_disposition (ed_evaluation fresh)
                           in if d \<noteq> REPRODUCES
                              then Some (resultBase c original original st (ms_invalidCandidateCount st)
                                     (if d = INVALID then FRESH_INVALID else FRESH_NOT_REPRODUCED) NO_GUARANTEE False
                                     NO_REPRODUCTION NO_REDUCIBLE_CANDIDATE)
                              else Option.bind (while_option reduce_going (reduce_step c) (reduce_start original st)) (\<lambda>s.
                                   map_option (conclude c original) (while_option audit_going (audit_step c) (audit_of s))))))"

end
