(* ===== verification/Minimizer_Properties.thy ===== *)
theory Minimizer_Properties imports Minimizer begin

text \<open>
  The minimizer ends, its result is a reproducing subsequence of the original, a claim of
  one-minimality rests on a replay of every one-step deletion, and the budget is respected.
\<close>

section \<open>Chunks\<close>

lemma chunks_from_concat:
  "length xs = k * base + remainder \<Longrightarrow> remainder \<le> k \<Longrightarrow> concat (chunks_from k base remainder xs) = xs"
proof (induction k base remainder xs rule: chunks_from.induct)
  case (2 k base remainder xs)
  let ?size = "base + (if 0 < remainder then 1 else 0)"
  have "length (drop ?size xs) = k * base + (remainder - 1)" "remainder - 1 \<le> k" using 2 by auto
  then have "concat (chunks_from k base (remainder - 1) (drop ?size xs)) = drop ?size xs"
    using "2.IH" [OF refl] by blast
  then show ?case by (simp add: Let_def)
qed simp

lemma chunks_from_nonempty:
  "length xs = k * base + remainder \<Longrightarrow> remainder \<le> k \<Longrightarrow> 0 < base \<Longrightarrow> \<forall>ch\<in>set (chunks_from k base remainder xs). ch \<noteq> []"
proof (induction k base remainder xs rule: chunks_from.induct)
  case (2 k base remainder xs)
  let ?size = "base + (if 0 < remainder then 1 else 0)"
  have "length (drop ?size xs) = k * base + (remainder - 1)" "remainder - 1 \<le> k" using 2 by auto
  then have "\<forall>ch\<in>set (chunks_from k base (remainder - 1) (drop ?size xs)). ch \<noteq> []"
    using "2.IH" [OF refl] "2.prems" by blast
  then show ?case using "2.prems" by (auto simp: Let_def)
qed simp

lemma splitIntoChunks_partition:
  assumes "xs \<noteq> []"
  shows "concat (splitIntoChunks xs n) = xs" and "\<forall>ch\<in>set (splitIntoChunks xs n). ch \<noteq> []"
proof -
  let ?k = "max 1 (min n (length xs))"
  have k: "0 < ?k" "?k \<le> length xs" using assms by (cases xs; simp)+
  have len: "length xs = ?k * (length xs div ?k) + length xs mod ?k" by simp
  have "length xs mod ?k \<le> ?k" using k by (simp add: less_imp_le)
  moreover have "0 < length xs div ?k" using k by (simp add: div_greater_zero_iff)
  ultimately show "concat (splitIntoChunks xs n) = xs" and "\<forall>ch\<in>set (splitIntoChunks xs n). ch \<noteq> []"
    using chunks_from_concat [OF len] chunks_from_nonempty [OF len] by (simp_all add: splitIntoChunks_def Let_def)
qed

lemma withoutChunk_shorter:
  assumes "xs \<noteq> []" and "ch \<in> set (splitIntoChunks xs n)"
  shows "subseq (withoutChunk xs ch) xs \<and> length (withoutChunk xs ch) < length xs"
proof -
  obtain x where "x \<in> set ch" using splitIntoChunks_partition(2) [OF assms(1)] assms(2) by (metis list.set_intros(1) neq_Nil_conv)
  moreover have "set ch \<subseteq> set xs" using splitIntoChunks_partition(1) [OF assms(1), of n] assms(2) by (metis UN_upper set_concat)
  ultimately have "x \<in> set xs" "x \<in> set ch" by auto
  then have "length (filter (\<lambda>y. y \<notin> set ch) xs) < length xs" by (intro length_filter_less) auto
  then show ?thesis by (simp add: withoutChunk_def)
qed

lemma remove_position_shorter:
  assumes "i < length xs"
  shows "subseq (remove_position i xs) xs \<and> length (remove_position i xs) = length xs - 1"
proof -
  have "subseq (drop (Suc i) xs) (xs ! i # drop (Suc i) xs)" by (rule list_emb_Cons) (rule subseq_order.refl)
  then have "subseq (drop (Suc i) xs) (drop i xs)" using assms by (simp add: Cons_nth_drop_Suc)
  then have "subseq (take i xs @ drop (Suc i) xs) (take i xs @ drop i xs)" by (simp only: subseq_append')
  then show ?thesis using assms by (simp add: remove_position_def)
qed

lemma subseq_set: "subseq a b \<Longrightarrow> set a \<subseteq> set b"
  by (induction rule: list_emb.induct) auto

section \<open>Keys of candidates\<close>

definition safe_occurrences :: "occurrence list \<Rightarrow> bool" where
  "safe_occurrences os = (inj_on oc_index (set os) \<and> (\<forall>x\<in>set os. CHR ''>'' \<notin> set (ma_actionId (oc_action x))))"

lemma sequenceKey_inj:
  assumes occs: "safe_occurrences os" and "subseq a os" and "subseq b os" and "sequenceKey a = sequenceKey b"
  shows "a = b"
proof -
  let ?p = "\<lambda>x. nat_to_dec (oc_index x) @ '':'' @ ma_actionId (oc_action x)"
  have sub: "set a \<subseteq> set os" "set b \<subseteq> set os" using assms(2,3) subseq_set by auto
  have clean: "\<forall>p\<in>set (map ?p s). CHR ''>'' \<notin> set p" if "set s \<subseteq> set os" for s
  proof -
    have "\<not> is_digit (CHR ''>'')" by (simp add: is_digit_def code_unit_def)
    then have digits: "CHR ''>'' \<notin> set (nat_to_dec n)" for n using nat_to_dec_digits by blast
    have "CHR ''>'' \<notin> set (ma_actionId (oc_action x))" if "x \<in> set s" for x
      using occs that \<open>set s \<subseteq> set os\<close> by (auto simp: safe_occurrences_def)
    then show ?thesis using digits by simp
  qed
  have empty: "join_with ''>'' ps = [] \<longleftrightarrow> ps = []" if "\<forall>p\<in>set ps. p \<noteq> []" for ps
    using that by (cases ps rule: remdups_adj.cases) auto
  have pieces: "map ?p a = map ?p b"
  proof (cases "a = []")
    case True
    then show ?thesis using assms(4) empty [of "map ?p b"] by (auto simp: sequenceKey_def)
  next
    case False
    then have "b \<noteq> []" using assms(4) empty [of "map ?p a"] by (auto simp: sequenceKey_def)
    have "map ?p a = split_on CHR ''>'' (join_with ''>'' (map ?p a))"
      using False by (intro split_join [symmetric] clean sub) simp
    also have "\<dots> = split_on CHR ''>'' (join_with ''>'' (map ?p b))" using assms(4) by (simp only: sequenceKey_def)
    also have "\<dots> = map ?p b" using \<open>b \<noteq> []\<close> by (intro split_join clean sub) simp
    finally show ?thesis .
  qed
  have idx: "takeWhile is_digit (?p x) = nat_to_dec (oc_index x)" for x
    using nat_to_dec_digits by (subst takeWhile_append2) (auto simp: is_digit_def code_unit_def)
  have "map (\<lambda>x. takeWhile is_digit (?p x)) a = map (\<lambda>x. takeWhile is_digit (?p x)) b"
    using arg_cong [OF pieces, of "map (takeWhile is_digit)"] by (simp only: map_map comp_def)
  then have "map (\<lambda>x. nat_to_dec (oc_index x)) a = map (\<lambda>x. nat_to_dec (oc_index x)) b" by (simp only: idx)
  then have "map (dec_value \<circ> (\<lambda>x. nat_to_dec (oc_index x))) a = map (dec_value \<circ> (\<lambda>x. nat_to_dec (oc_index x))) b"
    by (metis map_map)
  then have eq: "map oc_index a = map oc_index b" by (simp add: comp_def)
  have "inj_on oc_index (set a \<union> set b)" using occs sub by (auto simp: safe_occurrences_def intro: inj_on_subset)
  then show ?thesis using eq inj_on_map_eq_map by blast
qed

section \<open>Evaluations\<close>

text \<open>An evaluation that says whether the candidate reproduces rests on a replay of it.\<close>

definition replayed_as :: "min_context \<Rightarrow> nat \<Rightarrow> occurrence list \<Rightarrow> evaluation \<Rightarrow> bool" where
  "replayed_as c bound cand e =
     (\<exists>n<bound. \<exists>phase r. mo_replay (mc_options c) n phase (map oc_action cand) = Some r
        \<and> outcomeReason (normalizeExecutorOutcome r (mo_anomalyFingerprint (mc_options c)))
            (mo_anomalyFingerprint (mc_options c)) = (ev_disposition e, ev_reason e, ev_fingerprintMatch e))"

definition evaluation_of :: "occurrence list \<Rightarrow> evaluation \<Rightarrow> bool" where
  "evaluation_of cand e = (ev_occurrenceOrdinals e = occurrenceOrdinals cand \<and> ev_sequence e = actionIds cand)"

definition decided :: "evaluation \<Rightarrow> bool" where
  "decided e = (ev_disposition e = REPRODUCES \<or> ev_disposition e = DOES_NOT_REPRODUCE)"

definition exercised :: "evaluation \<Rightarrow> bool" where
  "exercised e = (ev_disposition e \<noteq> NOT_EVALUATED_BUDGET)"

definition min_inv :: "min_context \<Rightarrow> occurrence list \<Rightarrow> min_state \<Rightarrow> bool" where
  "min_inv c os st =
     ((\<forall>(k, ed)\<in>set (ms_cache st). k = sequenceKey (ed_occurrenceSequence ed) \<and> subseq (ed_occurrenceSequence ed) os
         \<and> ed_evaluation ed \<in> set (ms_evaluations st) \<and> evaluation_of (ed_occurrenceSequence ed) (ed_evaluation ed))
      \<and> (\<forall>e\<in>set (ms_evaluations st). decided e \<longrightarrow>
           (\<exists>cand. subseq cand os \<and> evaluation_of cand e \<and> replayed_as c (ms_replayCount st) cand e))
      \<and> int (ms_replayCount st) \<le> mb_maxTotalReplays (mc_budget c)
      \<and> int (ms_candidateEvaluations st) \<le> mb_maxCandidateEvaluations (mc_budget c)
      \<and> length (filter exercised (ms_evaluations st)) \<le> ms_candidateEvaluations st + 1
      \<and> length (filter decided (ms_evaluations st)) \<le> ms_replayCount st
      \<and> ms_replayCount st = ms_reducedReplayInvocations st + 1
      \<and> (\<exists>e es. ms_evaluations st = e # es \<and> ev_disposition e = REPRODUCES))"

lemma replayed_as_mono: "replayed_as c m cand e \<Longrightarrow> m \<le> n \<Longrightarrow> replayed_as c n cand e"
  unfolding replayed_as_def by (meson less_le_trans)

lemma outcomeReason_exercised: "fst (outcomeReason r t) \<noteq> NOT_EVALUATED_BUDGET"
  by (simp add: outcomeReason_def split: option.split)

lemma outcomeReason_throw: "outcomeReason (normalizeExecutorOutcome (invalid_outcome None (Some f)) t) t = (INVALID, Executor_Failed f, False)"
  by (simp add: outcomeReason_def normalizeExecutorOutcome_def invalid_outcome_def)

lemma min_inv_skip: "min_inv c os st \<Longrightarrow> min_inv c os (snd (skip_candidate cand r st))"
  by (auto simp: min_inv_def skip_candidate_def plain_evaluation_def decided_def exercised_def Let_def)

lemma min_inv_count:
  "min_inv c os st \<Longrightarrow> int (ms_candidateEvaluations st) < mb_maxCandidateEvaluations (mc_budget c) \<Longrightarrow>
   min_inv c os (st\<lparr>ms_candidateEvaluations := ms_candidateEvaluations st + 1\<rparr>)"
  by (auto simp: min_inv_def)

text \<open>What \<open>record_evaluated\<close> needs of the state it extends.\<close>

lemma min_inv_record:
  assumes inv: "min_inv c os st"
    and sub: "subseq (ed_occurrenceSequence ed) os" and eval: "evaluation_of (ed_occurrenceSequence ed) (ed_evaluation ed)"
    and same: "ms_cache st1 = ms_cache st" "ms_evaluations st1 = ms_evaluations st"
    and cand: "ms_candidateEvaluations st1 = ms_candidateEvaluations st + 1"
      "int (ms_candidateEvaluations st1) \<le> mb_maxCandidateEvaluations (mc_budget c)"
    and replays: "ms_replayCount st \<le> ms_replayCount st1" "int (ms_replayCount st1) \<le> mb_maxTotalReplays (mc_budget c)"
      "ms_replayCount st1 = ms_reducedReplayInvocations st1 + 1"
    and verdict: "decided (ed_evaluation ed) \<Longrightarrow> ms_replayCount st1 = ms_replayCount st + 1
      \<and> replayed_as c (ms_replayCount st1) (ed_occurrenceSequence ed) (ed_evaluation ed)"
  shows "min_inv c os (snd (record_evaluated ed st1))"
proof -
  let ?e = "ed_evaluation ed" and ?st' = "snd (record_evaluated ed st1)"
  have evs: "ms_evaluations ?st' = ms_evaluations st @ [?e]" and counts: "ms_replayCount ?st' = ms_replayCount st1"
      "ms_candidateEvaluations ?st' = ms_candidateEvaluations st1" "ms_reducedReplayInvocations ?st' = ms_reducedReplayInvocations st1"
    by (simp_all add: record_evaluated_def same)
  have cache: "set (ms_cache ?st') \<subseteq> insert (sequenceKey (ed_occurrenceSequence ed), ed) (set (ms_cache st))"
    using set_map_set_subset [of "ms_cache st" "sequenceKey (ed_occurrenceSequence ed)" ed] by (simp add: record_evaluated_def same)
  have "\<forall>e\<in>set (ms_evaluations ?st'). decided e \<longrightarrow>
      (\<exists>cand. subseq cand os \<and> evaluation_of cand e \<and> replayed_as c (ms_replayCount ?st') cand e)"
  proof (intro ballI impI)
    fix e assume e: "e \<in> set (ms_evaluations ?st')" "decided e"
    show "\<exists>cand. subseq cand os \<and> evaluation_of cand e \<and> replayed_as c (ms_replayCount ?st') cand e"
    proof (cases "e = ?e")
      case True
      then show ?thesis using verdict e sub eval counts by auto
    next
      case False
      then have "e \<in> set (ms_evaluations st)" using e evs by simp
      then obtain cand where "subseq cand os" "evaluation_of cand e" "replayed_as c (ms_replayCount st) cand e"
        using inv e(2) by (auto simp: min_inv_def)
      then show ?thesis using replays(1) counts replayed_as_mono by metis
    qed
  qed
  moreover have "length (filter decided (ms_evaluations ?st')) \<le> ms_replayCount ?st'"
    using inv verdict replays counts by (auto simp: evs min_inv_def)
  moreover have "length (filter exercised (ms_evaluations ?st')) \<le> ms_candidateEvaluations ?st' + 1"
    using inv cand(1) counts by (auto simp: evs min_inv_def)
  moreover have "\<forall>(k, x)\<in>set (ms_cache ?st'). k = sequenceKey (ed_occurrenceSequence x) \<and> subseq (ed_occurrenceSequence x) os
         \<and> ed_evaluation x \<in> set (ms_evaluations ?st') \<and> evaluation_of (ed_occurrenceSequence x) (ed_evaluation x)"
  proof -
    have "k = sequenceKey (ed_occurrenceSequence x) \<and> subseq (ed_occurrenceSequence x) os
         \<and> ed_evaluation x \<in> set (ms_evaluations ?st') \<and> evaluation_of (ed_occurrenceSequence x) (ed_evaluation x)"
      if "(k, x) \<in> set (ms_cache ?st')" for k x
    proof (cases "(k, x) \<in> set (ms_cache st)")
      case True
      then show ?thesis using inv evs by (auto simp: min_inv_def)
    next
      case False
      then show ?thesis using that cache sub eval evs by auto
    qed
    then show ?thesis by blast
  qed
  moreover have "\<exists>e es. ms_evaluations ?st' = e # es \<and> ev_disposition e = REPRODUCES" using inv evs by (auto simp: min_inv_def)
  ultimately show ?thesis using cand replays counts unfolding min_inv_def by auto
qed

text \<open>What one evaluation of a reduced candidate does.\<close>

definition judged :: "min_state \<Rightarrow> occurrence list \<Rightarrow> disposition \<Rightarrow> bool" where
  "judged st cand d = (\<exists>e\<in>set (ms_evaluations st). evaluation_of cand e \<and> ev_disposition e = d)"

definition later :: "min_state \<Rightarrow> min_state \<Rightarrow> bool" where
  "later st st' = (\<exists>es. ms_evaluations st' = ms_evaluations st @ es)"

lemma later_refl [simp]: "later st st"
  by (simp add: later_def)

lemma later_trans: "later a b \<Longrightarrow> later b c \<Longrightarrow> later a c"
  by (auto simp: later_def)

lemma later_judged: "later a b \<Longrightarrow> judged a cand d \<Longrightarrow> judged b cand d"
  by (auto simp: later_def judged_def)

lemma replay_evaluated_of:
  "ed_occurrenceSequence (replay_evaluated c cand out) = cand \<and> evaluation_of cand (ed_evaluation (replay_evaluated c cand out))
   \<and> ed_outcome (replay_evaluated c cand out) = out
   \<and> outcomeReason out (mo_anomalyFingerprint (mc_options c))
       = (let e = ed_evaluation (replay_evaluated c cand out) in (ev_disposition e, ev_reason e, ev_fingerprintMatch e))"
  by (simp add: replay_evaluated_def evaluation_of_def split: prod.split)

lemma replay_evaluated_replayed:
  assumes "decided (ed_evaluation (replay_evaluated c cand (replay_result c cand phase n)))"
  shows "replayed_as c (Suc n) cand (ed_evaluation (replay_evaluated c cand (replay_result c cand phase n)))"
proof (cases "mo_replay (mc_options c) n phase (map oc_action cand)")
  case None
  then have "ev_disposition (ed_evaluation (replay_evaluated c cand (replay_result c cand phase n))) = INVALID"
    using replay_evaluated_of [of c cand "replay_result c cand phase n"]
    by (simp add: replay_result_def outcomeReason_throw Let_def)
  then show ?thesis using assms by (simp add: decided_def)
next
  case (Some r)
  then show ?thesis using replay_evaluated_of [of c cand "replay_result c cand phase n"]
    unfolding replayed_as_def replay_result_def by (auto simp: Let_def)
qed

lemma evaluate_reduced:
  assumes safe: "safe_occurrences os" and sub: "subseq cand os" and inv: "min_inv c os st"
    and ev: "evaluate c cand REDUCED_CANDIDATE st = (ed, st')"
  shows "min_inv c os st' \<and> later st st' \<and> judged st' cand (ev_disposition (ed_evaluation ed))"
proof (cases "map_get (ms_cache st) (sequenceKey cand)")
  case (Some x)
  then have hit: "ed = x" "st' = st" using ev by (simp_all add: evaluate_def)
  have "(sequenceKey cand, x) \<in> set (ms_cache st)" using Some by (rule map_get_in_set)
  then have x: "sequenceKey cand = sequenceKey (ed_occurrenceSequence x)" "subseq (ed_occurrenceSequence x) os"
      "ed_evaluation x \<in> set (ms_evaluations st)" "evaluation_of (ed_occurrenceSequence x) (ed_evaluation x)"
    using inv by (auto simp: min_inv_def)
  then have "ed_occurrenceSequence x = cand" using sequenceKey_inj [OF safe sub] by metis
  then show ?thesis using x hit inv by (auto simp: judged_def)
next
  case None
  let ?b = "mc_budget c" and ?t = "mo_anomalyFingerprint (mc_options c)"
  let ?st1 = "st\<lparr>ms_candidateEvaluations := ms_candidateEvaluations st + 1\<rparr>"
  consider (over) "mb_maxCandidateEvaluations ?b \<le> int (ms_candidateEvaluations st)"
    | (guard) r where "\<not> mb_maxCandidateEvaluations ?b \<le> int (ms_candidateEvaluations st)" "guardSequence c cand = Guard_Invalid r"
    | (spent) "\<not> mb_maxCandidateEvaluations ?b \<le> int (ms_candidateEvaluations st)" "guardSequence c cand = Guard_Valid"
        "mb_maxTotalReplays ?b \<le> int (ms_replayCount st)"
    | (run) "\<not> mb_maxCandidateEvaluations ?b \<le> int (ms_candidateEvaluations st)" "guardSequence c cand = Guard_Valid"
        "\<not> mb_maxTotalReplays ?b \<le> int (ms_replayCount st)"
    by (metis guard_result.exhaust)
  then show ?thesis
  proof cases
    case over
    then have "(ed, st') = skip_candidate cand BUDGET_EXHAUSTED st" using ev None by (simp add: evaluate_def)
    then show ?thesis using min_inv_skip [OF inv, of cand BUDGET_EXHAUSTED]
      by (auto simp: skip_candidate_def Let_def later_def judged_def evaluation_of_def plain_evaluation_def)
  next
    case guard
    have "(ed, st') = reject_candidate cand REDUCED_CANDIDATE r st" using ev None guard by (simp add: evaluate_def)
    moreover have "min_inv c os (snd (reject_candidate cand REDUCED_CANDIDATE r st))"
      unfolding reject_candidate_def Let_def using guard inv sub
      by (intro min_inv_record [OF inv]) (auto simp: evaluation_of_def plain_evaluation_def decided_def min_inv_def)
    ultimately show ?thesis
      by (auto simp: reject_candidate_def record_evaluated_def Let_def later_def judged_def evaluation_of_def plain_evaluation_def)
  next
    case spent
    then have "(ed, st') = skip_candidate cand TOTAL_REPLAY_BUDGET_EXHAUSTED ?st1" using ev None by (simp add: evaluate_def)
    then show ?thesis using min_inv_skip [OF min_inv_count [OF inv], of cand TOTAL_REPLAY_BUDGET_EXHAUSTED] spent
      by (auto simp: skip_candidate_def Let_def later_def judged_def evaluation_of_def plain_evaluation_def)
  next
    case run
    let ?ed = "replay_evaluated c cand (replay_result c cand REDUCED_CANDIDATE (ms_replayCount st))"
    have "(ed, st') = record_evaluated ?ed (count_replay REDUCED_CANDIDATE ?ed ?st1)"
      using ev None run by (simp add: evaluate_def replay_candidate_def Let_def)
    moreover have "min_inv c os (snd (record_evaluated ?ed (count_replay REDUCED_CANDIDATE ?ed ?st1)))"
      using run inv sub replay_evaluated_of replay_evaluated_replayed
      by (intro min_inv_record [OF inv]) (auto simp: min_inv_def count_replay_def Let_def)
    ultimately show ?thesis using replay_evaluated_of
      by (auto simp: record_evaluated_def later_def judged_def count_replay_def Let_def)
  qed
qed

section \<open>The loops\<close>

lemma try_chunks_spec:
  assumes "safe_occurrences os" and "subseq current os" and "min_inv c os st"
    and "\<forall>ch\<in>set chunks. subseq (withoutChunk current ch) current \<and> length (withoutChunk current ch) < length current"
    and "try_chunks c current chunks st = (res, st')"
  shows "min_inv c os st' \<and> later st st' \<and> (\<forall>cand. res = Chunk_Accepted cand \<longrightarrow>
    subseq cand current \<and> length cand < length current \<and> cand \<noteq> [] \<and> judged st' cand REPRODUCES)"
  using assms(3-5)
proof (induction chunks arbitrary: st)
  case (Cons ch chunks)
  let ?cand = "withoutChunk current ch"
  show ?case
  proof (cases "?cand = []")
    case True
    then have "try_chunks c current chunks st = (res, st')" using Cons.prems(3) by (simp add: Let_def)
    then show ?thesis using Cons.IH [OF Cons.prems(1)] Cons.prems(2) by (metis list.set_intros(2))
  next
    case False
    obtain ed st1 where ev: "evaluate c ?cand REDUCED_CANDIDATE st = (ed, st1)" by force
    have sub: "subseq ?cand os" using Cons.prems(2) assms(2) subseq_order.trans by (metis list.set_intros(1))
    have one: "min_inv c os st1" "later st st1" "judged st1 ?cand (ev_disposition (ed_evaluation ed))"
      using evaluate_reduced [OF assms(1) sub Cons.prems(1) ev] by auto
    have rest: "\<forall>x\<in>set chunks. subseq (withoutChunk current x) current \<and> length (withoutChunk current x) < length current"
      using Cons.prems(2) by simp
    show ?thesis
    proof (cases "ev_disposition (ed_evaluation ed)")
      case REPRODUCES
      then have "res = Chunk_Accepted ?cand \<and> st' = st1" using Cons.prems(3) ev False by (simp add: Let_def)
      then show ?thesis using one REPRODUCES Cons.prems(2) False by simp
    next
      case NOT_EVALUATED_BUDGET
      then have "res = Chunk_Budget \<and> st' = st1" using Cons.prems(3) ev False by (simp add: Let_def)
      then show ?thesis using one by simp
    next
      case DOES_NOT_REPRODUCE
      then have "try_chunks c current chunks st1 = (res, st')" using Cons.prems(3) ev False by (simp add: Let_def)
      then show ?thesis using Cons.IH [OF one(1) rest] one(2) later_trans by blast
    next
      case INVALID
      then have "try_chunks c current chunks st1 = (res, st')" using Cons.prems(3) ev False by (simp add: Let_def)
      then show ?thesis using Cons.IH [OF one(1) rest] one(2) later_trans by blast
    qed
  qed
qed simp

definition reduce_inv :: "min_context \<Rightarrow> occurrence list \<Rightarrow> loop_state \<Rightarrow> bool" where
  "reduce_inv c os s = (subseq (ls_current s) os \<and> ls_current s \<noteq> [] \<and> 0 < ls_granularity s
     \<and> min_inv c os (ls_state s) \<and> judged (ls_state s) (ls_current s) REPRODUCES)"

definition reduce_measure :: "(loop_state \<times> loop_state) set" where
  "reduce_measure = measures [\<lambda>s. length (ls_current s), \<lambda>s. length (ls_current s) - ls_granularity s,
     \<lambda>s. if reduce_going s then 1 else 0]"

lemma reduce_step_progress:
  assumes safe: "safe_occurrences os" and inv: "reduce_inv c os s" and going: "reduce_going s"
  shows "reduce_inv c os (reduce_step c s) \<and> (reduce_step c s, s) \<in> reduce_measure"
proof -
  let ?chunks = "splitIntoChunks (ls_current s) (ls_granularity s)"
  have inv': "subseq (ls_current s) os" "ls_current s \<noteq> []" "0 < ls_granularity s" "min_inv c os (ls_state s)"
      "judged (ls_state s) (ls_current s) REPRODUCES" using inv by (simp_all add: reduce_inv_def)
  have shorter: "\<forall>ch\<in>set ?chunks. subseq (withoutChunk (ls_current s) ch) (ls_current s)
      \<and> length (withoutChunk (ls_current s) ch) < length (ls_current s)"
    using withoutChunk_shorter [OF inv'(2)] by blast
  obtain res st where t: "try_chunks c (ls_current s) ?chunks (ls_state s) = (res, st)" by force
  note spec = try_chunks_spec [OF safe inv'(1,4) shorter t]
  show ?thesis
  proof (cases res)
    case Chunk_Budget
    then show ?thesis using t spec inv' going later_judged
      by (auto simp: reduce_step_def reduce_inv_def reduce_measure_def reduce_going_def)
  next
    case (Chunk_Accepted cand)
    then show ?thesis using t spec inv' subseq_order.trans
      by (auto simp: reduce_step_def reduce_inv_def reduce_measure_def)
  next
    case No_Chunk
    show ?thesis
    proof (cases "length (ls_current s) \<le> ls_granularity s")
      case True
      then show ?thesis using No_Chunk t spec inv' going later_judged
        by (auto simp: reduce_step_def reduce_inv_def reduce_measure_def reduce_going_def)
    next
      case False
      then show ?thesis using No_Chunk t spec inv' later_judged
        by (auto simp: reduce_step_def reduce_inv_def reduce_measure_def)
    qed
  qed
qed

lemma reduce_ends:
  assumes safe: "safe_occurrences os" and inv: "reduce_inv c os s"
  shows "\<exists>t. while_option reduce_going (reduce_step c) s = Some t \<and> reduce_inv c os t \<and> \<not> reduce_going t"
proof -
  have "wf {(t, s). (reduce_inv c os s \<and> reduce_going s) \<and> t = reduce_step c s}"
    by (rule wf_subset [where r = reduce_measure])
       (use reduce_step_progress [OF safe] in \<open>auto simp: reduce_measure_def\<close>)
  then obtain t where t: "while_option reduce_going (reduce_step c) s = Some t"
    using wf_while_option_Some [of "reduce_inv c os" reduce_going "reduce_step c" s] reduce_step_progress [OF safe] inv by blast
  moreover have "reduce_inv c os t"
    using while_option_rule [of "reduce_inv c os", OF _ t inv] reduce_step_progress [OF safe] by blast
  ultimately show ?thesis using while_option_stop [OF t] by blast
qed

lemma audit_pass_spec:
  assumes "safe_occurrences os" and "subseq current os" and "min_inv c os st" and "\<forall>i\<in>set is. i < length current"
    and "audit_pass c current is ds st = (res, ds', st')"
  shows "min_inv c os st' \<and> later st st'
    \<and> (\<forall>cand. res = Chunk_Accepted cand \<longrightarrow>
         subseq cand current \<and> length cand = length current - 1 \<and> judged st' cand REPRODUCES)
    \<and> (res = No_Chunk \<longrightarrow> length ds' = length ds + length is
         \<and> (\<forall>k<length is. judged st' (remove_position (is ! k) current) (ds' ! (length ds + k)))
         \<and> take (length ds) ds' = ds)"
  using assms(3-5)
proof (induction "is" arbitrary: st ds)
  case (Cons i js)
  let ?cand = "remove_position i current"
  obtain ed st1 where ev: "evaluate c ?cand REDUCED_CANDIDATE st = (ed, st1)" by force
  let ?d = "ev_disposition (ed_evaluation ed)"
  have short: "subseq ?cand current" "length ?cand = length current - 1"
    using remove_position_shorter [of i current] Cons.prems(2) by auto
  then have sub: "subseq ?cand os" using assms(2) subseq_order.trans by blast
  have one: "min_inv c os st1" "later st st1" "judged st1 ?cand ?d"
    using evaluate_reduced [OF assms(1) sub Cons.prems(1) ev] by auto
  show ?case
  proof (cases "?d = NOT_EVALUATED_BUDGET \<or> ?d = REPRODUCES")
    case True
    then show ?thesis using Cons.prems(3) ev one short by (auto simp: Let_def split: if_splits)
  next
    case False
    then have rec: "audit_pass c current js (ds @ [?d]) st1 = (res, ds', st')"
      using Cons.prems(3) ev by (simp add: Let_def)
    have IH: "min_inv c os st' \<and> later st1 st'
      \<and> (\<forall>cand. res = Chunk_Accepted cand \<longrightarrow>
           subseq cand current \<and> length cand = length current - 1 \<and> judged st' cand REPRODUCES)
      \<and> (res = No_Chunk \<longrightarrow> length ds' = length (ds @ [?d]) + length js
           \<and> (\<forall>k<length js. judged st' (remove_position (js ! k) current) (ds' ! (length (ds @ [?d]) + k)))
           \<and> take (length (ds @ [?d])) ds' = ds @ [?d])"
      using Cons.IH [OF one(1) _ rec] Cons.prems(2) by simp
    have "judged st' (remove_position ((i # js) ! k) current) (ds' ! (length ds + k))"
      if "res = No_Chunk" "k < length (i # js)" for k
    proof (cases k)
      case 0
      have "take (length (ds @ [?d])) ds' = ds @ [?d]" using IH that(1) by blast
      then have "ds' ! length ds = ?d" by (metis length_append_singleton lessI nth_append_length nth_take)
      then show ?thesis using 0 one(3) IH later_judged by auto
    next
      case (Suc m)
      then show ?thesis using IH that by simp
    qed
    moreover have "take (length ds) ds' = ds" if "res = No_Chunk"
    proof -
      have "take (length (ds @ [?d])) ds' = ds @ [?d]" using IH that by blast
      then have "take (length ds) (take (length (ds @ [?d])) ds') = ds" by simp
      then show ?thesis by simp
    qed
    ultimately show ?thesis using IH one(2) later_trans by auto
  qed
qed auto

definition audit_inv :: "min_context \<Rightarrow> occurrence list \<Rightarrow> audit_state \<Rightarrow> bool" where
  "audit_inv c os s = (subseq (as_current s) os \<and> as_current s \<noteq> [] \<and> min_inv c os (as_state s)
     \<and> judged (as_state s) (as_current s) REPRODUCES
     \<and> (as_changed s \<or> as_budgetExhausted s \<or>
         (length (as_dispositions s) = length (as_current s)
          \<and> (\<forall>k<length (as_current s). judged (as_state s) (remove_position k (as_current s)) (as_dispositions s ! k)))))"

definition audit_measure :: "(audit_state \<times> audit_state) set" where
  "audit_measure = measures [\<lambda>s. length (as_current s), \<lambda>s. if as_changed s then 1 else 0]"

lemma audit_step_progress:
  assumes safe: "safe_occurrences os" and inv: "audit_inv c os s" and going: "audit_going s"
  shows "audit_inv c os (audit_step c s) \<and> (audit_step c s, s) \<in> audit_measure"
proof -
  let ?cur = "as_current s"
  have inv': "subseq ?cur os" "?cur \<noteq> []" "min_inv c os (as_state s)" "judged (as_state s) ?cur REPRODUCES"
    using inv by (simp_all add: audit_inv_def)
  have going': "as_changed s" "1 < length ?cur" using going by (simp_all add: audit_going_def)
  obtain res ds st where t: "audit_pass c ?cur [0..<length ?cur] [] (as_state s) = (res, ds, st)" by (metis prod_cases3)
  have "\<forall>i\<in>set [0..<length ?cur]. i < length ?cur" by simp
  note spec = audit_pass_spec [OF safe inv'(1,3) this t]
  show ?thesis
  proof (cases res)
    case Chunk_Budget
    then show ?thesis using t spec inv' going' later_judged by (auto simp: audit_step_def audit_inv_def audit_measure_def)
  next
    case (Chunk_Accepted cand)
    then have "subseq cand ?cur" "length cand = length ?cur - 1" "judged st cand REPRODUCES" "min_inv c os st"
      using spec by auto
    then show ?thesis using Chunk_Accepted t inv' going' subseq_order.trans [of cand ?cur os]
      by (auto simp: audit_step_def audit_inv_def audit_measure_def)
  next
    case No_Chunk
    then have "length ds = length ?cur" "\<forall>k<length ?cur. judged st (remove_position k ?cur) (ds ! k)"
      using spec by auto
    then show ?thesis using No_Chunk t spec inv' going' later_judged by (auto simp: audit_step_def audit_inv_def audit_measure_def)
  qed
qed

lemma audit_ends:
  assumes safe: "safe_occurrences os" and inv: "audit_inv c os s"
  shows "\<exists>t. while_option audit_going (audit_step c) s = Some t \<and> audit_inv c os t \<and> \<not> audit_going t"
proof -
  have "wf {(t, s). (audit_inv c os s \<and> audit_going s) \<and> t = audit_step c s}"
    by (rule wf_subset [where r = audit_measure])
       (use audit_step_progress [OF safe] in \<open>auto simp: audit_measure_def\<close>)
  then obtain t where t: "while_option audit_going (audit_step c) s = Some t"
    using wf_while_option_Some [of "audit_inv c os" audit_going "audit_step c" s] audit_step_progress [OF safe] inv by blast
  moreover have "audit_inv c os t"
    using while_option_rule [of "audit_inv c os", OF _ t inv] audit_step_progress [OF safe] by blast
  ultimately show ?thesis using while_option_stop [OF t] by blast
qed

section \<open>The whole run\<close>

lemma map_index_occurrences: "map oc_index (occurrences as) = [0..<length as]"
  and map_action_occurrences: "map oc_action (occurrences as) = as"
  by (auto simp: occurrences_def case_prod_unfold comp_def intro: nth_equalityI)

lemma occurrences_empty [simp]: "occurrences as = [] \<longleftrightarrow> as = []"
  by (metis map_action_occurrences map_is_Nil_conv)

lemma guard_items_ids: "guard_items c s = Guard_Valid \<Longrightarrow> x \<in> set s \<Longrightarrow> action_id_ok (ma_actionId (oc_action x))"
  by (induction s) (auto simp: validateActionCatalog_def split: if_splits guard_result.splits)

lemma guard_valid_safe:
  assumes "guardSequence c (occurrences as) = Guard_Valid"
  shows "safe_occurrences (occurrences as)"
proof -
  have "distinct (map oc_index (occurrences as))" by (simp add: map_index_occurrences)
  then have "inj_on oc_index (set (occurrences as))" by (simp add: distinct_map)
  moreover have "guard_items c (occurrences as) = Guard_Valid"
    using assms by (auto simp: guardSequence_def split: guard_result.splits)
  then have "action_id_ok (ma_actionId (oc_action x))" if "x \<in> set (occurrences as)" for x using guard_items_ids that by blast
  moreover have "CHR ''>'' \<notin> set t" if "action_id_ok t" for t
    using that by (auto simp: action_id_ok_def is_alnum_def is_digit_def is_lower_letter_def is_upper_letter_def code_unit_def)
  ultimately show ?thesis by (auto simp: safe_occurrences_def)
qed

lemma fresh_reproduces:
  assumes guard: "guardSequence c os = Guard_Valid" and budget: "1 \<le> mb_maxTotalReplays (mc_budget c)" "0 \<le> mb_maxCandidateEvaluations (mc_budget c)"
    and ev: "evaluate c os FRESH_EXACT_REPLAY initial_min_state = (ed, st)" and d: "ev_disposition (ed_evaluation ed) = REPRODUCES"
  shows "min_inv c os st \<and> judged st os REPRODUCES"
proof -
  let ?ed = "replay_evaluated c os (replay_result c os FRESH_EXACT_REPLAY 0)"
  have "evaluate c os FRESH_EXACT_REPLAY initial_min_state
      = record_evaluated ?ed (count_replay FRESH_EXACT_REPLAY ?ed initial_min_state)"
    using guard budget by (simp add: evaluate_def initial_min_state_def map_get_def replay_candidate_def Let_def)
  then have eds: "ed = ?ed" "st = snd (record_evaluated ?ed (count_replay FRESH_EXACT_REPLAY ?ed initial_min_state))"
    using ev by (simp_all add: record_evaluated_def)
  have "decided (ed_evaluation ?ed)" using d eds by (simp add: decided_def)
  then have "replayed_as c 1 os (ed_evaluation ?ed)" using replay_evaluated_replayed [of c os FRESH_EXACT_REPLAY 0] by simp
  moreover have "evaluation_of os (ed_evaluation ?ed)" "ed_occurrenceSequence ?ed = os" using replay_evaluated_of by auto
  ultimately show ?thesis using eds d budget
    by (auto simp: min_inv_def judged_def record_evaluated_def count_replay_def initial_min_state_def Let_def map_set_def)
qed

definition budget_ok :: "min_budget \<Rightarrow> bool" where
  "budget_ok b = (0 \<le> mb_maxCandidateEvaluations b \<and> 1 \<le> mb_maxTotalReplays b
     \<and> mb_maxCandidateEvaluations b \<le> mb_maxTotalReplays b)"

text \<open>Every way a run can go.\<close>

lemma minimize_cases:
  assumes "minimizeFailure opts = Inr res"
  obtains (unreproduced) r where "res = Some r" and "mr_freshExactReplay r \<noteq> FRESH_REPRODUCED"
      and "int (mr_replayCount r) \<le> mb_maxTotalReplays (mc_budget (min_context_of opts))"
      and "mr_candidateEvaluationCount r = 0" and "mr_minimalityGuarantee r = NO_GUARANTEE"
  | (reproduced) a where "res = Some (conclude (min_context_of opts) (occurrences (mo_originalSequence opts)) a)"
      and "audit_inv (min_context_of opts) (occurrences (mo_originalSequence opts)) a" and "\<not> audit_going a"
      and "safe_occurrences (occurrences (mo_originalSequence opts))"
proof -
  let ?c = "min_context_of opts" and ?os = "occurrences (mo_originalSequence opts)"
  have b: "budget_ok (mc_budget ?c)" and ne: "mo_originalSequence opts \<noteq> []"
    using assms by (auto simp: minimizeFailure_def Let_def budget_ok_def split: if_splits)
  have run: "res = (if guardSequence ?c ?os \<noteq> Guard_Valid
      then Some (resultBase ?c ?os ?os initial_min_state 1 FRESH_INVALID NO_GUARANTEE False INVALID_ORIGINAL REDUCTION_PRECONDITION_UNAVAILABLE)
      else case evaluate ?c ?os FRESH_EXACT_REPLAY initial_min_state of (fresh, st) \<Rightarrow>
        (let d = ev_disposition (ed_evaluation fresh) in if d \<noteq> REPRODUCES
          then Some (resultBase ?c ?os ?os st (ms_invalidCandidateCount st)
            (if d = INVALID then FRESH_INVALID else FRESH_NOT_REPRODUCED) NO_GUARANTEE False NO_REPRODUCTION NO_REDUCIBLE_CANDIDATE)
          else Option.bind (while_option reduce_going (reduce_step ?c) (reduce_start ?os st)) (\<lambda>s.
                 map_option (conclude ?c ?os) (while_option audit_going (audit_step ?c) (audit_of s)))))"
    using assms by (simp add: minimizeFailure_def Let_def split: if_splits)
  show thesis
  proof (cases "guardSequence ?c ?os = Guard_Valid")
    case False
    then show thesis using run b unreproduced
      by (simp add: resultBase_def initial_min_state_def Let_def budget_ok_def)
  next
    case guard: True
    note safe = guard_valid_safe [OF guard]
    obtain fresh st where ev: "evaluate ?c ?os FRESH_EXACT_REPLAY initial_min_state = (fresh, st)" by force
    let ?d = "ev_disposition (ed_evaluation fresh)"
    show thesis
    proof (cases "?d = REPRODUCES")
      case True
      have fresh: "min_inv ?c ?os st" "judged st ?os REPRODUCES"
        using fresh_reproduces [OF guard _ _ ev True] b by (auto simp: budget_ok_def)
      have "reduce_inv ?c ?os (reduce_start ?os st)"
        using fresh ne by (simp add: reduce_inv_def reduce_start_def)
      then obtain s where s: "while_option reduce_going (reduce_step ?c) (reduce_start ?os st) = Some s" "reduce_inv ?c ?os s"
        using reduce_ends [OF safe] by blast
      have "audit_inv ?c ?os (audit_of s)" using s(2) by (simp add: audit_inv_def audit_of_def reduce_inv_def)
      then obtain a where a: "while_option audit_going (audit_step ?c) (audit_of s) = Some a" "audit_inv ?c ?os a" "\<not> audit_going a"
        using audit_ends [OF safe] by blast
      then have "res = Some (conclude ?c ?os a)" using run guard ev True s by simp
      then show thesis using reproduced a safe by blast
    next
      case False
      have st: "ms_replayCount st = 1" "length (ms_evaluations st) = 1"
        using ev guard b by (auto simp: evaluate_def initial_min_state_def map_get_def replay_candidate_def record_evaluated_def
            count_replay_def Let_def budget_ok_def)
      have "length (filter P (ms_evaluations st)) \<le> 1" for P using length_filter_le [of P "ms_evaluations st"] st by simp
      moreover have "res = Some (resultBase ?c ?os ?os st (ms_invalidCandidateCount st)
            (if ?d = INVALID then FRESH_INVALID else FRESH_NOT_REPRODUCED) NO_GUARANTEE False NO_REPRODUCTION NO_REDUCIBLE_CANDIDATE)"
        using run guard ev False by simp
      ultimately show thesis using unreproduced b st
        by (auto simp: resultBase_def Let_def budget_ok_def)
    qed
  qed
qed

text \<open>C15: With a well-formed budget and a non-empty original sequence the minimizer returns a
  result: neither the reduction loop nor the audit loop can run forever, whatever the
  replays answer.\<close>

theorem minimizer_terminates:
  assumes "budget_ok (mc_budget (min_context_of opts))" and "mo_originalSequence opts \<noteq> []"
  shows "\<exists>r. minimizeFailure opts = Inr (Some r)"
proof -
  obtain res where res: "minimizeFailure opts = Inr res"
    using assms by (auto simp: minimizeFailure_def Let_def budget_ok_def)
  then show ?thesis by (rule minimize_cases) (use res in auto)
qed

text \<open>The anomaly the minimizer looks for, in one replay outcome.\<close>

definition shows_anomaly :: "string \<Rightarrow> replay_outcome \<Rightarrow> bool" where
  "shows_anomaly fp r = (ro_status r = Replay_Failure \<and> ro_anomalyFingerprint r = Some fp
     \<and> allZeroSafety (ro_safety r) \<and> ro_executorFailure r = None)"

lemma reproduces_shows:
  "fst (outcomeReason (normalizeExecutorOutcome r fp) fp) = REPRODUCES \<Longrightarrow> shows_anomaly fp r"
  by (auto simp: outcomeReason_def normalizeExecutorOutcome_def shows_anomaly_def split: option.splits if_splits)



lemma judged_replayed:
  assumes safe: "safe_occurrences os" and "min_inv c os st" and "judged st cand d" and "subseq cand os"
    and "d = REPRODUCES \<or> d = DOES_NOT_REPRODUCE"
  shows "\<exists>n<ms_replayCount st. \<exists>phase r. mo_replay (mc_options c) n phase (map oc_action cand) = Some r
    \<and> fst (outcomeReason (normalizeExecutorOutcome r (mo_anomalyFingerprint (mc_options c))) (mo_anomalyFingerprint (mc_options c))) = d"
proof -
  obtain e where e: "e \<in> set (ms_evaluations st)" "evaluation_of cand e" "ev_disposition e = d"
    using assms(3) by (auto simp: judged_def)
  then have "decided e" using assms(5) by (auto simp: decided_def)
  then obtain cand' where c: "subseq cand' os" "evaluation_of cand' e" "replayed_as c (ms_replayCount st) cand' e"
    using assms(2) e(1) by (auto simp: min_inv_def)
  have "map oc_index cand' = map oc_index cand" using c(2) e(2) by (simp add: evaluation_of_def occurrenceOrdinals_def)
  moreover have "inj_on oc_index (set cand' \<union> set cand)" using safe subseq_set c(1) assms(4)
    by (auto simp: safe_occurrences_def intro: inj_on_subset)
  ultimately have "cand' = cand" using inj_on_map_eq_map by blast
  then show ?thesis using c(3) e(3) unfolding replayed_as_def by (metis fst_conv)
qed

lemma min_context_of_options [simp]: "mc_options (min_context_of opts) = opts"
  by (simp add: min_context_of_def Let_def)

lemma conclude_fields:
  "mr_minimalOrdinals (conclude c os a) = Some (occurrenceOrdinals (as_current a))"
  "mr_minimalReproducingSequence (conclude c os a) = actionIds (as_current a)"
  "mr_replayCount (conclude c os a) = ms_replayCount (as_state a)"
  "mr_freshExactReplay (conclude c os a) = FRESH_REPRODUCED"
  by (simp_all add: conclude_def resultBase_def Let_def)

lemma conclude_guarantee:
  "mr_minimalityGuarantee (conclude c os a) = ONE_MINIMAL \<longleftrightarrow> \<not> as_budgetExhausted a \<and> (length (as_current a) = 1
     \<or> (length (as_dispositions a) = length (as_current a) \<and> (\<forall>d\<in>set (as_dispositions a). d = DOES_NOT_REPRODUCE)))"
  by (simp add: conclude_def resultBase_def Let_def list_all_iff)

text \<open>C13: The sequence a reproducing run reports is a non-empty subsequence of the original's
  occurrences, and one of the replays made was of exactly that sequence and showed the
  very anomaly: a failure with the target fingerprint, no safety violation and no executor
  failure.\<close>

theorem minimizer_result_reproduces:
  assumes "minimizeFailure opts = Inr (Some r)" and "mr_freshExactReplay r = FRESH_REPRODUCED"
  shows "\<exists>cand. subseq cand (occurrences (mo_originalSequence opts)) \<and> cand \<noteq> []
    \<and> mr_minimalOrdinals r = Some (occurrenceOrdinals cand) \<and> mr_minimalReproducingSequence r = actionIds cand
    \<and> (\<exists>n<mr_replayCount r. \<exists>phase out. mo_replay opts n phase (map oc_action cand) = Some out
         \<and> shows_anomaly (mo_anomalyFingerprint opts) out)"
  using assms(1)
proof (cases rule: minimize_cases)
  case (unreproduced r')
  then show ?thesis using assms(2) by simp
next
  case (reproduced a)
  let ?c = "min_context_of opts" and ?os = "occurrences (mo_originalSequence opts)"
  have inv: "subseq (as_current a) ?os" "as_current a \<noteq> []" "min_inv ?c ?os (as_state a)" "judged (as_state a) (as_current a) REPRODUCES"
    using reproduced(2) by (simp_all add: audit_inv_def)
  have r: "r = conclude ?c ?os a" using reproduced(1) by simp
  obtain n phase out where "n < ms_replayCount (as_state a)" "mo_replay opts n phase (map oc_action (as_current a)) = Some out"
      "fst (outcomeReason (normalizeExecutorOutcome out (mo_anomalyFingerprint opts)) (mo_anomalyFingerprint opts)) = REPRODUCES"
    using judged_replayed [OF reproduced(4) inv(3,4,1)] by auto
  then show ?thesis using inv r reproduces_shows unfolding conclude_fields by (metis conclude_fields)
qed



lemma run_within_budget:
  assumes "minimizeFailure opts = Inr (Some r)"
  shows "int (mr_replayCount r) \<le> mb_maxTotalReplays (mr_budget r)
    \<and> int (mr_candidateEvaluationCount r) \<le> mb_maxCandidateEvaluations (mr_budget r)"
proof -
  have budget: "budget_ok (mc_budget (min_context_of opts))"
    using assms by (auto simp: minimizeFailure_def Let_def budget_ok_def split: if_splits)
  have same: "mr_budget r = mc_budget (min_context_of opts)" using assms
    by (auto simp: minimizeFailure_def Let_def resultBase_def conclude_def bind_eq_Some_conv split: if_splits prod.splits)
  from assms show ?thesis
  proof (cases rule: minimize_cases)
    case (unreproduced r')
    then show ?thesis using same budget by (simp add: budget_ok_def)
  next
    case (reproduced a)
    let ?c = "min_context_of opts" and ?os = "occurrences (mo_originalSequence opts)" and ?st = "as_state a"
    have inv: "min_inv ?c ?os ?st" using reproduced(2) by (simp add: audit_inv_def)
    have "mr_candidateEvaluationCount r = length (filter exercised (ms_evaluations ?st)) - (if ms_evaluations ?st = [] then 0 else 1)"
      using reproduced(1) by (simp add: conclude_def resultBase_def Let_def exercised_def [abs_def])
    then show ?thesis using inv reproduced(1) same by (auto simp: min_inv_def conclude_fields)
  qed
qed

text \<open>C16: The run stays within its budget: no more replays than allowed, no more candidate
  evaluations than allowed, however the reduction goes.\<close>

theorem minimizer_within_budget:
  assumes "minimizeFailure opts = Inr (Some r)"
  shows "int (mr_replayCount r) \<le> mb_maxTotalReplays (mr_budget r)
    \<and> int (mr_candidateEvaluationCount r) \<le> mb_maxCandidateEvaluations (mr_budget r)"
  using assms by (rule run_within_budget)

text \<open>The taxonomy leaks: a replay whose executor failed, but that also reports a failure
  with some other fingerprint, is normalised to a pass and counts as a genuine
  non-reproduction, so it can back a \<open>1-MINIMAL\<close> claim; without the fingerprint the same
  executor failure is invalid evidence.\<close>

theorem executor_failure_counts_as_non_reproduction:
  assumes "ro_status out = Replay_Failure" and "ro_executorFailure out = Some f" and "allZeroSafety (ro_safety out)"
    and "ro_anomalyFingerprint out = Some other" and "other \<noteq> target"
  shows "fst (outcomeReason (normalizeExecutorOutcome out target) target) = DOES_NOT_REPRODUCE
    \<and> fst (outcomeReason out target) = INVALID
    \<and> fst (outcomeReason (normalizeExecutorOutcome (out\<lparr>ro_anomalyFingerprint := None\<rparr>) target) target) = INVALID"
  using assms by (simp add: normalizeExecutorOutcome_def outcomeReason_def)

section \<open>A concrete run\<close>

definition w_action :: "string \<Rightarrow> min_action" where
  "w_action i = \<lparr>ma_actionId = i, ma_semanticClass = ''KNOWN_READ'', ma_routeClass = ''/'', ma_sourceApproved = True,
     ma_catalogVersion = [], ma_preconditionKey = None\<rparr>"

definition w_outcome :: "bool \<Rightarrow> replay_outcome" where
  "w_outcome hit = \<lparr>ro_status = (if hit then Replay_Failure else Replay_Pass), ro_anomalyFingerprint = (if hit then Some ''f'' else None),
     ro_semanticFindingFingerprint = None, ro_semanticContractIdentity = None, ro_safety = ZERO_SAFETY, ro_invalidReason = None,
     ro_executorFailure = None, ro_routeClass = None\<rparr>"

text \<open>The anomaly needs both actions: nothing can be removed.\<close>

definition w_options :: "min_budget \<Rightarrow> min_options" where
  "w_options b = \<lparr>mo_originalSequence = [w_action ''a'', w_action ''b''], mo_anomalyFingerprint = ''f'', mo_sourceVersion = [],
     mo_catalogVersion = [], mo_approvedActionIds = None, mo_safeActionCatalog = None, mo_safety = None, mo_budget = Some b,
     mo_preconditionCheck = None, mo_replay = (\<lambda>n phase as. Some (w_outcome (length as = 2)))\<rparr>"

definition w_c :: "min_budget \<Rightarrow> min_context" where
  "w_c b = min_context_of (w_options b)"

definition w_oa :: occurrence where
  "w_oa = \<lparr>oc_index = 0, oc_action = w_action ''a''\<rparr>"

definition w_ob :: occurrence where
  "w_ob = \<lparr>oc_index = 1, oc_action = w_action ''b''\<rparr>"

lemma w_context:
  "mc_options (w_c b) = w_options b" "mc_originalIds (w_c b) = [''a'', ''b'']" "mc_approvedIds (w_c b) = [''a'', ''b'']"
  "mc_safeActions (w_c b) = []" "mc_safety (w_c b) = PASSIVE_MINIMIZATION_SAFETY" "mc_budget (w_c b) = b"
  by (simp_all add: w_c_def min_context_of_def w_options_def w_action_def Let_def)

lemma w_occurrences: "occurrences (mo_originalSequence (w_options b)) = [w_oa, w_ob]"
  by (simp add: occurrences_def w_options_def w_oa_def w_ob_def upt_rec)

lemma w_distinct: "w_oa \<noteq> w_ob"
  by (simp add: w_oa_def w_ob_def)

lemma w_valid: "validateActionCatalog (w_action i) [''a'', ''b''] [] = Guard_Valid" if "i = ''a'' \<or> i = ''b''"
  using that by (auto simp: validateActionCatalog_def w_action_def map_get_def action_id_ok_def route_class_ok_def
      is_alnum_def is_lower_letter_def code_unit_def)

lemma w_guard: "guardSequence (w_c b) [w_oa, w_ob] = Guard_Valid" "guardSequence (w_c b) [w_oa] = Guard_Valid" "guardSequence (w_c b) [w_ob] = Guard_Valid"
proof -
  have "guard_items (w_c b) [w_oa, w_ob] = Guard_Valid" "guard_items (w_c b) [w_oa] = Guard_Valid" "guard_items (w_c b) [w_ob] = Guard_Valid"
    using w_valid by (simp_all add: w_context w_oa_def w_ob_def) (simp_all add: w_action_def)
  moreover have "safeGuardFromContract (mc_safety (w_c b)) = Guard_Valid" "mo_preconditionCheck (mc_options (w_c b)) = None"
    by (simp_all add: w_context safeGuardFromContract_def PASSIVE_MINIMIZATION_SAFETY_def w_options_def)
  ultimately show "guardSequence (w_c b) [w_oa, w_ob] = Guard_Valid" "guardSequence (w_c b) [w_oa] = Guard_Valid" "guardSequence (w_c b) [w_ob] = Guard_Valid"
    by (simp_all add: guardSequence_def)
qed

definition w_ed :: "min_budget \<Rightarrow> occurrence list \<Rightarrow> evaluated" where
  "w_ed b s = replay_evaluated (w_c b) s (w_outcome (length s = 2))"

lemma w_replay: "replay_result (w_c b) s phase n = w_outcome (length s = 2)"
  by (simp add: replay_result_def w_context) (simp add: w_options_def normalizeExecutorOutcome_def w_outcome_def)

lemma w_disposition: "ev_disposition (ed_evaluation (w_ed b s)) = (if length s = 2 then REPRODUCES else DOES_NOT_REPRODUCE)"
  by (simp add: w_ed_def replay_evaluated_def outcomeReason_def w_outcome_def w_context ZERO_SAFETY_def allZeroSafety_def)
     (simp add: w_options_def)

lemma w_evaluate:
  assumes "map_get (ms_cache st) (sequenceKey s) = None" and "guardSequence (w_c b) s = Guard_Valid"
    and "phase = REDUCED_CANDIDATE \<Longrightarrow> int (ms_candidateEvaluations st) < mb_maxCandidateEvaluations b"
    and "int (ms_replayCount st) < mb_maxTotalReplays b"
  shows "evaluate (w_c b) s phase st = record_evaluated (w_ed b s)
    (count_replay phase (w_ed b s) (st\<lparr>ms_candidateEvaluations := ms_candidateEvaluations st + (if phase = REDUCED_CANDIDATE then 1 else 0)\<rparr>))"
  using assms by (auto simp: evaluate_def w_context replay_candidate_def w_replay w_ed_def Let_def)

lemma w_keys: "sequenceKey [w_oa, w_ob] = ''0:a>1:b''" "sequenceKey [w_oa] = ''0:a''" "sequenceKey [w_ob] = ''1:b''"
  by (simp_all add: sequenceKey_def w_oa_def w_ob_def w_action_def nat_to_dec.simps digit_char_def char_of_def bit_iff_odd)

definition w_next :: "min_budget \<Rightarrow> replay_phase \<Rightarrow> occurrence list \<Rightarrow> min_state \<Rightarrow> min_state" where
  "w_next b phase s st = snd (record_evaluated (w_ed b s)
    (count_replay phase (w_ed b s) (st\<lparr>ms_candidateEvaluations := ms_candidateEvaluations st + (if phase = REDUCED_CANDIDATE then 1 else 0)\<rparr>)))"

lemma w_next_fields:
  "ms_candidateEvaluations (w_next b REDUCED_CANDIDATE s st) = ms_candidateEvaluations st + 1"
  "ms_candidateEvaluations (w_next b FRESH_EXACT_REPLAY s st) = ms_candidateEvaluations st"
  "ms_replayCount (w_next b phase s st) = ms_replayCount st + 1"
  "map_get (ms_cache (w_next b phase s st)) k = (if k = sequenceKey s then Some (w_ed b s) else map_get (ms_cache st) k)"
  by (simp_all add: w_next_def record_evaluated_def count_replay_def Let_def map_get_set) (simp_all add: w_ed_def replay_evaluated_of)

lemma w_step:
  "map_get (ms_cache st) (sequenceKey s) = None \<Longrightarrow> guardSequence (w_c b) s = Guard_Valid \<Longrightarrow>
   (phase = REDUCED_CANDIDATE \<Longrightarrow> int (ms_candidateEvaluations st) < mb_maxCandidateEvaluations b) \<Longrightarrow> int (ms_replayCount st) < mb_maxTotalReplays b \<Longrightarrow> evaluate (w_c b) s phase st = (w_ed b s, w_next b phase s st)"
  using w_evaluate [of st s b phase] by (simp add: w_next_def record_evaluated_def)

definition w_enough :: "min_budget \<Rightarrow> bool" where
  "w_enough b = (2 \<le> mb_maxCandidateEvaluations b \<and> 3 \<le> mb_maxTotalReplays b
     \<and> mb_maxCandidateEvaluations b \<le> mb_maxTotalReplays b)"

definition w_end :: "min_budget \<Rightarrow> min_state" where
  "w_end b = w_next b REDUCED_CANDIDATE [w_oa] (w_next b REDUCED_CANDIDATE [w_ob] (w_next b FRESH_EXACT_REPLAY [w_oa, w_ob] initial_min_state))"

lemma w_initial: "map_get (ms_cache initial_min_state) k = None" "ms_candidateEvaluations initial_min_state = 0"
  "ms_replayCount initial_min_state = 0"
  by (simp_all add: initial_min_state_def map_get_def)

lemma w_fresh: "1 \<le> mb_maxTotalReplays b \<Longrightarrow> evaluate (w_c b) [w_oa, w_ob] FRESH_EXACT_REPLAY initial_min_state
    = (w_ed b [w_oa, w_ob], w_next b FRESH_EXACT_REPLAY [w_oa, w_ob] initial_min_state)"
  by (rule w_step) (simp_all add: w_guard w_initial)

lemma w_chunks: "splitIntoChunks [w_oa, w_ob] 2 = [[w_oa], [w_ob]]"
  "withoutChunk [w_oa, w_ob] [w_oa] = [w_ob]" "withoutChunk [w_oa, w_ob] [w_ob] = [w_oa]"
  using w_distinct by (simp_all add: splitIntoChunks_def numeral_2_eq_2 withoutChunk_def)

lemma w_try: "w_enough b \<Longrightarrow> try_chunks (w_c b) [w_oa, w_ob] [[w_oa], [w_ob]] (w_next b FRESH_EXACT_REPLAY [w_oa, w_ob] initial_min_state) = (No_Chunk, w_end b)"
proof -
  assume "w_enough b"
  then have b: "2 \<le> mb_maxCandidateEvaluations b" "3 \<le> mb_maxTotalReplays b" by (simp_all add: w_enough_def)
  let ?s1 = "w_next b FRESH_EXACT_REPLAY [w_oa, w_ob] initial_min_state"
  let ?s2 = "w_next b REDUCED_CANDIDATE [w_ob] ?s1"
  have 1: "evaluate (w_c b) [w_ob] REDUCED_CANDIDATE ?s1 = (w_ed b [w_ob], ?s2)"
    by (rule w_step) (use b in \<open>simp_all add: w_guard w_next_fields w_keys w_initial\<close>)
  have 2: "evaluate (w_c b) [w_oa] REDUCED_CANDIDATE ?s2 = (w_ed b [w_oa], (w_end b))"
    unfolding w_end_def
    by (rule w_step) (use b in \<open>simp_all add: w_guard w_next_fields w_keys w_initial\<close>)
  show ?thesis using 1 2 by (simp add: w_chunks w_disposition)
qed

lemma w_reduce:
  "w_enough b \<Longrightarrow> while_option reduce_going (reduce_step (w_c b)) (reduce_start [w_oa, w_ob] (w_next b FRESH_EXACT_REPLAY [w_oa, w_ob] initial_min_state))
   = Some \<lparr>ls_current = [w_oa, w_ob], ls_granularity = 2, ls_budgetExhausted = False, ls_reduced = False, ls_stop = True, ls_state = (w_end b)\<rparr>"
proof -
  assume enough: "w_enough b"
  let ?st = "w_next b FRESH_EXACT_REPLAY [w_oa, w_ob] initial_min_state"
  let ?s = "\<lparr>ls_current = [w_oa, w_ob], ls_granularity = 2, ls_budgetExhausted = False, ls_reduced = False, ls_stop = False, ls_state = ?st\<rparr>"
  have start: "reduce_start [w_oa, w_ob] ?st = ?s" by (simp add: reduce_start_def)
  have step: "reduce_step (w_c b) ?s = ?s\<lparr>ls_stop := True, ls_state := (w_end b)\<rparr>"
    using w_try [OF enough] by (simp add: reduce_step_def w_chunks(1))
  have "reduce_going ?s" "\<not> reduce_going (?s\<lparr>ls_stop := True, ls_state := (w_end b)\<rparr>)" by (simp_all add: reduce_going_def)
  then have "while_option reduce_going (reduce_step (w_c b)) ?s = Some (?s\<lparr>ls_stop := True, ls_state := (w_end b)\<rparr>)"
    using step while_option_unfold [of reduce_going "reduce_step (w_c b)" ?s]
      while_option_unfold [of reduce_going "reduce_step (w_c b)" "?s\<lparr>ls_stop := True, ls_state := (w_end b)\<rparr>"] by simp
  then show ?thesis using start by simp
qed

lemma w_audit: "audit_pass (w_c b) [w_oa, w_ob] [0, 1] [] (w_end b) = (No_Chunk, [DOES_NOT_REPRODUCE, DOES_NOT_REPRODUCE], (w_end b))"
proof -
  have "map_get (ms_cache (w_end b)) (sequenceKey [w_ob]) = Some (w_ed b [w_ob])" "map_get (ms_cache (w_end b)) (sequenceKey [w_oa]) = Some (w_ed b [w_oa])"
    by (simp_all add: w_end_def w_next_fields w_keys)
  then have "evaluate (w_c b) [w_ob] REDUCED_CANDIDATE (w_end b) = (w_ed b [w_ob], (w_end b))" "evaluate (w_c b) [w_oa] REDUCED_CANDIDATE (w_end b) = (w_ed b [w_oa], (w_end b))"
    by (simp_all add: evaluate_def)
  then show ?thesis by (simp add: remove_position_def w_disposition)
qed

definition w_audited :: "min_budget \<Rightarrow> audit_state" where
  "w_audited b = \<lparr>as_current = [w_oa, w_ob], as_budgetExhausted = False, as_reduced = False, as_changed = False,
     as_dispositions = [DOES_NOT_REPRODUCE, DOES_NOT_REPRODUCE], as_state = w_end b\<rparr>"

lemma w_run_result:
  "w_enough b \<Longrightarrow> minimizeFailure (w_options b) = Inr (Some (conclude (w_c b) [w_oa, w_ob] (w_audited b)))"
proof -
  assume enough: "w_enough b"
  let ?s = "\<lparr>ls_current = [w_oa, w_ob], ls_granularity = 2, ls_budgetExhausted = False, ls_reduced = False, ls_stop = True, ls_state = (w_end b)\<rparr>"
  have upt: "[0..<length [w_oa, w_ob]] = [0, 1]" by (simp add: upt_rec)
  have "audit_step (w_c b) (audit_of ?s) = w_audited b"
    using w_audit upt by (simp add: audit_step_def audit_of_def w_audited_def)
  then have "while_option audit_going (audit_step (w_c b)) (audit_of ?s) = Some (w_audited b)"
    by (subst while_option_unfold, simp add: audit_going_def audit_of_def) (subst while_option_unfold, simp add: audit_going_def w_audited_def)
  moreover have "\<not> mb_maxCandidateEvaluations (mc_budget (w_c b)) < 0" "\<not> mb_maxTotalReplays (mc_budget (w_c b)) < 1"
      "\<not> mb_maxTotalReplays (mc_budget (w_c b)) < mb_maxCandidateEvaluations (mc_budget (w_c b))" "1 \<le> mb_maxTotalReplays b"
    using enough by (simp_all add: w_context w_enough_def)
  ultimately show ?thesis
    using w_fresh w_reduce [OF enough] w_disposition [of b "[w_oa, w_ob]"] w_guard(1) w_occurrences
    by (simp add: minimizeFailure_def Let_def w_c_def [symmetric]) (simp add: w_options_def)
qed

lemma w_end_evaluations: "ms_evaluations (w_end b) = map (\<lambda>s. ed_evaluation (w_ed b s)) [[w_oa, w_ob], [w_ob], [w_oa]]"
  "ms_reducedReplayInvocations (w_end b) = 2" "ms_replayCount (w_end b) = 3"
  by (simp_all add: w_end_def w_next_def record_evaluated_def count_replay_def Let_def initial_min_state_def)

lemma w_run_evidence: "mr_reductionEvidenceClass (conclude (w_c b) [w_oa, w_ob] (w_audited b)) = MINIMALITY_PROVEN"
  by (simp add: conclude_def resultBase_def Let_def classifyReductionEvidence_def w_disposition w_end_evaluations w_audited_def)

lemma w_run:
  "w_enough b \<Longrightarrow> \<exists>r. minimizeFailure (w_options b) = Inr (Some r) \<and> mr_minimalityGuarantee r = ONE_MINIMAL \<and> mr_freshExactReplay r = FRESH_REPRODUCED
     \<and> mr_minimalOrdinals r = Some [0, 1] \<and> mr_reductionEvidenceClass r = MINIMALITY_PROVEN"
  using w_run_result w_run_evidence
  by (simp add: conclude_fields conclude_guarantee) (simp add: occurrenceOrdinals_def w_oa_def w_ob_def w_audited_def)

lemma w_real: "w_enough REAL_DEV_MINIMIZATION_BUDGET"
  by (simp add: w_enough_def REAL_DEV_MINIMIZATION_BUDGET_def)

theorem minimizer_result_reproduces_witness:
  "\<exists>r. minimizeFailure (w_options REAL_DEV_MINIMIZATION_BUDGET) = Inr (Some r) \<and> mr_freshExactReplay r = FRESH_REPRODUCED
     \<and> (\<exists>n<mr_replayCount r. \<exists>phase as out. mo_replay (w_options REAL_DEV_MINIMIZATION_BUDGET) n phase as = Some out \<and> shows_anomaly ''f'' out)"
proof -
  obtain r where r: "minimizeFailure (w_options REAL_DEV_MINIMIZATION_BUDGET) = Inr (Some r)" "mr_freshExactReplay r = FRESH_REPRODUCED" using w_run [OF w_real] by blast
  have "mo_anomalyFingerprint (w_options REAL_DEV_MINIMIZATION_BUDGET) = ''f''" by (simp add: w_options_def)
  then show ?thesis using minimizer_result_reproduces [OF r] r by metis
qed


theorem minimizer_within_budget_witness:
  "\<exists>r. minimizeFailure (w_options REAL_DEV_MINIMIZATION_BUDGET) = Inr (Some r) \<and> int (mr_replayCount r) \<le> mb_maxTotalReplays (mr_budget r)"
proof -
  obtain r where r: "minimizeFailure (w_options REAL_DEV_MINIMIZATION_BUDGET) = Inr (Some r)" using w_run [OF w_real] by blast
  then show ?thesis using minimizer_within_budget [OF r] by blast
qed

theorem minimizer_terminates_witness: "\<exists>r. minimizeFailure (w_options REAL_DEV_MINIMIZATION_BUDGET) = Inr (Some r)"
proof (rule minimizer_terminates)
  show "budget_ok (mc_budget (min_context_of (w_options REAL_DEV_MINIMIZATION_BUDGET)))"
    using w_context(6) [of REAL_DEV_MINIMIZATION_BUDGET] by (simp add: w_c_def budget_ok_def REAL_DEV_MINIMIZATION_BUDGET_def)
  show "mo_originalSequence (w_options REAL_DEV_MINIMIZATION_BUDGET) \<noteq> []" by (simp add: w_options_def)
qed

theorem executor_failure_counts_as_non_reproduction_witness:
  "fst (outcomeReason (normalizeExecutorOutcome ((w_outcome True)\<lparr>ro_anomalyFingerprint := Some ''g'',
      ro_executorFailure := Some EXECUTOR_NONDETERMINISTIC\<rparr>) ''f'') ''f'') = DOES_NOT_REPRODUCE"
  using executor_failure_counts_as_non_reproduction
    [of "(w_outcome True)\<lparr>ro_anomalyFingerprint := Some ''g'', ro_executorFailure := Some EXECUTOR_NONDETERMINISTIC\<rparr>"
        EXECUTOR_NONDETERMINISTIC "''g''" "''f''"]
  by (simp add: w_outcome_def allZeroSafety_def ZERO_SAFETY_def)

end
