(* ===== verification/Minimality_Evidence.thy ===== *)
theory Minimality_Evidence imports Minimizer_Properties begin

text \<open>
  The portable evidence behind a minimality claim: \<open>src/core/triage/minimalityEvidence.ts\<close> and
  \<open>buildMinimalityEvidence\<close> of \<open>minimizer.ts\<close>. The survivor digest (SHA-256 of the canonical
  JSON) is a parameter. The builder takes typed fields, so its checks of unknown probe
  outcomes, replay paths and field types cannot fire; the parser of persisted evidence is not
  modelled.
\<close>

section \<open>Data\<close>

datatype probe_outcome = Probe_Pass | Probe_Failure | Probe_Invalid | Probe_Precondition_Divergence
  | Probe_Unsupported | Probe_Not_Reduced

datatype replay_path = EXACT | REDUCED

record deletion_disposition =
  dd_actionId :: string
  dd_probeOutcome :: probe_outcome
  dd_replayPath :: replay_path

record budget_consumption =
  bc_dimension :: string
  bc_offered :: int
  bc_consumed :: int

record evidence_fields =
  ef_evidenceClass :: evidence_class
  ef_reductionAttempted :: bool
  ef_exercisedReducedReplayCount :: nat
  ef_survivorDeletions :: "deletion_disposition list"
  ef_budget :: "budget_consumption list"
  ef_survivorActionIds :: "string list"

record minimality_evidence =
  me_evidenceClass :: evidence_class
  me_reductionAttempted :: bool
  me_exercisedReducedReplayCount :: nat
  me_survivorDeletions :: "deletion_disposition list"
  me_budget :: "budget_consumption list"
  me_survivorIdentityDigest :: string

datatype evidence_error = DELETION_ACTION_ID_REQUIRED | BUDGET_DIMENSION_REQUIRED | BUDGET_ACCOUNTING_INCOHERENT
  | PROVEN_MARKERS_MISMATCH_CLASS evidence_class | ZERO_REDUCTION_CANNOT_BE_PROVEN
  | AMBIGUOUS_SURVIVOR_OCCURRENCE | AMBIGUOUS_SURVIVOR_DELETION

section \<open>Operations\<close>

definition probeOutcomeFromDisposition :: "disposition \<Rightarrow> eval_reason \<Rightarrow> probe_outcome" where
  "probeOutcomeFromDisposition d r =
     (case d of
        REPRODUCES \<Rightarrow> Probe_Pass
      | DOES_NOT_REPRODUCE \<Rightarrow> Probe_Failure
      | INVALID \<Rightarrow> if r = Guard_Reason PRECONDITION_DIVERGENCE then Probe_Precondition_Divergence else Probe_Invalid
      | NOT_EVALUATED_BUDGET \<Rightarrow> Probe_Not_Reduced)"

definition check_deletion :: "deletion_disposition \<Rightarrow> (evidence_error, unit) result" where
  "check_deletion d = guard_res (dd_actionId d \<noteq> []) DELETION_ACTION_ID_REQUIRED"

definition check_budget :: "budget_consumption \<Rightarrow> (evidence_error, unit) result" where
  "check_budget e = bind_res (guard_res (bc_dimension e \<noteq> []) BUDGET_DIMENSION_REQUIRED) (\<lambda>_.
     guard_res (0 \<le> bc_offered e \<and> 0 \<le> bc_consumed e \<and> bc_consumed e \<le> bc_offered e) BUDGET_ACCOUNTING_INCOHERENT)"

definition proven_markers :: "evidence_fields \<Rightarrow> bool" where
  "proven_markers f = (ef_reductionAttempted f \<and> 1 \<le> ef_exercisedReducedReplayCount f
     \<and> list_ex (\<lambda>d. dd_replayPath d = REDUCED) (ef_survivorDeletions f))"

definition buildMinimalityEvidenceDto ::
  "(string list \<Rightarrow> string) \<Rightarrow> evidence_fields \<Rightarrow> (evidence_error, minimality_evidence) result" where
  "buildMinimalityEvidenceDto digest f =
     bind_res (all_ok check_deletion (ef_survivorDeletions f)) (\<lambda>_.
     bind_res (all_ok check_budget (ef_budget f)) (\<lambda>_.
     if (ef_evidenceClass f = MINIMALITY_PROVEN) \<noteq> proven_markers f
       then Inl (PROVEN_MARKERS_MISMATCH_CLASS (ef_evidenceClass f))
     else if ef_evidenceClass f = MINIMALITY_PROVEN \<and> ef_exercisedReducedReplayCount f < 1
       then Inl ZERO_REDUCTION_CANNOT_BE_PROVEN
     else Inr \<lparr>me_evidenceClass = ef_evidenceClass f, me_reductionAttempted = ef_reductionAttempted f,
            me_exercisedReducedReplayCount = ef_exercisedReducedReplayCount f,
            me_survivorDeletions = ef_survivorDeletions f, me_budget = ef_budget f,
            me_survivorIdentityDigest = digest (ef_survivorActionIds f)\<rparr>))"

text \<open>One pass of the loop over the survivor's positions: nothing to add, or one disposition.\<close>

definition survivor_deletion ::
  "min_result \<Rightarrow> string list \<Rightarrow> nat \<Rightarrow> (evidence_error, deletion_disposition list) result" where
  "survivor_deletion r ids i =
     (let matches = filter (\<lambda>e. ev_sequence e = remove_position i ids) (mr_candidateEvaluations r)
      in if 1 < length matches \<and> mr_reductionEvidenceClass r = MINIMALITY_PROVEN then Inl AMBIGUOUS_SURVIVOR_DELETION
         else Inr (case matches of
             [e] \<Rightarrow> [\<lparr>dd_actionId = ids ! i, dd_probeOutcome = probeOutcomeFromDisposition (ev_disposition e) (ev_reason e),
                      dd_replayPath = REDUCED\<rparr>]
           | _ \<Rightarrow> []))"

definition buildMinimalityEvidence ::
  "(string list \<Rightarrow> string) \<Rightarrow> min_result \<Rightarrow> (evidence_error, minimality_evidence) result" where
  "buildMinimalityEvidence digest r =
     (let ids = mr_minimalReproducingSequence r
      in if \<not> distinct ids \<and> mr_reductionEvidenceClass r = MINIMALITY_PROVEN then Inl AMBIGUOUS_SURVIVOR_OCCURRENCE
         else bind_res (if 1 < length ids then map_res (survivor_deletion r ids) [0..<length ids] else Inr []) (\<lambda>deletions.
           buildMinimalityEvidenceDto digest
             \<lparr>ef_evidenceClass = mr_reductionEvidenceClass r,
              ef_reductionAttempted =
                list_ex (\<lambda>e. ev_disposition e \<noteq> NOT_EVALUATED_BUDGET) (tl (mr_candidateEvaluations r)),
              ef_exercisedReducedReplayCount = (if mr_status r \<noteq> INVALID_ORIGINAL then mr_replayCount r - 1 else 0),
              ef_survivorDeletions = concat deletions,
              ef_budget =
                [\<lparr>bc_dimension = ''maxCandidateEvaluations'', bc_offered = mb_maxCandidateEvaluations (mr_budget r),
                  bc_consumed = int (mr_candidateEvaluationCount r)\<rparr>,
                 \<lparr>bc_dimension = ''maxTotalReplays'', bc_offered = mb_maxTotalReplays (mr_budget r),
                  bc_consumed = int (mr_replayCount r)\<rparr>],
              ef_survivorActionIds = ids\<rparr>))"

section \<open>What built evidence means\<close>

lemma dto_Inr:
  "buildMinimalityEvidenceDto digest f = Inr e \<Longrightarrow>
   (ef_evidenceClass f = MINIMALITY_PROVEN) = proven_markers f \<and> me_evidenceClass e = ef_evidenceClass f
   \<and> me_reductionAttempted e = ef_reductionAttempted f
   \<and> me_exercisedReducedReplayCount e = ef_exercisedReducedReplayCount f \<and> me_survivorDeletions e = ef_survivorDeletions f"
  by (auto simp: buildMinimalityEvidenceDto_def split: if_splits)

lemma survivor_deletion_Inr:
  "survivor_deletion r ids i = Inr ds \<Longrightarrow> d \<in> set ds \<Longrightarrow> dd_actionId d = ids ! i \<and>
    (\<exists>e. filter (\<lambda>e. ev_sequence e = remove_position i ids) (mr_candidateEvaluations r) = [e]
       \<and> dd_probeOutcome d = probeOutcomeFromDisposition (ev_disposition e) (ev_reason e))"
  by (auto simp: survivor_deletion_def Let_def split: if_splits list.splits)

lemma evidence_deletions:
  assumes "buildMinimalityEvidence digest r = Inr e" and "d \<in> set (me_survivorDeletions e)"
  shows "\<exists>i<length (mr_minimalReproducingSequence r). dd_actionId d = mr_minimalReproducingSequence r ! i \<and>
    (\<exists>v\<in>set (mr_candidateEvaluations r). ev_sequence v = remove_position i (mr_minimalReproducingSequence r)
       \<and> dd_probeOutcome d = probeOutcomeFromDisposition (ev_disposition v) (ev_reason v))"
proof -
  let ?ids = "mr_minimalReproducingSequence r"
  obtain dss where dss: "(if 1 < length ?ids then map_res (survivor_deletion r ?ids) [0..<length ?ids] else Inr []) = Inr dss"
      "d \<in> set (concat dss)"
    using assms by (auto simp: buildMinimalityEvidence_def Let_def split: if_splits dest!: dto_Inr)
  then have all: "list_all2 (\<lambda>i ds. survivor_deletion r ?ids i = Inr ds) [0..<length ?ids] dss"
    by (auto simp: map_res_Inr_iff split: if_splits)
  obtain ds where "ds \<in> set dss" "d \<in> set ds" using dss(2) by auto
  then obtain i where i: "i < length ?ids" "survivor_deletion r ?ids i = Inr ds"
    using list_all2_memR [OF all] by fastforce
  obtain v where "dd_actionId d = ?ids ! i" "filter (\<lambda>e. ev_sequence e = remove_position i ?ids) (mr_candidateEvaluations r) = [v]"
      "dd_probeOutcome d = probeOutcomeFromDisposition (ev_disposition v) (ev_reason v)"
    using survivor_deletion_Inr [OF i(2) \<open>d \<in> set ds\<close>] by blast
  moreover from this(2) have "v \<in> set (mr_candidateEvaluations r) \<and> ev_sequence v = remove_position i ?ids"
    by (auto simp: filter_eq_Cons_iff)
  ultimately show ?thesis using i(1) by blast
qed

text \<open>Built evidence never overclaims: it says \<open>MINIMALITY_PROVEN\<close> exactly when a reduction
  was attempted, a reduced replay was exercised and a deletion disposition is present; and
  every disposition it lists repeats a candidate evaluation the minimizer recorded for the
  survivor with that one action removed.\<close>

theorem built_evidence_is_grounded:
  assumes "buildMinimalityEvidence digest r = Inr e"
  shows "(me_evidenceClass e = MINIMALITY_PROVEN \<longleftrightarrow> me_reductionAttempted e \<and> 1 \<le> me_exercisedReducedReplayCount e
      \<and> (\<exists>d\<in>set (me_survivorDeletions e). dd_replayPath d = REDUCED))
    \<and> me_evidenceClass e = mr_reductionEvidenceClass r
    \<and> (\<forall>d\<in>set (me_survivorDeletions e). \<exists>i<length (mr_minimalReproducingSequence r).
         dd_actionId d = mr_minimalReproducingSequence r ! i \<and>
         (\<exists>v\<in>set (mr_candidateEvaluations r). ev_sequence v = remove_position i (mr_minimalReproducingSequence r)
            \<and> dd_probeOutcome d = probeOutcomeFromDisposition (ev_disposition v) (ev_reason v)))"
proof (intro conjI ballI)
  show "me_evidenceClass e = MINIMALITY_PROVEN \<longleftrightarrow> me_reductionAttempted e \<and> 1 \<le> me_exercisedReducedReplayCount e
      \<and> (\<exists>d\<in>set (me_survivorDeletions e). dd_replayPath d = REDUCED)"
    using assms by (auto simp: buildMinimalityEvidence_def Let_def proven_markers_def list_ex_iff split: if_splits dest!: dto_Inr)
  show "me_evidenceClass e = mr_reductionEvidenceClass r"
    using assms by (auto simp: buildMinimalityEvidence_def Let_def split: if_splits dest!: dto_Inr)
qed (rule evidence_deletions [OF assms])

section \<open>Evidence of a run\<close>

lemma run_ids_ok:
  assumes "minimizeFailure opts = Inr (Some r)" and "x \<in> set (mr_minimalReproducingSequence r)"
  shows "x \<noteq> [] \<and> mr_status r \<noteq> INVALID_ORIGINAL"
  using assms(1)
proof (cases rule: minimize_cases)
  case (unreproduced r')
  then show ?thesis using assms
    by (auto simp: minimizeFailure_def Let_def resultBase_def conclude_def bind_eq_Some_conv split: if_splits prod.splits)
next
  case (reproduced a)
  let ?os = "occurrences (mo_originalSequence opts)"
  have "guardSequence (min_context_of opts) ?os = Guard_Valid"
    using assms by (auto simp: minimizeFailure_def Let_def resultBase_def split: if_splits)
  then have "guard_items (min_context_of opts) ?os = Guard_Valid" by (auto simp: guardSequence_def split: guard_result.splits)
  then have ids: "ma_actionId (oc_action y) \<noteq> []" if "y \<in> set ?os" for y
    using guard_items_ids that by (fastforce simp: action_id_ok_def)
  have "set (as_current a) \<subseteq> set ?os" using reproduced(2) subseq_set unfolding audit_inv_def by blast
  moreover have "x \<in> set (actionIds (as_current a))" using assms(2) reproduced(1) by (simp add: conclude_fields)
  ultimately have "x \<noteq> []" using ids by (auto simp: actionIds_def)
  moreover have "mr_status r \<noteq> INVALID_ORIGINAL"
    using reproduced(1) by (simp add: conclude_def resultBase_def Let_def)
  ultimately show ?thesis by simp
qed

lemma run_budget_checks:
  assumes "minimizeFailure opts = Inr (Some r)"
  shows "check_budget \<lparr>bc_dimension = ''maxCandidateEvaluations'', bc_offered = mb_maxCandidateEvaluations (mr_budget r),
           bc_consumed = int (mr_candidateEvaluationCount r)\<rparr> = Inr ()"
    and "check_budget \<lparr>bc_dimension = ''maxTotalReplays'', bc_offered = mb_maxTotalReplays (mr_budget r),
           bc_consumed = int (mr_replayCount r)\<rparr> = Inr ()"
  using run_within_budget [OF assms] by (simp_all add: check_budget_def)

text \<open>Evidence of an honest but unproven run cannot be built: when the run was not proven
  minimal although it replayed a reduced candidate that deletes one action of the survivor
  (it ran out of budget, or another deletion was rejected before its replay), every
  recorded deletion is marked as made on the reduced path, the proven markers are all
  present, and the builder throws instead of reporting \<open>MINIMALITY_NOT_PROVEN\<close>.\<close>

theorem unproven_evidence_is_refused:
  assumes run: "minimizeFailure opts = Inr (Some r)" and unproven: "mr_reductionEvidenceClass r \<noteq> MINIMALITY_PROVEN"
    and many: "1 < length (mr_minimalReproducingSequence r)" and i: "i < length (mr_minimalReproducingSequence r)"
    and one: "filter (\<lambda>e. ev_sequence e = remove_position i (mr_minimalReproducingSequence r)) (mr_candidateEvaluations r) = [v]"
    and v: "v \<in> set (tl (mr_candidateEvaluations r))" "ev_disposition v \<noteq> NOT_EVALUATED_BUDGET"
    and replays: "2 \<le> mr_replayCount r"
  shows "buildMinimalityEvidence digest r = Inl (PROVEN_MARKERS_MISMATCH_CLASS (mr_reductionEvidenceClass r))"
proof -
  let ?ids = "mr_minimalReproducingSequence r" and ?p = "\<lambda>j e. ev_sequence e = remove_position j (mr_minimalReproducingSequence r)"
  define dels where "dels = (\<lambda>j. case filter (?p j) (mr_candidateEvaluations r) of
      [e] \<Rightarrow> [\<lparr>dd_actionId = ?ids ! j, dd_probeOutcome = probeOutcomeFromDisposition (ev_disposition e) (ev_reason e), dd_replayPath = REDUCED\<rparr>]
    | _ \<Rightarrow> [])"
  have dels: "survivor_deletion r ?ids j = Inr (dels j)" for j using unproven by (simp add: survivor_deletion_def dels_def)
  have "map_res (survivor_deletion r ?ids) js = Inr (map dels js)" for js by (induction js) (simp_all add: dels)
  then have deletions: "map_res (survivor_deletion r ?ids) [0..<length ?ids] = Inr (map dels [0..<length ?ids])" by blast
  let ?ds = "concat (map dels [0..<length ?ids])"
  have named: "dd_actionId d \<noteq> []" if d: "d \<in> set ?ds" for d
  proof -
    obtain j where "j < length ?ids" "d \<in> set (dels j)" using d by auto
    then have "dd_actionId d = ?ids ! j" by (auto simp: dels_def split: list.splits)
    then show ?thesis using run_ids_ok [OF run] \<open>j < length ?ids\<close> by simp
  qed
  have "dels i = [\<lparr>dd_actionId = ?ids ! i, dd_probeOutcome = probeOutcomeFromDisposition (ev_disposition v) (ev_reason v), dd_replayPath = REDUCED\<rparr>]"
    using one by (simp add: dels_def)
  then have reduced: "\<exists>d\<in>set ?ds. dd_replayPath d = REDUCED" using i by force
  have checked: "all_ok check_deletion ?ds = Inr ()" unfolding all_ok_Inr_iff check_deletion_def guard_res_iff using named by blast
  have attempted: "list_ex (\<lambda>e. ev_disposition e \<noteq> NOT_EVALUATED_BUDGET) (tl (mr_candidateEvaluations r))"
    using v by (auto simp: list_ex_iff)
  have "mr_status r \<noteq> INVALID_ORIGINAL" using run_ids_ok [OF run nth_mem [OF i]] by blast
  moreover have "1 \<le> mr_replayCount r - 1" using replays by simp
  ultimately show ?thesis using unproven many deletions checked attempted run_budget_checks [OF run] reduced
    by (simp add: buildMinimalityEvidence_def buildMinimalityEvidenceDto_def proven_markers_def list_ex_iff Let_def del: set_concat all_ok_Inr_iff)
qed

section \<open>A run that spends its budget\<close>

definition w_tight :: min_budget where
  "w_tight = \<lparr>mb_maxCandidateEvaluations = 1, mb_maxTotalReplays = 2\<rparr>"

definition w_spent :: min_state where
  "w_spent = w_next w_tight REDUCED_CANDIDATE [w_ob] (w_next w_tight FRESH_EXACT_REPLAY [w_oa, w_ob] initial_min_state)"

definition w_skipped :: min_state where
  "w_skipped = snd (skip_candidate [w_oa] BUDGET_EXHAUSTED w_spent)"

lemma w_spent_try: "try_chunks (w_c w_tight) [w_oa, w_ob] [[w_oa], [w_ob]]
   (w_next w_tight FRESH_EXACT_REPLAY [w_oa, w_ob] initial_min_state) = (Chunk_Budget, w_skipped)"
proof -
  let ?s1 = "w_next w_tight FRESH_EXACT_REPLAY [w_oa, w_ob] initial_min_state"
  have 1: "evaluate (w_c w_tight) [w_ob] REDUCED_CANDIDATE ?s1 = (w_ed w_tight [w_ob], w_spent)"
    unfolding w_spent_def by (rule w_step) (simp_all add: w_guard w_next_fields w_keys w_initial w_tight_def)
  have "map_get (ms_cache w_spent) (sequenceKey [w_oa]) = None" "ms_candidateEvaluations w_spent = 1"
    by (simp_all add: w_spent_def w_next_fields w_keys w_initial)
  then have "evaluate (w_c w_tight) [w_oa] REDUCED_CANDIDATE w_spent = skip_candidate [w_oa] BUDGET_EXHAUSTED w_spent"
    by (simp add: evaluate_def w_context w_tight_def)
  then show ?thesis using 1 by (simp add: w_chunks w_disposition w_skipped_def skip_candidate_def plain_evaluation_def Let_def)
qed

definition w_ended :: audit_state where
  "w_ended = \<lparr>as_current = [w_oa, w_ob], as_budgetExhausted = True, as_reduced = False, as_changed = True,
     as_dispositions = [], as_state = w_skipped\<rparr>"

lemma w_spent_run: "minimizeFailure (w_options w_tight) = Inr (Some (conclude (w_c w_tight) [w_oa, w_ob] w_ended))"
proof -
  let ?c = "w_c w_tight" and ?st = "w_next w_tight FRESH_EXACT_REPLAY [w_oa, w_ob] initial_min_state"
  let ?s = "\<lparr>ls_current = [w_oa, w_ob], ls_granularity = 2, ls_budgetExhausted = False, ls_reduced = False, ls_stop = False, ls_state = ?st\<rparr>"
  let ?t = "?s\<lparr>ls_budgetExhausted := True, ls_state := w_skipped\<rparr>"
  have step: "reduce_step ?c ?s = ?t" using w_spent_try by (simp add: reduce_step_def w_chunks(1))
  have "reduce_going ?s" "\<not> reduce_going ?t" by (simp_all add: reduce_going_def)
  then have "while_option reduce_going (reduce_step ?c) ?s = Some ?t"
    using step while_option_unfold [of reduce_going "reduce_step ?c" ?s]
      while_option_unfold [of reduce_going "reduce_step ?c" ?t] by simp
  moreover have "reduce_start [w_oa, w_ob] ?st = ?s" by (simp add: reduce_start_def)
  ultimately have reduced: "while_option reduce_going (reduce_step ?c) (reduce_start [w_oa, w_ob] ?st) = Some ?t" by simp
  have "audit_of ?t = w_ended" by (simp add: audit_of_def w_ended_def)
  moreover have "while_option audit_going (audit_step ?c) w_ended = Some w_ended"
    by (subst while_option_unfold) (simp add: audit_going_def w_ended_def)
  ultimately have audited: "while_option audit_going (audit_step ?c) (audit_of ?t) = Some w_ended" by (rule subst [OF sym])
  have fresh: "evaluate ?c [w_oa, w_ob] FRESH_EXACT_REPLAY initial_min_state = (w_ed w_tight [w_oa, w_ob], ?st)"
    by (rule w_fresh) (simp add: w_tight_def)
  have budget: "\<not> mb_maxCandidateEvaluations (mc_budget ?c) < 0" "\<not> mb_maxTotalReplays (mc_budget ?c) < 1"
      "\<not> mb_maxTotalReplays (mc_budget ?c) < mb_maxCandidateEvaluations (mc_budget ?c)"
    by (simp_all add: w_context w_tight_def)
  have "mo_originalSequence (w_options w_tight) \<noteq> []" by (simp add: w_options_def)
  then show ?thesis
    using fresh reduced audited budget w_disposition [of w_tight "[w_oa, w_ob]"] w_guard(1) [of w_tight] w_occurrences [of w_tight]
    unfolding minimizeFailure_def w_c_def [symmetric] by (simp add: Let_def)
qed

lemma w_spent_evaluations:
  "ms_evaluations w_skipped = [ed_evaluation (w_ed w_tight [w_oa, w_ob]), ed_evaluation (w_ed w_tight [w_ob]),
     plain_evaluation [w_oa] NOT_EVALUATED_BUDGET BUDGET_EXHAUSTED]"
  "ms_replayCount w_skipped = 2"
  by (simp_all add: w_skipped_def skip_candidate_def w_spent_def w_next_def record_evaluated_def count_replay_def Let_def initial_min_state_def)

lemma w_spent_sequences:
  "ev_sequence (ed_evaluation (w_ed w_tight s)) = actionIds s"
  by (simp add: w_ed_def replay_evaluated_def split: prod.split)

theorem unproven_evidence_is_refused_witness:
  "\<exists>r. minimizeFailure (w_options w_tight) = Inr (Some r) \<and> mr_reductionEvidenceClass r = MINIMALITY_NOT_PROVEN
     \<and> buildMinimalityEvidence concat r = Inl (PROVEN_MARKERS_MISMATCH_CLASS MINIMALITY_NOT_PROVEN)"
proof -
  let ?r = "conclude (w_c w_tight) [w_oa, w_ob] w_ended" and ?v = "ed_evaluation (w_ed w_tight [w_ob])"
  have cls: "mr_reductionEvidenceClass ?r = MINIMALITY_NOT_PROVEN"
    by (simp add: conclude_def resultBase_def Let_def classifyReductionEvidence_def w_ended_def)
  have evs: "mr_candidateEvaluations ?r = ms_evaluations w_skipped" "mr_replayCount ?r = ms_replayCount w_skipped"
    by (simp_all add: conclude_def resultBase_def Let_def w_ended_def)
  have ids: "mr_minimalReproducingSequence ?r = [''a'', ''b'']"
    by (simp add: conclude_fields w_ended_def actionIds_def w_oa_def w_ob_def w_action_def)
  have "buildMinimalityEvidence concat ?r = Inl (PROVEN_MARKERS_MISMATCH_CLASS (mr_reductionEvidenceClass ?r))"
    by (rule unproven_evidence_is_refused [OF w_spent_run, of 0 ?v])
       (simp_all add: cls evs ids w_spent_evaluations remove_position_def w_spent_sequences w_disposition,
        simp_all add: actionIds_def w_oa_def w_ob_def w_action_def plain_evaluation_def)
  then show ?thesis using w_spent_run cls by auto
qed

theorem built_evidence_is_grounded_witness:
  "\<exists>r e. minimizeFailure (w_options REAL_DEV_MINIMIZATION_BUDGET) = Inr (Some r)
     \<and> buildMinimalityEvidence concat r = Inr e \<and> me_evidenceClass e = MINIMALITY_PROVEN
     \<and> 1 \<le> me_exercisedReducedReplayCount e"
proof -
  let ?b = REAL_DEV_MINIMIZATION_BUDGET
  let ?r = "conclude (w_c ?b) [w_oa, w_ob] (w_audited ?b)"
  have run: "minimizeFailure (w_options ?b) = Inr (Some ?r)" by (rule w_run_result [OF w_real])
  have evs: "mr_candidateEvaluations ?r = ms_evaluations (w_end ?b)" "mr_replayCount ?r = 3" "mr_status ?r = UNCHANGED"
    by (simp_all add: conclude_def resultBase_def Let_def w_audited_def w_end_evaluations)
  have ids: "mr_minimalReproducingSequence ?r = [''a'', ''b'']"
    by (simp add: conclude_fields w_audited_def actionIds_def w_oa_def w_ob_def w_action_def)
  have seqs: "ev_sequence (ed_evaluation (w_ed ?b s)) = actionIds s" for s
    by (simp add: w_ed_def replay_evaluated_def split: prod.split)
  have acts: "actionIds [w_oa, w_ob] = [''a'', ''b'']" "actionIds [w_oa] = [''a'']" "actionIds [w_ob] = [''b'']"
    by (simp_all add: actionIds_def w_oa_def w_ob_def w_action_def)
  have dels: "survivor_deletion ?r [''a'', ''b''] 0 = Inr [\<lparr>dd_actionId = ''a'', dd_probeOutcome = Probe_Failure, dd_replayPath = REDUCED\<rparr>]"
      "survivor_deletion ?r [''a'', ''b''] 1 = Inr [\<lparr>dd_actionId = ''b'', dd_probeOutcome = Probe_Failure, dd_replayPath = REDUCED\<rparr>]"
    by (simp_all add: survivor_deletion_def evs w_end_evaluations seqs acts remove_position_def probeOutcomeFromDisposition_def w_disposition)
  have "list_ex (\<lambda>e. ev_disposition e \<noteq> NOT_EVALUATED_BUDGET) (tl (mr_candidateEvaluations ?r))"
    by (simp add: evs w_end_evaluations w_disposition)
  moreover have "[0..<length [''a'', ''b'']] = [0, 1]" by (simp add: upt_rec)
  ultimately obtain e where e: "buildMinimalityEvidence concat ?r = Inr e"
    using dels run_budget_checks [OF run]
    by (simp add: buildMinimalityEvidence_def ids evs w_run_evidence buildMinimalityEvidenceDto_def check_deletion_def proven_markers_def)
  then have "me_evidenceClass e = MINIMALITY_PROVEN" "1 \<le> me_exercisedReducedReplayCount e"
    using built_evidence_is_grounded [OF e] w_run_evidence by auto
  then show ?thesis using run e by blast
qed

end
