(* ===== verification/Runtime_Validation.thy ===== *)
theory Runtime_Validation imports Prelude begin

text \<open>
  The runtime guards for persisted JSON, \<open>src/core/campaign/runtimeValidation.ts\<close>. An error is
  the message the source throws, a string; a guard returns the value it narrowed. A missing
  property is \<open>None\<close>. Regular expressions without anchors are searched at every suffix of the
  text. \<open>assertIsoTimestamp\<close> (it needs \<open>Date.parse\<close>) and \<open>arraysExactlyEqual\<close> (identity of
  objects) are not modelled, and \<open>safeErrorDetail\<close> is modelled on strings.
\<close>

section \<open>Searching a text\<close>

fun tails :: "string \<Rightarrow> string list" where
  "tails [] = [[]]"
| "tails (c # s) = (c # s) # tails s"

definition search :: "(string \<Rightarrow> bool) \<Rightarrow> string \<Rightarrow> bool" where
  "search matches s = list_ex matches (tails s)"

definition all_in :: "string \<Rightarrow> (char \<Rightarrow> bool) \<Rightarrow> bool" where
  "all_in s P = list_all P s"

definition run_of :: "(char \<Rightarrow> bool) \<Rightarrow> nat \<Rightarrow> string \<Rightarrow> bool" where
  "run_of P n s = (n \<le> length (takeWhile P s))"

definition is_letter :: "char \<Rightarrow> bool" where
  "is_letter c = (is_lower_letter c \<or> is_upper_letter c)"

lemma tails_self [simp]: "s \<in> set (tails s)"
  by (cases s) auto

lemma tails_iff: "t \<in> set (tails s) \<longleftrightarrow> (\<exists>p. s = p @ t)"
proof (induction s)
  case (Cons c s)
  then show ?case by (auto simp: Cons_eq_append_conv)
qed simp

lemma search_iff: "search matches s \<longleftrightarrow> (\<exists>p t. s = p @ t \<and> matches t)"
  unfolding search_def list_ex_iff Bex_def tails_iff by blast

section \<open>Guards\<close>

type_synonym 'a checked = "(string, 'a) result"

definition requireRuntimeRecord :: "json option \<Rightarrow> string \<Rightarrow> (string \<times> json) list checked" where
  "requireRuntimeRecord v code = (case v of Some (JObj fs) \<Rightarrow> Inr fs | _ \<Rightarrow> Inl (code @ '':OBJECT_REQUIRED''))"

definition requireRuntimeArray :: "json option \<Rightarrow> string \<Rightarrow> json list checked" where
  "requireRuntimeArray v code = (case v of Some (JArr xs) \<Rightarrow> Inr xs | _ \<Rightarrow> Inl (code @ '':ARRAY_REQUIRED''))"

definition safe_field_name :: "string \<Rightarrow> bool" where
  "safe_field_name s = (1 \<le> length s \<and> length s \<le> 64 \<and> all_in s (\<lambda>c. is_alnum c \<or> c \<in> set ''_.:-''))"

definition safeFieldNameForDiagnostic :: "string \<Rightarrow> string" where
  "safeFieldNameForDiagnostic k = (if safe_field_name k then k else ''[UNSAFE_FIELD_NAME]'')"

definition assertExactKeys ::
  "(string \<times> json) list \<Rightarrow> string list \<Rightarrow> string \<Rightarrow> string list \<Rightarrow> unit checked" where
  "assertExactKeys fs allowed code optional =
     bind_res (all_ok (\<lambda>k. guard_res (k \<in> set (allowed @ optional))
                  (code @ '':UNKNOWN_FIELD:'' @ safeFieldNameForDiagnostic k)) (map fst fs)) (\<lambda>_.
       all_ok (\<lambda>k. guard_res (k \<in> fst ` set fs) (code @ '':MISSING_FIELD:'' @ safeFieldNameForDiagnostic k)) allowed)"

definition assertString :: "json option \<Rightarrow> string \<Rightarrow> string checked" where
  "assertString v code = (case v of Some (JStr s) \<Rightarrow> Inr s | _ \<Rightarrow> Inl (code @ '':STRING_REQUIRED''))"

definition assertBoolean :: "json option \<Rightarrow> string \<Rightarrow> bool checked" where
  "assertBoolean v code = (case v of Some (JBool b) \<Rightarrow> Inr b | _ \<Rightarrow> Inl (code @ '':BOOLEAN_REQUIRED''))"

definition assertNonNegativeInteger :: "json option \<Rightarrow> string \<Rightarrow> nat checked" where
  "assertNonNegativeInteger v code =
     (case v of
        Some (JNum q) \<Rightarrow> if is_integer q \<and> 0 \<le> q then Inr (nat \<lfloor>q\<rfloor>) else Inl (code @ '':NON_NEGATIVE_INTEGER_REQUIRED'')
      | _ \<Rightarrow> Inl (code @ '':NON_NEGATIVE_INTEGER_REQUIRED''))"

definition assertIntegerAtMost :: "json option \<Rightarrow> nat \<Rightarrow> string \<Rightarrow> nat checked" where
  "assertIntegerAtMost v maxValue code = bind_res (assertNonNegativeInteger v code) (\<lambda>n.
     if maxValue < n then Inl (code @ '':EXCEEDS_BOUND:'' @ nat_to_dec maxValue) else Inr n)"

definition assertFiniteNonNegative :: "json option \<Rightarrow> string \<Rightarrow> rat checked" where
  "assertFiniteNonNegative v code =
     (case v of
        Some (JNum q) \<Rightarrow> if 0 \<le> q then Inr q else Inl (code @ '':FINITE_NON_NEGATIVE_REQUIRED'')
      | _ \<Rightarrow> Inl (code @ '':FINITE_NON_NEGATIVE_REQUIRED''))"

definition assertEnum :: "json option \<Rightarrow> string list \<Rightarrow> string \<Rightarrow> string checked" where
  "assertEnum v allowed code =
     (case v of
        Some (JStr s) \<Rightarrow> if s \<in> set allowed then Inr s else Inl (code @ '':ENUM_INVALID'')
      | _ \<Rightarrow> Inl (code @ '':ENUM_INVALID''))"

section \<open>Error details\<close>

definition REDACTED_ERROR_DETAIL :: string where
  "REDACTED_ERROR_DETAIL = ''<redacted-detail>''"

definition ERROR_DETAIL_MAX_LENGTH :: nat where
  "ERROR_DETAIL_MAX_LENGTH = 160"

definition error_detail_safe :: "string \<Rightarrow> bool" where
  "error_detail_safe s = all_in s (\<lambda>c. is_alnum c \<or> c \<in> set ''_.:/@()+, -'')"

definition jwt_at :: "string \<Rightarrow> bool" where
  "jwt_at t = (let body = takeWhile (\<lambda>c. is_alnum c \<or> c \<in> set ''_-'') (drop 3 t)
     in starts_with ''eyj'' t \<and> 8 \<le> length body \<and> starts_with ''.'' (drop (3 + length body) t))"

definition aws_key_at :: "string \<Rightarrow> bool" where
  "aws_key_at t = (starts_with ''akia'' t \<and> run_of is_alnum 16 (drop 4 t))"

definition private_key_at :: "string \<Rightarrow> bool" where
  "private_key_at t = (starts_with ''-----begin '' t
     \<and> (let rest = drop 11 t; n = length (takeWhile (\<lambda>c. is_letter c \<or> c = CHR '' '') rest)
        in list_ex (\<lambda>k. starts_with ''private key-----'' (drop k rest)) [0..<Suc n]))"

definition email_at :: "string \<Rightarrow> bool" where
  "email_at t =
     (case t of
        c # d # rest \<Rightarrow> (is_alnum c \<or> c \<in> set ''._%+-'') \<and> d = CHR ''@''
          \<and> list_ex (\<lambda>k. 1 \<le> k \<and> starts_with ''.'' (drop k rest) \<and> run_of is_letter 2 (drop (Suc k) rest))
               [0..<Suc (length (takeWhile (\<lambda>c. is_alnum c \<or> c \<in> set ''.-'') rest))]
      | _ \<Rightarrow> False)"

text \<open>The flag \<open>i\<close>: matched on the text in lower case.\<close>

definition forbidden_at :: "string \<Rightarrow> bool" where
  "forbidden_at t = (starts_with ''sentinel'' t
     \<or> (starts_with ''bearer'' t \<and> (case drop 6 t of c # _ \<Rightarrow> c \<in> set '' :='' | [] \<Rightarrow> False))
     \<or> jwt_at t \<or> aws_key_at t \<or> private_key_at t
     \<or> list_ex (\<lambda>w. starts_with w t) [''password'', ''secret'', ''cookie'', ''credential'', ''apikey'', ''api-key'', ''api_key'',
          ''authorization'', ''http://'', ''https://'']
     \<or> email_at t)"

definition identity_at :: "string \<Rightarrow> bool" where
  "identity_at t =
     list_ex (\<lambda>w. (starts_with w t \<or> starts_with (upper_char (hd w) # tl w) t)
       \<and> (case drop (length w) t of
            sep # v \<Rightarrow> sep \<in> set ''-_ :/''
              \<and> ((case v of
                    c # rest \<Rightarrow> (is_digit c \<or> is_upper_letter c) \<and> run_of (\<lambda>x. is_alnum x \<or> x \<in> set ''._:-'') 2 rest
                  | [] \<Rightarrow> False)
                 \<or> run_of (\<lambda>x. is_digit x \<or> x \<in> set ''abcdef'') 16 v)
          | [] \<Rightarrow> False))
       [''customer'', ''account'', ''tenant'', ''user'', ''email'']"

definition containsForbiddenErrorDetail :: "string \<Rightarrow> bool" where
  "containsForbiddenErrorDetail text = (search forbidden_at (lower text) \<or> search identity_at text)"

definition safeErrorDetail :: "string \<Rightarrow> string" where
  "safeErrorDetail text =
     (if length text \<le> ERROR_DETAIL_MAX_LENGTH \<and> error_detail_safe text \<and> \<not> containsForbiddenErrorDetail text
      then text else REDACTED_ERROR_DETAIL)"

fun unique_strings :: "string list \<Rightarrow> json list \<Rightarrow> string \<Rightarrow> unit checked" where
  "unique_strings seen [] code = Inr ()"
| "unique_strings seen (v # vs) code = bind_res (assertString (Some v) code) (\<lambda>s.
     if s \<in> set seen then Inl (code @ '':DUPLICATE:'' @ safeErrorDetail s) else unique_strings (s # seen) vs code)"

definition assertUniqueStrings :: "json list \<Rightarrow> string \<Rightarrow> unit checked" where
  "assertUniqueStrings vs code = unique_strings [] vs code"

section \<open>Facts\<close>

lemma exact_keys_iff [simp]:
  "assertExactKeys fs allowed code optional = Inr u \<longleftrightarrow>
     set allowed \<subseteq> fst ` set fs \<and> fst ` set fs \<subseteq> set allowed \<union> set optional"
  by (auto simp: assertExactKeys_def)

lemma assert_string_iff [simp]: "assertString v code = Inr s \<longleftrightarrow> v = Some (JStr s)"
  by (auto simp: assertString_def split: option.splits json.splits)

lemma assert_enum_iff [simp]: "assertEnum v allowed code = Inr s \<longleftrightarrow> v = Some (JStr s) \<and> s \<in> set allowed"
  by (auto simp: assertEnum_def split: option.splits json.splits)

lemma require_record_iff [simp]: "requireRuntimeRecord v code = Inr fs \<longleftrightarrow> v = Some (JObj fs)"
  by (auto simp: requireRuntimeRecord_def split: option.splits json.splits)

lemma is_integer_iff: "is_integer q \<longleftrightarrow> (\<exists>z. q = rat_of_int z)"
proof
  assume "is_integer q"
  then have "quotient_of q = (fst (quotient_of q), 1)" by (simp add: is_integer_def prod_eq_iff)
  from quotient_of_div [OF this] show "\<exists>z. q = rat_of_int z" by auto
qed (auto simp: is_integer_def)

lemma assert_nonneg_iff [simp]:
  "assertNonNegativeInteger v code = Inr n \<longleftrightarrow> v = Some (JNum (of_nat n))"
proof
  assume "assertNonNegativeInteger v code = Inr n"
  then obtain q where "v = Some (JNum q)" "is_integer q" "0 \<le> q" "n = nat \<lfloor>q\<rfloor>"
    by (auto simp: assertNonNegativeInteger_def split: option.splits json.splits if_splits)
  then show "v = Some (JNum (of_nat n))" by (auto simp: is_integer_iff)
next
  assume "v = Some (JNum (of_nat n))"
  moreover have "is_integer (rat_of_nat n)" unfolding is_integer_iff by (metis of_int_of_nat_eq)
  ultimately show "assertNonNegativeInteger v code = Inr n" by (simp add: assertNonNegativeInteger_def)
qed

text \<open>Whatever was rejected, its echo is bounded text of the safe charset.\<close>

lemma detail_bounded: "length (safeErrorDetail text) \<le> ERROR_DETAIL_MAX_LENGTH"
  by (simp add: safeErrorDetail_def REDACTED_ERROR_DETAIL_def ERROR_DETAIL_MAX_LENGTH_def)

lemma detail_redacted:
  "containsForbiddenErrorDetail text \<Longrightarrow> safeErrorDetail text = REDACTED_ERROR_DETAIL"
  by (simp add: safeErrorDetail_def)

lemma detail_idem: "safeErrorDetail (safeErrorDetail text) \<in> {safeErrorDetail text, REDACTED_ERROR_DETAIL}"
  by (simp add: safeErrorDetail_def)

lemma forbidden_prefix:
  "forbidden_at (lower w) \<Longrightarrow> text = p @ w \<Longrightarrow> containsForbiddenErrorDetail text"
  by (auto simp: containsForbiddenErrorDetail_def search_iff)

text \<open>Every failure of the key check names a declared key or a safe token.\<close>

lemma exact_keys_error:
  assumes "assertExactKeys fs allowed code optional = Inl m"
  shows "\<exists>k. (m = code @ '':UNKNOWN_FIELD:'' @ k \<or> m = code @ '':MISSING_FIELD:'' @ k)
    \<and> (safe_field_name k \<or> k = ''[UNSAFE_FIELD_NAME]'')"
proof -
  have first: "\<exists>x\<in>set xs. f x = Inl m" if "all_ok f xs = Inl m" for f and xs :: "string list"
    using that by (induction xs) (auto simp: bind_res_def split: sum.splits)
  let ?known = "\<lambda>k. guard_res (k \<in> set (allowed @ optional)) (code @ '':UNKNOWN_FIELD:'' @ safeFieldNameForDiagnostic k)"
    and ?there = "\<lambda>k. guard_res (k \<in> fst ` set fs) (code @ '':MISSING_FIELD:'' @ safeFieldNameForDiagnostic k)"
  have shape: "safe_field_name (safeFieldNameForDiagnostic k) \<or> safeFieldNameForDiagnostic k = ''[UNSAFE_FIELD_NAME]''" for k
    by (simp add: safeFieldNameForDiagnostic_def)
  have "all_ok ?known (map fst fs) = Inl m \<or> all_ok ?there allowed = Inl m"
    using assms unfolding assertExactKeys_def bind_res_def by (auto split: sum.splits)
  then have "(\<exists>k. ?known k = Inl m) \<or> (\<exists>k. ?there k = Inl m)" using first by blast
  then have "\<exists>k. m = code @ '':UNKNOWN_FIELD:'' @ safeFieldNameForDiagnostic k \<or> m = code @ '':MISSING_FIELD:'' @ safeFieldNameForDiagnostic k"
    unfolding guard_res_iff by blast
  then show ?thesis using shape by blast
qed

lemma unique_strings_Inr:
  "unique_strings seen vs code = Inr u \<longleftrightarrow> (\<exists>ss. vs = map JStr ss \<and> distinct ss \<and> set ss \<inter> set seen = {})"
proof (induction vs arbitrary: seen)
  case (Cons v vs)
  show ?case
  proof
    assume "unique_strings seen (v # vs) code = Inr u"
    then obtain s where "v = JStr s" "s \<notin> set seen" "unique_strings (s # seen) vs code = Inr u"
      by (auto split: if_splits)
    moreover from this(3) obtain ss where "vs = map JStr ss" "distinct ss" "set ss \<inter> set (s # seen) = {}"
      using Cons.IH by blast
    ultimately show "\<exists>ss. v # vs = map JStr ss \<and> distinct ss \<and> set ss \<inter> set seen = {}"
      by (intro exI [of _ "s # ss"]) auto
  next
    assume "\<exists>ss. v # vs = map JStr ss \<and> distinct ss \<and> set ss \<inter> set seen = {}"
    then obtain s ss where "v = JStr s" "vs = map JStr ss" "distinct (s # ss)" "set (s # ss) \<inter> set seen = {}"
      by (auto simp: Cons_eq_map_conv)
    then show "unique_strings seen (v # vs) code = Inr u"
      using Cons.IH [of "s # seen"] by (auto simp: assertString_def)
  qed
qed simp

end
