(* ===== verification/Candidate_Lifecycle.thy ===== *)
theory Candidate_Lifecycle imports Runtime_Validation Interfaces begin

text \<open>
  The candidate lifecycle of a campaign, \<open>src/core/campaign/candidateLifecycle.ts\<close>: the table of
  transitions, the strict validation of persisted records and the operations on them. A record
  comes in as JSON and is narrowed by the validator; events and reason codes are the strings the
  callers pass. The counter is a double: from 2 to the 53 on, adding one rounds to even.
\<close>

section \<open>Vocabulary\<close>

datatype lifecycle_state = OBSERVED | ADMITTED | REPRODUCED | MINIMIZED_CANDIDATE | CLUSTERED_CANDIDATE
  | UNCHANGED_CANDIDATE | TRIAGED | DOSSIER_READY | REJECTED | UNRESOLVED

datatype lifecycle_event = ADMIT | REJECT | CONFIRM_REPRODUCTION | FAIL_REPRODUCTION | APPLY_MINIMIZATION
  | KEEP_UNCHANGED | CLUSTER_EVENT | COMPLETE_TRIAGE | CLASSIFY_REJECTED | CLASSIFY_UNRESOLVED
  | MARK_DOSSIER_READY | GATE_BLOCK

datatype lifecycle_variant = PROTOCOL_ONLY | SEMANTIC

definition CANDIDATE_LIFECYCLE_STATES :: "(string \<times> lifecycle_state) list" where
  "CANDIDATE_LIFECYCLE_STATES =
     [(''OBSERVED'', OBSERVED), (''ADMITTED'', ADMITTED), (''REPRODUCED'', REPRODUCED),
      (''MINIMIZED'', MINIMIZED_CANDIDATE), (''CLUSTERED'', CLUSTERED_CANDIDATE), (''UNCHANGED'', UNCHANGED_CANDIDATE),
      (''TRIAGED'', TRIAGED), (''DOSSIER_READY'', DOSSIER_READY), (''REJECTED'', REJECTED), (''UNRESOLVED'', UNRESOLVED)]"

definition CANDIDATE_LIFECYCLE_EVENTS :: "(string \<times> lifecycle_event) list" where
  "CANDIDATE_LIFECYCLE_EVENTS =
     [(''ADMIT'', ADMIT), (''REJECT'', REJECT), (''CONFIRM_REPRODUCTION'', CONFIRM_REPRODUCTION),
      (''FAIL_REPRODUCTION'', FAIL_REPRODUCTION), (''APPLY_MINIMIZATION'', APPLY_MINIMIZATION),
      (''KEEP_UNCHANGED'', KEEP_UNCHANGED), (''CLUSTERED'', CLUSTER_EVENT), (''COMPLETE_TRIAGE'', COMPLETE_TRIAGE),
      (''CLASSIFY_REJECTED'', CLASSIFY_REJECTED), (''CLASSIFY_UNRESOLVED'', CLASSIFY_UNRESOLVED),
      (''MARK_DOSSIER_READY'', MARK_DOSSIER_READY), (''GATE_BLOCK'', GATE_BLOCK)]"

definition CANDIDATE_LIFECYCLE_VARIANTS :: "(string \<times> lifecycle_variant) list" where
  "CANDIDATE_LIFECYCLE_VARIANTS = [(''PROTOCOL_ONLY'', PROTOCOL_ONLY), (''SEMANTIC'', SEMANTIC)]"

text \<open>The text of a value of a vocabulary.\<close>

definition text_in :: "(string \<times> 'a) list \<Rightarrow> 'a \<Rightarrow> string" where
  "text_in voc x = (case find (\<lambda>p. snd p = x) voc of Some p \<Rightarrow> fst p | None \<Rightarrow> [])"

definition CANDIDATE_LIFECYCLE_VERSION :: string where
  "CANDIDATE_LIFECYCLE_VERSION = ''nightwatch.candidate-lifecycle.private.v1''"

record lifecycle_record =
  lr_lifecycleVersion :: string
  lr_variant :: lifecycle_variant
  lr_state :: lifecycle_state
  lr_transitionCount :: nat
  lr_lastReasonCode :: "string option"

definition INVALID_RECORD :: string where
  "INVALID_RECORD = ''CANDIDATE_LIFECYCLE_INVALID_RECORD''"

definition RECORD_KEYS :: "string list" where
  "RECORD_KEYS = [''lifecycleVersion'', ''variant'', ''state'', ''transitionCount'', ''lastReasonCode'']"

text \<open>\<open>SENTINEL_RE\<close> with its flag \<open>i\<close>, searched in the lower-case text.\<close>

definition sentinel_at :: "string \<Rightarrow> bool" where
  "sentinel_at t =
     (list_ex (\<lambda>w. starts_with w t) [''customer_sentinel'', ''account_sentinel'', ''email_sentinel'', ''cost_sentinel'', ''token_sentinel'']
      \<or> (starts_with ''bearer'' t \<and> run_of is_space 1 (drop 6 t)) \<or> jwt_at t \<or> aws_key_at t \<or> private_key_at t)"

definition sentinel :: "string \<Rightarrow> bool" where
  "sentinel s = search sentinel_at (lower s)"

definition reason_code_ok :: "string \<Rightarrow> bool" where
  "reason_code_ok s =
     (case s of
        c # rest \<Rightarrow> is_upper_letter c \<and> length rest \<le> 127
          \<and> all_in rest (\<lambda>x. is_upper_letter x \<or> is_digit x \<or> x = CHR ''_'')
      | [] \<Rightarrow> False)"

section \<open>The transition table\<close>

fun LIFECYCLE_TRANSITIONS :: "lifecycle_state \<Rightarrow> (lifecycle_event \<times> lifecycle_state) list" where
  "LIFECYCLE_TRANSITIONS OBSERVED = [(ADMIT, ADMITTED), (REJECT, REJECTED), (GATE_BLOCK, UNRESOLVED)]"
| "LIFECYCLE_TRANSITIONS ADMITTED =
     [(CONFIRM_REPRODUCTION, REPRODUCED), (FAIL_REPRODUCTION, UNRESOLVED), (REJECT, REJECTED), (GATE_BLOCK, UNRESOLVED)]"
| "LIFECYCLE_TRANSITIONS REPRODUCED =
     [(APPLY_MINIMIZATION, MINIMIZED_CANDIDATE), (KEEP_UNCHANGED, UNCHANGED_CANDIDATE), (FAIL_REPRODUCTION, UNRESOLVED), (GATE_BLOCK, UNRESOLVED)]"
| "LIFECYCLE_TRANSITIONS MINIMIZED_CANDIDATE =
     [(CLUSTER_EVENT, CLUSTERED_CANDIDATE), (COMPLETE_TRIAGE, TRIAGED), (GATE_BLOCK, UNRESOLVED)]"
| "LIFECYCLE_TRANSITIONS CLUSTERED_CANDIDATE = [(COMPLETE_TRIAGE, TRIAGED), (GATE_BLOCK, UNRESOLVED)]"
| "LIFECYCLE_TRANSITIONS UNCHANGED_CANDIDATE = [(COMPLETE_TRIAGE, TRIAGED), (GATE_BLOCK, UNRESOLVED)]"
| "LIFECYCLE_TRANSITIONS TRIAGED =
     [(MARK_DOSSIER_READY, DOSSIER_READY), (CLASSIFY_REJECTED, REJECTED), (CLASSIFY_UNRESOLVED, UNRESOLVED)]"
| "LIFECYCLE_TRANSITIONS DOSSIER_READY = []"
| "LIFECYCLE_TRANSITIONS REJECTED = []"
| "LIFECYCLE_TRANSITIONS UNRESOLVED = []"

section \<open>Validation\<close>

fun assertNoSentinels :: "string \<Rightarrow> json \<Rightarrow> unit checked"
  and no_sentinels_items :: "string \<Rightarrow> nat \<Rightarrow> json list \<Rightarrow> unit checked"
  and no_sentinels_fields :: "string \<Rightarrow> (string \<times> json) list \<Rightarrow> unit checked" where
  "assertNoSentinels path (JStr s) = guard_res (\<not> sentinel s) (INVALID_RECORD @ '':PRIVACY_BLOCKED:'' @ path)"
| "assertNoSentinels path (JArr xs) = no_sentinels_items path 0 xs"
| "assertNoSentinels path (JObj fs) = no_sentinels_fields path fs"
| "assertNoSentinels path _ = Inr ()"
| "no_sentinels_items path i [] = Inr ()"
| "no_sentinels_items path i (x # xs) =
     bind_res (assertNoSentinels (path @ ''['' @ nat_to_dec i @ '']'') x) (\<lambda>_. no_sentinels_items path (Suc i) xs)"
| "no_sentinels_fields path [] = Inr ()"
| "no_sentinels_fields path ((k, x) # fs) =
     bind_res (assertNoSentinels (path @ ''.'' @ k) x) (\<lambda>_. no_sentinels_fields path fs)"

definition reason_of_json :: "json option \<Rightarrow> string option checked" where
  "reason_of_json v =
     (if v = Some JNull then Inr None
      else bind_res (assertString v (INVALID_RECORD @ '':REASON_CODE'')) (\<lambda>s.
        if \<not> reason_code_ok s \<or> sentinel s then Inl (INVALID_RECORD @ '':REASON_CODE_INVALID'') else Inr (Some s)))"

definition validateCandidateLifecycleRecord :: "json \<Rightarrow> lifecycle_record checked" where
  "validateCandidateLifecycleRecord v =
     bind_res (assertNoSentinels ''candidateLifecycle'' v) (\<lambda>_.
     bind_res (requireRuntimeRecord (Some v) INVALID_RECORD) (\<lambda>fs.
     bind_res (assertExactKeys fs RECORD_KEYS INVALID_RECORD []) (\<lambda>_.
     if json_field v ''lifecycleVersion'' \<noteq> Some (JStr CANDIDATE_LIFECYCLE_VERSION)
       then Inl (INVALID_RECORD @ '':VERSION_INVALID'')
     else bind_res (assertEnum (json_field v ''variant'') (map fst CANDIDATE_LIFECYCLE_VARIANTS) (INVALID_RECORD @ '':VARIANT'')) (\<lambda>variant.
     bind_res (assertEnum (json_field v ''state'') (map fst CANDIDATE_LIFECYCLE_STATES) (INVALID_RECORD @ '':STATE'')) (\<lambda>state.
     bind_res (assertNonNegativeInteger (json_field v ''transitionCount'') (INVALID_RECORD @ '':TRANSITION_COUNT'')) (\<lambda>n.
     bind_res (reason_of_json (json_field v ''lastReasonCode'')) (\<lambda>reason.
     Inr \<lparr>lr_lifecycleVersion = CANDIDATE_LIFECYCLE_VERSION,
          lr_variant = the (map_of CANDIDATE_LIFECYCLE_VARIANTS variant), lr_state = the (map_of CANDIDATE_LIFECYCLE_STATES state),
          lr_transitionCount = n, lr_lastReasonCode = reason\<rparr>)))))))"

text \<open>The JSON form of a record, as it is persisted and handed around.\<close>

definition lifecycle_json :: "lifecycle_record \<Rightarrow> json" where
  "lifecycle_json r = JObj
     [(''lifecycleVersion'', JStr (lr_lifecycleVersion r)), (''variant'', JStr (text_in CANDIDATE_LIFECYCLE_VARIANTS (lr_variant r))),
      (''state'', JStr (text_in CANDIDATE_LIFECYCLE_STATES (lr_state r))), (''transitionCount'', JNum (of_nat (lr_transitionCount r))),
      (''lastReasonCode'', case lr_lastReasonCode r of None \<Rightarrow> JNull | Some s \<Rightarrow> JStr s)]"

section \<open>Operations\<close>

definition initialLifecycleRecord :: "lifecycle_variant \<Rightarrow> lifecycle_record" where
  "initialLifecycleRecord variant = \<lparr>lr_lifecycleVersion = CANDIDATE_LIFECYCLE_VERSION, lr_variant = variant,
     lr_state = OBSERVED, lr_transitionCount = 0, lr_lastReasonCode = None\<rparr>"

definition normalizeReasonCode :: "string option \<Rightarrow> string option checked" where
  "normalizeReasonCode r =
     (case r of
        None \<Rightarrow> Inr None
      | Some s \<Rightarrow> if \<not> reason_code_ok s \<or> sentinel s then Inl ''CANDIDATE_LIFECYCLE_REASON_CODE_INVALID'' else Inr (Some s))"

text \<open>\<open>n + 1\<close> on doubles that are non-negative integers.\<close>

definition js_increment :: "nat \<Rightarrow> nat" where
  "js_increment n = (if n < 2 ^ 53 then n + 1 else if n < 2 ^ 54 \<and> odd (n div 2) then n + 2 else n)"

definition illegal_transition :: "lifecycle_state \<Rightarrow> string \<Rightarrow> string" where
  "illegal_transition s event = ''CANDIDATE_LIFECYCLE_ILLEGAL_TRANSITION:FROM:'' @ text_in CANDIDATE_LIFECYCLE_STATES s
     @ '':EVENT:'' @ event @ '':TO:NONE''"

definition transitionCandidateLifecycle :: "json \<Rightarrow> string \<Rightarrow> string option \<Rightarrow> lifecycle_record checked" where
  "transitionCandidateLifecycle v event reasonCode =
     bind_res (validateCandidateLifecycleRecord v) (\<lambda>r.
     case map_of CANDIDATE_LIFECYCLE_EVENTS event of
       None \<Rightarrow> Inl (illegal_transition (lr_state r) ''UNKNOWN'')
     | Some e \<Rightarrow>
         bind_res (normalizeReasonCode reasonCode) (\<lambda>next.
         case map_of (LIFECYCLE_TRANSITIONS (lr_state r)) e of
           None \<Rightarrow> Inl (illegal_transition (lr_state r) event)
         | Some target \<Rightarrow>
             if e = GATE_BLOCK \<and> next = None then Inl ''CANDIDATE_LIFECYCLE_GATE_REASON_REQUIRED''
             else Inr (r\<lparr>lr_state := target, lr_transitionCount := js_increment (lr_transitionCount r), lr_lastReasonCode := next\<rparr>)))"

definition isTerminalCandidateLifecycleState :: "lifecycle_state \<Rightarrow> bool" where
  "isTerminalCandidateLifecycleState s = (LIFECYCLE_TRANSITIONS s = [])"

definition gateBlockCandidateLifecycle :: "json \<Rightarrow> string \<Rightarrow> lifecycle_record checked" where
  "gateBlockCandidateLifecycle v reasonCode =
     bind_res (validateCandidateLifecycleRecord v) (\<lambda>r.
     if isTerminalCandidateLifecycleState (lr_state r) then Inr r
     else transitionCandidateLifecycle v ''GATE_BLOCK'' (Some reasonCode))"

end
