(* ===== verification/Candidate_Lifecycle_Properties.thy ===== *)
theory Candidate_Lifecycle_Properties imports Candidate_Lifecycle begin

text \<open>
  What the candidate lifecycle guarantees: the validator accepts exactly well-formed records and
  their JSON form comes back unchanged, a lifecycle makes at most six transitions and never
  revisits a state, and a gate failure always leads to \<open>UNRESOLVED\<close> before triage.
\<close>

section \<open>The table as a lifecycle\<close>

definition lifecycle_next :: "lifecycle_state \<Rightarrow> lifecycle_state list" where
  "lifecycle_next s = map snd (LIFECYCLE_TRANSITIONS s)"

primrec lifecycle_rank :: "lifecycle_state \<Rightarrow> nat" where
  "lifecycle_rank OBSERVED = 0"
| "lifecycle_rank ADMITTED = 1"
| "lifecycle_rank REPRODUCED = 2"
| "lifecycle_rank MINIMIZED_CANDIDATE = 3"
| "lifecycle_rank UNCHANGED_CANDIDATE = 3"
| "lifecycle_rank CLUSTERED_CANDIDATE = 4"
| "lifecycle_rank TRIAGED = 5"
| "lifecycle_rank DOSSIER_READY = 6"
| "lifecycle_rank REJECTED = 6"
| "lifecycle_rank UNRESOLVED = 6"

interpretation candidate: transition_table lifecycle_next lifecycle_rank 6
proof unfold_locales
  show "lifecycle_rank s < lifecycle_rank t" if "t \<in> set (lifecycle_next s)" for s t
    using that by (cases s) (auto simp: lifecycle_next_def)
  show "lifecycle_rank s \<le> 6" for s by (cases s) simp_all
qed

lemma terminal_states: "isTerminalCandidateLifecycleState s \<longleftrightarrow> s \<in> {DOSSIER_READY, REJECTED, UNRESOLVED}"
  by (cases s) (simp_all add: isTerminalCandidateLifecycleState_def)

lemma gate_edge:
  "map_of (LIFECYCLE_TRANSITIONS s) GATE_BLOCK =
     (if isTerminalCandidateLifecycleState s \<or> s = TRIAGED then None else Some UNRESOLVED)"
  by (cases s) (simp_all add: isTerminalCandidateLifecycleState_def)

section \<open>Texts\<close>

lemma state_text: "map_of CANDIDATE_LIFECYCLE_STATES (text_in CANDIDATE_LIFECYCLE_STATES s) = Some s"
  and state_text_in: "text_in CANDIDATE_LIFECYCLE_STATES s \<in> fst ` set CANDIDATE_LIFECYCLE_STATES"
  by (cases s; simp add: CANDIDATE_LIFECYCLE_STATES_def text_in_def)+

lemma variant_text: "map_of CANDIDATE_LIFECYCLE_VARIANTS (text_in CANDIDATE_LIFECYCLE_VARIANTS v) = Some v"
  and variant_text_in: "text_in CANDIDATE_LIFECYCLE_VARIANTS v \<in> fst ` set CANDIDATE_LIFECYCLE_VARIANTS"
  by (cases v; simp add: CANDIDATE_LIFECYCLE_VARIANTS_def text_in_def)+

lemma event_text: "map_of CANDIDATE_LIFECYCLE_EVENTS (text_in CANDIDATE_LIFECYCLE_EVENTS e) = Some e"
  by (cases e) (simp_all add: CANDIDATE_LIFECYCLE_EVENTS_def text_in_def)

lemmas sentinel_eval = sentinel_def search_def sentinel_at_def jwt_at_def aws_key_at_def private_key_at_def run_of_def
  starts_with_def lower_def lower_char_def is_upper_letter_def code_unit_def is_space_def is_lower_letter_def is_letter_def
  is_alnum_def is_digit_def Let_def

lemma version_clean: "\<not> sentinel CANDIDATE_LIFECYCLE_VERSION"
  by (simp add: CANDIDATE_LIFECYCLE_VERSION_def sentinel_eval)

lemma state_clean: "\<not> sentinel (text_in CANDIDATE_LIFECYCLE_STATES s)"
  by (cases s) (simp_all add: CANDIDATE_LIFECYCLE_STATES_def text_in_def sentinel_eval)

lemma variant_clean: "\<not> sentinel (text_in CANDIDATE_LIFECYCLE_VARIANTS v)"
  by (cases v) (simp_all add: CANDIDATE_LIFECYCLE_VARIANTS_def text_in_def sentinel_eval)

section \<open>Validation\<close>

definition lifecycle_ok :: "lifecycle_record \<Rightarrow> bool" where
  "lifecycle_ok r = (lr_lifecycleVersion r = CANDIDATE_LIFECYCLE_VERSION
     \<and> (\<forall>c. lr_lastReasonCode r = Some c \<longrightarrow> reason_code_ok c \<and> \<not> sentinel c))"

lemma validate_encoded:
  assumes "lifecycle_ok r"
  shows "validateCandidateLifecycleRecord (lifecycle_json r) = Inr r"
proof -
  let ?v = "lifecycle_json r"
  have fields: "json_field ?v ''lifecycleVersion'' = Some (JStr CANDIDATE_LIFECYCLE_VERSION)"
      "json_field ?v ''variant'' = Some (JStr (text_in CANDIDATE_LIFECYCLE_VARIANTS (lr_variant r)))"
      "json_field ?v ''state'' = Some (JStr (text_in CANDIDATE_LIFECYCLE_STATES (lr_state r)))"
      "json_field ?v ''transitionCount'' = Some (JNum (of_nat (lr_transitionCount r)))"
      "json_field ?v ''lastReasonCode'' = Some (case lr_lastReasonCode r of None \<Rightarrow> JNull | Some s \<Rightarrow> JStr s)"
    using assms by (simp_all add: lifecycle_json_def lifecycle_ok_def)
  have "assertNoSentinels path ?v = Inr ()" for path
    using assms version_clean state_clean variant_clean
    by (simp add: lifecycle_json_def lifecycle_ok_def split: option.split)
  moreover obtain fs where fs: "?v = JObj fs" by (simp add: lifecycle_json_def)
  moreover from fs have "assertExactKeys fs RECORD_KEYS INVALID_RECORD [] = Inr ()"
    by (auto simp: lifecycle_json_def RECORD_KEYS_def)
  moreover have "assertEnum (json_field ?v ''variant'') (map fst CANDIDATE_LIFECYCLE_VARIANTS) code
      = Inr (text_in CANDIDATE_LIFECYCLE_VARIANTS (lr_variant r))" for code
    using fields variant_text_in by simp
  moreover have "assertEnum (json_field ?v ''state'') (map fst CANDIDATE_LIFECYCLE_STATES) code
      = Inr (text_in CANDIDATE_LIFECYCLE_STATES (lr_state r))" for code
    using fields state_text_in by simp
  moreover have "assertNonNegativeInteger (json_field ?v ''transitionCount'') code = Inr (lr_transitionCount r)" for code
    using fields by simp
  moreover have "reason_of_json (json_field ?v ''lastReasonCode'') = Inr (lr_lastReasonCode r)"
    using fields assms by (auto simp: reason_of_json_def lifecycle_ok_def assertString_def split: option.split)
  ultimately show ?thesis using assms fields(1) variant_text state_text
    by (simp add: validateCandidateLifecycleRecord_def lifecycle_ok_def)
qed

lemma validate_sound:
  assumes "validateCandidateLifecycleRecord v = Inr r"
  shows "lifecycle_ok r \<and> (\<exists>fs. v = JObj fs \<and> fst ` set fs = set RECORD_KEYS
    \<and> (\<forall>k\<in>set RECORD_KEYS. map_of fs k = json_field (lifecycle_json r) k))"
proof -
  obtain fs where fs: "v = JObj fs" "fst ` set fs = set RECORD_KEYS"
    using assms by (auto simp: validateCandidateLifecycleRecord_def split: if_splits)
  have version: "map_of fs ''lifecycleVersion'' = Some (JStr CANDIDATE_LIFECYCLE_VERSION)"
    using assms fs(1) by (auto simp: validateCandidateLifecycleRecord_def split: if_splits)
  obtain variant state n reason where
      f: "map_of fs ''variant'' = Some (JStr variant)" "variant \<in> fst ` set CANDIDATE_LIFECYCLE_VARIANTS"
      "map_of fs ''state'' = Some (JStr state)" "state \<in> fst ` set CANDIDATE_LIFECYCLE_STATES"
      "map_of fs ''transitionCount'' = Some (JNum (of_nat n))" "reason_of_json (map_of fs ''lastReasonCode'') = Inr reason"
    and r: "r = \<lparr>lr_lifecycleVersion = CANDIDATE_LIFECYCLE_VERSION,
          lr_variant = the (map_of CANDIDATE_LIFECYCLE_VARIANTS variant), lr_state = the (map_of CANDIDATE_LIFECYCLE_STATES state),
          lr_transitionCount = n, lr_lastReasonCode = reason\<rparr>"
    using assms unfolding fs(1) validateCandidateLifecycleRecord_def bind_res_Inr_iff
    by (simp only: bind_res_Inr_iff assert_enum_iff assert_nonneg_iff json_field.simps set_map sum.inject version simp_thms if_False) (elim exE conjE, rule that, (assumption | erule sym)+)
  have v: "v = JObj fs" "fst ` set fs = set RECORD_KEYS"
      "map_of fs ''lifecycleVersion'' = Some (JStr CANDIDATE_LIFECYCLE_VERSION)"
      "map_of fs ''variant'' = Some (JStr variant)" "variant \<in> fst ` set CANDIDATE_LIFECYCLE_VARIANTS"
      "map_of fs ''state'' = Some (JStr state)" "state \<in> fst ` set CANDIDATE_LIFECYCLE_STATES"
      "map_of fs ''transitionCount'' = Some (JNum (of_nat (lr_transitionCount r)))"
      "reason_of_json (map_of fs ''lastReasonCode'') = Inr (lr_lastReasonCode r)"
      "lr_variant r = the (map_of CANDIDATE_LIFECYCLE_VARIANTS variant)" "lr_state r = the (map_of CANDIDATE_LIFECYCLE_STATES state)"
      "lr_lifecycleVersion r = CANDIDATE_LIFECYCLE_VERSION"
    using fs version f r by simp_all
  have reason: "map_of fs ''lastReasonCode'' = Some (case lr_lastReasonCode r of None \<Rightarrow> JNull | Some s \<Rightarrow> JStr s)"
      "\<forall>c. lr_lastReasonCode r = Some c \<longrightarrow> reason_code_ok c \<and> \<not> sentinel c"
    using v(9) by (cases "lr_lastReasonCode r", auto simp: reason_of_json_def split: if_splits)
  have "text_in CANDIDATE_LIFECYCLE_VARIANTS (lr_variant r) = variant"
    using v(5,10) by (auto simp: CANDIDATE_LIFECYCLE_VARIANTS_def text_in_def)
  moreover have "text_in CANDIDATE_LIFECYCLE_STATES (lr_state r) = state"
    using v(7,11) by (auto simp: CANDIDATE_LIFECYCLE_STATES_def text_in_def)
  ultimately have "\<forall>k\<in>set RECORD_KEYS. map_of fs k = json_field (lifecycle_json r) k"
    using v reason by (auto simp: RECORD_KEYS_def lifecycle_json_def)
  then show ?thesis using v reason by (auto simp: lifecycle_ok_def)
qed

text \<open>Persisted lifecycle records round-trip: whatever JSON the validator accepts, it has
  exactly the declared fields, carries no sentinel text and a well-formed reason code, and the
  record it yields encodes to JSON with the same fields, which is accepted again as the very
  same record.\<close>

theorem accepted_record_roundtrips:
  assumes "validateCandidateLifecycleRecord v = Inr r"
  shows "validateCandidateLifecycleRecord (lifecycle_json r) = Inr r
    \<and> (\<exists>fs. v = JObj fs \<and> fst ` set fs = set RECORD_KEYS
         \<and> (\<forall>k\<in>set RECORD_KEYS. map_of fs k = json_field (lifecycle_json r) k))
    \<and> (\<forall>c. lr_lastReasonCode r = Some c \<longrightarrow> reason_code_ok c \<and> \<not> sentinel c)"
  using validate_sound [OF assms] validate_encoded by (auto simp: lifecycle_ok_def)

section \<open>Transitions\<close>

lemma transition_encoded:
  assumes "lifecycle_ok r"
  shows "transitionCandidateLifecycle (lifecycle_json r) event reason =
     (case map_of CANDIDATE_LIFECYCLE_EVENTS event of
       None \<Rightarrow> Inl (illegal_transition (lr_state r) ''UNKNOWN'')
     | Some e \<Rightarrow>
         bind_res (normalizeReasonCode reason) (\<lambda>nr.
         case map_of (LIFECYCLE_TRANSITIONS (lr_state r)) e of
           None \<Rightarrow> Inl (illegal_transition (lr_state r) event)
         | Some target \<Rightarrow>
             if e = GATE_BLOCK \<and> nr = None then Inl ''CANDIDATE_LIFECYCLE_GATE_REASON_REQUIRED''
             else Inr (r\<lparr>lr_state := target, lr_transitionCount := js_increment (lr_transitionCount r), lr_lastReasonCode := nr\<rparr>)))"
  by (simp add: transitionCandidateLifecycle_def validate_encoded [OF assms])

lemma normalize_ok: "normalizeReasonCode reason = Inr nr \<Longrightarrow> nr = Some c \<Longrightarrow> reason_code_ok c \<and> \<not> sentinel c"
  by (auto simp: normalizeReasonCode_def split: option.splits if_splits)

lemma transition_step:
  assumes "lifecycle_ok r" and "transitionCandidateLifecycle (lifecycle_json r) event reason = Inr r'"
  shows "lifecycle_ok r' \<and> lr_state r' \<in> set (lifecycle_next (lr_state r))
    \<and> lr_transitionCount r' = js_increment (lr_transitionCount r) \<and> lr_variant r' = lr_variant r"
proof -
  obtain e nr target where "normalizeReasonCode reason = Inr nr" "map_of (LIFECYCLE_TRANSITIONS (lr_state r)) e = Some target"
      "r' = r\<lparr>lr_state := target, lr_transitionCount := js_increment (lr_transitionCount r), lr_lastReasonCode := nr\<rparr>"
    using assms(2) by (auto simp: transition_encoded [OF assms(1)] split: option.splits if_splits)
  moreover from this(2) have "target \<in> set (lifecycle_next (lr_state r))"
    unfolding lifecycle_next_def by (metis map_of_SomeD set_map snd_conv image_eqI)
  moreover have "\<forall>c. nr = Some c \<longrightarrow> reason_code_ok c \<and> \<not> sentinel c" using calculation(1) normalize_ok by blast
  ultimately show ?thesis using assms(1) by (simp add: lifecycle_ok_def)
qed

text \<open>A history: the events a caller sends one after the other, each with its reason code. A
  refused event throws and leaves the record.\<close>

definition lifecycle_step :: "lifecycle_record \<Rightarrow> string \<times> string option \<Rightarrow> lifecycle_record \<times> bool" where
  "lifecycle_step r e = (case transitionCandidateLifecycle (lifecycle_json r) (fst e) (snd e) of
     Inl _ \<Rightarrow> (r, False) | Inr r' \<Rightarrow> (r', True))"

fun lifecycle_trace :: "lifecycle_record \<Rightarrow> (string \<times> string option) list \<Rightarrow> lifecycle_state list" where
  "lifecycle_trace r [] = []"
| "lifecycle_trace r (e # es) = (case lifecycle_step r e of
     (r', moved) \<Rightarrow> (if moved then [lr_state r'] else []) @ lifecycle_trace r' es)"

lemma trace_path:
  assumes "lifecycle_ok r" and "lr_transitionCount r + length (lifecycle_trace r es) < 2 ^ 53"
  shows "path_of lifecycle_next (lr_state r) (lifecycle_trace r es) \<and> lifecycle_ok (run_ops lifecycle_step r es)
    \<and> lr_state (run_ops lifecycle_step r es) = last (lr_state r # lifecycle_trace r es)
    \<and> lr_transitionCount (run_ops lifecycle_step r es) = lr_transitionCount r + length (lifecycle_trace r es)
    \<and> lr_variant (run_ops lifecycle_step r es) = lr_variant r"
  using assms
proof (induction es arbitrary: r)
  case (Cons e es)
  show ?case
  proof (cases "transitionCandidateLifecycle (lifecycle_json r) (fst e) (snd e)")
    case (Inl m)
    then show ?thesis using Cons by (simp add: lifecycle_step_def)
  next
    case (Inr r')
    note t = transition_step [OF Cons.prems(1) Inr]
    have "lr_transitionCount r' = lr_transitionCount r + 1" using t Cons.prems(2) by (simp add: js_increment_def)
    then show ?thesis using Cons.IH [of r'] t Cons.prems(2) Inr by (simp add: lifecycle_step_def)
  qed
qed simp

lemma trace_is_path:
  "lifecycle_ok r \<Longrightarrow> path_of lifecycle_next (lr_state r) (lifecycle_trace r es)"
proof (induction es arbitrary: r)
  case (Cons e es)
  show ?case
  proof (cases "transitionCandidateLifecycle (lifecycle_json r) (fst e) (snd e)")
    case (Inr r')
    show ?thesis using Cons.IH [of r'] transition_step [OF Cons.prems Inr] Inr by (simp add: lifecycle_step_def)
  qed (use Cons in \<open>simp add: lifecycle_step_def\<close>)
qed simp

text \<open>C17: Whatever events a candidate receives, in whatever order and however often, its lifecycle
  makes at most six transitions, never enters a state twice, counts its transitions exactly,
  keeps its variant and ends as a record the validator accepts.\<close>

theorem lifecycle_is_short:
  "let r = run_ops lifecycle_step (initialLifecycleRecord v) es; trace = lifecycle_trace (initialLifecycleRecord v) es in
     length trace \<le> 6 \<and> distinct (OBSERVED # trace) \<and> lr_transitionCount r = length trace
     \<and> lr_state r = last (OBSERVED # trace) \<and> lr_variant r = v \<and> validateCandidateLifecycleRecord (lifecycle_json r) = Inr r"
proof -
  let ?i = "initialLifecycleRecord v" and ?t = "lifecycle_trace (initialLifecycleRecord v) es"
  have i: "lifecycle_ok ?i" "lr_state ?i = OBSERVED" "lr_transitionCount ?i = 0" "lr_variant ?i = v"
    by (simp_all add: initialLifecycleRecord_def lifecycle_ok_def)
  have path: "path_of lifecycle_next OBSERVED ?t" using trace_is_path [OF i(1), of es] i(2) by simp
  then have short: "length ?t \<le> 6" using candidate.path_short by fastforce
  then have "lr_transitionCount ?i + length ?t < 2 ^ 53" using i by simp
  from trace_path [OF i(1) this] show ?thesis
    using short candidate.path_distinct [OF path] i validate_encoded by (simp add: Let_def)
qed

text \<open>A gate failure closes a candidate: with a valid reason code every open record before
  triage becomes \<open>UNRESOLVED\<close> with that reason; a terminal record is returned unchanged; a
  triaged record is refused with the illegal transition.\<close>

theorem gate_failure_closes:
  assumes "validateCandidateLifecycleRecord v = Inr r" and "reason_code_ok reason" and "\<not> sentinel reason"
  shows "gateBlockCandidateLifecycle v reason =
    (if lr_state r \<in> {DOSSIER_READY, REJECTED, UNRESOLVED} then Inr r
     else if lr_state r = TRIAGED then Inl (illegal_transition TRIAGED ''GATE_BLOCK'')
     else Inr (r\<lparr>lr_state := UNRESOLVED, lr_transitionCount := js_increment (lr_transitionCount r), lr_lastReasonCode := Some reason\<rparr>))"
proof -
  have "map_of CANDIDATE_LIFECYCLE_EVENTS ''GATE_BLOCK'' = Some GATE_BLOCK" by (simp add: CANDIDATE_LIFECYCLE_EVENTS_def)
  moreover have "normalizeReasonCode (Some reason) = Inr (Some reason)" using assms(2,3) by (simp add: normalizeReasonCode_def)
  ultimately show ?thesis using assms(1) gate_edge [of "lr_state r"] terminal_states [of "lr_state r"]
    by (simp add: gateBlockCandidateLifecycle_def transitionCandidateLifecycle_def)
qed

text \<open>The transition counter can stall: the validator accepts any non-negative integer, and a
  record that carries 2 to the 53 makes its transition without counting it, since the addition
  is done on doubles.\<close>

theorem transition_counter_stalls:
  "\<exists>r r'. validateCandidateLifecycleRecord (lifecycle_json r) = Inr r
     \<and> transitionCandidateLifecycle (lifecycle_json r) ''ADMIT'' None = Inr r'
     \<and> lr_state r' \<noteq> lr_state r \<and> lr_transitionCount r' = lr_transitionCount r"
proof -
  let ?r = "(initialLifecycleRecord SEMANTIC)\<lparr>lr_transitionCount := 2 ^ 53\<rparr>"
  have ok: "lifecycle_ok ?r" by (simp add: initialLifecycleRecord_def lifecycle_ok_def)
  have event: "map_of CANDIDATE_LIFECYCLE_EVENTS ''ADMIT'' = Some ADMIT" by (simp add: CANDIDATE_LIFECYCLE_EVENTS_def)
  have "transitionCandidateLifecycle (lifecycle_json ?r) ''ADMIT'' None = Inr (?r\<lparr>lr_state := ADMITTED\<rparr>)"
    unfolding transition_encoded [OF ok] event by (simp add: normalizeReasonCode_def initialLifecycleRecord_def js_increment_def)
  then show ?thesis using validate_encoded [OF ok]
    by (intro exI [of _ ?r] exI [of _ "?r\<lparr>lr_state := ADMITTED\<rparr>"] conjI) (simp_all add: initialLifecycleRecord_def)
qed

section \<open>Witnesses\<close>

theorem accepted_record_roundtrips_witness:
  "validateCandidateLifecycleRecord (lifecycle_json (initialLifecycleRecord SEMANTIC)) = Inr (initialLifecycleRecord SEMANTIC)"
proof -
  have "validateCandidateLifecycleRecord (lifecycle_json (initialLifecycleRecord SEMANTIC)) = Inr (initialLifecycleRecord SEMANTIC)"
    by (rule validate_encoded) (simp add: initialLifecycleRecord_def lifecycle_ok_def)
  from accepted_record_roundtrips [OF this] show ?thesis by blast
qed

theorem gate_failure_closes_witness:
  "gateBlockCandidateLifecycle (lifecycle_json (initialLifecycleRecord SEMANTIC)) ''PRIVACY'' =
     Inr \<lparr>lr_lifecycleVersion = CANDIDATE_LIFECYCLE_VERSION, lr_variant = SEMANTIC, lr_state = UNRESOLVED,
          lr_transitionCount = 1, lr_lastReasonCode = Some ''PRIVACY''\<rparr>"
proof -
  have r: "validateCandidateLifecycleRecord (lifecycle_json (initialLifecycleRecord SEMANTIC)) = Inr (initialLifecycleRecord SEMANTIC)"
    by (rule validate_encoded) (simp add: initialLifecycleRecord_def lifecycle_ok_def)
  have "reason_code_ok ''PRIVACY''" by (simp add: reason_code_ok_def is_upper_letter_def code_unit_def all_in_def)
  moreover have "\<not> sentinel ''PRIVACY''" by (simp add: sentinel_eval)
  ultimately show ?thesis using gate_failure_closes [OF r, of "''PRIVACY''"]
    by (simp add: initialLifecycleRecord_def js_increment_def)
qed

end
