(* ===== verification/Campaign_Budget.thy ===== *)
theory Campaign_Budget imports Prelude Interfaces begin

text \<open>
  The bounded budget of a campaign, \<open>src/core/campaign/budget.ts\<close>: policies, the feasibility
  check made before a manifest becomes authority, the budget manager with every operation that
  consumes, and the time budget. \<open>first_reservation\<close> is the orchestrator's choice of the
  reservation for a work item (\<open>orchestrator.ts\<close>). Amounts are integers, so the source's refusal
  of fractional amounts has no case here; the counters stay far below 2 to the 53. The clock is
  an argument.
\<close>

section \<open>Policies and usage\<close>

record budget_policy =
  bp_policyVersion :: string
  bp_maxTotalBrowserContexts :: int
  bp_maxJourneyContexts :: int
  bp_maxExplorationContexts :: int
  bp_maxApiExecutions :: int
  bp_maxReplays :: int
  bp_maxMinimizationCandidates :: int
  bp_maxTotalActions :: int
  bp_maxRuntimeMs :: int
  bp_maxPerTestTimeoutMs :: int
  bp_maxPromotedClusters :: int
  bp_maxPrivateEvidenceBytes :: int

datatype budget_dimension = BrowserContexts | JourneyContexts | ExplorationContexts | ApiExecutions | Replays
  | MinimizationCandidates | TotalActions | PrivateEvidenceBytes

text \<open>\<open>CampaignBudgetUsage\<close> is read and written by its keys only.\<close>

type_synonym budget_usage = "budget_dimension \<Rightarrow> int"

definition ZERO_USAGE :: budget_usage where
  "ZERO_USAGE = (\<lambda>_. 0)"

definition CAMPAIGN_BUDGET_POLICY_VERSION :: string where
  "CAMPAIGN_BUDGET_POLICY_VERSION = ''nightwatch.campaign-budget.private.v1''"

definition INITIAL_REAL_CAMPAIGN_BUDGET :: budget_policy where
  "INITIAL_REAL_CAMPAIGN_BUDGET = \<lparr>bp_policyVersion = CAMPAIGN_BUDGET_POLICY_VERSION, bp_maxTotalBrowserContexts = 6,
     bp_maxJourneyContexts = 3, bp_maxExplorationContexts = 0, bp_maxApiExecutions = 6, bp_maxReplays = 8,
     bp_maxMinimizationCandidates = 4, bp_maxTotalActions = 24, bp_maxRuntimeMs = 15 * 60 * 1000,
     bp_maxPerTestTimeoutMs = 120 * 1000, bp_maxPromotedClusters = 1, bp_maxPrivateEvidenceBytes = 10 * 1024 * 1024\<rparr>"

definition MULTI_HOUR_CAMPAIGN_BUDGET :: budget_policy where
  "MULTI_HOUR_CAMPAIGN_BUDGET = \<lparr>bp_policyVersion = CAMPAIGN_BUDGET_POLICY_VERSION, bp_maxTotalBrowserContexts = 64,
     bp_maxJourneyContexts = 32, bp_maxExplorationContexts = 32, bp_maxApiExecutions = 128, bp_maxReplays = 32,
     bp_maxMinimizationCandidates = 4, bp_maxTotalActions = 1024, bp_maxRuntimeMs = 6 * 60 * 60 * 1000,
     bp_maxPerTestTimeoutMs = 120 * 1000, bp_maxPromotedClusters = 3, bp_maxPrivateEvidenceBytes = 64 * 1024 * 1024\<rparr>"

definition isInitialRealCampaignBudget :: "budget_policy \<Rightarrow> bool" where
  "isInitialRealCampaignBudget p =
     (let i = INITIAL_REAL_CAMPAIGN_BUDGET
      in bp_maxTotalBrowserContexts p = bp_maxTotalBrowserContexts i \<and> bp_maxJourneyContexts p = bp_maxJourneyContexts i
         \<and> bp_maxExplorationContexts p = bp_maxExplorationContexts i \<and> bp_maxApiExecutions p = bp_maxApiExecutions i
         \<and> bp_maxReplays p = bp_maxReplays i \<and> bp_maxMinimizationCandidates p = bp_maxMinimizationCandidates i
         \<and> bp_maxTotalActions p = bp_maxTotalActions i \<and> bp_maxRuntimeMs p = bp_maxRuntimeMs i
         \<and> bp_maxPerTestTimeoutMs p = bp_maxPerTestTimeoutMs i \<and> bp_maxPromotedClusters p = bp_maxPromotedClusters i
         \<and> bp_maxPrivateEvidenceBytes p = bp_maxPrivateEvidenceBytes i)"

definition isRealScaleBudget :: "budget_policy \<Rightarrow> bool" where
  "isRealScaleBudget p = (bp_maxRuntimeMs INITIAL_REAL_CAMPAIGN_BUDGET \<le> bp_maxRuntimeMs p)"

fun LIMIT_FOR :: "budget_policy \<Rightarrow> budget_usage" where
  "LIMIT_FOR p BrowserContexts = bp_maxTotalBrowserContexts p"
| "LIMIT_FOR p JourneyContexts = bp_maxJourneyContexts p"
| "LIMIT_FOR p ExplorationContexts = bp_maxExplorationContexts p"
| "LIMIT_FOR p ApiExecutions = bp_maxApiExecutions p"
| "LIMIT_FOR p Replays = bp_maxReplays p"
| "LIMIT_FOR p MinimizationCandidates = bp_maxMinimizationCandidates p"
| "LIMIT_FOR p TotalActions = bp_maxTotalActions p"
| "LIMIT_FOR p PrivateEvidenceBytes = bp_maxPrivateEvidenceBytes p"

definition BUDGET_DIMENSIONS :: "budget_dimension list" where
  "BUDGET_DIMENSIONS = [BrowserContexts, JourneyContexts, ExplorationContexts, ApiExecutions, Replays,
     MinimizationCandidates, TotalActions, PrivateEvidenceBytes]"

datatype budget_error = BUDGET_POLICY_VERSION_INVALID | BUDGET_VALUE_INVALID | BROWSER_CONTEXT_BUDGET_INVALID
  | TIME_BUDGET_INVALID | CLUSTER_POLICY_EXCEEDED | REPLAY_RESERVE_INVALID | BUDGET_USAGE_INVALID budget_dimension
  | BUDGET_ALREADY_EXCEEDED budget_dimension | BUDGET_AMOUNT_INVALID | BUDGET_SPENT budget_dimension
  | RUNTIME_BUDGET_INVALID | RUNTIME_TIMEOUT

definition policy_values :: "budget_policy \<Rightarrow> int list" where
  "policy_values p = [bp_maxTotalBrowserContexts p, bp_maxJourneyContexts p, bp_maxExplorationContexts p, bp_maxApiExecutions p,
     bp_maxReplays p, bp_maxMinimizationCandidates p, bp_maxTotalActions p, bp_maxRuntimeMs p, bp_maxPerTestTimeoutMs p,
     bp_maxPromotedClusters p, bp_maxPrivateEvidenceBytes p]"

definition validateBudgetPolicy :: "budget_policy \<Rightarrow> (budget_error, unit) result" where
  "validateBudgetPolicy p =
     (if bp_policyVersion p \<noteq> CAMPAIGN_BUDGET_POLICY_VERSION then Inl BUDGET_POLICY_VERSION_INVALID
      else if list_ex (\<lambda>v. v < 0) (policy_values p) then Inl BUDGET_VALUE_INVALID
      else if bp_maxTotalBrowserContexts p < bp_maxJourneyContexts p + bp_maxExplorationContexts p
        then Inl BROWSER_CONTEXT_BUDGET_INVALID
      else if bp_maxRuntimeMs p < bp_maxPerTestTimeoutMs p then Inl TIME_BUDGET_INVALID
      else if 3 < bp_maxPromotedClusters p then Inl CLUSTER_POLICY_EXCEEDED
      else Inr ())"

section \<open>Feasibility\<close>

datatype work_kind = JOURNEY | API | EXPLORATION | REPRODUCTION | MINIMIZATION

datatype work_replay_policy = NO_REPLAY | ON_ADMISSION | FIRST_PLUS_FRESH_REPLAY

record work_item =
  wi_workItemId :: string
  wi_kind :: work_kind
  wi_replayPolicy :: work_replay_policy

datatype infeasibility = BROWSER_REPRODUCTION_RESERVE_UNAVAILABLE | API_REPRODUCTION_RESERVE_UNAVAILABLE
  | REPLAY_RESERVE_UNAVAILABLE | ACTION_RESERVE_UNAVAILABLE | MINIMIZATION_RESERVE_UNAVAILABLE
  | REPRODUCTION_ONLY_REPLAY_UNAVAILABLE

record budget_feasibility =
  bf_applicable :: bool
  bf_feasible :: bool
  bf_mandatoryBrowserContexts :: int
  bf_mandatoryApiExecutions :: int
  bf_mandatoryReplays :: int
  bf_mandatoryActions :: int
  bf_reserved :: int
  bf_reasons :: "infeasibility list"

definition browser_items :: "work_item list \<Rightarrow> int" where
  "browser_items items = int (length (filter (\<lambda>i. wi_kind i = JOURNEY \<or> wi_kind i = EXPLORATION) items))"

definition api_cost :: "work_item list \<Rightarrow> int" where
  "api_cost items = foldl (\<lambda>total i. total + (if wi_replayPolicy i = FIRST_PLUS_FRESH_REPLAY then 2 else 1)) 0
     (filter (\<lambda>i. wi_kind i = API) items)"

definition replay_items :: "work_item list \<Rightarrow> int" where
  "replay_items items = int (length (filter (\<lambda>i. wi_kind i = REPRODUCTION
     \<or> (wi_kind i = API \<and> wi_replayPolicy i = FIRST_PLUS_FRESH_REPLAY)) items))"

definition analyzeCampaignBudgetFeasibility ::
  "string \<Rightarrow> budget_policy \<Rightarrow> work_item list \<Rightarrow> bool option \<Rightarrow> budget_feasibility" where
  "analyzeCampaignBudgetFeasibility mode p items applies =
     (let applicable = (case applies of Some b \<Rightarrow> b | None \<Rightarrow> mode \<noteq> ''LOCAL_SYNTHETIC'');
          reserved = (if mode = ''REPRODUCTION_ONLY'' then 1 else bp_maxPromotedClusters p);
          reasons =
            (if applicable \<and> bp_maxTotalBrowserContexts p < browser_items items + reserved then [BROWSER_REPRODUCTION_RESERVE_UNAVAILABLE] else [])
            @ (if applicable \<and> bp_maxApiExecutions p < api_cost items + reserved then [API_REPRODUCTION_RESERVE_UNAVAILABLE] else [])
            @ (if applicable \<and> bp_maxReplays p < replay_items items + reserved then [REPLAY_RESERVE_UNAVAILABLE] else [])
            @ (if applicable \<and> bp_maxTotalActions p < browser_items items + reserved then [ACTION_RESERVE_UNAVAILABLE] else [])
            @ (if applicable \<and> bp_maxMinimizationCandidates p < reserved then [MINIMIZATION_RESERVE_UNAVAILABLE] else [])
            @ (if applicable \<and> mode = ''REPRODUCTION_ONLY'' \<and> bp_maxReplays p < 1 then [REPRODUCTION_ONLY_REPLAY_UNAVAILABLE] else [])
      in \<lparr>bf_applicable = applicable, bf_feasible = (reasons = []), bf_mandatoryBrowserContexts = browser_items items,
          bf_mandatoryApiExecutions = api_cost items, bf_mandatoryReplays = replay_items items,
          bf_mandatoryActions = browser_items items, bf_reserved = reserved, bf_reasons = reasons\<rparr>)"

section \<open>The manager\<close>

record budget_manager =
  bm_policy :: budget_policy
  bm_protectedReplayBrowserContexts :: int
  bm_collectionBrowserContextLimit :: int
  bm_usage :: budget_usage

definition assertWithinLimits :: "budget_policy \<Rightarrow> budget_usage \<Rightarrow> (budget_error, unit) result" where
  "assertWithinLimits p u = all_ok (\<lambda>d.
     if u d < 0 then Inl (BUDGET_USAGE_INVALID d)
     else if LIMIT_FOR p d < u d then Inl (BUDGET_ALREADY_EXCEEDED d) else Inr ()) BUDGET_DIMENSIONS"

definition new_manager :: "budget_policy \<Rightarrow> budget_usage \<Rightarrow> int option \<Rightarrow> (budget_error, budget_manager) result" where
  "new_manager p initial protected =
     bind_res (validateBudgetPolicy p) (\<lambda>_.
       let n = (case protected of None \<Rightarrow> 0 | Some n \<Rightarrow> n)
       in if n < 0 \<or> bp_maxTotalBrowserContexts p < n then Inl REPLAY_RESERVE_INVALID
          else bind_res (assertWithinLimits p initial) (\<lambda>_.
            Inr \<lparr>bm_policy = p, bm_protectedReplayBrowserContexts = n,
                 bm_collectionBrowserContextLimit = bp_maxTotalBrowserContexts p - n, bm_usage = initial\<rparr>))"

definition remaining :: "budget_manager \<Rightarrow> budget_usage" where
  "remaining m = (\<lambda>d. LIMIT_FOR (bm_policy m) d - bm_usage m d)"

definition canConsume :: "budget_manager \<Rightarrow> budget_dimension \<Rightarrow> int \<Rightarrow> (budget_error, bool) result" where
  "canConsume m d amount =
     (if amount < 0 then Inl BUDGET_AMOUNT_INVALID else Inr (bm_usage m d + amount \<le> LIMIT_FOR (bm_policy m) d))"

type_synonym requirements = "(budget_dimension \<times> int) list"

fun consume_entries :: "budget_manager \<Rightarrow> budget_usage \<Rightarrow> requirements \<Rightarrow> (budget_error, budget_usage) result" where
  "consume_entries m next [] = Inr next"
| "consume_entries m next ((d, amount) # rs) =
     (if amount < 0 then Inl BUDGET_AMOUNT_INVALID
      else bind_res (canConsume m d amount) (\<lambda>ok.
        if ok then consume_entries m (next(d := next d + amount)) rs else Inl (BUDGET_SPENT d)))"

definition consumeBundle :: "budget_manager \<Rightarrow> requirements \<Rightarrow> (budget_error, budget_manager) result" where
  "consumeBundle m rs = bind_res (consume_entries m (bm_usage m) rs) (\<lambda>u. Inr (m\<lparr>bm_usage := u\<rparr>))"

definition consume :: "budget_manager \<Rightarrow> budget_dimension \<Rightarrow> int \<Rightarrow> (budget_error, budget_manager) result" where
  "consume m d amount = consumeBundle m [(d, amount)]"

definition consumeCollectionBundle :: "budget_manager \<Rightarrow> requirements \<Rightarrow> (budget_error, budget_manager) result" where
  "consumeCollectionBundle m rs =
     (let b = (case map_get rs BrowserContexts of None \<Rightarrow> 0 | Some n \<Rightarrow> n)
      in if b < 0 then Inl BUDGET_AMOUNT_INVALID
         else if bm_collectionBrowserContextLimit m < bm_usage m BrowserContexts + b then Inl (BUDGET_SPENT BrowserContexts)
         else consumeBundle m rs)"

fun work_requirements :: "work_kind \<Rightarrow> requirements" where
  "work_requirements JOURNEY = [(BrowserContexts, 1), (JourneyContexts, 1)]"
| "work_requirements EXPLORATION = [(BrowserContexts, 1), (ExplorationContexts, 1)]"
| "work_requirements API = [(ApiExecutions, 1)]"
| "work_requirements REPRODUCTION = [(Replays, 1)]"
| "work_requirements MINIMIZATION = [(MinimizationCandidates, 1)]"

definition reserve_requirements :: "work_kind \<Rightarrow> bool \<Rightarrow> requirements" where
  "reserve_requirements kind replay =
     (let rs = work_requirements kind
      in if replay \<and> kind \<noteq> MINIMIZATION
         then map_set rs Replays ((case map_get rs Replays of None \<Rightarrow> 0 | Some n \<Rightarrow> n) + 1) else rs)"

definition reserveWork :: "budget_manager \<Rightarrow> work_kind \<Rightarrow> bool \<Rightarrow> (budget_error, budget_manager) result" where
  "reserveWork m kind replay =
     (if kind = JOURNEY \<or> kind = EXPLORATION then consumeCollectionBundle m (reserve_requirements kind replay)
      else consumeBundle m (reserve_requirements kind replay))"

definition reserveFirstPlusApi :: "budget_manager \<Rightarrow> (budget_error, budget_manager) result" where
  "reserveFirstPlusApi m = consumeBundle m [(ApiExecutions, 2), (Replays, 1)]"

definition addActions :: "budget_manager \<Rightarrow> int \<Rightarrow> (budget_error, budget_manager) result" where
  "addActions m n = consume m TotalActions n"

definition addEvidenceBytes :: "budget_manager \<Rightarrow> int \<Rightarrow> (budget_error, budget_manager) result" where
  "addEvidenceBytes m n = consume m PrivateEvidenceBytes n"

text \<open>The orchestrator's reservation for an attempt of a work item.\<close>

definition reserve_item :: "budget_manager \<Rightarrow> work_item \<Rightarrow> bool \<Rightarrow> (budget_error, budget_manager) result" where
  "reserve_item m item replay =
     (if replay then reserveWork m (wi_kind item) True
      else if wi_kind item = API \<and> wi_replayPolicy item = FIRST_PLUS_FRESH_REPLAY then reserveFirstPlusApi m
      else reserveWork m (wi_kind item) False)"

section \<open>Time\<close>

record time_budget =
  tb_maxRuntimeMs :: int
  tb_startedAt :: int

definition new_time_budget :: "int \<Rightarrow> int \<Rightarrow> (budget_error, time_budget) result" where
  "new_time_budget maxRuntimeMs startedAt =
     (if maxRuntimeMs < 1 then Inl RUNTIME_BUDGET_INVALID else Inr \<lparr>tb_maxRuntimeMs = maxRuntimeMs, tb_startedAt = startedAt\<rparr>)"

definition elapsedMs :: "time_budget \<Rightarrow> int \<Rightarrow> int" where
  "elapsedMs t now = max 0 (now - tb_startedAt t)"

definition remainingMs :: "time_budget \<Rightarrow> int \<Rightarrow> int" where
  "remainingMs t now = max 0 (tb_maxRuntimeMs t - elapsedMs t now)"

definition assertAvailable :: "time_budget \<Rightarrow> int \<Rightarrow> (budget_error, unit) result" where
  "assertAvailable t now = (if tb_maxRuntimeMs t \<le> elapsedMs t now then Inl RUNTIME_TIMEOUT else Inr ())"

section \<open>What a bundle costs\<close>

definition required :: "requirements \<Rightarrow> budget_usage" where
  "required rs d = (case map_of rs d of None \<Rightarrow> 0 | Some n \<Rightarrow> n)"

lemma required_simps [simp]:
  "required [] d = 0" "required ((k, n) # rs) d = (if d = k then n else required rs d)"
  by (simp_all add: required_def)

lemma required_absent: "d \<notin> fst ` set rs \<Longrightarrow> required rs d = 0"
  by (induction rs) auto

lemma consume_entries_Inr_iff:
  "distinct (map fst rs) \<Longrightarrow> consume_entries m next rs = Inr u \<longleftrightarrow>
    (\<forall>(d, n)\<in>set rs. 0 \<le> n \<and> bm_usage m d + n \<le> LIMIT_FOR (bm_policy m) d) \<and> u = (\<lambda>d. next d + required rs d)"
proof (induction rs arbitrary: "next")
  case (Cons e rs)
  obtain d n where e: "e = (d, n)" by force
  have "d \<notin> fst ` set rs" using Cons.prems e by auto
  then have "(\<lambda>x. (next(d := next d + n)) x + required rs x) = (\<lambda>x. next x + required (e # rs) x)"
    using required_absent e by auto
  then show ?case using Cons e by (auto simp: canConsume_def)
qed auto

lemma consume_bundle_Inr_iff:
  "distinct (map fst rs) \<Longrightarrow> consumeBundle m rs = Inr m' \<longleftrightarrow>
    (\<forall>(d, n)\<in>set rs. 0 \<le> n \<and> bm_usage m d + n \<le> LIMIT_FOR (bm_policy m) d)
    \<and> m' = m\<lparr>bm_usage := \<lambda>d. bm_usage m d + required rs d\<rparr>"
  by (auto simp: consumeBundle_def consume_entries_Inr_iff)

lemma reserve_requirements_eval:
  "reserve_requirements kind replay = (case kind of
     JOURNEY \<Rightarrow> [(BrowserContexts, 1), (JourneyContexts, 1)] @ (if replay then [(Replays, 1)] else [])
   | EXPLORATION \<Rightarrow> [(BrowserContexts, 1), (ExplorationContexts, 1)] @ (if replay then [(Replays, 1)] else [])
   | API \<Rightarrow> [(ApiExecutions, 1)] @ (if replay then [(Replays, 1)] else [])
   | REPRODUCTION \<Rightarrow> [(Replays, if replay then 2 else 1)]
   | MINIMIZATION \<Rightarrow> [(MinimizationCandidates, 1)])"
  by (cases kind) (simp_all add: reserve_requirements_def map_set_def map_get_def)

end
