(* ===== verification/Campaign_Budget_Properties.thy ===== *)
theory Campaign_Budget_Properties imports Campaign_Budget begin

text \<open>
  What the campaign budget guarantees: however reservations are interleaved the accepted ones fit
  under every limit and collection never takes the browser contexts kept for replay; and a
  campaign whose feasibility was established, and whose journeys and explorations fit their own
  caps, reserves every work item and still has the promised reproduction reserve.
\<close>

section \<open>Operations on a manager\<close>

datatype budget_op = Attempt work_item bool | Bundle requirements

text \<open>A bundle is an object, so its keys are distinct.\<close>

fun budget_apply :: "budget_manager \<Rightarrow> budget_op \<Rightarrow> (budget_error, budget_manager) result" where
  "budget_apply m (Attempt item replay) = reserve_item m item replay"
| "budget_apply m (Bundle rs) = (if distinct (map fst rs) then consumeBundle m rs else Inl BUDGET_AMOUNT_INVALID)"

definition budget_step :: "budget_manager \<Rightarrow> budget_op \<Rightarrow> budget_manager \<times> bool" where
  "budget_step m e = (case budget_apply m e of Inl _ \<Rightarrow> (m, False) | Inr m' \<Rightarrow> (m', True))"

definition item_requirements :: "work_item \<Rightarrow> bool \<Rightarrow> requirements" where
  "item_requirements item replay =
     (if \<not> replay \<and> wi_kind item = API \<and> wi_replayPolicy item = FIRST_PLUS_FRESH_REPLAY then [(ApiExecutions, 2), (Replays, 1)]
      else reserve_requirements (wi_kind item) replay)"

fun op_cost :: "budget_dimension \<Rightarrow> budget_op \<Rightarrow> int" where
  "op_cost d (Attempt item replay) = required (item_requirements item replay) d"
| "op_cost d (Bundle rs) = required rs d"

lemma item_requirements_distinct: "distinct (map fst (item_requirements item replay))"
  by (cases "wi_kind item") (simp_all add: item_requirements_def reserve_requirements_eval)

lemma collection_limit:
  "reserve_item m item replay = Inr m' \<Longrightarrow> consumeBundle m (item_requirements item replay) = Inr m'
   \<and> (wi_kind item = JOURNEY \<or> wi_kind item = EXPLORATION \<longrightarrow>
        bm_usage m BrowserContexts + 1 \<le> bm_collectionBrowserContextLimit m)"
  by (cases "wi_kind item")
     (auto simp: reserve_item_def item_requirements_def reserve_requirements_eval reserveWork_def reserveFirstPlusApi_def
        consumeCollectionBundle_def map_get_def Let_def split: if_splits)

lemma reserve_item_Inr_iff:
  "reserve_item m item replay = Inr m' \<longleftrightarrow>
    (wi_kind item = JOURNEY \<or> wi_kind item = EXPLORATION \<longrightarrow>
        bm_usage m BrowserContexts + 1 \<le> bm_collectionBrowserContextLimit m)
    \<and> consumeBundle m (item_requirements item replay) = Inr m'"
  by (cases "wi_kind item")
     (auto simp: reserve_item_def item_requirements_def reserve_requirements_eval reserveWork_def reserveFirstPlusApi_def
        consumeCollectionBundle_def map_get_def Let_def split: if_splits)

lemma apply_Inr:
  assumes "budget_apply m e = Inr m'"
  shows "m' = m\<lparr>bm_usage := \<lambda>d. bm_usage m d + op_cost d e\<rparr>
    \<and> (\<forall>d. 0 \<le> op_cost d e \<and> (op_cost d e = 0 \<or> bm_usage m d + op_cost d e \<le> LIMIT_FOR (bm_policy m) d))"
proof -
  obtain rs where rs: "distinct (map fst rs)" "consumeBundle m rs = Inr m'" "\<And>d. op_cost d e = required rs d"
  proof (cases e)
    case (Attempt item replay)
    show thesis by (rule that [of "item_requirements item replay"])
        (use Attempt assms collection_limit [of m item replay m'] item_requirements_distinct in auto)
  next
    case (Bundle rs)
    show thesis by (rule that [of rs]) (use Bundle assms in \<open>auto split: if_splits\<close>)
  qed
  have "0 \<le> required rs d \<and> (required rs d = 0 \<or> bm_usage m d + required rs d \<le> LIMIT_FOR (bm_policy m) d)" for d
  proof (cases "map_of rs d")
    case (Some n)
    then have "(d, n) \<in> set rs" by (rule map_of_SomeD)
    then show ?thesis using rs Some by (auto simp: consume_bundle_Inr_iff required_def)
  qed (simp add: required_def)
  then show ?thesis using rs by (simp add: consume_bundle_Inr_iff)
qed

definition budget_inv :: "budget_policy \<Rightarrow> budget_manager \<Rightarrow> bool" where
  "budget_inv p m = (bm_policy m = p \<and> bm_collectionBrowserContextLimit m + bm_protectedReplayBrowserContexts m = bp_maxTotalBrowserContexts p
     \<and> (\<forall>d. 0 \<le> bm_usage m d \<and> bm_usage m d \<le> LIMIT_FOR p d))"

lemma new_manager_inv:
  assumes "new_manager p initial protected = Inr m"
  shows "budget_inv p m \<and> bm_usage m = initial"
proof -
  have "0 \<le> initial d \<and> initial d \<le> LIMIT_FOR p d" for d
    using assms by (cases d) (auto simp: new_manager_def assertWithinLimits_def BUDGET_DIMENSIONS_def Let_def split: if_splits)
  moreover have "bm_policy m = p" "bm_usage m = initial"
      "bm_collectionBrowserContextLimit m + bm_protectedReplayBrowserContexts m = bp_maxTotalBrowserContexts p"
    using assms by (auto simp: new_manager_def Let_def split: if_splits)
  ultimately show ?thesis by (simp add: budget_inv_def)
qed

lemma step_inv: "budget_inv p m \<Longrightarrow> budget_inv p (fst (budget_step m e))"
proof -
  assume inv: "budget_inv p m"
  show "budget_inv p (fst (budget_step m e))"
  proof (cases "budget_apply m e")
    case (Inr m')
    note a = apply_Inr [OF Inr]
    have "0 \<le> bm_usage m' d \<and> bm_usage m' d \<le> LIMIT_FOR p d" for d
    proof -
      have "0 \<le> bm_usage m d" "bm_usage m d \<le> LIMIT_FOR p d" "bm_policy m = p" using inv by (simp_all add: budget_inv_def)
      moreover have "0 \<le> op_cost d e" "op_cost d e = 0 \<or> bm_usage m d + op_cost d e \<le> LIMIT_FOR (bm_policy m) d"
        using a by blast+
      moreover have "bm_usage m' d = bm_usage m d + op_cost d e" using a by simp
      ultimately show ?thesis by auto
    qed
    then show ?thesis using a inv Inr by (simp add: budget_step_def budget_inv_def)
  qed (use inv in \<open>simp add: budget_step_def\<close>)
qed

interpretation campaign: metered budget_step "budget_inv p" "\<lambda>m. bm_usage m d" "op_cost d" "LIMIT_FOR p d" for p d
proof unfold_locales
  show "budget_inv p m \<Longrightarrow> budget_inv p (fst (budget_step m e))" for m e by (rule step_inv)
  show "budget_inv p m \<Longrightarrow> snd (budget_step m e) \<Longrightarrow> bm_usage m d + op_cost d e \<le> bm_usage (fst (budget_step m e)) d" for m e
    using apply_Inr [of m e] by (auto simp: budget_step_def split: sum.splits)
  show "budget_inv p m \<Longrightarrow> \<not> snd (budget_step m e) \<Longrightarrow> bm_usage m d \<le> bm_usage (fst (budget_step m e)) d" for m e
    by (auto simp: budget_step_def split: sum.splits)
  show "budget_inv p m \<Longrightarrow> bm_usage m d \<le> LIMIT_FOR p d" for m by (simp add: budget_inv_def)
qed

text \<open>C18: However reservations, retries and bundles are interleaved, the accepted ones and the
  initial usage together stay within the policy's limit in every dimension, and whenever a
  journey or exploration is accepted the protected replay contexts are still free after it.\<close>

theorem campaign_stays_within_budget:
  assumes "new_manager p initial protected = Inr m"
  shows "initial d + sum_list (map (op_cost d) (accepted budget_step m es)) \<le> LIMIT_FOR p d
    \<and> (wi_kind item = JOURNEY \<or> wi_kind item = EXPLORATION \<longrightarrow> reserve_item (run_ops budget_step m es) item replay = Inr m'
        \<longrightarrow> bm_protectedReplayBrowserContexts m' \<le> remaining m' BrowserContexts)"
proof -
  have m: "budget_inv p m" "bm_usage m = initial" using new_manager_inv [OF assms] by simp_all
  have run: "budget_inv p (run_ops budget_step m es)" by (rule campaign.inv_run [OF m(1)])
  have "bm_protectedReplayBrowserContexts m' \<le> remaining m' BrowserContexts"
    if "wi_kind item = JOURNEY \<or> wi_kind item = EXPLORATION" and "reserve_item (run_ops budget_step m es) item replay = Inr m'"
  proof -
    let ?n = "run_ops budget_step m es"
    have "bm_usage ?n BrowserContexts + 1 \<le> bm_collectionBrowserContextLimit ?n"
      using collection_limit [OF that(2)] that(1) by blast
    moreover have "m' = ?n\<lparr>bm_usage := \<lambda>d. bm_usage ?n d + op_cost d (Attempt item replay)\<rparr>"
      using apply_Inr [of ?n "Attempt item replay" m'] that(2) by simp
    moreover have "op_cost BrowserContexts (Attempt item replay) = 1"
      using that(1) by (auto simp: item_requirements_def reserve_requirements_eval)
    ultimately show ?thesis using run by (simp add: remaining_def budget_inv_def)
  qed
  then show ?thesis using campaign.accepted_cost_capped [OF m(1), of d es] m(2) by auto
qed

section \<open>The abstract pool\<close>

text \<open>What the manager promises, without policies and usage: a pool of units per dimension, from
  which an operation takes its cost if every unit is there, collection leaving the protected
  contexts.\<close>

fun op_wf :: "budget_op \<Rightarrow> bool" where
  "op_wf (Attempt item replay) = True"
| "op_wf (Bundle rs) = distinct (map fst rs)"

fun collects :: "budget_op \<Rightarrow> bool" where
  "collects (Attempt item replay) = (wi_kind item = JOURNEY \<or> wi_kind item = EXPLORATION)"
| "collects (Bundle rs) = False"

definition pool_take :: "int \<Rightarrow> budget_usage \<Rightarrow> budget_op \<Rightarrow> budget_usage option" where
  "pool_take kept pool e =
     (if (\<forall>d\<in>set BUDGET_DIMENSIONS. 0 \<le> op_cost d e \<and> op_cost d e \<le> pool d)
         \<and> (collects e \<longrightarrow> kept + 1 \<le> pool BrowserContexts)
      then Some (\<lambda>d. pool d - op_cost d e) else None)"

lemma all_dimensions: "set BUDGET_DIMENSIONS = UNIV"
proof -
  have "d \<in> set BUDGET_DIMENSIONS" for d by (cases d) (simp_all add: BUDGET_DIMENSIONS_def)
  then show ?thesis by blast
qed

lemma bundle_fits:
  assumes "distinct (map fst rs)" and "\<forall>d. bm_usage m d \<le> LIMIT_FOR (bm_policy m) d"
  shows "(\<exists>m'. consumeBundle m rs = Inr m') \<longleftrightarrow> (\<forall>d. 0 \<le> required rs d \<and> required rs d \<le> remaining m d)"
proof -
  have "(\<forall>(d, n)\<in>set rs. 0 \<le> n \<and> bm_usage m d + n \<le> LIMIT_FOR (bm_policy m) d)
      \<longleftrightarrow> (\<forall>d. 0 \<le> required rs d \<and> bm_usage m d + required rs d \<le> LIMIT_FOR (bm_policy m) d)"
  proof (intro iffI allI ballI)
    fix d assume a: "\<forall>(d, n)\<in>set rs. 0 \<le> n \<and> bm_usage m d + n \<le> LIMIT_FOR (bm_policy m) d"
    show "0 \<le> required rs d \<and> bm_usage m d + required rs d \<le> LIMIT_FOR (bm_policy m) d"
    proof (cases "map_of rs d")
      case (Some n)
      then have "(d, n) \<in> set rs" by (rule map_of_SomeD)
      then show ?thesis using a Some by (auto simp: required_def)
    qed (use assms(2) in \<open>simp add: required_def\<close>)
  next
    fix e assume a: "\<forall>d. 0 \<le> required rs d \<and> bm_usage m d + required rs d \<le> LIMIT_FOR (bm_policy m) d" and e: "e \<in> set rs"
    obtain d n where dn: "e = (d, n)" by force
    then have "required rs d = n" using assms(1) e by (simp add: required_def)
    then show "case e of (d, n) \<Rightarrow> 0 \<le> n \<and> bm_usage m d + n \<le> LIMIT_FOR (bm_policy m) d" using a dn by auto
  qed
  then show ?thesis using consume_bundle_Inr_iff [OF assms(1)] by (simp add: remaining_def le_diff_eq add.commute)
qed

lemma apply_fits:
  assumes "budget_inv p m" and "op_wf e"
  shows "(\<exists>m'. budget_apply m e = Inr m') \<longleftrightarrow> pool_take (bm_protectedReplayBrowserContexts m) (remaining m) e \<noteq> None"
proof -
  have limits: "\<forall>d. bm_usage m d \<le> LIMIT_FOR (bm_policy m) d" using assms(1) by (simp add: budget_inv_def)
  have kept: "bm_usage m BrowserContexts + 1 \<le> bm_collectionBrowserContextLimit m \<longleftrightarrow>
      bm_protectedReplayBrowserContexts m + 1 \<le> remaining m BrowserContexts"
    using assms(1) by (auto simp: budget_inv_def remaining_def)
  show ?thesis
  proof (cases e)
    case (Attempt item replay)
    then show ?thesis using bundle_fits [OF item_requirements_distinct limits, of item replay] kept
      by (auto simp: reserve_item_Inr_iff pool_take_def all_dimensions)
  next
    case (Bundle rs)
    then show ?thesis using bundle_fits [OF _ limits, of rs] assms(2) by (simp add: pool_take_def all_dimensions)
  qed
qed

text \<open>C19: The budget manager refines the abstract pool: on every well-formed operation it succeeds
  exactly when the pool of its remaining units can pay, and the units remaining afterwards are
  the pool's.\<close>

theorem manager_refines_pool:
  assumes "budget_inv p m" and "op_wf e"
  shows "pool_take (bm_protectedReplayBrowserContexts m) (remaining m) e
    = (case budget_apply m e of Inl _ \<Rightarrow> None | Inr m' \<Rightarrow> Some (remaining m'))"
proof (cases "budget_apply m e")
  case (Inl x)
  then show ?thesis using apply_fits [OF assms] by auto
next
  case (Inr m')
  then have "remaining m' = (\<lambda>d. remaining m d - op_cost d e)" using apply_Inr [OF Inr] by (auto simp: remaining_def)
  moreover have "pool_take (bm_protectedReplayBrowserContexts m) (remaining m) e \<noteq> None" using apply_fits [OF assms] Inr by blast
  ultimately show ?thesis using Inr by (auto simp: pool_take_def split: if_splits)
qed

section \<open>Feasible campaigns\<close>

fun reserve_all :: "budget_manager \<Rightarrow> work_item list \<Rightarrow> (budget_error, budget_manager) result" where
  "reserve_all m [] = Inr m"
| "reserve_all m (i # items) = bind_res (reserve_item m i False) (\<lambda>m'. reserve_all m' items)"

definition kind_count :: "work_kind \<Rightarrow> work_item list \<Rightarrow> int" where
  "kind_count k items = int (length (filter (\<lambda>i. wi_kind i = k) items))"

definition plan_cost :: "work_item list \<Rightarrow> budget_usage" where
  "plan_cost items d = sum_list (map (\<lambda>i. required (item_requirements i False) d) items)"

lemma plan_cost_simps [simp]:
  "plan_cost [] d = 0" "plan_cost (i # items) d = required (item_requirements i False) d + plan_cost items d"
  by (simp_all add: plan_cost_def)

lemma required_nonneg: "0 \<le> required (item_requirements i replay) d"
  by (cases "wi_kind i") (simp_all add: item_requirements_def reserve_requirements_eval)

lemma plan_cost_nonneg: "0 \<le> plan_cost items d"
  by (induction items) (simp_all add: required_nonneg)

lemma api_cost_Cons:
  "api_cost (i # items) = (if wi_kind i = API then (if wi_replayPolicy i = FIRST_PLUS_FRESH_REPLAY then 2 else 1) else 0) + api_cost items"
proof -
  have sum: "foldl (\<lambda>total i. total + f i) (a :: int) xs = a + sum_list (map f xs)" for f a and xs :: "work_item list"
    by (induction xs arbitrary: a) (simp_all add: add.assoc)
  show ?thesis unfolding api_cost_def sum by simp
qed

lemma plan_cost_counts:
  assumes "\<forall>i\<in>set items. wi_kind i \<noteq> REPRODUCTION \<and> wi_kind i \<noteq> MINIMIZATION"
  shows "plan_cost items BrowserContexts = browser_items items \<and> plan_cost items JourneyContexts = kind_count JOURNEY items
    \<and> plan_cost items ExplorationContexts = kind_count EXPLORATION items \<and> plan_cost items ApiExecutions = api_cost items
    \<and> plan_cost items Replays = replay_items items \<and> plan_cost items MinimizationCandidates = 0
    \<and> plan_cost items TotalActions = 0 \<and> plan_cost items PrivateEvidenceBytes = 0"
  using assms
proof (induction items)
  case (Cons i items)
  then show ?case
    by (cases "wi_kind i")
       (simp_all add: item_requirements_def reserve_requirements_eval api_cost_Cons browser_items_def kind_count_def replay_items_def)
qed (simp add: browser_items_def kind_count_def replay_items_def api_cost_def)

lemma reserve_all_ok:
  assumes "\<forall>d. bm_usage m d + plan_cost items d \<le> LIMIT_FOR (bm_policy m) d"
    and "bm_usage m BrowserContexts + plan_cost items BrowserContexts \<le> bm_collectionBrowserContextLimit m"
  shows "reserve_all m items = Inr (m\<lparr>bm_usage := \<lambda>d. bm_usage m d + plan_cost items d\<rparr>)"
  using assms
proof (induction items arbitrary: m)
  case (Cons i items)
  let ?rs = "item_requirements i False" and ?m = "m\<lparr>bm_usage := \<lambda>d. bm_usage m d + required (item_requirements i False) d\<rparr>"
  have fits: "bm_usage m d + required ?rs d \<le> LIMIT_FOR (bm_policy m) d" for d
  proof -
    have "bm_usage m d + (required ?rs d + plan_cost items d) \<le> LIMIT_FOR (bm_policy m) d" using Cons.prems(1) by simp
    then show ?thesis using plan_cost_nonneg [of items d] by linarith
  qed
  have "\<forall>(d, n)\<in>set ?rs. 0 \<le> n \<and> bm_usage m d + n \<le> LIMIT_FOR (bm_policy m) d"
  proof (clarify, rule conjI)
    fix d n assume "(d, n) \<in> set ?rs"
    then have "required ?rs d = n" using item_requirements_distinct [of i False] by (simp add: required_def)
    then show "0 \<le> n" "bm_usage m d + n \<le> LIMIT_FOR (bm_policy m) d" using fits [of d] required_nonneg [of i False d] by simp_all
  qed
  moreover have "bm_usage m BrowserContexts + 1 \<le> bm_collectionBrowserContextLimit m" if "wi_kind i = JOURNEY \<or> wi_kind i = EXPLORATION"
    using that Cons.prems(2) plan_cost_nonneg [of items BrowserContexts] by (auto simp: item_requirements_def reserve_requirements_eval)
  ultimately have "reserve_item m i False = Inr ?m"
    unfolding reserve_item_Inr_iff using consume_bundle_Inr_iff [OF item_requirements_distinct] by blast
  moreover have "reserve_all ?m items = Inr (?m\<lparr>bm_usage := \<lambda>d. bm_usage ?m d + plan_cost items d\<rparr>)"
    by (rule Cons.IH) (use Cons.prems in \<open>simp_all add: add.assoc\<close>)
  ultimately show ?case by (simp add: add.assoc)
qed simp

text \<open>The promise behind a feasible real campaign holds: when the feasibility check passes, the
  work is journeys, explorations and API items, and journeys and explorations fit their own
  caps, a fresh manager reserves every item in order, whatever the order, and still has the
  browser context, API execution and replay for each promoted cluster.\<close>

theorem feasible_campaign_reserves_all:
  assumes "new_manager p ZERO_USAGE (Some (bp_maxPromotedClusters p)) = Inr m"
    and "bf_feasible (analyzeCampaignBudgetFeasibility mode p items (Some True))" and "mode \<noteq> ''REPRODUCTION_ONLY''"
    and "\<forall>i\<in>set items. wi_kind i \<noteq> REPRODUCTION \<and> wi_kind i \<noteq> MINIMIZATION"
    and "kind_count JOURNEY items \<le> bp_maxJourneyContexts p" and "kind_count EXPLORATION items \<le> bp_maxExplorationContexts p"
  shows "\<exists>m'. reserve_all m items = Inr m' \<and> bp_maxPromotedClusters p \<le> remaining m' BrowserContexts
    \<and> bp_maxPromotedClusters p \<le> remaining m' ApiExecutions \<and> bp_maxPromotedClusters p \<le> remaining m' Replays
    \<and> bp_maxPromotedClusters p \<le> remaining m' MinimizationCandidates"
proof -
  note costs = plan_cost_counts [OF assms(4)]
  have m: "bm_policy m = p" "bm_usage m = ZERO_USAGE" "bm_collectionBrowserContextLimit m = bp_maxTotalBrowserContexts p - bp_maxPromotedClusters p"
    using assms(1) by (auto simp: new_manager_def Let_def split: if_splits)
  have inv: "budget_inv p m" using new_manager_inv [OF assms(1)] by simp
  have clusters: "0 \<le> bp_maxPromotedClusters p"
    using assms(1) by (auto simp: new_manager_def Let_def split: if_splits)
  have feasible: "browser_items items + bp_maxPromotedClusters p \<le> bp_maxTotalBrowserContexts p"
      "api_cost items + bp_maxPromotedClusters p \<le> bp_maxApiExecutions p"
      "replay_items items + bp_maxPromotedClusters p \<le> bp_maxReplays p"
      "bp_maxPromotedClusters p \<le> bp_maxMinimizationCandidates p"
    using assms(2,3) by (simp_all add: analyzeCampaignBudgetFeasibility_def Let_def not_less split: if_splits)
  have limits: "0 \<le> LIMIT_FOR p d" for d using inv m(2) by (auto simp: budget_inv_def ZERO_USAGE_def)
  have "bm_usage m d + plan_cost items d \<le> LIMIT_FOR (bm_policy m) d" for d
    using costs feasible clusters assms(5,6) m limits [of d] by (cases d) (simp_all add: ZERO_USAGE_def)
  then have "reserve_all m items = Inr (m\<lparr>bm_usage := \<lambda>d. bm_usage m d + plan_cost items d\<rparr>)"
    using costs feasible m by (intro reserve_all_ok) (simp_all add: ZERO_USAGE_def)
  then show ?thesis using costs feasible m by (simp add: remaining_def ZERO_USAGE_def)
qed

text \<open>The feasibility check leaves out the journey and exploration caps: with the initial real
  budget a single exploration is declared feasible, yet its reservation is refused.\<close>

theorem feasible_exploration_is_refused:
  "\<exists>item m. bf_feasible (analyzeCampaignBudgetFeasibility ''REAL'' INITIAL_REAL_CAMPAIGN_BUDGET [item] (Some True))
     \<and> new_manager INITIAL_REAL_CAMPAIGN_BUDGET ZERO_USAGE (Some (bp_maxPromotedClusters INITIAL_REAL_CAMPAIGN_BUDGET)) = Inr m
     \<and> reserve_item m item False = Inl (BUDGET_SPENT ExplorationContexts)"
proof -
  let ?p = INITIAL_REAL_CAMPAIGN_BUDGET and ?i = "\<lparr>wi_workItemId = ''e'', wi_kind = EXPLORATION, wi_replayPolicy = NO_REPLAY\<rparr>"
  let ?m = "\<lparr>bm_policy = ?p, bm_protectedReplayBrowserContexts = 1, bm_collectionBrowserContextLimit = 5, bm_usage = ZERO_USAGE\<rparr>"
  have "new_manager ?p ZERO_USAGE (Some (bp_maxPromotedClusters ?p)) = Inr ?m"
    by (simp add: new_manager_def validateBudgetPolicy_def policy_values_def assertWithinLimits_def BUDGET_DIMENSIONS_def
        INITIAL_REAL_CAMPAIGN_BUDGET_def ZERO_USAGE_def)
  moreover have "bf_feasible (analyzeCampaignBudgetFeasibility ''REAL'' ?p [?i] (Some True))"
    by (simp add: analyzeCampaignBudgetFeasibility_def browser_items_def api_cost_def replay_items_def INITIAL_REAL_CAMPAIGN_BUDGET_def)
  moreover have "reserve_item ?m ?i False = Inl (BUDGET_SPENT ExplorationContexts)"
    by (simp add: reserve_item_def reserveWork_def reserve_requirements_eval consumeCollectionBundle_def consumeBundle_def
        canConsume_def map_get_def ZERO_USAGE_def INITIAL_REAL_CAMPAIGN_BUDGET_def)
  ultimately show ?thesis by blast
qed

section \<open>Witnesses\<close>

definition w_journey :: work_item where
  "w_journey = \<lparr>wi_workItemId = ''j'', wi_kind = JOURNEY, wi_replayPolicy = NO_REPLAY\<rparr>"

definition w_first_plus :: work_item where
  "w_first_plus = \<lparr>wi_workItemId = ''a'', wi_kind = API, wi_replayPolicy = FIRST_PLUS_FRESH_REPLAY\<rparr>"

lemma w_manager: "\<exists>m. new_manager INITIAL_REAL_CAMPAIGN_BUDGET ZERO_USAGE (Some 1) = Inr m"
  by (simp add: new_manager_def validateBudgetPolicy_def policy_values_def assertWithinLimits_def BUDGET_DIMENSIONS_def
      INITIAL_REAL_CAMPAIGN_BUDGET_def ZERO_USAGE_def)

theorem campaign_stays_within_budget_witness:
  "\<exists>m. new_manager INITIAL_REAL_CAMPAIGN_BUDGET ZERO_USAGE (Some 1) = Inr m
     \<and> sum_list (map (op_cost Replays) (accepted budget_step m (replicate 20 (Attempt w_first_plus False)))) \<le> 8"
proof -
  obtain m where m: "new_manager INITIAL_REAL_CAMPAIGN_BUDGET ZERO_USAGE (Some 1) = Inr m" using w_manager by blast
  show ?thesis using campaign_stays_within_budget [OF m, of Replays "replicate 20 (Attempt w_first_plus False)"] m
    by (auto simp: ZERO_USAGE_def INITIAL_REAL_CAMPAIGN_BUDGET_def)
qed

theorem manager_refines_pool_witness:
  "\<exists>m. new_manager INITIAL_REAL_CAMPAIGN_BUDGET ZERO_USAGE (Some 1) = Inr m
     \<and> (case budget_apply m (Bundle [(Replays, 9)]) of Inl _ \<Rightarrow> None | Inr m' \<Rightarrow> Some (remaining m')) = None"
proof -
  obtain m where m: "new_manager INITIAL_REAL_CAMPAIGN_BUDGET ZERO_USAGE (Some 1) = Inr m" using w_manager by blast
  have inv: "budget_inv INITIAL_REAL_CAMPAIGN_BUDGET m" "bm_usage m = ZERO_USAGE" using new_manager_inv [OF m] by simp_all
  then have "remaining m Replays = 8" by (simp add: remaining_def budget_inv_def ZERO_USAGE_def INITIAL_REAL_CAMPAIGN_BUDGET_def)
  then have "pool_take k (remaining m) (Bundle [(Replays, 9)]) = None" for k
    by (auto simp: pool_take_def all_dimensions intro!: exI [of _ Replays])
  then show ?thesis using manager_refines_pool [OF inv(1), of "Bundle [(Replays, 9)]"] m by auto
qed

theorem feasible_campaign_reserves_all_witness:
  "\<exists>m m'. new_manager INITIAL_REAL_CAMPAIGN_BUDGET ZERO_USAGE (Some 1) = Inr m
     \<and> reserve_all m [w_journey, w_first_plus, w_journey] = Inr m' \<and> 1 \<le> remaining m' BrowserContexts"
proof -
  let ?p = INITIAL_REAL_CAMPAIGN_BUDGET and ?items = "[w_journey, w_first_plus, w_journey]"
  have c: "bp_maxPromotedClusters ?p = 1" by (simp add: INITIAL_REAL_CAMPAIGN_BUDGET_def)
  obtain m where m: "new_manager ?p ZERO_USAGE (Some (bp_maxPromotedClusters ?p)) = Inr m" using w_manager c by auto
  have "bf_feasible (analyzeCampaignBudgetFeasibility ''REAL'' ?p ?items (Some True))"
    by (simp add: analyzeCampaignBudgetFeasibility_def browser_items_def api_cost_def replay_items_def INITIAL_REAL_CAMPAIGN_BUDGET_def
        w_journey_def w_first_plus_def)
  moreover have "kind_count JOURNEY ?items \<le> bp_maxJourneyContexts ?p" "kind_count EXPLORATION ?items \<le> bp_maxExplorationContexts ?p"
      "\<forall>i\<in>set ?items. wi_kind i \<noteq> REPRODUCTION \<and> wi_kind i \<noteq> MINIMIZATION"
    by (simp_all add: kind_count_def INITIAL_REAL_CAMPAIGN_BUDGET_def w_journey_def w_first_plus_def)
  ultimately show ?thesis using feasible_campaign_reserves_all [OF m, of "''REAL''" ?items] m c by auto
qed

end
