(* ===== verification/Shard_Plan.thy ===== *)
theory Shard_Plan imports Prelude "HOL-Library.List_Lexorder" "HOL-Library.Char_ord" begin

text \<open>
  The validation shard planner, \<open>src/core/validation/shardPlan.ts\<close>. Parameters: SHA-256 in
  hexadecimal (\<open>sha\<close>), \<open>localeCompare\<close> as a comparison (\<open>locale_le\<close>) and \<open>Number()\<close> of a
  non-number. Measured weights are rationals, added exactly; an object of classes or weights is
  an association list.
\<close>

section \<open>Data\<close>

definition DEFAULT_PARALLEL_SHARDS :: int where
  "DEFAULT_PARALLEL_SHARDS = 2"

definition MAX_PARALLEL_SHARDS :: int where
  "MAX_PARALLEL_SHARDS = 8"

definition MAX_FILES_PER_INVOCATION :: int where
  "MAX_FILES_PER_INVOCATION = 512"

record shard =
  sh_id :: string
  sh_files :: "string list"
  sh_digest :: string
  sh_byClass :: "(string \<times> nat) list"

record shard_plan =
  sp_universeCount :: nat
  sp_universeDigest :: string
  sp_parallelShardCount :: nat
  sp_parallelShards :: "shard list"
  sp_exclusiveShard :: "shard option"
  sp_planDigest :: string

datatype shard_violation = SHARD_UNIVERSE_EMPTY | SHARD_CLASS_MISSING string | SHARD_CLASS_UNKNOWN string string
  | SHARD_CLASS_DECLARED_MISSING string

datatype shard_error = SHARD_COUNT_OUT_OF_RANGE int | SHARD_ARGV_BOUND_EXCEEDED nat int

record plan_input =
  pi_universe :: "string list"
  pi_classes :: "(string \<times> string) list"
  pi_parallelShardCount :: "int option"
  pi_maxFilesPerInvocation :: "int option"
  pi_weights :: "(string \<times> rat) list option"

record coverage =
  cv_ok :: bool
  cv_missing :: "string list"
  cv_duplicated :: "string list"
  cv_unexpected :: "string list"
  cv_universeDigest :: string

section \<open>Planning\<close>

definition digestOf :: "(string \<Rightarrow> string) \<Rightarrow> string list \<Rightarrow> string" where
  "digestOf sha values = ''sha256:'' @ take 24 (sha (join_with [CHR 0x0A] (sort_by str_le values)))"

definition countByClass :: "string list \<Rightarrow> (string \<times> string) list \<Rightarrow> (string \<times> nat) list" where
  "countByClass files classes =
     foldl (\<lambda>counts f.
       let name = (case map_get classes f of None \<Rightarrow> ''UNCLASSIFIED'' | Some c \<Rightarrow> c)
       in map_set counts name ((case map_get counts name of None \<Rightarrow> 0 | Some n \<Rightarrow> n) + 1)) [] files"

definition sorted_universe :: "string list \<Rightarrow> string list" where
  "sorted_universe files = sort_by str_le (dedupe files)"

definition known_class :: "string \<Rightarrow> bool" where
  "known_class c = (c \<in> set [''PARALLEL_SAFE'', ''PROCESS_ISOLATED_ONLY'', ''SERIAL_REQUIRED'', ''MUTATION_CAMPAIGN_EXCLUSIVE''])"

definition validateShardInputs :: "string list \<Rightarrow> (string \<times> string) list \<Rightarrow> shard_violation list" where
  "validateShardInputs universe classes =
     (if universe = [] then [SHARD_UNIVERSE_EMPTY] else [])
     @ concat (map (\<lambda>f. case map_get classes f of
         None \<Rightarrow> [SHARD_CLASS_MISSING f]
       | Some c \<Rightarrow> if known_class c then [] else [SHARD_CLASS_UNKNOWN f c]) (sorted_universe universe))
     @ concat (map (\<lambda>f. if f \<in> set universe then [] else [SHARD_CLASS_DECLARED_MISSING f]) (sort_by str_le (map fst classes)))"

definition class_in :: "(string \<times> string) list \<Rightarrow> string list \<Rightarrow> string \<Rightarrow> bool" where
  "class_in classes wanted f = (case map_get classes f of None \<Rightarrow> False | Some c \<Rightarrow> c \<in> set wanted)"

definition parallel_eligible :: "(string \<times> string) list \<Rightarrow> string \<Rightarrow> bool" where
  "parallel_eligible classes = class_in classes [''PARALLEL_SAFE'', ''PROCESS_ISOLATED_ONLY'']"

definition exclusive_only :: "(string \<times> string) list \<Rightarrow> string \<Rightarrow> bool" where
  "exclusive_only classes = class_in classes [''SERIAL_REQUIRED'', ''MUTATION_CAMPAIGN_EXCLUSIVE'']"

definition push :: "string list list \<Rightarrow> nat \<Rightarrow> string \<Rightarrow> string list list" where
  "push buckets k f = buckets[k := buckets ! k @ [f]]"

fun round_robin :: "nat \<Rightarrow> nat \<Rightarrow> string list list \<Rightarrow> string list \<Rightarrow> string list list" where
  "round_robin n i buckets [] = buckets"
| "round_robin n i buckets (f # fs) = round_robin n (Suc i) (push buckets (i mod n) f) fs"

definition weight_le :: "(string \<Rightarrow> string \<Rightarrow> bool) \<Rightarrow> (string \<times> rat) list \<Rightarrow> string \<Rightarrow> string \<Rightarrow> bool" where
  "weight_le locale_le weights left right =
     (case (map_get weights left, map_get weights right) of
        (Some a, Some b) \<Rightarrow> b < a \<or> (a = b \<and> locale_le left right)
      | (Some a, None) \<Rightarrow> True
      | (None, Some b) \<Rightarrow> False
      | (None, None) \<Rightarrow> locale_le left right)"

definition lightest :: "rat list \<Rightarrow> nat" where
  "lightest ws = foldl (\<lambda>target i. if ws ! i < ws ! target then i else target) 0 [1..<length ws]"

fun balance :: "(string \<times> rat) list \<Rightarrow> string list list \<Rightarrow> rat list \<Rightarrow> string list \<Rightarrow> string list list" where
  "balance weights buckets ws [] = buckets"
| "balance weights buckets ws (f # fs) =
     (let target = lightest ws; cost = (case map_get weights f of None \<Rightarrow> 1 | Some w \<Rightarrow> w)
      in balance weights (push buckets target f) (ws[target := ws ! target + cost]) fs)"

definition shard_of :: "(string \<Rightarrow> string) \<Rightarrow> (string \<times> string) list \<Rightarrow> string \<Rightarrow> string list \<Rightarrow> shard" where
  "shard_of sha classes i files = \<lparr>sh_id = i, sh_files = files, sh_digest = digestOf sha files, sh_byClass = countByClass files classes\<rparr>"

definition parallel_shards :: "(string \<Rightarrow> string) \<Rightarrow> (string \<times> string) list \<Rightarrow> string list list \<Rightarrow> shard list" where
  "parallel_shards sha classes buckets =
     map (\<lambda>(i, files). shard_of sha classes i files)
       (filter (\<lambda>(i, files). files \<noteq> [])
         (map (\<lambda>(i, files). (''shard-'' @ nat_to_dec (i + 1), sort_by str_le files)) (zip [0..<length buckets] buckets)))"

definition planShards ::
  "(string \<Rightarrow> string) \<Rightarrow> (string \<Rightarrow> string \<Rightarrow> bool) \<Rightarrow> plan_input \<Rightarrow> (shard_error, shard_plan) result" where
  "planShards sha locale_le p =
     (let universe = sorted_universe (pi_universe p); classes = pi_classes p;
          requested = (case pi_parallelShardCount p of None \<Rightarrow> DEFAULT_PARALLEL_SHARDS | Some n \<Rightarrow> n);
          bound = (case pi_maxFilesPerInvocation p of None \<Rightarrow> MAX_FILES_PER_INVOCATION | Some n \<Rightarrow> n);
          eligible = filter (parallel_eligible classes) universe;
          exclusive = filter (exclusive_only classes) universe
      in if requested < 1 \<or> MAX_PARALLEL_SHARDS < requested then Inl (SHARD_COUNT_OUT_OF_RANGE requested)
         else if requested * bound < int (length eligible) then Inl (SHARD_ARGV_BOUND_EXCEEDED (length eligible) (requested * bound))
         else let n = nat requested;
                  buckets = (case pi_weights p of
                      None \<Rightarrow> round_robin n 0 (replicate n []) eligible
                    | Some weights \<Rightarrow> balance weights (replicate n []) (replicate n 0) (sort_by (weight_le locale_le weights) eligible));
                  shards = parallel_shards sha classes buckets;
                  exclusiveShard = (if exclusive = [] then None else Some (shard_of sha classes ''exclusive'' exclusive));
                  named = map (\<lambda>s. sh_id s @ '':'' @ sh_digest s)
              in Inr \<lparr>sp_universeCount = length universe, sp_universeDigest = digestOf sha universe, sp_parallelShardCount = n,
                      sp_parallelShards = shards, sp_exclusiveShard = exclusiveShard,
                      sp_planDigest = digestOf sha ((''universe:'' @ digestOf sha universe) # named shards
                        @ named (case exclusiveShard of None \<Rightarrow> [] | Some s \<Rightarrow> [s]))\<rparr>)"

section \<open>Checking a plan\<close>

fun coverage_scan :: "string list \<Rightarrow> string list \<Rightarrow> string list \<Rightarrow> string list \<times> string list" where
  "coverage_scan universe seen [] = ([], [])"
| "coverage_scan universe seen (f # fs) =
     (case coverage_scan universe (f # seen) fs of
        (duplicated, unexpected) \<Rightarrow>
          ((if f \<in> set seen then [f] else []) @ duplicated, (if f \<in> set universe then [] else [f]) @ unexpected))"

definition verifyShardCoverage :: "(string \<Rightarrow> string) \<Rightarrow> string list \<Rightarrow> shard list \<Rightarrow> coverage" where
  "verifyShardCoverage sha files shards =
     (let universe = sorted_universe files; placed = concat (map sh_files shards);
          missing = filter (\<lambda>f. f \<notin> set placed) universe
      in case coverage_scan universe [] placed of
           (duplicated, unexpected) \<Rightarrow>
             \<lparr>cv_ok = (missing = [] \<and> duplicated = [] \<and> unexpected = []), cv_missing = missing, cv_duplicated = duplicated,
              cv_unexpected = unexpected, cv_universeDigest = digestOf sha universe\<rparr>)"

definition resolveParallelShardCount :: "(json \<Rightarrow> rat option) \<Rightarrow> json option \<Rightarrow> int \<Rightarrow> int option" where
  "resolveParallelShardCount to_number raw fallback =
     (if raw = None \<or> raw = Some JNull \<or> raw = Some (JStr []) then Some fallback
      else case (case the raw of JNum q \<Rightarrow> Some q | v \<Rightarrow> to_number v) of
             None \<Rightarrow> None
           | Some q \<Rightarrow> if \<not> is_integer q \<or> q < 1 \<or> of_int MAX_PARALLEL_SHARDS < q then None else Some \<lfloor>q\<rfloor>)"

section \<open>Placing files\<close>

lemma concat_update: "k < length bs \<Longrightarrow> mset (concat (push bs k f)) = add_mset f (mset (concat bs))"
proof (induction bs arbitrary: k)
  case (Cons b bs)
  then show ?case by (cases k) (simp_all add: push_def)
qed simp

lemma length_push [simp]: "length (push bs k f) = length bs"
  by (simp add: push_def)

lemma round_robin_mset:
  "0 < n \<Longrightarrow> length bs = n \<Longrightarrow> mset (concat (round_robin n i bs fs)) = mset (concat bs) + mset fs
    \<and> length (round_robin n i bs fs) = n"
  by (induction fs arbitrary: i bs) (simp_all add: concat_update)

lemma lightest_less: "ws \<noteq> [] \<Longrightarrow> lightest ws < length ws"
proof -
  have "foldl (\<lambda>target i. if ws ! i < ws ! target then i else target) t is < length ws"
    if "t < length ws" "\<forall>i\<in>set is. i < length ws" for t "is"
    using that by (induction "is" arbitrary: t) auto
  then show "ws \<noteq> [] \<Longrightarrow> lightest ws < length ws" by (simp add: lightest_def)
qed

lemma balance_mset:
  "0 < n \<Longrightarrow> length bs = n \<Longrightarrow> length ws = n \<Longrightarrow> mset (concat (balance weights bs ws fs)) = mset (concat bs) + mset fs
    \<and> length (balance weights bs ws fs) = n"
proof (induction fs arbitrary: bs ws)
  case (Cons f fs)
  have "ws \<noteq> []" using Cons.prems by auto
  then have "lightest ws < length bs" using lightest_less [of ws] Cons.prems by simp
  then show ?case using Cons by (simp add: Let_def concat_update)
qed simp

text \<open>How many of the first \<open>k\<close> indices fall into bucket \<open>j\<close>.\<close>

definition share :: "nat \<Rightarrow> nat \<Rightarrow> nat \<Rightarrow> nat" where
  "share n k j = length (filter (\<lambda>i. i mod n = j) [0..<k])"

lemma share_bound:
  assumes "k \<le> n * b"
  shows "share n k j \<le> b"
proof -
  let ?I = "{i. i < k \<and> i mod n = j}"
  have "share n k j = card (set (filter (\<lambda>i. i mod n = j) [0..<k]))" unfolding share_def by (subst distinct_card) auto
  also have "set (filter (\<lambda>i. i mod n = j) [0..<k]) = ?I" by auto
  also have "card ?I \<le> card {..<b}"
  proof (rule card_inj_on_le [where f = "\<lambda>i. i div n"])
    show "inj_on (\<lambda>i. i div n) ?I" by (rule inj_onI) (metis (mono_tags, lifting) div_mult_mod_eq mem_Collect_eq)
    show "(\<lambda>i. i div n) ` ?I \<subseteq> {..<b}" using assms by (auto simp: less_mult_imp_div_less mult.commute)
  qed simp
  finally show ?thesis by simp
qed

lemma round_robin_share:
  "0 < n \<Longrightarrow> length bs = n \<Longrightarrow> \<forall>j<n. length (bs ! j) = share n i j \<Longrightarrow>
    j < n \<Longrightarrow> length (round_robin n i bs fs ! j) = share n (i + length fs) j"
proof (induction fs arbitrary: i bs)
  case (Cons f fs)
  have "\<forall>j<n. length (push bs (i mod n) f ! j) = share n (Suc i) j"
    using Cons.prems by (auto simp: push_def nth_list_update share_def)
  then show ?case using Cons.IH [of "push bs (i mod n) f" "Suc i"] Cons.prems by simp
qed simp

section \<open>Order\<close>

lemma str_le_iff: "str_le s t \<longleftrightarrow> s \<le> t"
proof (induction s t rule: str_le.induct)
  case (3 a s b t)
  have "code_unit a < code_unit b \<longleftrightarrow> a < b" "code_unit a = code_unit b \<longleftrightarrow> a = b"
    by (simp_all add: code_unit_def less_char_def)
  then show ?case using 3 by (auto simp: Cons_le_Cons)
qed simp_all

lemma sort_by_str: "sort_by str_le xs = sort xs"
proof -
  have "insert_by str_le x ys = insort x ys" for x ys by (induction ys) (simp_all add: str_le_iff)
  then show ?thesis by (induction xs) (simp_all add: sort_by_def)
qed

lemma sorted_universe_set: "sorted_universe files = sorted_list_of_set (set files)"
proof -
  have "sorted (sorted_universe files)" "distinct (sorted_universe files)" "set (sorted_universe files) = set files"
    by (simp_all add: sorted_universe_def sort_by_str)
  then show ?thesis by (metis sorted_distinct_set_unique sorted_list_of_set.set_sorted_key_list_of_set
      sorted_list_of_set.distinct_sorted_key_list_of_set sorted_sorted_list_of_set List.finite_set)
qed

lemma sorted_universe_simps [simp]:
  "set (sorted_universe files) = set files" "distinct (sorted_universe files)"
  by (simp_all add: sorted_universe_def)

end
