(* ===== verification/Shard_Plan_Properties.thy ===== *)
theory Shard_Plan_Properties imports Shard_Plan begin

text \<open>
  What the shard planner guarantees: a plan of classified files passes its own coverage check
  (every file in exactly one shard), keeps exclusive files apart and plans no empty shard; it
  depends only on the set of files; round-robin shards respect the argv bound, duration
  balancing does not.
\<close>

section \<open>The shards of a plan\<close>

definition bucket_list :: "(string \<Rightarrow> string \<Rightarrow> bool) \<Rightarrow> plan_input \<Rightarrow> nat \<Rightarrow> string list list" where
  "bucket_list locale_le p n =
     (let eligible = filter (parallel_eligible (pi_classes p)) (sorted_universe (pi_universe p))
      in case pi_weights p of
           None \<Rightarrow> round_robin n 0 (replicate n []) eligible
         | Some weights \<Rightarrow> balance weights (replicate n []) (replicate n 0) (sort_by (weight_le locale_le weights) eligible))"

lemma plan_cases:
  assumes "planShards sha locale_le p = Inr plan"
  defines "n \<equiv> sp_parallelShardCount plan" and "bound \<equiv> case pi_maxFilesPerInvocation p of None \<Rightarrow> MAX_FILES_PER_INVOCATION | Some n \<Rightarrow> n"
  shows "0 < n \<and> sp_parallelShards plan = parallel_shards sha (pi_classes p) (bucket_list locale_le p n)
    \<and> sp_exclusiveShard plan = (let exclusive = filter (exclusive_only (pi_classes p)) (sorted_universe (pi_universe p))
         in if exclusive = [] then None else Some (shard_of sha (pi_classes p) ''exclusive'' exclusive))
    \<and> int (length (filter (parallel_eligible (pi_classes p)) (sorted_universe (pi_universe p)))) \<le> int n * bound"
  using assms by (auto simp: planShards_def bucket_list_def Let_def not_less split: if_splits option.splits)

lemma bucket_list_mset:
  "0 < n \<Longrightarrow> mset (concat (bucket_list locale_le p n))
      = mset (filter (parallel_eligible (pi_classes p)) (sorted_universe (pi_universe p)))
    \<and> length (bucket_list locale_le p n) = n"
  by (simp add: bucket_list_def round_robin_mset balance_mset Let_def split: option.split)

lemma parallel_files:
  "map sh_files (parallel_shards sha classes buckets) = filter (\<lambda>fs. fs \<noteq> []) (map (sort_by str_le) buckets)"
proof -
  have "map sh_files (parallel_shards sha classes buckets)
      = filter (\<lambda>fs. fs \<noteq> []) (map snd (map (\<lambda>(i, files). (''shard-'' @ nat_to_dec (i + 1), sort_by str_le files)) (zip [0..<length buckets] buckets)))"
    by (simp add: parallel_shards_def shard_of_def comp_def case_prod_unfold filter_map)
  also have "map snd (map (\<lambda>(i, files). (''shard-'' @ nat_to_dec (i + 1), sort_by str_le files)) (zip [0..<length buckets] buckets))
      = map (sort_by str_le) buckets"
    by (rule nth_equalityI) simp_all
  finally show ?thesis .
qed

lemma concat_nonempty: "mset (concat (filter (\<lambda>fs. fs \<noteq> []) xss)) = mset (concat xss)"
  by (induction xss) auto

lemma concat_sorted: "mset (concat (map (sort_by le) xss)) = mset (concat xss)"
  by (induction xss) simp_all

definition exclusive_shards :: "shard_plan \<Rightarrow> shard list" where
  "exclusive_shards plan = (case sp_exclusiveShard plan of None \<Rightarrow> [] | Some s \<Rightarrow> [s])"

lemma plan_files:
  assumes "planShards sha locale_le p = Inr plan"
  shows "mset (concat (map sh_files (sp_parallelShards plan))) = mset (filter (parallel_eligible (pi_classes p)) (sorted_universe (pi_universe p)))"
    and "concat (map sh_files (exclusive_shards plan)) = filter (exclusive_only (pi_classes p)) (sorted_universe (pi_universe p))"
  using plan_cases [OF assms] bucket_list_mset
  by (simp_all add: parallel_files concat_nonempty concat_sorted exclusive_shards_def shard_of_def Let_def)

lemma valid_classes:
  assumes "validateShardInputs universe classes = []" and "f \<in> set universe"
  shows "parallel_eligible classes f \<noteq> exclusive_only classes f"
proof -
  have "\<forall>x\<in>set universe. (case map_get classes x of None \<Rightarrow> [SHARD_CLASS_MISSING x]
      | Some c \<Rightarrow> if known_class c then [] else [SHARD_CLASS_UNKNOWN x c]) = []"
    using assms(1) by (simp add: validateShardInputs_def)
  then obtain c where "map_get classes f = Some c" "known_class c" using assms(2) by (auto split: option.splits if_splits)
  then show ?thesis by (auto simp: known_class_def parallel_eligible_def exclusive_only_def class_in_def)
qed

lemma coverage_scan_clean:
  "coverage_scan universe seen fs = ([], []) \<longleftrightarrow> distinct fs \<and> set fs \<inter> set seen = {} \<and> set fs \<subseteq> set universe"
  by (induction fs arbitrary: seen) (auto split: prod.split)

text \<open>C20: A plan of properly classified files passes the coverage check of the module: its shards
  hold every file of the universe exactly once and nothing else; no exclusive file is in a
  parallel shard and no parallel shard is empty. This holds for both ways of filling the shards.\<close>

theorem plan_covers_universe:
  assumes "planShards sha locale_le p = Inr plan" and "validateShardInputs (pi_universe p) (pi_classes p) = []"
  shows "cv_ok (verifyShardCoverage sha (pi_universe p) (sp_parallelShards plan @ exclusive_shards plan))
    \<and> (\<forall>s\<in>set (sp_parallelShards plan). sh_files s \<noteq> [] \<and> (\<forall>f\<in>set (sh_files s). \<not> exclusive_only (pi_classes p) f))"
proof -
  let ?u = "sorted_universe (pi_universe p)" and ?par = "concat (map sh_files (sp_parallelShards plan))"
    and ?exc = "concat (map sh_files (exclusive_shards plan))"
  note files = plan_files [OF assms(1)]
  have split: "parallel_eligible (pi_classes p) f \<noteq> exclusive_only (pi_classes p) f" if "f \<in> set ?u" for f
    using valid_classes [OF assms(2)] that by simp
  have par: "distinct ?par" "set ?par = {f \<in> set ?u. parallel_eligible (pi_classes p) f}"
    using files(1) mset_eq_imp_distinct_iff [OF files(1)] mset_eq_setD [OF files(1)] by auto
  have exc: "distinct ?exc" "set ?exc = {f \<in> set ?u. exclusive_only (pi_classes p) f}" unfolding files(2) by auto
  have all: "set ?par \<union> set ?exc = set ?u" "set ?par \<inter> set ?exc = {}" using par(2) exc(2) split by auto
  then have "coverage_scan ?u [] (?par @ ?exc) = ([], [])"
    unfolding coverage_scan_clean using par(1) exc(1) by auto
  moreover have "filter (\<lambda>f. f \<notin> set (?par @ ?exc)) ?u = []" using all(1) by (auto simp: filter_empty_conv)
  ultimately have "cv_ok (verifyShardCoverage sha (pi_universe p) (sp_parallelShards plan @ exclusive_shards plan))"
    by (simp add: verifyShardCoverage_def Let_def del: set_concat)
  moreover have "sh_files s \<noteq> [] \<and> (\<forall>f\<in>set (sh_files s). \<not> exclusive_only (pi_classes p) f)" if "s \<in> set (sp_parallelShards plan)" for s
  proof -
    have "sh_files s \<in> set (map sh_files (sp_parallelShards plan))" using that by simp
    then have "sh_files s \<noteq> []" using plan_cases [OF assms(1)] by (auto simp: parallel_files)
    moreover have "set (sh_files s) \<subseteq> set ?par" using that by auto
    ultimately show ?thesis using par(2) split by blast
  qed
  ultimately show ?thesis by blast
qed

text \<open>The plan is a function of the set of files: listing the universe in another order or with
  repetitions gives the identical plan, digests included.\<close>

theorem plan_ignores_order:
  assumes "set universe = set (pi_universe p)"
  shows "planShards sha locale_le (p\<lparr>pi_universe := universe\<rparr>) = planShards sha locale_le p"
proof -
  have "sorted_universe universe = sorted_universe (pi_universe p)" using assms by (simp only: sorted_universe_set)
  then show ?thesis by (simp add: planShards_def Let_def)
qed

text \<open>Without weights no shard exceeds the per-invocation argv bound.\<close>

theorem round_robin_respects_bound:
  assumes "planShards sha locale_le p = Inr plan" and "pi_weights p = None" and "s \<in> set (sp_parallelShards plan)"
  shows "int (length (sh_files s)) \<le> (case pi_maxFilesPerInvocation p of None \<Rightarrow> MAX_FILES_PER_INVOCATION | Some n \<Rightarrow> n)"
proof -
  let ?n = "sp_parallelShardCount plan" and ?fs = "filter (parallel_eligible (pi_classes p)) (sorted_universe (pi_universe p))"
  define bound where "bound = (case pi_maxFilesPerInvocation p of None \<Rightarrow> MAX_FILES_PER_INVOCATION | Some n \<Rightarrow> n)"
  have plan: "0 < ?n" "sp_parallelShards plan = parallel_shards sha (pi_classes p) (bucket_list locale_le p ?n)"
      "int (length ?fs) \<le> int ?n * bound"
    using plan_cases [OF assms(1)] by (simp_all add: bound_def)
  have buckets: "bucket_list locale_le p ?n = round_robin ?n 0 (replicate ?n []) ?fs"
    using assms(2) by (simp add: bucket_list_def)
  have "sh_files s \<in> set (map sh_files (sp_parallelShards plan))" using assms(3) by simp
  then obtain b where b: "b \<in> set (bucket_list locale_le p ?n)" "sh_files s = sort_by str_le b"
    using plan(2) by (auto simp: parallel_files)
  then obtain j where j: "j < ?n" "b = bucket_list locale_le p ?n ! j"
    using bucket_list_mset [OF plan(1), of locale_le p] by (metis in_set_conv_nth)
  have "length b = share ?n (length ?fs) j"
    unfolding j(2) buckets using round_robin_share [OF plan(1), of "replicate ?n []" 0 j ?fs] j(1) by (simp add: share_def)
  moreover have nonneg: "0 \<le> bound"
  proof -
    have "0 \<le> int ?n * bound" using plan(3) by linarith
    then show ?thesis using plan(1) by (simp add: zero_le_mult_iff)
  qed
  moreover have "share ?n (length ?fs) j \<le> nat bound"
  proof (rule share_bound)
    have "int (length ?fs) \<le> int (?n * nat bound)" using plan(3) nonneg by simp
    then show "length ?fs \<le> ?n * nat bound" by (simp only: of_nat_le_iff)
  qed
  ultimately show ?thesis using b(2) unfolding bound_def [symmetric] by simp
qed

lemma lightest_pair: "lightest [x, y] = (if y < x then 1 else 0)"
  by (simp add: lightest_def upt_rec)

text \<open>Duration balancing ignores the argv bound: the check compares the number of files with the
  total capacity only, so one expensive file leaves all the others, more than the bound, in a
  single shard.\<close>

theorem weighted_shard_exceeds_bound:
  "\<exists>p plan. planShards sha locale_le p = Inr plan \<and> validateShardInputs (pi_universe p) (pi_classes p) = []
     \<and> pi_maxFilesPerInvocation p = Some 2 \<and> (\<exists>s\<in>set (sp_parallelShards plan). length (sh_files s) = 3)"
proof -
  let ?fs = "[''a'', ''b'', ''c'', ''d'']"
  let ?p = "\<lparr>pi_universe = ?fs, pi_classes = map (\<lambda>f. (f, ''PARALLEL_SAFE'')) ?fs, pi_parallelShardCount = Some 2,
     pi_maxFilesPerInvocation = Some 2, pi_weights = Some [(''a'', 100), (''b'', 4), (''c'', 3), (''d'', 2)]\<rparr>"
  have universe: "sorted_universe ?fs = ?fs"
    by (simp add: sorted_universe_def sort_by_def code_unit_def)
  have eligible: "filter (parallel_eligible (pi_classes ?p)) ?fs = ?fs" "filter (exclusive_only (pi_classes ?p)) ?fs = []"
    by (simp_all add: parallel_eligible_def exclusive_only_def class_in_def map_get_def)
  have sorted: "sort_by (weight_le locale_le [(''a'', 100), (''b'', 4), (''c'', 3), (''d'', 2)]) ?fs = ?fs"
    by (simp add: sort_by_def weight_le_def map_get_def)
  have "bucket_list locale_le ?p 2 = [[''a''], [''b'', ''c'', ''d'']]"
    using eligible(1) sorted lightest_pair
    by (simp add: bucket_list_def universe Let_def push_def map_get_def numeral_2_eq_2)
  then have files: "map sh_files (parallel_shards sha (pi_classes ?p) (bucket_list locale_le ?p 2)) = [[''a''], [''b'', ''c'', ''d'']]"
    unfolding parallel_files by (simp add: sort_by_def code_unit_def)
  obtain plan where plan: "planShards sha locale_le ?p = Inr plan" "sp_parallelShardCount plan = 2"
    using eligible by (simp add: planShards_def universe MAX_PARALLEL_SHARDS_def Let_def)
  then have "map sh_files (sp_parallelShards plan) = [[''a''], [''b'', ''c'', ''d'']]"
    using plan_cases [OF plan(1)] files by simp
  then have "\<exists>s\<in>set (sp_parallelShards plan). length (sh_files s) = 3"
  proof -
    have "[''b'', ''c'', ''d''] \<in> set (map sh_files (sp_parallelShards plan))"
      using \<open>map sh_files (sp_parallelShards plan) = [[''a''], [''b'', ''c'', ''d'']]\<close> by simp
    then obtain s where "s \<in> set (sp_parallelShards plan)" "sh_files s = [''b'', ''c'', ''d'']" by auto
    then show ?thesis by (intro bexI [of _ s]) simp_all
  qed
  moreover have "validateShardInputs (pi_universe ?p) (pi_classes ?p) = []"
    by (simp add: validateShardInputs_def universe map_get_def known_class_def)
  ultimately show ?thesis using plan(1) by (intro exI [of _ ?p] exI [of _ plan]) simp
qed

section \<open>Witnesses\<close>

definition w_plan_input :: plan_input where
  "w_plan_input = \<lparr>pi_universe = [''a''], pi_classes = [(''a'', ''PARALLEL_SAFE'')], pi_parallelShardCount = Some 1,
     pi_maxFilesPerInvocation = None, pi_weights = None\<rparr>"

lemma w_planned: "\<exists>plan. planShards sha locale_le w_plan_input = Inr plan \<and> map sh_files (sp_parallelShards plan) = [[''a'']]"
  by (simp add: planShards_def w_plan_input_def sorted_universe_def sort_by_def parallel_eligible_def class_in_def map_get_def
      MAX_PARALLEL_SHARDS_def MAX_FILES_PER_INVOCATION_def push_def parallel_files Let_def)

theorem plan_covers_universe_witness:
  "\<exists>plan. planShards rev str_le w_plan_input = Inr plan
     \<and> cv_ok (verifyShardCoverage rev [''a''] (sp_parallelShards plan @ exclusive_shards plan))"
proof -
  obtain plan where plan: "planShards rev str_le w_plan_input = Inr plan" using w_planned by blast
  have "validateShardInputs (pi_universe w_plan_input) (pi_classes w_plan_input) = []"
    by (simp add: validateShardInputs_def w_plan_input_def sorted_universe_def sort_by_def map_get_def known_class_def)
  then show ?thesis using plan_covers_universe [OF plan] plan by (simp add: w_plan_input_def)
qed

theorem plan_ignores_order_witness:
  "planShards rev str_le (w_plan_input\<lparr>pi_universe := [''a'', ''a'']\<rparr>) = planShards rev str_le w_plan_input"
  by (rule plan_ignores_order) (simp add: w_plan_input_def)

theorem round_robin_respects_bound_witness:
  "\<exists>plan. planShards rev str_le w_plan_input = Inr plan \<and> (\<forall>s\<in>set (sp_parallelShards plan). int (length (sh_files s)) \<le> 512)"
proof -
  obtain plan where plan: "planShards rev str_le w_plan_input = Inr plan" using w_planned by blast
  have "pi_weights w_plan_input = None" "pi_maxFilesPerInvocation w_plan_input = None" by (simp_all add: w_plan_input_def)
  then show ?thesis using round_robin_respects_bound [OF plan] plan by (auto simp: MAX_FILES_PER_INVOCATION_def)
qed

end
