(* ===== verification/Canonical_Digest.thy ===== *)
theory Canonical_Digest imports Prelude begin

text \<open>
  Canonical JSON and digests, \<open>src/core/identity/canonicalDigest.ts\<close>. SHA-256 in hexadecimal
  (\<open>sha\<close>), the decimal text of a number (\<open>num_text\<close>) and \<open>localeCompare\<close> (\<open>locale_le\<close>) are
  parameters; \<open>JSON.stringify\<close> of a string is written out for code units below 128.
\<close>

section \<open>Canonical text\<close>

definition hex_digit_char :: "nat \<Rightarrow> char" where
  "hex_digit_char d = char_of (if d < 10 then 48 + d else 87 + d)"

definition escape_char :: "char \<Rightarrow> string" where
  "escape_char c =
     (if c = CHR 0x22 then [CHR 0x5C, CHR 0x22]
      else if c = CHR 0x5C then [CHR 0x5C, CHR 0x5C]
      else if c = CHR 0x08 then [CHR 0x5C, CHR ''b'']
      else if c = CHR 0x0C then [CHR 0x5C, CHR ''f'']
      else if c = CHR 0x0A then [CHR 0x5C, CHR ''n'']
      else if c = CHR 0x0D then [CHR 0x5C, CHR ''r'']
      else if c = CHR 0x09 then [CHR 0x5C, CHR ''t'']
      else if code_unit c < 32 then CHR 0x5C # ''u00'' @ [hex_digit_char (code_unit c div 16), hex_digit_char (code_unit c mod 16)]
      else [c])"

definition json_quote :: "string \<Rightarrow> string" where
  "json_quote s = CHR 0x22 # concat (map escape_char s) @ [CHR 0x22]"

definition by_key :: "(string \<Rightarrow> string \<Rightarrow> bool) \<Rightarrow> string \<times> 'a \<Rightarrow> string \<times> 'a \<Rightarrow> bool" where
  "by_key le p q = le (fst p) (fst q)"

text \<open>\<open>JSON.stringify\<close> without indentation, in key order.\<close>

fun json_stringify :: "(rat \<Rightarrow> string) \<Rightarrow> json \<Rightarrow> string"
  and stringify_items :: "(rat \<Rightarrow> string) \<Rightarrow> json list \<Rightarrow> string list"
  and stringify_fields :: "(rat \<Rightarrow> string) \<Rightarrow> (string \<times> json) list \<Rightarrow> string list" where
  "json_stringify num JNull = ''null''"
| "json_stringify num (JBool b) = (if b then ''true'' else ''false'')"
| "json_stringify num (JNum q) = num q"
| "json_stringify num (JStr s) = json_quote s"
| "json_stringify num (JArr xs) = ''['' @ join_with '','' (stringify_items num xs) @ '']''"
| "json_stringify num (JObj fs) = ''{'' @ join_with '','' (stringify_fields num fs) @ ''}''"
| "stringify_items num [] = []"
| "stringify_items num (x # xs) = json_stringify num x # stringify_items num xs"
| "stringify_fields num [] = []"
| "stringify_fields num ((k, x) # fs) = (json_quote k @ '':'' @ json_stringify num x) # stringify_fields num fs"

fun stableJsonSorted :: "(rat \<Rightarrow> string) \<Rightarrow> (string \<Rightarrow> string \<Rightarrow> bool) \<Rightarrow> json \<Rightarrow> string"
  and stable_items :: "(rat \<Rightarrow> string) \<Rightarrow> (string \<Rightarrow> string \<Rightarrow> bool) \<Rightarrow> json list \<Rightarrow> string list"
  and stable_fields :: "(rat \<Rightarrow> string) \<Rightarrow> (string \<Rightarrow> string \<Rightarrow> bool) \<Rightarrow> (string \<times> json) list \<Rightarrow> (string \<times> string) list" where
  "stableJsonSorted num le JNull = ''null''"
| "stableJsonSorted num le (JBool b) = (if b then ''true'' else ''false'')"
| "stableJsonSorted num le (JNum q) = num q"
| "stableJsonSorted num le (JStr s) = json_quote s"
| "stableJsonSorted num le (JArr xs) = ''['' @ join_with '','' (stable_items num le xs) @ '']''"
| "stableJsonSorted num le (JObj fs) =
     ''{'' @ join_with '','' (map (\<lambda>(k, t). json_quote k @ '':'' @ t) (sort_by (by_key le) (stable_fields num le fs))) @ ''}''"
| "stable_items num le [] = []"
| "stable_items num le (x # xs) = stableJsonSorted num le x # stable_items num le xs"
| "stable_fields num le [] = []"
| "stable_fields num le ((k, x) # fs) = (k, stableJsonSorted num le x) # stable_fields num le fs"

section \<open>Digests\<close>

definition prefixedDigest24 ::
  "(string \<Rightarrow> string) \<Rightarrow> (rat \<Rightarrow> string) \<Rightarrow> (string \<Rightarrow> string \<Rightarrow> bool) \<Rightarrow> string \<Rightarrow> json \<Rightarrow> string" where
  "prefixedDigest24 sha num le prefix v = prefix @ '':sha256:'' @ take 24 (sha (stableJsonSorted num le v))"

definition is_lower_hex :: "char \<Rightarrow> bool" where
  "is_lower_hex c = (is_digit c \<or> c \<in> set ''abcdef'')"

definition isEvidenceDigest :: "json \<Rightarrow> bool" where
  "isEvidenceDigest v = (case v of
     JStr s \<Rightarrow> starts_with ''ev:sha256:'' s \<and> length s = 34 \<and> list_all is_lower_hex (drop 10 s) | _ \<Rightarrow> False)"

definition isSourceSha :: "json \<Rightarrow> bool" where
  "isSourceSha v = (case v of JStr s \<Rightarrow> length s = 40 \<and> list_all is_lower_hex s | _ \<Rightarrow> False)"

section \<open>The order of keys does not matter\<close>

lemma stable_fields_map: "stable_fields num le fs = map (\<lambda>(k, x). (k, stableJsonSorted num le x)) fs"
  by (induction fs) auto

lemma insert_by_sorted:
  assumes "\<And>x y. le x y \<or> le y x" and "\<And>x y z. le x y \<Longrightarrow> le y z \<Longrightarrow> le x z" and "sorted_wrt le ys"
  shows "sorted_wrt le (insert_by le x ys)"
  using assms(3)
proof (induction ys)
  case (Cons y ys)
  have set: "set (insert_by le x ys) = insert x (set ys)"
    by (metis mset_insert_by set_mset_add_mset_insert set_mset_mset)
  show ?case using Cons assms(1,2) by (auto simp: set)
qed simp

lemma sort_by_sorted:
  assumes "\<And>x y. le x y \<or> le y x" and "\<And>x y z. le x y \<Longrightarrow> le y z \<Longrightarrow> le x z"
  shows "sorted_wrt le (sort_by le xs)"
proof (induction xs)
  case (Cons x xs)
  then show ?case using insert_by_sorted [of le, OF assms] by (simp add: sort_by_def)
qed (simp add: sort_by_def)

lemma sorted_unique:
  assumes "sorted_wrt le xs" and "sorted_wrt le ys" and "mset xs = mset ys"
    and "\<And>x y. x \<in> set xs \<Longrightarrow> y \<in> set xs \<Longrightarrow> le x y \<Longrightarrow> le y x \<Longrightarrow> x = y" and "\<And>x. le x x"
  shows "xs = ys"
  using assms(1-4)
proof (induction xs arbitrary: ys)
  case (Cons x xs)
  obtain y ys' where ys: "ys = y # ys'" using Cons.prems(3) by (cases ys) auto
  have sets: "set (x # xs) = set (y # ys')" using Cons.prems(3) ys by (metis mset_eq_setD)
  have "le x y" using sets Cons.prems(1) assms(5) by (metis insert_iff list.simps(15) sorted_wrt.simps(2))
  moreover have "le y x" using sets Cons.prems(2) ys assms(5) by (metis insert_iff list.simps(15) sorted_wrt.simps(2))
  ultimately have "x = y" using Cons.prems(4) sets by (metis list.set_intros(1))
  moreover have "xs = ys'"
    by (rule Cons.IH) (use Cons.prems ys \<open>x = y\<close> in auto)
  ultimately show ?case using ys by simp
qed simp

lemma sort_by_id: "sorted_wrt le xs \<Longrightarrow> sort_by le xs = xs"
proof (induction xs)
  case (Cons x xs)
  then have "insert_by le x xs = x # xs" by (cases xs) simp_all
  then show ?case using Cons by (simp add: sort_by_def)
qed (simp add: sort_by_def)

text \<open>Sorting by key commutes with a change of the values.\<close>

lemma sort_by_key_map:
  "sort_by (by_key le) (map (\<lambda>(k, x). (k, f x)) fs) = map (\<lambda>(k, x). (k, f x)) (sort_by (by_key le) fs)"
proof -
  have "insert_by (by_key le) (k, f x) (map (\<lambda>(k, x). (k, f x)) gs) = map (\<lambda>(k, x). (k, f x)) (insert_by (by_key le) (k, x) gs)" for k x gs
    by (induction gs) (auto simp: by_key_def)
  then show ?thesis by (induction fs) (auto simp: sort_by_def)
qed

lemma dedupe_id: "distinct xs \<Longrightarrow> dedupe xs = xs"
  by (induction xs) (auto simp: filter_id_conv)

text \<open>A comparison of keys as \<open>localeCompare\<close> gives it: total, transitive, and equal only on equal texts.\<close>

definition key_order :: "(string \<Rightarrow> string \<Rightarrow> bool) \<Rightarrow> bool" where
  "key_order le = ((\<forall>a b. le a b \<or> le b a) \<and> (\<forall>a b c. le a b \<longrightarrow> le b c \<longrightarrow> le a c) \<and> (\<forall>a b. le a b \<longrightarrow> le b a \<longrightarrow> a = b))"

lemma sort_fields_eq:
  assumes "key_order le" and "mset fs = mset gs" and "distinct (map fst fs)"
  shows "sort_by (by_key le) fs = sort_by (by_key le) gs"
proof (rule sorted_unique [of "by_key le"])
  have total: "\<And>p q. by_key le p q \<or> by_key le q p" and trans: "\<And>p q r. by_key le p q \<Longrightarrow> by_key le q r \<Longrightarrow> by_key le p r"
    using assms(1) by (auto simp: key_order_def by_key_def)
  show "sorted_wrt (by_key le) (sort_by (by_key le) fs)" "sorted_wrt (by_key le) (sort_by (by_key le) gs)"
    by (rule sort_by_sorted, (rule total | erule (1) trans)+)+
  show "mset (sort_by (by_key le) fs) = mset (sort_by (by_key le) gs)" using assms(2) by simp
  show "by_key le p p" for p using total [of p p] by blast
  show "p = q" if "p \<in> set (sort_by (by_key le) fs)" "q \<in> set (sort_by (by_key le) fs)" "by_key le p q" "by_key le q p" for p q
  proof -
    have "fst p = fst q" using that(3,4) assms(1) by (auto simp: by_key_def key_order_def)
    then show ?thesis using that(1,2) assms(3) by (metis eq_key_imp_eq_value prod.collapse set_sort_by)
  qed
qed

lemma stable_object_eq:
  assumes "key_order le" and "mset fs = mset gs" and "distinct (map fst fs)"
  shows "stableJsonSorted num le (JObj fs) = stableJsonSorted num le (JObj gs)"
proof -
  have "sort_by (by_key le) (stable_fields num le fs) = sort_by (by_key le) (stable_fields num le gs)"
    using assms by (intro sort_fields_eq) (simp_all add: stable_fields_map comp_def case_prod_unfold)
  then show ?thesis by simp
qed

lemma str_order_keys: "key_order str_le"
proof -
  have "str_le a b \<or> str_le b a" for a b by (induction a b rule: str_le.induct) auto
  moreover have "str_le a b \<Longrightarrow> str_le b c \<Longrightarrow> str_le a c" for a b c
  proof (induction a b arbitrary: c rule: str_le.induct)
    case (3 x s y t)
    then show ?case by (cases c) (auto dest: less_trans)
  qed auto
  moreover have "str_le a b \<Longrightarrow> str_le b a \<Longrightarrow> a = b" for a b
  proof (induction a b rule: str_le.induct)
    case (1 t)
    then show ?case by (cases t) simp_all
  qed (auto simp: code_unit_def)
  ultimately show ?thesis unfolding key_order_def by blast
qed

end
