(* ===== verification/Finding_Review.thy ===== *)
theory Finding_Review imports Canonical_Digest Candidate_Lifecycle begin

text \<open>
  The local review of a finding, \<open>src/core/findingReview/lifecycle.ts\<close> with the vocabulary of
  its \<open>types.ts\<close>: validation of the exact binding, the one decision per record with its receipt,
  the receipt's self-consistency and its currentness against the artifacts in hand. Records and
  receipts carry the raw values a store may hold; the binding is JSON. The digest functions are
  the parameters of \<open>Canonical_Digest\<close>.
\<close>

section \<open>Vocabulary\<close>

datatype review_state = REVIEW_PENDING | REVIEWED | FOLLOWUP_RECOMMENDED | INSUFFICIENT_EVIDENCE | DUPLICATE_CANDIDATE | SUPERSEDED

datatype review_decision = ACCEPT_EVIDENCE | REQUEST_FOLLOWUP | MARK_INSUFFICIENT | MARK_DUPLICATE_CANDIDATE | SUPERSEDE

definition FINDING_REVIEW_STATES :: "(string \<times> review_state) list" where
  "FINDING_REVIEW_STATES = [(''REVIEW_PENDING'', REVIEW_PENDING), (''REVIEWED'', REVIEWED),
     (''FOLLOWUP_RECOMMENDED'', FOLLOWUP_RECOMMENDED), (''INSUFFICIENT_EVIDENCE'', INSUFFICIENT_EVIDENCE),
     (''DUPLICATE_CANDIDATE'', DUPLICATE_CANDIDATE), (''SUPERSEDED'', SUPERSEDED)]"

definition FINDING_REVIEW_DECISIONS :: "(string \<times> review_decision) list" where
  "FINDING_REVIEW_DECISIONS = [(''ACCEPT_EVIDENCE'', ACCEPT_EVIDENCE), (''REQUEST_FOLLOWUP'', REQUEST_FOLLOWUP),
     (''MARK_INSUFFICIENT'', MARK_INSUFFICIENT), (''MARK_DUPLICATE_CANDIDATE'', MARK_DUPLICATE_CANDIDATE), (''SUPERSEDE'', SUPERSEDE)]"

definition FINDING_REVIEW_LIFECYCLE_VERSION :: string where
  "FINDING_REVIEW_LIFECYCLE_VERSION = ''nightwatch.finding-review-lifecycle.v1''"

definition FINDING_REVIEW_RECEIPT_VERSION :: string where
  "FINDING_REVIEW_RECEIPT_VERSION = ''nightwatch.finding-review-receipt.v1''"

record review_binding =
  rb_findingId :: string
  rb_findingDigest :: string
  rb_dossierDigest :: string
  rb_handoffDigest :: "string option"
  rb_sourceSha :: string
  rb_campaignId :: string
  rb_handoffVersion :: string
  rb_privacyProjectionVersion :: string

record review_record =
  rr_lifecycleVersion :: string
  rr_state :: string
  rr_binding :: json
  rr_transitionCount :: rat
  rr_lastReasonCode :: "string option"

record review_receipt =
  rc_schemaVersion :: string
  rc_reviewId :: string
  rc_binding :: json
  rc_decision :: string
  rc_resultingState :: string
  rc_reviewedAt :: string
  rc_rationale :: string
  rc_organizationalAuthority :: string
  rc_notEquivalentTo :: "string list"

section \<open>Formats\<close>

definition digest_ok :: "string \<Rightarrow> bool" where
  "digest_ok s = (24 \<le> length s \<and> length s \<le> 64 \<and> list_all is_lower_hex s)"

definition review_id_ok :: "string \<Rightarrow> bool" where
  "review_id_ok s = (1 \<le> length s \<and> length s \<le> 160 \<and> list_all (\<lambda>c. is_alnum c \<or> c \<in> set ''_.:/-'') s)"

definition version_ok :: "string \<Rightarrow> bool" where
  "version_ok s = (1 \<le> length s \<and> length s \<le> 160 \<and> list_all (\<lambda>c. is_alnum c \<or> c \<in> set ''_.:-'') s)"

definition source_sha_ok :: "string \<Rightarrow> bool" where
  "source_sha_ok s = ((length s = 40 \<and> list_all is_lower_hex s)
     \<or> (starts_with ''synthetic.'' s \<and> (let t = drop 10 s in 1 \<le> length t \<and> length t \<le> 120
          \<and> list_all (\<lambda>c. is_alnum c \<or> c \<in> set ''_.:-'') t)))"

definition date_shape :: "string \<Rightarrow> bool" where
  "date_shape s = (length s = 19 \<and> list_all (\<lambda>i. is_digit (s ! i)) [0, 1, 2, 3, 5, 6, 8, 9, 11, 12, 14, 15, 17, 18]
     \<and> s ! 4 = CHR ''-'' \<and> s ! 7 = CHR ''-'' \<and> s ! 10 = CHR ''T'' \<and> s ! 13 = CHR '':'' \<and> s ! 16 = CHR '':'')"

definition instant_ok :: "string \<Rightarrow> bool" where
  "instant_ok s = (date_shape (take 19 s) \<and> (let rest = drop 19 s in rest = ''Z''
     \<or> (2 < length rest \<and> length rest \<le> 8 \<and> hd rest = CHR ''.'' \<and> last rest = CHR ''Z'' \<and> list_all is_digit (butlast (tl rest)))))"

definition RATIONALE_MAX :: nat where
  "RATIONALE_MAX = 2000"

definition review_sentinel :: "string \<Rightarrow> bool" where
  "review_sentinel s = search (\<lambda>t. sentinel_at t \<or> email_at t) (lower s)"

section \<open>Bindings\<close>

definition findingArtifactDigest :: "(string \<Rightarrow> string) \<Rightarrow> (rat \<Rightarrow> string) \<Rightarrow> (string \<Rightarrow> string \<Rightarrow> bool) \<Rightarrow> json \<Rightarrow> string" where
  "findingArtifactDigest sha num le v = take 24 (sha (stableJsonSorted num le v))"

definition BINDING_KEYS :: "string list" where
  "BINDING_KEYS = [''campaignId'', ''dossierDigest'', ''findingDigest'', ''findingId'', ''handoffDigest'', ''handoffVersion'',
     ''privacyProjectionVersion'', ''sourceSha'']"

definition checked_string :: "(string \<Rightarrow> bool) \<Rightarrow> json option \<Rightarrow> string \<Rightarrow> string checked" where
  "checked_string P v field =
     (case v of Some (JStr s) \<Rightarrow> if P s then Inr s else Inl (''FINDING_REVIEW_INVALID_BINDING:'' @ field)
      | _ \<Rightarrow> Inl (''FINDING_REVIEW_INVALID_BINDING:'' @ field))"

definition assertDigest :: "json option \<Rightarrow> string \<Rightarrow> string checked" where
  "assertDigest = checked_string digest_ok"

definition assertId :: "json option \<Rightarrow> string \<Rightarrow> string checked" where
  "assertId = checked_string (\<lambda>s. review_id_ok s \<and> \<not> review_sentinel s)"

definition validateReviewBinding :: "json \<Rightarrow> review_binding checked" where
  "validateReviewBinding v =
     (case v of
        JObj fs \<Rightarrow>
          if sort_by str_le (map fst fs) \<noteq> BINDING_KEYS then Inl ''FINDING_REVIEW_INVALID_BINDING:keys''
          else bind_res (assertId (json_field v ''findingId'') ''findingId'') (\<lambda>findingId.
            bind_res (assertDigest (json_field v ''findingDigest'') ''findingDigest'') (\<lambda>findingDigest.
            bind_res (assertDigest (json_field v ''dossierDigest'') ''dossierDigest'') (\<lambda>dossierDigest.
            bind_res (if json_field v ''handoffDigest'' = Some JNull then Inr None
                      else bind_res (assertDigest (json_field v ''handoffDigest'') ''handoffDigest'') (\<lambda>d. Inr (Some d))) (\<lambda>handoffDigest.
            bind_res (checked_string source_sha_ok (json_field v ''sourceSha'') ''sourceSha'') (\<lambda>sourceSha.
            bind_res (assertId (json_field v ''campaignId'') ''campaignId'') (\<lambda>campaignId.
            bind_res (checked_string version_ok (json_field v ''handoffVersion'') ''handoffVersion'') (\<lambda>handoffVersion.
            bind_res (checked_string version_ok (json_field v ''privacyProjectionVersion'') ''privacyProjectionVersion'') (\<lambda>privacyProjectionVersion.
            Inr \<lparr>rb_findingId = findingId, rb_findingDigest = findingDigest, rb_dossierDigest = dossierDigest,
                 rb_handoffDigest = handoffDigest, rb_sourceSha = sourceSha, rb_campaignId = campaignId,
                 rb_handoffVersion = handoffVersion, rb_privacyProjectionVersion = privacyProjectionVersion\<rparr>))))))))
      | _ \<Rightarrow> Inl ''FINDING_REVIEW_INVALID_BINDING'')"

section \<open>Decisions\<close>

primrec DECISION_TARGET :: "review_decision \<Rightarrow> review_state" where
  "DECISION_TARGET ACCEPT_EVIDENCE = REVIEWED"
| "DECISION_TARGET REQUEST_FOLLOWUP = FOLLOWUP_RECOMMENDED"
| "DECISION_TARGET MARK_INSUFFICIENT = INSUFFICIENT_EVIDENCE"
| "DECISION_TARGET MARK_DUPLICATE_CANDIDATE = DUPLICATE_CANDIDATE"
| "DECISION_TARGET SUPERSEDE = SUPERSEDED"

definition TERMINAL_STATES :: "review_state list" where
  "TERMINAL_STATES = [REVIEWED, FOLLOWUP_RECOMMENDED, INSUFFICIENT_EVIDENCE, DUPLICATE_CANDIDATE, SUPERSEDED]"

definition initialReviewRecord :: "json \<Rightarrow> review_record checked" where
  "initialReviewRecord binding = bind_res (validateReviewBinding binding) (\<lambda>_.
     Inr \<lparr>rr_lifecycleVersion = FINDING_REVIEW_LIFECYCLE_VERSION, rr_state = ''REVIEW_PENDING'', rr_binding = binding,
          rr_transitionCount = 0, rr_lastReasonCode = None\<rparr>)"

definition assertReasonCode :: "string option \<Rightarrow> string option checked" where
  "assertReasonCode r =
     (case r of None \<Rightarrow> Inr None
      | Some s \<Rightarrow> if reason_code_ok s then Inr (Some s) else Inl ''FINDING_REVIEW_INVALID_REASON_CODE'')"

definition validateRecordShape :: "review_record \<Rightarrow> unit checked" where
  "validateRecordShape r =
     (if rr_lifecycleVersion r \<noteq> FINDING_REVIEW_LIFECYCLE_VERSION then Inl ''FINDING_REVIEW_VERSION_MISMATCH''
      else if map_of FINDING_REVIEW_STATES (rr_state r) = None then Inl ''FINDING_REVIEW_INVALID_STATE''
      else bind_res (validateReviewBinding (rr_binding r)) (\<lambda>_.
        if \<not> is_integer (rr_transitionCount r) \<or> rr_transitionCount r < 0 then Inl ''FINDING_REVIEW_INVALID_RECORD'' else Inr ()))"

definition rationale_ok :: "string \<Rightarrow> bool" where
  "rationale_ok s = (length s \<le> RATIONALE_MAX \<and> \<not> review_sentinel s)"

definition NOT_EQUIVALENT_TO :: "string list" where
  "NOT_EQUIVALENT_TO = [''LESLIE_GENUINE'', ''LESLIE_INVALID'', ''PONDR_APPROVED'']"

definition receipt_base :: "review_receipt \<Rightarrow> json" where
  "receipt_base r = JObj [(''schemaVersion'', JStr (rc_schemaVersion r)), (''binding'', rc_binding r),
     (''decision'', JStr (rc_decision r)), (''resultingState'', JStr (rc_resultingState r)), (''reviewedAt'', JStr (rc_reviewedAt r)),
     (''rationale'', JStr (rc_rationale r)), (''organizationalAuthority'', JStr (rc_organizationalAuthority r)),
     (''notEquivalentTo'', JArr (map JStr (rc_notEquivalentTo r)))]"

definition receipt_identity :: "(string \<Rightarrow> string) \<Rightarrow> (rat \<Rightarrow> string) \<Rightarrow> (string \<Rightarrow> string \<Rightarrow> bool) \<Rightarrow> review_receipt \<Rightarrow> string" where
  "receipt_identity sha num le r = ''review:'' @ take 24 (sha (stableJsonSorted num le (receipt_base r)))"

text \<open>\<open>options\<close>: the reason code, the instant and the rationale, each possibly undefined.\<close>

definition decideReview ::
  "(string \<Rightarrow> string) \<Rightarrow> (rat \<Rightarrow> string) \<Rightarrow> (string \<Rightarrow> string \<Rightarrow> bool) \<Rightarrow> review_record \<Rightarrow> string
     \<Rightarrow> string option \<times> string option \<times> string option \<Rightarrow> (review_record \<times> review_receipt) checked" where
  "decideReview sha num le r decision options =
     (case options of (reasonCode, instant, rationaleOption) \<Rightarrow>
     bind_res (validateRecordShape r) (\<lambda>_.
     case map_of FINDING_REVIEW_DECISIONS decision of None \<Rightarrow> Inl ''FINDING_REVIEW_INVALID_DECISION''
     | Some d \<Rightarrow>
     if rr_state r \<noteq> ''REVIEW_PENDING'' then Inl ''FINDING_REVIEW_ALREADY_DECIDED''
     else case instant of None \<Rightarrow> Inl ''FINDING_REVIEW_MISSING_INSTANT''
     | Some reviewedAt \<Rightarrow>
     if \<not> instant_ok reviewedAt then Inl ''FINDING_REVIEW_INVALID_INSTANT''
     else let rationale = (case rationaleOption of None \<Rightarrow> [] | Some s \<Rightarrow> s) in
     if \<not> rationale_ok rationale then Inl ''FINDING_REVIEW_INVALID_RATIONALE''
     else bind_res (assertReasonCode reasonCode) (\<lambda>code.
       let state = text_in FINDING_REVIEW_STATES (DECISION_TARGET d);
           base = \<lparr>rc_schemaVersion = FINDING_REVIEW_RECEIPT_VERSION, rc_reviewId = [], rc_binding = rr_binding r,
                   rc_decision = decision, rc_resultingState = state, rc_reviewedAt = reviewedAt, rc_rationale = rationale,
                   rc_organizationalAuthority = ''NONE_LOCAL_REVIEW_ONLY'', rc_notEquivalentTo = NOT_EQUIVALENT_TO\<rparr>
       in Inr (r\<lparr>rr_state := state, rr_transitionCount := of_nat (js_increment (nat \<lfloor>rr_transitionCount r\<rfloor>)), rr_lastReasonCode := code\<rparr>,
               base\<lparr>rc_reviewId := receipt_identity sha num le base\<rparr>))))"

definition isTerminalReviewState :: "string \<Rightarrow> bool checked" where
  "isTerminalReviewState s =
     (case map_of FINDING_REVIEW_STATES s of None \<Rightarrow> Inl ''FINDING_REVIEW_INVALID_STATE''
      | Some st \<Rightarrow> Inr (st \<in> set TERMINAL_STATES))"

section \<open>Receipts\<close>

definition verifyReceiptIntegrity ::
  "(string \<Rightarrow> string) \<Rightarrow> (rat \<Rightarrow> string) \<Rightarrow> (string \<Rightarrow> string \<Rightarrow> bool) \<Rightarrow> review_receipt \<Rightarrow> review_binding checked" where
  "verifyReceiptIntegrity sha num le r =
     (if rc_schemaVersion r \<noteq> FINDING_REVIEW_RECEIPT_VERSION then Inl ''FINDING_REVIEW_VERSION_MISMATCH''
      else case map_of FINDING_REVIEW_DECISIONS (rc_decision r) of None \<Rightarrow> Inl ''FINDING_REVIEW_INVALID_DECISION''
      | Some d \<Rightarrow>
      case map_of FINDING_REVIEW_STATES (rc_resultingState r) of None \<Rightarrow> Inl ''FINDING_REVIEW_INVALID_STATE''
      | Some s \<Rightarrow>
      if DECISION_TARGET d \<noteq> s then Inl ''FINDING_REVIEW_DECISION_STATE_MISMATCH''
      else if rc_organizationalAuthority r \<noteq> ''NONE_LOCAL_REVIEW_ONLY'' then Inl ''FINDING_REVIEW_AUTHORITY_INVALID''
      else if rc_notEquivalentTo r \<noteq> NOT_EQUIVALENT_TO then Inl ''FINDING_REVIEW_AUTHORITY_INVALID''
      else bind_res (validateReviewBinding (rc_binding r)) (\<lambda>binding.
        if \<not> instant_ok (rc_reviewedAt r) then Inl ''FINDING_REVIEW_INVALID_INSTANT''
        else if \<not> rationale_ok (rc_rationale r) then Inl ''FINDING_REVIEW_INVALID_RATIONALE''
        else if receipt_identity sha num le r \<noteq> rc_reviewId r then Inl ''FINDING_REVIEW_RECEIPT_TAMPERED''
        else Inr binding))"

record current_artifacts =
  ca_finding :: json
  ca_dossier :: json
  ca_handoff :: "json option"
  ca_sourceSha :: string
  ca_campaignId :: string
  ca_handoffVersion :: string
  ca_privacyProjectionVersion :: string

definition handoff_present :: "json option \<Rightarrow> json option" where
  "handoff_present h = (if h = Some JNull then None else h)"

definition verifyReviewCurrent ::
  "(string \<Rightarrow> string) \<Rightarrow> (rat \<Rightarrow> string) \<Rightarrow> (string \<Rightarrow> string \<Rightarrow> bool) \<Rightarrow> review_receipt \<Rightarrow> current_artifacts \<Rightarrow> unit checked" where
  "verifyReviewCurrent sha num le r c =
     bind_res (verifyReceiptIntegrity sha num le r) (\<lambda>b.
     if findingArtifactDigest sha num le (ca_finding c) \<noteq> rb_findingDigest b then Inl ''FINDING_REVIEW_STALE:findingDigest''
     else if findingArtifactDigest sha num le (ca_dossier c) \<noteq> rb_dossierDigest b then Inl ''FINDING_REVIEW_STALE:dossierDigest''
     else bind_res (case (rb_handoffDigest b, handoff_present (ca_handoff c)) of
         (None, None) \<Rightarrow> Inr ()
       | (None, Some _) \<Rightarrow> Inl ''FINDING_REVIEW_STALE:handoffUnexpected''
       | (Some d, None) \<Rightarrow> Inl ''FINDING_REVIEW_STALE:handoffMissing''
       | (Some d, Some h) \<Rightarrow> guard_res (findingArtifactDigest sha num le h = d) ''FINDING_REVIEW_STALE:handoffDigest'') (\<lambda>_.
     if ca_sourceSha c \<noteq> rb_sourceSha b then Inl ''FINDING_REVIEW_STALE:sourceSha''
     else if ca_campaignId c \<noteq> rb_campaignId b then Inl ''FINDING_REVIEW_STALE:campaignId''
     else if ca_handoffVersion c \<noteq> rb_handoffVersion b then Inl ''FINDING_REVIEW_STALE:handoffVersion''
     else if ca_privacyProjectionVersion c \<noteq> rb_privacyProjectionVersion b then Inl ''FINDING_REVIEW_STALE:privacyProjectionVersion''
     else Inr ()))"

section \<open>Facts\<close>

lemma decision_text: "map_of FINDING_REVIEW_DECISIONS t = Some d \<Longrightarrow> map_of FINDING_REVIEW_STATES (text_in FINDING_REVIEW_STATES (DECISION_TARGET d)) = Some (DECISION_TARGET d)"
  by (cases d) (simp_all add: FINDING_REVIEW_STATES_def text_in_def)

lemma target_terminal: "DECISION_TARGET d \<in> set TERMINAL_STATES"
  and target_not_pending: "text_in FINDING_REVIEW_STATES (DECISION_TARGET d) \<noteq> ''REVIEW_PENDING''"
  by (cases d; simp add: TERMINAL_STATES_def FINDING_REVIEW_STATES_def text_in_def)+

lemma identity_ignores_id: "receipt_identity sha num le (r\<lparr>rc_reviewId := i\<rparr>) = receipt_identity sha num le r"
  by (simp add: receipt_identity_def receipt_base_def)

lemma decide_Inr:
  assumes "decideReview sha num le r decision options = Inr (r', receipt)"
  obtains d reviewedAt rationale code where "validateRecordShape r = Inr ()" "map_of FINDING_REVIEW_DECISIONS decision = Some d"
    "rr_state r = ''REVIEW_PENDING''" "fst (snd options) = Some reviewedAt" "instant_ok reviewedAt" "rationale_ok rationale"
    "assertReasonCode (fst options) = Inr code"
    "r' = r\<lparr>rr_state := text_in FINDING_REVIEW_STATES (DECISION_TARGET d),
       rr_transitionCount := of_nat (js_increment (nat \<lfloor>rr_transitionCount r\<rfloor>)), rr_lastReasonCode := code\<rparr>"
    "receipt = \<lparr>rc_schemaVersion = FINDING_REVIEW_RECEIPT_VERSION, rc_reviewId = receipt_identity sha num le receipt, rc_binding = rr_binding r,
       rc_decision = decision, rc_resultingState = text_in FINDING_REVIEW_STATES (DECISION_TARGET d), rc_reviewedAt = reviewedAt,
       rc_rationale = rationale, rc_organizationalAuthority = ''NONE_LOCAL_REVIEW_ONLY'', rc_notEquivalentTo = NOT_EQUIVALENT_TO\<rparr>"
proof -
  obtain reason instant rationaleOption where options: "options = (reason, instant, rationaleOption)" by (cases options)
  let ?rationale = "case rationaleOption of None \<Rightarrow> [] | Some s \<Rightarrow> s"
  obtain d reviewedAt where d: "map_of FINDING_REVIEW_DECISIONS decision = Some d" "instant = Some reviewedAt"
    using assms by (auto simp: decideReview_def options split: option.splits if_splits)
  have ok: "validateRecordShape r = Inr ()" "rr_state r = ''REVIEW_PENDING''" "instant_ok reviewedAt" "rationale_ok ?rationale"
    using assms d by (auto simp: decideReview_def options Let_def split: if_splits)
  obtain code where code: "assertReasonCode reason = Inr code"
    using assms d ok by (auto simp: decideReview_def options Let_def)
  define base where "base = \<lparr>rc_schemaVersion = FINDING_REVIEW_RECEIPT_VERSION, rc_reviewId = [], rc_binding = rr_binding r,
       rc_decision = decision, rc_resultingState = text_in FINDING_REVIEW_STATES (DECISION_TARGET d), rc_reviewedAt = reviewedAt,
       rc_rationale = ?rationale, rc_organizationalAuthority = ''NONE_LOCAL_REVIEW_ONLY'', rc_notEquivalentTo = NOT_EQUIVALENT_TO\<rparr>"
  have result: "r' = r\<lparr>rr_state := text_in FINDING_REVIEW_STATES (DECISION_TARGET d),
       rr_transitionCount := of_nat (js_increment (nat \<lfloor>rr_transitionCount r\<rfloor>)), rr_lastReasonCode := code\<rparr>"
      "receipt = base\<lparr>rc_reviewId := receipt_identity sha num le base\<rparr>"
    using assms d ok code by (simp_all add: decideReview_def options Let_def base_def)
  have "receipt_identity sha num le receipt = receipt_identity sha num le base" using result(2) identity_ignores_id by simp
  then have "receipt = base\<lparr>rc_reviewId := receipt_identity sha num le receipt\<rparr>" using result(2) by simp
  then show thesis using that [of d reviewedAt ?rationale code] d ok code result(1) by (simp add: options base_def)
qed

end
