(* ===== verification/Finding_Review_Properties.thy ===== *)
theory Finding_Review_Properties imports Finding_Review Candidate_Lifecycle_Properties begin

text \<open>
  What the finding review guarantees: a decision closes the record and yields a receipt that
  verifies; a receipt accepted as current pins every bound artifact and identity.
\<close>

section \<open>Decisions\<close>

lemma shape_state: "validateRecordShape r = Inr () \<Longrightarrow> \<exists>b. validateReviewBinding (rr_binding r) = Inr b"
  by (auto simp: validateRecordShape_def split: if_splits)

lemma shape_kept:
  assumes "validateRecordShape r = Inr ()" and "map_of FINDING_REVIEW_STATES s \<noteq> None"
  shows "validateRecordShape (r\<lparr>rr_state := s, rr_transitionCount := of_nat n, rr_lastReasonCode := code\<rparr>) = Inr ()"
proof -
  have "is_integer (of_nat n)" unfolding is_integer_iff by (metis of_int_of_nat_eq)
  then show ?thesis using assms by (auto simp: validateRecordShape_def split: if_splits)
qed

text \<open>C21: One decision per finding: a decision on a pending record yields a record in a terminal
  state, on which every further decision is refused, and a receipt whose integrity check
  succeeds with the record's own binding and which names the decision, its state and no
  organizational authority.\<close>

theorem decision_is_final_and_verifiable:
  assumes "decideReview sha num le r decision options = Inr (r', receipt)"
  shows "isTerminalReviewState (rr_state r') = Inr True
    \<and> (\<exists>b. validateReviewBinding (rr_binding r) = Inr b \<and> verifyReceiptIntegrity sha num le receipt = Inr b)
    \<and> (\<exists>d. map_of FINDING_REVIEW_DECISIONS decision = Some d \<and> map_of FINDING_REVIEW_STATES (rr_state r') = Some (DECISION_TARGET d))
    \<and> rc_decision receipt = decision \<and> rc_resultingState receipt = rr_state r'
    \<and> rc_organizationalAuthority receipt = ''NONE_LOCAL_REVIEW_ONLY''
    \<and> (\<forall>again opts. map_of FINDING_REVIEW_DECISIONS again \<noteq> None \<longrightarrow>
         decideReview sha num le r' again opts = Inl ''FINDING_REVIEW_ALREADY_DECIDED'')"
proof -
  from assms obtain d reviewedAt rationale code where
      d: "validateRecordShape r = Inr ()" "map_of FINDING_REVIEW_DECISIONS decision = Some d" "instant_ok reviewedAt" "rationale_ok rationale"
    and r': "r' = r\<lparr>rr_state := text_in FINDING_REVIEW_STATES (DECISION_TARGET d),
       rr_transitionCount := of_nat (js_increment (nat \<lfloor>rr_transitionCount r\<rfloor>)), rr_lastReasonCode := code\<rparr>"
    and receipt: "receipt = \<lparr>rc_schemaVersion = FINDING_REVIEW_RECEIPT_VERSION, rc_reviewId = receipt_identity sha num le receipt, rc_binding = rr_binding r,
       rc_decision = decision, rc_resultingState = text_in FINDING_REVIEW_STATES (DECISION_TARGET d), rc_reviewedAt = reviewedAt,
       rc_rationale = rationale, rc_organizationalAuthority = ''NONE_LOCAL_REVIEW_ONLY'', rc_notEquivalentTo = NOT_EQUIVALENT_TO\<rparr>"
    by (rule decide_Inr)
  note target = decision_text [OF d(2)]
  have state: "rr_state r' = text_in FINDING_REVIEW_STATES (DECISION_TARGET d)" using r' by simp
  obtain b where b: "validateReviewBinding (rr_binding r) = Inr b" using shape_state [OF d(1)] by blast
  have fields: "rc_schemaVersion receipt = FINDING_REVIEW_RECEIPT_VERSION" "rc_binding receipt = rr_binding r" "rc_decision receipt = decision"
      "rc_resultingState receipt = text_in FINDING_REVIEW_STATES (DECISION_TARGET d)" "rc_reviewedAt receipt = reviewedAt"
      "rc_rationale receipt = rationale" "rc_organizationalAuthority receipt = ''NONE_LOCAL_REVIEW_ONLY''"
      "rc_notEquivalentTo receipt = NOT_EQUIVALENT_TO" "rc_reviewId receipt = receipt_identity sha num le receipt"
    by (subst receipt, simp)+
  have "verifyReceiptIntegrity sha num le receipt = Inr b"
    using fields d target b by (simp add: verifyReceiptIntegrity_def)
  moreover have "validateRecordShape r' = Inr ()" unfolding r' by (rule shape_kept [OF d(1)]) (simp add: target)
  then have "decideReview sha num le r' again opts = Inl ''FINDING_REVIEW_ALREADY_DECIDED''"
    if "map_of FINDING_REVIEW_DECISIONS again \<noteq> None" for again opts
    using that state target_not_pending [of d] by (auto simp: decideReview_def split: prod.split)
  ultimately show ?thesis using target target_terminal [of d] state d(2) b fields
    by (auto simp: isTerminalReviewState_def)
qed

section \<open>Currentness\<close>

lemma current_iff:
  "verifyReviewCurrent sha num le r c = Inr () \<longleftrightarrow> (\<exists>b. verifyReceiptIntegrity sha num le r = Inr b
     \<and> findingArtifactDigest sha num le (ca_finding c) = rb_findingDigest b \<and> findingArtifactDigest sha num le (ca_dossier c) = rb_dossierDigest b
     \<and> map_option (findingArtifactDigest sha num le) (handoff_present (ca_handoff c)) = rb_handoffDigest b
     \<and> ca_sourceSha c = rb_sourceSha b \<and> ca_campaignId c = rb_campaignId b \<and> ca_handoffVersion c = rb_handoffVersion b
     \<and> ca_privacyProjectionVersion c = rb_privacyProjectionVersion b)"
proof (cases "verifyReceiptIntegrity sha num le r")
  case (Inr b)
  show ?thesis
    by (cases "rb_handoffDigest b"; cases "handoff_present (ca_handoff c)") (auto simp: verifyReviewCurrent_def Inr split: if_splits)
qed (simp add: verifyReviewCurrent_def)

text \<open>A receipt pins what was reviewed: if it is current for two sets of artifacts, they have the
  same finding, dossier and handoff digests, the same source, campaign and versions; and
  rewriting an artifact with its object keys in another order changes nothing.\<close>

theorem current_receipt_pins_artifacts:
  assumes "verifyReviewCurrent sha num le r c = Inr ()" and "verifyReviewCurrent sha num le r c' = Inr ()"
  shows "findingArtifactDigest sha num le (ca_finding c) = findingArtifactDigest sha num le (ca_finding c')
    \<and> findingArtifactDigest sha num le (ca_dossier c) = findingArtifactDigest sha num le (ca_dossier c')
    \<and> map_option (findingArtifactDigest sha num le) (handoff_present (ca_handoff c))
        = map_option (findingArtifactDigest sha num le) (handoff_present (ca_handoff c'))
    \<and> ca_sourceSha c = ca_sourceSha c' \<and> ca_campaignId c = ca_campaignId c' \<and> ca_handoffVersion c = ca_handoffVersion c'
    \<and> ca_privacyProjectionVersion c = ca_privacyProjectionVersion c'
    \<and> (\<forall>fs gs. key_order le \<and> ca_dossier c = JObj fs \<and> distinct (map fst fs) \<and> mset gs = mset fs \<longrightarrow>
         verifyReviewCurrent sha num le r (c\<lparr>ca_dossier := JObj gs\<rparr>) = Inr ())"
proof -
  obtain b where b: "verifyReceiptIntegrity sha num le r = Inr b" "findingArtifactDigest sha num le (ca_finding c) = rb_findingDigest b"
      "findingArtifactDigest sha num le (ca_dossier c) = rb_dossierDigest b"
      "map_option (findingArtifactDigest sha num le) (handoff_present (ca_handoff c)) = rb_handoffDigest b"
      "ca_sourceSha c = rb_sourceSha b" "ca_campaignId c = rb_campaignId b" "ca_handoffVersion c = rb_handoffVersion b"
      "ca_privacyProjectionVersion c = rb_privacyProjectionVersion b"
    using assms(1) unfolding current_iff by blast
  have "verifyReviewCurrent sha num le r (c\<lparr>ca_dossier := JObj gs\<rparr>) = Inr ()"
    if "key_order le" "ca_dossier c = JObj fs" "distinct (map fst fs)" "mset gs = mset fs" for fs gs
  proof -
    have "findingArtifactDigest sha num le (JObj gs) = findingArtifactDigest sha num le (ca_dossier c)"
      using stable_object_eq [OF that(1), of fs gs] that by (simp add: findingArtifactDigest_def)
    then show ?thesis unfolding current_iff using b by (intro exI [of _ b]) simp
  qed
  moreover obtain b' where "verifyReceiptIntegrity sha num le r = Inr b'" "findingArtifactDigest sha num le (ca_finding c') = rb_findingDigest b'"
      "findingArtifactDigest sha num le (ca_dossier c') = rb_dossierDigest b'"
      "map_option (findingArtifactDigest sha num le) (handoff_present (ca_handoff c')) = rb_handoffDigest b'"
      "ca_sourceSha c' = rb_sourceSha b'" "ca_campaignId c' = rb_campaignId b'" "ca_handoffVersion c' = rb_handoffVersion b'"
      "ca_privacyProjectionVersion c' = rb_privacyProjectionVersion b'"
    using assms(2) unfolding current_iff by blast
  moreover from this(1) have "b' = b" using b(1) by simp
  ultimately show ?thesis using b by (intro conjI allI impI; (elim conjE)?; (simp; fail | blast))
qed

section \<open>A concrete review\<close>

definition w_binding :: json where
  "w_binding = JObj [(''findingId'', JStr ''f''), (''findingDigest'', JStr (replicate 24 CHR ''a'')),
     (''dossierDigest'', JStr (replicate 24 CHR ''a'')), (''handoffDigest'', JNull), (''sourceSha'', JStr ''synthetic.x''),
     (''campaignId'', JStr ''c''), (''handoffVersion'', JStr ''v''), (''privacyProjectionVersion'', JStr ''v'')]"

definition w_bound :: review_binding where
  "w_bound = \<lparr>rb_findingId = ''f'', rb_findingDigest = replicate 24 CHR ''a'', rb_dossierDigest = replicate 24 CHR ''a'',
     rb_handoffDigest = None, rb_sourceSha = ''synthetic.x'', rb_campaignId = ''c'', rb_handoffVersion = ''v'', rb_privacyProjectionVersion = ''v''\<rparr>"

lemma w_binding_valid: "validateReviewBinding w_binding = Inr w_bound"
proof -
  have keys: "sort_by str_le (map fst (case w_binding of JObj fs \<Rightarrow> fs)) = BINDING_KEYS"
    by (simp add: w_binding_def sort_by_def code_unit_def BINDING_KEYS_def)
  have fields: "json_field w_binding ''findingId'' = Some (JStr ''f'')" "json_field w_binding ''findingDigest'' = Some (JStr (replicate 24 CHR ''a''))"
      "json_field w_binding ''dossierDigest'' = Some (JStr (replicate 24 CHR ''a''))" "json_field w_binding ''handoffDigest'' = Some JNull"
      "json_field w_binding ''sourceSha'' = Some (JStr ''synthetic.x'')" "json_field w_binding ''campaignId'' = Some (JStr ''c'')"
      "json_field w_binding ''handoffVersion'' = Some (JStr ''v'')" "json_field w_binding ''privacyProjectionVersion'' = Some (JStr ''v'')"
    by (simp_all add: w_binding_def)
  have "review_id_ok ''f''" "review_id_ok ''c''" "\<not> review_sentinel ''f''" "\<not> review_sentinel ''c''"
    by (simp_all add: review_id_ok_def review_sentinel_def sentinel_eval email_at_def)
  moreover have "digest_ok (replicate 24 CHR ''a'')" by (simp add: digest_ok_def is_lower_hex_def list_all_iff)
  moreover have "source_sha_ok ''synthetic.x''" "version_ok ''v''"
    by (simp_all add: source_sha_ok_def version_ok_def starts_with_def is_alnum_def is_lower_letter_def code_unit_def)
  ultimately show ?thesis using keys fields
    by (simp add: validateReviewBinding_def assertId_def assertDigest_def checked_string_def w_bound_def split: json.split)
       (auto simp: w_binding_def)
qed

definition w_review :: review_record where
  "w_review = \<lparr>rr_lifecycleVersion = FINDING_REVIEW_LIFECYCLE_VERSION, rr_state = ''REVIEW_PENDING'', rr_binding = w_binding,
     rr_transitionCount = 0, rr_lastReasonCode = None\<rparr>"

definition w_instant :: string where
  "w_instant = ''2025-01-02T03:04:05Z''"

lemma w_instant_ok: "instant_ok w_instant"
  by (simp add: instant_ok_def w_instant_def date_shape_def is_digit_def code_unit_def)

lemma w_shape: "validateRecordShape w_review = Inr ()"
proof -
  have "is_integer 0" by (simp add: is_integer_def)
  then show ?thesis by (simp add: validateRecordShape_def w_review_def w_binding_valid FINDING_REVIEW_STATES_def)
qed

lemma w_decided:
  assumes "assertReasonCode reason = Inr code"
  shows "\<exists>r' receipt. decideReview sha num le w_review ''ACCEPT_EVIDENCE'' (reason, Some w_instant, None) = Inr (r', receipt)
     \<and> rr_lastReasonCode r' = code"
proof -
  have "rr_state w_review = ''REVIEW_PENDING''" "map_of FINDING_REVIEW_DECISIONS ''ACCEPT_EVIDENCE'' = Some ACCEPT_EVIDENCE"
    by (simp_all add: w_review_def FINDING_REVIEW_DECISIONS_def)
  moreover have "rationale_ok []" by (simp add: rationale_ok_def review_sentinel_def sentinel_eval email_at_def)
  ultimately show ?thesis using w_shape w_instant_ok assms by (simp add: decideReview_def Let_def)
qed

text \<open>Reason codes of a review are not screened for sentinels: the candidate lifecycle refuses the
  code \<open>CUSTOMER_SENTINEL\<close>, the finding review stores it in the decided record.\<close>

theorem review_reason_is_not_screened:
  "normalizeReasonCode (Some ''CUSTOMER_SENTINEL'') = Inl ''CANDIDATE_LIFECYCLE_REASON_CODE_INVALID''
   \<and> (\<exists>r r' receipt. decideReview sha num le r ''ACCEPT_EVIDENCE'' (Some ''CUSTOMER_SENTINEL'', Some w_instant, None) = Inr (r', receipt)
        \<and> rr_lastReasonCode r' = Some ''CUSTOMER_SENTINEL'')"
proof -
  have code: "reason_code_ok ''CUSTOMER_SENTINEL''" by (simp add: reason_code_ok_def is_upper_letter_def code_unit_def all_in_def)
  have "lower ''CUSTOMER_SENTINEL'' = ''customer_sentinel''"
    by (simp add: lower_def lower_char_def is_upper_letter_def code_unit_def char_of_def bit_iff_odd)
  then have "sentinel ''CUSTOMER_SENTINEL''"
    unfolding sentinel_def search_iff by (intro exI [of _ "[]"] exI [of _ "''customer_sentinel''"]) (simp add: sentinel_at_def starts_with_def)
  then have "normalizeReasonCode (Some ''CUSTOMER_SENTINEL'') = Inl ''CANDIDATE_LIFECYCLE_REASON_CODE_INVALID''"
    by (simp add: normalizeReasonCode_def)
  moreover have "assertReasonCode (Some ''CUSTOMER_SENTINEL'') = Inr (Some ''CUSTOMER_SENTINEL'')"
    using code by (simp add: assertReasonCode_def)
  ultimately show ?thesis using w_decided by blast
qed

definition w_sha :: "string \<Rightarrow> string" where
  "w_sha s = replicate 64 CHR ''a''"

definition w_num :: "rat \<Rightarrow> string" where
  "w_num q = replicate (nat \<lfloor>q\<rfloor>) CHR ''1''"

theorem decision_is_final_and_verifiable_witness:
  "\<exists>r' receipt. decideReview w_sha w_num str_le w_review ''ACCEPT_EVIDENCE'' (None, Some w_instant, None) = Inr (r', receipt)
     \<and> verifyReceiptIntegrity w_sha w_num str_le receipt = Inr w_bound"
proof -
  have "assertReasonCode None = Inr None" by (simp add: assertReasonCode_def)
  then obtain r' receipt where d: "decideReview w_sha w_num str_le w_review ''ACCEPT_EVIDENCE'' (None, Some w_instant, None) = Inr (r', receipt)"
    using w_decided by blast
  have "rr_binding w_review = w_binding" by (simp add: w_review_def)
  then show ?thesis using decision_is_final_and_verifiable [OF d] d w_binding_valid by auto
qed

definition w_artifacts :: "json \<Rightarrow> current_artifacts" where
  "w_artifacts dossier = \<lparr>ca_finding = JNull, ca_dossier = dossier, ca_handoff = None, ca_sourceSha = ''synthetic.x'', ca_campaignId = ''c'',
     ca_handoffVersion = ''v'', ca_privacyProjectionVersion = ''v''\<rparr>"

lemma w_current:
  assumes "verifyReceiptIntegrity w_sha num le receipt = Inr w_bound"
  shows "verifyReviewCurrent w_sha num le receipt (w_artifacts dossier) = Inr ()"
  unfolding current_iff using assms
  by (simp add: findingArtifactDigest_def w_sha_def w_bound_def w_artifacts_def handoff_present_def)

theorem current_receipt_pins_artifacts_witness:
  "\<exists>receipt. verifyReviewCurrent w_sha w_num str_le receipt (w_artifacts (JObj [(''a'', JNull), (''b'', JNull)])) = Inr ()
     \<and> verifyReviewCurrent w_sha w_num str_le receipt (w_artifacts (JObj [(''b'', JNull), (''a'', JNull)])) = Inr ()"
proof -
  have "assertReasonCode None = Inr None" by (simp add: assertReasonCode_def)
  then obtain r' receipt where d: "decideReview w_sha w_num str_le w_review ''ACCEPT_EVIDENCE'' (None, Some w_instant, None) = Inr (r', receipt)"
    using w_decided by blast
  have "verifyReceiptIntegrity w_sha w_num str_le receipt = Inr w_bound"
    using d
  proof (rule decide_Inr)
    fix d reviewedAt rationale code
    assume a: "map_of FINDING_REVIEW_DECISIONS ''ACCEPT_EVIDENCE'' = Some d" "instant_ok reviewedAt" "rationale_ok rationale"
      and receipt: "receipt = \<lparr>rc_schemaVersion = FINDING_REVIEW_RECEIPT_VERSION, rc_reviewId = receipt_identity w_sha w_num str_le receipt,
       rc_binding = rr_binding w_review, rc_decision = ''ACCEPT_EVIDENCE'', rc_resultingState = text_in FINDING_REVIEW_STATES (DECISION_TARGET d),
       rc_reviewedAt = reviewedAt, rc_rationale = rationale, rc_organizationalAuthority = ''NONE_LOCAL_REVIEW_ONLY'', rc_notEquivalentTo = NOT_EQUIVALENT_TO\<rparr>"
    have fields: "rc_schemaVersion receipt = FINDING_REVIEW_RECEIPT_VERSION" "rc_binding receipt = w_binding" "rc_decision receipt = ''ACCEPT_EVIDENCE''"
      "rc_resultingState receipt = text_in FINDING_REVIEW_STATES (DECISION_TARGET d)" "rc_reviewedAt receipt = reviewedAt"
      "rc_rationale receipt = rationale" "rc_organizationalAuthority receipt = ''NONE_LOCAL_REVIEW_ONLY''"
      "rc_notEquivalentTo receipt = NOT_EQUIVALENT_TO" "rc_reviewId receipt = receipt_identity w_sha w_num str_le receipt"
      by (subst receipt, simp add: w_review_def)+
    show ?thesis using fields a decision_text [OF a(1)] w_binding_valid by (simp add: verifyReceiptIntegrity_def)
  qed
  note current = w_current [OF this]
  have "verifyReviewCurrent w_sha w_num str_le receipt
      ((w_artifacts (JObj [(''a'', JNull), (''b'', JNull)]))\<lparr>ca_dossier := JObj [(''b'', JNull), (''a'', JNull)]\<rparr>) = Inr ()"
    using current_receipt_pins_artifacts [OF current current, of "JObj [(''a'', JNull), (''b'', JNull)]" "JObj [(''a'', JNull), (''b'', JNull)]"]
      str_order_keys by (simp add: w_artifacts_def)
  then show ?thesis using current by (auto simp: w_artifacts_def)
qed

end
