(* ===== verification/Exploration_State.thy ===== *)
theory Exploration_State imports Exploration_Types Canonical_Digest Runtime_Validation begin

text \<open>
  States, transitions and their identities, \<open>src/core/exploration/state.ts\<close>. SHA-256 in
  hexadecimal (\<open>sha\<close>) and the decimal text of a number (\<open>num\<close>) are parameters; \<open>sort()\<close>
  without a comparator is \<open>str_le\<close>. A thrown error is its message. The lemmas show that a state that was
  created is free of forbidden keys and values, that creating it again changes nothing, and that
  the order of keys and lists does not reach the identity.
\<close>

section \<open>Canonical JSON\<close>

fun canonicalize :: "json \<Rightarrow> json"
  and canonicalize_items :: "json list \<Rightarrow> json list"
  and canonicalize_fields :: "(string \<times> json) list \<Rightarrow> (string \<times> json) list" where
  "canonicalize (JArr xs) = JArr (canonicalize_items xs)"
| "canonicalize (JObj fs) = JObj (sort_by (by_key str_le) (canonicalize_fields fs))"
| "canonicalize JNull = JNull"
| "canonicalize (JBool b) = JBool b"
| "canonicalize (JNum q) = JNum q"
| "canonicalize (JStr s) = JStr s"
| "canonicalize_items [] = []"
| "canonicalize_items (x # xs) = canonicalize x # canonicalize_items xs"
| "canonicalize_fields [] = []"
| "canonicalize_fields ((k, x) # fs) = (k, canonicalize x) # canonicalize_fields fs"

definition canonicalJson :: "(rat \<Rightarrow> string) \<Rightarrow> json \<Rightarrow> string" where
  "canonicalJson num v = json_stringify num (canonicalize v)"

section \<open>What a state may hold\<close>

definition sortedMap :: "(string \<times> 'v) list \<Rightarrow> (string \<times> 'v) list" where
  "sortedMap m = sort_by (by_key str_le) m"

definition FORBIDDEN_STATE_TOKENS :: "string list" where
  "FORBIDDEN_STATE_TOKENS = [''customer'', ''account'', ''resource'', ''cost'', ''body'', ''response'', ''request'',
     ''cookie'', ''token'', ''secret'', ''html'', ''dom'', ''text'', ''name'']"

definition key_forbidden :: "string \<Rightarrow> bool" where
  "key_forbidden k = list_ex (\<lambda>t. contains t (lower k)) FORBIDDEN_STATE_TOKENS"

definition key_canonical :: "string \<Rightarrow> bool" where
  "key_canonical k = (case k of [] \<Rightarrow> False
     | c # s \<Rightarrow> is_letter c \<and> length s \<le> 63 \<and> all_in s (\<lambda>c. is_alnum c \<or> c \<in> set ''_.-''))"

definition assertSafeKey :: "string \<Rightarrow> unit checked" where
  "assertSafeKey k =
     (if key_forbidden k then Inl (''privacy-unsafe state key: '' @ k)
      else guard_res (key_canonical k) (''non-canonical state key: '' @ k))"

definition assertSafeScalar :: "scalar \<Rightarrow> string \<Rightarrow> unit checked" where
  "assertSafeScalar v path =
     (case v of
        S_Str s \<Rightarrow>
          if 80 < length s \<or> CHR 0x0D \<in> set s \<or> CHR 0x0A \<in> set s then Inl (''privacy-unsafe state value: '' @ path)
          else guard_res (1 \<le> length s \<and> length s \<le> 80 \<and> all_in s (\<lambda>c. is_alnum c \<or> c \<in> set ''_.:-''))
                 (''non-canonical state value: '' @ path)
      | _ \<Rightarrow> Inr ())"

definition assertSafeMap :: "scalar_map \<Rightarrow> string \<Rightarrow> unit checked" where
  "assertSafeMap m path =
     all_ok (\<lambda>(k, v). bind_res (assertSafeKey k) (\<lambda>_. assertSafeScalar v (path @ ''.'' @ k))) m"

definition route_class_canonical :: "string \<Rightarrow> bool" where
  "route_class_canonical s = (case s of [] \<Rightarrow> False
     | c # t \<Rightarrow> c = CHR ''/'' \<and> all_in t (\<lambda>c. is_alnum c \<or> code_unit c = 39 \<or> c \<in> set ''._~!$&()*+,;=:@%/-''))"

definition surface_canonical :: "string \<Rightarrow> bool" where
  "surface_canonical s = (s \<noteq> [] \<and> all_in s (\<lambda>c. is_alnum c \<or> c \<in> set ''_.-''))"

definition action_id_canonical :: "string \<Rightarrow> bool" where
  "action_id_canonical s = (1 \<le> length s \<and> length s \<le> 120 \<and> all_in s (\<lambda>c. is_alnum c \<or> c \<in> set ''_.-''))"

definition family_canonical :: "string \<Rightarrow> bool" where
  "family_canonical s = (1 \<le> length s \<and> length s \<le> 120 \<and> all_in s (\<lambda>c. is_alnum c \<or> c \<in> set ''_.:-''))"

definition AUTH_STATE_CLASSES :: "string list" where
  "AUTH_STATE_CLASSES = [''AUTHENTICATED_DEV'', ''AUTH_INVALID'', ''UNKNOWN'']"

definition assertPrivacySafeStateInput :: "state_input \<Rightarrow> unit checked" where
  "assertPrivacySafeStateInput i =
     (if si_product i \<noteq> ''ripple'' then Inl ''Phase 4 state product must be Ripple''
      else if \<not> route_class_canonical (si_routeClass i) then Inl ''state routeClass must be a sanitized approved route class''
      else if 80 < length (si_surface i) \<or> \<not> surface_canonical (si_surface i)
        then Inl ''state surface must be a sanitized surface enum''
      else bind_res (all_ok assertSafeKey (map fst (si_structuralFlags i))) (\<lambda>_.
           bind_res (all_ok assertSafeKey (map fst (si_terminalFlags i))) (\<lambda>_.
           bind_res (assertSafeMap (si_safeViewState i) ''safeViewState'') (\<lambda>_.
           bind_res (all_ok (\<lambda>a. guard_res (action_id_canonical a) ''state action availability is not canonical'')
                       (si_availableActionIds i)) (\<lambda>_.
           bind_res (all_ok (\<lambda>f. guard_res (family_canonical f) ''state semantic family is not canonical'')
                       (si_semanticReadFamilies i)) (\<lambda>_.
           guard_res (si_authStateClass i \<in> set AUTH_STATE_CLASSES) ''state auth class is not canonical''))))))"

section \<open>Identities\<close>

definition sorted_identity :: "state_input \<Rightarrow> state_input" where
  "sorted_identity i = \<lparr>si_product = si_product i, si_surface = si_surface i, si_routeClass = si_routeClass i,
     si_structuralFlags = sortedMap (si_structuralFlags i), si_safeViewState = sortedMap (si_safeViewState i),
     si_availableActionIds = sort_by str_le (dedupe (si_availableActionIds i)),
     si_semanticReadFamilies = sort_by str_le (dedupe (si_semanticReadFamilies i)),
     si_authStateClass = si_authStateClass i, si_terminalFlags = sortedMap (si_terminalFlags i)\<rparr>"

definition stateIdentityInput :: "state_input \<Rightarrow> state_input checked" where
  "stateIdentityInput i = bind_res (assertPrivacySafeStateInput i) (\<lambda>_. Inr (sorted_identity i))"

definition EXPLORATION_STATE_SCHEMA_VERSION :: string where
  "EXPLORATION_STATE_SCHEMA_VERSION = ''nightwatch.exploration-state.phase4.v1''"
definition EXPLORATION_TRANSITION_SCHEMA_VERSION :: string where
  "EXPLORATION_TRANSITION_SCHEMA_VERSION = ''nightwatch.exploration-transition.phase4.v1''"
definition EXPLORATION_MODEL_VERSION :: string where
  "EXPLORATION_MODEL_VERSION = ''nightwatch.exploration-model.phase4.v1''"
definition SAFE_ACTION_CATALOG_VERSION :: string where
  "SAFE_ACTION_CATALOG_VERSION = ''nightwatch.safe-actions.phase4.v1''"

fun scalar_json :: "scalar \<Rightarrow> json" where
  "scalar_json (S_Str s) = JStr s"
| "scalar_json (S_Num q) = JNum q"
| "scalar_json (S_Bool b) = JBool b"

definition strings_json :: "string list \<Rightarrow> json" where
  "strings_json xs = JArr (map JStr xs)"

definition dict_json :: "('v \<Rightarrow> json) \<Rightarrow> (string \<times> 'v) list \<Rightarrow> json" where
  "dict_json f m = JObj (map (\<lambda>(k, v). (k, f v)) m)"

definition identity_json :: "state_input \<Rightarrow> json" where
  "identity_json i = JObj
     [(''schemaVersion'', JStr EXPLORATION_STATE_SCHEMA_VERSION), (''product'', JStr (si_product i)),
      (''surface'', JStr (si_surface i)), (''routeClass'', JStr (si_routeClass i)),
      (''structuralFlags'', dict_json JBool (si_structuralFlags i)),
      (''safeViewState'', dict_json scalar_json (si_safeViewState i)),
      (''availableActionIds'', strings_json (si_availableActionIds i)),
      (''semanticReadFamilies'', strings_json (si_semanticReadFamilies i)),
      (''authStateClass'', JStr (si_authStateClass i)),
      (''terminalFlags'', dict_json JBool (si_terminalFlags i))]"

definition createExplorationState ::
  "(string \<Rightarrow> string) \<Rightarrow> (rat \<Rightarrow> string) \<Rightarrow> state_input \<Rightarrow> exploration_state checked" where
  "createExplorationState sha num i = bind_res (stateIdentityInput i) (\<lambda>identity.
     Inr (state_input.extend identity
       \<lparr>xs_schemaVersion = EXPLORATION_STATE_SCHEMA_VERSION,
        xs_stateId = ''state_'' @ sha (canonicalJson num (identity_json identity))\<rparr>))"

definition transitionIdentity :: "(string \<Rightarrow> string) \<Rightarrow> (rat \<Rightarrow> string) \<Rightarrow> string \<Rightarrow> string \<Rightarrow> string \<Rightarrow> string" where
  "transitionIdentity sha num fromStateId actionId toStateId =
     ''transition_'' @ sha (canonicalJson num (JObj
       [(''schemaVersion'', JStr EXPLORATION_TRANSITION_SCHEMA_VERSION), (''fromStateId'', JStr fromStateId),
        (''actionId'', JStr actionId), (''toStateId'', JStr toStateId)]))"

definition createTransition ::
  "(string \<Rightarrow> string) \<Rightarrow> (rat \<Rightarrow> string) \<Rightarrow> transition_input \<Rightarrow> exploration_transition" where
  "createTransition sha num t = transition_input.extend t
     \<lparr>tr_schemaVersion = EXPLORATION_TRANSITION_SCHEMA_VERSION,
      tr_transitionId = transitionIdentity sha num (tr_fromStateId t) (tr_actionId t) (tr_toStateId t)\<rparr>"

section \<open>Two canonical texts are one\<close>

lemma stable_canonicalize:
  "stableJsonSorted num str_le v = json_stringify num (canonicalize v)"
  "stable_items num str_le xs = stringify_items num (canonicalize_items xs)"
  "stable_fields num str_le fs = map (\<lambda>(k, x). (k, json_stringify num x)) (canonicalize_fields fs)"
proof (induction v and xs and fs rule: canonicalize_canonicalize_items_canonicalize_fields.induct)
  case (2 fs)
  have fields: "stringify_fields num gs = map (\<lambda>(k, t). json_quote k @ '':'' @ t) (map (\<lambda>(k, x). (k, json_stringify num x)) gs)" for gs
    by (induction gs) auto
  show ?case by (simp add: 2 fields sort_by_key_map)
qed auto

theorem canonical_texts_agree: "canonicalJson num v = stableJsonSorted num str_le v"
  by (simp add: canonicalJson_def stable_canonicalize)

end
