(* ===== verification/Exploration_Catalog.thy ===== *)
theory Exploration_Catalog imports Exploration_State begin

text \<open>
  The catalog check of \<open>src/core/exploration/catalog.ts\<close> and the fingerprints of
  \<open>state.ts\<close>. An action, an envelope and a budget become JSON values with the property names
  of their interfaces; an absent optional property is left out, as \<open>JSON.stringify\<close> leaves it
  out. The regular expressions of the check are searched at every suffix.
\<close>

section \<open>Actions and limits as JSON\<close>

definition provenance_json :: "provenance \<Rightarrow> json" where
  "provenance_json p = JObj
     [(''repository'', JStr (pv_repository p)), (''file'', JStr (pv_file p)), (''symbol'', JStr (pv_symbol p)),
      (''sourceSha'', JStr (pv_sourceSha p)), (''trackingRef'', JStr (pv_trackingRef p)),
      (''freshness'', JStr (pv_freshness p))]"

fun locator_json :: "locator \<Rightarrow> json" where
  "locator_json (Selector_Option s ls v os) = JObj
     [(''kind'', JStr ''selector-option''), (''surfaceSelector'', JStr s), (''labelTexts'', strings_json ls),
      (''value'', JStr v), (''optionLabels'', strings_json os)]"
| "locator_json (Vendor_Tab s v os) = JObj
     [(''kind'', JStr ''vendor-tab''), (''surfaceSelector'', JStr s), (''value'', JStr v), (''optionLabels'', strings_json os)]"
| "locator_json (Column_Header s ls c) = JObj
     [(''kind'', JStr ''column-header''), (''surfaceSelector'', JStr s), (''columnLabels'', strings_json ls),
      (''columnKey'', JStr c)]"
| "locator_json (Approved_Route r) = JObj [(''kind'', JStr ''approved-route''), (''routeClass'', JStr r)]"

definition optional_field :: "string \<Rightarrow> ('a \<Rightarrow> json) \<Rightarrow> 'a option \<Rightarrow> (string \<times> json) list" where
  "optional_field k f x = (case x of None \<Rightarrow> [] | Some v \<Rightarrow> [(k, f v)])"

definition action_json :: "explore_action \<Rightarrow> json" where
  "action_json a = JObj
     [(''actionId'', JStr (sfa_actionId a)), (''product'', JStr (xa_product a)),
      (''anchorJourney'', JStr (xa_anchorJourney a)), (''surface'', JStr (xa_surface a)),
      (''control'', JStr (xa_control a)), (''sourceProvenance'', JArr (map provenance_json (xa_sourceProvenance a))),
      (''actionKind'', JStr (xa_actionKind a)),
      (''preconditions'', JObj ((''routeClasses'', strings_json (sfa_routeClasses a))
         # optional_field ''requiredStructuralFlags'' (dict_json JBool) (xa_requiredStructuralFlags a)
         @ optional_field ''requiredSafeViewState'' (dict_json scalar_json) (xa_requiredSafeViewState a)
         @ optional_field ''forbiddenSafeViewState'' (dict_json scalar_json) (xa_forbiddenSafeViewState a))),
      (''locator'', locator_json (xa_locator a)), (''semanticClass'', JStr (sfa_semanticClass a)),
      (''expectedRouteClass'', JStr (sfa_expectedRouteClass a)),
      (''expectedStructuralDelta'', dict_json scalar_json (xa_expectedStructuralDelta a)),
      (''expectedReadFamilies'', strings_json (xa_expectedReadFamilies a)),
      (''forbiddenRequestFamilies'', strings_json (xa_forbiddenRequestFamilies a)),
      (''persistedPreferenceEffect'', JStr (sfa_persistedPreferenceEffect a)),
      (''analyticsEffect'', JStr (xa_analyticsEffect a)), (''routeEffect'', JStr (sfa_routeEffect a)),
      (''privacyPolicy'', JStr (xa_privacyPolicy a)), (''replayPolicy'', JStr (xa_replayPolicy a)),
      (''status'', JStr (sfa_status a))]"

definition int_json :: "int \<Rightarrow> json" where
  "int_json n = JNum (of_int n)"

definition envelope_json :: "envelope \<Rightarrow> json" where
  "envelope_json e = JObj
     [(''envelopeId'', JStr (en_envelopeId e)), (''anchorJourney'', JStr (en_anchorJourney e)),
      (''allowedRoutes'', strings_json (en_allowedRoutes e)), (''allowedActionIds'', strings_json (en_allowedActionIds e)),
      (''expectedReadFamilies'', strings_json (en_expectedReadFamilies e)),
      (''forbiddenRequestFamilies'', strings_json (en_forbiddenRequestFamilies e)),
      (''maxActionsPerSequence'', int_json (en_maxActionsPerSequence e)), (''maxDepth'', int_json (en_maxDepth e)),
      (''maxStates'', int_json (en_maxStates e)), (''maxTransitions'', int_json (en_maxTransitions e)),
      (''maxStateVisits'', int_json (en_maxStateVisits e)), (''maxTransitionVisits'', int_json (en_maxTransitionVisits e)),
      (''maxImmediateBacktracks'', int_json (en_maxImmediateBacktracks e)),
      (''maxRouteChanges'', int_json (en_maxRouteChanges e))]"

definition budget_json :: "exploration_budget \<Rightarrow> json" where
  "budget_json b = JObj
     [(''policyVersion'', JStr (xb_policyVersion b)), (''maxActionsPerSequence'', int_json (xb_maxActionsPerSequence b)),
      (''maxDepth'', int_json (xb_maxDepth b)), (''maxStates'', int_json (xb_maxStates b)),
      (''maxTransitions'', int_json (xb_maxTransitions b)), (''maxRouteChanges'', int_json (xb_maxRouteChanges b)),
      (''maxRuntimeMs'', int_json (xb_maxRuntimeMs b)), (''maxRealContexts'', int_json (xb_maxRealContexts b)),
      (''maxSeeds'', int_json (xb_maxSeeds b))]"

section \<open>Fingerprints\<close>

definition by_action_id :: "(string \<Rightarrow> string \<Rightarrow> bool) \<Rightarrow> 'a safe_action_scheme \<Rightarrow> 'a safe_action_scheme \<Rightarrow> bool" where
  "by_action_id le a b = le (sfa_actionId a) (sfa_actionId b)"

definition catalogFingerprint ::
  "(string \<Rightarrow> string) \<Rightarrow> (rat \<Rightarrow> string) \<Rightarrow> (string \<Rightarrow> string \<Rightarrow> bool) \<Rightarrow> explore_action list \<Rightarrow> string" where
  "catalogFingerprint sha num locale_le actions =
     ''catalog_'' @ sha (canonicalJson num (JObj
       [(''version'', JStr SAFE_ACTION_CATALOG_VERSION),
        (''actions'', JArr (map action_json (sort_by (by_action_id locale_le) actions)))]))"

definition modelFingerprint ::
  "(string \<Rightarrow> string) \<Rightarrow> (rat \<Rightarrow> string) \<Rightarrow> envelope \<Rightarrow> exploration_budget \<Rightarrow> string" where
  "modelFingerprint sha num e b =
     ''model_'' @ sha (canonicalJson num (JObj
       [(''modelVersion'', JStr EXPLORATION_MODEL_VERSION), (''envelope'', envelope_json e), (''budget'', budget_json b)]))"

section \<open>The catalog check\<close>

text \<open>One position of \<open>FORBIDDEN_LOCATOR_PATTERNS\<close>, on the lower-cased text.\<close>

definition equals_after :: "string \<Rightarrow> string \<Rightarrow> bool" where
  "equals_after w s = (starts_with w s \<and> starts_with ''='' (dropWhile is_space (drop (length w) s)))"

definition id_after :: "string \<Rightarrow> string \<Rightarrow> bool" where
  "id_after w s = (starts_with w s \<and>
     (let t = drop (length w) s in starts_with ''id'' t \<or> starts_with ''_id'' t \<or> starts_with ''-id'' t))"

definition forbidden_locator_at :: "string \<Rightarrow> bool" where
  "forbidden_locator_at s = (starts_with '':nth-child'' s \<or> starts_with '':nth-last-child'' s \<or> starts_with '':nth-of-type'' s
     \<or> equals_after ''text'' s \<or> equals_after ''xpath'' s \<or> starts_with '':has-text('' s \<or> starts_with ''customer'' s
     \<or> id_after ''account'' s \<or> id_after ''resource'' s)"

definition forbidden_locator :: "string \<Rightarrow> bool" where
  "forbidden_locator s = search forbidden_locator_at (lower s)"

definition source_sha_complete :: "string \<Rightarrow> bool" where
  "source_sha_complete s = (length s = 40 \<and> list_all is_lower_hex s)"

definition check_provenance :: "explore_action \<Rightarrow> provenance \<Rightarrow> unit checked" where
  "check_provenance a p =
     (if \<not> source_sha_complete (pv_sourceSha p) \<and> xa_product a = ''ripple''
        then Inl (''Ripple action source SHA is not complete: '' @ sfa_actionId a)
      else guard_res (pv_freshness p \<in> {''LOCAL_TRACKING_REF_ONLY'', ''CURRENT_DEPLOYMENT_VERIFIED''})
             (''unknown source freshness: '' @ sfa_actionId a))"

definition route_precondition_safe :: "string \<Rightarrow> bool" where
  "route_precondition_safe r = (starts_with ''/'' r \<and> CHR ''?'' \<notin> set r \<and> CHR ''#'' \<notin> set r)"

definition check_catalog_action :: "(rat \<Rightarrow> string) \<Rightarrow> string list \<Rightarrow> explore_action \<Rightarrow> string list checked" where
  "check_catalog_action num ids a =
     (let i = sfa_actionId a in
      if i \<in> set ids then Inl (''duplicate safe action: '' @ i)
      else if \<not> action_id_canonical i then Inl (''non-canonical action ID: '' @ i)
      else if sfa_semanticClass a \<noteq> ''KNOWN_READ'' \<and> sfa_semanticClass a \<noteq> ''LOCAL_ONLY''
        then Inl (''unsafe semantic class: '' @ i)
      else if sfa_persistedPreferenceEffect a = ''SERVER_STATE'' then Inl (''server preference action: '' @ i)
      else if \<not> list_ex (contains ''write'') (xa_forbiddenRequestFamilies a)
        then Inl (''approved action has no forbidden mutation family: '' @ i)
      else if sfa_semanticClass a = ''KNOWN_READ'' \<and> xa_expectedReadFamilies a = []
        then Inl (''known-read action has no expected read family: '' @ i)
      else if xa_sourceProvenance a = [] then Inl (''action has no source provenance: '' @ i)
      else bind_res (all_ok (check_provenance a) (xa_sourceProvenance a)) (\<lambda>_.
        if forbidden_locator (json_stringify num (locator_json (xa_locator a)))
          then Inl (''unstable or customer-specific locator: '' @ i)
        else if \<not> list_all route_precondition_safe (sfa_routeClasses a)
          then Inl (''unsafe action route precondition: '' @ i)
        else Inr (i # ids)))"

definition validateSafeActionCatalog :: "(rat \<Rightarrow> string) \<Rightarrow> explore_action list \<Rightarrow> unit checked" where
  "validateSafeActionCatalog num actions =
     bind_res (foldM_res (check_catalog_action num) [] actions) (\<lambda>_. Inr ())"

definition approvedActions :: "(rat \<Rightarrow> string) \<Rightarrow> explore_action list \<Rightarrow> explore_action list checked" where
  "approvedActions num actions = bind_res (validateSafeActionCatalog num actions) (\<lambda>_.
     Inr (filter (\<lambda>a. sfa_status a = ''APPROVED'') actions))"

section \<open>What the check guarantees\<close>

definition catalog_action_ok :: "explore_action \<Rightarrow> bool" where
  "catalog_action_ok a = (action_id_canonical (sfa_actionId a)
     \<and> sfa_semanticClass a \<in> {''KNOWN_READ'', ''LOCAL_ONLY''} \<and> sfa_persistedPreferenceEffect a \<noteq> ''SERVER_STATE''
     \<and> (\<exists>f\<in>set (xa_forbiddenRequestFamilies a). contains ''write'' f)
     \<and> (sfa_semanticClass a = ''KNOWN_READ'' \<longrightarrow> xa_expectedReadFamilies a \<noteq> []) \<and> xa_sourceProvenance a \<noteq> []
     \<and> list_all route_precondition_safe (sfa_routeClasses a))"

lemma check_catalog_action_Inr:
  "check_catalog_action num ids a = Inr ids' \<Longrightarrow> sfa_actionId a \<notin> set ids \<and> ids' = sfa_actionId a # ids \<and> catalog_action_ok a"
  by (auto simp: check_catalog_action_def catalog_action_ok_def Let_def list_ex_iff split: if_splits)

lemma catalog_fold_Inr:
  "foldM_res (check_catalog_action num) ids actions = Inr ids' \<Longrightarrow> distinct ids \<Longrightarrow>
   distinct ids' \<and> ids' = rev (map sfa_actionId actions) @ ids \<and> (\<forall>a\<in>set actions. catalog_action_ok a)"
proof (induction actions arbitrary: ids)
  case (Cons a actions)
  then obtain ids1 where one: "check_catalog_action num ids a = Inr ids1"
      and rest: "foldM_res (check_catalog_action num) ids1 actions = Inr ids'" by auto
  have a: "sfa_actionId a \<notin> set ids" "ids1 = sfa_actionId a # ids" "catalog_action_ok a"
    using check_catalog_action_Inr [OF one] by auto
  then have "distinct ids1" using Cons.prems(2) by simp
  note ih = Cons.IH [OF rest this]
  have "ids' = rev (map sfa_actionId (a # actions)) @ ids" using ih a by simp
  then show ?case using ih a by (metis set_ConsD)
qed simp

lemma valid_catalog:
  assumes "validateSafeActionCatalog num actions = Inr u"
  shows "distinct (map sfa_actionId actions) \<and> (\<forall>a\<in>set actions. catalog_action_ok a)"
proof -
  from assms obtain ids where "foldM_res (check_catalog_action num) [] actions = Inr ids"
    by (auto simp: validateSafeActionCatalog_def)
  from catalog_fold_Inr [OF this] show ?thesis by (auto simp flip: rev_map)
qed

end
