(* ===== verification/Exploration_Random.thy ===== *)
theory Exploration_Random imports Runtime_Validation "HOL-Library.Word" begin

text \<open>
  The seeded generator of the explorer, \<open>src/core/exploration/rng.ts\<close>: SplitMix64 on a 64-bit
  word. A \<open>bigint\<close> masked with \<open>MASK_64\<close> after every operation is a \<open>64 word\<close>, whose
  arithmetic wraps in the same way. SHA-256 in hexadecimal (\<open>sha\<close>) is a parameter. The
  lemmas show that a seed survives printing and reading, that the output mix loses nothing and
  that one generator never repeats a value within its first \<open>2 ^ 64\<close> draws.
\<close>

unbundle bit_operations_syntax

section \<open>Seeds\<close>

definition hex_char :: "nat \<Rightarrow> char" where
  "hex_char d = char_of (if d < 10 then 48 + d else 87 + d)"

definition hex_value :: "char \<Rightarrow> nat" where
  "hex_value c = (if is_digit c then code_unit c - 48 else code_unit c - 87)"

definition seed_digit :: "char \<Rightarrow> bool" where
  "seed_digit c = (is_digit c \<or> (97 \<le> code_unit c \<and> code_unit c \<le> 102))"

definition hex_nat :: "string \<Rightarrow> nat" where
  "hex_nat s = foldl (\<lambda>v c. 16 * v + hex_value c) 0 s"

fun hex_text :: "nat \<Rightarrow> nat \<Rightarrow> string" where
  "hex_text 0 n = []"
| "hex_text (Suc k) n = hex_text k (n div 16) @ [hex_char (n mod 16)]"

definition parseCanonicalSeed :: "string \<Rightarrow> 64 word checked" where
  "parseCanonicalSeed s =
     (if starts_with ''0x'' s \<and> length s = 18 \<and> list_all seed_digit (drop 2 s) then Inr (of_nat (hex_nat (drop 2 s)))
      else Inl ''seed must be canonical lowercase 0x-prefixed 16-hex uint64'')"

text \<open>\<open>toString(16).padStart(16, '0')\<close> of a 64-bit value is its sixteen hexadecimal digits.\<close>

definition formatCanonicalSeed :: "64 word \<Rightarrow> string" where
  "formatCanonicalSeed w = ''0x'' @ hex_text 16 (unat w)"

definition RNG_ALGORITHM :: string where "RNG_ALGORITHM = ''SplitMix64''"
definition RNG_VERSION :: string where "RNG_VERSION = ''v1''"

definition deriveSeed :: "(string \<Rightarrow> string) \<Rightarrow> string \<Rightarrow> string \<Rightarrow> string \<Rightarrow> int \<Rightarrow> string checked" where
  "deriveSeed sha masterSeed modelId envelopeId runOrdinal =
     bind_res (parseCanonicalSeed masterSeed) (\<lambda>master.
       if runOrdinal < 0 \<or> max_safe_integer < runOrdinal then Inl ''run ordinal must be a non-negative safe integer''
       else Inr (''0x'' @ take 16 (sha (RNG_ALGORITHM @ '':'' @ RNG_VERSION @ ''|'' @ formatCanonicalSeed master @ ''|''
              @ modelId @ ''|'' @ envelopeId @ ''|'' @ nat_to_dec (nat runOrdinal)))))"

section \<open>The generator\<close>

definition INCREMENT :: "64 word" where
  "INCREMENT = 0x9e3779b97f4a7c15"

definition xor_shift :: "nat \<Rightarrow> 64 word \<Rightarrow> 64 word" where
  "xor_shift k z = z XOR drop_bit k z"

definition mix :: "64 word \<Rightarrow> 64 word" where
  "mix z0 =
     (let z1 = xor_shift 30 z0 * 0xbf58476d1ce4e5b9;
          z2 = xor_shift 27 z1 * 0x94d049bb133111eb
      in xor_shift 31 z2)"

record split_mix =
  sm_seed :: string
  sm_state :: "64 word"
  sm_index :: nat

definition new_split_mix :: "string \<Rightarrow> split_mix checked" where
  "new_split_mix seed = bind_res (parseCanonicalSeed seed) (\<lambda>parsed.
     Inr \<lparr>sm_seed = formatCanonicalSeed parsed, sm_state = parsed, sm_index = 0\<rparr>)"

definition nextUint64 :: "split_mix \<Rightarrow> 64 word \<times> split_mix" where
  "nextUint64 g =
     (let s = sm_state g + INCREMENT in (mix s, g\<lparr>sm_state := s, sm_index := sm_index g + 1\<rparr>))"

record draw =
  dr_value :: nat
  dr_drawIndex :: nat
  dr_draw :: string

definition nextInt :: "int \<Rightarrow> split_mix \<Rightarrow> (draw \<times> split_mix) checked" where
  "nextInt exclusiveUpperBound g =
     (if exclusiveUpperBound \<le> 0 \<or> max_safe_integer < exclusiveUpperBound
      then Inl ''RNG upper bound must be a positive safe integer''
      else let drawIndex = sm_index g; (raw, g') = nextUint64 g
           in Inr (\<lparr>dr_value = unat raw mod nat exclusiveUpperBound, dr_drawIndex = drawIndex,
                    dr_draw = formatCanonicalSeed raw\<rparr>, g'))"

section \<open>Reading back a printed seed\<close>

lemma hex_char_value: "d < 16 \<Longrightarrow> hex_value (hex_char d) = d"
  by (auto simp: hex_value_def hex_char_def is_digit_def code_unit_def)

lemma hex_char_digit: "d < 16 \<Longrightarrow> seed_digit (hex_char d)"
  by (auto simp: seed_digit_def hex_char_def is_digit_def code_unit_def)

lemma hex_nat_snoc [simp]: "hex_nat (s @ [c]) = 16 * hex_nat s + hex_value c"
  by (simp add: hex_nat_def)

lemma length_hex_text [simp]: "length (hex_text k n) = k"
  by (induction k arbitrary: n) simp_all

lemma hex_nat_text: "n < 16 ^ k \<Longrightarrow> hex_nat (hex_text k n) = n"
proof (induction k arbitrary: n)
  case (Suc k)
  then have "n div 16 < 16 ^ k" by (simp add: less_mult_imp_div_less)
  then show ?case using Suc.IH by (simp add: hex_char_value)
qed (simp add: hex_nat_def)

lemma hex_text_digits: "list_all seed_digit (hex_text k n)"
  by (induction k arbitrary: n) (simp_all add: hex_char_digit)

lemma parse_format: "parseCanonicalSeed (formatCanonicalSeed w) = Inr w"
proof -
  have "unat w < 2 ^ LENGTH(64)" by (rule unsigned_less)
  then have "unat w < 16 ^ 16" by simp
  then show ?thesis
    by (simp add: parseCanonicalSeed_def formatCanonicalSeed_def hex_text_digits hex_nat_text starts_with_def)
qed

lemma format_inj: "formatCanonicalSeed v = formatCanonicalSeed w \<longleftrightarrow> v = w"
  using parse_format by (metis sum.inject(2))

section \<open>No draw is repeated\<close>

lemma drop_bit_fixed_zero:
  fixes d :: "64 word"
  assumes "0 < k" and "drop_bit k d = d"
  shows "d = 0"
proof -
  have "drop_bit (n * k) d = d" for n
    using assms(2) by (induction n) (simp_all add: add.commute flip: drop_bit_drop_bit)
  then have "d = drop_bit (64 * k) d" by simp
  also have "\<dots> = 0"
    using assms(1) by (intro bit_eqI) (auto simp: bit_drop_bit_eq dest!: bit_imp_le_length)
  finally show ?thesis .
qed

lemma xor_shift_inj: "0 < k \<Longrightarrow> xor_shift k v = xor_shift k w \<longleftrightarrow> v = w"
proof
  assume k: "0 < k" and eq: "xor_shift k v = xor_shift k w"
  have "drop_bit k (v XOR w) = v XOR w"
  proof (rule bit_eqI)
    fix n
    assume "possible_bit TYPE(64 word) n"
    have "bit (xor_shift k v) n = bit (xor_shift k w) n" using eq by simp
    then show "bit (drop_bit k (v XOR w)) n = bit (v XOR w) n"
      by (auto simp: xor_shift_def bit_xor_iff bit_drop_bit_eq)
  qed
  then have "v XOR w = 0" using k drop_bit_fixed_zero by blast
  then have "(v XOR w) XOR w = 0 XOR w" by (rule arg_cong)
  then show "v = w" by (simp add: xor.assoc)
qed simp

lemma odd_mult_inj:
  fixes c :: "64 word"
  assumes "c * c' = 1"
  shows "v * c = w * c \<longleftrightarrow> v = w"
proof
  assume "v * c = w * c"
  then have "v * (c * c') = w * (c * c')" by (simp flip: mult.assoc)
  then show "v = w" using assms by simp
qed simp

lemma mix_inj: "mix v = mix w \<longleftrightarrow> v = w"
proof -
  have a: "(0xbf58476d1ce4e5b9 :: 64 word) * 0x96de1b173f119089 = 1" by simp
  have b: "(0x94d049bb133111eb :: 64 word) * 0x319642b2d24d8ec3 = 1" by simp
  show ?thesis by (simp add: mix_def xor_shift_inj odd_mult_inj [OF a] odd_mult_inj [OF b])
qed

fun draws :: "nat \<Rightarrow> split_mix \<Rightarrow> 64 word list" where
  "draws 0 g = []"
| "draws (Suc n) g = (case nextUint64 g of (w, g') \<Rightarrow> w # draws n g')"

lemma draws_eq: "draws n g = map (\<lambda>i. mix (sm_state g + of_nat (Suc i) * INCREMENT)) [0..<n]"
proof (induction n arbitrary: g)
  case (Suc n)
  have "draws (Suc n) g = mix (sm_state g + INCREMENT) #
      map (\<lambda>i. mix (sm_state g + INCREMENT + of_nat (Suc i) * INCREMENT)) [0..<n]"
    by (simp add: nextUint64_def Suc.IH Let_def)
  also have "\<dots> = map (\<lambda>i. mix (sm_state g + of_nat (Suc i) * INCREMENT)) (0 # map Suc [0..<n])"
    by (simp add: algebra_simps)
  also have "0 # map Suc [0..<n] = [0..<Suc n]" by (simp only: map_Suc_upt upt_conv_Cons [OF zero_less_Suc])
  finally show ?case .
qed simp

lemma increment_inj: "of_nat i * INCREMENT = of_nat j * INCREMENT \<longleftrightarrow> (of_nat i :: 64 word) = of_nat j"
proof -
  have "INCREMENT * 0xf1de83e19937733d = 1" by (simp add: INCREMENT_def)
  then show ?thesis by (rule odd_mult_inj)
qed

lemma small_of_nat_inj: "i < 2 ^ 64 \<Longrightarrow> j < 2 ^ 64 \<Longrightarrow> (of_nat i :: 64 word) = of_nat j \<longleftrightarrow> i = j"
  by (simp add: word_of_nat_eq_iff take_bit_eq_mod)

text \<open>C22: within its first \<open>2 ^ 64\<close> draws a generator never produces the same value twice:
  the increment is odd and the output mix is a bijection.\<close>

theorem generator_never_repeats: "n \<le> 2 ^ 64 \<Longrightarrow> distinct (draws n g)"
  by (auto simp: draws_eq distinct_map inj_on_def mix_inj increment_inj small_of_nat_inj distrib_right)

theorem generator_never_repeats_witness: "distinct (draws 5 \<lparr>sm_seed = ''0x0000000000000000'', sm_state = 0, sm_index = 0\<rparr>)"
  by (rule generator_never_repeats) simp

lemma nextInt_bound: "nextInt b g = Inr (d, g') \<Longrightarrow> int (dr_value d) < b \<and> sm_index g' = sm_index g + 1"
proof -
  have "0 < b \<Longrightarrow> int (x mod nat b) < b" for x by (simp add: zmod_int)
  then show "nextInt b g = Inr (d, g') \<Longrightarrow> int (dr_value d) < b \<and> sm_index g' = sm_index g + 1"
    by (auto simp: nextInt_def nextUint64_def Let_def split: if_splits)
qed

lemma nextInt_total: "0 < b \<Longrightarrow> b \<le> max_safe_integer \<Longrightarrow> \<exists>d g'. nextInt b g = Inr (d, g')"
  by (simp add: nextInt_def nextUint64_def Let_def)

end
