(* ===== verification/Exploration_Planner.thy ===== *)
theory Exploration_Planner imports Exploration_Catalog Exploration_Random begin

text \<open>
  The seeded frontier planner, \<open>src/core/exploration/planner.ts\<close>: at every state it drops the
  actions the envelope, the catalog, the preconditions, the runtime or the limits exclude, keeps
  the ones tried least often here, and draws one of them. \<open>localeCompare\<close> is the parameter
  \<open>locale_le\<close>. The lemmas show that every allowed action of the catalog is either eligible or
  excluded with one reason, and what an eligible action fulfils.
\<close>

section \<open>The planner\<close>

definition mapMatches :: "(string \<times> 'v) list \<Rightarrow> (string \<times> 'v) list option \<Rightarrow> bool" where
  "mapMatches actual expected =
     (case expected of None \<Rightarrow> True | Some m \<Rightarrow> list_all (\<lambda>(k, v). map_of actual k = Some v) m)"

definition hasForbiddenMatch :: "(string \<times> 'v) list \<Rightarrow> (string \<times> 'v) list option \<Rightarrow> bool" where
  "hasForbiddenMatch actual forbidden =
     (case forbidden of None \<Rightarrow> False | Some m \<Rightarrow> list_ex (\<lambda>(k, v). map_of actual k = Some v) m)"

definition visitKey :: "string \<Rightarrow> string \<Rightarrow> string" where
  "visitKey stateId actionId = stateId @ ''|'' @ actionId"

record planner =
  pl_rng :: split_mix
  pl_visits :: "(string \<times> nat) list"
  pl_stateVisits :: "(string \<times> nat) list"
  pl_transitionVisits :: "(string \<times> nat) list"

definition new_planner :: "string \<Rightarrow> planner checked" where
  "new_planner seed = bind_res (new_split_mix seed) (\<lambda>rng.
     Inr \<lparr>pl_rng = rng, pl_visits = [], pl_stateVisits = [], pl_transitionVisits = []\<rparr>)"

definition visit_count :: "(string \<times> nat) list \<Rightarrow> string \<Rightarrow> nat" where
  "visit_count m k = (case map_get m k of None \<Rightarrow> 0 | Some n \<Rightarrow> n)"

definition stateVisitCount :: "planner \<Rightarrow> string \<Rightarrow> nat" where
  "stateVisitCount p stateId = visit_count (pl_stateVisits p) stateId"

definition transitionVisitCount :: "planner \<Rightarrow> string \<Rightarrow> string \<Rightarrow> nat" where
  "transitionVisitCount p stateId actionId = visit_count (pl_transitionVisits p) (visitKey stateId actionId)"

definition noteState :: "string \<Rightarrow> planner \<Rightarrow> planner" where
  "noteState stateId p = p\<lparr>pl_stateVisits := map_set (pl_stateVisits p) stateId (stateVisitCount p stateId + 1)\<rparr>"

definition noteAttempt :: "string \<Rightarrow> string \<Rightarrow> planner \<Rightarrow> planner" where
  "noteAttempt stateId actionId p = p\<lparr>
     pl_transitionVisits := map_set (pl_transitionVisits p) (visitKey stateId actionId) (transitionVisitCount p stateId actionId + 1),
     pl_visits := map_set (pl_visits p) actionId (visit_count (pl_visits p) actionId + 1)\<rparr>"

text \<open>\<open>new Map(catalog.map(...))\<close>: a later action with the same id replaces an earlier one.\<close>

definition catalog_by_id :: "explore_action list \<Rightarrow> (string \<times> explore_action) list" where
  "catalog_by_id catalog = foldl (\<lambda>m a. map_set m (sfa_actionId a) a) [] catalog"

definition planner_candidates :: "(string \<Rightarrow> string \<Rightarrow> bool) \<Rightarrow> explore_action list \<Rightarrow> envelope \<Rightarrow> explore_action list" where
  "planner_candidates locale_le catalog e =
     sort_by (by_action_id locale_le) (List.map_filter (map_get (catalog_by_id catalog)) (dedupe (en_allowedActionIds e)))"

text \<open>The body of the loop over the candidates: the reason an action is excluded, or none.\<close>

definition exclusion ::
  "planner \<Rightarrow> exploration_state \<Rightarrow> envelope \<Rightarrow> exploration_budget \<Rightarrow> nat \<Rightarrow> explore_action \<Rightarrow> exclusion_reason option" where
  "exclusion p s e b actionIndex a =
     (if sfa_status a \<noteq> ''APPROVED'' then Some STALE_SOURCE
      else if sfa_semanticClass a \<noteq> ''KNOWN_READ'' \<and> sfa_semanticClass a \<noteq> ''LOCAL_ONLY'' then Some SEMANTIC_POLICY_BLOCK
      else if si_routeClass s \<notin> set (sfa_routeClasses a) then Some ROUTE_NOT_APPROVED
      else if \<not> mapMatches (si_structuralFlags s) (xa_requiredStructuralFlags a) then Some PRECONDITION_FALSE
      else if \<not> mapMatches (si_safeViewState s) (xa_requiredSafeViewState a)
        \<or> hasForbiddenMatch (si_safeViewState s) (xa_forbiddenSafeViewState a) then Some PRECONDITION_FALSE
      else if sfa_actionId a \<notin> set (si_availableActionIds s) then Some RUNTIME_CONTROL_ABSENT
      else if en_maxTransitionVisits e \<le> int (transitionVisitCount p (xs_stateId s) (sfa_actionId a)) then Some MAX_VISITS_REACHED
      else if en_maxStateVisits e < int (stateVisitCount p (xs_stateId s)) then Some ACTION_ALREADY_EXHAUSTED
      else if min (xb_maxActionsPerSequence b) (en_maxActionsPerSequence e) \<le> int actionIndex
        \<or> min (xb_maxDepth b) (en_maxDepth e) \<le> int actionIndex then Some BUDGET_LIMIT
      else None)"

definition eligible_actions ::
  "planner \<Rightarrow> exploration_state \<Rightarrow> envelope \<Rightarrow> exploration_budget \<Rightarrow> nat \<Rightarrow> explore_action list \<Rightarrow> explore_action list" where
  "eligible_actions p s e b i cands = filter (\<lambda>a. exclusion p s e b i a = None) cands"

definition excluded_actions ::
  "planner \<Rightarrow> exploration_state \<Rightarrow> envelope \<Rightarrow> exploration_budget \<Rightarrow> nat \<Rightarrow> explore_action list \<Rightarrow> (string \<times> exclusion_reason) list" where
  "excluded_actions p s e b i cands =
     List.map_filter (\<lambda>a. case exclusion p s e b i a of None \<Rightarrow> None | Some r \<Rightarrow> Some (sfa_actionId a, r)) cands"

definition frontier_of :: "planner \<Rightarrow> exploration_state \<Rightarrow> explore_action list \<Rightarrow> explore_action list" where
  "frontier_of p s eligible =
     (let count = (\<lambda>a. transitionVisitCount p (xs_stateId s) (sfa_actionId a));
          leastVisits = (if eligible = [] then 0 else Min (set (map count eligible)))
      in filter (\<lambda>a. count a = leastVisits) eligible)"

definition no_draw :: "split_mix \<Rightarrow> draw" where
  "no_draw g = \<lparr>dr_value = 0, dr_drawIndex = sm_index g, dr_draw = ''0x0000000000000000''\<rparr>"

definition select ::
  "(string \<Rightarrow> string \<Rightarrow> bool) \<Rightarrow> planner \<Rightarrow> exploration_state \<Rightarrow> explore_action list \<Rightarrow> envelope \<Rightarrow> exploration_budget \<Rightarrow> nat
     \<Rightarrow> ((planner_decision \<times> explore_action option) \<times> planner) checked" where
  "select locale_le p s catalog e b actionIndex =
     (let cands = planner_candidates locale_le catalog e;
          eligible = eligible_actions p s e b actionIndex cands;
          frontier = frontier_of p s eligible
      in bind_res (if frontier = [] then Inr (no_draw (pl_rng p), pl_rng p) else nextInt (int (length frontier)) (pl_rng p))
           (\<lambda>(draw, rng).
         let action = (if dr_value draw < length frontier then Some (frontier ! dr_value draw) else None)
         in Inr ((\<lparr>pd_index = actionIndex, pd_stateId = xs_stateId s, pd_eligibleActions = map sfa_actionId eligible,
                   pd_excludedActions = excluded_actions p s e b actionIndex cands,
                   pd_rngDrawIndex = dr_drawIndex draw, pd_rngDraw = dr_draw draw,
                   pd_chosenAction = map_option sfa_actionId action,
                   pd_budgetRemaining = max 0 (min (xb_maxActionsPerSequence b) (en_maxActionsPerSequence e) - int actionIndex)\<rparr>,
                 action), p\<lparr>pl_rng := rng\<rparr>)))"

section \<open>What an eligible action fulfils\<close>

definition may_execute :: "explore_action list \<Rightarrow> envelope \<Rightarrow> explore_action \<Rightarrow> bool" where
  "may_execute catalog e a = (a \<in> set catalog \<and> sfa_actionId a \<in> set (en_allowedActionIds e) \<and> sfa_status a = ''APPROVED''
     \<and> sfa_semanticClass a \<in> {''KNOWN_READ'', ''LOCAL_ONLY''})"

lemma catalog_by_id_sound: "map_get (catalog_by_id catalog) i = Some a \<Longrightarrow> a \<in> set catalog \<and> sfa_actionId a = i"
proof -
  have "map_get (foldl (\<lambda>m a. map_set m (sfa_actionId a) a) m catalog) i = Some a \<Longrightarrow>
      map_get m i = Some a \<or> (a \<in> set catalog \<and> sfa_actionId a = i)" for m
  proof (induction catalog arbitrary: m)
    case (Cons x catalog)
    then have "map_get (map_set m (sfa_actionId x) x) i = Some a \<or> (a \<in> set catalog \<and> sfa_actionId a = i)" by simp
    then show ?case by (auto simp: map_get_set split: if_splits)
  qed simp
  from this [of "[]"] show "map_get (catalog_by_id catalog) i = Some a \<Longrightarrow> a \<in> set catalog \<and> sfa_actionId a = i"
    by (simp add: catalog_by_id_def map_get_def)
qed

lemma set_map_filter: "set (List.map_filter f xs) = {y. \<exists>x\<in>set xs. f x = Some y}"
  by (auto simp: List.map_filter_def image_iff) force

lemma candidate_sound:
  "a \<in> set (planner_candidates locale_le catalog e) \<Longrightarrow> a \<in> set catalog \<and> sfa_actionId a \<in> set (en_allowedActionIds e)"
  using catalog_by_id_sound by (auto simp: planner_candidates_def set_map_filter)

lemma not_excluded:
  assumes "exclusion p s e b i a = None"
  shows "sfa_status a = ''APPROVED'' \<and> sfa_semanticClass a \<in> {''KNOWN_READ'', ''LOCAL_ONLY''}"
    and "si_routeClass s \<in> set (sfa_routeClasses a) \<and> sfa_actionId a \<in> set (si_availableActionIds s)"
    and "int i < min (xb_maxActionsPerSequence b) (en_maxActionsPerSequence e) \<and> int i < min (xb_maxDepth b) (en_maxDepth e)"
    and "mapMatches (si_structuralFlags s) (xa_requiredStructuralFlags a) \<and> mapMatches (si_safeViewState s) (xa_requiredSafeViewState a)
      \<and> \<not> hasForbiddenMatch (si_safeViewState s) (xa_forbiddenSafeViewState a)"
    and "int (transitionVisitCount p (xs_stateId s) (sfa_actionId a)) < en_maxTransitionVisits e"
  using assms unfolding exclusion_def by (simp_all only: option.distinct not_less not_le if_False if_True simp_thms insert_iff empty_iff de_Morgan_disj de_Morgan_conj split: if_split_asm)

lemma eligible_may_execute:
  assumes "a \<in> set (eligible_actions p s e b i (planner_candidates locale_le catalog e))"
  shows "may_execute catalog e a \<and> exclusion p s e b i a = None"
  using assms candidate_sound not_excluded(1) by (simp add: eligible_actions_def may_execute_def) blast

lemma frontier_least:
  assumes "a \<in> set (frontier_of p s es)" and "x \<in> set es"
  shows "a \<in> set es \<and> transitionVisitCount p (xs_stateId s) (sfa_actionId a) \<le> transitionVisitCount p (xs_stateId s) (sfa_actionId x)"
proof -
  have "es \<noteq> []" using assms(2) by auto
  then show ?thesis using assms by (auto simp: frontier_of_def Let_def)
qed

lemma frontier_subset: "set (frontier_of p s es) \<subseteq> set es"
  by (simp add: frontier_of_def Let_def)

lemma frontier_empty_iff: "frontier_of p s es = [] \<longleftrightarrow> es = []"
proof (cases "es = []")
  case False
  let ?f = "\<lambda>a. transitionVisitCount p (xs_stateId s) (sfa_actionId a)"
  have "Min (?f ` set es) \<in> ?f ` set es" using False by simp
  then obtain x where "x \<in> set es" "?f x = Min (?f ` set es)" by force
  then have "x \<in> set (frontier_of p s es)" using False by (simp add: frontier_of_def Let_def)
  then have "frontier_of p s es \<noteq> []" by (metis empty_iff list.set(1))
  then show ?thesis using False by simp
qed (simp add: frontier_of_def)

lemma select_cases:
  assumes "select locale_le p s catalog e b i = Inr ((d, act), p')"
  obtains (none) "eligible_actions p s e b i (planner_candidates locale_le catalog e) = []" "act = None" "pd_chosenAction d = None"
  | (some) a where "act = Some a" "pd_chosenAction d = Some (sfa_actionId a)"
      "a \<in> set (frontier_of p s (eligible_actions p s e b i (planner_candidates locale_le catalog e)))"
proof -
  let ?es = "eligible_actions p s e b i (planner_candidates locale_le catalog e)"
  show thesis
  proof (cases "frontier_of p s ?es = []")
    case True
    then show thesis using assms none by (auto simp: select_def Let_def no_draw_def frontier_empty_iff)
  next
    case False
    with assms obtain dr g where draw: "nextInt (int (length (frontier_of p s ?es))) (pl_rng p) = Inr (dr, g)"
      and act: "act = (if dr_value dr < length (frontier_of p s ?es) then Some (frontier_of p s ?es ! dr_value dr) else None)"
      and d: "pd_chosenAction d = map_option sfa_actionId act"
      by (auto simp: select_def Let_def)
    have "dr_value dr < length (frontier_of p s ?es)" using nextInt_bound [OF draw] by simp
    then show thesis using act d some by auto
  qed
qed

text \<open>The draw never fails: there are no more candidates than allowed ids.\<close>

lemma length_map_filter_le: "length (List.map_filter f xs) \<le> length xs"
  by (simp add: List.map_filter_def)

lemma length_dedupe_le: "length (dedupe xs) \<le> length xs"
  by (induction xs) (auto intro: le_trans [OF length_filter_le])

lemma select_total:
  assumes "int (length (en_allowedActionIds e)) \<le> max_safe_integer"
  shows "\<exists>x. select locale_le p s catalog e b i = Inr x"
proof -
  let ?cands = "planner_candidates locale_le catalog e"
  let ?fr = "frontier_of p s (eligible_actions p s e b i ?cands)"
  have "length ?fr \<le> length ?cands"
    unfolding frontier_of_def eligible_actions_def Let_def by (rule le_trans [OF length_filter_le length_filter_le])
  also have "\<dots> \<le> length (en_allowedActionIds e)"
    unfolding planner_candidates_def by (simp add: le_trans [OF length_map_filter_le length_dedupe_le])
  finally have "int (length ?fr) \<le> max_safe_integer" using assms by linarith
  then have "?fr \<noteq> [] \<Longrightarrow> \<exists>d g. nextInt (int (length ?fr)) (pl_rng p) = Inr (d, g)" using nextInt_total by simp
  then show ?thesis by (auto simp: select_def Let_def split: prod.split)
qed

end
