(* ===== verification/Exploration_Engine.thy ===== *)
theory Exploration_Engine imports Exploration_Planner begin

text \<open>
  The exploration engine, \<open>src/core/exploration/engine.ts\<close>. The runtime that observes and acts
  is a parameter: four operations on a world of any type, which may answer differently every time
  and may throw. SHA-256, the text of numbers and \<open>localeCompare\<close> come as a \<open>platform\<close>. The run
  is one record that every iteration of the loop returns updated; the loop ends because each
  iteration that does not break plans one more action below the sequence limit.
\<close>

section \<open>Safety\<close>

definition EXPLORATION_ZERO_SAFETY :: safety_vector where
  "EXPLORATION_ZERO_SAFETY = \<lparr>sv_productionAttempts = 0, sv_proxyViolations = 0, sv_unknownDestinations = 0,
     sv_unknownApprovals = 0, sv_knownMutations = 0, sv_actionCausedUnknown = 0, sv_dbQueries = 0\<rparr>"

definition addSafety :: "safety_vector \<Rightarrow> safety_vector \<Rightarrow> safety_vector" where
  "addSafety a b = \<lparr>sv_productionAttempts = sv_productionAttempts a + sv_productionAttempts b,
     sv_proxyViolations = sv_proxyViolations a + sv_proxyViolations b,
     sv_unknownDestinations = sv_unknownDestinations a + sv_unknownDestinations b,
     sv_unknownApprovals = sv_unknownApprovals a + sv_unknownApprovals b,
     sv_knownMutations = sv_knownMutations a + sv_knownMutations b,
     sv_actionCausedUnknown = sv_actionCausedUnknown a + sv_actionCausedUnknown b,
     sv_dbQueries = sv_dbQueries a + sv_dbQueries b\<rparr>"

definition add_request_safety :: "safety_vector \<Rightarrow> network_observation \<Rightarrow> safety_vector" where
  "add_request_safety s0 q =
     (let s1 = (if no_disposition q = ''KNOWN_MUTATION'' \<or> no_classification q = ''KNOWN_MUTATION''
                then addSafety s0 (EXPLORATION_ZERO_SAFETY\<lparr>sv_knownMutations := 1\<rparr>) else s0);
          s2 = (if no_disposition q = ''ACTION_CAUSED_UNKNOWN''
                then addSafety s1 (EXPLORATION_ZERO_SAFETY\<lparr>sv_actionCausedUnknown := 1\<rparr>) else s1);
          s3 = (if no_hostClass q = ''PRODUCTION''
                then addSafety s2 (EXPLORATION_ZERO_SAFETY\<lparr>sv_productionAttempts := 1\<rparr>) else s2)
      in if no_hostClass q = ''UNKNOWN''
         then addSafety s3 (EXPLORATION_ZERO_SAFETY\<lparr>sv_unknownDestinations := 1\<rparr>) else s3)"

definition safetyFromResult :: "action_result \<Rightarrow> safety_vector" where
  "safetyFromResult r = foldl add_request_safety (ar_safety r) (ar_semanticRequestDelta r)"

definition terminationForSafety :: "safety_vector \<Rightarrow> bool \<Rightarrow> bool \<Rightarrow> termination_reason option" where
  "terminationForSafety s semanticUnknown routeEscape =
     (if 0 < sv_productionAttempts s \<or> 0 < sv_proxyViolations s \<or> 0 < sv_unknownApprovals s \<or> 0 < sv_dbQueries s
        then Some Term_SAFETY_BLOCK
      else if 0 < sv_knownMutations s then Some Term_KNOWN_MUTATION_DETECTED
      else if 0 < sv_unknownDestinations s then Some Term_NEW_HOST_BLOCKED
      else if semanticUnknown \<or> 0 < sv_actionCausedUnknown s then Some Term_ACTION_CAUSED_UNKNOWN
      else if routeEscape then Some Term_UNEXPECTED_ROUTE_ESCAPE
      else None)"

section \<open>Observing\<close>

record platform =
  pf_sha :: "string \<Rightarrow> string"
  pf_num :: "rat \<Rightarrow> string"
  pf_locale_le :: "string \<Rightarrow> string \<Rightarrow> bool"

record 'w runtime =
  rt_now :: "'w \<Rightarrow> int \<times> 'w"
  rt_currentState :: "'w \<Rightarrow> (state_input \<times> 'w) checked"
  rt_actionAvailable :: "explore_action \<Rightarrow> 'w \<Rightarrow> (bool \<times> 'w) checked"
  rt_execute :: "explore_action \<Rightarrow> 'w \<Rightarrow> (action_result \<times> 'w) checked"

definition combineInputWithAvailability :: "state_input \<Rightarrow> string list \<Rightarrow> state_input" where
  "combineInputWithAvailability i available = i\<lparr>si_availableActionIds := sort_by str_le (dedupe available)\<rparr>"

definition create_state :: "platform \<Rightarrow> state_input \<Rightarrow> exploration_state checked" where
  "create_state pf i = createExplorationState (pf_sha pf) (pf_num pf) i"

definition collect_available ::
  "'w runtime \<Rightarrow> string list \<times> 'w \<Rightarrow> explore_action \<Rightarrow> (string list \<times> 'w) checked" where
  "collect_available rt acc a = (case acc of (available, w) \<Rightarrow>
     bind_res (rt_actionAvailable rt a w) (\<lambda>(ok, w').
       Inr (if ok then available @ [sfa_actionId a] else available, w')))"

definition observeState ::
  "platform \<Rightarrow> 'w runtime \<Rightarrow> explore_action list \<Rightarrow> envelope \<Rightarrow> 'w \<Rightarrow> (exploration_state \<times> 'w) checked" where
  "observeState pf rt actions e w =
     bind_res (rt_currentState rt w) (\<lambda>(input, w1).
     bind_res (foldM_res (collect_available rt) ([], w1)
         (filter (\<lambda>a. sfa_actionId a \<in> set (en_allowedActionIds e) \<and> sfa_status a = ''APPROVED'') actions)) (\<lambda>(available, w2).
     bind_res (create_state pf (combineInputWithAvailability input available)) (\<lambda>s. Inr (s, w2))))"

definition routeAllowed :: "exploration_state \<Rightarrow> envelope \<Rightarrow> bool" where
  "routeAllowed s e = (si_routeClass s \<in> set (en_allowedRoutes e))"

definition hasTerminalState :: "exploration_state \<Rightarrow> bool" where
  "hasTerminalState s = list_ex snd (si_terminalFlags s)"

definition entries_hold :: "('v \<Rightarrow> 'v option \<Rightarrow> bool) \<Rightarrow> (string \<times> 'v) list \<Rightarrow> (string \<times> 'v) list option \<Rightarrow> bool" where
  "entries_hold test actual m = (case m of None \<Rightarrow> True | Some es \<Rightarrow> list_all (\<lambda>(k, v). test v (map_of actual k)) es)"

definition replayPreconditionHolds :: "exploration_state \<Rightarrow> explore_action \<Rightarrow> bool" where
  "replayPreconditionHolds s a =
     (entries_hold (\<lambda>v x. x = Some v) (si_structuralFlags s) (xa_requiredStructuralFlags a)
      \<and> entries_hold (\<lambda>v x. x = Some v) (si_safeViewState s) (xa_requiredSafeViewState a)
      \<and> entries_hold (\<lambda>v x. x \<noteq> Some v) (si_safeViewState s) (xa_forbiddenSafeViewState a))"

definition isFatalOracle :: "string list \<Rightarrow> bool" where
  "isFatalOracle oracles = list_ex (starts_with ''FATAL:'') oracles"

definition actionOutcomeMismatch :: "explore_action \<Rightarrow> action_result \<Rightarrow> string option" where
  "actionOutcomeMismatch a r =
     (if ar_status r \<noteq> ''COMPLETED'' then None
      else case find (\<lambda>(k, v). map_of (ar_structuralDelta r) k \<noteq> Some v) (xa_expectedStructuralDelta a) of
        Some (k, _) \<Rightarrow> Some (''expected structural delta missing: '' @ k)
      | None \<Rightarrow>
          let known = map no_family (filter (\<lambda>q. no_classification q = ''KNOWN_READ'') (ar_semanticRequestDelta r))
          in case find (\<lambda>f. f \<notin> set known) (xa_expectedReadFamilies a) of
               Some f \<Rightarrow> Some (''expected read family missing: '' @ f)
             | None \<Rightarrow> None)"

section \<open>The state of a run\<close>

record novelty =
  nv_states :: nat
  nv_transitions :: nat
  nv_routes :: nat
  nv_semanticFamilies :: nat
  nv_structuralCombinations :: nat

record explore_run =
  rn_planner :: planner
  rn_state :: exploration_state
  rn_states :: "(string \<times> exploration_state) list"
  rn_stateVisits :: "(string \<times> nat) list"
  rn_transitions :: "exploration_transition list"
  rn_transitionIds :: "string list"
  rn_decisions :: "planner_decision list"
  rn_plannedActions :: "string list"
  rn_observedActions :: "string list"
  rn_encountered :: "string list"
  rn_executed :: "string list"
  rn_routes :: "string list"
  rn_families :: "string list"
  rn_oracles :: "string list"
  rn_anomalyFingerprints :: "string list"
  rn_novelty :: novelty
  rn_safety :: safety_vector
  rn_unavailable :: nat
  rn_transitionsAttempted :: nat
  rn_transitionsCompleted :: nat
  rn_newStates :: nat
  rn_newTransitions :: nat
  rn_terminationReason :: termination_reason
  rn_going :: bool

record explore_options =
  xo_runId :: string
  xo_seed :: string
  xo_derivedSeed :: "string option"
  xo_catalog :: "explore_action list"
  xo_envelope :: envelope
  xo_budget :: exploration_budget

text \<open>\<open>Set.prototype.add\<close> on an insertion-ordered set, and a loop of it.\<close>

definition set_add :: "'a \<Rightarrow> 'a list \<Rightarrow> 'a list" where
  "set_add x xs = (if x \<in> set xs then xs else xs @ [x])"

definition set_add_all :: "'a list \<Rightarrow> 'a list \<Rightarrow> 'a list" where
  "set_add_all ys xs = foldl (\<lambda>acc y. set_add y acc) xs ys"

definition stop :: "termination_reason \<Rightarrow> explore_run \<Rightarrow> explore_run" where
  "stop reason r = r\<lparr>rn_terminationReason := reason, rn_going := False\<rparr>"

definition recordTransition :: "platform \<Rightarrow> transition_input \<Rightarrow> explore_run \<Rightarrow> explore_run" where
  "recordTransition pf t r =
     (let transition = createTransition (pf_sha pf) (pf_num pf) t;
          r1 = r\<lparr>rn_transitions := rn_transitions r @ [transition]\<rparr>
      in if tr_transitionId transition \<in> set (rn_transitionIds r) then r1
         else r1\<lparr>rn_transitionIds := rn_transitionIds r @ [tr_transitionId transition],
                 rn_newTransitions := rn_newTransitions r + 1,
                 rn_novelty := (rn_novelty r)\<lparr>nv_transitions := nv_transitions (rn_novelty r) + 1\<rparr>\<rparr>)"

definition transition_of ::
  "string \<Rightarrow> explore_action \<Rightarrow> nat \<Rightarrow> string \<Rightarrow> string \<Rightarrow> action_result \<Rightarrow> string list \<Rightarrow> safety_vector \<Rightarrow> verification
     \<Rightarrow> transition_input" where
  "transition_of fromId a index toId outcome r oracles safety v = \<lparr>tr_fromStateId = fromId, tr_actionId = sfa_actionId a,
     tr_seedDecisionIndex = index, tr_toStateId = toId, tr_actionOutcome = outcome, tr_routeDelta = ar_routeDelta r,
     tr_structuralDelta = ar_structuralDelta r, tr_semanticRequestDelta = ar_semanticRequestDelta r, tr_oracleResults = oracles,
     tr_safetyResult = safety, tr_durationClass = ar_durationClass r, tr_verification = v\<rparr>"

section \<open>One iteration\<close>

text \<open>A branch that ends the run: the reached state is stored, the transition recorded, the reason set.\<close>

definition end_with ::
  "platform \<Rightarrow> explore_run \<Rightarrow> explore_action \<Rightarrow> nat \<Rightarrow> action_result \<Rightarrow> string \<Rightarrow> string list \<Rightarrow> verification \<Rightarrow> termination_reason
     \<Rightarrow> explore_run checked" where
  "end_with pf run a index r outcome oracles v reason =
     bind_res (create_state pf (ar_nextState r)) (\<lambda>reached.
       let run1 = run\<lparr>rn_states := map_set (rn_states run) (xs_stateId reached) reached\<rparr>
       in Inr (stop reason (recordTransition pf
            (transition_of (xs_stateId (rn_state run)) a index (xs_stateId reached) outcome r oracles (safetyFromResult r) v) run1)))"

definition failure_oracles :: "explore_action \<Rightarrow> action_result \<Rightarrow> string list" where
  "failure_oracles a r =
     (if ar_status r = ''FAILED'' \<or> actionOutcomeMismatch a r \<noteq> None
      then ar_oracleResults r
        @ (case ar_failureCode r of None \<Rightarrow> [] | Some c \<Rightarrow> [''ACTION_FAILURE:'' @ c])
        @ (if ''ACTION_TRANSITION_FAILED'' \<in> set (ar_oracleResults r) then [] else [''ACTION_TRANSITION_FAILED''])
      else ar_oracleResults r)"

definition note_oracles :: "string list \<Rightarrow> explore_run \<Rightarrow> explore_run" where
  "note_oracles os run = run\<lparr>rn_oracles := set_add_all os (rn_oracles run),
     rn_anomalyFingerprints := set_add_all (map (drop (length ''FINGERPRINT:'')) (filter (starts_with ''FINGERPRINT:'') os))
       (rn_anomalyFingerprints run)\<rparr>"

definition count_families :: "explore_run \<Rightarrow> string \<Rightarrow> explore_run" where
  "count_families run f = run\<lparr>
     rn_novelty := (if f \<in> set (rn_families run) then rn_novelty run
                    else (rn_novelty run)\<lparr>nv_semanticFamilies := nv_semanticFamilies (rn_novelty run) + 1\<rparr>),
     rn_families := set_add f (rn_families run)\<rparr>"

text \<open>The branch of a completed action: the next state becomes the current one, then the transition
  is recorded and the novelty counters are brought up to date.\<close>

definition enter_state :: "explore_action \<Rightarrow> exploration_state \<Rightarrow> explore_run \<Rightarrow> explore_run" where
  "enter_state a s run = run\<lparr>rn_states := map_set (rn_states run) (xs_stateId s) s, rn_state := s,
     rn_stateVisits := map_set (rn_stateVisits run) (xs_stateId s) (visit_count (rn_stateVisits run) (xs_stateId s) + 1),
     rn_executed := set_add (sfa_actionId a) (rn_executed run), rn_transitionsCompleted := rn_transitionsCompleted run + 1,
     rn_routes := set_add (si_routeClass s) (rn_routes run),
     rn_families := set_add_all (si_semanticReadFamilies s) (rn_families run)\<rparr>"

definition note_new_state :: "bool \<Rightarrow> explore_run \<Rightarrow> explore_run" where
  "note_new_state known run = (if known then run else run\<lparr>rn_newStates := rn_newStates run + 1,
     rn_novelty := (rn_novelty run)\<lparr>nv_states := nv_states (rn_novelty run) + 1\<rparr>\<rparr>)"

definition note_new_route :: "bool \<Rightarrow> explore_run \<Rightarrow> explore_run" where
  "note_new_route known run = (if known then run
     else run\<lparr>rn_novelty := (rn_novelty run)\<lparr>nv_routes := nv_routes (rn_novelty run) + 1\<rparr>\<rparr>)"

definition advance ::
  "platform \<Rightarrow> explore_run \<Rightarrow> explore_action \<Rightarrow> nat \<Rightarrow> action_result \<Rightarrow> explore_run checked" where
  "advance pf run a index r =
     bind_res (create_state pf (ar_nextState r)) (\<lambda>nextState.
       let wasKnownState = map_has (rn_states run) (xs_stateId nextState);
           wasKnownRoute = si_routeClass nextState \<in> set (rn_routes run);
           recorded = recordTransition pf (transition_of (xs_stateId (rn_state run)) a index (xs_stateId nextState) (ar_status r) r
                        (ar_oracleResults r) (safetyFromResult r) Runtime_Observed) (enter_state a nextState run);
           counted = foldl count_families (note_new_route wasKnownRoute (note_new_state wasKnownState recorded))
                       (map no_family (filter (\<lambda>q. no_classification q = ''KNOWN_READ'') (ar_semanticRequestDelta r)))
       in Inr (if hasTerminalState nextState then stop Term_MODEL_TERMINAL_STATE counted else counted))"

text \<open>What follows the runtime's answer.\<close>

definition settle_action ::
  "platform \<Rightarrow> explore_options \<Rightarrow> explore_run \<Rightarrow> explore_action \<Rightarrow> nat \<Rightarrow> action_result \<Rightarrow> explore_run checked" where
  "settle_action pf opts run a index r =
     (let safety = safetyFromResult r in
      if ar_status r = ''ACTION_NOT_AVAILABLE_AT_RUNTIME''
        then end_with pf (run\<lparr>rn_unavailable := rn_unavailable run + 1\<rparr>) a index r (ar_status r)
               [''ACTION_NOT_AVAILABLE_AT_RUNTIME''] Blocked Term_RUNTIME_FAILURE
      else
        let actionFailure = (ar_status r = ''FAILED'' \<or> actionOutcomeMismatch a r \<noteq> None);
            outcome = (if actionFailure then ''FAILED'' else ar_status r);
            oracles = failure_oracles a r;
            run1 = note_oracles oracles (run\<lparr>rn_safety := addSafety (rn_safety run) safety\<rparr>);
            semanticUnknown = list_ex (\<lambda>q. no_disposition q = ''ACTION_CAUSED_UNKNOWN'') (ar_semanticRequestDelta r);
            routeEscape = (si_routeClass (ar_nextState r) \<notin> set (en_allowedRoutes (xo_envelope opts))
              \<or> si_routeClass (ar_nextState r) \<noteq> sfa_expectedRouteClass a)
        in case terminationForSafety safety semanticUnknown routeEscape of
             Some reason \<Rightarrow> end_with pf run1 a index r outcome oracles Invalidated reason
           | None \<Rightarrow>
               if actionFailure \<or> isFatalOracle (ar_oracleResults r)
               then end_with pf run1 a index r outcome oracles Invalidated
                      (if isFatalOracle (ar_oracleResults r) then Term_FATAL_ORACLE else Term_RUNTIME_FAILURE)
               else advance pf run1 a index r)"

definition sequence_limit :: "explore_options \<Rightarrow> int" where
  "sequence_limit opts = min (xb_maxActionsPerSequence (xo_budget opts)) (en_maxActionsPerSequence (xo_envelope opts))"

definition limits_reached :: "explore_options \<Rightarrow> explore_run \<Rightarrow> bool" where
  "limits_reached opts run =
     (sequence_limit opts \<le> int (length (rn_plannedActions run))
      \<or> min (xb_maxDepth (xo_budget opts)) (en_maxDepth (xo_envelope opts)) \<le> int (length (rn_plannedActions run))
      \<or> xb_maxStates (xo_budget opts) \<le> int (length (rn_states run))
      \<or> min (xb_maxTransitions (xo_budget opts)) (en_maxTransitions (xo_envelope opts)) \<le> int (rn_transitionsAttempted run))"

definition begin_iteration :: "explore_run \<Rightarrow> explore_run" where
  "begin_iteration run = run\<lparr>rn_planner := noteState (xs_stateId (rn_state run)) (rn_planner run),
     rn_stateVisits := (if map_has (rn_stateVisits run) (xs_stateId (rn_state run)) then rn_stateVisits run
                        else map_set (rn_stateVisits run) (xs_stateId (rn_state run)) 1)\<rparr>"

definition note_decision :: "planner_decision \<Rightarrow> planner \<Rightarrow> explore_run \<Rightarrow> explore_run" where
  "note_decision d p run = run\<lparr>rn_planner := p, rn_decisions := rn_decisions run @ [d],
     rn_encountered := set_add_all (pd_eligibleActions d) (rn_encountered run)\<rparr>"

definition plan_action :: "explore_action \<Rightarrow> explore_run \<Rightarrow> explore_run" where
  "plan_action a run = run\<lparr>rn_plannedActions := rn_plannedActions run @ [sfa_actionId a],
     rn_planner := noteAttempt (xs_stateId (rn_state run)) (sfa_actionId a) (rn_planner run),
     rn_transitionsAttempted := rn_transitionsAttempted run + 1\<rparr>"

definition observe_action :: "explore_action \<Rightarrow> explore_run \<Rightarrow> explore_run" where
  "observe_action a run = run\<lparr>rn_observedActions := rn_observedActions run @ [sfa_actionId a]\<rparr>"

definition explore_step ::
  "platform \<Rightarrow> 'w runtime \<Rightarrow> explore_options \<Rightarrow> int \<Rightarrow> explore_run \<times> 'w \<Rightarrow> (explore_run \<times> 'w) checked" where
  "explore_step pf rt opts started acc = (case acc of (run, w) \<Rightarrow>
     case rt_now rt w of (time, w1) \<Rightarrow>
     if min (xb_maxRuntimeMs (xo_budget opts)) 120000 \<le> time - started then Inr (stop Term_BUDGET_EXHAUSTED run, w1)
     else if limits_reached opts run then Inr (stop Term_BUDGET_EXHAUSTED run, w1)
     else bind_res (select (pf_locale_le pf) (rn_planner (begin_iteration run)) (rn_state run) (xo_catalog opts) (xo_envelope opts)
                      (xo_budget opts) (length (rn_plannedActions run))) (\<lambda>((decision, chosen), p).
          let decided = note_decision decision p (begin_iteration run)
          in case chosen of
               None \<Rightarrow> Inr (stop Term_SAFE_FRONTIER_EXHAUSTED decided, w1)
             | Some a \<Rightarrow>
                 bind_res (rt_execute rt a w1) (\<lambda>(r, w2).
                 bind_res (settle_action pf opts (observe_action a (plan_action a decided)) a (pd_index decision) r) (\<lambda>run'.
                 Inr (run', w2)))))"

section \<open>The loop ends\<close>

lemma recordTransition_fields [simp]:
  "rn_going (recordTransition pf t r) = rn_going r" "rn_plannedActions (recordTransition pf t r) = rn_plannedActions r"
  "rn_states (recordTransition pf t r) = rn_states r" "rn_safety (recordTransition pf t r) = rn_safety r"
  "rn_state (recordTransition pf t r) = rn_state r" "rn_observedActions (recordTransition pf t r) = rn_observedActions r"
  "rn_transitionsAttempted (recordTransition pf t r) = rn_transitionsAttempted r"
  "rn_terminationReason (recordTransition pf t r) = rn_terminationReason r"
  by (simp_all add: recordTransition_def Let_def)

lemma count_families_fields [simp]:
  "rn_going (foldl count_families r fs) = rn_going r" "rn_plannedActions (foldl count_families r fs) = rn_plannedActions r"
  "rn_states (foldl count_families r fs) = rn_states r" "rn_safety (foldl count_families r fs) = rn_safety r"
  "rn_state (foldl count_families r fs) = rn_state r" "rn_observedActions (foldl count_families r fs) = rn_observedActions r"
  "rn_transitionsAttempted (foldl count_families r fs) = rn_transitionsAttempted r"
  "rn_terminationReason (foldl count_families r fs) = rn_terminationReason r"
  by (induction fs arbitrary: r) (simp_all add: count_families_def)

lemma note_oracles_fields [simp]:
  "rn_going (note_oracles os r) = rn_going r" "rn_plannedActions (note_oracles os r) = rn_plannedActions r"
  "rn_states (note_oracles os r) = rn_states r" "rn_safety (note_oracles os r) = rn_safety r"
  "rn_state (note_oracles os r) = rn_state r" "rn_observedActions (note_oracles os r) = rn_observedActions r"
  "rn_transitionsAttempted (note_oracles os r) = rn_transitionsAttempted r"
  "rn_terminationReason (note_oracles os r) = rn_terminationReason r"
  by (simp_all add: note_oracles_def)

lemma stop_fields [simp]:
  "rn_going (stop x r) = False" "rn_plannedActions (stop x r) = rn_plannedActions r" "rn_states (stop x r) = rn_states r"
  "rn_safety (stop x r) = rn_safety r" "rn_state (stop x r) = rn_state r" "rn_observedActions (stop x r) = rn_observedActions r"
  "rn_transitionsAttempted (stop x r) = rn_transitionsAttempted r" "rn_terminationReason (stop x r) = x"
  by (simp_all add: stop_def)

text \<open>What a branch that ends the run, and one that advances it, do to the fields the loop depends on.\<close>

lemma end_with_Inr:
  assumes "end_with pf run a i r outcome os v reason = Inr run'"
  shows "\<not> rn_going run' \<and> rn_terminationReason run' = reason \<and> rn_plannedActions run' = rn_plannedActions run
    \<and> rn_observedActions run' = rn_observedActions run \<and> rn_safety run' = rn_safety run
    \<and> rn_transitionsAttempted run' = rn_transitionsAttempted run
    \<and> (\<exists>s. create_state pf (ar_nextState r) = Inr s \<and> rn_states run' = map_set (rn_states run) (xs_stateId s) s)"
  using assms by (auto simp: end_with_def Let_def)

lemma enter_state_fields [simp]:
  "rn_going (enter_state a s r) = rn_going r" "rn_plannedActions (enter_state a s r) = rn_plannedActions r"
  "rn_states (enter_state a s r) = map_set (rn_states r) (xs_stateId s) s" "rn_safety (enter_state a s r) = rn_safety r"
  "rn_state (enter_state a s r) = s" "rn_observedActions (enter_state a s r) = rn_observedActions r"
  "rn_transitionsAttempted (enter_state a s r) = rn_transitionsAttempted r"
  "rn_terminationReason (enter_state a s r) = rn_terminationReason r"
  by (simp_all add: enter_state_def)

lemma note_new_fields [simp]:
  "rn_going (note_new_state b r) = rn_going r" "rn_plannedActions (note_new_state b r) = rn_plannedActions r"
  "rn_states (note_new_state b r) = rn_states r" "rn_safety (note_new_state b r) = rn_safety r"
  "rn_state (note_new_state b r) = rn_state r" "rn_observedActions (note_new_state b r) = rn_observedActions r"
  "rn_transitionsAttempted (note_new_state b r) = rn_transitionsAttempted r"
  "rn_terminationReason (note_new_state b r) = rn_terminationReason r"
  "rn_going (note_new_route b r) = rn_going r" "rn_plannedActions (note_new_route b r) = rn_plannedActions r"
  "rn_states (note_new_route b r) = rn_states r" "rn_safety (note_new_route b r) = rn_safety r"
  "rn_state (note_new_route b r) = rn_state r" "rn_observedActions (note_new_route b r) = rn_observedActions r"
  "rn_transitionsAttempted (note_new_route b r) = rn_transitionsAttempted r"
  "rn_terminationReason (note_new_route b r) = rn_terminationReason r"
  by (simp_all add: note_new_state_def note_new_route_def)

lemma advance_Inr:
  assumes "advance pf run a i r = Inr run'"
  shows "rn_plannedActions run' = rn_plannedActions run \<and> rn_observedActions run' = rn_observedActions run
    \<and> rn_safety run' = rn_safety run \<and> rn_transitionsAttempted run' = rn_transitionsAttempted run
    \<and> (\<exists>s. create_state pf (ar_nextState r) = Inr s \<and> rn_states run' = map_set (rn_states run) (xs_stateId s) s \<and> rn_state run' = s
         \<and> (if hasTerminalState s then \<not> rn_going run' \<and> rn_terminationReason run' = Term_MODEL_TERMINAL_STATE
            else rn_going run' = rn_going run \<and> rn_terminationReason run' = rn_terminationReason run))"
proof -
  from assms obtain s where "create_state pf (ar_nextState r) = Inr s" by (auto simp: advance_def)
  with assms show ?thesis by (simp add: advance_def Let_def if_distrib [of rn_plannedActions]) auto
qed

lemma settle_action_Inr:
  assumes "settle_action pf opts run a i r = Inr run'"
  shows "rn_plannedActions run' = rn_plannedActions run \<and> rn_observedActions run' = rn_observedActions run
    \<and> rn_transitionsAttempted run' = rn_transitionsAttempted run
    \<and> (\<exists>s. create_state pf (ar_nextState r) = Inr s \<and> rn_states run' = map_set (rn_states run) (xs_stateId s) s)"
  using assms by (auto simp: settle_action_def Let_def split: if_splits option.splits dest!: end_with_Inr advance_Inr)

text \<open>The cases of one iteration: the limits, an empty frontier, or an action that was executed.\<close>

abbreviation select_now :: "platform \<Rightarrow> explore_options \<Rightarrow> explore_run \<Rightarrow> ((planner_decision \<times> explore_action option) \<times> planner) checked" where
  "select_now pf opts run \<equiv> select (pf_locale_le pf) (rn_planner (begin_iteration run)) (rn_state run) (xo_catalog opts)
     (xo_envelope opts) (xo_budget opts) (length (rn_plannedActions run))"

abbreviation acting :: "explore_action \<Rightarrow> planner_decision \<Rightarrow> planner \<Rightarrow> explore_run \<Rightarrow> explore_run" where
  "acting a d p run \<equiv> observe_action a (plan_action a (note_decision d p (begin_iteration run)))"

lemma decided_fields [simp]:
  "rn_going (note_decision d p (begin_iteration r)) = rn_going r" "rn_plannedActions (note_decision d p (begin_iteration r)) = rn_plannedActions r"
  "rn_states (note_decision d p (begin_iteration r)) = rn_states r" "rn_safety (note_decision d p (begin_iteration r)) = rn_safety r"
  "rn_state (note_decision d p (begin_iteration r)) = rn_state r"
  "rn_observedActions (note_decision d p (begin_iteration r)) = rn_observedActions r"
  "rn_transitionsAttempted (note_decision d p (begin_iteration r)) = rn_transitionsAttempted r"
  "rn_terminationReason (note_decision d p (begin_iteration r)) = rn_terminationReason r"
  by (simp_all add: note_decision_def begin_iteration_def)

lemma acting_fields [simp]:
  "rn_going (acting a d p r) = rn_going r" "rn_plannedActions (acting a d p r) = rn_plannedActions r @ [sfa_actionId a]"
  "rn_states (acting a d p r) = rn_states r" "rn_safety (acting a d p r) = rn_safety r" "rn_state (acting a d p r) = rn_state r"
  "rn_observedActions (acting a d p r) = rn_observedActions r @ [sfa_actionId a]"
  "rn_transitionsAttempted (acting a d p r) = rn_transitionsAttempted r + 1"
  "rn_terminationReason (acting a d p r) = rn_terminationReason r"
  by (simp_all add: observe_action_def plan_action_def)

lemma explore_step_cases:
  assumes "explore_step pf rt opts started (run, w) = Inr (run', w')"
  obtains (ended) "\<not> rn_going run'" "rn_terminationReason run' \<in> {Term_BUDGET_EXHAUSTED, Term_SAFE_FRONTIER_EXHAUSTED}"
      "rn_plannedActions run' = rn_plannedActions run" "rn_observedActions run' = rn_observedActions run" "rn_states run' = rn_states run"
      "rn_safety run' = rn_safety run" "rn_transitionsAttempted run' = rn_transitionsAttempted run" "w' = snd (rt_now rt w)"
  | (acted) a time w1 d p r where "\<not> limits_reached opts run" "rt_now rt w = (time, w1)"
      "select_now pf opts run = Inr ((d, Some a), p)" "rt_execute rt a w1 = Inr (r, w')"
      "settle_action pf opts (acting a d p run) a (pd_index d) r = Inr run'"
proof -
  obtain time w1 where now: "rt_now rt w = (time, w1)" by force
  show thesis
  proof (cases "min (xb_maxRuntimeMs (xo_budget opts)) 120000 \<le> time - started \<or> limits_reached opts run")
    case True
    then have "run' = stop Term_BUDGET_EXHAUSTED run \<and> w' = w1" using assms now by (auto simp: explore_step_def split: if_splits)
    then show thesis using ended now by simp
  next
    case False
    then obtain d chosen p where sel: "select_now pf opts run = Inr ((d, chosen), p)"
      using assms now by (auto simp: explore_step_def)
    show thesis
    proof (cases chosen)
      case None
      then have "run' = stop Term_SAFE_FRONTIER_EXHAUSTED (note_decision d p (begin_iteration run)) \<and> w' = w1"
        using assms now False sel by (simp add: explore_step_def Let_def)
      then show thesis using ended now by simp
    next
      case (Some a)
      then obtain r where "rt_execute rt a w1 = Inr (r, w')" "settle_action pf opts (acting a d p run) a (pd_index d) r = Inr run'"
        using assms now False sel by (auto simp: explore_step_def Let_def)
      then show thesis using acted False now sel Some by blast
    qed
  qed
qed

lemma step_progress:
  assumes "explore_step pf rt opts started (run, w) = Inr (run', w')" and "rn_going run'"
  shows "length (rn_plannedActions run') = Suc (length (rn_plannedActions run)) \<and> int (length (rn_plannedActions run)) < sequence_limit opts"
  using assms by (cases rule: explore_step_cases) (auto simp: limits_reached_def dest!: settle_action_Inr)

function explore_loop ::
  "platform \<Rightarrow> 'w runtime \<Rightarrow> explore_options \<Rightarrow> int \<Rightarrow> explore_run \<times> 'w \<Rightarrow> (explore_run \<times> 'w) checked" where
  "explore_loop pf rt opts started acc =
     (if \<not> rn_going (fst acc) then Inr acc
      else bind_res (explore_step pf rt opts started acc) (explore_loop pf rt opts started))"
  by pat_completeness auto

termination
proof (relation "measure (\<lambda>(pf, rt, opts, started, acc).
    if rn_going (fst acc) then Suc (nat (sequence_limit opts - int (length (rn_plannedActions (fst acc))))) else 0)", goal_cases)
  case (2 pf rt opts started acc acc')
  obtain run w run' w' where "acc = (run, w)" "acc' = (run', w')" by (metis surj_pair)
  then show ?case using 2 step_progress [of pf rt opts started run w run' w'] by auto
qed simp

declare explore_loop.simps [simp del]

section \<open>A whole run\<close>

record coverage =
  cv_approvedActions :: nat
  cv_actionsEncountered :: nat
  cv_actionsExecuted :: nat
  cv_actionsUnavailable :: nat
  cv_statesDiscovered :: nat
  cv_statesRevisited :: nat
  cv_transitionsAttempted :: nat
  cv_transitionsCompleted :: nat
  cv_transitionsReproduced :: nat
  cv_routeClassesVisited :: nat
  cv_semanticReadFamiliesExercised :: nat
  cv_oracleCategoriesObserved :: nat
  cv_newStates :: nat
  cv_newTransitions :: nat

record explore_evidence =
  xe_runId :: string
  xe_seed :: string
  xe_derivedSeed :: string
  xe_envelopeId :: string
  xe_catalogFingerprint :: string
  xe_modelFingerprint :: string
  xe_initialStateId :: string
  xe_plannedActions :: "string list"
  xe_observedActions :: "string list"
  xe_decisions :: "planner_decision list"
  xe_states :: "exploration_state list"
  xe_transitions :: "exploration_transition list"
  xe_coverage :: coverage
  xe_novelty :: novelty
  xe_oracleResults :: "string list"
  xe_anomalyFingerprints :: "string list"
  xe_safety :: safety_vector
  xe_terminationReason :: termination_reason

definition NO_NOVELTY :: novelty where
  "NO_NOVELTY = \<lparr>nv_states = 0, nv_transitions = 0, nv_routes = 0, nv_semanticFamilies = 0, nv_structuralCombinations = 0\<rparr>"

definition initial_reason :: "envelope \<Rightarrow> exploration_state \<Rightarrow> termination_reason" where
  "initial_reason e s =
     (if si_authStateClass s \<noteq> ''AUTHENTICATED_DEV'' then Term_AUTH_INVALID
      else if \<not> routeAllowed s e then Term_UNEXPECTED_ROUTE_ESCAPE
      else if hasTerminalState s then Term_MODEL_TERMINAL_STATE
      else Term_SAFE_FRONTIER_EXHAUSTED)"

definition initial_run :: "planner \<Rightarrow> envelope \<Rightarrow> exploration_state \<Rightarrow> explore_run" where
  "initial_run p e s = \<lparr>rn_planner = p, rn_state = s, rn_states = [(xs_stateId s, s)], rn_stateVisits = [(xs_stateId s, 1)],
     rn_transitions = [], rn_transitionIds = [], rn_decisions = [], rn_plannedActions = [], rn_observedActions = [],
     rn_encountered = [], rn_executed = [], rn_routes = [si_routeClass s], rn_families = dedupe (si_semanticReadFamilies s),
     rn_oracles = [], rn_anomalyFingerprints = [], rn_novelty = NO_NOVELTY, rn_safety = EXPLORATION_ZERO_SAFETY,
     rn_unavailable = 0, rn_transitionsAttempted = 0, rn_transitionsCompleted = 0, rn_newStates = 0, rn_newTransitions = 0,
     rn_terminationReason = initial_reason e s, rn_going = (initial_reason e s = Term_SAFE_FRONTIER_EXHAUSTED)\<rparr>"

definition state_visits_of :: "explore_run \<Rightarrow> string \<Rightarrow> nat" where
  "state_visits_of run i = (case map_get (rn_stateVisits run) i of None \<Rightarrow> 1 | Some n \<Rightarrow> n)"

definition createCoverage :: "nat \<Rightarrow> explore_run \<Rightarrow> coverage" where
  "createCoverage approved run = \<lparr>cv_approvedActions = approved, cv_actionsEncountered = length (rn_encountered run),
     cv_actionsExecuted = length (rn_executed run),
     cv_actionsUnavailable = rn_unavailable run
       + sum_list (map (\<lambda>d. length (filter (\<lambda>x. snd x = RUNTIME_CONTROL_ABSENT) (pd_excludedActions d))) (rn_decisions run)),
     cv_statesDiscovered = length (rn_states run),
     cv_statesRevisited = length (filter (\<lambda>i. 1 < state_visits_of run i) (map fst (rn_states run))),
     cv_transitionsAttempted = rn_transitionsAttempted run, cv_transitionsCompleted = rn_transitionsCompleted run,
     cv_transitionsReproduced = 0, cv_routeClassesVisited = length (rn_routes run),
     cv_semanticReadFamiliesExercised = length (rn_families run), cv_oracleCategoriesObserved = length (rn_oracles run),
     cv_newStates = rn_newStates run, cv_newTransitions = rn_newTransitions run\<rparr>"

definition evidence_of :: "platform \<Rightarrow> explore_options \<Rightarrow> string \<Rightarrow> explore_run \<Rightarrow> explore_evidence" where
  "evidence_of pf opts initialId run = \<lparr>xe_runId = xo_runId opts, xe_seed = xo_seed opts,
     xe_derivedSeed = (case xo_derivedSeed opts of None \<Rightarrow> xo_seed opts | Some s \<Rightarrow> s),
     xe_envelopeId = en_envelopeId (xo_envelope opts),
     xe_catalogFingerprint = catalogFingerprint (pf_sha pf) (pf_num pf) (pf_locale_le pf) (xo_catalog opts),
     xe_modelFingerprint = modelFingerprint (pf_sha pf) (pf_num pf) (xo_envelope opts) (xo_budget opts),
     xe_initialStateId = initialId, xe_plannedActions = rn_plannedActions run, xe_observedActions = rn_observedActions run,
     xe_decisions = rn_decisions run, xe_states = map snd (rn_states run), xe_transitions = rn_transitions run,
     xe_coverage = createCoverage (length (filter (\<lambda>a. sfa_actionId a \<in> set (en_allowedActionIds (xo_envelope opts))
         \<and> sfa_status a = ''APPROVED'') (xo_catalog opts))) run,
     xe_novelty = rn_novelty run, xe_oracleResults = sort_by str_le (rn_oracles run),
     xe_anomalyFingerprints = sort_by str_le (rn_anomalyFingerprints run), xe_safety = rn_safety run,
     xe_terminationReason = rn_terminationReason run\<rparr>"

definition runExploration :: "platform \<Rightarrow> 'w runtime \<Rightarrow> explore_options \<Rightarrow> 'w \<Rightarrow> (explore_evidence \<times> 'w) checked" where
  "runExploration pf rt opts w =
     (case rt_now rt w of (started, w1) \<Rightarrow>
      bind_res (new_planner (xo_seed opts)) (\<lambda>p.
      bind_res (observeState pf rt (xo_catalog opts) (xo_envelope opts) w1) (\<lambda>(s, w2).
      bind_res (explore_loop pf rt opts started (initial_run p (xo_envelope opts) s, w2)) (\<lambda>(run, w3).
      Inr (evidence_of pf opts (xs_stateId s) run, w3)))))"

section \<open>Exact replay\<close>

record replay_args =
  ra_initialStateId :: string
  ra_actionIds :: "string list"
  ra_expectedStateIds :: "string list"
  ra_expectedTransitionIds :: "string list"
  ra_catalog :: "explore_action list"
  ra_envelope :: envelope

definition replay_ended ::
  "replay_match \<Rightarrow> string list \<Rightarrow> string list \<Rightarrow> string list \<Rightarrow> nat \<Rightarrow> termination_reason \<Rightarrow> exact_replay" where
  "replay_ended status obs sids tids index reason = \<lparr>xr_status = status, xr_observedActions = obs, xr_stateIds = sids,
     xr_transitionIds = tids, xr_firstDivergentIndex = Some index, xr_terminationReason = Some reason\<rparr>"

definition list_at :: "'a list \<Rightarrow> nat \<Rightarrow> 'a option" where
  "list_at xs i = (if i < length xs then Some (xs ! i) else None)"

definition replay_admits :: "replay_args \<Rightarrow> exploration_state \<Rightarrow> string \<Rightarrow> explore_action option" where
  "replay_admits args s actionId = (case map_get (catalog_by_id (ra_catalog args)) actionId of
     None \<Rightarrow> None
   | Some a \<Rightarrow>
       if sfa_status a \<noteq> ''APPROVED'' \<or> actionId \<notin> set (en_allowedActionIds (ra_envelope args))
         \<or> actionId \<notin> set (si_availableActionIds s) \<or> si_routeClass s \<notin> set (sfa_routeClasses a) \<or> \<not> replayPreconditionHolds s a
       then None else Some a)"

definition replay_safety_reason :: "safety_vector \<Rightarrow> termination_reason option" where
  "replay_safety_reason s =
     (if 0 < sv_knownMutations s \<or> 0 < sv_actionCausedUnknown s \<or> 0 < sv_productionAttempts s \<or> 0 < sv_unknownDestinations s
      then Some (if 0 < sv_knownMutations s then Term_KNOWN_MUTATION_DETECTED
                 else if 0 < sv_actionCausedUnknown s then Term_ACTION_CAUSED_UNKNOWN else Term_SAFETY_BLOCK)
      else None)"

fun replay_from ::
  "platform \<Rightarrow> 'w runtime \<Rightarrow> replay_args \<Rightarrow> exploration_state \<Rightarrow> nat \<Rightarrow> string list \<Rightarrow> string list \<Rightarrow> string list \<Rightarrow> string list \<Rightarrow> 'w
     \<Rightarrow> (exact_replay \<times> 'w) checked" where
  "replay_from pf rt args s index obs sids tids [] w =
     Inr (\<lparr>xr_status = STRICT_MATCH, xr_observedActions = obs, xr_stateIds = sids, xr_transitionIds = tids,
           xr_firstDivergentIndex = None, xr_terminationReason = None\<rparr>, w)"
| "replay_from pf rt args s index obs sids tids (i # is) w =
     (case replay_admits args s i of
        None \<Rightarrow> Inr (replay_ended REPLAY_PRECONDITION_DIVERGENCE obs sids tids index Term_REPLAY_DIVERGENCE, w)
      | Some a \<Rightarrow>
          bind_res (rt_execute rt a w) (\<lambda>(r, w').
            let obs' = obs @ [i]; safety = safetyFromResult r
            in case replay_safety_reason safety of
                 Some reason \<Rightarrow> Inr (replay_ended REPLAY_SAFETY_BLOCK obs' sids tids index reason, w')
               | None \<Rightarrow>
                   if ar_status r \<noteq> ''COMPLETED'' \<or> actionOutcomeMismatch a r \<noteq> None
                   then Inr (replay_ended INVARIANT_DIVERGENCE obs' sids tids index Term_REPLAY_DIVERGENCE, w')
                   else bind_res (create_state pf (ar_nextState r)) (\<lambda>t.
                     if \<not> routeAllowed t (ra_envelope args) \<or> si_routeClass t \<noteq> sfa_expectedRouteClass a
                     then Inr (replay_ended INVARIANT_DIVERGENCE obs' sids tids index Term_UNEXPECTED_ROUTE_ESCAPE, w')
                     else
                       let tid = tr_transitionId (createTransition (pf_sha pf) (pf_num pf)
                             (transition_of (xs_stateId s) a index (xs_stateId t) (ar_status r) r (ar_oracleResults r) safety Runtime_Observed));
                           sids' = sids @ [xs_stateId t]; tids' = tids @ [tid]
                       in if list_at (ra_expectedStateIds args) (index + 1) \<noteq> Some (xs_stateId t)
                            \<or> list_at (ra_expectedTransitionIds args) index \<noteq> Some tid
                          then Inr (replay_ended INVARIANT_DIVERGENCE obs' sids' tids' index Term_REPLAY_DIVERGENCE, w')
                          else replay_from pf rt args t (index + 1) obs' sids' tids' is w')))"

definition replayExactSequence :: "platform \<Rightarrow> 'w runtime \<Rightarrow> replay_args \<Rightarrow> 'w \<Rightarrow> (exact_replay \<times> 'w) checked" where
  "replayExactSequence pf rt args w =
     bind_res (observeState pf rt (ra_catalog args) (ra_envelope args) w) (\<lambda>(s, w1).
       if xs_stateId s \<noteq> ra_initialStateId args
       then Inr (replay_ended INVARIANT_DIVERGENCE [] [xs_stateId s] [] 0 Term_REPLAY_DIVERGENCE, w1)
       else replay_from pf rt args s 0 [] [xs_stateId s] [] (ra_actionIds args) w1)"

end
