(* ===== verification/Exploration_State_Properties.thy ===== *)
theory Exploration_State_Properties imports Exploration_State begin

text \<open>
  What the identity of an explored state means: a created state holds no forbidden key or value
  and is a fixed point of its own construction; the order in which a runtime lists keys, actions
  and families never reaches the identity.
\<close>

section \<open>Created states are typed\<close>

definition safe_scalar :: "scalar \<Rightarrow> bool" where
  "safe_scalar v = (case v of S_Str s \<Rightarrow> s \<noteq> [] \<and> length s \<le> 80 \<and> list_all (\<lambda>c. is_alnum c \<or> c \<in> set ''_.:-'') s | _ \<Rightarrow> True)"

definition safe_key :: "string \<Rightarrow> bool" where
  "safe_key k = (key_canonical k \<and> \<not> key_forbidden k)"

definition safe_state :: "'a state_input_scheme \<Rightarrow> bool" where
  "safe_state i = (si_product i = ''ripple'' \<and> route_class_canonical (si_routeClass i)
     \<and> length (si_surface i) \<le> 80 \<and> surface_canonical (si_surface i)
     \<and> (\<forall>k\<in>fst ` set (si_structuralFlags i) \<union> fst ` set (si_terminalFlags i) \<union> fst ` set (si_safeViewState i). safe_key k)
     \<and> (\<forall>v\<in>snd ` set (si_safeViewState i). safe_scalar v)
     \<and> (\<forall>a\<in>set (si_availableActionIds i). action_id_canonical a)
     \<and> (\<forall>f\<in>set (si_semanticReadFamilies i). family_canonical f) \<and> si_authStateClass i \<in> set AUTH_STATE_CLASSES)"

lemma assertSafeKey_iff: "assertSafeKey k = Inr () \<longleftrightarrow> safe_key k"
  by (auto simp: assertSafeKey_def safe_key_def)

lemma no_line_breaks: "list_all (\<lambda>c. is_alnum c \<or> c \<in> set ''_.:-'') s \<Longrightarrow> CHR 0x0D \<notin> set s \<and> CHR 0x0A \<notin> set s"
  by (auto simp: list_all_iff is_alnum_def is_digit_def is_lower_letter_def is_upper_letter_def code_unit_def)

lemma assertSafeScalar_iff: "assertSafeScalar v path = Inr () \<longleftrightarrow> safe_scalar v"
proof (cases v)
  case (S_Str s)
  then show ?thesis using no_line_breaks [of s]
    by (auto simp: assertSafeScalar_def safe_scalar_def all_in_def Suc_le_eq)
qed (simp_all add: assertSafeScalar_def safe_scalar_def)

lemma assertSafeMap_iff:
  "assertSafeMap m path = Inr () \<longleftrightarrow> (\<forall>k\<in>fst ` set m. safe_key k) \<and> (\<forall>v\<in>snd ` set m. safe_scalar v)"
proof -
  have "assertSafeMap m path = Inr () \<longleftrightarrow> (\<forall>e\<in>set m. safe_key (fst e) \<and> safe_scalar (snd e))"
    by (simp add: assertSafeMap_def assertSafeKey_iff assertSafeScalar_iff case_prod_unfold)
  then show ?thesis by blast
qed

lemma assert_input_iff: "assertPrivacySafeStateInput i = Inr () \<longleftrightarrow> safe_state i"
  by (auto simp: assertPrivacySafeStateInput_def safe_state_def assertSafeKey_iff assertSafeMap_iff not_le)

lemma safe_sorted: "safe_state (sorted_identity i) \<longleftrightarrow> safe_state i"
  by (simp add: safe_state_def sorted_identity_def sortedMap_def)

lemma str_total: "str_le a b \<or> str_le b a"
  and str_trans: "str_le a b \<Longrightarrow> str_le b c \<Longrightarrow> str_le a c"
  and str_antisym: "str_le a b \<Longrightarrow> str_le b a \<Longrightarrow> a = b"
  using str_order_keys unfolding key_order_def by blast+

lemma sortedMap_idem: "sortedMap (sortedMap m) = sortedMap m"
  unfolding sortedMap_def
  by (rule sort_by_id, rule sort_by_sorted) (simp add: by_key_def str_total, auto simp: by_key_def intro: str_trans)

lemma sort_strings_idem: "sort_by str_le (dedupe (sort_by str_le (dedupe xs))) = sort_by str_le (dedupe xs)"
  by (simp add: dedupe_id sort_by_id sort_by_sorted [OF str_total str_trans])

lemma sorted_identity_idem: "sorted_identity (sorted_identity i) = sorted_identity i"
  by (simp add: sorted_identity_def sortedMap_idem sort_strings_idem)

lemma create_Inr_iff:
  "createExplorationState sha num i = Inr s \<longleftrightarrow> safe_state i \<and> s = state_input.extend (sorted_identity i)
     \<lparr>xs_schemaVersion = EXPLORATION_STATE_SCHEMA_VERSION,
      xs_stateId = ''state_'' @ sha (canonicalJson num (identity_json (sorted_identity i)))\<rparr>"
  by (auto simp: createExplorationState_def stateIdentityInput_def assert_input_iff)

lemma truncate_extend: "state_input.truncate (state_input.extend i x) = i"
  by (simp add: state_input.defs)

text \<open>a state that was created has only canonical keys that name no customer data and only
  bounded values, and creating a state from it again gives the same state with the same identity.\<close>

theorem created_state_is_typed:
  assumes "createExplorationState sha num i = Inr s"
  shows "safe_state s \<and> createExplorationState sha num (state_input.truncate s) = Inr s"
proof -
  from assms have i: "safe_state i" and s: "s = state_input.extend (sorted_identity i)
     \<lparr>xs_schemaVersion = EXPLORATION_STATE_SCHEMA_VERSION,
      xs_stateId = ''state_'' @ sha (canonicalJson num (identity_json (sorted_identity i)))\<rparr>"
    by (auto simp: create_Inr_iff)
  have "safe_state s \<longleftrightarrow> safe_state (sorted_identity i)" by (simp add: s safe_state_def state_input.defs)
  moreover have "state_input.truncate s = sorted_identity i" by (simp add: s truncate_extend)
  ultimately show ?thesis using i s by (simp add: create_Inr_iff safe_sorted sorted_identity_idem)
qed

definition w_input :: state_input where
  "w_input = \<lparr>si_product = ''ripple'', si_surface = ''s'', si_routeClass = ''/a'', si_structuralFlags = [],
     si_safeViewState = [(''v'', S_Bool True)], si_availableActionIds = [''b'', ''a'', ''b''], si_semanticReadFamilies = [],
     si_authStateClass = ''AUTHENTICATED_DEV'', si_terminalFlags = []\<rparr>"

lemma w_input_safe: "safe_state w_input"
  by (simp add: safe_state_def w_input_def route_class_canonical_def surface_canonical_def action_id_canonical_def all_in_def
      is_alnum_def is_lower_letter_def is_letter_def code_unit_def AUTH_STATE_CLASSES_def safe_key_def key_canonical_def key_forbidden_def
      FORBIDDEN_STATE_TOKENS_def lower_def lower_char_def is_upper_letter_def starts_with_def safe_scalar_def)

theorem created_state_is_typed_witness:
  "\<exists>s. createExplorationState rev (\<lambda>_. []) w_input = Inr s \<and> safe_state s \<and> si_availableActionIds s = [''a'', ''b'']"
proof -
  obtain s where s: "createExplorationState rev (\<lambda>_. []) w_input = Inr s" using w_input_safe by (simp add: create_Inr_iff)
  moreover have "si_availableActionIds s = [''a'', ''b'']"
    using s by (auto simp: create_Inr_iff state_input.defs sorted_identity_def w_input_def sort_by_def code_unit_def)
  ultimately show ?thesis using created_state_is_typed [OF s] by blast
qed

section \<open>Order does not reach the identity\<close>

text \<open>Two observations of one state: the same dictionaries and the same sets.\<close>

definition same_dict :: "(string \<times> 'v) list \<Rightarrow> (string \<times> 'v) list \<Rightarrow> bool" where
  "same_dict m n = (mset m = mset n \<and> distinct (map fst m))"

definition same_observation :: "state_input \<Rightarrow> state_input \<Rightarrow> bool" where
  "same_observation i j = (si_product i = si_product j \<and> si_surface i = si_surface j \<and> si_routeClass i = si_routeClass j
     \<and> same_dict (si_structuralFlags i) (si_structuralFlags j) \<and> same_dict (si_safeViewState i) (si_safeViewState j)
     \<and> same_dict (si_terminalFlags i) (si_terminalFlags j) \<and> si_authStateClass i = si_authStateClass j
     \<and> set (si_availableActionIds i) = set (si_availableActionIds j)
     \<and> set (si_semanticReadFamilies i) = set (si_semanticReadFamilies j))"

lemma same_dict_sorted: "same_dict m n \<Longrightarrow> sortedMap m = sortedMap n"
  unfolding same_dict_def sortedMap_def using sort_fields_eq [OF str_order_keys] by blast

lemma same_set_sorted:
  assumes "set xs = set ys"
  shows "sort_by str_le (dedupe xs) = sort_by str_le (dedupe ys)"
proof (rule sorted_unique [of str_le])
  have "mset (dedupe xs) = mset (dedupe ys)"
    using assms by (metis distinct_dedupe set_dedupe set_eq_iff_mset_eq_distinct)
  then show "mset (sort_by str_le (dedupe xs)) = mset (sort_by str_le (dedupe ys))" by simp
  show "sorted_wrt str_le (sort_by str_le (dedupe xs))" "sorted_wrt str_le (sort_by str_le (dedupe ys))"
    by (rule sort_by_sorted [OF str_total str_trans], assumption+)+
  show "str_le a a" for a using str_total [of a a] by blast
  show "a = b" if "str_le a b" "str_le b a" for a b using str_antisym that by blast
qed

text \<open>the order of keys, of available actions and of read families, and repetitions in the
  lists, change neither the state nor its identity.\<close>

theorem identity_ignores_order:
  assumes "same_observation i j" and "createExplorationState sha num i = Inr s"
  shows "createExplorationState sha num j = Inr s"
proof -
  have sorted: "sorted_identity i = sorted_identity j"
    using assms(1) same_set_sorted [of "si_availableActionIds i" "si_availableActionIds j"]
      same_set_sorted [of "si_semanticReadFamilies i" "si_semanticReadFamilies j"]
      same_dict_sorted [of "si_structuralFlags i" "si_structuralFlags j"] same_dict_sorted [of "si_safeViewState i" "si_safeViewState j"]
      same_dict_sorted [of "si_terminalFlags i" "si_terminalFlags j"]
    by (simp add: same_observation_def sorted_identity_def)
  have "safe_state j" using assms(2) safe_sorted [of i] safe_sorted [of j] sorted by (simp add: create_Inr_iff)
  then show ?thesis using assms(2) sorted by (simp add: create_Inr_iff)
qed

theorem identity_ignores_order_witness:
  "\<exists>s. createExplorationState rev (\<lambda>_. []) w_input = Inr s
     \<and> createExplorationState rev (\<lambda>_. []) (w_input\<lparr>si_availableActionIds := [''a'', ''b'']\<rparr>) = Inr s"
proof -
  obtain s where s: "createExplorationState rev (\<lambda>_. []) w_input = Inr s" using w_input_safe by (simp add: create_Inr_iff)
  have "same_observation w_input (w_input\<lparr>si_availableActionIds := [''a'', ''b'']\<rparr>)"
    by (auto simp: same_observation_def same_dict_def w_input_def)
  from identity_ignores_order [OF this s] show ?thesis using s by blast
qed

end
