(* ===== verification/Exploration_Fixture.thy ===== *)
theory Exploration_Fixture imports Exploration_Engine Exploration_State_Properties begin

text \<open>
  The contract the engine needs of a runtime, as a locale (\<open>answering_runtime\<close>: no operation throws,
  every observed state is one the engine may store), and its provider in the repository: the
  synthetic fixture of \<open>src/core/exploration/syntheticFixture.ts\<close>, whose world is the state input
  it last set. The clock is the caller's option, a parameter here; the extra test property
  \<open>oracle\<close> of one fixture action, which nothing reads, is left out.
\<close>

section \<open>The contract\<close>

definition storable :: "state_input \<Rightarrow> bool" where
  "storable i = safe_state (i\<lparr>si_availableActionIds := []\<rparr>)"

locale answering_runtime =
  fixes rt :: "'w runtime" and reachable :: "'w \<Rightarrow> bool"
  assumes clock_keeps: "reachable w \<Longrightarrow> reachable (snd (rt_now rt w))"
    and observes: "reachable w \<Longrightarrow> \<exists>i w'. rt_currentState rt w = Inr (i, w') \<and> storable i \<and> reachable w'"
    and answers: "reachable w \<Longrightarrow> \<exists>b w'. rt_actionAvailable rt a w = Inr (b, w') \<and> reachable w'"
    and executes: "reachable w \<Longrightarrow> \<exists>r w'. rt_execute rt a w = Inr (r, w') \<and> safe_state (ar_nextState r) \<and> reachable w'"
begin

lemma create_total: "safe_state i \<Longrightarrow> \<exists>s. create_state pf i = Inr s"
  by (simp add: create_state_def create_Inr_iff)

lemma available_total:
  assumes "reachable w"
  shows "\<exists>ids w'. foldM_res (collect_available rt) (acc, w) as = Inr (ids, w') \<and> set ids \<subseteq> set acc \<union> sfa_actionId ` set as \<and> reachable w'"
  using assms
proof (induction as arbitrary: acc w)
  case (Cons a as)
  obtain b w1 where one: "rt_actionAvailable rt a w = Inr (b, w1)" "reachable w1" using answers Cons.prems by blast
  let ?acc = "if b then acc @ [sfa_actionId a] else acc"
  obtain ids w' where "foldM_res (collect_available rt) (?acc, w1) as = Inr (ids, w')"
      and ids: "set ids \<subseteq> set ?acc \<union> sfa_actionId ` set as" "reachable w'" using Cons.IH [OF one(2)] by blast
  moreover have "collect_available rt (acc, w) a = Inr (?acc, w1)" by (simp add: collect_available_def one)
  ultimately have "foldM_res (collect_available rt) (acc, w) (a # as) = Inr (ids, w')" by simp
  moreover have "set ids \<subseteq> set acc \<union> sfa_actionId ` set (a # as)" using ids(1) by (auto split: if_splits)
  ultimately show ?case using ids(2) by blast
qed simp

lemma observe_total:
  assumes "reachable w" and "\<forall>a\<in>set actions. action_id_canonical (sfa_actionId a)"
  shows "\<exists>s w'. observeState pf rt actions e w = Inr (s, w') \<and> reachable w'"
proof -
  let ?cands = "filter (\<lambda>a. sfa_actionId a \<in> set (en_allowedActionIds e) \<and> sfa_status a = ''APPROVED'') actions"
  obtain i w1 where i: "rt_currentState rt w = Inr (i, w1)" "storable i" "reachable w1" using observes assms(1) by blast
  obtain ids w2 where ids: "foldM_res (collect_available rt) ([], w1) ?cands = Inr (ids, w2)"
      "set ids \<subseteq> sfa_actionId ` set ?cands" "reachable w2" using available_total [OF i(3), of "[]" ?cands] by auto
  have "\<forall>x\<in>set ids. action_id_canonical x" using ids(2) assms(2) by auto
  then have "safe_state (combineInputWithAvailability i ids)"
    using i(2) by (simp add: storable_def safe_state_def combineInputWithAvailability_def)
  then obtain s where "create_state pf (combineInputWithAvailability i ids) = Inr s" using create_total by blast
  then show ?thesis using i ids by (simp add: observeState_def)
qed


lemma settle_total:
  assumes "safe_state (ar_nextState r)"
  shows "\<exists>run'. settle_action pf opts run a i r = Inr run'"
proof -
  obtain s where "create_state pf (ar_nextState r) = Inr s" using create_total assms by blast
  then have "\<exists>x. end_with pf run a i r outcome os v reason = Inr x" "\<exists>x. advance pf run a i r = Inr x" for run outcome os v reason
    by (simp_all add: end_with_def advance_def Let_def)
  then show ?thesis by (simp add: settle_action_def Let_def split: option.split)
qed

lemma step_total:
  assumes "reachable w" and "int (length (en_allowedActionIds (xo_envelope opts))) \<le> max_safe_integer"
  shows "\<exists>run' w'. explore_step pf rt opts started (run, w) = Inr (run', w') \<and> reachable w'"
proof -
  obtain time w1 where now: "rt_now rt w = (time, w1)" "reachable w1" using clock_keeps [OF assms(1)] by (metis snd_conv surj_pair)
  obtain d chosen p where sel: "select_now pf opts run = Inr ((d, chosen), p)" using select_total [OF assms(2)] by (metis surj_pair)
  show ?thesis
  proof (cases chosen)
    case None
    then show ?thesis using now sel by (simp add: explore_step_def)
  next
    case (Some a)
    obtain r w2 where r: "rt_execute rt a w1 = Inr (r, w2)" "safe_state (ar_nextState r)" "reachable w2" using executes now(2) by blast
    obtain run' where "settle_action pf opts (acting a d p run) a (pd_index d) r = Inr run'" using settle_total r(2) by blast
    then show ?thesis using now sel Some r by (simp add: explore_step_def)
  qed
qed

lemma loop_total:
  assumes "reachable (snd acc)" and "int (length (en_allowedActionIds (xo_envelope opts))) \<le> max_safe_integer"
  shows "\<exists>run' w'. explore_loop pf rt opts started acc = Inr (run', w') \<and> reachable w'"
  using assms(1)
proof (induction "if rn_going (fst acc) then Suc (nat (sequence_limit opts - int (length (rn_plannedActions (fst acc))))) else 0"
    arbitrary: acc rule: less_induct)
  case less
  obtain run w where acc: "acc = (run, w)" by (metis surj_pair)
  show ?case
  proof (cases "rn_going run")
    case True
    obtain run' w' where step: "explore_step pf rt opts started acc = Inr (run', w')" "reachable w'"
      using step_total [OF _ assms(2)] less.prems acc by (metis snd_conv)
    have "\<exists>run2 w2. explore_loop pf rt opts started (run', w') = Inr (run2, w2) \<and> reachable w2"
    proof (rule less.hyps)
      show "reachable (snd (run', w'))" using step(2) by simp
      show "(if rn_going (fst (run', w')) then Suc (nat (sequence_limit opts - int (length (rn_plannedActions (fst (run', w')))))) else 0)
        < (if rn_going (fst acc) then Suc (nat (sequence_limit opts - int (length (rn_plannedActions (fst acc))))) else 0)"
        using step_progress [of pf rt opts started run w run' w'] step(1) acc True by auto
    qed
    then show ?thesis using step(1) True acc by (simp add: explore_loop.simps [of pf rt opts started "(run, w)"])
  qed (use less.prems acc in \<open>simp add: explore_loop.simps [of pf rt opts started "(run, w)"]\<close>)
qed

lemma exploration_total:
  assumes "reachable w" and "\<forall>a\<in>set (xo_catalog opts). action_id_canonical (sfa_actionId a)"
    and "int (length (en_allowedActionIds (xo_envelope opts))) \<le> max_safe_integer" and "parseCanonicalSeed (xo_seed opts) = Inr v"
  shows "\<exists>e w'. runExploration pf rt opts w = Inr (e, w')"
proof -
  obtain started w1 where now: "rt_now rt w = (started, w1)" "reachable w1" using clock_keeps [OF assms(1)] by (metis snd_conv surj_pair)
  obtain p where p: "new_planner (xo_seed opts) = Inr p" using assms(4) by (simp add: new_planner_def new_split_mix_def)
  obtain s w2 where s: "observeState pf rt (xo_catalog opts) (xo_envelope opts) w1 = Inr (s, w2)" "reachable w2"
    using observe_total now(2) assms(2) by blast
  obtain run w3 where "explore_loop pf rt opts started (initial_run p (xo_envelope opts) s, w2) = Inr (run, w3)"
    using loop_total [where acc = "(initial_run p (xo_envelope opts) s, w2)", OF _ assms(3)] s(2) by fastforce
  then show ?thesis using now p s by (simp add: runExploration_def)
qed

end

section \<open>The fixture's catalog\<close>

definition fixtureSource :: provenance where
  "fixtureSource = \<lparr>pv_repository = ''nightwatch'', pv_file = ''src/core/exploration/syntheticFixture.ts'',
     pv_symbol = ''createSyntheticFixture'', pv_sourceSha = ''synthetic-phase4-fixture-v1'', pv_trackingRef = ''local'',
     pv_freshness = ''CURRENT_DEPLOYMENT_VERIFIED''\<rparr>"

definition fixture_base :: "string \<Rightarrow> string \<Rightarrow> string \<Rightarrow> string \<Rightarrow> explore_action" where
  "fixture_base actionId kind route view = \<lparr>sfa_actionId = actionId, sfa_status = ''APPROVED'',
     sfa_semanticClass = (if kind = ''CLICK_APPROVED_READ_CONTROL'' then ''KNOWN_READ'' else ''LOCAL_ONLY''),
     sfa_persistedPreferenceEffect = ''NONE'', sfa_routeEffect = ''UNCHANGED'', sfa_expectedRouteClass = route,
     sfa_routeClasses = [route], xa_product = ''ripple'', xa_anchorJourney = ''ripple-payer-exchange-read'',
     xa_surface = ''fixture'', xa_control = ''fixture '' @ actionId, xa_sourceProvenance = [fixtureSource], xa_actionKind = kind,
     xa_requiredStructuralFlags = None, xa_requiredSafeViewState = None, xa_forbiddenSafeViewState = None,
     xa_locator = Approved_Route route, xa_expectedStructuralDelta = [(''view'', S_Str view)],
     xa_expectedReadFamilies = (if kind = ''CLICK_APPROVED_READ_CONTROL'' then [''fixture.'' @ actionId] else []),
     xa_forbiddenRequestFamilies = [''fixture.mutation''], xa_analyticsEffect = ''NONE'',
     xa_privacyPolicy = ''METADATA_ONLY_NO_CUSTOMER_VALUES'', xa_replayPolicy = ''STRICT_ACTION_ID_AND_PRECONDITION''\<rparr>"

definition under_review :: "explore_action \<Rightarrow> explore_action" where
  "under_review a = a\<lparr>xa_expectedReadFamilies := [], sfa_status := ''REVIEW_REQUIRED''\<rparr>"

definition SYNTHETIC_ACTIONS :: "explore_action list" where
  "SYNTHETIC_ACTIONS =
     [fixture_base ''fixture.safe-a'' ''TOGGLE_LOCAL_VIEW'' ''/start'' ''a'',
      (fixture_base ''fixture.safe-b'' ''CLICK_APPROVED_READ_CONTROL'' ''/start'' ''detail'')\<lparr>sfa_expectedRouteClass := ''/detail''\<rparr>,
      (fixture_base ''fixture.back'' ''RETURN_TO_ANCHOR'' ''/detail'' ''start'')
        \<lparr>sfa_expectedRouteClass := ''/start'', xa_locator := Approved_Route ''/start'', sfa_routeEffect := ''APPROVED_ROUTE''\<rparr>,
      fixture_base ''fixture.safe-local-branch'' ''TOGGLE_LOCAL_VIEW'' ''/start'' ''local'',
      fixture_base ''fixture.resource-anomaly'' ''CLICK_APPROVED_READ_CONTROL'' ''/start'' ''resource'',
      under_review (fixture_base ''fixture.mutation'' ''CLICK_APPROVED_READ_CONTROL'' ''/start'' ''mutation''),
      under_review (fixture_base ''fixture.unknown'' ''CLICK_APPROVED_READ_CONTROL'' ''/start'' ''unknown''),
      under_review (fixture_base ''fixture.new-host'' ''CLICK_APPROVED_READ_CONTROL'' ''/start'' ''host''),
      (fixture_base ''fixture.unavailable'' ''TOGGLE_LOCAL_VIEW'' ''/start'' ''unavailable'')\<lparr>xa_expectedReadFamilies := []\<rparr>,
      under_review (fixture_base ''fixture.runtime-failure'' ''TOGGLE_LOCAL_VIEW'' ''/start'' ''runtime''),
      under_review ((fixture_base ''fixture.route-escape'' ''RETURN_TO_ANCHOR'' ''/start'' ''escape'')
        \<lparr>sfa_expectedRouteClass := ''/outside'', xa_locator := Approved_Route ''/outside''\<rparr>)]"

definition SYNTHETIC_SAFE_ACTION_IDS :: "string list" where
  "SYNTHETIC_SAFE_ACTION_IDS = [''fixture.safe-a'', ''fixture.safe-b'', ''fixture.back'', ''fixture.safe-local-branch'', ''fixture.resource-anomaly'']"

definition fixture_state :: "string \<Rightarrow> string \<Rightarrow> string list \<Rightarrow> state_input" where
  "fixture_state route view available = \<lparr>si_product = ''ripple'', si_surface = ''fixture'', si_routeClass = route,
     si_structuralFlags = [(''shell'', True), (''fixtureSurface'', True)], si_safeViewState = [(''view'', S_Str view)],
     si_availableActionIds = available, si_semanticReadFamilies = [], si_authStateClass = ''AUTHENTICATED_DEV'', si_terminalFlags = []\<rparr>"

section \<open>The fixture's runtime\<close>

datatype fixture_mode = Mode_Safe | Mode_Mutation | Mode_Unknown | Mode_New_Host | Mode_Runtime_Failure | Mode_Route_Escape

fun mode_action :: "fixture_mode \<Rightarrow> string option" where
  "mode_action Mode_Mutation = Some ''fixture.mutation''"
| "mode_action Mode_Unknown = Some ''fixture.unknown''"
| "mode_action Mode_New_Host = Some ''fixture.new-host''"
| "mode_action Mode_Runtime_Failure = Some ''fixture.runtime-failure''"
| "mode_action Mode_Route_Escape = Some ''fixture.route-escape''"
| "mode_action Mode_Safe = None"

definition fixture_start :: "fixture_mode \<Rightarrow> bool \<Rightarrow> state_input" where
  "fixture_start mode unavailable = fixture_state ''/start'' ''start''
     (SYNTHETIC_SAFE_ACTION_IDS @ (case mode_action mode of None \<Rightarrow> [] | Some a \<Rightarrow> [a])
      @ (if unavailable then [''fixture.unavailable''] else []))"

definition fixture_available :: "bool \<Rightarrow> explore_action \<Rightarrow> state_input \<Rightarrow> bool" where
  "fixture_available unavailable a current =
     (if unavailable \<and> sfa_actionId a = ''fixture.unavailable'' then False else sfa_actionId a \<in> set (si_availableActionIds current))"

definition fixture_failure :: "state_input \<Rightarrow> action_result" where
  "fixture_failure current = \<lparr>ar_status = ''FAILED'', ar_nextState = current, ar_routeDelta = [(''routeClass'', S_Str (si_routeClass current))],
     ar_structuralDelta = [], ar_semanticRequestDelta = [], ar_oracleResults = [], ar_safety = EXPLORATION_ZERO_SAFETY,
     ar_durationClass = ''SHORT'', ar_failureCode = None\<rparr>"

definition fixture_next :: "string \<Rightarrow> state_input \<Rightarrow> state_input" where
  "fixture_next actionId current =
     (if actionId = ''fixture.safe-a'' then fixture_state ''/start'' ''a'' SYNTHETIC_SAFE_ACTION_IDS
      else if actionId = ''fixture.safe-b''
        then (fixture_state ''/detail'' ''detail'' [''fixture.back''])\<lparr>si_semanticReadFamilies := [''fixture.safe-b'']\<rparr>
      else if actionId = ''fixture.back'' then fixture_state ''/start'' ''start'' SYNTHETIC_SAFE_ACTION_IDS
      else if actionId = ''fixture.safe-local-branch'' then fixture_state ''/start'' ''local'' SYNTHETIC_SAFE_ACTION_IDS
      else if actionId = ''fixture.resource-anomaly'' then fixture_state ''/start'' ''resource'' SYNTHETIC_SAFE_ACTION_IDS
      else current)"

definition fixture_completed :: "explore_action \<Rightarrow> state_input \<Rightarrow> action_result" where
  "fixture_completed a next = \<lparr>ar_status = ''COMPLETED'', ar_nextState = next, ar_routeDelta = [(''routeClass'', S_Str (si_routeClass next))],
     ar_structuralDelta = xa_expectedStructuralDelta a,
     ar_semanticRequestDelta = map (\<lambda>f. \<lparr>no_family = f, no_classification = ''KNOWN_READ'', no_disposition = ''KNOWN_READ'',
         no_hostClass = ''TARGET''\<rparr>) (xa_expectedReadFamilies a),
     ar_oracleResults = (if sfa_actionId a = ''fixture.resource-anomaly'' then [''RESOURCE_ANOMALY''] else []),
     ar_safety = EXPLORATION_ZERO_SAFETY, ar_durationClass = ''SHORT'', ar_failureCode = None\<rparr>"

definition fixture_execute :: "fixture_mode \<Rightarrow> bool \<Rightarrow> explore_action \<Rightarrow> state_input \<Rightarrow> action_result \<times> state_input" where
  "fixture_execute mode unavailable a current =
     (let i = sfa_actionId a; failed = fixture_failure current in
      if \<not> fixture_available unavailable a current then (failed\<lparr>ar_status := ''ACTION_NOT_AVAILABLE_AT_RUNTIME''\<rparr>, current)
      else if mode = Mode_Mutation \<and> i = ''fixture.mutation''
        then (failed\<lparr>ar_safety := (ar_safety failed)\<lparr>sv_knownMutations := 1\<rparr>, ar_semanticRequestDelta :=
               [\<lparr>no_family = ''fixture.mutation'', no_classification = ''KNOWN_MUTATION'', no_disposition = ''KNOWN_MUTATION'', no_hostClass = ''TARGET''\<rparr>]\<rparr>, current)
      else if mode = Mode_Unknown \<and> i = ''fixture.unknown''
        then (failed\<lparr>ar_safety := (ar_safety failed)\<lparr>sv_actionCausedUnknown := 1\<rparr>, ar_semanticRequestDelta :=
               [\<lparr>no_family = ''fixture.unknown'', no_classification = ''UNKNOWN'', no_disposition = ''ACTION_CAUSED_UNKNOWN'', no_hostClass = ''TARGET''\<rparr>]\<rparr>, current)
      else if mode = Mode_New_Host \<and> i = ''fixture.new-host''
        then (failed\<lparr>ar_safety := (ar_safety failed)\<lparr>sv_unknownDestinations := 1\<rparr>, ar_semanticRequestDelta :=
               [\<lparr>no_family = ''unknown-host'', no_classification = ''UNKNOWN'', no_disposition = ''ACTION_CAUSED_UNKNOWN'', no_hostClass = ''UNKNOWN''\<rparr>]\<rparr>, current)
      else if mode = Mode_Runtime_Failure \<and> i = ''fixture.runtime-failure'' then (failed, current)
      else if mode = Mode_Route_Escape \<and> i = ''fixture.route-escape''
        then (failed\<lparr>ar_nextState := fixture_state ''/outside'' ''escape'' SYNTHETIC_SAFE_ACTION_IDS,
                     ar_routeDelta := [(''routeClass'', S_Str ''/outside'')]\<rparr>, current)
      else let next = fixture_next i current in (fixture_completed a next, next))"

definition createSyntheticFixture ::
  "(state_input \<Rightarrow> int) \<Rightarrow> fixture_mode \<Rightarrow> bool \<Rightarrow> state_input runtime" where
  "createSyntheticFixture clock mode unavailable = \<lparr>rt_now = (\<lambda>current. (clock current, current)),
     rt_currentState = (\<lambda>current. Inr (current, current)),
     rt_actionAvailable = (\<lambda>a current. Inr (fixture_available unavailable a current, current)),
     rt_execute = (\<lambda>a current. Inr (fixture_execute mode unavailable a current))\<rparr>"

section \<open>The fixture keeps the contract\<close>

lemma fixture_state_safe:
  assumes "route \<in> {''/start'', ''/detail'', ''/outside''}" and "view \<in> {''start'', ''a'', ''detail'', ''local'', ''resource'', ''escape''}"
    and "\<forall>a\<in>set available. action_id_canonical a"
  shows "safe_state (fixture_state route view available)"
proof -
  have "route_class_canonical route"
    using assms(1) by (auto simp: route_class_canonical_def all_in_def is_alnum_def is_lower_letter_def code_unit_def)
  moreover have "safe_scalar (S_Str view)"
    using assms(2) by (auto simp: safe_scalar_def is_alnum_def is_lower_letter_def code_unit_def)
  moreover have "safe_key ''shell''" "safe_key ''fixtureSurface''" "safe_key ''view''"
    by (simp_all add: safe_key_def key_canonical_def key_forbidden_def FORBIDDEN_STATE_TOKENS_def all_in_def is_letter_def is_alnum_def
        is_lower_letter_def is_upper_letter_def code_unit_def lower_def lower_char_def starts_with_def)
  moreover have "surface_canonical ''fixture''"
    by (simp add: surface_canonical_def all_in_def is_alnum_def is_lower_letter_def code_unit_def)
  ultimately show ?thesis using assms(3) by (simp add: safe_state_def fixture_state_def AUTH_STATE_CLASSES_def)
qed

lemma safe_ids_canonical: "a \<in> set SYNTHETIC_SAFE_ACTION_IDS \<Longrightarrow> action_id_canonical a"
  by (auto simp: SYNTHETIC_SAFE_ACTION_IDS_def action_id_canonical_def all_in_def is_alnum_def is_lower_letter_def code_unit_def)

lemma fixture_next_safe: "safe_state current \<Longrightarrow> safe_state (fixture_next i current)"
proof -
  have "action_id_canonical ''fixture.back''" using safe_ids_canonical by (simp add: SYNTHETIC_SAFE_ACTION_IDS_def)
  moreover have "family_canonical ''fixture.safe-b''"
    by (simp add: family_canonical_def all_in_def is_alnum_def is_lower_letter_def code_unit_def)
  ultimately have "safe_state ((fixture_state ''/detail'' ''detail'' [''fixture.back''])\<lparr>si_semanticReadFamilies := [''fixture.safe-b'']\<rparr>)"
    using fixture_state_safe [of "''/detail''" "''detail''" "[''fixture.back'']"] by (simp add: safe_state_def fixture_state_def)
  then show "safe_state current \<Longrightarrow> safe_state (fixture_next i current)"
    by (simp add: fixture_next_def fixture_state_safe safe_ids_canonical)
qed

lemma fixture_failure_next [simp]: "ar_nextState (fixture_failure current) = current"
  by (simp add: fixture_failure_def)

lemma fixture_execute_safe:
  assumes "safe_state current"
  shows "safe_state (ar_nextState (fst (fixture_execute mode unavailable a current))) \<and> safe_state (snd (fixture_execute mode unavailable a current))"
proof -
  have "safe_state (fixture_state ''/outside'' ''escape'' SYNTHETIC_SAFE_ACTION_IDS)"
    by (rule fixture_state_safe) (simp_all add: safe_ids_canonical)
  then show ?thesis using assms fixture_next_safe [OF assms] by (simp add: fixture_execute_def fixture_completed_def Let_def)
qed

interpretation fixture: answering_runtime "createSyntheticFixture clock mode unavailable" safe_state for clock mode unavailable
proof (unfold_locales, goal_cases)
  case (4 w a)
  obtain r w' where r: "fixture_execute mode unavailable a w = (r, w')" by force
  then show ?case using fixture_execute_safe [OF 4, of mode unavailable a] by (simp add: createSyntheticFixture_def)
qed (auto simp: createSyntheticFixture_def storable_def safe_state_def)

lemma mode_ids_canonical: "mode_action mode = Some a \<Longrightarrow> action_id_canonical a" "action_id_canonical ''fixture.unavailable''"
  by (cases mode; auto simp: action_id_canonical_def all_in_def is_alnum_def is_lower_letter_def code_unit_def)
     (simp add: action_id_canonical_def all_in_def is_alnum_def is_lower_letter_def code_unit_def)

lemma fixture_start_safe: "safe_state (fixture_start mode unavailable)"
  unfolding fixture_start_def
proof (rule fixture_state_safe)
  have "\<forall>a\<in>set (case mode_action mode of None \<Rightarrow> [] | Some a \<Rightarrow> [a]). action_id_canonical a"
    using mode_ids_canonical(1) by (simp split: option.split)
  then show "\<forall>a\<in>set (SYNTHETIC_SAFE_ACTION_IDS @ (case mode_action mode of None \<Rightarrow> [] | Some a \<Rightarrow> [a])
      @ (if unavailable then [''fixture.unavailable''] else [])). action_id_canonical a"
    using safe_ids_canonical mode_ids_canonical(2) by auto
qed simp_all

lemma run_needs_seed: "runExploration pf rt opts w = Inr r \<Longrightarrow> \<exists>v. parseCanonicalSeed (xo_seed opts) = Inr v"
  by (auto simp: runExploration_def new_planner_def new_split_mix_def split: prod.splits)

text \<open>C26: let the catalog's ids be canonical, the allowed ids at most \<open>MAX_SAFE_INTEGER\<close>, and let the runtime answer every call without
  throwing, with states the code can store (canonical ids, safe texts, the checks of \<open>createExplorationState\<close>), both those it observes
  and those its actions lead to. Then an exploration returns evidence exactly when its seed is canonical: nothing else in the planner, the
  creation of states or the loop can throw or run forever.\<close>

theorem exploration_returns:
  assumes "answering_runtime rt reachable" and "reachable w" and "\<forall>a\<in>set (xo_catalog opts). action_id_canonical (sfa_actionId a)"
    and "int (length (en_allowedActionIds (xo_envelope opts))) \<le> max_safe_integer"
  shows "(\<exists>e w'. runExploration pf rt opts w = Inr (e, w')) \<longleftrightarrow> (\<exists>v. parseCanonicalSeed (xo_seed opts) = Inr v)"
  using answering_runtime.exploration_total [OF assms] run_needs_seed [of pf rt opts w] by blast

lemma synthetic_ids_canonical: "a \<in> set SYNTHETIC_ACTIONS \<Longrightarrow> action_id_canonical (sfa_actionId a)"
  by (auto simp: SYNTHETIC_ACTIONS_def under_review_def fixture_base_def action_id_canonical_def all_in_def is_alnum_def
      is_lower_letter_def code_unit_def)

definition w_envelope :: envelope where
  "w_envelope = \<lparr>en_envelopeId = ''e'', en_anchorJourney = ''ripple-payer-exchange-read'', en_allowedRoutes = [''/start'', ''/detail''],
     en_allowedActionIds = SYNTHETIC_SAFE_ACTION_IDS, en_expectedReadFamilies = [], en_forbiddenRequestFamilies = [],
     en_maxActionsPerSequence = 6, en_maxDepth = 6, en_maxStates = 12, en_maxTransitions = 12, en_maxStateVisits = 2,
     en_maxTransitionVisits = 2, en_maxImmediateBacktracks = 2, en_maxRouteChanges = 4\<rparr>"

definition w_budget :: exploration_budget where
  "w_budget = \<lparr>xb_policyVersion = ''phase4-bounded-budget.v1'', xb_maxActionsPerSequence = 6, xb_maxDepth = 6, xb_maxStates = 12,
     xb_maxTransitions = 12, xb_maxRouteChanges = 4, xb_maxRuntimeMs = 120000, xb_maxRealContexts = 9, xb_maxSeeds = 6\<rparr>"

definition w_explore :: explore_options where
  "w_explore = \<lparr>xo_runId = ''r'', xo_seed = formatCanonicalSeed 7, xo_derivedSeed = None, xo_catalog = SYNTHETIC_ACTIONS,
     xo_envelope = w_envelope, xo_budget = w_budget\<rparr>"

definition w_platform :: platform where
  "w_platform = \<lparr>pf_sha = rev, pf_num = (\<lambda>q. []), pf_locale_le = str_le\<rparr>"

theorem exploration_returns_witness:
  "\<exists>e w'. runExploration w_platform (createSyntheticFixture (\<lambda>_. 0) Mode_Mutation False) w_explore (fixture_start Mode_Mutation False) = Inr (e, w')"
proof (rule iffD2 [OF exploration_returns [where reachable = safe_state]])
  show "\<exists>v. parseCanonicalSeed (xo_seed w_explore) = Inr v" by (simp add: w_explore_def parse_format)
qed (simp_all add: fixture.answering_runtime_axioms fixture_start_safe w_explore_def w_envelope_def synthetic_ids_canonical
        SYNTHETIC_SAFE_ACTION_IDS_def max_safe_integer_def)

end
