(* ===== verification/Exploration_Properties.thy ===== *)
theory Exploration_Properties imports Exploration_Fixture begin

text \<open>
  What a bounded exploration guarantees: which actions it executes, the limits it keeps, that the
  safety vector of a successful run is zero, and how the planner chooses.
\<close>

section \<open>Induction over the loop\<close>

lemma loop_unfold:
  "rn_going (fst acc) \<Longrightarrow> explore_loop pf rt opts started acc = bind_res (explore_step pf rt opts started acc) (explore_loop pf rt opts started)"
  "\<not> rn_going (fst acc) \<Longrightarrow> explore_loop pf rt opts started acc = Inr acc"
  by (simp_all add: explore_loop.simps [of pf rt opts started acc])

lemma loop_invariant:
  assumes "\<And>run w run' w'. I run w \<Longrightarrow> rn_going run \<Longrightarrow> explore_step pf rt opts started (run, w) = Inr (run', w') \<Longrightarrow> I run' w'"
    and "I run0 w0" and "explore_loop pf rt opts started (run0, w0) = Inr (run1, w1)"
  shows "I run1 w1 \<and> \<not> rn_going run1"
proof -
  have "\<lbrakk>\<And>run w run' w'. I run w \<Longrightarrow> rn_going run \<Longrightarrow> explore_step pf rt opts started (run, w) = Inr (run', w') \<Longrightarrow> I run' w';
      I (fst acc) (snd acc); explore_loop pf rt opts started acc = Inr acc'\<rbrakk> \<Longrightarrow> I (fst acc') (snd acc') \<and> \<not> rn_going (fst acc')" for acc acc'
  proof (induction pf rt opts started acc rule: explore_loop.induct)
    case (1 pf rt opts started acc)
    show ?case
    proof (cases "rn_going (fst acc)")
      case False
      then show ?thesis using "1.prems" by (simp add: loop_unfold)
    next
      case True
      with "1.prems"(3) obtain acc1 where step: "explore_step pf rt opts started acc = Inr acc1"
        and rest: "explore_loop pf rt opts started acc1 = Inr acc'" by (auto simp: loop_unfold)
      obtain run w run1 w1 where acc: "acc = (run, w)" "acc1 = (run1, w1)" by (metis surj_pair)
      have "I (fst acc1) (snd acc1)" using "1.prems"(1) [of run w run1 w1] "1.prems"(2) True step acc by simp
      then show ?thesis using "1.IH" [OF _ step "1.prems"(1) _ rest] True by simp
    qed
  qed
  from this [of "(run0, w0)" "(run1, w1)"] show ?thesis using assms by simp
qed

lemma run_cases:
  assumes "runExploration pf rt opts w = Inr (e, w')"
  obtains started w1 p s w2 run where "rt_now rt w = (started, w1)" "new_planner (xo_seed opts) = Inr p"
    "observeState pf rt (xo_catalog opts) (xo_envelope opts) w1 = Inr (s, w2)"
    "explore_loop pf rt opts started (initial_run p (xo_envelope opts) s, w2) = Inr (run, w')"
    "e = evidence_of pf opts (xs_stateId s) run"
  using assms by (auto simp: runExploration_def split: prod.splits)

section \<open>What is executed\<close>

definition only_execute :: "(explore_action \<Rightarrow> bool) \<Rightarrow> 'w runtime \<Rightarrow> 'w runtime" where
  "only_execute P rt = rt\<lparr>rt_execute := (\<lambda>a w. if P a then rt_execute rt a w else Inl ''refused'')\<rparr>"

lemma only_execute_fields [simp]:
  "rt_now (only_execute P rt) = rt_now rt" "rt_currentState (only_execute P rt) = rt_currentState rt"
  "rt_actionAvailable (only_execute P rt) = rt_actionAvailable rt"
  "rt_execute (only_execute P rt) a w = (if P a then rt_execute rt a w else Inl ''refused'')"
  by (simp_all add: only_execute_def)

lemma observe_only [simp]: "observeState pf (only_execute P rt) actions e w = observeState pf rt actions e w"
proof -
  have "collect_available (only_execute P rt) = collect_available rt" by (intro ext) (simp add: collect_available_def)
  then show ?thesis by (simp add: observeState_def)
qed

lemma chosen_may_execute:
  "select le p s catalog e b i = Inr ((d, Some a), p') \<Longrightarrow> may_execute catalog e a \<and> exclusion p s e b i a = None"
  using frontier_subset eligible_may_execute by (elim select_cases) blast+

lemma step_only:
  "explore_step pf (only_execute (may_execute (xo_catalog opts) (xo_envelope opts)) rt) opts started acc = explore_step pf rt opts started acc"
proof (cases acc)
  case (Pair run w)
  obtain time w1 where now: "rt_now rt w = (time, w1)" by force
  show ?thesis
  proof (cases "select_now pf opts run")
    case (Inr sel)
    then obtain d chosen p where sel: "select_now pf opts run = Inr ((d, chosen), p)" by (metis surj_pair)
    then show ?thesis
      by (cases chosen) (auto simp: explore_step_def Pair now dest: chosen_may_execute)
  qed (simp add: explore_step_def Pair now)
qed

lemma loop_only:
  "explore_loop pf (only_execute (may_execute (xo_catalog opts) (xo_envelope opts)) rt) opts started acc = explore_loop pf rt opts started acc"
proof (induction pf rt opts started acc rule: explore_loop.induct)
  case (1 pf rt opts started acc)
  show ?case
  proof (cases "rn_going (fst acc)")
    case True
    then show ?thesis using 1 by (cases "explore_step pf rt opts started acc") (simp_all add: loop_unfold step_only)
  qed (simp add: loop_unfold)
qed

definition may_replay :: "replay_args \<Rightarrow> explore_action \<Rightarrow> bool" where
  "may_replay args a = (a \<in> set (ra_catalog args) \<and> sfa_actionId a \<in> set (en_allowedActionIds (ra_envelope args))
     \<and> sfa_status a = ''APPROVED'')"

lemma replay_from_only:
  "replay_from pf (only_execute (may_replay args) rt) args s index obs sids tids is w = replay_from pf rt args s index obs sids tids is w"
proof (induction "is" arbitrary: s index obs sids tids w)
  case (Cons i "is")
  have adm: "replay_admits args s i = Some a \<Longrightarrow> may_replay args a" for a
    using catalog_by_id_sound by (auto simp: replay_admits_def may_replay_def split: option.splits if_splits)
  show ?case
  proof (cases "replay_admits args s i")
    case (Some a)
    then show ?thesis using adm Cons.IH by (simp only: replay_from.simps only_execute_fields) simp
  qed simp
qed simp

lemma validated_read_only:
  assumes "validateSafeActionCatalog num (ra_catalog args) = Inr u"
  shows "may_replay args = may_execute (ra_catalog args) (ra_envelope args)"
  using valid_catalog [OF assms] by (auto simp: may_replay_def may_execute_def catalog_action_ok_def)

lemma replay_only: "replayExactSequence pf (only_execute (may_replay args) rt) args w = replayExactSequence pf rt args w"
proof -
  have "(\<lambda>(s, w1). if xs_stateId s \<noteq> ra_initialStateId args then f s w1
          else replay_from pf (only_execute (may_replay args) rt) args s 0 [] [xs_stateId s] [] (ra_actionIds args) w1)
      = (\<lambda>(s, w1). if xs_stateId s \<noteq> ra_initialStateId args then f s w1
          else replay_from pf rt args s 0 [] [xs_stateId s] [] (ra_actionIds args) w1)" for f
    by (auto simp: replay_from_only)
  then show ?thesis by (simp add: replayExactSequence_def)
qed

text \<open>C24: an exploration only ever asks the runtime to execute an action of the catalog that the envelope allows, that is approved and
  that reads or stays local: a runtime that refuses every other action gives the same run. An exact replay executes only approved
  actions of the catalog that the envelope allows; that they read or stay local it does not look at, and it is guaranteed when the
  catalog of the replay has passed the catalog's validation.\<close>

theorem exploration_executes_only_approved:
  "runExploration pf (only_execute (may_execute (xo_catalog opts) (xo_envelope opts)) rt) opts w = runExploration pf rt opts w
   \<and> replayExactSequence pf (only_execute (may_replay args) rt) args w = replayExactSequence pf rt args w
   \<and> (validateSafeActionCatalog num (ra_catalog args) = Inr () \<longrightarrow>
        replayExactSequence pf (only_execute (may_execute (ra_catalog args) (ra_envelope args)) rt) args w = replayExactSequence pf rt args w)"
proof -
  have "validateSafeActionCatalog num (ra_catalog args) = Inr () \<longrightarrow>
      replayExactSequence pf (only_execute (may_execute (ra_catalog args) (ra_envelope args)) rt) args w = replayExactSequence pf rt args w"
    using replay_only [of pf args rt w] validated_read_only [of num args] by metis
  then show ?thesis using replay_only [of pf args rt w] by (simp add: runExploration_def loop_only)
qed

definition w_validated :: explore_action where
  "w_validated = (fixture_base ''fixture.safe-a'' ''TOGGLE_LOCAL_VIEW'' ''/start'' ''a'')\<lparr>xa_forbiddenRequestFamilies := [''fixture.write''], xa_product := ''fixture''\<rparr>"

lemma w_validated_catalog: "validateSafeActionCatalog (\<lambda>q. []) [w_validated] = Inr ()"
  by code_simp

definition w_validated_replay :: replay_args where
  "w_validated_replay = \<lparr>ra_initialStateId = ''s'', ra_actionIds = [''fixture.safe-a''], ra_expectedStateIds = [''s''],
     ra_expectedTransitionIds = [], ra_catalog = [w_validated], ra_envelope = w_envelope\<rparr>"

theorem exploration_executes_only_approved_witness:
  "replayExactSequence w_platform (only_execute (may_execute [w_validated] w_envelope) (createSyntheticFixture (\<lambda>_. 0) Mode_Safe False))
      w_validated_replay (fixture_start Mode_Safe False)
    = replayExactSequence w_platform (createSyntheticFixture (\<lambda>_. 0) Mode_Safe False) w_validated_replay (fixture_start Mode_Safe False)
   \<and> may_execute [w_validated] w_envelope w_validated"
proof
  have fields: "ra_catalog w_validated_replay = [w_validated]" "ra_envelope w_validated_replay = w_envelope"
    by (simp_all add: w_validated_replay_def)
  show "may_execute [w_validated] w_envelope w_validated"
    by (simp add: may_execute_def w_validated_def fixture_base_def w_envelope_def SYNTHETIC_SAFE_ACTION_IDS_def)
  show "replayExactSequence w_platform (only_execute (may_execute [w_validated] w_envelope) (createSyntheticFixture (\<lambda>_. 0) Mode_Safe False))
      w_validated_replay (fixture_start Mode_Safe False)
    = replayExactSequence w_platform (createSyntheticFixture (\<lambda>_. 0) Mode_Safe False) w_validated_replay (fixture_start Mode_Safe False)"
    unfolding fields [symmetric]
    by (rule exploration_executes_only_approved [where num = "\<lambda>q. []", THEN conjunct2, THEN conjunct2, THEN mp])
      (simp add: fields w_validated_catalog)
qed

text \<open>Without that validation an exact replay admits an approved action whose class is a mutation.\<close>

lemma replay_admits_any_class:
  "replay_admits (args\<lparr>ra_catalog := [a]\<rparr>) s (sfa_actionId a) = Some a \<Longrightarrow>
   replay_admits (args\<lparr>ra_catalog := [a\<lparr>sfa_semanticClass := ''KNOWN_MUTATION''\<rparr>]\<rparr>) s (sfa_actionId a) = Some (a\<lparr>sfa_semanticClass := ''KNOWN_MUTATION''\<rparr>)"
  by (simp add: replay_admits_def catalog_by_id_def map_set_def map_get_def replayPreconditionHolds_def split: if_splits)

section \<open>Limits\<close>

lemma length_map_set_le: "length (map_set m k v) \<le> length m + 1"
  by (cases "k \<in> fst ` set m") (simp_all add: length_map_set_present map_set_fresh)

definition within_limits :: "explore_options \<Rightarrow> explore_run \<Rightarrow> bool" where
  "within_limits opts run =
     (int (length (rn_plannedActions run)) \<le> max 0 (min (sequence_limit opts) (min (xb_maxDepth (xo_budget opts)) (en_maxDepth (xo_envelope opts))))
      \<and> int (length (rn_states run)) \<le> max 1 (xb_maxStates (xo_budget opts))
      \<and> int (rn_transitionsAttempted run) \<le> max 0 (min (xb_maxTransitions (xo_budget opts)) (en_maxTransitions (xo_envelope opts)))
      \<and> rn_observedActions run = rn_plannedActions run \<and> rn_transitionsAttempted run = length (rn_plannedActions run))"

lemma step_within_limits:
  assumes "within_limits opts run" and "explore_step pf rt opts started (run, w) = Inr (run', w')"
  shows "within_limits opts run'"
  using assms(2)
proof (cases rule: explore_step_cases)
  case ended
  then show ?thesis using assms(1) by (simp add: within_limits_def)
next
  case (acted a time w1 d p r)
  obtain s where s: "rn_states run' = map_set (rn_states run) (xs_stateId s) s" "rn_plannedActions run' = rn_plannedActions run @ [sfa_actionId a]"
      "rn_observedActions run' = rn_observedActions run @ [sfa_actionId a]" "rn_transitionsAttempted run' = rn_transitionsAttempted run + 1"
    using settle_action_Inr [OF acted(5)] by auto
  have "length (rn_states run') \<le> length (rn_states run) + 1" using length_map_set_le s(1) by simp
  then show ?thesis using assms(1) acted(1) s(2-4) by (simp add: within_limits_def limits_reached_def not_le le_max_iff_disj add.commute add1_zle_eq)
qed

text \<open>an exploration plans and executes at most as many actions as budget and envelope allow,
  in sequence length, depth and transitions, and stores at most the allowed number of states.\<close>

theorem exploration_within_limits:
  assumes "runExploration pf rt opts w = Inr (e, w')"
  shows "int (length (xe_plannedActions e)) \<le> max 0 (min (sequence_limit opts) (min (xb_maxDepth (xo_budget opts)) (en_maxDepth (xo_envelope opts))))
    \<and> int (length (xe_plannedActions e)) \<le> max 0 (min (xb_maxTransitions (xo_budget opts)) (en_maxTransitions (xo_envelope opts)))
    \<and> int (length (xe_states e)) \<le> max 1 (xb_maxStates (xo_budget opts)) \<and> xe_observedActions e = xe_plannedActions e"
proof -
  from assms obtain started w1 p s w2 run
    where loop: "explore_loop pf rt opts started (initial_run p (xo_envelope opts) s, w2) = Inr (run, w')"
      and e: "e = evidence_of pf opts (xs_stateId s) run" by (rule run_cases)
  have init: "within_limits opts (initial_run p (xo_envelope opts) s)" by (simp add: within_limits_def initial_run_def)
  have "within_limits opts run \<and> \<not> rn_going run"
    by (rule loop_invariant [where I = "\<lambda>run _. within_limits opts run", OF _ init loop]) (rule step_within_limits)
  then show ?thesis by (simp add: e evidence_of_def within_limits_def)
qed

section \<open>A successful run is clean\<close>

lemma no_termination_zero: "terminationForSafety s u e = None \<Longrightarrow> s = EXPLORATION_ZERO_SAFETY \<and> \<not> u \<and> \<not> e"
  by (cases s) (auto simp: terminationForSafety_def EXPLORATION_ZERO_SAFETY_def split: if_splits)

lemma termination_not_success: "terminationForSafety s u e = Some x \<Longrightarrow> \<not> isSuccessfulPhase4Termination x"
  by (auto simp: terminationForSafety_def isSuccessfulPhase4Termination_def PHASE4_SUCCESS_TERMINATION_REASONS_def split: if_splits)

lemma add_zero_safety [simp]: "addSafety s EXPLORATION_ZERO_SAFETY = s"
  by (simp add: addSafety_def EXPLORATION_ZERO_SAFETY_def)

definition clean_run :: "explore_run \<Rightarrow> bool" where
  "clean_run run = (rn_going run \<or> isSuccessfulPhase4Termination (rn_terminationReason run) \<longrightarrow> rn_safety run = EXPLORATION_ZERO_SAFETY)"

lemma settle_clean:
  assumes "rn_safety run = EXPLORATION_ZERO_SAFETY" and "settle_action pf opts run a i r = Inr run'"
  shows "clean_run run'"
proof (cases "ar_status r = ''ACTION_NOT_AVAILABLE_AT_RUNTIME''")
  case True
  then show ?thesis using assms by (auto simp: settle_action_def clean_run_def dest!: end_with_Inr)
next
  case False
  let ?u = "list_ex (\<lambda>q. no_disposition q = ''ACTION_CAUSED_UNKNOWN'') (ar_semanticRequestDelta r)"
  let ?e = "si_routeClass (ar_nextState r) \<notin> set (en_allowedRoutes (xo_envelope opts)) \<or> si_routeClass (ar_nextState r) \<noteq> sfa_expectedRouteClass a"
  show ?thesis
  proof (cases "terminationForSafety (safetyFromResult r) ?u ?e")
    case (Some x)
    then show ?thesis using assms False termination_not_success [OF Some]
      by (auto simp: settle_action_def Let_def clean_run_def dest!: end_with_Inr)
  next
    case None
    then have "safetyFromResult r = EXPLORATION_ZERO_SAFETY" using no_termination_zero by blast
    then show ?thesis using assms False None
      by (auto simp: settle_action_def Let_def clean_run_def split: if_splits dest!: end_with_Inr advance_Inr)
  qed
qed

lemma step_clean:
  assumes "clean_run run" and "rn_going run" and "explore_step pf rt opts started (run, w) = Inr (run', w')"
  shows "clean_run run'"
  using assms(3)
proof (cases rule: explore_step_cases)
  case ended
  then show ?thesis using assms(1,2) by (simp add: clean_run_def)
next
  case (acted a time w1 d p r)
  then show ?thesis using assms(1,2) by (intro settle_clean [OF _ acted(5)]) (simp add: clean_run_def)
qed

text \<open>C25: an exploration that ends for one of the reasons that count as success has a safety
  vector of zeros: every safety event of an executed action ends the run with another reason.\<close>

theorem successful_exploration_is_clean:
  assumes "runExploration pf rt opts w = Inr (e, w')" and "isSuccessfulPhase4Termination (xe_terminationReason e)"
  shows "xe_safety e = EXPLORATION_ZERO_SAFETY"
proof -
  from assms(1) obtain started w1 p s w2 run
    where loop: "explore_loop pf rt opts started (initial_run p (xo_envelope opts) s, w2) = Inr (run, w')"
      and e: "e = evidence_of pf opts (xs_stateId s) run" by (rule run_cases)
  have init: "clean_run (initial_run p (xo_envelope opts) s)" by (simp add: clean_run_def initial_run_def)
  have "clean_run run \<and> \<not> rn_going run"
    by (rule loop_invariant [where I = "\<lambda>run _. clean_run run", OF _ init loop]) (rule step_clean)
  then show ?thesis using assms(2) by (simp add: e evidence_of_def clean_run_def)
qed

section \<open>The fixture succeeds\<close>

text \<open>In its safe mode the synthetic fixture gives no reason to stop early: its run always ends
  successfully. The invariant ties the engine's current state to the fixture's own.\<close>

definition fixture_follows :: "envelope \<Rightarrow> explore_run \<Rightarrow> state_input \<Rightarrow> bool" where
  "fixture_follows e run current = (safe_state current \<and> si_terminalFlags current = []
     \<and> (rn_going run \<longrightarrow> set (si_availableActionIds (rn_state run)) \<subseteq> set (si_availableActionIds current))
     \<and> (\<not> rn_going run \<longrightarrow> isSuccessfulPhase4Termination (rn_terminationReason run)))"

lemma approved_synthetic:
  assumes "a \<in> set SYNTHETIC_ACTIONS" and "sfa_status a = ''APPROVED''" and "sfa_actionId a \<in> set SYNTHETIC_SAFE_ACTION_IDS"
  shows "si_routeClass (fixture_next (sfa_actionId a) current) = sfa_expectedRouteClass a \<and> sfa_expectedRouteClass a \<in> {''/start'', ''/detail''}
    \<and> si_terminalFlags (fixture_next (sfa_actionId a) current) = []"
proof -
  have "list_all (\<lambda>a. sfa_status a = ''APPROVED'' \<and> sfa_actionId a \<in> set SYNTHETIC_SAFE_ACTION_IDS \<longrightarrow>
      si_routeClass (fixture_next (sfa_actionId a) current) = sfa_expectedRouteClass a \<and> sfa_expectedRouteClass a \<in> {''/start'', ''/detail''}
      \<and> si_terminalFlags (fixture_next (sfa_actionId a) current) = []) SYNTHETIC_ACTIONS"
    by (simp add: SYNTHETIC_ACTIONS_def under_review_def fixture_base_def SYNTHETIC_SAFE_ACTION_IDS_def fixture_next_def fixture_state_def)
  then show ?thesis using assms by (simp add: list_all_iff)
qed

lemma find_None_pairs: "distinct (map fst m) \<Longrightarrow> find (\<lambda>(k, v). map_of m k \<noteq> Some v) m = None"
  by (auto simp: find_None_iff)

lemma synthetic_deltas: "a \<in> set SYNTHETIC_ACTIONS \<Longrightarrow> distinct (map fst (xa_expectedStructuralDelta a))"
  by (auto simp: SYNTHETIC_ACTIONS_def under_review_def fixture_base_def)

lemma fixture_safe_result:
  assumes "a \<in> set SYNTHETIC_ACTIONS" and "sfa_actionId a \<in> set (si_availableActionIds current)" and "fixture_execute Mode_Safe False a current = (r, next)"
  shows "ar_status r = ''COMPLETED'' \<and> ar_nextState r = next \<and> next = fixture_next (sfa_actionId a) current
    \<and> safetyFromResult r = EXPLORATION_ZERO_SAFETY \<and> actionOutcomeMismatch a r = None \<and> \<not> isFatalOracle (ar_oracleResults r)
    \<and> \<not> list_ex (\<lambda>q. no_disposition q = ''ACTION_CAUSED_UNKNOWN'') (ar_semanticRequestDelta r)"
proof -
  have r: "r = fixture_completed a next" and "next": "next = fixture_next (sfa_actionId a) current"
    using assms(2,3) by (auto simp: fixture_execute_def Let_def fixture_available_def)
  have fold: "foldl add_request_safety s (map (\<lambda>f. \<lparr>no_family = f, no_classification = ''KNOWN_READ'', no_disposition = ''KNOWN_READ'',
              no_hostClass = ''TARGET''\<rparr>) fs) = s" for s fs
    by (induction fs) (simp_all add: add_request_safety_def)
  have found: "find (\<lambda>f. f \<notin> set fs) fs = None" for fs :: "string list" by (auto simp: find_None_iff)
  have mapped: "map no_family (filter (\<lambda>q. no_classification q = ''KNOWN_READ'') (ar_semanticRequestDelta (fixture_completed a next)))
      = xa_expectedReadFamilies a" by (simp add: fixture_completed_def comp_def filter_map)
  have fields: "ar_status (fixture_completed a next) = ''COMPLETED''" "ar_structuralDelta (fixture_completed a next) = xa_expectedStructuralDelta a"
      "ar_nextState (fixture_completed a next) = next"
    by (simp_all add: fixture_completed_def)
  have "actionOutcomeMismatch a (fixture_completed a next) = None"
    unfolding actionOutcomeMismatch_def fields mapped Let_def find_None_pairs [OF synthetic_deltas [OF assms(1)]] by (simp add: found)
  moreover have "safetyFromResult (fixture_completed a next) = EXPLORATION_ZERO_SAFETY"
    by (simp add: safetyFromResult_def fixture_completed_def fold)
  moreover have "\<not> isFatalOracle (ar_oracleResults (fixture_completed a next))"
    by (simp add: isFatalOracle_def fixture_completed_def starts_with_def)
  moreover have "\<not> list_ex (\<lambda>q. no_disposition q = ''ACTION_CAUSED_UNKNOWN'') (ar_semanticRequestDelta (fixture_completed a next))"
    by (simp add: fixture_completed_def list_ex_iff)
  ultimately show ?thesis using r "next" fields by simp
qed

lemma created_fields:
  assumes "create_state pf i = Inr s"
  shows "safe_state i \<and> set (si_availableActionIds s) = set (si_availableActionIds i) \<and> si_terminalFlags s = sortedMap (si_terminalFlags i)
    \<and> si_routeClass s = si_routeClass i \<and> si_authStateClass s = si_authStateClass i"
  using assms by (simp add: create_state_def create_Inr_iff state_input.defs sorted_identity_def)

lemma fixture_step_follows:
  assumes I: "fixture_follows (xo_envelope opts) run w" and "rn_going run"
    and step: "explore_step pf (createSyntheticFixture clock Mode_Safe False) opts started (run, w) = Inr (run', w')"
    and opts: "xo_catalog opts = SYNTHETIC_ACTIONS" "en_allowedActionIds (xo_envelope opts) = SYNTHETIC_SAFE_ACTION_IDS"
      "{''/start'', ''/detail''} \<subseteq> set (en_allowedRoutes (xo_envelope opts))"
  shows "fixture_follows (xo_envelope opts) run' w'"
  using step
proof (cases rule: explore_step_cases)
  case ended
  then have "w' = w" by (simp add: createSyntheticFixture_def)
  then show ?thesis using I ended by (auto simp: fixture_follows_def isSuccessfulPhase4Termination_def PHASE4_SUCCESS_TERMINATION_REASONS_def)
next
  case (acted a time w1 d p r)
  have may: "a \<in> set SYNTHETIC_ACTIONS" "sfa_status a = ''APPROVED''" "sfa_actionId a \<in> set SYNTHETIC_SAFE_ACTION_IDS"
      "sfa_actionId a \<in> set (si_availableActionIds (rn_state run))"
    using chosen_may_execute [OF acted(3)] not_excluded(2) by (auto simp: may_execute_def opts)
  have "sfa_actionId a \<in> set (si_availableActionIds w)" using may(4) I assms(2) by (auto simp: fixture_follows_def)
  moreover have "fixture_execute Mode_Safe False a w = (r, w')" using acted(2,4) by (simp add: createSyntheticFixture_def)
  ultimately have res: "ar_status r = ''COMPLETED''" "ar_nextState r = w'" "w' = fixture_next (sfa_actionId a) w"
      "safetyFromResult r = EXPLORATION_ZERO_SAFETY" "actionOutcomeMismatch a r = None" "\<not> isFatalOracle (ar_oracleResults r)"
      "\<not> list_ex (\<lambda>q. no_disposition q = ''ACTION_CAUSED_UNKNOWN'') (ar_semanticRequestDelta r)"
    using fixture_safe_result may(1) by blast+
  have route: "si_routeClass w' = sfa_expectedRouteClass a" "si_routeClass w' \<in> set (en_allowedRoutes (xo_envelope opts))" "si_terminalFlags w' = []"
    using approved_synthetic [OF may(1-3), of w] res(3) opts(3) by auto
  have "\<exists>run0. advance pf run0 a (pd_index d) r = Inr run' \<and> rn_going run0 = rn_going run"
    using acted(5) res route(1,2)
    by (auto simp: settle_action_def Let_def terminationForSafety_def EXPLORATION_ZERO_SAFETY_def)
  then obtain run0 where adv: "advance pf run0 a (pd_index d) r = Inr run'" "rn_going run0" using assms(2) by blast
  obtain s where s: "create_state pf w' = Inr s" "rn_state run' = s"
      "if hasTerminalState s then \<not> rn_going run' \<and> rn_terminationReason run' = Term_MODEL_TERMINAL_STATE else rn_going run' = rn_going run0"
    using advance_Inr [OF adv(1)] res(2) by auto
  note s_eq = created_fields [OF s(1)]
  have "\<not> hasTerminalState s" by (simp add: hasTerminalState_def s_eq route(3) sortedMap_def sort_by_def)
  then show ?thesis using s(2,3) adv(2) s_eq route(3) assms(2) by (simp add: fixture_follows_def)
qed

lemma fixture_collect:
  "foldM_res (collect_available (createSyntheticFixture clock mode u)) (acc, w) as = Inr (ids, v) \<Longrightarrow>
   set ids \<subseteq> set acc \<union> set (si_availableActionIds w) \<and> v = w"
proof (induction as arbitrary: acc)
  case (Cons a as)
  have "collect_available (createSyntheticFixture clock mode u) (acc, w) a
      = Inr (if fixture_available u a w then acc @ [sfa_actionId a] else acc, w)"
    by (simp add: collect_available_def createSyntheticFixture_def)
  with Cons.prems have "foldM_res (collect_available (createSyntheticFixture clock mode u))
      (if fixture_available u a w then acc @ [sfa_actionId a] else acc, w) as = Inr (ids, v)" by simp
  from Cons.IH [OF this] show ?case by (auto simp: fixture_available_def split: if_splits)
qed simp

lemma synthetic_safe_run_succeeds:
  assumes "runExploration pf (createSyntheticFixture clock Mode_Safe False) opts (fixture_start Mode_Safe False) = Inr (e, w')"
    and opts: "xo_catalog opts = SYNTHETIC_ACTIONS" "en_allowedActionIds (xo_envelope opts) = SYNTHETIC_SAFE_ACTION_IDS"
      "{''/start'', ''/detail''} \<subseteq> set (en_allowedRoutes (xo_envelope opts))"
  shows "isSuccessfulPhase4Termination (xe_terminationReason e)"
proof -
  let ?rt = "createSyntheticFixture clock Mode_Safe False" and ?w = "fixture_start Mode_Safe False"
  from assms(1) obtain started w1 p s w2 run where now: "rt_now ?rt ?w = (started, w1)"
    and obs: "observeState pf ?rt (xo_catalog opts) (xo_envelope opts) w1 = Inr (s, w2)"
    and loop: "explore_loop pf ?rt opts started (initial_run p (xo_envelope opts) s, w2) = Inr (run, w')"
    and e: "e = evidence_of pf opts (xs_stateId s) run" by (rule run_cases)
  have current: "rt_currentState ?rt w = Inr (w, w)" for w by (simp add: createSyntheticFixture_def)
  have w1: "w1 = ?w" using now by (simp add: createSyntheticFixture_def)
  obtain ids where ids: "create_state pf (combineInputWithAvailability ?w ids) = Inr s" "set ids \<subseteq> set (si_availableActionIds ?w)" "w2 = ?w"
    proof -
    from obs obtain ids v where "foldM_res (collect_available ?rt) ([], ?w) (filter (\<lambda>a. sfa_actionId a \<in> set (en_allowedActionIds (xo_envelope opts))
          \<and> sfa_status a = ''APPROVED'') (xo_catalog opts)) = Inr (ids, v)" "create_state pf (combineInputWithAvailability ?w ids) = Inr s" "w2 = v"
      by (auto simp: observeState_def w1 current)
    then show thesis using fixture_collect that by fastforce
  qed
  have s: "set (si_availableActionIds s) = set ids" "si_terminalFlags s = []" "si_routeClass s = ''/start''" "si_authStateClass s = ''AUTHENTICATED_DEV''"
    using created_fields [OF ids(1)] by (simp_all add: combineInputWithAvailability_def fixture_start_def fixture_state_def sortedMap_def sort_by_def [of _ "[]"])
  have init: "fixture_follows (xo_envelope opts) (initial_run p (xo_envelope opts) s) w2"
    using s ids(2,3) opts(3) fixture_start_safe [of Mode_Safe False]
    by (auto simp: fixture_follows_def initial_run_def initial_reason_def routeAllowed_def hasTerminalState_def fixture_start_def fixture_state_def)
  have "fixture_follows (xo_envelope opts) run w' \<and> \<not> rn_going run"
    by (rule loop_invariant [where I = "fixture_follows (xo_envelope opts)", OF _ init loop]) (rule fixture_step_follows [OF _ _ _ opts])
  then show ?thesis by (simp add: fixture_follows_def e evidence_of_def)
qed

lemma w_explored:
  "\<exists>e w'. runExploration w_platform (createSyntheticFixture (\<lambda>_. 0) mode False) w_explore (fixture_start mode False) = Inr (e, w')"
  by (rule fixture.exploration_total [where v = 7])
     (simp_all add: fixture_start_safe w_explore_def w_envelope_def synthetic_ids_canonical parse_format
        SYNTHETIC_SAFE_ACTION_IDS_def max_safe_integer_def)

theorem exploration_within_limits_witness:
  "\<exists>e w'. runExploration w_platform (createSyntheticFixture (\<lambda>_. 0) Mode_Unknown False) w_explore (fixture_start Mode_Unknown False) = Inr (e, w')
     \<and> length (xe_plannedActions e) \<le> 6 \<and> length (xe_states e) \<le> 12"
proof -
  obtain e w' where run: "runExploration w_platform (createSyntheticFixture (\<lambda>_. 0) Mode_Unknown False) w_explore (fixture_start Mode_Unknown False) = Inr (e, w')"
    using w_explored by blast
  from exploration_within_limits [OF run] run show ?thesis
    by (auto simp: sequence_limit_def w_explore_def w_budget_def w_envelope_def)
qed

theorem successful_exploration_is_clean_witness:
  "\<exists>e w'. runExploration w_platform (createSyntheticFixture (\<lambda>_. 0) Mode_Safe False) w_explore (fixture_start Mode_Safe False) = Inr (e, w')
     \<and> isSuccessfulPhase4Termination (xe_terminationReason e) \<and> xe_safety e = EXPLORATION_ZERO_SAFETY"
proof -
  obtain e w' where run: "runExploration w_platform (createSyntheticFixture (\<lambda>_. 0) Mode_Safe False) w_explore (fixture_start Mode_Safe False) = Inr (e, w')"
    using w_explored by blast
  moreover have "isSuccessfulPhase4Termination (xe_terminationReason e)"
    using synthetic_safe_run_succeeds [OF run] by (simp add: w_explore_def w_envelope_def)
  ultimately show ?thesis using successful_exploration_is_clean [OF run] by blast
qed

section \<open>The planner's choice\<close>

lemma eligible_excluded_partition:
  "mset (map sfa_actionId (eligible_actions p s e b i cs)) + mset (map fst (excluded_actions p s e b i cs)) = mset (map sfa_actionId cs)"
  by (induction cs) (auto simp: eligible_actions_def excluded_actions_def List.map_filter_simps split: option.split)

lemma select_lists:
  assumes "select le p s catalog e b i = Inr ((d, act), p')"
  shows "pd_eligibleActions d = map sfa_actionId (eligible_actions p s e b i (planner_candidates le catalog e))"
    and "pd_excludedActions d = excluded_actions p s e b i (planner_candidates le catalog e)"
  using assms by (auto simp: select_def Let_def split: if_splits)

text \<open>Everything the planner asks of an action at a state: its route, its structural flags and view state, required and forbidden, that
  the runtime offers it, and that neither visits nor length and depth are used up.\<close>

definition fulfils :: "planner \<Rightarrow> exploration_state \<Rightarrow> envelope \<Rightarrow> exploration_budget \<Rightarrow> nat \<Rightarrow> explore_action \<Rightarrow> bool" where
  "fulfils p s e b i a = (si_routeClass s \<in> set (sfa_routeClasses a) \<and> sfa_actionId a \<in> set (si_availableActionIds s)
     \<and> (\<forall>m. xa_requiredStructuralFlags a = Some m \<longrightarrow> (\<forall>(k, v)\<in>set m. map_of (si_structuralFlags s) k = Some v))
     \<and> (\<forall>m. xa_requiredSafeViewState a = Some m \<longrightarrow> (\<forall>(k, v)\<in>set m. map_of (si_safeViewState s) k = Some v))
     \<and> (\<forall>m. xa_forbiddenSafeViewState a = Some m \<longrightarrow> (\<forall>(k, v)\<in>set m. map_of (si_safeViewState s) k \<noteq> Some v))
     \<and> int (transitionVisitCount p (xs_stateId s) (sfa_actionId a)) < en_maxTransitionVisits e
     \<and> int (stateVisitCount p (xs_stateId s)) \<le> en_maxStateVisits e
     \<and> int i < min (xb_maxActionsPerSequence b) (en_maxActionsPerSequence e) \<and> int i < min (xb_maxDepth b) (en_maxDepth e))"

lemma map_matches_iff: "mapMatches actual m \<longleftrightarrow> (\<forall>f. m = Some f \<longrightarrow> (\<forall>(k, v)\<in>set f. map_of actual k = Some v))"
  by (auto simp: mapMatches_def list_all_iff split: option.split)

lemma forbidden_iff: "\<not> hasForbiddenMatch actual m \<longleftrightarrow> (\<forall>f. m = Some f \<longrightarrow> (\<forall>(k, v)\<in>set f. map_of actual k \<noteq> Some v))"
  by (auto simp: hasForbiddenMatch_def list_ex_iff split: option.split)

lemma fulfils_iff:
  "exclusion p s e b i a = None \<longleftrightarrow> fulfils p s e b i a \<and> sfa_status a = ''APPROVED'' \<and> sfa_semanticClass a \<in> {''KNOWN_READ'', ''LOCAL_ONLY''}"
proof -
  have step: "(if c then Some x else y) = None \<longleftrightarrow> \<not> c \<and> y = None" for c :: bool and x :: exclusion_reason and y by simp
  show ?thesis
    unfolding fulfils_def map_matches_iff [symmetric] forbidden_iff [symmetric] exclusion_def step
    by (simp only: de_Morgan_disj not_le not_less not_not simp_thms insert_iff empty_iff) blast
qed

text \<open>C23: the planner's decision accounts for every allowed action of the catalog exactly once, as
  eligible or as excluded with a reason. The eligible ones are exactly the approved, read-only ones that fulfil every precondition, visit
  limit and length limit. It chooses an action whenever one is eligible, and the chosen one was tried at this state no more often than
  any other.\<close>

theorem planner_choice_is_fair:
  assumes "select le p s catalog e b i = Inr ((d, chosen), p')"
  shows "mset (pd_eligibleActions d) + mset (map fst (pd_excludedActions d)) = mset (map sfa_actionId (planner_candidates le catalog e))
    \<and> pd_eligibleActions d = map sfa_actionId (filter (\<lambda>a. fulfils p s e b i a \<and> may_execute catalog e a) (planner_candidates le catalog e))
    \<and> (case chosen of
         None \<Rightarrow> pd_eligibleActions d = [] \<and> pd_chosenAction d = None
       | Some a \<Rightarrow> pd_chosenAction d = Some (sfa_actionId a) \<and> sfa_actionId a \<in> set (pd_eligibleActions d) \<and> may_execute catalog e a
           \<and> fulfils p s e b i a
           \<and> list_all (\<lambda>x. transitionVisitCount p (xs_stateId s) (sfa_actionId a) \<le> transitionVisitCount p (xs_stateId s) x) (pd_eligibleActions d))"
proof -
  let ?es = "eligible_actions p s e b i (planner_candidates le catalog e)"
  note lists = select_lists [OF assms]
  have "case chosen of
         None \<Rightarrow> pd_eligibleActions d = [] \<and> pd_chosenAction d = None
       | Some a \<Rightarrow> pd_chosenAction d = Some (sfa_actionId a) \<and> sfa_actionId a \<in> set (pd_eligibleActions d) \<and> may_execute catalog e a
           \<and> fulfils p s e b i a
           \<and> list_all (\<lambda>x. transitionVisitCount p (xs_stateId s) (sfa_actionId a) \<le> transitionVisitCount p (xs_stateId s) x) (pd_eligibleActions d)"
    using assms
  proof (cases rule: select_cases)
    case (some a)
    have mem: "a \<in> set ?es" using some(3) frontier_subset by blast
    have may: "may_execute catalog e a" and ex: "exclusion p s e b i a = None" using eligible_may_execute [OF mem] by blast+
    have "\<forall>x\<in>set ?es. transitionVisitCount p (xs_stateId s) (sfa_actionId a) \<le> transitionVisitCount p (xs_stateId s) (sfa_actionId x)"
      using frontier_least [OF some(3)] by blast
    then show ?thesis using some(1,2) may fulfils_iff [of p s e b i a] ex mem
      by (simp add: lists list_all_iff)
  qed (simp add: lists)
  moreover have "?es = filter (\<lambda>a. fulfils p s e b i a \<and> may_execute catalog e a) (planner_candidates le catalog e)"
    unfolding eligible_actions_def by (rule filter_cong) (auto simp: fulfils_iff may_execute_def dest: candidate_sound)
  ultimately show ?thesis
    using eligible_excluded_partition [of p s e b i "planner_candidates le catalog e"] by (simp only: lists simp_thms)
qed

definition w_planner :: planner where
  "w_planner = \<lparr>pl_rng = \<lparr>sm_seed = ''7'', sm_state = 7, sm_index = 0\<rparr>, pl_visits = [], pl_stateVisits = [], pl_transitionVisits = []\<rparr>"

definition w_state :: exploration_state where
  "w_state = state_input.extend (fixture_start Mode_Safe False) \<lparr>xs_schemaVersion = ''v'', xs_stateId = ''s''\<rparr>"

theorem planner_choice_is_fair_witness:
  "\<exists>d a p'. select str_le w_planner w_state SYNTHETIC_ACTIONS w_envelope w_budget 0 = Inr ((d, Some a), p') \<and> may_execute SYNTHETIC_ACTIONS w_envelope a"
proof -
  let ?a = "fixture_base ''fixture.safe-a'' ''TOGGLE_LOCAL_VIEW'' ''/start'' ''a''"
  let ?cs = "planner_candidates str_le SYNTHETIC_ACTIONS w_envelope"
  obtain d chosen p' where sel: "select str_le w_planner w_state SYNTHETIC_ACTIONS w_envelope w_budget 0 = Inr ((d, chosen), p')"
    using select_total [of w_envelope str_le w_planner w_state SYNTHETIC_ACTIONS w_budget 0]
    by (auto simp: w_envelope_def SYNTHETIC_SAFE_ACTION_IDS_def max_safe_integer_def)
  have "map_get (catalog_by_id SYNTHETIC_ACTIONS) ''fixture.safe-a'' = Some ?a"
    by (simp add: catalog_by_id_def SYNTHETIC_ACTIONS_def map_get_def map_set_def under_review_def fixture_base_def)
  then have cand: "?a \<in> set ?cs"
    by (auto simp: planner_candidates_def set_map_filter w_envelope_def SYNTHETIC_SAFE_ACTION_IDS_def)
  have "exclusion w_planner w_state w_envelope w_budget 0 ?a = None"
    by (simp add: exclusion_def w_state_def w_planner_def w_envelope_def w_budget_def fixture_base_def fixture_start_def fixture_state_def
        state_input.defs mapMatches_def hasForbiddenMatch_def SYNTHETIC_SAFE_ACTION_IDS_def transitionVisitCount_def stateVisitCount_def
        visit_count_def map_get_def)
  with cand have "pd_eligibleActions d \<noteq> []"
    by (auto simp: select_lists(1) [OF sel] eligible_actions_def filter_empty_conv)
  then obtain a where "chosen = Some a" "may_execute SYNTHETIC_ACTIONS w_envelope a"
    using planner_choice_is_fair [OF sel] by (auto split: option.splits)
  then show ?thesis using sel by blast
qed

end
