(* ===== verification/Exploration_Replay.thy ===== *)
theory Exploration_Replay imports Exploration_Properties begin

text \<open>
  Exact replay, the second half of \<open>src/core/exploration/engine.ts\<close>: what a strict match says
  about the executed actions and the states reached, and where safety events are not looked at.
\<close>

section \<open>A strict match\<close>

lemma replay_from_strict:
  assumes "replay_from pf rt args s index obs sids tids is w = Inr (x, w')" and "xr_status x = STRICT_MATCH"
  shows "xr_observedActions x = obs @ is
    \<and> xr_stateIds x = sids @ take (length is) (drop (Suc index) (ra_expectedStateIds args))
    \<and> xr_transitionIds x = tids @ take (length is) (drop index (ra_expectedTransitionIds args))
    \<and> (is \<noteq> [] \<longrightarrow> index + length is < length (ra_expectedStateIds args) \<and> index + length is \<le> length (ra_expectedTransitionIds args))
    \<and> xr_firstDivergentIndex x = None \<and> set is \<subseteq> set (en_allowedActionIds (ra_envelope args))"
  using assms
proof (induction "is" arbitrary: s index obs sids tids w)
  case Nil
  then have "x = \<lparr>xr_status = STRICT_MATCH, xr_observedActions = obs, xr_stateIds = sids, xr_transitionIds = tids,
      xr_firstDivergentIndex = None, xr_terminationReason = None\<rparr>" by simp
  then show ?case by simp
next
  case (Cons i "is")
  from Cons.prems obtain a r w1 t tid where "replay_admits args s i = Some a" "rt_execute rt a w = Inr (r, w1)"
    and at: "list_at (ra_expectedStateIds args) (index + 1) = Some (xs_stateId t)" "list_at (ra_expectedTransitionIds args) index = Some tid"
    and rest: "replay_from pf rt args t (index + 1) (obs @ [i]) (sids @ [xs_stateId t]) (tids @ [tid]) is w1 = Inr (x, w')"
    by (auto simp: Let_def replay_ended_def split: option.splits if_splits)
  have allowed: "i \<in> set (en_allowedActionIds (ra_envelope args))"
    using \<open>replay_admits args s i = Some a\<close> by (simp add: replay_admits_def split: option.splits if_splits)
  have at': "Suc index < length (ra_expectedStateIds args)" "ra_expectedStateIds args ! Suc index = xs_stateId t"
    "index < length (ra_expectedTransitionIds args)" "ra_expectedTransitionIds args ! index = tid"
    using at by (auto simp: list_at_def split: if_splits)
  note IH = Cons.IH [OF rest Cons.prems(2)]
  have "drop (Suc index) (ra_expectedStateIds args) = xs_stateId t # drop (Suc (Suc index)) (ra_expectedStateIds args)"
    "drop index (ra_expectedTransitionIds args) = tid # drop (Suc index) (ra_expectedTransitionIds args)"
    using at' Cons_nth_drop_Suc by metis+
  then show ?case using IH at' allowed by (cases "is") auto
qed

text \<open>C27: when an exact replay reports a strict match, the actions it executed are the requested ones,
  all of them allowed by the envelope, the states and transitions it went through are the expected
  ones, element by element, and there was an expectation for each.\<close>

theorem strict_replay_is_exact:
  assumes "replayExactSequence pf rt args w = Inr (x, w')" and "xr_status x = STRICT_MATCH"
  shows "xr_observedActions x = ra_actionIds args
    \<and> xr_stateIds x = ra_initialStateId args # take (length (ra_actionIds args)) (drop 1 (ra_expectedStateIds args))
    \<and> xr_transitionIds x = take (length (ra_actionIds args)) (ra_expectedTransitionIds args)
    \<and> length (xr_stateIds x) = length (ra_actionIds args) + 1 \<and> length (xr_transitionIds x) = length (ra_actionIds args)
    \<and> xr_firstDivergentIndex x = None \<and> set (ra_actionIds args) \<subseteq> set (en_allowedActionIds (ra_envelope args))"
proof -
  from assms obtain s w1 where init: "xs_stateId s = ra_initialStateId args"
    and run: "replay_from pf rt args s 0 [] [xs_stateId s] [] (ra_actionIds args) w1 = Inr (x, w')"
    by (auto simp: replayExactSequence_def replay_ended_def split: if_splits)
  show ?thesis using replay_from_strict [OF run assms(2)] init by (cases "ra_actionIds args = []") auto
qed

lemma fixture_collect_exact:
  "foldM_res (collect_available (createSyntheticFixture clock mode u)) (acc, w) as
     = Inr (acc @ map sfa_actionId (filter (\<lambda>a. fixture_available u a w) as), w)"
proof (induction as arbitrary: acc)
  case (Cons a as)
  have "collect_available (createSyntheticFixture clock mode u) (acc, w) a
      = Inr (if fixture_available u a w then acc @ [sfa_actionId a] else acc, w)"
    by (simp add: collect_available_def createSyntheticFixture_def)
  then show ?case by (simp add: Cons.IH)
qed simp

definition w_replay :: "string \<Rightarrow> string list \<Rightarrow> string list \<Rightarrow> replay_args" where
  "w_replay initial sids tids = \<lparr>ra_initialStateId = initial, ra_actionIds = [''fixture.safe-a''], ra_expectedStateIds = sids,
     ra_expectedTransitionIds = tids, ra_catalog = SYNTHETIC_ACTIONS, ra_envelope = w_envelope\<rparr>"

lemma w_replay_fields [simp]:
  "ra_initialStateId (w_replay i ss ts) = i" "ra_actionIds (w_replay i ss ts) = [''fixture.safe-a'']"
  "ra_expectedStateIds (w_replay i ss ts) = ss" "ra_expectedTransitionIds (w_replay i ss ts) = ts"
  "ra_catalog (w_replay i ss ts) = SYNTHETIC_ACTIONS" "ra_envelope (w_replay i ss ts) = w_envelope"
  "en_allowedRoutes w_envelope = [''/start'', ''/detail'']" "en_allowedActionIds w_envelope = SYNTHETIC_SAFE_ACTION_IDS"
  by (simp_all add: w_replay_def w_envelope_def)

lemma zero_is_harmless: "replay_safety_reason EXPLORATION_ZERO_SAFETY = None"
  by (simp add: replay_safety_reason_def EXPLORATION_ZERO_SAFETY_def)

lemma w_strict:
  "\<exists>i t u x w'. replayExactSequence w_platform (createSyntheticFixture (\<lambda>_. 0) Mode_Safe False) (w_replay i [i, t] [u])
       (fixture_start Mode_Safe False) = Inr (x, w') \<and> xr_status x = STRICT_MATCH"
proof -
  let ?rt = "createSyntheticFixture (\<lambda>_. 0) Mode_Safe False" and ?w = "fixture_start Mode_Safe False"
  let ?a = "fixture_base ''fixture.safe-a'' ''TOGGLE_LOCAL_VIEW'' ''/start'' ''a''"
  let ?ids = "map sfa_actionId (filter (\<lambda>a. fixture_available False a ?w)
      (filter (\<lambda>a. sfa_actionId a \<in> set SYNTHETIC_SAFE_ACTION_IDS \<and> sfa_status a = ''APPROVED'') SYNTHETIC_ACTIONS))"
  obtain s v where obs: "observeState w_platform ?rt SYNTHETIC_ACTIONS w_envelope ?w = Inr (s, v)"
    using fixture.observe_total [OF fixture_start_safe] synthetic_ids_canonical by blast
  have cur: "rt_currentState ?rt ?w = Inr (?w, ?w)" by (simp add: createSyntheticFixture_def)
  from obs have s: "create_state w_platform (combineInputWithAvailability ?w ?ids) = Inr s" "v = ?w"
    by (auto simp: observeState_def cur fixture_collect_exact w_envelope_def)
  have in_a: "?a \<in> set SYNTHETIC_ACTIONS" "sfa_actionId ?a = ''fixture.safe-a''" "sfa_status ?a = ''APPROVED''"
    by (simp_all add: SYNTHETIC_ACTIONS_def fixture_base_def)
  have avail: "''fixture.safe-a'' \<in> set (si_availableActionIds ?w)" "''fixture.safe-a'' \<in> set SYNTHETIC_SAFE_ACTION_IDS"
    by (simp_all add: fixture_start_def fixture_state_def SYNTHETIC_SAFE_ACTION_IDS_def)
  have "''fixture.safe-a'' \<in> set ?ids"
    using in_a avail by (force simp: fixture_available_def)
  then have in_s: "''fixture.safe-a'' \<in> set (si_availableActionIds s)" "si_routeClass s = ''/start''"
    using created_fields [OF s(1)] by (simp_all add: combineInputWithAvailability_def fixture_start_def fixture_state_def)
  obtain r w' where ex: "fixture_execute Mode_Safe False ?a ?w = (r, w')" by force
  have res: "ar_status r = ''COMPLETED''" "ar_nextState r = w'" "w' = fixture_next ''fixture.safe-a'' ?w"
      "safetyFromResult r = EXPLORATION_ZERO_SAFETY" "actionOutcomeMismatch ?a r = None"
    using fixture_safe_result [OF in_a(1) _ ex] avail(1) in_a(2) by simp_all
  have "safe_state w'" using fixture_next_safe [OF fixture_start_safe] res(3) by simp
  then obtain t where t: "create_state w_platform w' = Inr t" using fixture.create_total by blast
  have route: "si_routeClass t = ''/start''" using created_fields [OF t] res(3) by (simp add: fixture_next_def fixture_state_def)
  let ?args = "\<lambda>t u. w_replay (xs_stateId s) [xs_stateId s, t] [u]"
  have byid: "map_get (catalog_by_id SYNTHETIC_ACTIONS) ''fixture.safe-a'' = Some ?a"
    by (simp add: catalog_by_id_def SYNTHETIC_ACTIONS_def map_get_def map_set_def under_review_def fixture_base_def)
  have admits: "replay_admits (?args t' u) s ''fixture.safe-a'' = Some ?a" for t' u
    using in_s avail(2) byid by (simp add: replay_admits_def fixture_base_def replayPreconditionHolds_def entries_hold_def)
  let ?u = "tr_transitionId (createTransition (pf_sha w_platform) (pf_num w_platform)
       (transition_of (xs_stateId s) ?a 0 (xs_stateId t) (ar_status r) r (ar_oracleResults r) EXPLORATION_ZERO_SAFETY Runtime_Observed))"
  have exec: "rt_execute ?rt ?a ?w = Inr (r, w')" by (simp add: createSyntheticFixture_def ex)
  have "sfa_expectedRouteClass ?a = ''/start''" by (simp add: fixture_base_def)
  then have "\<exists>x. replay_from w_platform ?rt (?args (xs_stateId t) ?u) s 0 [] [xs_stateId s] [] [''fixture.safe-a''] ?w = Inr (x, w') \<and> xr_status x = STRICT_MATCH"
    using res(1,5) t res(2) route
    by (simp add: admits exec res(4) zero_is_harmless routeAllowed_def list_at_def Let_def)
  moreover have "observeState w_platform ?rt (ra_catalog (?args (xs_stateId t) ?u)) (ra_envelope (?args (xs_stateId t) ?u)) ?w = Inr (s, ?w)"
    using obs s(2) by simp
  ultimately show ?thesis
    by (intro exI [of _ "xs_stateId s"] exI [of _ "xs_stateId t"] exI [of _ ?u]) (auto simp: replayExactSequence_def)
qed


theorem strict_replay_is_exact_witness:
  "\<exists>i t u x w'. replayExactSequence w_platform (createSyntheticFixture (\<lambda>_. 0) Mode_Safe False) (w_replay i [i, t] [u])
       (fixture_start Mode_Safe False) = Inr (x, w') \<and> xr_observedActions x = [''fixture.safe-a''] \<and> xr_stateIds x = [i, t] \<and> xr_transitionIds x = [u]"
proof -
  obtain i t u x w' where run: "replayExactSequence w_platform (createSyntheticFixture (\<lambda>_. 0) Mode_Safe False) (w_replay i [i, t] [u])
       (fixture_start Mode_Safe False) = Inr (x, w')" "xr_status x = STRICT_MATCH" using w_strict by blast
  have "xr_observedActions x = [''fixture.safe-a''] \<and> xr_stateIds x = [i, t] \<and> xr_transitionIds x = [u]"
    using strict_replay_is_exact [OF run] by (simp add: w_replay_def)
  then show ?thesis using run(1) by blast
qed


section \<open>Safety events that get lost\<close>

text \<open>
  An action the runtime reports as unavailable ends the run before its safety events are added;
  the same holds for every event of its requests. A replay looks at four of the seven counters.
\<close>

lemma unavailable_action_drops_safety:
  assumes "ar_status r = ''ACTION_NOT_AVAILABLE_AT_RUNTIME''" and "settle_action pf opts run a i r = Inr run'"
  shows "rn_safety run' = rn_safety run \<and> rn_terminationReason run' = Term_RUNTIME_FAILURE"
proof -
  have "end_with pf (run\<lparr>rn_unavailable := rn_unavailable run + 1\<rparr>) a i r (ar_status r) [''ACTION_NOT_AVAILABLE_AT_RUNTIME''] Blocked
      Term_RUNTIME_FAILURE = Inr run'" using assms by (simp add: settle_action_def)
  from end_with_Inr [OF this] show ?thesis by simp
qed

lemma replay_overlooks_violations:
  assumes "0 < n"
  shows "replay_safety_reason (EXPLORATION_ZERO_SAFETY\<lparr>sv_proxyViolations := n, sv_unknownApprovals := n, sv_dbQueries := n\<rparr>) = None"
    and "terminationForSafety (EXPLORATION_ZERO_SAFETY\<lparr>sv_proxyViolations := n, sv_unknownApprovals := n, sv_dbQueries := n\<rparr>) u e
      = Some Term_SAFETY_BLOCK"
  using assms by (simp_all add: replay_safety_reason_def terminationForSafety_def EXPLORATION_ZERO_SAFETY_def)

end
