(* ===== verification/Agent_Protocol.thy ===== *)
theory Agent_Protocol imports Runtime_Validation Canonical_Digest begin

text \<open>
  What a reasoner may ask for: the owner's scope policy (\<open>src/core/policy/ownerScope.ts\<close>), the
  intents, the tool catalog and the fail-closed validators of a reasoner's answer
  (\<open>src/core/agentProtocol/intents.ts\<close>, \<open>tools.ts\<close>, \<open>closedVocabulary.ts\<close>, \<open>validate.ts\<close>). The
  answer is a JSON value. A rejection is the failure class, a string; SHA-256, number text and
  \<open>localeCompare\<close> are the parameters of \<open>Canonical_Digest\<close>.
\<close>

section \<open>Owner policy\<close>

definition ALLOWED_OPERATIONS :: "string list" where
  "ALLOWED_OPERATIONS = [''LOCAL_SOURCE_INTELLIGENCE'', ''READ_ONLY_GIT_SNAPSHOT'', ''CONTAINED_DEV_BROWSER'', ''CONTAINED_DEV_API'',
     ''DETERMINISTIC_REPLAY'', ''SYNTHETIC_FIXTURE'', ''PRIVATE_EVIDENCE'', ''PRIVATE_TRIAGE'', ''AI_REVIEW_LOCAL'',
     ''AI_ORACLE_SUGGESTION_LOCAL'', ''SELF_DEVELOPMENT_SYNTHETIC_EVALUATION'', ''SELF_DEVELOPMENT_SANDBOX_ADOPTION'',
     ''SELF_DEVELOPMENT_CANONICAL_ADOPTION'', ''AUTONOMOUS_AGENT_LOCAL'']"

definition FROZEN_OWNER_OPERATIONS :: "string list" where
  "FROZEN_OWNER_OPERATIONS = [''GCP_INFRASTRUCTURE_ARCHAEOLOGY'', ''GKE_METADATA_INVESTIGATION'', ''KUBERNETES'', ''KUBECTL'',
     ''CLOUD_ASSET'', ''CLOUD_BUILD_DEPLOYMENT_ARCHAEOLOGY'', ''CLOUD_LOGGING_INFRASTRUCTURE_ARCHAEOLOGY'',
     ''ARTIFACT_REGISTRY_DEPLOYMENT_INVESTIGATION'', ''SERVICE_ACCOUNT_INVESTIGATION'', ''DEPLOYMENT_CONFIGURATION'',
     ''AWS_INFRASTRUCTURE_ARCHAEOLOGY'', ''AWS_STS_INFRA_DISCOVERY'', ''AWS_IAM_INFRA_DISCOVERY'',
     ''AWS_RUNTIME_ROLE_INVESTIGATION'', ''AWS_ACCOUNT_DISCOVERY'', ''DYNAMODB_DATA_ORACLE'', ''BIGQUERY_DATA_ORACLE'',
     ''SPANNER_DATA_ORACLE'', ''PRODUCTION_SQL'', ''DATASTORE_METADATA_DISCOVERY'', ''EXTERNAL_TEAM_REQUEST'', ''EXTERNAL_PUBLICATION'']"

text \<open>\<open>replace(/[\s-]+/g, '_')\<close>: every maximal run of blanks and hyphens becomes one underscore.\<close>

fun squash_runs :: "bool \<Rightarrow> string \<Rightarrow> string" where
  "squash_runs inside [] = []"
| "squash_runs inside (c # s) =
     (if is_space c \<or> c = CHR ''-'' then (if inside then squash_runs True s else CHR ''_'' # squash_runs True s)
      else c # squash_runs False s)"

definition canonicalOperation :: "string \<Rightarrow> string" where
  "canonicalOperation operation = squash_runs False (upper (trim operation))"

record owner_decision =
  od_allowed :: bool
  od_code :: string
  od_operation :: string
  od_reason :: string

definition decideOwnerScope :: "string \<Rightarrow> owner_decision" where
  "decideOwnerScope operation =
     (let normalized = canonicalOperation operation; allowed = normalized \<in> set ALLOWED_OPERATIONS
      in \<lparr>od_allowed = allowed, od_code = (if allowed then ''OWNER_POLICY_ALLOWED'' else ''OWNER_POLICY_BLOCKED''),
          od_operation = (if normalized = [] then ''UNKNOWN_OPERATION'' else normalized),
          od_reason = (if allowed then ''owner-approved local/application scope''
                       else ''INFRASTRUCTURE_AND_DATA_LAYER_OUT_OF_SCOPE'')\<rparr>)"

definition owner_blocked_message :: "string \<Rightarrow> string" where
  "owner_blocked_message operation = ''OWNER_POLICY_BLOCKED: '' @ safeErrorDetail (od_operation (decideOwnerScope operation))"

definition assertOwnerPolicyAllows :: "string \<Rightarrow> unit checked" where
  "assertOwnerPolicyAllows operation =
     (let decision = decideOwnerScope operation
      in if \<not> od_allowed decision then Inl (owner_blocked_message (od_operation decision)) else Inr ())"

definition executeOwnerScoped :: "string \<Rightarrow> (unit \<Rightarrow> 'a checked) \<Rightarrow> 'a checked" where
  "executeOwnerScoped operation executor = bind_res (assertOwnerPolicyAllows operation) (\<lambda>_. executor ())"

definition isOwnerPolicyBlocked :: "string \<Rightarrow> bool" where
  "isOwnerPolicyBlocked operation = (\<not> od_allowed (decideOwnerScope operation))"

section \<open>Tools\<close>

record agent_tool =
  tl_id :: string
  tl_authorizationClass :: string
  tl_environment :: string
  tl_networkContactClass :: string
  tl_mutationCapability :: string
  tl_budgetImpact :: string

definition catalog_tool :: "string \<Rightarrow> string \<Rightarrow> string \<Rightarrow> string \<Rightarrow> string \<Rightarrow> agent_tool" where
  "catalog_tool i auth env contact impact = \<lparr>tl_id = i, tl_authorizationClass = auth, tl_environment = env,
     tl_networkContactClass = contact, tl_mutationCapability = ''NONE'', tl_budgetImpact = impact\<rparr>"

definition AGENT_TOOL_CATALOG :: "agent_tool list" where
  "AGENT_TOOL_CATALOG =
     [catalog_tool ''INSPECT_SOURCE_SURFACE'' ''LOCAL_SOURCE_INTELLIGENCE'' ''LOCAL'' ''NONE'' ''READ'',
      catalog_tool ''QUERY_SYSTEM_MAP'' ''LOCAL_SOURCE_INTELLIGENCE'' ''LOCAL'' ''NONE'' ''READ'',
      catalog_tool ''QUERY_BUG_ATLAS'' ''LOCAL_SOURCE_INTELLIGENCE'' ''LOCAL'' ''READ_ONLY_GIT'' ''READ'',
      catalog_tool ''QUERY_SYSTEM_ATLAS'' ''LOCAL_SOURCE_INTELLIGENCE'' ''LOCAL'' ''NONE'' ''READ'',
      catalog_tool ''RETRIEVE_SANITIZED_EVIDENCE'' ''PRIVATE_EVIDENCE'' ''LOCAL'' ''NONE'' ''READ'',
      catalog_tool ''REQUEST_ROUTE_CONTRACT_PROOF'' ''LOCAL_SOURCE_INTELLIGENCE'' ''LOCAL'' ''NONE'' ''READ'',
      catalog_tool ''REQUEST_BROWSER_OBSERVATION'' ''CONTAINED_DEV_BROWSER'' ''DEV'' ''CONTAINED_BROWSER'' ''OBSERVE'',
      catalog_tool ''REQUEST_API_OBSERVATION'' ''CONTAINED_DEV_API'' ''DEV'' ''CONTAINED_API'' ''OBSERVE'',
      catalog_tool ''COMPARE_OBSERVATIONS'' ''PRIVATE_TRIAGE'' ''LOCAL'' ''NONE'' ''TRIAGE'',
      catalog_tool ''RERUN_SAFE_REPRODUCTION'' ''DETERMINISTIC_REPLAY'' ''LOCAL'' ''NONE'' ''REPLAY'',
      catalog_tool ''ASK_DETERMINISTIC_ORACLE'' ''SYNTHETIC_FIXTURE'' ''LOCAL'' ''NONE'' ''TRIAGE'',
      catalog_tool ''REQUEST_FINDING_PROPOSAL'' ''PRIVATE_TRIAGE'' ''LOCAL'' ''NONE'' ''TRIAGE'',
      catalog_tool ''REQUEST_RELATED_HISTORICAL_BUGS'' ''LOCAL_SOURCE_INTELLIGENCE'' ''LOCAL'' ''READ_ONLY_GIT'' ''READ'']"

text \<open>\<open>new Map(entries)\<close>, read by own membership only.\<close>

definition closedLookup :: "(string \<times> 'a) list \<Rightarrow> (string \<times> 'a) list" where
  "closedLookup entries = foldl (\<lambda>m (k, v). map_set m k v) [] entries"

definition TOOL_BY_ID :: "(string \<times> agent_tool) list" where
  "TOOL_BY_ID = closedLookup (map (\<lambda>t. (tl_id t, t)) AGENT_TOOL_CATALOG)"

definition lookupAgentTool :: "string \<Rightarrow> agent_tool option" where
  "lookupAgentTool toolId = map_get TOOL_BY_ID toolId"

definition isAgentToolId :: "json \<Rightarrow> bool" where
  "isAgentToolId v = (case v of JStr s \<Rightarrow> map_has TOOL_BY_ID s | _ \<Rightarrow> False)"

definition closedVocabulary :: "string list \<Rightarrow> json option \<Rightarrow> bool" where
  "closedVocabulary values v = (case v of Some (JStr s) \<Rightarrow> s \<in> set values | _ \<Rightarrow> False)"

section \<open>Intents\<close>

definition AGENT_INTENT_KINDS :: "string list" where
  "AGENT_INTENT_KINDS = [''CALL_TOOL'', ''FORM_HYPOTHESIS'', ''PROPOSE_CANDIDATE'', ''REJECT_CANDIDATE'', ''REPLAN'', ''PAUSE'',
     ''CANCEL'', ''TERMINATE'']"

definition UNSAFE_INTENT_KINDS :: "string list" where
  "UNSAFE_INTENT_KINDS = [''SHELL'', ''GIT_MUTATION'', ''RAW_PLAYWRIGHT'', ''RAW_NETWORK'', ''CREDENTIAL_ACCESS'', ''FILESYSTEM_WRITE'',
     ''PRODUCTION_CONTACT'', ''SLACK'', ''LESLIE'', ''PONDR'', ''NOTION'', ''EXTERNAL_PUBLICATION'']"

datatype agent_termination = COMPLETE_WITH_FINDING | COMPLETE_NO_FINDING | Agent_BUDGET_EXHAUSTED | Agent_CANCELLED | Agent_PAUSED
  | Agent_SAFETY_BLOCKED | Agent_NO_PROGRESS | Agent_REASONER_FAILURE

fun termination_text :: "agent_termination \<Rightarrow> string" where
  "termination_text COMPLETE_WITH_FINDING = ''COMPLETE_WITH_FINDING''"
| "termination_text COMPLETE_NO_FINDING = ''COMPLETE_NO_FINDING''"
| "termination_text Agent_BUDGET_EXHAUSTED = ''BUDGET_EXHAUSTED''"
| "termination_text Agent_CANCELLED = ''CANCELLED''"
| "termination_text Agent_PAUSED = ''PAUSED''"
| "termination_text Agent_SAFETY_BLOCKED = ''SAFETY_BLOCKED''"
| "termination_text Agent_NO_PROGRESS = ''NO_PROGRESS''"
| "termination_text Agent_REASONER_FAILURE = ''REASONER_FAILURE''"

definition AGENT_TERMINATION_REASONS :: "agent_termination list" where
  "AGENT_TERMINATION_REASONS = [COMPLETE_WITH_FINDING, COMPLETE_NO_FINDING, Agent_BUDGET_EXHAUSTED, Agent_CANCELLED, Agent_PAUSED,
     Agent_SAFETY_BLOCKED, Agent_NO_PROGRESS, Agent_REASONER_FAILURE]"

datatype agent_intent =
    Call_Tool string string "(string \<times> json) list"
  | Form_Hypothesis string string "string list"
  | Propose_Candidate string "string list"
  | Reject_Candidate string string
  | Replan string
  | Pause_Intent
  | Cancel_Intent
  | Terminate agent_termination

record hypothesis_draft =
  hd_hypothesisId :: string
  hd_statement :: string
  hd_evidenceRefs :: "string list"

definition proposeCandidateRequiresEvidence :: "agent_intent \<Rightarrow> bool" where
  "proposeCandidateRequiresEvidence i = (case i of Propose_Candidate c refs \<Rightarrow> refs \<noteq> [] | _ \<Rightarrow> True)"

section \<open>Secrets\<close>

definition secret_bearer_at :: "string \<Rightarrow> bool" where
  "secret_bearer_at t = (starts_with ''Bearer'' t
     \<and> (let rest = drop 6 t; blanks = length (takeWhile is_space rest)
        in 1 \<le> blanks \<and> run_of (\<lambda>c. is_alnum c \<or> c \<in> set ''._~+/=-'') 8 (drop blanks rest)))"

definition jwt_char :: "char \<Rightarrow> bool" where
  "jwt_char c = (is_alnum c \<or> c \<in> set ''_-'')"

definition secret_jwt_at :: "string \<Rightarrow> bool" where
  "secret_jwt_at t = (starts_with ''eyJ'' t
     \<and> (let head = takeWhile jwt_char (drop 3 t)
        in 8 \<le> length head
          \<and> (case drop (3 + length head) t of c # rest \<Rightarrow> c = CHR ''.'' \<and> run_of jwt_char 8 rest | [] \<Rightarrow> False)))"

definition secret_key_at :: "string \<Rightarrow> bool" where
  "secret_key_at t = (starts_with ''-----BEGIN '' t
     \<and> (let rest = drop 11 t
        in list_ex (\<lambda>k. starts_with ''PRIVATE KEY-----'' (drop k rest))
             [0..<Suc (length (takeWhile (\<lambda>c. is_upper_letter c \<or> c = CHR '' '') rest))]))"

definition secret_at :: "string \<Rightarrow> bool" where
  "secret_at t = (secret_bearer_at t \<or> secret_jwt_at t
     \<or> (starts_with ''AKIA'' t \<and> run_of (\<lambda>c. is_digit c \<or> is_upper_letter c) 16 (drop 4 t))
     \<or> secret_key_at t)"

definition looks_secret :: "string \<Rightarrow> bool" where
  "looks_secret s = search secret_at s"

section \<open>Validation\<close>

definition REASONER_STDOUT_BYTE_CAP :: nat where "REASONER_STDOUT_BYTE_CAP = 1048576"
definition REASONER_STDERR_BYTE_CAP :: nat where "REASONER_STDERR_BYTE_CAP = 262144"
definition REASONER_MAX_INTENTS_PER_TURN :: nat where "REASONER_MAX_INTENTS_PER_TURN = 8"
definition REASONER_MAX_HYPOTHESES_PER_TURN :: nat where "REASONER_MAX_HYPOTHESES_PER_TURN = 8"
definition REASONER_TURN_RESPONSE_VERSION :: string where
  "REASONER_TURN_RESPONSE_VERSION = ''nightwatch.reasoner-turn-response.v1''"

definition isSafeId :: "json option \<Rightarrow> string option" where
  "isSafeId v = (case v of
     Some (JStr s) \<Rightarrow> if 1 \<le> length s \<and> length s \<le> 128 \<and> all_in s (\<lambda>c. is_alnum c \<or> c \<in> set ''._:-'') then Some s else None
   | _ \<Rightarrow> None)"

definition isSafeCode :: "json option \<Rightarrow> string option" where
  "isSafeCode v = (case v of
     Some (JStr (c # s)) \<Rightarrow>
       if is_upper_letter c \<and> length s \<le> 127 \<and> all_in s (\<lambda>c. is_upper_letter c \<or> is_digit c \<or> c = CHR ''_'') then Some (c # s) else None
   | _ \<Rightarrow> None)"

fun safe_items :: "json list \<Rightarrow> string list option" where
  "safe_items [] = Some []"
| "safe_items (JStr s # xs) =
     (if s = [] \<or> 512 < length s \<or> looks_secret s then None
      else case safe_items xs of None \<Rightarrow> None | Some ss \<Rightarrow> Some (s # ss))"
| "safe_items (x # xs) = None"

definition stringArray :: "json option \<Rightarrow> nat \<Rightarrow> string list option" where
  "stringArray v maxItems = (case v of
     Some (JArr xs) \<Rightarrow> if maxItems < length xs then None else safe_items xs
   | _ \<Rightarrow> None)"

definition classifyOutputSize :: "nat \<Rightarrow> nat \<Rightarrow> string option" where
  "classifyOutputSize stdoutBytes stderrBytes =
     (if REASONER_STDOUT_BYTE_CAP < stdoutBytes \<or> REASONER_STDERR_BYTE_CAP < stderrBytes then Some ''OVERSIZE_OUTPUT'' else None)"

definition classifyRawOutput :: "string \<Rightarrow> string option" where
  "classifyRawOutput raw =
     (if looks_secret raw then Some ''SECRET_ECHO''
      else case trim raw of
             [] \<Rightarrow> Some ''PARTIAL_OUTPUT''
           | c # _ \<Rightarrow> if c \<noteq> CHR ''{'' \<and> c \<noteq> CHR ''['' then Some ''GARBAGE_OUTPUT'' else None)"

record digest_platform =
  dp_sha :: "string \<Rightarrow> string"
  dp_num :: "rat \<Rightarrow> string"
  dp_locale_le :: "string \<Rightarrow> string \<Rightarrow> bool"

record validation_context =
  vc_authorizedEnvironments :: "string list"
  vc_allowedToolIds :: "string list option"

definition parse_call_tool :: "digest_platform \<Rightarrow> validation_context \<Rightarrow> (string \<times> json) list \<Rightarrow> agent_intent checked" where
  "parse_call_tool dp context value =
     (case isSafeId (map_of value ''toolId'') of
        None \<Rightarrow> Inl ''MALFORMED_OUTPUT''
      | Some toolId \<Rightarrow>
          if (case vc_allowedToolIds context of None \<Rightarrow> False | Some allowed \<Rightarrow> toolId \<notin> set allowed) then Inl ''UNKNOWN_TOOL''
          else case lookupAgentTool toolId of
            None \<Rightarrow> Inl ''UNKNOWN_TOOL''
          | Some tool \<Rightarrow>
              if tl_environment tool \<notin> set (vc_authorizedEnvironments context) then Inl ''UNAUTHORIZED_ENVIRONMENT''
              else if \<not> od_allowed (decideOwnerScope (tl_authorizationClass tool)) then Inl ''UNSAFE_INTENT''
              else case map_of value ''arguments'' of
                Some (JObj args) \<Rightarrow>
                  Inr (Call_Tool (tl_id tool) (prefixedDigest24 (dp_sha dp) (dp_num dp) (dp_locale_le dp) ''arg'' (JObj args)) args)
              | _ \<Rightarrow> Inl ''MALFORMED_OUTPUT'')"

definition parse_statement :: "(string \<times> json) list \<Rightarrow> (string \<times> string \<times> string list) checked" where
  "parse_statement value =
     (case (isSafeId (map_of value ''hypothesisId''), map_of value ''statement'', stringArray (map_of value ''evidenceRefs'') 16) of
        (Some i, Some (JStr s), Some refs) \<Rightarrow>
          if s = [] \<or> 1024 < length s then Inl ''MALFORMED_OUTPUT''
          else if looks_secret s then Inl ''SECRET_ECHO'' else Inr (i, s, refs)
      | _ \<Rightarrow> Inl ''MALFORMED_OUTPUT'')"

definition parse_termination :: "json option \<Rightarrow> agent_termination option" where
  "parse_termination v = (case v of
     Some (JStr s) \<Rightarrow> find (\<lambda>r. termination_text r = s) AGENT_TERMINATION_REASONS
   | _ \<Rightarrow> None)"

definition parseIntent :: "digest_platform \<Rightarrow> validation_context \<Rightarrow> json \<Rightarrow> agent_intent checked" where
  "parseIntent dp context v =
     (case v of
        JObj value \<Rightarrow>
          (case map_of value ''kind'' of
             Some (JStr kind) \<Rightarrow>
               if kind \<in> set UNSAFE_INTENT_KINDS then Inl ''UNSAFE_INTENT''
               else if \<not> closedVocabulary AGENT_INTENT_KINDS (Some (JStr kind)) then Inl ''UNKNOWN_INTENT''
               else if kind = ''CALL_TOOL'' then parse_call_tool dp context value
               else if kind = ''FORM_HYPOTHESIS''
                 then bind_res (parse_statement value) (\<lambda>(i, s, refs). Inr (Form_Hypothesis i s refs))
               else if kind = ''PROPOSE_CANDIDATE''
                 then (case (isSafeId (map_of value ''candidateId''), stringArray (map_of value ''evidenceRefs'') 16) of
                         (Some i, Some refs) \<Rightarrow> if refs = [] then Inl ''MALFORMED_OUTPUT'' else Inr (Propose_Candidate i refs)
                       | _ \<Rightarrow> Inl ''MALFORMED_OUTPUT'')
               else if kind = ''REJECT_CANDIDATE''
                 then (case (isSafeId (map_of value ''candidateId''), isSafeCode (map_of value ''reasonCode'')) of
                         (Some i, Some code) \<Rightarrow> Inr (Reject_Candidate i code)
                       | _ \<Rightarrow> Inl ''MALFORMED_OUTPUT'')
               else if kind = ''REPLAN''
                 then (case isSafeCode (map_of value ''reasonCode'') of
                         Some code \<Rightarrow> Inr (Replan code) | None \<Rightarrow> Inl ''MALFORMED_OUTPUT'')
               else if kind = ''PAUSE'' then Inr Pause_Intent
               else if kind = ''CANCEL'' then Inr Cancel_Intent
               else if kind = ''TERMINATE''
                 then (case parse_termination (map_of value ''reason'') of
                         Some r \<Rightarrow> Inr (Terminate r) | None \<Rightarrow> Inl ''MALFORMED_OUTPUT'')
               else Inl ''UNKNOWN_INTENT''
           | _ \<Rightarrow> Inl ''MALFORMED_OUTPUT'')
      | _ \<Rightarrow> Inl ''MALFORMED_OUTPUT'')"

definition parseHypothesis :: "json \<Rightarrow> hypothesis_draft checked" where
  "parseHypothesis v =
     (case v of
        JObj value \<Rightarrow> bind_res (parse_statement value) (\<lambda>(i, s, refs).
          Inr \<lparr>hd_hypothesisId = i, hd_statement = s, hd_evidenceRefs = refs\<rparr>)
      | _ \<Rightarrow> Inl ''MALFORMED_OUTPUT'')"

definition raw_hypotheses :: "(string \<times> json) list \<Rightarrow> json list option" where
  "raw_hypotheses value = (case map_of value ''hypotheses'' of
     None \<Rightarrow> Some []
   | Some (JArr hs) \<Rightarrow> Some hs
   | _ \<Rightarrow> None)"

definition validateReasonerTurnResponse ::
  "digest_platform \<Rightarrow> validation_context \<Rightarrow> json \<Rightarrow> (agent_intent list \<times> hypothesis_draft list) checked" where
  "validateReasonerTurnResponse dp context v =
     (case v of
        JObj value \<Rightarrow>
          if map_of value ''schemaVersion'' \<noteq> Some (JStr REASONER_TURN_RESPONSE_VERSION) then Inl ''MALFORMED_OUTPUT''
          else (case map_of value ''intents'' of
                  Some (JArr items) \<Rightarrow>
                    if items = [] \<or> REASONER_MAX_INTENTS_PER_TURN < length items then Inl ''MALFORMED_OUTPUT''
                    else bind_res (map_res (parseIntent dp context) items) (\<lambda>intents.
                      (case raw_hypotheses value of
                         Some hs \<Rightarrow>
                           if REASONER_MAX_HYPOTHESES_PER_TURN < length hs then Inl ''MALFORMED_OUTPUT''
                           else bind_res (map_res parseHypothesis hs) (\<lambda>hypotheses. Inr (intents, hypotheses))
                       | _ \<Rightarrow> Inl ''MALFORMED_OUTPUT''))
                | _ \<Rightarrow> Inl ''MALFORMED_OUTPUT'')
      | _ \<Rightarrow> Inl ''MALFORMED_OUTPUT'')"

section \<open>What an accepted intent is\<close>

definition tool_permitted :: "validation_context \<Rightarrow> string \<Rightarrow> bool" where
  "tool_permitted context toolId = (case lookupAgentTool toolId of
     None \<Rightarrow> False
   | Some tool \<Rightarrow> tl_environment tool \<in> set (vc_authorizedEnvironments context)
       \<and> od_allowed (decideOwnerScope (tl_authorizationClass tool))
       \<and> (case vc_allowedToolIds context of None \<Rightarrow> True | Some allowed \<Rightarrow> toolId \<in> set allowed))"

definition intent_permitted :: "digest_platform \<Rightarrow> validation_context \<Rightarrow> agent_intent \<Rightarrow> bool" where
  "intent_permitted dp context i = (case i of
     Call_Tool toolId digest args \<Rightarrow> tool_permitted context toolId
       \<and> digest = prefixedDigest24 (dp_sha dp) (dp_num dp) (dp_locale_le dp) ''arg'' (JObj args)
   | Propose_Candidate c refs \<Rightarrow> refs \<noteq> []
   | _ \<Rightarrow> True)"

lemma closedLookup_sound: "map_get (closedLookup entries) k = Some v \<Longrightarrow> (k, v) \<in> set entries"
proof -
  have "map_get (foldl (\<lambda>m (k, v). map_set m k v) m entries) k = Some v \<Longrightarrow> map_get m k = Some v \<or> (k, v) \<in> set entries" for m
  proof (induction entries arbitrary: m)
    case (Cons e entries)
    obtain a b where e: "e = (a, b)" by (cases e)
    with Cons.prems have "map_get (foldl (\<lambda>m (k, v). map_set m k v) (map_set m a b) entries) k = Some v" by simp
    from Cons.IH [OF this] show ?case by (auto simp: e map_get_set split: if_splits)
  qed simp
  from this [of "[]"] show "map_get (closedLookup entries) k = Some v \<Longrightarrow> (k, v) \<in> set entries"
    by (simp add: closedLookup_def map_get_def)
qed

lemma lookup_id: "lookupAgentTool toolId = Some tool \<Longrightarrow> tl_id tool = toolId \<and> tool \<in> set AGENT_TOOL_CATALOG"
  using closedLookup_sound [of "map (\<lambda>t. (tl_id t, t)) AGENT_TOOL_CATALOG" toolId tool] by (auto simp: lookupAgentTool_def TOOL_BY_ID_def)

lemma parseIntent_permitted:
  assumes "parseIntent dp context v = Inr i"
  shows "intent_permitted dp context i"
proof -
  have call: "intent_permitted dp context i" if parsed: "parse_call_tool dp context fs = Inr i" for fs
  proof -
    from parsed obtain toolId tool args where found: "lookupAgentTool toolId = Some tool"
      and allowed: "case vc_allowedToolIds context of None \<Rightarrow> True | Some allowed \<Rightarrow> toolId \<in> set allowed"
      and env: "tl_environment tool \<in> set (vc_authorizedEnvironments context)" "od_allowed (decideOwnerScope (tl_authorizationClass tool))"
      and i: "i = Call_Tool (tl_id tool) (prefixedDigest24 (dp_sha dp) (dp_num dp) (dp_locale_le dp) ''arg'' (JObj args)) args"
      by (auto simp: parse_call_tool_def split: option.split_asm if_split_asm json.split_asm)
    have "tl_id tool = toolId" using lookup_id [OF found] by simp
    then show ?thesis using found allowed env by (simp add: i intent_permitted_def tool_permitted_def)
  qed
  show ?thesis using assms call
    by (auto simp: parseIntent_def intent_permitted_def split: json.splits option.splits if_splits)
qed

lemma validated_permitted:
  assumes "validateReasonerTurnResponse dp context v = Inr (intents, hypotheses)"
  shows "list_all (intent_permitted dp context) intents \<and> length intents \<le> REASONER_MAX_INTENTS_PER_TURN"
proof -
  from assms obtain fs items where "v = JObj fs" "map_of fs ''intents'' = Some (JArr items)"
    and len: "length items \<le> REASONER_MAX_INTENTS_PER_TURN"
    by (auto simp: validateReasonerTurnResponse_def not_less split: json.split_asm option.split_asm if_split_asm)
  with assms have items: "list_all2 (\<lambda>x y. parseIntent dp context x = Inr y) items intents"
    by (auto simp: validateReasonerTurnResponse_def map_res_Inr_iff split: json.split_asm option.split_asm if_split_asm)
  have "list_all (intent_permitted dp context) intents"
    using items parseIntent_permitted by (auto simp: list_all_iff dest!: list_all2_memR)
  then show ?thesis using list_all2_lengthD [OF items] len by simp
qed

end
