(* ===== verification/Agent_Budget.thy ===== *)
theory Agent_Budget imports Runtime_Validation Canonical_Digest begin

text \<open>
  Budgets of the autonomous agent, \<open>src/core/agentProtocol/runtime.ts\<close>: policies per ceiling, usage,
  the byte ledger behind it, budget exhaustion, and the detection of repeated, exhausted and
  fruitless actions; with the attribution of provider failures, \<open>src/core/agentRuntime/providerAttribution.ts\<close>.
  Counters are natural numbers, policy limits and times integers; \<open>localeCompare\<close> is a parameter.
\<close>

section \<open>Phases and policies\<close>

datatype agent_phase = PLAN | OBSERVE | ANALYZE | HYPOTHESIZE | VERIFY | TRIAGE | REPLAN

definition AGENT_PHASES :: "agent_phase list" where
  "AGENT_PHASES = [PLAN, OBSERVE, ANALYZE, HYPOTHESIZE, VERIFY, TRIAGE, REPLAN]"

datatype agent_status = READY | RUNNING | PAUSED | CHECKPOINTING | TERMINATED

datatype ceiling_name = HOUR_1 | HOUR_4 | HOUR_8 | OVERNIGHT

fun AGENT_BUDGET_CEILINGS :: "ceiling_name \<Rightarrow> int" where
  "AGENT_BUDGET_CEILINGS HOUR_1 = 3600000"
| "AGENT_BUDGET_CEILINGS HOUR_4 = 14400000"
| "AGENT_BUDGET_CEILINGS HOUR_8 = 28800000"
| "AGENT_BUDGET_CEILINGS OVERNIGHT = 43200000"

record agent_policy =
  bp_ceilingName :: ceiling_name
  bp_wallTimeMs :: int
  bp_reasonerCalls :: int
  bp_inputBytes :: int
  bp_outputBytes :: int
  bp_toolPayloadBytes :: int
  bp_toolActions :: int
  bp_perActionTimeoutMs :: int
  bp_candidateCap :: int
  bp_failures :: int
  bp_consecutiveFailures :: int
  bp_providerFailures :: int

record agent_usage =
  bu_wallTimeMs :: int
  bu_reasonerCalls :: nat
  bu_inputBytes :: nat
  bu_outputBytes :: nat
  bu_toolPayloadBytes :: nat
  bu_toolActions :: nat
  bu_candidateCount :: nat
  bu_failures :: nat
  bu_consecutiveFailures :: nat
  bu_providerFailures :: nat

definition ZERO_AGENT_BUDGET_USAGE :: agent_usage where
  "ZERO_AGENT_BUDGET_USAGE = \<lparr>bu_wallTimeMs = 0, bu_reasonerCalls = 0, bu_inputBytes = 0, bu_outputBytes = 0,
     bu_toolPayloadBytes = 0, bu_toolActions = 0, bu_candidateCount = 0, bu_failures = 0, bu_consecutiveFailures = 0,
     bu_providerFailures = 0\<rparr>"

fun BUDGET_REASONER_CALLS :: "ceiling_name \<Rightarrow> int" where
  "BUDGET_REASONER_CALLS HOUR_1 = 200" | "BUDGET_REASONER_CALLS HOUR_4 = 800"
| "BUDGET_REASONER_CALLS HOUR_8 = 1600" | "BUDGET_REASONER_CALLS OVERNIGHT = 2400"

fun BUDGET_INPUT_BYTES :: "ceiling_name \<Rightarrow> int" where
  "BUDGET_INPUT_BYTES HOUR_1 = 5000000" | "BUDGET_INPUT_BYTES HOUR_4 = 20000000"
| "BUDGET_INPUT_BYTES HOUR_8 = 40000000" | "BUDGET_INPUT_BYTES OVERNIGHT = 60000000"

fun BUDGET_OUTPUT_BYTES :: "ceiling_name \<Rightarrow> int" where
  "BUDGET_OUTPUT_BYTES HOUR_1 = 160000" | "BUDGET_OUTPUT_BYTES HOUR_4 = 640000"
| "BUDGET_OUTPUT_BYTES HOUR_8 = 1280000" | "BUDGET_OUTPUT_BYTES OVERNIGHT = 1920000"

fun BUDGET_TOOL_PAYLOAD_BYTES :: "ceiling_name \<Rightarrow> int" where
  "BUDGET_TOOL_PAYLOAD_BYTES HOUR_1 = 64000000" | "BUDGET_TOOL_PAYLOAD_BYTES HOUR_4 = 256000000"
| "BUDGET_TOOL_PAYLOAD_BYTES HOUR_8 = 512000000" | "BUDGET_TOOL_PAYLOAD_BYTES OVERNIGHT = 768000000"

fun BUDGET_TOOL_ACTIONS :: "ceiling_name \<Rightarrow> int" where
  "BUDGET_TOOL_ACTIONS HOUR_1 = 400" | "BUDGET_TOOL_ACTIONS HOUR_4 = 1600"
| "BUDGET_TOOL_ACTIONS HOUR_8 = 3200" | "BUDGET_TOOL_ACTIONS OVERNIGHT = 4800"

fun BUDGET_FAILURES :: "ceiling_name \<Rightarrow> int" where
  "BUDGET_FAILURES HOUR_1 = 8" | "BUDGET_FAILURES HOUR_4 = 16" | "BUDGET_FAILURES HOUR_8 = 32" | "BUDGET_FAILURES OVERNIGHT = 48"

fun BUDGET_CONSECUTIVE_FAILURES :: "ceiling_name \<Rightarrow> int" where
  "BUDGET_CONSECUTIVE_FAILURES HOUR_1 = 6" | "BUDGET_CONSECUTIVE_FAILURES HOUR_4 = 8"
| "BUDGET_CONSECUTIVE_FAILURES HOUR_8 = 10" | "BUDGET_CONSECUTIVE_FAILURES OVERNIGHT = 12"

fun BUDGET_PROVIDER_FAILURES :: "ceiling_name \<Rightarrow> int" where
  "BUDGET_PROVIDER_FAILURES HOUR_1 = 8" | "BUDGET_PROVIDER_FAILURES HOUR_4 = 16"
| "BUDGET_PROVIDER_FAILURES HOUR_8 = 32" | "BUDGET_PROVIDER_FAILURES OVERNIGHT = 48"

definition defaultAgentBudgetPolicy :: "ceiling_name \<Rightarrow> agent_policy" where
  "defaultAgentBudgetPolicy c = \<lparr>bp_ceilingName = c, bp_wallTimeMs = AGENT_BUDGET_CEILINGS c, bp_reasonerCalls = BUDGET_REASONER_CALLS c,
     bp_inputBytes = BUDGET_INPUT_BYTES c, bp_outputBytes = BUDGET_OUTPUT_BYTES c,
     bp_toolPayloadBytes = BUDGET_TOOL_PAYLOAD_BYTES c, bp_toolActions = BUDGET_TOOL_ACTIONS c, bp_perActionTimeoutMs = 120000,
     bp_candidateCap = 20, bp_failures = BUDGET_FAILURES c, bp_consecutiveFailures = BUDGET_CONSECUTIVE_FAILURES c,
     bp_providerFailures = BUDGET_PROVIDER_FAILURES c\<rparr>"

datatype exhaustion = CONTINUE | SAFE_TERMINATION_CHECKPOINT

definition classifyBudgetExhaustion :: "agent_policy \<Rightarrow> agent_usage \<Rightarrow> exhaustion" where
  "classifyBudgetExhaustion p u =
     (if bp_wallTimeMs p \<le> bu_wallTimeMs u then SAFE_TERMINATION_CHECKPOINT
      else if bp_reasonerCalls p \<le> int (bu_reasonerCalls u) then SAFE_TERMINATION_CHECKPOINT
      else if bp_inputBytes p \<le> int (bu_inputBytes u) then SAFE_TERMINATION_CHECKPOINT
      else if bp_outputBytes p \<le> int (bu_outputBytes u) then SAFE_TERMINATION_CHECKPOINT
      else if bp_toolPayloadBytes p \<le> int (bu_toolPayloadBytes u) then SAFE_TERMINATION_CHECKPOINT
      else if bp_toolActions p \<le> int (bu_toolActions u) then SAFE_TERMINATION_CHECKPOINT
      else if bp_candidateCap p \<le> int (bu_candidateCount u) then SAFE_TERMINATION_CHECKPOINT
      else if bp_failures p \<le> int (bu_failures u) then SAFE_TERMINATION_CHECKPOINT
      else if bp_consecutiveFailures p \<le> int (bu_consecutiveFailures u) then SAFE_TERMINATION_CHECKPOINT
      else if bp_providerFailures p \<le> int (bu_providerFailures u) then SAFE_TERMINATION_CHECKPOINT
      else CONTINUE)"

section \<open>The byte ledger\<close>

record byte_ledger =
  by_legacyInputBytes :: nat
  by_legacyOutputBytes :: nat
  by_legacyToolPayloadBytes :: nat
  by_renderedInputBytes :: nat
  by_requestMemoryBytes :: nat
  by_requestUntrustedBytes :: nat
  by_providerResponseBytes :: nat
  by_providerStderrBytes :: nat
  by_reasonerOutputBytes :: nat
  by_toolResultBytes :: nat
  by_toolEnvelopeBytes :: nat
  by_checkpointBytes :: nat

definition ZERO_AGENT_BYTE_LEDGER :: byte_ledger where
  "ZERO_AGENT_BYTE_LEDGER = \<lparr>by_legacyInputBytes = 0, by_legacyOutputBytes = 0, by_legacyToolPayloadBytes = 0,
     by_renderedInputBytes = 0, by_requestMemoryBytes = 0, by_requestUntrustedBytes = 0, by_providerResponseBytes = 0,
     by_providerStderrBytes = 0, by_reasonerOutputBytes = 0, by_toolResultBytes = 0, by_toolEnvelopeBytes = 0, by_checkpointBytes = 0\<rparr>"

definition addAgentByteLedgers :: "byte_ledger \<Rightarrow> byte_ledger \<Rightarrow> byte_ledger" where
  "addAgentByteLedgers a b = \<lparr>by_legacyInputBytes = by_legacyInputBytes a + by_legacyInputBytes b,
     by_legacyOutputBytes = by_legacyOutputBytes a + by_legacyOutputBytes b,
     by_legacyToolPayloadBytes = by_legacyToolPayloadBytes a + by_legacyToolPayloadBytes b,
     by_renderedInputBytes = by_renderedInputBytes a + by_renderedInputBytes b,
     by_requestMemoryBytes = by_requestMemoryBytes a + by_requestMemoryBytes b,
     by_requestUntrustedBytes = by_requestUntrustedBytes a + by_requestUntrustedBytes b,
     by_providerResponseBytes = by_providerResponseBytes a + by_providerResponseBytes b,
     by_providerStderrBytes = by_providerStderrBytes a + by_providerStderrBytes b,
     by_reasonerOutputBytes = by_reasonerOutputBytes a + by_reasonerOutputBytes b,
     by_toolResultBytes = by_toolResultBytes a + by_toolResultBytes b,
     by_toolEnvelopeBytes = by_toolEnvelopeBytes a + by_toolEnvelopeBytes b,
     by_checkpointBytes = by_checkpointBytes a + by_checkpointBytes b\<rparr>"

definition chargedInputBytes :: "byte_ledger \<Rightarrow> nat" where
  "chargedInputBytes l = by_legacyInputBytes l + by_renderedInputBytes l"

definition chargedOutputBytes :: "byte_ledger \<Rightarrow> nat" where
  "chargedOutputBytes l = by_legacyOutputBytes l + by_providerResponseBytes l + by_providerStderrBytes l"

definition chargedToolPayloadBytes :: "byte_ledger \<Rightarrow> nat" where
  "chargedToolPayloadBytes l = by_legacyToolPayloadBytes l + by_toolResultBytes l"

definition legacyAgentByteLedger :: "nat \<Rightarrow> nat \<Rightarrow> nat \<Rightarrow> byte_ledger" where
  "legacyAgentByteLedger inputBytes outputBytes toolPayloadBytes = ZERO_AGENT_BYTE_LEDGER
     \<lparr>by_legacyInputBytes := inputBytes, by_legacyOutputBytes := outputBytes, by_legacyToolPayloadBytes := toolPayloadBytes\<rparr>"

section \<open>Actions\<close>

record action_record =
  cr_turnId :: string
  cr_phase :: agent_phase
  cr_intentKind :: string
  cr_toolId :: "string option"
  cr_argumentDigest :: "string option"
  cr_resultClass :: string
  cr_evidenceRefs :: "string list"
  cr_target :: "string option"
  cr_salient :: "string list option"
  cr_disposition :: "string option"

definition ACTION_FAILURE_DISPOSITIONS :: "string list" where
  "ACTION_FAILURE_DISPOSITIONS = [''DETERMINISTIC_TERMINAL'', ''ENVIRONMENT_BLOCKED'', ''TRANSIENT_RETRYABLE'']"

definition isActionFailureDisposition :: "string \<Rightarrow> bool" where
  "isActionFailureDisposition s = (s \<in> set ACTION_FAILURE_DISPOSITIONS)"

definition normalizeActionFailureDisposition :: "string option \<Rightarrow> string option" where
  "normalizeActionFailureDisposition v = (case v of
     Some s \<Rightarrow> if isActionFailureDisposition s then Some s else None
   | None \<Rightarrow> None)"

definition TRANSIENT_ACTION_RETRY_BUDGET :: nat where "TRANSIENT_ACTION_RETRY_BUDGET = 2"
definition NO_PROGRESS_REPEAT_LIMIT :: nat where "NO_PROGRESS_REPEAT_LIMIT = 3"

definition fingerprint_text :: "string \<Rightarrow> string option \<Rightarrow> string option \<Rightarrow> string" where
  "fingerprint_text kind toolId digest = kind @ ''|'' @ (case toolId of None \<Rightarrow> [] | Some t \<Rightarrow> t) @ ''|''
     @ (case digest of None \<Rightarrow> [] | Some d \<Rightarrow> d)"

definition actionFingerprint :: "action_record \<Rightarrow> string" where
  "actionFingerprint r = fingerprint_text (cr_intentKind r) (cr_toolId r) (cr_argumentDigest r)"

text \<open>The backward scan of \<open>detectRepeatedAction\<close>, over the reversed history.\<close>

fun repeat_scan :: "string \<Rightarrow> nat \<Rightarrow> nat \<Rightarrow> action_record list \<Rightarrow> bool" where
  "repeat_scan f limit streak [] = False"
| "repeat_scan f limit streak (r # rs) =
     (if actionFingerprint r \<noteq> f then False
      else if limit \<le> streak + 1 then True
      else repeat_scan f limit (streak + 1) rs)"

definition detectRepeatedAction :: "action_record list \<Rightarrow> string \<Rightarrow> nat \<Rightarrow> bool" where
  "detectRepeatedAction history f limit = repeat_scan f limit 0 (rev history)"

fun exhausted_scan :: "string \<Rightarrow> nat \<Rightarrow> action_record list \<Rightarrow> bool" where
  "exhausted_scan f transientFailures [] = False"
| "exhausted_scan f transientFailures (r # rs) =
     (if actionFingerprint r \<noteq> f then exhausted_scan f transientFailures rs
      else if cr_resultClass r = ''DEDUPED_REPEAT'' then True
      else if cr_resultClass r \<noteq> ''TOOL_ERROR'' then exhausted_scan f transientFailures rs
      else
        let disposition = (case normalizeActionFailureDisposition (cr_disposition r) of
                             None \<Rightarrow> ''DETERMINISTIC_TERMINAL'' | Some d \<Rightarrow> d)
        in if disposition = ''DETERMINISTIC_TERMINAL'' \<or> disposition = ''ENVIRONMENT_BLOCKED'' then True
           else if TRANSIENT_ACTION_RETRY_BUDGET \<le> transientFailures + 1 then True
           else exhausted_scan f (transientFailures + 1) rs)"

definition detectExhaustedAction :: "action_record list \<Rightarrow> string \<Rightarrow> bool" where
  "detectExhaustedAction history f = exhausted_scan f 0 history"

definition detectNoProgress :: "action_record list \<Rightarrow> nat \<Rightarrow> bool" where
  "detectNoProgress history windowSize =
     (if length history < windowSize then False
      else
        let window = (if windowSize = 0 then history else drop (length history - windowSize) history)
        in if list_ex (\<lambda>r. cr_evidenceRefs r \<noteq> [] \<or> cr_resultClass r = ''CANDIDATE_PROPOSED'' \<or> cr_resultClass r = ''CANDIDATE_REJECTED'') window
           then False
           else (case map actionFingerprint window of [] \<Rightarrow> True | f # fs \<Rightarrow> list_all (\<lambda>x. x = f) (f # fs)))"

section \<open>Provider failures\<close>

definition PERMANENT_PROVIDER_FAILURE_CLASSES :: "string list" where
  "PERMANENT_PROVIDER_FAILURE_CLASSES = [''MALFORMED_OUTPUT'', ''GARBAGE_OUTPUT'', ''SECRET_ECHO'', ''UNKNOWN_INTENT'', ''UNSAFE_INTENT'',
     ''UNKNOWN_TOOL'', ''UNAUTHORIZED_ENVIRONMENT'']"

datatype failure_nature = TRANSIENT | PERMANENT | OPERATOR

definition providerFailureNature :: "string \<Rightarrow> failure_nature" where
  "providerFailureNature c =
     (if c \<in> set PERMANENT_PROVIDER_FAILURE_CLASSES then PERMANENT
      else if c = ''CANCELLED'' then OPERATOR else TRANSIENT)"

text \<open>\<open>PROVIDER_BACKOFF_POLICY\<close> is written into the function; \<open>Math.round\<close> rounds halves up. The
  random number is an argument.\<close>

definition boundedBackoffMs :: "nat \<Rightarrow> rat \<Rightarrow> int" where
  "boundedBackoffMs failureStreak raw =
     (let streak = (if 0 < failureStreak then failureStreak else 1);
          exponent = min (streak - 1) 4;
          ceil = min 1000 (200 * 2 ^ exponent :: rat);
          unit = min (max raw 0) 1;
          jitter = (unit * 2 - 1) * (1 / 5)
      in max 0 (min 1000 \<lfloor>ceil * (1 + jitter) + 1 / 2\<rfloor>))"

datatype provider_termination = VALID_PROVIDER_RUN | PROVIDER_BLOCKED_BEFORE_SOURCE_ACTION | PROVIDER_DEGRADED

record provider_attribution =
  pa_totalCalls :: nat
  pa_failures :: nat
  pa_completedCalls :: nat
  pa_sourceActions :: nat
  pa_byClass :: "(string \<times> nat) list"
  pa_terminationClass :: provider_termination

definition class_key_ok :: "string \<Rightarrow> bool" where
  "class_key_ok k = (case k of [] \<Rightarrow> False
     | c # s \<Rightarrow> is_upper_letter c \<and> length s \<le> 63 \<and> all_in s (\<lambda>x. is_upper_letter x \<or> is_digit x \<or> x = CHR ''_''))"

definition failure_key :: "string \<Rightarrow> string option" where
  "failure_key resultClass =
     (if resultClass = ''DRIVER_THROW'' then Some ''DRIVER_THROW''
      else if starts_with ''REASONER_'' resultClass then Some (drop (length ''REASONER_'') resultClass) else None)"

definition tally_class :: "(string \<times> nat) list \<Rightarrow> action_record \<Rightarrow> (string \<times> nat) list" where
  "tally_class byClass entry =
     (if cr_intentKind entry \<noteq> ''REASONER_CALL'' then byClass
      else case failure_key (cr_resultClass entry) of
        None \<Rightarrow> byClass
      | Some key \<Rightarrow>
          if key = [] \<or> 64 < length key \<or> \<not> class_key_ok key then byClass
          else map_set byClass key ((case map_get byClass key of None \<Rightarrow> 0 | Some n \<Rightarrow> n) + 1))"

definition providerFailureClasses :: "(string \<Rightarrow> string \<Rightarrow> bool) \<Rightarrow> action_record list \<Rightarrow> (string \<times> nat) list" where
  "providerFailureClasses le actionLog = sort_by (by_key le) (foldl tally_class [] actionLog)"

definition attributeProviderFailures :: "(string \<Rightarrow> string \<Rightarrow> bool) \<Rightarrow> action_record list \<Rightarrow> nat \<Rightarrow> nat \<Rightarrow> provider_attribution" where
  "attributeProviderFailures le actionLog reasonerCalls providerFailures =
     (let totalCalls = reasonerCalls;
          failures = min providerFailures totalCalls;
          sourceActions = length (filter (\<lambda>r. cr_intentKind r = ''CALL_TOOL'') actionLog)
      in \<lparr>pa_totalCalls = totalCalls, pa_failures = failures, pa_completedCalls = totalCalls - failures,
          pa_sourceActions = sourceActions, pa_byClass = providerFailureClasses le actionLog,
          pa_terminationClass =
            (if failures = 0 then VALID_PROVIDER_RUN
             else if sourceActions = 0 \<and> totalCalls = failures then PROVIDER_BLOCKED_BEFORE_SOURCE_ACTION
             else PROVIDER_DEGRADED)\<rparr>)"

section \<open>Facts\<close>

lemma continue_iff:
  "classifyBudgetExhaustion p u = CONTINUE \<longleftrightarrow>
     bu_wallTimeMs u < bp_wallTimeMs p \<and> int (bu_reasonerCalls u) < bp_reasonerCalls p \<and> int (bu_inputBytes u) < bp_inputBytes p
     \<and> int (bu_outputBytes u) < bp_outputBytes p \<and> int (bu_toolPayloadBytes u) < bp_toolPayloadBytes p
     \<and> int (bu_toolActions u) < bp_toolActions p \<and> int (bu_candidateCount u) < bp_candidateCap p
     \<and> int (bu_failures u) < bp_failures p \<and> int (bu_consecutiveFailures u) < bp_consecutiveFailures p
     \<and> int (bu_providerFailures u) < bp_providerFailures p"
  by (simp add: classifyBudgetExhaustion_def not_le)

lemma not_checkpoint [simp]: "classifyBudgetExhaustion p u \<noteq> SAFE_TERMINATION_CHECKPOINT \<longleftrightarrow> classifyBudgetExhaustion p u = CONTINUE"
  by (cases "classifyBudgetExhaustion p u") simp_all

lemma repeat_scan_iff:
  "0 < limit \<Longrightarrow> streak < limit \<Longrightarrow>
   repeat_scan f limit streak rs \<longleftrightarrow> limit \<le> streak + length (takeWhile (\<lambda>r. actionFingerprint r = f) rs)"
  by (induction rs arbitrary: streak) auto

lemma backoff_bounded: "160 \<le> boundedBackoffMs n raw \<and> boundedBackoffMs n raw \<le> 1000"
proof -
  define c :: rat where "c = min 1000 (200 * 2 ^ min ((if 0 < n then n else 1) - 1) 4)"
  define u :: rat where "u = min (max raw 0) 1"
  have "(1 :: rat) \<le> 2 ^ min ((if 0 < n then n else 1) - 1) 4" by (rule one_le_power) simp
  then have c: "200 \<le> c" by (simp add: c_def)
  have u: "0 \<le> u" "u \<le> 1" by (simp_all add: u_def)
  have j: "4 / 5 \<le> 1 + (u * 2 - 1) * (1 / 5)" using u(1) by (simp add: field_simps)
  have "200 * (4 / 5) \<le> c * (1 + (u * 2 - 1) * (1 / 5))"
    by (rule mult_mono [OF c j]) (use c in simp_all)
  then have "160 \<le> c * (1 + (u * 2 - 1) * (1 / 5)) + 1 / 2" by linarith
  then have low: "160 \<le> \<lfloor>c * (1 + (u * 2 - 1) * (1 / 5)) + 1 / 2\<rfloor>" unfolding le_floor_iff by simp
  have "boundedBackoffMs n raw = max 0 (min 1000 \<lfloor>c * (1 + (u * 2 - 1) * (1 / 5)) + 1 / 2\<rfloor>)"
    by (simp only: boundedBackoffMs_def Let_def c_def u_def)
  then show ?thesis using low by simp
qed

end
