(* ===== verification/Agent_Tool_Results.thy ===== *)
theory Agent_Tool_Results imports Agent_Protocol Agent_Budget begin

text \<open>
  The executor port of the agent, \<open>src/core/agentRuntime/types.ts\<close>: fail-closed normalization of a
  tool result and of the facts it contributes to working memory. What an executor returns is a JSON
  value; the secret expression is the one of the protocol validator (\<open>looks_secret\<close>). The
  vocabularies come from \<open>src/core/reproductionSurface/contracts.ts\<close> and
  \<open>src/core/ownerLocalReproduction/contracts.ts\<close>.
\<close>

definition TOOL_MEMORY_targetChars :: nat where "TOOL_MEMORY_targetChars = 200"
definition TOOL_MEMORY_availableTargets :: nat where "TOOL_MEMORY_availableTargets = 32"
definition TOOL_MEMORY_salient :: nat where "TOOL_MEMORY_salient = 4"
definition TOOL_MEMORY_salientChars :: nat where "TOOL_MEMORY_salientChars = 64"
definition TOOL_MEMORY_reproductionSurface :: nat where "TOOL_MEMORY_reproductionSurface = 32"

definition SURFACE_READINESS_CLASSES :: "string list" where
  "SURFACE_READINESS_CLASSES = [''EXECUTABLE_NOW'', ''NOT_EXECUTABLE'', ''UNKNOWN'']"

definition SURFACE_REFUSAL_CLASSES :: "string list" where
  "SURFACE_REFUSAL_CLASSES = [''PATH_MALFORMED'', ''PATH_NOT_APPROVED'', ''NO_SUPPORTED_EXECUTOR'', ''MODULE_ROOT_NOT_FOUND'',
     ''VENDOR_DIRECTORY_ABSENT'', ''PACKAGE_TEST_FILES_ABSENT'', ''SOURCE_NOT_CURRENT'', ''ENVIRONMENT_BLOCKED'']"

definition OWNER_LOCAL_EXECUTOR_KINDS :: "string list" where
  "OWNER_LOCAL_EXECUTOR_KINDS = [''GO_VENDORED_PACKAGE_TEST'']"

section \<open>Facts\<close>

record surface_entry =
  sf_sourcePath :: string
  sf_readiness :: string
  sf_executorClass :: "string option"
  sf_refusal :: "string option"
  sf_targetId :: "string option"

record memory_facts =
  mf_target :: "string option"
  mf_availableTargets :: "string list option"
  mf_salient :: "string list option"
  mf_reproductionSurface :: "surface_entry list option"

definition boundedMemoryString :: "json option \<Rightarrow> nat \<Rightarrow> string option" where
  "boundedMemoryString v maxChars = (case v of
     Some (JStr s) \<Rightarrow> if s = [] \<or> maxChars < length s then None else if looks_secret s then None else Some s
   | _ \<Rightarrow> None)"

definition bounded_list_step :: "nat \<Rightarrow> nat \<Rightarrow> string list \<Rightarrow> json \<Rightarrow> string list" where
  "bounded_list_step maxItems charCap out item =
     (if maxItems \<le> length out then out
      else case boundedMemoryString (Some item) charCap of
        None \<Rightarrow> out
      | Some s \<Rightarrow> if s \<in> set out then out else out @ [s])"

definition boundedMemoryList :: "json option \<Rightarrow> nat \<Rightarrow> nat \<Rightarrow> string list option" where
  "boundedMemoryList v maxItems charCap = (case v of
     Some (JArr items) \<Rightarrow>
       let out = foldl (bounded_list_step maxItems charCap) [] items in if out = [] then None else Some out
   | _ \<Rightarrow> None)"

text \<open>A nullable member of a closed vocabulary: absent or null, a member, or neither (\<open>None\<close>).\<close>

definition nullable_member :: "string list \<Rightarrow> json option \<Rightarrow> string option option" where
  "nullable_member values v = (case v of
     None \<Rightarrow> Some None
   | Some JNull \<Rightarrow> Some None
   | Some (JStr s) \<Rightarrow> if s \<in> set values then Some (Some s) else None
   | _ \<Rightarrow> None)"

definition nullable_target :: "json option \<Rightarrow> string option option" where
  "nullable_target v = (case v of
     None \<Rightarrow> Some None
   | Some JNull \<Rightarrow> Some None
   | Some (JStr s) \<Rightarrow> (case boundedMemoryString (Some (JStr s)) TOOL_MEMORY_targetChars of None \<Rightarrow> None | Some t \<Rightarrow> Some (Some s))
   | _ \<Rightarrow> None)"

definition surface_target_id :: "string \<Rightarrow> bool" where
  "surface_target_id s = (starts_with ''surface:sha256:'' s \<and> length s = 39 \<and> list_all is_lower_hex (drop 15 s))"

definition surface_tuple_ok :: "string \<Rightarrow> string option \<Rightarrow> string option \<Rightarrow> string option \<Rightarrow> bool" where
  "surface_tuple_ok readiness executorClass refusal targetId =
     (if readiness = ''EXECUTABLE_NOW''
      then executorClass \<noteq> None \<and> refusal = None \<and> (case targetId of None \<Rightarrow> False | Some t \<Rightarrow> surface_target_id t)
      else if readiness = ''NOT_EXECUTABLE'' then executorClass = None \<and> refusal \<noteq> None \<and> targetId = None
      else executorClass = None \<and> refusal = None \<and> targetId = None)"

definition surface_entry_of :: "json \<Rightarrow> surface_entry option" where
  "surface_entry_of item = (case item of
     JObj props \<Rightarrow>
       (case (boundedMemoryString (map_of props ''sourcePath'') TOOL_MEMORY_targetChars, map_of props ''readiness'',
              nullable_member SURFACE_REFUSAL_CLASSES (map_of props ''refusal''),
              nullable_member OWNER_LOCAL_EXECUTOR_KINDS (map_of props ''executorClass''), nullable_target (map_of props ''targetId'')) of
          (Some path, Some (JStr readiness), Some refusal, Some executorClass, Some targetId) \<Rightarrow>
            if readiness \<in> set SURFACE_READINESS_CLASSES \<and> surface_tuple_ok readiness executorClass refusal targetId
            then Some \<lparr>sf_sourcePath = path, sf_readiness = readiness, sf_executorClass = executorClass, sf_refusal = refusal,
                       sf_targetId = targetId\<rparr>
            else None
        | _ \<Rightarrow> None)
   | _ \<Rightarrow> None)"

text \<open>A path is in \<open>seen\<close> exactly when an entry for it was pushed.\<close>

definition surface_step :: "surface_entry list \<Rightarrow> json \<Rightarrow> surface_entry list" where
  "surface_step out item =
     (if TOOL_MEMORY_reproductionSurface \<le> length out then out
      else case surface_entry_of item of
        None \<Rightarrow> out
      | Some e \<Rightarrow> if sf_sourcePath e \<in> sf_sourcePath ` set out then out else out @ [e])"

definition normalizeSurfaceEntries :: "json option \<Rightarrow> surface_entry list option" where
  "normalizeSurfaceEntries v = (case v of
     Some (JArr items) \<Rightarrow> let out = foldl surface_step [] items in if out = [] then None else Some out
   | _ \<Rightarrow> None)"

definition normalizeToolMemoryFacts :: "json option \<Rightarrow> memory_facts option" where
  "normalizeToolMemoryFacts v = (case v of
     Some (JObj props) \<Rightarrow>
       let target = boundedMemoryString (map_of props ''target'') TOOL_MEMORY_targetChars;
           availableTargets = boundedMemoryList (map_of props ''availableTargets'') TOOL_MEMORY_availableTargets TOOL_MEMORY_targetChars;
           salient = boundedMemoryList (map_of props ''salient'') TOOL_MEMORY_salient TOOL_MEMORY_salientChars;
           surface = normalizeSurfaceEntries (map_of props ''reproductionSurface'')
       in if target = None \<and> availableTargets = None \<and> salient = None \<and> surface = None then None
          else Some \<lparr>mf_target = target, mf_availableTargets = availableTargets, mf_salient = salient, mf_reproductionSurface = surface\<rparr>
   | _ \<Rightarrow> None)"

section \<open>Results\<close>

record tool_result =
  to_ok :: bool
  to_resultClass :: string
  to_evidenceRefs :: "string list"
  to_outputBytes :: nat
  to_untrusted :: "json list"
  to_memory :: "memory_facts option"
  to_disposition :: "string option"

definition emptyToolResult :: tool_result where
  "emptyToolResult = \<lparr>to_ok = True, to_resultClass = ''NOOP'', to_evidenceRefs = [], to_outputBytes = 0, to_untrusted = [],
     to_memory = None, to_disposition = None\<rparr>"

definition evidence_ref :: "json \<Rightarrow> string option" where
  "evidence_ref v = (case v of JStr s \<Rightarrow> if s \<noteq> [] \<and> length s \<le> 512 then Some s else None | _ \<Rightarrow> None)"

definition json_text :: "json option \<Rightarrow> string option" where
  "json_text v = (case v of Some (JStr s) \<Rightarrow> Some s | _ \<Rightarrow> None)"

definition normalizeToolResult :: "json \<Rightarrow> tool_result" where
  "normalizeToolResult v = (case v of
     JObj props \<Rightarrow>
       \<lparr>to_ok = (map_of props ''ok'' \<noteq> Some (JBool False)),
        to_resultClass = (case map_of props ''resultClass'' of Some (JStr (c # s)) \<Rightarrow> c # s | _ \<Rightarrow> to_resultClass emptyToolResult),
        to_evidenceRefs = (case map_of props ''evidenceRefs'' of
            Some (JArr xs) \<Rightarrow> List.map_filter evidence_ref xs | _ \<Rightarrow> to_evidenceRefs emptyToolResult),
        to_outputBytes = (case map_of props ''outputBytes'' of
            Some (JNum q) \<Rightarrow> if 0 \<le> q then nat \<lfloor>q\<rfloor> else to_outputBytes emptyToolResult | _ \<Rightarrow> to_outputBytes emptyToolResult),
        to_untrusted = (case map_of props ''untrusted'' of Some (JArr xs) \<Rightarrow> xs | _ \<Rightarrow> to_untrusted emptyToolResult),
        to_memory = normalizeToolMemoryFacts (map_of props ''memory''),
        to_disposition = normalizeActionFailureDisposition (json_text (map_of props ''disposition''))\<rparr>
   | _ \<Rightarrow> emptyToolResult)"

section \<open>What normalized facts are\<close>

definition memory_string_ok :: "nat \<Rightarrow> string \<Rightarrow> bool" where
  "memory_string_ok n s = (s \<noteq> [] \<and> length s \<le> n \<and> \<not> looks_secret s)"

definition surface_ok :: "surface_entry \<Rightarrow> bool" where
  "surface_ok e = (memory_string_ok TOOL_MEMORY_targetChars (sf_sourcePath e) \<and> sf_readiness e \<in> set SURFACE_READINESS_CLASSES
     \<and> surface_tuple_ok (sf_readiness e) (sf_executorClass e) (sf_refusal e) (sf_targetId e))"

lemma bounded_string_ok: "boundedMemoryString v n = Some s \<Longrightarrow> memory_string_ok n s"
  by (auto simp: boundedMemoryString_def memory_string_ok_def split: option.splits json.splits if_splits)

lemma surface_entry_ok: "surface_entry_of item = Some e \<Longrightarrow> surface_ok e"
  by (auto simp: surface_entry_of_def surface_ok_def dest: bounded_string_ok split: json.split_asm option.split_asm if_split_asm prod.split_asm)

lemma surface_fold:
  assumes "list_all surface_ok out" "distinct (map sf_sourcePath out)" "length out \<le> TOOL_MEMORY_reproductionSurface"
  shows "list_all surface_ok (foldl surface_step out items) \<and> distinct (map sf_sourcePath (foldl surface_step out items))
    \<and> length (foldl surface_step out items) \<le> TOOL_MEMORY_reproductionSurface"
  using assms
proof (induction items arbitrary: out)
  case (Cons item items)
  have "list_all surface_ok (surface_step out item) \<and> distinct (map sf_sourcePath (surface_step out item))
      \<and> length (surface_step out item) \<le> TOOL_MEMORY_reproductionSurface"
    using Cons.prems surface_entry_ok by (auto simp: surface_step_def list_all_iff split: option.split)
  then show ?case using Cons.IH by simp
qed simp

lemma normalized_surface:
  assumes "normalizeSurfaceEntries v = Some es"
  shows "list_all surface_ok es \<and> distinct (map sf_sourcePath es) \<and> length es \<le> TOOL_MEMORY_reproductionSurface \<and> es \<noteq> []"
  using assms surface_fold [of "[]"] by (auto simp: normalizeSurfaceEntries_def Let_def split: option.splits json.splits if_splits)

lemma bounded_list_fold:
  assumes "list_all (memory_string_ok c) out" "distinct out" "length out \<le> m"
  shows "list_all (memory_string_ok c) (foldl (bounded_list_step m c) out items) \<and> distinct (foldl (bounded_list_step m c) out items)
    \<and> length (foldl (bounded_list_step m c) out items) \<le> m"
  using assms
proof (induction items arbitrary: out)
  case (Cons item items)
  have "list_all (memory_string_ok c) (bounded_list_step m c out item) \<and> distinct (bounded_list_step m c out item)
      \<and> length (bounded_list_step m c out item) \<le> m"
    using Cons.prems bounded_string_ok by (auto simp: bounded_list_step_def list_all_iff split: option.split)
  then show ?case using Cons.IH by simp
qed simp

end
