(* ===== verification/Agent_State.thy ===== *)
theory Agent_State imports Agent_Tool_Results begin

text \<open>
  The state of an autonomous agent and its checkpoints: the snapshot, its JSON form and the
  accounted checkpoint document (\<open>src/core/agentProtocol/runtime.ts\<close>,
  \<open>src/core/agentRuntime/checkpoint.ts\<close>, the part that creates). The size of a text is its length in
  UTF-8; characters above 127 take two bytes.
\<close>

section \<open>State\<close>

datatype hypothesis_status = OPEN | SUPPORTED | DISPROVED

record agent_hypothesis =
  hy_hypothesisId :: string
  hy_statement :: string
  hy_evidenceRefs :: "string list"
  hy_status :: hypothesis_status

record agent_snapshot =
  sn_campaignId :: string
  sn_status :: agent_status
  sn_phase :: agent_phase
  sn_hypotheses :: "agent_hypothesis list"
  sn_actionLog :: "action_record list"
  sn_evidenceRefs :: "string list"
  sn_candidateIds :: "string list"
  sn_knownTargets :: "string list"
  sn_reproductionSurface :: "surface_entry list"
  sn_byteLedger :: "byte_ledger option"
  sn_policy :: agent_policy
  sn_usage :: agent_usage
  sn_terminationReason :: "agent_termination option"

record agent_checkpoint =
  cp_campaignId :: string
  cp_state :: agent_snapshot
  cp_resumeCursor :: string

section \<open>JSON form\<close>

fun phase_text :: "agent_phase \<Rightarrow> string" where
  "phase_text PLAN = ''PLAN''" | "phase_text OBSERVE = ''OBSERVE''" | "phase_text ANALYZE = ''ANALYZE''"
| "phase_text HYPOTHESIZE = ''HYPOTHESIZE''" | "phase_text VERIFY = ''VERIFY''" | "phase_text TRIAGE = ''TRIAGE''"
| "phase_text REPLAN = ''REPLAN''"

fun status_text :: "agent_status \<Rightarrow> string" where
  "status_text READY = ''READY''" | "status_text RUNNING = ''RUNNING''" | "status_text PAUSED = ''PAUSED''"
| "status_text CHECKPOINTING = ''CHECKPOINTING''" | "status_text TERMINATED = ''TERMINATED''"

fun hypothesis_status_text :: "hypothesis_status \<Rightarrow> string" where
  "hypothesis_status_text OPEN = ''OPEN''" | "hypothesis_status_text SUPPORTED = ''SUPPORTED''"
| "hypothesis_status_text DISPROVED = ''DISPROVED''"

fun ceiling_text :: "ceiling_name \<Rightarrow> string" where
  "ceiling_text HOUR_1 = ''HOUR_1''" | "ceiling_text HOUR_4 = ''HOUR_4''" | "ceiling_text HOUR_8 = ''HOUR_8''"
| "ceiling_text OVERNIGHT = ''OVERNIGHT''"

definition texts_json :: "string list \<Rightarrow> json" where
  "texts_json xs = JArr (map JStr xs)"

definition nullable_json :: "string option \<Rightarrow> json" where
  "nullable_json v = (case v of None \<Rightarrow> JNull | Some s \<Rightarrow> JStr s)"

definition count_json :: "nat \<Rightarrow> json" where "count_json n = JNum (of_nat n)"

definition limit_json :: "int \<Rightarrow> json" where "limit_json n = JNum (of_int n)"

definition hypothesis_json :: "agent_hypothesis \<Rightarrow> json" where
  "hypothesis_json h = JObj [(''hypothesisId'', JStr (hy_hypothesisId h)), (''statement'', JStr (hy_statement h)),
     (''evidenceRefs'', texts_json (hy_evidenceRefs h)), (''status'', JStr (hypothesis_status_text (hy_status h)))]"

definition action_record_json :: "action_record \<Rightarrow> json" where
  "action_record_json r = JObj ([(''turnId'', JStr (cr_turnId r)), (''phase'', JStr (phase_text (cr_phase r))),
     (''intentKind'', JStr (cr_intentKind r)), (''toolId'', nullable_json (cr_toolId r)),
     (''argumentDigest'', nullable_json (cr_argumentDigest r)), (''resultClass'', JStr (cr_resultClass r)),
     (''evidenceRefs'', texts_json (cr_evidenceRefs r)), (''target'', nullable_json (cr_target r))]
     @ (case cr_salient r of None \<Rightarrow> [] | Some ss \<Rightarrow> [(''salient'', texts_json ss)])
     @ (case cr_disposition r of None \<Rightarrow> [] | Some d \<Rightarrow> [(''disposition'', JStr d)]))"

definition surface_json :: "surface_entry \<Rightarrow> json" where
  "surface_json e = JObj [(''sourcePath'', JStr (sf_sourcePath e)), (''readiness'', JStr (sf_readiness e)),
     (''executorClass'', nullable_json (sf_executorClass e)), (''refusal'', nullable_json (sf_refusal e)),
     (''targetId'', nullable_json (sf_targetId e))]"

definition ledger_json :: "byte_ledger \<Rightarrow> json" where
  "ledger_json l = JObj [(''schemaVersion'', JStr ''nightwatch.agent-byte-ledger.v1''),
     (''legacyInputBytes'', count_json (by_legacyInputBytes l)), (''legacyOutputBytes'', count_json (by_legacyOutputBytes l)),
     (''legacyToolPayloadBytes'', count_json (by_legacyToolPayloadBytes l)), (''renderedInputBytes'', count_json (by_renderedInputBytes l)),
     (''requestMemoryBytes'', count_json (by_requestMemoryBytes l)), (''requestUntrustedBytes'', count_json (by_requestUntrustedBytes l)),
     (''providerResponseBytes'', count_json (by_providerResponseBytes l)), (''providerStderrBytes'', count_json (by_providerStderrBytes l)),
     (''reasonerOutputBytes'', count_json (by_reasonerOutputBytes l)), (''toolResultBytes'', count_json (by_toolResultBytes l)),
     (''toolEnvelopeBytes'', count_json (by_toolEnvelopeBytes l)), (''checkpointBytes'', count_json (by_checkpointBytes l))]"

definition policy_json :: "agent_policy \<Rightarrow> json" where
  "policy_json p = JObj [(''schemaVersion'', JStr ''nightwatch.agent-budget.v2''), (''ceilingName'', JStr (ceiling_text (bp_ceilingName p))),
     (''wallTimeMs'', limit_json (bp_wallTimeMs p)), (''reasonerCalls'', limit_json (bp_reasonerCalls p)),
     (''inputBytes'', limit_json (bp_inputBytes p)), (''outputBytes'', limit_json (bp_outputBytes p)),
     (''toolPayloadBytes'', limit_json (bp_toolPayloadBytes p)), (''toolActions'', limit_json (bp_toolActions p)),
     (''perActionTimeoutMs'', limit_json (bp_perActionTimeoutMs p)), (''candidateCap'', limit_json (bp_candidateCap p)),
     (''failures'', limit_json (bp_failures p)), (''consecutiveFailures'', limit_json (bp_consecutiveFailures p)),
     (''providerFailures'', limit_json (bp_providerFailures p))]"

definition usage_json :: "agent_usage \<Rightarrow> json" where
  "usage_json u = JObj [(''wallTimeMs'', limit_json (bu_wallTimeMs u)), (''reasonerCalls'', count_json (bu_reasonerCalls u)),
     (''inputBytes'', count_json (bu_inputBytes u)), (''outputBytes'', count_json (bu_outputBytes u)),
     (''toolPayloadBytes'', count_json (bu_toolPayloadBytes u)), (''toolActions'', count_json (bu_toolActions u)),
     (''candidateCount'', count_json (bu_candidateCount u)), (''failures'', count_json (bu_failures u)),
     (''consecutiveFailures'', count_json (bu_consecutiveFailures u)), (''providerFailures'', count_json (bu_providerFailures u))]"

definition snapshot_json :: "agent_snapshot \<Rightarrow> json" where
  "snapshot_json s = JObj ([(''schemaVersion'', JStr ''nightwatch.agent-runtime-state.v1''), (''campaignId'', JStr (sn_campaignId s)),
     (''status'', JStr (status_text (sn_status s))), (''phase'', JStr (phase_text (sn_phase s))),
     (''hypotheses'', JArr (map hypothesis_json (sn_hypotheses s))), (''actionLog'', JArr (map action_record_json (sn_actionLog s))),
     (''evidenceRefs'', texts_json (sn_evidenceRefs s)), (''candidateIds'', texts_json (sn_candidateIds s)),
     (''knownTargets'', texts_json (sn_knownTargets s))]
     @ (if sn_reproductionSurface s = [] then [] else [(''reproductionSurface'', JArr (map surface_json (sn_reproductionSurface s)))])
     @ (case sn_byteLedger s of None \<Rightarrow> [] | Some l \<Rightarrow> [(''byteLedger'', ledger_json l)])
     @ [(''budget'', JObj [(''policy'', policy_json (sn_policy s)), (''usage'', usage_json (sn_usage s))]),
        (''terminationReason'', nullable_json (map_option termination_text (sn_terminationReason s)))])"

definition checkpoint_json :: "agent_checkpoint \<Rightarrow> json" where
  "checkpoint_json c = JObj [(''schemaVersion'', JStr ''nightwatch.agent-checkpoint.v1''), (''campaignId'', JStr (cp_campaignId c)),
     (''state'', snapshot_json (cp_state c)), (''resumeCursor'', JStr (cp_resumeCursor c))]"

definition utf8Bytes :: "string \<Rightarrow> nat" where
  "utf8Bytes s = sum_list (map (\<lambda>c. if code_unit c < 128 then 1 else 2) s)"

definition json_bytes :: "(rat \<Rightarrow> string) \<Rightarrow> json \<Rightarrow> nat" where
  "json_bytes num v = utf8Bytes (json_stringify num v)"

section \<open>Checkpoint creation\<close>

definition secret_key_pair_at :: "string \<Rightarrow> bool" where
  "secret_key_pair_at t = (case t of
     [] \<Rightarrow> False
   | c # rest \<Rightarrow>
       let body = takeWhile (\<lambda>x. x \<noteq> CHR 0x22 \<and> x \<noteq> CHR 0x5C) rest
       in c = CHR 0x22
         \<and> list_ex (\<lambda>k. contains k (lower body)) [''credential'', ''cookie'', ''token'', ''secret'', ''password'', ''apikey'', ''api_key'', ''api-key'', ''auth'']
         \<and> (case drop (length body) rest of q # r \<Rightarrow> q = CHR 0x22 \<and> starts_with '':'' (dropWhile is_space r) | [] \<Rightarrow> False))"

definition assertCheckpointHasNoSecrets :: "string \<Rightarrow> unit checked" where
  "assertCheckpointHasNoSecrets serialized =
     (if looks_secret serialized then Inl ''AGENT_CHECKPOINT_SECRET_DETECTED: checkpoint contains token or key material''
      else if search secret_key_pair_at serialized then Inl ''AGENT_CHECKPOINT_SECRET_DETECTED: checkpoint contains credential-shaped keys''
      else if list_ex (\<lambda>k. contains k (lower serialized)) [''customersecret'', ''customer_secret'', ''customer-secret'']
        then Inl ''AGENT_CHECKPOINT_SECRET_DETECTED: checkpoint contains customer-secret material''
      else Inr ())"

definition CHECKPOINT_BYTES_FIXED_POINT_ITERATIONS :: nat where "CHECKPOINT_BYTES_FIXED_POINT_ITERATIONS = 24"

definition ledger_safe :: "byte_ledger \<Rightarrow> bool" where
  "ledger_safe l = list_all (\<lambda>n. int n \<le> max_safe_integer)
     [by_legacyInputBytes l, by_legacyOutputBytes l, by_legacyToolPayloadBytes l, by_renderedInputBytes l, by_requestMemoryBytes l,
      by_requestUntrustedBytes l, by_providerResponseBytes l, by_providerStderrBytes l, by_reasonerOutputBytes l, by_toolResultBytes l,
      by_toolEnvelopeBytes l, by_checkpointBytes l]"

definition ledgerOf :: "agent_snapshot \<Rightarrow> byte_ledger" where
  "ledgerOf s = (case sn_byteLedger s of
     Some l \<Rightarrow> if ledger_safe l then l
       else legacyAgentByteLedger (bu_inputBytes (sn_usage s)) (bu_outputBytes (sn_usage s)) (bu_toolPayloadBytes (sn_usage s))
   | None \<Rightarrow> legacyAgentByteLedger (bu_inputBytes (sn_usage s)) (bu_outputBytes (sn_usage s)) (bu_toolPayloadBytes (sn_usage s)))"

definition withCheckpointBytes :: "agent_snapshot \<Rightarrow> byte_ledger \<Rightarrow> nat \<Rightarrow> agent_snapshot" where
  "withCheckpointBytes s ledger n = s\<lparr>sn_byteLedger := Some (ledger\<lparr>by_checkpointBytes := n\<rparr>)\<rparr>"

fun bytes_fixed_point :: "nat \<Rightarrow> (nat \<Rightarrow> nat) \<Rightarrow> nat \<Rightarrow> nat option" where
  "bytes_fixed_point 0 size_of b = None"
| "bytes_fixed_point (Suc n) size_of b = (let measured = size_of b in if measured = b then Some b else bytes_fixed_point n size_of measured)"

definition checkpoint_with :: "agent_snapshot \<Rightarrow> string \<Rightarrow> nat \<Rightarrow> agent_checkpoint" where
  "checkpoint_with s resumeCursor n = \<lparr>cp_campaignId = sn_campaignId s, cp_state = withCheckpointBytes s (ledgerOf s) n,
     cp_resumeCursor = resumeCursor\<rparr>"

definition finalizeCheckpoint :: "(rat \<Rightarrow> string) \<Rightarrow> agent_snapshot \<Rightarrow> string \<Rightarrow> agent_checkpoint checked" where
  "finalizeCheckpoint num s resumeCursor =
     (let priorBytes = by_checkpointBytes (ledgerOf s);
          size_of = (\<lambda>n. priorBytes + json_bytes num (checkpoint_json (checkpoint_with s resumeCursor n)))
      in case bytes_fixed_point CHECKPOINT_BYTES_FIXED_POINT_ITERATIONS size_of priorBytes of
           None \<Rightarrow> Inl ''AGENT_CHECKPOINT_CORRUPT: checkpoint byte measurement did not converge''
         | Some n \<Rightarrow>
             let checkpoint = checkpoint_with s resumeCursor n
             in bind_res (assertCheckpointHasNoSecrets (json_stringify num (checkpoint_json checkpoint))) (\<lambda>_. Inr checkpoint))"

definition resumeCursorFor :: "string \<Rightarrow> nat \<Rightarrow> string" where
  "resumeCursorFor campaignId completedTurns = campaignId @ '':turn:'' @ nat_to_dec completedTurns"

definition createCheckpoint :: "(rat \<Rightarrow> string) \<Rightarrow> agent_snapshot \<Rightarrow> nat \<Rightarrow> agent_checkpoint checked" where
  "createCheckpoint num s completedTurns = finalizeCheckpoint num s (resumeCursorFor (sn_campaignId s) completedTurns)"

section \<open>Facts\<close>

lemma fixed_point_sound: "bytes_fixed_point n f b = Some m \<Longrightarrow> f m = m"
  by (induction n f b rule: bytes_fixed_point.induct) (auto simp: Let_def split: if_splits)

lemma createCheckpoint_Inr:
  assumes "createCheckpoint num s turns = Inr c"
  shows "\<exists>n. c = checkpoint_with s (resumeCursorFor (sn_campaignId s) turns) n
    \<and> n = by_checkpointBytes (ledgerOf s) + json_bytes num (checkpoint_json c)"
proof -
  from assms obtain n where fixed: "bytes_fixed_point CHECKPOINT_BYTES_FIXED_POINT_ITERATIONS
      (\<lambda>n. by_checkpointBytes (ledgerOf s) + json_bytes num (checkpoint_json (checkpoint_with s (resumeCursorFor (sn_campaignId s) turns) n)))
      (by_checkpointBytes (ledgerOf s)) = Some n" and c: "c = checkpoint_with s (resumeCursorFor (sn_campaignId s) turns) n"
    by (auto simp: createCheckpoint_def finalizeCheckpoint_def Let_def split: option.splits)
  then show ?thesis using fixed_point_sound [OF fixed] by simp
qed

end
