(* ===== verification/Agent_Runtime.thy ===== *)
theory Agent_Runtime imports Agent_State begin

text \<open>
  The autonomous agent, \<open>src/core/agentRuntime/runtime.ts\<close>: the loop that asks a reasoner, validates
  its answer and applies the intents. Reasoner, tools, clock, random numbers and the timer are the
  ports of a world of any type; every awaited port also returns the calls of \<open>pause\<close>, \<open>resume\<close> and
  \<open>cancel\<close> that arrived meanwhile, so their interleaving with the loop is part of the model. A port
  that throws where the loop does not catch ends \<open>run\<close> with an error; the instance it leaves behind
  is not modelled. Working memory (\<open>src/core/investigationMemory\<close>) and the spend ceiling
  (\<open>spendCeiling.ts\<close>, arithmetic on doubles) are parameters.
\<close>

section \<open>Ports and instances\<close>

datatype signal = Sig_Pause | Sig_Resume | Sig_Cancel

datatype call_result = Call_Ok json nat nat | Call_Failed string nat nat

record tool_call =
  tc_campaignId :: string
  tc_turnId :: string
  tc_toolId :: string
  tc_arguments :: "(string \<times> json) list"
  tc_argumentDigest :: string

record 'w agent_ports =
  pt_now :: "'w \<Rightarrow> int \<times> 'w"
  pt_random :: "'w \<Rightarrow> rat \<times> 'w"
  pt_sleep :: "int \<Rightarrow> 'w \<Rightarrow> signal list \<times> 'w"
  pt_complete :: "json \<Rightarrow> int \<Rightarrow> 'w \<Rightarrow> call_result option \<times> signal list \<times> 'w"
  pt_execute :: "tool_call \<Rightarrow> 'w \<Rightarrow> (json \<times> signal list \<times> 'w) checked"

record agent_platform = digest_platform +
  ax_memory :: "agent_snapshot \<Rightarrow> json"
  ax_admit :: "(nat \<Rightarrow> nat \<Rightarrow> nat \<Rightarrow> bool) option"

record agent_config =
  ac_campaignId :: string
  ac_policy :: agent_policy
  ac_authorizedEnvironments :: "string list"
  ac_allowedToolIds :: "string list"
  ac_defaultMaxTurns :: int

record agent =
  ag_status :: agent_status
  ag_phase :: agent_phase
  ag_hypotheses :: "agent_hypothesis list"
  ag_actionLog :: "action_record list"
  ag_evidenceRefs :: "string list"
  ag_candidateIds :: "string list"
  ag_usage :: agent_usage
  ag_byteLedger :: byte_ledger
  ag_terminationReason :: "agent_termination option"
  ag_turnBase :: nat
  ag_turnsThisRun :: nat
  ag_wallBaseMs :: int
  ag_runStartMs :: "int option"
  ag_pausedRequested :: bool
  ag_cancelled :: bool
  ag_pendingUntrusted :: "json list"
  ag_knownTargets :: "string list"
  ag_reproductionSurface :: "(string \<times> surface_entry) list"

definition AGENT_RUNTIME_DEFAULT_MAX_TURNS :: int where "AGENT_RUNTIME_DEFAULT_MAX_TURNS = 50"
definition PENDING_UNTRUSTED_CAP :: nat where "PENDING_UNTRUSTED_CAP = 8"
definition KNOWN_TARGETS_CAP :: nat where "KNOWN_TARGETS_CAP = 48"

definition SAFETY_REJECTION_CLASSES :: "string list" where
  "SAFETY_REJECTION_CLASSES = [''UNSAFE_INTENT'', ''UNKNOWN_INTENT'', ''UNKNOWN_TOOL'', ''UNAUTHORIZED_ENVIRONMENT'', ''SECRET_ECHO'']"

definition defaultAllowedToolIds :: "string list \<Rightarrow> string list" where
  "defaultAllowedToolIds authorizedEnvironments =
     map tl_id (filter (\<lambda>t. tl_environment t \<in> set authorizedEnvironments) AGENT_TOOL_CATALOG)"

text \<open>The part of the constructor that fills the configuration; optional dependencies are options.\<close>

definition agent_config_of ::
  "string \<Rightarrow> agent_policy \<Rightarrow> string list option \<Rightarrow> string list option \<Rightarrow> int option \<Rightarrow> agent_config checked" where
  "agent_config_of campaignId policy environments toolIds maxTurns =
     (if campaignId = [] then Inl ''AGENT_RUNTIME: campaignId must be a non-empty string''
      else let envs = (case environments of None \<Rightarrow> [''LOCAL''] | Some es \<Rightarrow> es)
           in Inr \<lparr>ac_campaignId = campaignId, ac_policy = policy, ac_authorizedEnvironments = envs,
                   ac_allowedToolIds = (case toolIds of None \<Rightarrow> defaultAllowedToolIds envs | Some ids \<Rightarrow> ids),
                   ac_defaultMaxTurns = (case maxTurns of None \<Rightarrow> AGENT_RUNTIME_DEFAULT_MAX_TURNS | Some n \<Rightarrow> n)\<rparr>)"

definition fresh_agent :: "json option \<Rightarrow> agent" where
  "fresh_agent priorSurface = \<lparr>ag_status = READY, ag_phase = PLAN, ag_hypotheses = [], ag_actionLog = [], ag_evidenceRefs = [],
     ag_candidateIds = [], ag_usage = ZERO_AGENT_BUDGET_USAGE, ag_byteLedger = ZERO_AGENT_BYTE_LEDGER, ag_terminationReason = None,
     ag_turnBase = 0, ag_turnsThisRun = 0, ag_wallBaseMs = 0, ag_runStartMs = None, ag_pausedRequested = False, ag_cancelled = False,
     ag_pendingUntrusted = [], ag_knownTargets = [],
     ag_reproductionSurface =
       foldl (\<lambda>m e. if TOOL_MEMORY_reproductionSurface \<le> length m then m else map_set m (sf_sourcePath e) e) []
         (case normalizeSurfaceEntries priorSurface of None \<Rightarrow> [] | Some es \<Rightarrow> es)\<rparr>"

definition restored_agent :: "agent_config \<Rightarrow> agent_snapshot \<Rightarrow> nat \<Rightarrow> agent checked" where
  "restored_agent cfg s completedTurns =
     (if sn_campaignId s \<noteq> ac_campaignId cfg then Inl ''AGENT_RUNTIME: restored state belongs to another campaign''
      else Inr \<lparr>ag_status = READY, ag_phase = sn_phase s, ag_hypotheses = sn_hypotheses s, ag_actionLog = sn_actionLog s,
        ag_evidenceRefs = sn_evidenceRefs s, ag_candidateIds = sn_candidateIds s, ag_usage = sn_usage s, ag_byteLedger = ledgerOf s,
        ag_terminationReason = None, ag_turnBase = completedTurns, ag_turnsThisRun = 0, ag_wallBaseMs = bu_wallTimeMs (sn_usage s),
        ag_runStartMs = None, ag_pausedRequested = False, ag_cancelled = False, ag_pendingUntrusted = [],
        ag_knownTargets = sn_knownTargets s,
        ag_reproductionSurface = foldl (\<lambda>m e. map_set m (sf_sourcePath e) e) [] (sn_reproductionSurface s)\<rparr>)"

definition snapshot :: "agent_config \<Rightarrow> agent \<Rightarrow> agent_snapshot" where
  "snapshot cfg a = \<lparr>sn_campaignId = ac_campaignId cfg, sn_status = ag_status a, sn_phase = ag_phase a, sn_hypotheses = ag_hypotheses a,
     sn_actionLog = ag_actionLog a, sn_evidenceRefs = ag_evidenceRefs a, sn_candidateIds = ag_candidateIds a,
     sn_knownTargets = ag_knownTargets a, sn_reproductionSurface = map snd (ag_reproductionSurface a),
     sn_byteLedger = Some (ag_byteLedger a), sn_policy = ac_policy cfg, sn_usage = ag_usage a,
     sn_terminationReason = ag_terminationReason a\<rparr>"

definition pause :: "agent \<Rightarrow> agent" where
  "pause a = a\<lparr>ag_pausedRequested := True\<rparr>"

definition resume :: "agent \<Rightarrow> agent" where
  "resume a = (let b = a\<lparr>ag_pausedRequested := False\<rparr>
     in if ag_status b = PAUSED then b\<lparr>ag_status := READY, ag_terminationReason := None\<rparr> else b)"

definition cancel :: "agent \<Rightarrow> agent" where
  "cancel a = a\<lparr>ag_cancelled := True\<rparr>"

fun apply_signal :: "agent \<Rightarrow> signal \<Rightarrow> agent" where
  "apply_signal a Sig_Pause = pause a"
| "apply_signal a Sig_Resume = resume a"
| "apply_signal a Sig_Cancel = cancel a"

definition apply_signals :: "signal list \<Rightarrow> agent \<Rightarrow> agent" where
  "apply_signals sigs a = foldl apply_signal a sigs"

section \<open>Bookkeeping\<close>

definition index_of :: "'a \<Rightarrow> 'a list \<Rightarrow> nat" where
  "index_of x xs = length (takeWhile (\<lambda>y. y \<noteq> x) xs)"

definition nextPhase :: "agent_phase \<Rightarrow> agent_phase" where
  "nextPhase p = AGENT_PHASES ! ((index_of p AGENT_PHASES + 1) mod length AGENT_PHASES)"

definition record_action :: "action_record \<Rightarrow> agent \<Rightarrow> agent" where
  "record_action r a = a\<lparr>ag_actionLog := ag_actionLog a @ [r]\<rparr>"

text \<open>An entry without tool, target, salient symbols and disposition.\<close>

definition plain_record :: "string \<Rightarrow> agent_phase \<Rightarrow> string \<Rightarrow> string \<Rightarrow> string list \<Rightarrow> action_record" where
  "plain_record turnId phase kind resultClass refs = \<lparr>cr_turnId = turnId, cr_phase = phase, cr_intentKind = kind, cr_toolId = None,
     cr_argumentDigest = None, cr_resultClass = resultClass, cr_evidenceRefs = refs, cr_target = None, cr_salient = None,
     cr_disposition = None\<rparr>"

definition note_action :: "string \<Rightarrow> string \<Rightarrow> string \<Rightarrow> string list \<Rightarrow> agent \<Rightarrow> agent" where
  "note_action turnId kind resultClass refs a = record_action (plain_record turnId (ag_phase a) kind resultClass refs) a"

definition addEvidence :: "string list \<Rightarrow> agent \<Rightarrow> agent" where
  "addEvidence refs a = a\<lparr>ag_evidenceRefs :=
     foldl (\<lambda>known ref. if ref \<noteq> [] \<and> ref \<notin> set known then known @ [ref] else known) (ag_evidenceRefs a) refs\<rparr>"

definition learnTargets :: "string list \<Rightarrow> agent \<Rightarrow> agent" where
  "learnTargets targets a = a\<lparr>ag_knownTargets :=
     foldl (\<lambda>known t. if KNOWN_TARGETS_CAP \<le> length known then known else if t = [] \<or> t \<in> set known then known else known @ [t])
       (ag_knownTargets a) targets\<rparr>"

fun learn_surface :: "surface_entry list \<Rightarrow> (string \<times> surface_entry) list \<Rightarrow> (string \<times> surface_entry) list" where
  "learn_surface [] m = m"
| "learn_surface (e # es) m =
     (if TOOL_MEMORY_reproductionSurface \<le> length m \<and> \<not> map_has m (sf_sourcePath e) then m
      else learn_surface es (map_set m (sf_sourcePath e) e))"

definition lastConfirmedTargetFor :: "string \<Rightarrow> string \<Rightarrow> action_record list \<Rightarrow> string option" where
  "lastConfirmedTargetFor toolId digest history =
     (case find (\<lambda>r. cr_toolId r = Some toolId \<and> cr_argumentDigest r = Some digest) (rev history) of
        None \<Rightarrow> None | Some r \<Rightarrow> cr_target r)"

definition grounding_refs :: "string \<Rightarrow> action_record list \<Rightarrow> string list" where
  "grounding_refs target history = concat (map cr_evidenceRefs
     (filter (\<lambda>r. cr_toolId r = Some ''INSPECT_SOURCE_SURFACE'' \<and> cr_resultClass r = ''SOURCE_FILE'' \<and> cr_target r = Some target) history))"

definition applyReproductionVerdict :: "string \<Rightarrow> string \<Rightarrow> agent \<Rightarrow> agent" where
  "applyReproductionVerdict target resultClass a =
     (if resultClass \<noteq> ''REPRODUCED'' \<and> resultClass \<noteq> ''NOT_REPRODUCED'' then a
      else
        let refs = grounding_refs target (ag_actionLog a);
            verdict = (if resultClass = ''REPRODUCED'' then SUPPORTED else DISPROVED)
        in if refs = [] then a
           else a\<lparr>ag_hypotheses := map (\<lambda>h.
                  if hy_status h = DISPROVED \<and> verdict = DISPROVED then h
                  else if \<not> list_ex (\<lambda>r. r \<in> set refs) (hy_evidenceRefs h) then h
                  else h\<lparr>hy_status := verdict\<rparr>) (ag_hypotheses a)\<rparr>)"

definition fail_usage :: "bool \<Rightarrow> agent \<Rightarrow> agent" where
  "fail_usage provider a = a\<lparr>ag_usage := (ag_usage a)
     \<lparr>bu_providerFailures := bu_providerFailures (ag_usage a) + (if provider then 1 else 0),
      bu_consecutiveFailures := bu_consecutiveFailures (ag_usage a) + 1, bu_failures := bu_failures (ag_usage a) + 1\<rparr>\<rparr>"

definition refreshWallTime :: "'w agent_ports \<Rightarrow> agent \<times> 'w \<Rightarrow> agent \<times> 'w" where
  "refreshWallTime ports s = (case s of (a, w) \<Rightarrow>
     (case ag_runStartMs a of
        None \<Rightarrow> (a, w)
      | Some t0 \<Rightarrow> (case pt_now ports w of (t, w') \<Rightarrow>
          (a\<lparr>ag_usage := (ag_usage a)\<lparr>bu_wallTimeMs := ag_wallBaseMs a + (t - t0)\<rparr>\<rparr>, w'))))"

definition backoffDelay :: "'w agent_ports \<Rightarrow> agent \<times> 'w \<Rightarrow> agent \<times> 'w" where
  "backoffDelay ports s = (case s of (a, w) \<Rightarrow> case pt_random ports w of (raw, w1) \<Rightarrow>
     let delay = boundedBackoffMs (bu_consecutiveFailures (ag_usage a)) raw
     in if delay \<le> 0 then (a, w1)
        else case pt_sleep ports delay w1 of (sigs, w2) \<Rightarrow> (apply_signals sigs a, w2))"

section \<open>Tool calls\<close>

definition tool_record :: "string \<Rightarrow> string \<Rightarrow> string \<Rightarrow> agent_phase \<Rightarrow> string \<Rightarrow> action_record" where
  "tool_record turnId toolId digest phase resultClass = (plain_record turnId phase ''CALL_TOOL'' resultClass [])
     \<lparr>cr_toolId := Some toolId, cr_argumentDigest := Some digest\<rparr>"

definition charge_tool :: "tool_result \<Rightarrow> nat \<Rightarrow> agent \<Rightarrow> agent" where
  "charge_tool r envelopeBytes a =
     (let ledger = (ag_byteLedger a)\<lparr>by_toolResultBytes := by_toolResultBytes (ag_byteLedger a) + to_outputBytes r,
            by_toolEnvelopeBytes := by_toolEnvelopeBytes (ag_byteLedger a) + envelopeBytes\<rparr>;
          usage = (ag_usage a)\<lparr>bu_toolActions := bu_toolActions (ag_usage a) + 1, bu_outputBytes := chargedOutputBytes ledger,
            bu_toolPayloadBytes := chargedToolPayloadBytes ledger\<rparr>
      in a\<lparr>ag_byteLedger := ledger,
           ag_usage := (if to_ok r then usage
             else usage\<lparr>bu_consecutiveFailures := bu_consecutiveFailures usage + 1, bu_failures := bu_failures usage + 1\<rparr>)\<rparr>)"

definition keep_untrusted :: "json list \<Rightarrow> agent \<Rightarrow> agent" where
  "keep_untrusted items a =
     (if items = [] then a
      else let all = ag_pendingUntrusted a @ items
           in a\<lparr>ag_pendingUntrusted := drop (length all - PENDING_UNTRUSTED_CAP) all\<rparr>)"

definition learn_facts :: "string \<Rightarrow> tool_result \<Rightarrow> agent \<Rightarrow> agent" where
  "learn_facts toolId r a =
     (if \<not> (to_ok r \<and> (toolId = ''INSPECT_SOURCE_SURFACE'' \<or> toolId = ''RERUN_SAFE_REPRODUCTION'')) then a
      else case to_memory r of
        None \<Rightarrow> a
      | Some facts \<Rightarrow>
          let a1 = (case mf_availableTargets facts of None \<Rightarrow> a | Some ts \<Rightarrow> learnTargets ts a);
              a2 = (case mf_target facts of None \<Rightarrow> a1 | Some t \<Rightarrow> learnTargets [t] a1)
          in case mf_reproductionSurface facts of
               None \<Rightarrow> a2
             | Some es \<Rightarrow> a2\<lparr>ag_reproductionSurface := learn_surface es (ag_reproductionSurface a2)\<rparr>)"

text \<open>What follows the executor's answer: the charge, the facts and the entry, then the verdict on hypotheses.\<close>

definition settled_entry :: "agent_platform \<Rightarrow> string \<Rightarrow> string \<Rightarrow> string \<Rightarrow> tool_result \<Rightarrow> agent \<Rightarrow> agent" where
  "settled_entry pf toolId digest turnId r a =
     (let a1 = charge_tool r (json_bytes (dp_num pf) (JArr (to_untrusted r))) a;
          a2 = learn_facts toolId r (keep_untrusted (to_untrusted r) (addEvidence (to_evidenceRefs r) a1))
      in record_action ((tool_record turnId toolId digest (ag_phase a2) (if to_ok r then to_resultClass r else ''TOOL_ERROR''))
           \<lparr>cr_evidenceRefs := to_evidenceRefs r, cr_target := (case to_memory r of None \<Rightarrow> None | Some facts \<Rightarrow> mf_target facts),
            cr_salient := (case to_memory r of None \<Rightarrow> None | Some facts \<Rightarrow> mf_salient facts),
            cr_disposition := (if to_ok r then None else to_disposition r)\<rparr>) a2)"

definition settle_tool :: "agent_platform \<Rightarrow> string \<Rightarrow> string \<Rightarrow> string \<Rightarrow> json \<Rightarrow> agent \<Rightarrow> agent" where
  "settle_tool pf toolId digest turnId raw a =
     (let r = normalizeToolResult raw;
          target = (case to_memory r of None \<Rightarrow> None | Some facts \<Rightarrow> mf_target facts);
          a3 = settled_entry pf toolId digest turnId r a
      in case target of
           Some t \<Rightarrow> if toolId = ''RERUN_SAFE_REPRODUCTION''
                     then applyReproductionVerdict t (if to_ok r then to_resultClass r else ''TOOL_ERROR'') a3 else a3
         | None \<Rightarrow> a3)"

definition call_exhausted :: "action_record list \<Rightarrow> string \<Rightarrow> string \<Rightarrow> bool" where
  "call_exhausted history toolId digest =
     (let f = fingerprint_text ''CALL_TOOL'' (Some toolId) (Some digest)
      in detectRepeatedAction history f NO_PROGRESS_REPEAT_LIMIT \<or> detectExhaustedAction history f)"

definition applyCallTool ::
  "agent_config \<Rightarrow> agent_platform \<Rightarrow> 'w agent_ports \<Rightarrow> string \<Rightarrow> string \<Rightarrow> (string \<times> json) list \<Rightarrow> string \<Rightarrow> agent \<times> 'w
     \<Rightarrow> (agent \<times> 'w) checked" where
  "applyCallTool cfg pf ports toolId digest args turnId s = (case s of (a, w) \<Rightarrow>
     if call_exhausted (ag_actionLog a) toolId digest
     then Inr (record_action ((tool_record turnId toolId digest (ag_phase a) ''DEDUPED_REPEAT'')
                 \<lparr>cr_target := lastConfirmedTargetFor toolId digest (ag_actionLog a)\<rparr>) a, w)
     else bind_res (pt_execute ports \<lparr>tc_campaignId = ac_campaignId cfg, tc_turnId = turnId, tc_toolId = toolId, tc_arguments = args,
                       tc_argumentDigest = digest\<rparr> w) (\<lambda>(raw, sigs, w').
            Inr (settle_tool pf toolId digest turnId raw (apply_signals sigs a), w')))"

section \<open>Intents\<close>

datatype intent_outcome = Next_Intent | Replanned | Stop_Turn agent_termination bool

definition open_hypothesis :: "hypothesis_draft \<Rightarrow> agent \<Rightarrow> agent" where
  "open_hypothesis d a = addEvidence (hd_evidenceRefs d) (a\<lparr>ag_hypotheses := ag_hypotheses a
     @ [\<lparr>hy_hypothesisId = hd_hypothesisId d, hy_statement = hd_statement d, hy_evidenceRefs = hd_evidenceRefs d, hy_status = OPEN\<rparr>]\<rparr>)"

definition hypothesis_known :: "string \<Rightarrow> agent \<Rightarrow> bool" where
  "hypothesis_known i a = list_ex (\<lambda>h. hy_hypothesisId h = i) (ag_hypotheses a)"

definition propose_candidate :: "string \<Rightarrow> string list \<Rightarrow> agent \<Rightarrow> agent" where
  "propose_candidate c refs a = addEvidence refs (a\<lparr>
     ag_candidateIds := (if c \<in> set (ag_candidateIds a) then ag_candidateIds a else ag_candidateIds a @ [c]),
     ag_usage := (ag_usage a)\<lparr>bu_candidateCount := bu_candidateCount (ag_usage a) + 1\<rparr>\<rparr>)"

definition applyIntent ::
  "agent_config \<Rightarrow> agent_platform \<Rightarrow> 'w agent_ports \<Rightarrow> string \<Rightarrow> agent_intent \<Rightarrow> agent \<times> 'w \<Rightarrow> (intent_outcome \<times> agent \<times> 'w) checked" where
  "applyIntent cfg pf ports turnId intent s = (case s of (a, w) \<Rightarrow> case intent of
     Call_Tool toolId digest args \<Rightarrow>
       (case lookupAgentTool toolId of
          None \<Rightarrow> Inr (Stop_Turn Agent_SAFETY_BLOCKED False, note_action turnId ''BLOCKED'' ''SAFETY_BLOCKED_UNKNOWN_TOOL'' [] a, w)
        | Some tool \<Rightarrow> bind_res (applyCallTool cfg pf ports (tl_id tool) digest args turnId (a, w)) (\<lambda>s'. Inr (Next_Intent, s')))
   | Form_Hypothesis i statement refs \<Rightarrow>
       Inr (Next_Intent,
         if hypothesis_known i a then note_action turnId ''FORM_HYPOTHESIS'' ''HYPOTHESIS_DUPLICATE'' [] a
         else note_action turnId ''FORM_HYPOTHESIS'' ''HYPOTHESIS_FORMED'' refs
                (open_hypothesis \<lparr>hd_hypothesisId = i, hd_statement = statement, hd_evidenceRefs = refs\<rparr> a), w)
   | Propose_Candidate c refs \<Rightarrow>
       Inr (Next_Intent,
         if \<not> proposeCandidateRequiresEvidence intent
         then note_action turnId ''PROPOSE_CANDIDATE'' ''CANDIDATE_REJECTED_MISSING_EVIDENCE'' [] a
         else note_action turnId ''PROPOSE_CANDIDATE'' ''CANDIDATE_PROPOSED'' refs (propose_candidate c refs a), w)
   | Reject_Candidate c code \<Rightarrow>
       Inr (Next_Intent, note_action turnId ''REJECT_CANDIDATE'' ''CANDIDATE_REJECTED'' []
              (a\<lparr>ag_candidateIds := filter (\<lambda>i. i \<noteq> c) (ag_candidateIds a)\<rparr>), w)
   | Replan code \<Rightarrow> Inr (Replanned, note_action turnId ''REPLAN'' ''REPLANNED'' [] a, w)
   | Pause_Intent \<Rightarrow> Inr (Stop_Turn Agent_PAUSED True, note_action turnId ''PAUSE'' ''PAUSED'' [] a, w)
   | Cancel_Intent \<Rightarrow> Inr (Stop_Turn Agent_CANCELLED False, note_action turnId ''CANCEL'' ''CANCELLED'' [] a, w)
   | Terminate reason \<Rightarrow>
       Inr (Stop_Turn reason (reason = Agent_BUDGET_EXHAUSTED \<or> reason = Agent_PAUSED),
            note_action turnId ''TERMINATE'' (''TERMINATED_'' @ termination_text reason) [] a, w))"

fun apply_intents ::
  "agent_config \<Rightarrow> agent_platform \<Rightarrow> 'w agent_ports \<Rightarrow> string \<Rightarrow> agent_intent list \<Rightarrow> bool \<Rightarrow> agent \<times> 'w
     \<Rightarrow> ((agent_termination \<times> bool) option \<times> bool \<times> agent \<times> 'w) checked" where
  "apply_intents cfg pf ports turnId [] replanned s = Inr (None, replanned, s)"
| "apply_intents cfg pf ports turnId (i # is) replanned s =
     bind_res (applyIntent cfg pf ports turnId i s) (\<lambda>(outcome, a, w).
       case outcome of
         Replanned \<Rightarrow> apply_intents cfg pf ports turnId is True (a, w)
       | Stop_Turn reason withCheckpoint \<Rightarrow> Inr (Some (reason, withCheckpoint), replanned, a, w)
       | Next_Intent \<Rightarrow>
           if classifyBudgetExhaustion (ac_policy cfg) (ag_usage a) = SAFE_TERMINATION_CHECKPOINT
           then Inr (Some (Agent_BUDGET_EXHAUSTED, True), replanned, a, w)
           else apply_intents cfg pf ports turnId is replanned (a, w))"

section \<open>One turn\<close>

definition request_json :: "agent_config \<Rightarrow> agent_platform \<Rightarrow> string \<Rightarrow> agent \<Rightarrow> json" where
  "request_json cfg pf turnId a = JObj [(''schemaVersion'', JStr ''nightwatch.reasoner-turn-request.v2''),
     (''campaignId'', JStr (ac_campaignId cfg)), (''turnId'', JStr turnId),
     (''observation'', JObj [(''phase'', JStr (phase_text (ag_phase a))), (''untrusted'', JArr (ag_pendingUntrusted a)),
        (''evidenceRefs'', texts_json (ag_evidenceRefs a)), (''allowedToolIds'', texts_json (ac_allowedToolIds cfg)),
        (''allowedIntentKinds'', texts_json AGENT_INTENT_KINDS), (''memory'', ax_memory pf (snapshot cfg a))]),
     (''budgetRemaining'', JObj [(''policy'', policy_json (ac_policy cfg)), (''usage'', usage_json (ag_usage a))])]"

definition charge_request :: "agent_config \<Rightarrow> agent_platform \<Rightarrow> json \<Rightarrow> agent \<Rightarrow> agent \<Rightarrow> agent" where
  "charge_request cfg pf request seen a =
     (let ledger = (ag_byteLedger a)
            \<lparr>by_renderedInputBytes := by_renderedInputBytes (ag_byteLedger a) + json_bytes (dp_num pf) request,
             by_requestMemoryBytes := by_requestMemoryBytes (ag_byteLedger a) + json_bytes (dp_num pf) (ax_memory pf (snapshot cfg seen)),
             by_requestUntrustedBytes := by_requestUntrustedBytes (ag_byteLedger a) + json_bytes (dp_num pf) (JArr (ag_pendingUntrusted seen))\<rparr>
      in a\<lparr>ag_byteLedger := ledger, ag_usage := (ag_usage a)\<lparr>bu_inputBytes := chargedInputBytes ledger\<rparr>\<rparr>)"

definition charge_response :: "nat \<Rightarrow> nat \<Rightarrow> agent \<Rightarrow> agent" where
  "charge_response stdoutBytes stderrBytes a =
     (let ledger = (ag_byteLedger a)\<lparr>by_providerResponseBytes := by_providerResponseBytes (ag_byteLedger a) + stdoutBytes,
            by_providerStderrBytes := by_providerStderrBytes (ag_byteLedger a) + stderrBytes\<rparr>
      in a\<lparr>ag_byteLedger := ledger, ag_usage := (ag_usage a)\<lparr>bu_reasonerCalls := bu_reasonerCalls (ag_usage a) + 1,
             bu_outputBytes := chargedOutputBytes ledger\<rparr>\<rparr>)"

definition measure_output :: "agent_platform \<Rightarrow> json \<Rightarrow> agent \<Rightarrow> agent" where
  "measure_output pf response a = a\<lparr>ag_byteLedger := (ag_byteLedger a)
     \<lparr>by_reasonerOutputBytes := by_reasonerOutputBytes (ag_byteLedger a) + json_bytes (dp_num pf) response\<rparr>\<rparr>"

definition adopt_drafts :: "hypothesis_draft list \<Rightarrow> agent \<Rightarrow> agent" where
  "adopt_drafts drafts a = foldl (\<lambda>b d. if hypothesis_known (hd_hypothesisId d) b then b else open_hypothesis d b) a drafts"

definition validation_context_of :: "agent_config \<Rightarrow> validation_context" where
  "validation_context_of cfg = \<lparr>vc_authorizedEnvironments = ac_authorizedEnvironments cfg, vc_allowedToolIds = Some (ac_allowedToolIds cfg)\<rparr>"

definition apply_response ::
  "agent_config \<Rightarrow> agent_platform \<Rightarrow> 'w agent_ports \<Rightarrow> string \<Rightarrow> agent_intent list \<Rightarrow> hypothesis_draft list \<Rightarrow> agent \<times> 'w
     \<Rightarrow> ((agent_termination \<times> bool) option \<times> agent \<times> 'w) checked" where
  "apply_response cfg pf ports turnId intents drafts s = (case s of (a, w) \<Rightarrow>
     let a1 = adopt_drafts drafts (a\<lparr>ag_usage := (ag_usage a)\<lparr>bu_consecutiveFailures := 0\<rparr>\<rparr>)
     in bind_res (apply_intents cfg pf ports turnId intents False (a1, w)) (\<lambda>(terminal, replanned, a2, w').
          case terminal of
            Some t \<Rightarrow> Inr (Some t, a2, w')
          | None \<Rightarrow> Inr (None, a2\<lparr>ag_phase := (if replanned then PLAN else nextPhase (ag_phase a2))\<rparr>, w')))"

text \<open>A rejected answer and a failed call: the entry, then the end of the run or a delay.\<close>

definition after_failure ::
  "'w agent_ports \<Rightarrow> bool \<Rightarrow> agent \<times> 'w \<Rightarrow> (agent_termination \<times> bool) option \<times> agent \<times> 'w" where
  "after_failure ports permanent s =
     (if permanent then (Some (Agent_REASONER_FAILURE, True), s)
      else (None, backoffDelay ports s))"

definition handle_response ::
  "agent_config \<Rightarrow> agent_platform \<Rightarrow> 'w agent_ports \<Rightarrow> string \<Rightarrow> json \<Rightarrow> agent \<times> 'w
     \<Rightarrow> ((agent_termination \<times> bool) option \<times> agent \<times> 'w) checked" where
  "handle_response cfg pf ports turnId response s = (case s of (a, w) \<Rightarrow>
     let a1 = measure_output pf response a
     in case validateReasonerTurnResponse (digest_platform.truncate pf) (validation_context_of cfg) response of
          Inl failureClass \<Rightarrow>
            if failureClass \<in> set SAFETY_REJECTION_CLASSES
            then Inr (Some (Agent_SAFETY_BLOCKED, False), note_action turnId ''BLOCKED'' (''SAFETY_BLOCKED_'' @ failureClass) [] a1, w)
            else Inr (after_failure ports (providerFailureNature failureClass = PERMANENT)
                   (note_action turnId ''REASONER_RESPONSE'' (''REJECTED_'' @ failureClass) [] (fail_usage False a1), w))
        | Inr (intents, drafts) \<Rightarrow> apply_response cfg pf ports turnId intents drafts (a1, w))"

definition call_timeout :: "agent_config \<Rightarrow> int" where
  "call_timeout cfg = (if 0 < bp_perActionTimeoutMs (ac_policy cfg) then bp_perActionTimeoutMs (ac_policy cfg) else 120000)"

definition ask_reasoner ::
  "agent_config \<Rightarrow> agent_platform \<Rightarrow> 'w agent_ports \<Rightarrow> string \<Rightarrow> json \<Rightarrow> agent \<times> 'w
     \<Rightarrow> ((agent_termination \<times> bool) option \<times> agent \<times> 'w) checked" where
  "ask_reasoner cfg pf ports turnId request s = (case s of (a, w) \<Rightarrow>
     case pt_complete ports request (call_timeout cfg) w of (answer, sigs, w') \<Rightarrow>
     let a1 = apply_signals sigs a
     in case answer of
          None \<Rightarrow>
            if ag_cancelled a1 then Inr (Some (Agent_CANCELLED, False), a1, w')
            else Inr (None, backoffDelay ports (note_action turnId ''REASONER_CALL'' ''DRIVER_THROW'' [] (fail_usage True a1), w'))
        | Some (Call_Failed failureClass out err) \<Rightarrow>
            Inr (after_failure ports (providerFailureNature failureClass = PERMANENT)
              (note_action turnId ''REASONER_CALL'' (''REASONER_'' @ failureClass) [] (fail_usage True (charge_response out err a1)), w'))
        | Some (Call_Ok response out err) \<Rightarrow> handle_response cfg pf ports turnId response (charge_response out err a1, w'))"

definition runTurn ::
  "agent_config \<Rightarrow> agent_platform \<Rightarrow> 'w agent_ports \<Rightarrow> string \<Rightarrow> agent \<times> 'w \<Rightarrow> ((agent_termination \<times> bool) option \<times> agent \<times> 'w) checked" where
  "runTurn cfg pf ports turnId s = (case s of (a, w) \<Rightarrow>
     let request = request_json cfg pf turnId a; a1 = a\<lparr>ag_pendingUntrusted := []\<rparr>
     in if (case ax_admit pf of None \<Rightarrow> False
            | Some admit \<Rightarrow> \<not> admit (json_bytes (dp_num pf) request) (chargedInputBytes (ag_byteLedger a1)) (chargedOutputBytes (ag_byteLedger a1)))
        then Inr (Some (Agent_BUDGET_EXHAUSTED, True), note_action turnId ''BLOCKED'' ''SPEND_CEILING_REFUSED_BEFORE_REQUEST'' [] a1, w)
        else ask_reasoner cfg pf ports turnId request (charge_request cfg pf request a a1, w))"

section \<open>The run\<close>

definition turn_id :: "agent_config \<Rightarrow> agent \<Rightarrow> string" where
  "turn_id cfg a = ac_campaignId cfg @ '':turn:'' @ nat_to_dec (ag_turnBase a + ag_turnsThisRun a + 1)"

definition after_turn ::
  "agent_config \<Rightarrow> 'w agent_ports \<Rightarrow> string \<Rightarrow> agent \<times> 'w \<Rightarrow> (agent_termination \<times> bool) option \<times> agent \<times> 'w" where
  "after_turn cfg ports turnId s = (case refreshWallTime ports s of (a, w) \<Rightarrow>
     if classifyBudgetExhaustion (ac_policy cfg) (ag_usage a) = SAFE_TERMINATION_CHECKPOINT then (Some (Agent_BUDGET_EXHAUSTED, True), a, w)
     else if detectNoProgress (ag_actionLog a) 6
       then (Some (Agent_NO_PROGRESS, False), note_action turnId ''NO_PROGRESS'' ''NO_PROGRESS_DETECTED'' [] a, w)
     else (None, a, w))"

definition run_iteration ::
  "agent_config \<Rightarrow> agent_platform \<Rightarrow> 'w agent_ports \<Rightarrow> int \<Rightarrow> agent \<times> 'w \<Rightarrow> ((agent_termination \<times> bool) option \<times> agent \<times> 'w) checked" where
  "run_iteration cfg pf ports maxTurns s = (case s of (a, w) \<Rightarrow>
     if ag_cancelled a then Inr (Some (Agent_CANCELLED, False), a, w)
     else if ag_pausedRequested a then Inr (Some (Agent_PAUSED, True), a, w)
     else case refreshWallTime ports (a, w) of (a1, w1) \<Rightarrow>
       if classifyBudgetExhaustion (ac_policy cfg) (ag_usage a1) = SAFE_TERMINATION_CHECKPOINT
       then Inr (Some (Agent_BUDGET_EXHAUSTED, True), a1, w1)
       else if maxTurns \<le> int (ag_turnsThisRun a1) then Inr (Some (Agent_NO_PROGRESS, False), a1, w1)
       else bind_res (runTurn cfg pf ports (turn_id cfg a1) (a1, w1)) (\<lambda>(terminal, a2, w2).
              let a3 = a2\<lparr>ag_turnsThisRun := ag_turnsThisRun a2 + 1\<rparr>
              in case terminal of
                   Some t \<Rightarrow> Inr (Some t, a3, w2)
                 | None \<Rightarrow> Inr (after_turn cfg ports (turn_id cfg a1) (a3, w2))))"

end
