(* ===== verification/Agent_Loop.thy ===== *)
theory Agent_Loop imports Agent_Runtime begin

text \<open>
  The run of an autonomous agent (\<open>run\<close>, \<open>finish\<close> and \<open>checkpoint\<close> of
  \<open>src/core/agentRuntime/runtime.ts\<close>) and the contract under which a property of its state survives
  a turn: the locale \<open>turn_law\<close> names the state changes of a turn by the stage they happen in.
\<close>

section \<open>Invariants of a turn\<close>

datatype stage = Between | Asking | Answered

locale turn_law =
  fixes cfg :: agent_config and pf :: agent_platform and I :: "stage \<Rightarrow> agent \<Rightarrow> bool"
  assumes weaken: "I st a \<Longrightarrow> I Between a"
    and asked: "I Asking a \<Longrightarrow> I Answered a"
    and ready: "I Between a \<Longrightarrow> classifyBudgetExhaustion (ac_policy cfg) (ag_usage a) = CONTINUE \<Longrightarrow> I Asking a"
    and signalled: "I st a \<Longrightarrow> I st (apply_signal a sig)"
    and noted: "kind \<noteq> ''CALL_TOOL'' \<Longrightarrow> I st a \<Longrightarrow> I st (note_action turnId kind resultClass refs a)"
    and clocked: "I st a \<Longrightarrow> I st (a\<lparr>ag_usage := (ag_usage a)\<lparr>bu_wallTimeMs := t\<rparr>\<rparr>)"
    and rendered: "I st a \<Longrightarrow> I st (a\<lparr>ag_pendingUntrusted := []\<rparr>)"
    and phased: "I st a \<Longrightarrow> I st (a\<lparr>ag_phase := p\<rparr>)"
    and requested: "I Asking a \<Longrightarrow> I Asking (charge_request cfg pf request seen a)"
    and failed: "st \<noteq> Between \<Longrightarrow> I st a \<Longrightarrow> I Between (fail_usage provider a)"
    and responded: "I Asking a \<Longrightarrow> I Answered (charge_response out err a)"
    and measured: "I Answered a \<Longrightarrow> I Answered (measure_output pf response a)"
    and recovered: "I Answered a \<Longrightarrow> I Answered (a\<lparr>ag_usage := (ag_usage a)\<lparr>bu_consecutiveFailures := 0\<rparr>\<rparr>)"
    and opened: "\<not> hypothesis_known (hd_hypothesisId d) a \<Longrightarrow> I Answered a \<Longrightarrow> I Answered (open_hypothesis d a)"
    and proposed: "I Answered a \<Longrightarrow> I Between (propose_candidate c refs a)"
    and withdrawn: "I Answered a \<Longrightarrow> I Answered (a\<lparr>ag_candidateIds := filter (\<lambda>i. i \<noteq> c) (ag_candidateIds a)\<rparr>)"
    and deduped: "I Answered a \<Longrightarrow> call_exhausted (ag_actionLog a) toolId digest \<Longrightarrow>
      I Answered (record_action ((tool_record turnId toolId digest (ag_phase a) ''DEDUPED_REPEAT'')\<lparr>cr_target := target\<rparr>) a)"
    and settled: "I Answered a \<Longrightarrow> \<not> call_exhausted (ag_actionLog a) toolId digest \<Longrightarrow>
      I Between (settle_tool pf toolId digest turnId raw a)"

lemma signals_log [simp]: "ag_actionLog (apply_signals sigs a) = ag_actionLog a"
proof -
  have "ag_actionLog (apply_signal a s) = ag_actionLog a" for a s
    by (cases s) (simp_all add: pause_def resume_def cancel_def Let_def)
  then show ?thesis unfolding apply_signals_def by (induction sigs arbitrary: a) simp_all
qed

context turn_law begin

lemma signals: "I st a \<Longrightarrow> I st (apply_signals sigs a)"
  unfolding apply_signals_def by (induction sigs arbitrary: a) (simp_all add: signalled)

lemma refreshed: "I st a \<Longrightarrow> I st (fst (refreshWallTime ports (a, w)))"
  by (simp add: refreshWallTime_def clocked split: option.split prod.split)

lemma delayed: "I st a \<Longrightarrow> I st (fst (backoffDelay ports (a, w)))"
  by (simp add: backoffDelay_def Let_def signals split: prod.split)

lemma call_kept:
  assumes "I Answered a" "applyCallTool cfg pf ports toolId digest args turnId (a, w) = Inr (a', w')"
  shows "I Between a'"
  using assms by (auto simp: applyCallTool_def signals settled weaken [OF deduped] split: if_splits)

lemma intent_kept:
  assumes "I Answered a" "applyIntent cfg pf ports turnId i (a, w) = Inr (out, a', w')"
  shows "I Between a' \<and> (out = Replanned \<longrightarrow> I Answered a')"
proof (cases i)
  case (Call_Tool toolId digest args)
  then show ?thesis using assms
    by (auto simp: applyIntent_def call_kept noted weaken split: option.splits dest: call_kept)
next
  case (Form_Hypothesis i s refs)
  then show ?thesis using assms by (auto simp: applyIntent_def noted weaken [OF opened] weaken split: if_splits)
next
  case (Propose_Candidate c refs)
  then show ?thesis using assms by (auto simp: applyIntent_def noted proposed weaken split: if_splits)
next
  case (Reject_Candidate c code)
  then show ?thesis using assms by (auto simp: applyIntent_def noted weaken [OF withdrawn])
qed (use assms in \<open>auto simp: applyIntent_def noted weaken\<close>)

lemma intents_kept:
  "I Answered (fst s) \<Longrightarrow> apply_intents cfg pf ports turnId is replanned s = Inr (t, r, a', w') \<Longrightarrow> I Between a'"
proof (induction "is" arbitrary: s replanned)
  case Nil
  then show ?case by (auto intro: weaken)
next
  case (Cons i "is")
  obtain a w where s: "s = (a, w)" by (cases s)
  with Cons.prems obtain out b v where step: "applyIntent cfg pf ports turnId i (a, w) = Inr (out, b, v)"
    by (cases "applyIntent cfg pf ports turnId i (a, w)") auto
  have kept: "I Between b \<and> (out = Replanned \<longrightarrow> I Answered b)" using intent_kept [OF _ step] Cons.prems(1) s by simp
  show ?case using Cons.prems(2) kept Cons.IH [of "(b, v)"]
    by (cases out) (auto simp: s step asked ready split: if_splits)
qed

lemma drafts_kept: "I Answered a \<Longrightarrow> I Answered (adopt_drafts drafts a)"
  unfolding adopt_drafts_def by (induction drafts arbitrary: a) (simp_all add: opened)

lemma response_applied:
  assumes "I Answered a" "apply_response cfg pf ports turnId intents drafts (a, w) = Inr (t, a', w')"
  shows "I Between a'"
proof -
  let ?a1 = "adopt_drafts drafts (a\<lparr>ag_usage := (ag_usage a)\<lparr>bu_consecutiveFailures := 0\<rparr>\<rparr>)"
  obtain r b v t' where run: "apply_intents cfg pf ports turnId intents False (?a1, w) = Inr (t', r, b, v)"
    using assms(2) by (cases "apply_intents cfg pf ports turnId intents False (?a1, w)") (auto simp: apply_response_def Let_def)
  have "I Between b" using intents_kept [OF _ run] assms(1) by (simp add: drafts_kept recovered)
  then show ?thesis using assms(2) run by (cases t') (auto simp: apply_response_def Let_def phased)
qed

lemma delay_kept: "backoffDelay ports (a, w) = (a', w') \<Longrightarrow> I st a \<Longrightarrow> I st a'"
  using delayed [of st a ports w] by simp

lemma failure_kept: "after_failure ports permanent (a, w) = (t, a', w') \<Longrightarrow> I Between a \<Longrightarrow> I Between a'"
  by (auto simp: after_failure_def split: if_splits dest: delay_kept)

lemma response_handled:
  assumes "I Answered a" "handle_response cfg pf ports turnId response (a, w) = Inr (t, a', w')"
  shows "I Between a'"
proof -
  let ?a1 = "measure_output pf response a"
  have m: "I Answered ?a1" using assms(1) by (rule measured)
  show ?thesis
  proof (cases "validateReasonerTurnResponse (digest_platform.truncate pf) (validation_context_of cfg) response")
    case (Inl c)
    have "I Between (note_action turnId ''REASONER_RESPONSE'' (''REJECTED_'' @ c) [] (fail_usage False ?a1))"
      using m by (simp add: noted failed [of Answered])
    then show ?thesis using assms(2) Inl m
      by (auto simp: handle_response_def Let_def noted weaken split: if_splits dest: failure_kept)
  next
    case (Inr r)
    then show ?thesis using assms(2) m by (cases r) (auto simp: handle_response_def Let_def dest: response_applied)
  qed
qed

lemma reasoner_asked:
  assumes "I Asking a" "ask_reasoner cfg pf ports turnId request (a, w) = Inr (t, a', w')"
  shows "I Between a'"
proof -
  obtain answer sigs v where call: "pt_complete ports request (call_timeout cfg) w = (answer, sigs, v)" by (metis surj_pair)
  have s: "I Asking (apply_signals sigs a)" using assms(1) by (rule signals)
  show ?thesis
  proof (cases answer)
    case None
    have "I Between (note_action turnId ''REASONER_CALL'' ''DRIVER_THROW'' [] (fail_usage True (apply_signals sigs a)))"
      using s by (simp add: noted failed [of Asking])
    then show ?thesis using assms(2) None call s
      by (auto simp: ask_reasoner_def Let_def weaken split: if_splits dest: delay_kept)
  next
    case (Some c)
    show ?thesis
    proof (cases c)
      case (Call_Ok response out err)
      then show ?thesis using assms(2) Some call s response_handled [OF responded] by (auto simp: ask_reasoner_def Let_def)
    next
      case (Call_Failed k out err)
      have "I Between (note_action turnId ''REASONER_CALL'' (''REASONER_'' @ k) [] (fail_usage True (charge_response out err (apply_signals sigs a))))"
        using s by (simp add: noted failed [of Answered] responded)
      then show ?thesis using assms(2) Some Call_Failed call by (auto simp: ask_reasoner_def Let_def dest: failure_kept)
    qed
  qed
qed

lemma turn_kept:
  assumes "I Asking a" "runTurn cfg pf ports turnId (a, w) = Inr (t, a', w')"
  shows "I Between a'"
proof -
  let ?request = "request_json cfg pf turnId a" and ?a1 = "a\<lparr>ag_pendingUntrusted := []\<rparr>"
  have r: "I Asking ?a1" using assms(1) by (rule rendered)
  have "ask_reasoner cfg pf ports turnId ?request (charge_request cfg pf ?request a ?a1, w) = Inr (t, a', w') \<or> a' = note_action turnId ''BLOCKED'' ''SPEND_CEILING_REFUSED_BEFORE_REQUEST'' [] ?a1"
    using assms(2) by (auto simp: runTurn_def Let_def split: if_splits)
  then show ?thesis using r reasoner_asked [OF requested [OF r]] by (auto simp: noted weaken)
qed

lemma turn_ended: "I Between a \<Longrightarrow> I Between (fst (snd (after_turn cfg ports turnId (a, w))))"
  using refreshed [of Between a ports w] by (auto simp: after_turn_def noted split: prod.split)

end

section \<open>The loop\<close>

text \<open>A turn leaves the number of turns alone, so the loop ends with its limit.\<close>

definition turns_are :: "nat \<Rightarrow> stage \<Rightarrow> agent \<Rightarrow> bool" where
  "turns_are n st a = (ag_turnsThisRun a = n)"

lemma apply_signal_fields [simp]:
  "ag_turnsThisRun (apply_signal a s) = ag_turnsThisRun a"
  "ag_usage (apply_signal a s) = ag_usage a" "ag_byteLedger (apply_signal a s) = ag_byteLedger a"
  "ag_actionLog (apply_signal a s) = ag_actionLog a" "ag_evidenceRefs (apply_signal a s) = ag_evidenceRefs a"
  "ag_hypotheses (apply_signal a s) = ag_hypotheses a" "ag_candidateIds (apply_signal a s) = ag_candidateIds a"
  "ag_knownTargets (apply_signal a s) = ag_knownTargets a" "ag_pendingUntrusted (apply_signal a s) = ag_pendingUntrusted a"
  "ag_reproductionSurface (apply_signal a s) = ag_reproductionSurface a" "ag_turnBase (apply_signal a s) = ag_turnBase a"
  by (cases s; simp add: pause_def resume_def cancel_def Let_def)+

lemmas plain_update_defs = note_action_def record_action_def charge_request_def charge_response_def fail_usage_def measure_output_def
  open_hypothesis_def propose_candidate_def addEvidence_def Let_def

lemma addEvidence_fields [simp]:
  "ag_turnsThisRun (addEvidence refs a) = ag_turnsThisRun a"
  "ag_turnBase (addEvidence refs a) = ag_turnBase a"
  "ag_usage (addEvidence refs a) = ag_usage a"
  "ag_byteLedger (addEvidence refs a) = ag_byteLedger a"
  "ag_actionLog (addEvidence refs a) = ag_actionLog a"
  "ag_hypotheses (addEvidence refs a) = ag_hypotheses a"
  "ag_candidateIds (addEvidence refs a) = ag_candidateIds a"
  "ag_knownTargets (addEvidence refs a) = ag_knownTargets a"
  "ag_pendingUntrusted (addEvidence refs a) = ag_pendingUntrusted a"
  "ag_reproductionSurface (addEvidence refs a) = ag_reproductionSurface a"
  by (simp_all add: addEvidence_def)

lemma learnTargets_fields [simp]:
  "ag_turnsThisRun (learnTargets ts a) = ag_turnsThisRun a"
  "ag_turnBase (learnTargets ts a) = ag_turnBase a"
  "ag_usage (learnTargets ts a) = ag_usage a"
  "ag_byteLedger (learnTargets ts a) = ag_byteLedger a"
  "ag_actionLog (learnTargets ts a) = ag_actionLog a"
  "ag_evidenceRefs (learnTargets ts a) = ag_evidenceRefs a"
  "ag_hypotheses (learnTargets ts a) = ag_hypotheses a"
  "ag_candidateIds (learnTargets ts a) = ag_candidateIds a"
  "ag_pendingUntrusted (learnTargets ts a) = ag_pendingUntrusted a"
  "ag_reproductionSurface (learnTargets ts a) = ag_reproductionSurface a"
  by (simp_all add: learnTargets_def)

lemma keep_untrusted_fields [simp]:
  "ag_turnsThisRun (keep_untrusted items a) = ag_turnsThisRun a"
  "ag_turnBase (keep_untrusted items a) = ag_turnBase a"
  "ag_usage (keep_untrusted items a) = ag_usage a"
  "ag_byteLedger (keep_untrusted items a) = ag_byteLedger a"
  "ag_actionLog (keep_untrusted items a) = ag_actionLog a"
  "ag_evidenceRefs (keep_untrusted items a) = ag_evidenceRefs a"
  "ag_hypotheses (keep_untrusted items a) = ag_hypotheses a"
  "ag_candidateIds (keep_untrusted items a) = ag_candidateIds a"
  "ag_knownTargets (keep_untrusted items a) = ag_knownTargets a"
  "ag_reproductionSurface (keep_untrusted items a) = ag_reproductionSurface a"
  by (simp_all add: keep_untrusted_def Let_def)

lemma record_action_fields [simp]:
  "ag_turnsThisRun (record_action r a) = ag_turnsThisRun a"
  "ag_turnBase (record_action r a) = ag_turnBase a"
  "ag_usage (record_action r a) = ag_usage a"
  "ag_byteLedger (record_action r a) = ag_byteLedger a"
  "ag_evidenceRefs (record_action r a) = ag_evidenceRefs a"
  "ag_hypotheses (record_action r a) = ag_hypotheses a"
  "ag_candidateIds (record_action r a) = ag_candidateIds a"
  "ag_knownTargets (record_action r a) = ag_knownTargets a"
  "ag_pendingUntrusted (record_action r a) = ag_pendingUntrusted a"
  "ag_reproductionSurface (record_action r a) = ag_reproductionSurface a"
  by (simp_all add: record_action_def)

lemma charge_tool_fields [simp]:
  "ag_turnsThisRun (charge_tool r n a) = ag_turnsThisRun a"
  "ag_turnBase (charge_tool r n a) = ag_turnBase a"
  "ag_actionLog (charge_tool r n a) = ag_actionLog a"
  "ag_evidenceRefs (charge_tool r n a) = ag_evidenceRefs a"
  "ag_hypotheses (charge_tool r n a) = ag_hypotheses a"
  "ag_candidateIds (charge_tool r n a) = ag_candidateIds a"
  "ag_knownTargets (charge_tool r n a) = ag_knownTargets a"
  "ag_pendingUntrusted (charge_tool r n a) = ag_pendingUntrusted a"
  "ag_reproductionSurface (charge_tool r n a) = ag_reproductionSurface a"
  by (simp_all add: charge_tool_def Let_def)

lemma learn_facts_cases:
  assumes "P a" "\<And>b ts. P b \<Longrightarrow> P (learnTargets ts b)" "\<And>b es. P b \<Longrightarrow> P (b\<lparr>ag_reproductionSurface := learn_surface es (ag_reproductionSurface b)\<rparr>)"
  shows "P (learn_facts toolId r a)"
proof -
  have opt: "P b \<Longrightarrow> P (case v of None \<Rightarrow> b | Some ts \<Rightarrow> learnTargets ts b)"
    "P b \<Longrightarrow> P (case u of None \<Rightarrow> b | Some t \<Rightarrow> learnTargets [t] b)" for b v u
    using assms(2) by (auto split: option.split)
  show ?thesis
  proof (cases "to_memory r")
    case (Some facts)
    let ?a1 = "case mf_availableTargets facts of None \<Rightarrow> a | Some ts \<Rightarrow> learnTargets ts a"
    let ?a2 = "case mf_target facts of None \<Rightarrow> ?a1 | Some t \<Rightarrow> learnTargets [t] ?a1"
    have "P ?a1" by (rule opt(1) [OF assms(1)])
    then have "P ?a2" by (rule opt(2))
    then show ?thesis using Some assms(1) assms(3) [of ?a2]
      by (cases "mf_reproductionSurface facts") (simp_all add: learn_facts_def Let_def)
  qed (simp add: learn_facts_def assms(1))
qed

lemma learn_fields [simp]:
  "ag_turnsThisRun (learn_facts toolId r a) = ag_turnsThisRun a"
  "ag_turnBase (learn_facts toolId r a) = ag_turnBase a"
  "ag_usage (learn_facts toolId r a) = ag_usage a"
  "ag_byteLedger (learn_facts toolId r a) = ag_byteLedger a"
  "ag_actionLog (learn_facts toolId r a) = ag_actionLog a"
  "ag_evidenceRefs (learn_facts toolId r a) = ag_evidenceRefs a"
  "ag_hypotheses (learn_facts toolId r a) = ag_hypotheses a"
  "ag_candidateIds (learn_facts toolId r a) = ag_candidateIds a"
  "ag_pendingUntrusted (learn_facts toolId r a) = ag_pendingUntrusted a"
  by (rule learn_facts_cases [where P = "\<lambda>b. _ b = _ a"]; simp)+

lemma verdict_fields [simp]:
  "ag_turnsThisRun (applyReproductionVerdict t c a) = ag_turnsThisRun a" "ag_usage (applyReproductionVerdict t c a) = ag_usage a"
  "ag_byteLedger (applyReproductionVerdict t c a) = ag_byteLedger a" "ag_actionLog (applyReproductionVerdict t c a) = ag_actionLog a"
  "ag_evidenceRefs (applyReproductionVerdict t c a) = ag_evidenceRefs a" "ag_candidateIds (applyReproductionVerdict t c a) = ag_candidateIds a"
  "ag_knownTargets (applyReproductionVerdict t c a) = ag_knownTargets a" "ag_pendingUntrusted (applyReproductionVerdict t c a) = ag_pendingUntrusted a"
  "ag_reproductionSurface (applyReproductionVerdict t c a) = ag_reproductionSurface a" "ag_turnBase (applyReproductionVerdict t c a) = ag_turnBase a"
  "map hy_hypothesisId (ag_hypotheses (applyReproductionVerdict t c a)) = map hy_hypothesisId (ag_hypotheses a)"
  by (simp_all add: applyReproductionVerdict_def Let_def comp_def)

lemma settle_tool_cases:
  assumes "P (settled_entry pf toolId digest turnId (normalizeToolResult raw) a)" "\<And>b t c. P b \<Longrightarrow> P (applyReproductionVerdict t c b)"
  shows "P (settle_tool pf toolId digest turnId raw a)"
  using assms by (auto simp: settle_tool_def Let_def split: option.split)

interpretation turns: turn_law cfg pf "turns_are n" for cfg pf n
proof (unfold_locales, goal_cases)
  case (18 a toolId digest turnId raw)
  show ?case
  proof (rule settle_tool_cases [where P = "turns_are n Between"])
    show "turns_are n Between (settled_entry pf toolId digest turnId (normalizeToolResult raw) a)"
      using 18 by (simp add: turns_are_def settled_entry_def Let_def)
  qed (simp add: turns_are_def)
qed (simp_all add: turns_are_def plain_update_defs)

lemma iteration_turns:
  assumes "run_iteration cfg pf ports maxTurns (a, w) = Inr (None, a', w')"
  shows "ag_turnsThisRun a' = Suc (ag_turnsThisRun a) \<and> int (ag_turnsThisRun a) < maxTurns"
proof -
  obtain a1 w1 where clock: "refreshWallTime ports (a, w) = (a1, w1)" by force
  have n1: "ag_turnsThisRun a1 = ag_turnsThisRun a"
    using turns.refreshed [of "ag_turnsThisRun a" Between a ports w] clock by (simp add: turns_are_def)
  from assms clock obtain t a2 w2 where turn: "runTurn cfg pf ports (turn_id cfg a1) (a1, w1) = Inr (t, a2, w2)"
    and limit: "int (ag_turnsThisRun a1) < maxTurns"
    by (auto simp: run_iteration_def Let_def split: if_splits)
  have n2: "ag_turnsThisRun a2 = ag_turnsThisRun a1"
    using turns.turn_kept [OF _ turn] by (auto simp: turns_are_def)
  let ?a3 = "a2\<lparr>ag_turnsThisRun := ag_turnsThisRun a2 + 1\<rparr>"
  have "t = None" and "after_turn cfg ports (turn_id cfg a1) (?a3, w2) = (None, a', w')"
    using assms clock turn by (auto simp: run_iteration_def Let_def split: if_splits option.splits)
  then have "ag_turnsThisRun a' = ag_turnsThisRun ?a3"
    using turns.turn_ended [of "ag_turnsThisRun ?a3" ?a3 cfg ports "turn_id cfg a1" w2] by (simp add: turns_are_def)
  then show ?thesis using n1 n2 limit by simp
qed

function run_loop ::
  "agent_config \<Rightarrow> agent_platform \<Rightarrow> 'w agent_ports \<Rightarrow> int \<Rightarrow> agent \<times> 'w \<Rightarrow> (agent_termination \<times> bool \<times> agent \<times> 'w) checked" where
  "run_loop cfg pf ports maxTurns s =
     bind_res (run_iteration cfg pf ports maxTurns s) (\<lambda>(terminal, s').
       case terminal of
         Some (reason, withCheckpoint) \<Rightarrow> Inr (reason, withCheckpoint, s')
       | None \<Rightarrow> run_loop cfg pf ports maxTurns s')"
  by pat_completeness auto

termination
  by (relation "measure (\<lambda>(cfg, pf, ports, maxTurns, s). nat (maxTurns - int (ag_turnsThisRun (fst s))))")
    (auto dest!: iteration_turns)

declare run_loop.simps [simp del]

record run_result =
  rr_terminationReason :: agent_termination
  rr_state :: agent_snapshot
  rr_checkpoint :: "agent_checkpoint option"

definition ended_agent :: "agent_termination \<Rightarrow> agent \<Rightarrow> agent" where
  "ended_agent reason a = a\<lparr>ag_terminationReason := Some reason, ag_status := (if reason = Agent_PAUSED then PAUSED else TERMINATED)\<rparr>"

definition adopt_ledger :: "agent_checkpoint \<Rightarrow> agent \<Rightarrow> agent" where
  "adopt_ledger c a = (case sn_byteLedger (cp_state c) of None \<Rightarrow> a | Some l \<Rightarrow> a\<lparr>ag_byteLedger := l\<rparr>)"

definition checkpoint_agent :: "agent_config \<Rightarrow> agent_platform \<Rightarrow> agent \<Rightarrow> (agent_checkpoint \<times> agent) checked" where
  "checkpoint_agent cfg pf a =
     bind_res (createCheckpoint (dp_num pf) (snapshot cfg a) (ag_turnBase a + ag_turnsThisRun a)) (\<lambda>c. Inr (c, adopt_ledger c a))"

definition finish ::
  "agent_config \<Rightarrow> agent_platform \<Rightarrow> 'w agent_ports \<Rightarrow> agent_termination \<Rightarrow> bool \<Rightarrow> agent \<times> 'w \<Rightarrow> (run_result \<times> agent \<times> 'w) checked" where
  "finish cfg pf ports reason withCheckpoint s = (case refreshWallTime ports s of (a, w) \<Rightarrow>
     let a1 = ended_agent reason a
     in if \<not> withCheckpoint
        then Inr (\<lparr>rr_terminationReason = reason, rr_state = snapshot cfg a1, rr_checkpoint = None\<rparr>, a1, w)
        else bind_res (createCheckpoint (dp_num pf) (snapshot cfg a1) (ag_turnBase a1 + ag_turnsThisRun a1)) (\<lambda>c.
               Inr (\<lparr>rr_terminationReason = reason, rr_state = cp_state c, rr_checkpoint = Some c\<rparr>, adopt_ledger c a1, w)))"

definition start_run :: "'w agent_ports \<Rightarrow> agent \<times> 'w \<Rightarrow> agent \<times> 'w" where
  "start_run ports s = (case s of (a, w) \<Rightarrow> case pt_now ports w of (t, w') \<Rightarrow>
     (a\<lparr>ag_status := RUNNING, ag_runStartMs := Some t\<rparr>, w'))"

definition run_agent ::
  "agent_config \<Rightarrow> agent_platform \<Rightarrow> 'w agent_ports \<Rightarrow> int option \<Rightarrow> agent \<times> 'w \<Rightarrow> (run_result \<times> agent \<times> 'w) checked" where
  "run_agent cfg pf ports limit s =
     (if ag_status (fst s) = TERMINATED then Inl ''AGENT_RUNTIME: campaign already terminated''
      else bind_res (assertOwnerPolicyAllows ''AUTONOMOUS_AGENT_LOCAL'') (\<lambda>_.
        if ag_cancelled (fst s) then finish cfg pf ports Agent_CANCELLED False s
        else
          let maxTurns = (case limit of None \<Rightarrow> ac_defaultMaxTurns cfg | Some n \<Rightarrow> n)
          in bind_res (run_loop cfg pf ports maxTurns (start_run ports s)) (\<lambda>(reason, withCheckpoint, s').
               finish cfg pf ports reason withCheckpoint s')))"

end
