(* ===== verification/Agent_Run_Laws.thy ===== *)
theory Agent_Run_Laws imports Agent_Loop begin

text \<open>
  Invariants of a whole run: the locale \<open>run_law\<close> adds to \<open>turn_law\<close> what \<open>run\<close> itself changes, and the
  interpretations give the four invariants of the agent, that what is charged is what the ledger says,
  that the counters stay within the policy, that the state stays well formed, and that no entry of the
  log repeats an exhausted call.
\<close>

section \<open>From turns to runs\<close>

locale run_law = turn_law +
  assumes counted: "I Between a \<Longrightarrow> I Between (a\<lparr>ag_turnsThisRun := n\<rparr>)"
    and started: "I Between a \<Longrightarrow> I Between (a\<lparr>ag_status := RUNNING, ag_runStartMs := t\<rparr>)"
    and ended: "I Between a \<Longrightarrow> I Between (a\<lparr>ag_terminationReason := reason, ag_status := status\<rparr>)"
    and accounted: "I Between a \<Longrightarrow> I Between (a\<lparr>ag_byteLedger := (ledgerOf (snapshot cfg a))\<lparr>by_checkpointBytes := n\<rparr>\<rparr>)"

lemma run_iteration_cases:
  assumes "run_iteration cfg pf ports maxTurns (a, w) = Inr (t, a', w')"
  obtains "a' = a"
  | a1 w1 where "refreshWallTime ports (a, w) = (a1, w1)" "a' = a1"
  | a1 w1 t2 a2 w2 where "refreshWallTime ports (a, w) = (a1, w1)"
      "classifyBudgetExhaustion (ac_policy cfg) (ag_usage a1) = CONTINUE"
      "runTurn cfg pf ports (turn_id cfg a1) (a1, w1) = Inr (t2, a2, w2)"
      "a' = a2\<lparr>ag_turnsThisRun := ag_turnsThisRun a2 + 1\<rparr> \<or>
       after_turn cfg ports (turn_id cfg a1) (a2\<lparr>ag_turnsThisRun := ag_turnsThisRun a2 + 1\<rparr>, w2) = (t, a', w')"
proof -
  obtain a1 w1 where clock: "refreshWallTime ports (a, w) = (a1, w1)" by force
  show ?thesis
  proof (cases "runTurn cfg pf ports (turn_id cfg a1) (a1, w1)")
    case (Inl e)
    then show ?thesis using assms clock that(1,2) by (auto simp: run_iteration_def split: if_splits)
  next
    case (Inr r)
    then obtain t2 a2 w2 where turn: "runTurn cfg pf ports (turn_id cfg a1) (a1, w1) = Inr (t2, a2, w2)" by (metis surj_pair)
    show ?thesis
      using assms clock turn that(1,2) that(3) [OF clock _ turn]
      by (auto simp: run_iteration_def Let_def split: if_splits option.splits)
  qed
qed

lemma run_loop_invariant:
  assumes "\<And>a w t a' w'. P a \<Longrightarrow> run_iteration cfg pf ports maxTurns (a, w) = Inr (t, a', w') \<Longrightarrow> P a'"
    and "run_loop cfg pf ports maxTurns s = Inr (reason, c, a', w')" and "P (fst s)"
  shows "P a'"
proof -
  have "\<lbrakk>\<And>a w t a' w'. P a \<Longrightarrow> run_iteration cfg pf ports maxTurns (a, w) = Inr (t, a', w') \<Longrightarrow> P a';
      run_loop cfg pf ports maxTurns s = Inr (reason, c, a', w'); P (fst s)\<rbrakk> \<Longrightarrow> P a'"
  proof (induction cfg pf ports maxTurns s rule: run_loop.induct)
    case (1 cfg pf ports maxTurns s)
    then obtain t s1 where step: "run_iteration cfg pf ports maxTurns s = Inr (t, s1)"
      by (cases "run_iteration cfg pf ports maxTurns s") (auto simp: run_loop.simps)
    then have "P (fst s1)" using "1.prems"(1,3) by (metis surj_pair fst_conv)
    then show ?case using "1.IH" [OF step refl _ "1.prems"(1)] "1.prems"(2) step
      by (cases t) (auto simp: run_loop.simps [of cfg pf ports maxTurns s])
  qed
  then show ?thesis using assms by blast
qed

text \<open>How \<open>finish\<close> and \<open>checkpoint\<close> leave the instance.\<close>

definition accounted_agent :: "agent_config \<Rightarrow> nat \<Rightarrow> agent \<Rightarrow> agent" where
  "accounted_agent cfg n a = a\<lparr>ag_byteLedger := (ledgerOf (snapshot cfg a))\<lparr>by_checkpointBytes := n\<rparr>\<rparr>"

lemma checkpoint_adopted:
  assumes "createCheckpoint (dp_num pf) (snapshot cfg a) turns = Inr c"
  shows "\<exists>n. cp_state c = snapshot cfg (accounted_agent cfg n a) \<and> adopt_ledger c a = accounted_agent cfg n a"
proof -
  obtain n where "c = checkpoint_with (snapshot cfg a) (resumeCursorFor (sn_campaignId (snapshot cfg a)) turns) n"
    using createCheckpoint_Inr [OF assms] by blast
  then have "cp_state c = withCheckpointBytes (snapshot cfg a) (ledgerOf (snapshot cfg a)) n"
    by (simp add: checkpoint_with_def)
  then show ?thesis by (intro exI [of _ n]) (simp add: withCheckpointBytes_def accounted_agent_def snapshot_def adopt_ledger_def)
qed

lemma finish_cases:
  assumes "finish cfg pf ports reason withCheckpoint (a, w) = Inr (r, a', w')"
  obtains a1 where "refreshWallTime ports (a, w) = (a1, w')" "\<not> withCheckpoint" "a' = ended_agent reason a1"
    "r = \<lparr>rr_terminationReason = reason, rr_state = snapshot cfg a', rr_checkpoint = None\<rparr>"
  | a1 c n where "refreshWallTime ports (a, w) = (a1, w')" withCheckpoint "a' = accounted_agent cfg n (ended_agent reason a1)"
    "r = \<lparr>rr_terminationReason = reason, rr_state = snapshot cfg a', rr_checkpoint = Some c\<rparr>" "cp_state c = snapshot cfg a'"
    "createCheckpoint (dp_num pf) (snapshot cfg (ended_agent reason a1)) (ag_turnBase (ended_agent reason a1) + ag_turnsThisRun (ended_agent reason a1)) = Inr c"
proof -
  obtain a1 w1 where clock: "refreshWallTime ports (a, w) = (a1, w1)" by force
  let ?e = "ended_agent reason a1"
  show ?thesis
  proof (cases withCheckpoint)
    case False
    then show ?thesis using assms clock that(1) [of a1] by (auto simp: finish_def Let_def)
  next
    case True
    then obtain c where c: "createCheckpoint (dp_num pf) (snapshot cfg ?e) (ag_turnBase ?e + ag_turnsThisRun ?e) = Inr c"
      and r: "r = \<lparr>rr_terminationReason = reason, rr_state = cp_state c, rr_checkpoint = Some c\<rparr>" "a' = adopt_ledger c ?e" "w' = w1"
      using assms clock by (auto simp: finish_def Let_def)
    obtain n where "cp_state c = snapshot cfg (accounted_agent cfg n ?e)" "adopt_ledger c ?e = accounted_agent cfg n ?e"
      using checkpoint_adopted [OF c] by blast
    then show ?thesis using clock True c r that(2) [of a1 n c] by simp
  qed
qed

context run_law begin

lemma iteration_kept:
  assumes "I Between a" "run_iteration cfg pf ports maxTurns (a, w) = Inr (t, a', w')"
  shows "I Between a'"
  using assms(2)
proof (cases rule: run_iteration_cases)
  case 1
  then show ?thesis using assms(1) by simp
next
  case (2 a1 w1)
  then show ?thesis using refreshed [OF assms(1), of ports w] by simp
next
  case (3 a1 w1 t2 a2 w2)
  have "I Between a1" using refreshed [OF assms(1), of ports w] 3(1) by simp
  then have "I Between a2" using turn_kept [OF ready 3(3)] 3(2) by simp
  then have "I Between (a2\<lparr>ag_turnsThisRun := ag_turnsThisRun a2 + 1\<rparr>)" by (rule counted)
  then show ?thesis using 3(4) turn_ended [of "a2\<lparr>ag_turnsThisRun := ag_turnsThisRun a2 + 1\<rparr>" ports "turn_id cfg a1" w2] by auto
qed

lemma finish_kept:
  assumes "finish cfg pf ports reason c (a, w) = Inr (r, a', w')" "I Between a"
  shows "I Between a'"
proof -
  have e: "refreshWallTime ports (a, w) = (a1, w1) \<Longrightarrow> I Between (ended_agent reason a1)" for a1 w1
    using refreshed [OF assms(2), of ports w] by (simp add: ended_agent_def ended)
  from assms(1) show ?thesis
    by (cases rule: finish_cases) (simp_all add: e accounted_agent_def accounted)
qed

lemma run_kept:
  assumes "run_agent cfg pf ports limit (a, w) = Inr (r, a', w')" "I Between a"
  shows "I Between a'"
proof (cases "ag_cancelled a")
  case True
  then show ?thesis using assms finish_kept by (auto simp: run_agent_def split: if_splits)
next
  case False
  let ?m = "case limit of None \<Rightarrow> ac_defaultMaxTurns cfg | Some n \<Rightarrow> n"
  have s: "I Between (fst (start_run ports (a, w)))" using assms(2) by (simp add: start_run_def started split: prod.split)
  obtain reason c b v where loop: "run_loop cfg pf ports ?m (start_run ports (a, w)) = Inr (reason, c, b, v)"
    and fin: "finish cfg pf ports reason c (b, v) = Inr (r, a', w')"
    using assms(1) False by (auto simp: run_agent_def Let_def split: if_splits)
  have "I Between b" by (rule run_loop_invariant [where P = "I Between", OF _ loop s]) (rule iteration_kept)
  then show ?thesis using fin by (rule finish_kept [rotated])
qed

end

section \<open>Charged bytes\<close>

definition bytes_exact :: "agent \<Rightarrow> bool" where
  "bytes_exact a = (bu_inputBytes (ag_usage a) = chargedInputBytes (ag_byteLedger a)
     \<and> bu_outputBytes (ag_usage a) = chargedOutputBytes (ag_byteLedger a)
     \<and> bu_toolPayloadBytes (ag_usage a) = chargedToolPayloadBytes (ag_byteLedger a))"

lemmas charged_defs = chargedInputBytes_def chargedOutputBytes_def chargedToolPayloadBytes_def

interpretation bytes: run_law cfg pf "\<lambda>st. bytes_exact" for cfg pf
proof (unfold_locales, goal_cases)
  case (18 a toolId digest turnId raw)
  show ?case
    by (rule settle_tool_cases [where P = bytes_exact])
      (use 18 in \<open>simp_all add: bytes_exact_def settled_entry_def charge_tool_def charged_defs Let_def\<close>)
next
  case (22 a n)
  then show ?case by (simp add: bytes_exact_def ledgerOf_def snapshot_def legacyAgentByteLedger_def ZERO_AGENT_BYTE_LEDGER_def charged_defs)
qed (simp_all add: bytes_exact_def plain_update_defs charged_defs)

section \<open>Counters\<close>

text \<open>Before a question every counter is below its limit, before an intent every one but the number of
  questions, and between turns each is at most its limit.\<close>

fun within_policy :: "agent_policy \<Rightarrow> stage \<Rightarrow> agent_usage \<Rightarrow> bool" where
  "within_policy p st u =
     ((if st = Asking then int (bu_reasonerCalls u) < bp_reasonerCalls p else int (bu_reasonerCalls u) \<le> bp_reasonerCalls p)
      \<and> (let slack = (if st = Between then 0 else 1)
         in int (bu_toolActions u) + slack \<le> bp_toolActions p \<and> int (bu_candidateCount u) + slack \<le> bp_candidateCap p
          \<and> int (bu_failures u) + slack \<le> bp_failures p \<and> int (bu_consecutiveFailures u) + slack \<le> bp_consecutiveFailures p
          \<and> int (bu_providerFailures u) + slack \<le> bp_providerFailures p))"

declare within_policy.simps [simp del]

lemmas counter_defs = within_policy.simps plain_update_defs

interpretation counters: run_law cfg pf "\<lambda>st a. within_policy (ac_policy cfg) st (ag_usage a)" for cfg pf
proof (unfold_locales, goal_cases)
  case (3 a)
  then show ?case by (simp add: counter_defs continue_iff)
next
  case (10 st a provider)
  then show ?case by (cases st) (auto simp: counter_defs)
next
  case (18 a toolId digest turnId raw)
  show ?case
    by (rule settle_tool_cases [where P = "\<lambda>a. within_policy (ac_policy cfg) Between (ag_usage a)"])
      (use 18 in \<open>simp_all add: counter_defs settled_entry_def charge_tool_def\<close>)
qed (auto simp: counter_defs split: if_splits)

section \<open>The shape of the state\<close>

definition surface_map_ok :: "(string \<times> surface_entry) list \<Rightarrow> bool" where
  "surface_map_ok m = (distinct (map fst m) \<and> length m \<le> TOOL_MEMORY_reproductionSurface \<and> list_all (\<lambda>(k, e). k = sf_sourcePath e) m)"

definition texts_ok :: "string list \<Rightarrow> bool" where
  "texts_ok xs = (distinct xs \<and> [] \<notin> set xs)"

definition agent_wf :: "agent \<Rightarrow> bool" where
  "agent_wf a = (texts_ok (ag_evidenceRefs a) \<and> texts_ok (ag_knownTargets a) \<and> length (ag_knownTargets a) \<le> KNOWN_TARGETS_CAP
     \<and> distinct (map hy_hypothesisId (ag_hypotheses a)) \<and> distinct (ag_candidateIds a)
     \<and> length (ag_pendingUntrusted a) \<le> PENDING_UNTRUSTED_CAP \<and> surface_map_ok (ag_reproductionSurface a))"

lemma learn_surface_ok: "surface_map_ok m \<Longrightarrow> surface_map_ok (learn_surface es m)"
proof (induction es arbitrary: m)
  case (Cons e es)
  have "surface_map_ok (map_set m (sf_sourcePath e) e)"
    if room: "\<not> (TOOL_MEMORY_reproductionSurface \<le> length m \<and> \<not> map_has m (sf_sourcePath e))"
  proof -
    have len: "length (map_set m (sf_sourcePath e) e) \<le> TOOL_MEMORY_reproductionSurface"
      using room Cons.prems by (cases "map_has m (sf_sourcePath e)")
        (auto simp: surface_map_ok_def map_has_iff length_map_set_present map_set_fresh)
    moreover have "(k, x) \<in> set (map_set m (sf_sourcePath e) e) \<Longrightarrow> k = sf_sourcePath x" for k x
      using set_map_set_subset [of m "sf_sourcePath e" e] Cons.prems by (auto simp: surface_map_ok_def list_all_iff)
    ultimately show ?thesis using Cons.prems by (auto simp: surface_map_ok_def distinct_map_set list_all_iff)
  qed
  then show ?case using Cons by simp
qed simp

lemma texts_ok_adding:
  defines "add \<equiv> \<lambda>known ref. if ref \<noteq> [] \<and> ref \<notin> set known then known @ [ref] else known"
  assumes "texts_ok xs"
  shows "texts_ok (foldl add xs refs)"
proof -
  have step: "texts_ok known \<Longrightarrow> texts_ok (add known t)" for known t
    by (auto simp: add_def texts_ok_def)
  show ?thesis using assms(2) by (induction refs arbitrary: xs) (use step in \<open>simp_all\<close>)
qed

lemma wf_evidence: "agent_wf a \<Longrightarrow> agent_wf (addEvidence refs a)"
  by (simp add: agent_wf_def addEvidence_def texts_ok_adding)

lemma texts_ok_learning:
  fixes n :: nat
  defines "learn \<equiv> \<lambda>known t. if n \<le> length known then known else if t = [] \<or> t \<in> set known then known else known @ [t]"
  assumes "texts_ok xs \<and> length xs \<le> n"
  shows "texts_ok (foldl learn xs ts) \<and> length (foldl learn xs ts) \<le> n"
proof -
  have step: "texts_ok known \<and> length known \<le> n \<Longrightarrow> texts_ok (learn known t) \<and> length (learn known t) \<le> n" for known t
    by (auto simp: learn_def texts_ok_def)
  show ?thesis using assms(2) by (induction ts arbitrary: xs) (use step in \<open>simp_all\<close>)
qed

lemma wf_targets: "agent_wf a \<Longrightarrow> agent_wf (learnTargets ts a)"
  using texts_ok_learning [of "ag_knownTargets a" KNOWN_TARGETS_CAP ts] by (simp add: agent_wf_def learnTargets_def)

lemma wf_settled: "agent_wf a \<Longrightarrow> agent_wf (settle_tool pf toolId digest turnId raw a)"
proof (rule settle_tool_cases [where P = agent_wf])
  assume wf: "agent_wf a"
  have plain: "agent_wf b \<Longrightarrow> agent_wf (charge_tool r n b)" "agent_wf b \<Longrightarrow> agent_wf (record_action e b)"
    "agent_wf b \<Longrightarrow> agent_wf (keep_untrusted items b)" "agent_wf b \<Longrightarrow> agent_wf (learn_facts toolId r b)" for b r n e items
    subgoal by (simp add: agent_wf_def charge_tool_def Let_def)
    subgoal by (simp add: agent_wf_def record_action_def)
    subgoal by (simp add: agent_wf_def keep_untrusted_def Let_def) linarith
    subgoal by (rule learn_facts_cases [where P = agent_wf]) (simp_all add: wf_targets, simp add: agent_wf_def learn_surface_ok)
    done
  show "agent_wf (settled_entry pf toolId digest turnId (normalizeToolResult raw) a)"
    by (simp add: settled_entry_def Let_def plain wf_evidence wf)
qed (simp add: agent_wf_def)

interpretation shape: run_law cfg pf "\<lambda>st. agent_wf" for cfg pf
proof (unfold_locales, goal_cases)
  case (14 d a)
  then have "agent_wf (a\<lparr>ag_hypotheses := ag_hypotheses a @ [\<lparr>hy_hypothesisId = hd_hypothesisId d, hy_statement = hd_statement d,
      hy_evidenceRefs = hd_evidenceRefs d, hy_status = OPEN\<rparr>]\<rparr>)"
    by (auto simp: agent_wf_def hypothesis_known_def list_ex_iff)
  then show ?case by (simp add: open_hypothesis_def wf_evidence)
next
  case (15 a c refs)
  then show ?case unfolding propose_candidate_def by (intro wf_evidence) (auto simp: agent_wf_def)
next
  case (18 a toolId digest turnId raw)
  then show ?case by (simp add: wf_settled)
qed (simp_all add: agent_wf_def note_action_def record_action_def charge_request_def charge_response_def fail_usage_def measure_output_def Let_def)

section \<open>The log\<close>

definition exhausted_before :: "action_record list \<Rightarrow> string \<Rightarrow> bool" where
  "exhausted_before history f = (detectRepeatedAction history f NO_PROGRESS_REPEAT_LIMIT \<or> detectExhaustedAction history f)"

definition executed_entry :: "action_record \<Rightarrow> bool" where
  "executed_entry r = (cr_intentKind r = ''CALL_TOOL'' \<and> cr_resultClass r \<noteq> ''DEDUPED_REPEAT'')"

definition never_repeats :: "action_record list \<Rightarrow> bool" where
  "never_repeats h = list_all (\<lambda>i. executed_entry (h ! i) \<longrightarrow> \<not> exhausted_before (take i h) (actionFingerprint (h ! i))) [0..<length h]"

lemma never_repeats_snoc:
  "never_repeats (h @ [r]) \<longleftrightarrow> never_repeats h \<and> (executed_entry r \<longrightarrow> \<not> exhausted_before h (actionFingerprint r))"
proof -
  have "list_all (\<lambda>i. P ((h @ [r]) ! i) (take i (h @ [r]))) [0..<length h] \<longleftrightarrow> list_all (\<lambda>i. P (h ! i) (take i h)) [0..<length h]" for P
    by (intro list_all_cong) (auto simp: nth_append)
  from this [of "\<lambda>r t. executed_entry r \<longrightarrow> \<not> exhausted_before t (actionFingerprint r)"] show ?thesis
    by (simp add: never_repeats_def nth_append)
qed

lemma plain_not_executed: "kind \<noteq> ''CALL_TOOL'' \<Longrightarrow> \<not> executed_entry (plain_record turnId p kind c refs)"
  by (simp add: executed_entry_def plain_record_def)

lemma log_of_settled:
  "\<exists>r. ag_actionLog (settle_tool pf toolId digest turnId raw a) = ag_actionLog a @ [r]
     \<and> actionFingerprint r = fingerprint_text ''CALL_TOOL'' (Some toolId) (Some digest)"
proof (rule settle_tool_cases [where P = "\<lambda>b. \<exists>r. ag_actionLog b = ag_actionLog a @ [r] \<and> actionFingerprint r = _"])
  show "\<exists>r. ag_actionLog (settled_entry pf toolId digest turnId (normalizeToolResult raw) a) = ag_actionLog a @ [r]
     \<and> actionFingerprint r = fingerprint_text ''CALL_TOOL'' (Some toolId) (Some digest)"
    by (simp add: settled_entry_def Let_def record_action_def actionFingerprint_def tool_record_def plain_record_def)
qed simp

interpretation log: run_law cfg pf "\<lambda>st a. never_repeats (ag_actionLog a)" for cfg pf
proof (unfold_locales, goal_cases)
  case (5 kind st a turnId resultClass refs)
  then show ?case by (simp add: note_action_def record_action_def never_repeats_snoc plain_not_executed)
next
  case (17 a toolId digest turnId target)
  then show ?case by (simp add: record_action_def never_repeats_snoc executed_entry_def tool_record_def plain_record_def)
next
  case (18 a toolId digest turnId raw)
  obtain r where r: "ag_actionLog (settle_tool pf toolId digest turnId raw a) = ag_actionLog a @ [r]"
    "actionFingerprint r = fingerprint_text ''CALL_TOOL'' (Some toolId) (Some digest)" using log_of_settled by blast
  show ?case using 18 r by (simp add: never_repeats_snoc exhausted_before_def call_exhausted_def Let_def)
qed (simp_all add: plain_update_defs)

text \<open>What exhaustion means for the entries before.\<close>

definition failed_entry :: "string \<Rightarrow> (string \<Rightarrow> bool) \<Rightarrow> action_record \<Rightarrow> bool" where
  "failed_entry f P r = (actionFingerprint r = f \<and> cr_resultClass r = ''TOOL_ERROR''
     \<and> P (case normalizeActionFailureDisposition (cr_disposition r) of None \<Rightarrow> ''DETERMINISTIC_TERMINAL'' | Some d \<Rightarrow> d))"

lemma exhausted_scan_iff:
  "n < TRANSIENT_ACTION_RETRY_BUDGET \<Longrightarrow> exhausted_scan f n rs \<longleftrightarrow>
     (\<exists>r \<in> set rs. (actionFingerprint r = f \<and> cr_resultClass r = ''DEDUPED_REPEAT'') \<or> failed_entry f (\<lambda>d. d \<noteq> ''TRANSIENT_RETRYABLE'') r)
     \<or> TRANSIENT_ACTION_RETRY_BUDGET \<le> n + length (filter (failed_entry f (\<lambda>d. d = ''TRANSIENT_RETRYABLE'')) rs)"
proof (induction rs arbitrary: n)
  case (Cons r rs)
  have "normalizeActionFailureDisposition (cr_disposition r) = Some d \<Longrightarrow> d \<in> set ACTION_FAILURE_DISPOSITIONS" for d
    by (auto simp: normalizeActionFailureDisposition_def isActionFailureDisposition_def split: option.splits if_splits)
  then show ?case using Cons
    by (auto simp: failed_entry_def Let_def ACTION_FAILURE_DISPOSITIONS_def split: option.splits)
qed simp

lemma detectExhaustedAction_iff:
  "detectExhaustedAction h f \<longleftrightarrow>
     (\<exists>r \<in> set h. (actionFingerprint r = f \<and> cr_resultClass r = ''DEDUPED_REPEAT'') \<or> failed_entry f (\<lambda>d. d \<noteq> ''TRANSIENT_RETRYABLE'') r)
     \<or> TRANSIENT_ACTION_RETRY_BUDGET \<le> length (filter (failed_entry f (\<lambda>d. d = ''TRANSIENT_RETRYABLE'')) h)"
  by (simp add: detectExhaustedAction_def exhausted_scan_iff [of 0] TRANSIENT_ACTION_RETRY_BUDGET_def)

section \<open>The time base\<close>

interpretation wall: run_law cfg pf "\<lambda>st a. ag_wallBaseMs a = n" for cfg pf n
proof (unfold_locales, goal_cases)
  case (4 st a sig)
  then show ?case by (cases sig) (simp_all add: pause_def resume_def cancel_def Let_def)
next
  case (18 a toolId digest turnId raw)
  show ?case
  proof (rule settle_tool_cases [where P = "\<lambda>a. ag_wallBaseMs a = n"])
    have "ag_wallBaseMs (learn_facts toolId r b) = n" if "ag_wallBaseMs b = n" for r b
      by (rule learn_facts_cases [where P = "\<lambda>a. ag_wallBaseMs a = n"]) (simp_all add: that learnTargets_def)
    then show "ag_wallBaseMs (settled_entry pf toolId digest turnId (normalizeToolResult raw) a) = n"
      using 18 by (simp add: settled_entry_def Let_def record_action_def keep_untrusted_def addEvidence_def charge_tool_def)
  qed (simp add: applyReproductionVerdict_def Let_def)
qed (simp_all add: plain_update_defs)

end
