(* ===== verification/Agent_Checkpoints.thy ===== *)
theory Agent_Checkpoints imports Agent_Run_Laws begin

text \<open>
  Why the measurement of a checkpoint converges: its size in bytes is a constant plus the number of
  digits of the number it records, and such a map reaches a fixed point in four steps.
\<close>

section \<open>Digits\<close>

definition digits :: "nat \<Rightarrow> nat" where
  "digits n = length (nat_to_dec n)"

lemma digits_rec: "digits n = (if n < 10 then 1 else digits (n div 10) + 1)"
  by (simp add: digits_def nat_to_dec.simps [of n])

lemma digits_le_iff: "digits n \<le> Suc k \<longleftrightarrow> n < 10 ^ Suc k"
proof (induction k arbitrary: n)
  case 0
  have "0 < digits (n div 10)" by (simp add: digits_def)
  then show ?case by (simp add: digits_rec [of n])
next
  case (Suc k)
  have "n div 10 < 10 ^ Suc k \<longleftrightarrow> n < 10 ^ Suc (Suc k)" by (simp add: div_less_iff_less_mult)
  moreover have "n < 10 \<Longrightarrow> n < 10 ^ Suc (Suc k)" by (rule less_le_trans [of n 10]) simp_all
  ultimately show ?case using Suc.IH [of "n div 10"] by (auto simp: digits_rec [of n])
qed

lemma digits_pos: "0 < digits n"
  by (simp add: digits_def)

lemma below_power: "n < 10 ^ digits n"
  using digits_le_iff [of n "digits n - 1"] digits_pos [of n] by simp

lemma digits_mono: "m \<le> n \<Longrightarrow> digits m \<le> digits n"
  using below_power [of n] digits_le_iff [of m "digits n - 1"] digits_pos [of n] by simp

lemma room: "d + 1 \<le> 9 * 10 ^ d" for d :: nat
  by (induction d) simp_all

lemma digits_add: "j \<le> digits n + 1 \<Longrightarrow> digits (n + j) \<le> digits n + 1"
  using digits_le_iff [of "n + j" "digits n"] below_power [of n] room [of "digits n"] by simp

lemma fixed_in_four:
  "f (f b) = f b \<or> f (f (f b)) = f (f b) \<or> f (f (f (f b))) = f (f (f b)) \<Longrightarrow>
   bytes_fixed_point (Suc (Suc (Suc (Suc m)))) f b \<noteq> None"
  by (auto simp: Let_def)

lemma digits_converge:
  assumes "b \<le> c"
  shows "bytes_fixed_point (Suc (Suc (Suc (Suc m)))) (\<lambda>n. c + digits n) b \<noteq> None"
proof (rule fixed_in_four)
  let ?f = "\<lambda>n. c + digits n"
  let ?b1 = "?f b" and ?b2 = "?f (?f b)"
  have up: "digits b \<le> digits ?b1" "digits ?b1 \<le> digits ?b2" using assms by (simp_all add: digits_mono)
  have "digits ?b2 \<le> digits ?b1 + 1"
    using digits_add [of "digits ?b1 - digits b" ?b1] up by simp
  moreover have "digits (?f ?b2) = digits ?b2" if less: "digits ?b2 = digits ?b1 + 1"
  proof -
    have eq: "?b1 + (digits ?b2 - digits b) = ?f ?b2" using up by simp
    have "digits ?b2 - digits b \<le> digits ?b1 + 1" using less by linarith
    from digits_add [OF this] have "digits (?f ?b2) \<le> digits ?b1 + 1" by (simp only: eq)
    moreover have "digits ?b2 \<le> digits (?f ?b2)" using up(2) by (intro digits_mono) simp
    ultimately show ?thesis using less by linarith
  qed
  ultimately have "digits ?b2 = digits ?b1 \<or> digits (?f ?b2) = digits ?b2" using up by linarith
  then show "?f (?f b) = ?f b \<or> ?f (?f (?f b)) = ?f (?f b) \<or> ?f (?f (?f (?f b))) = ?f (?f (?f b))" by auto
qed

section \<open>The place of a number in a document\<close>

text \<open>A text with the number printed at one place, and a list of fields with such a text.\<close>

definition framed :: "(rat \<Rightarrow> string) \<Rightarrow> (nat \<Rightarrow> string) \<Rightarrow> bool" where
  "framed num t = (\<exists>pre post. \<forall>n. t n = pre @ num (of_nat n) @ post)"

definition framed_fields :: "(rat \<Rightarrow> string) \<Rightarrow> (nat \<Rightarrow> (string \<times> json) list) \<Rightarrow> bool" where
  "framed_fields num fs = ((\<forall>n. fs n \<noteq> []) \<and> framed num (\<lambda>n. join_with '','' (stringify_fields num (fs n))))"

lemma framed_around: "framed num t \<Longrightarrow> framed num (\<lambda>n. a @ t n @ b)"
proof -
  assume "framed num t"
  then obtain pre post where t: "\<And>n. t n = pre @ num (of_nat n) @ post" by (auto simp: framed_def)
  have "\<forall>n. a @ t n @ b = (a @ pre) @ num (of_nat n) @ (post @ b)" by (simp add: t)
  then show ?thesis unfolding framed_def by blast
qed

lemma framed_number: "framed num (\<lambda>n. json_stringify num (count_json n))"
  unfolding framed_def count_json_def by (intro exI [of _ "[]"]) simp

lemma framed_object: "framed_fields num fs \<Longrightarrow> framed num (\<lambda>n. json_stringify num (JObj (fs n)))"
  using framed_around [of num "\<lambda>n. join_with '','' (stringify_fields num (fs n))" "''{''" "''}''"] by (simp add: framed_fields_def)

lemma stringify_fields_empty [simp]: "stringify_fields num fs = [] \<longleftrightarrow> fs = []"
  by (cases fs) auto

lemma framed_here: "framed num (\<lambda>n. json_stringify num (v n)) \<Longrightarrow> framed_fields num (\<lambda>n. (k, v n) # fs)"
  using framed_around [of num "\<lambda>n. json_stringify num (v n)" "json_quote k @ '':''" "[]"]
    framed_around [of num "\<lambda>n. json_stringify num (v n)" "json_quote k @ '':''" "'','' @ join_with '','' (stringify_fields num fs)"]
  by (cases "fs = []") (simp_all add: framed_fields_def join_with_Cons)

lemma framed_later: "framed_fields num fs \<Longrightarrow> framed_fields num (\<lambda>n. (k, x) # fs n)"
  using framed_around [of num "\<lambda>n. join_with '','' (stringify_fields num (fs n))" "json_quote k @ '':'' @ json_stringify num x @ '',''" "[]"]
  by (simp add: framed_fields_def join_with_Cons)

lemma framed_after: "framed_fields num fs \<Longrightarrow> framed_fields num (\<lambda>n. gs @ fs n)"
  by (induction gs) (simp_all add: framed_later split_paired_all)

lemmas framed_intros = framed_number framed_object framed_here framed_later framed_after

lemma framed_ledger: "framed num (\<lambda>n. json_stringify num (ledger_json (l\<lparr>by_checkpointBytes := n\<rparr>)))"
  unfolding ledger_json_def by (simp del: json_stringify.simps) (intro framed_intros)

lemma framed_checkpoint: "framed num (\<lambda>n. json_stringify num (checkpoint_json (checkpoint_with s cursor n)))"
proof -
  have "framed num (\<lambda>n. json_stringify num (snapshot_json (withCheckpointBytes s l n)))" for l
    unfolding snapshot_json_def withCheckpointBytes_def
    by (cases "sn_reproductionSurface s = []"; simp del: json_stringify.simps; intro framed_intros framed_ledger)
  then show ?thesis unfolding checkpoint_json_def checkpoint_with_def
    by (simp del: json_stringify.simps) (intro framed_intros)
qed

section \<open>Convergence\<close>

lemma utf8_append: "utf8Bytes (s @ t) = utf8Bytes s + utf8Bytes t"
  by (simp add: utf8Bytes_def)

lemma utf8_digits: "utf8Bytes (nat_to_dec n) = digits n"
proof -
  have "\<forall>c \<in> set s. is_digit c \<Longrightarrow> utf8Bytes s = length s" for s
    by (induction s) (auto simp: utf8Bytes_def is_digit_def)
  then show ?thesis using nat_to_dec_digits by (simp add: digits_def)
qed

lemma finalize_converges:
  assumes "\<And>n. num (of_nat n) = nat_to_dec n"
  shows "finalizeCheckpoint num s cursor \<noteq> Inl ''AGENT_CHECKPOINT_CORRUPT: checkpoint byte measurement did not converge''"
proof -
  define prior where "prior = by_checkpointBytes (ledgerOf s)"
  obtain pre post where "\<And>n. json_stringify num (checkpoint_json (checkpoint_with s cursor n)) = pre @ num (of_nat n) @ post"
    using framed_checkpoint [of num s cursor] by (auto simp: framed_def)
  then have size: "(\<lambda>n. prior + json_bytes num (checkpoint_json (checkpoint_with s cursor n)))
      = (\<lambda>n. (prior + utf8Bytes pre + utf8Bytes post) + digits n)"
    by (intro ext) (simp add: json_bytes_def utf8_append utf8_digits assms)
  have four: "CHECKPOINT_BYTES_FIXED_POINT_ITERATIONS = Suc (Suc (Suc (Suc 20)))" by (simp add: CHECKPOINT_BYTES_FIXED_POINT_ITERATIONS_def)
  obtain n where "bytes_fixed_point CHECKPOINT_BYTES_FIXED_POINT_ITERATIONS
      (\<lambda>n. prior + json_bytes num (checkpoint_json (checkpoint_with s cursor n))) prior = Some n"
    using digits_converge [of prior "prior + utf8Bytes pre + utf8Bytes post" 20] unfolding size four by auto
  then show ?thesis
    by (auto simp: finalizeCheckpoint_def Let_def prior_def assertCheckpointHasNoSecrets_def bind_res_def)
qed

end
