(* ===== verification/Agent_Properties.thy ===== *)
theory Agent_Properties imports Agent_Checkpoints begin

text \<open>
  What a run of the autonomous agent guarantees: which tool calls reach the executor, what is charged,
  the limits it keeps, the shape of its state and its log, and that it returns.
\<close>

section \<open>Tool calls\<close>

definition call_allowed :: "agent_config \<Rightarrow> agent_platform \<Rightarrow> tool_call \<Rightarrow> bool" where
  "call_allowed cfg pf c = (tc_campaignId c = ac_campaignId cfg
     \<and> intent_permitted (digest_platform.truncate pf) (validation_context_of cfg)
         (Call_Tool (tc_toolId c) (tc_argumentDigest c) (tc_arguments c)))"

definition guarded :: "(tool_call \<Rightarrow> bool) \<Rightarrow> 'w agent_ports \<Rightarrow> 'w agent_ports" where
  "guarded P ports = ports\<lparr>pt_execute := (\<lambda>c w. if P c then pt_execute ports c w else Inl ''refused'')\<rparr>"

lemma guarded_fields [simp]:
  "pt_now (guarded P ports) = pt_now ports" "pt_random (guarded P ports) = pt_random ports" "pt_sleep (guarded P ports) = pt_sleep ports"
  "pt_complete (guarded P ports) = pt_complete ports"
  "pt_execute (guarded P ports) c w = (if P c then pt_execute ports c w else Inl ''refused'')"
  by (simp_all add: guarded_def)

lemma guarded_steps [simp]:
  "refreshWallTime (guarded P ports) = refreshWallTime ports" "backoffDelay (guarded P ports) = backoffDelay ports"
  "after_failure (guarded P ports) = after_failure ports" "after_turn cfg (guarded P ports) = after_turn cfg ports"
  "start_run (guarded P ports) = start_run ports" "finish cfg pf (guarded P ports) = finish cfg pf ports"
  unfolding refreshWallTime_def backoffDelay_def after_failure_def after_turn_def start_run_def finish_def guarded_fields by (rule refl)+

abbreviation host_guard :: "agent_config \<Rightarrow> agent_platform \<Rightarrow> 'w agent_ports \<Rightarrow> 'w agent_ports" where
  "host_guard cfg pf ports \<equiv> guarded (call_allowed cfg pf) ports"

lemma intent_guarded:
  assumes "intent_permitted (digest_platform.truncate pf) (validation_context_of cfg) i"
  shows "applyIntent cfg pf (host_guard cfg pf ports) turnId i s = applyIntent cfg pf ports turnId i s"
proof -
  obtain a w where s: "s = (a, w)" by (cases s)
  show ?thesis
  proof (cases i)
    case (Call_Tool toolId digest args)
    have "applyCallTool cfg pf (host_guard cfg pf ports) (tl_id tool) digest args turnId (a, w)
        = applyCallTool cfg pf ports (tl_id tool) digest args turnId (a, w)" if "lookupAgentTool toolId = Some tool" for tool
      using assms lookup_id [OF that] Call_Tool by (simp add: applyCallTool_def call_allowed_def)
    then show ?thesis by (cases "lookupAgentTool toolId") (simp_all add: applyIntent_def Call_Tool s)
  qed (simp_all add: applyIntent_def s)
qed

lemma intents_guarded:
  "list_all (intent_permitted (digest_platform.truncate pf) (validation_context_of cfg)) is \<Longrightarrow>
   apply_intents cfg pf (host_guard cfg pf ports) turnId is replanned s = apply_intents cfg pf ports turnId is replanned s"
proof (induction "is" arbitrary: replanned s)
  case (Cons i "is")
  then show ?case
    by (cases "applyIntent cfg pf ports turnId i s") (auto simp: intent_guarded split: intent_outcome.split)
qed simp

lemma response_guarded:
  "handle_response cfg pf (host_guard cfg pf ports) turnId response s = handle_response cfg pf ports turnId response s"
proof -
  obtain a w where s: "s = (a, w)" by (cases s)
  show ?thesis
  proof (cases "validateReasonerTurnResponse (digest_platform.truncate pf) (validation_context_of cfg) response")
    case (Inr r)
    then obtain intents drafts where r: "validateReasonerTurnResponse (digest_platform.truncate pf) (validation_context_of cfg) response
      = Inr (intents, drafts)" by (cases r) simp
    show ?thesis using validated_permitted [OF r] by (simp add: handle_response_def s r apply_response_def intents_guarded)
  qed (simp add: handle_response_def s Let_def)
qed

lemma turn_guarded: "runTurn cfg pf (host_guard cfg pf ports) turnId s = runTurn cfg pf ports turnId s"
proof -
  have ask: "ask_reasoner cfg pf (host_guard cfg pf ports) turnId request s = ask_reasoner cfg pf ports turnId request s" for request s
    unfolding ask_reasoner_def guarded_fields guarded_steps response_guarded by (rule refl)
  show ?thesis unfolding runTurn_def ask by (rule refl)
qed

lemma loop_guarded: "run_loop cfg pf (host_guard cfg pf ports) maxTurns s = run_loop cfg pf ports maxTurns s"
proof (induction cfg pf ports maxTurns s rule: run_loop.induct)
  case (1 cfg pf ports maxTurns s)
  have step: "run_iteration cfg pf (host_guard cfg pf ports) maxTurns s = run_iteration cfg pf ports maxTurns s"
    unfolding run_iteration_def guarded_steps turn_guarded by (rule refl)
  show ?case
  proof (cases "run_iteration cfg pf ports maxTurns s")
    case (Inr r)
    obtain t s1 where r: "r = (t, s1)" by (cases r)
    show ?thesis using "1.IH" [of r t s1] Inr r
      by (cases t) (simp_all add: run_loop.simps [of cfg pf _ maxTurns s] step Inr r split: prod.split)
  qed (simp add: run_loop.simps [of cfg pf _ maxTurns s] step)
qed

text \<open>C28: only calls of tools that the catalog knows, the campaign allows, an authorized environment
  holds and the owner policy permits reach the executor, with the digest the host computes from the
  arguments: an executor that refuses every other call gives the same run.\<close>

theorem only_permitted_tools_execute:
  "run_agent cfg pf (host_guard cfg pf ports) limit s = run_agent cfg pf ports limit s"
  unfolding run_agent_def guarded_steps loop_guarded by (rule refl)

section \<open>A sample run\<close>

text \<open>A campaign whose reasoner is asked once; the operator cancels during the call.\<close>

definition sample_config :: agent_config where
  "sample_config = \<lparr>ac_campaignId = ''c'', ac_policy = defaultAgentBudgetPolicy HOUR_1, ac_authorizedEnvironments = [''LOCAL''],
     ac_allowedToolIds = [''INSPECT_SOURCE_SURFACE''], ac_defaultMaxTurns = 3\<rparr>"

definition sample_platform :: agent_platform where
  "sample_platform = \<lparr>dp_sha = (\<lambda>s. s), dp_num = (\<lambda>q. nat_to_dec (nat \<lfloor>q\<rfloor>)), dp_locale_le = (\<lambda>s t. True), ax_memory = (\<lambda>s. JNull), ax_admit = None\<rparr>"

definition sample_ports :: "unit agent_ports" where
  "sample_ports = \<lparr>pt_now = (\<lambda>w. (7, w)), pt_random = (\<lambda>w. (1, w)), pt_sleep = (\<lambda>d w. ([], w)),
     pt_complete = (\<lambda>request timeout w. (None, [Sig_Cancel], w)), pt_execute = (\<lambda>c w. Inr (JNull, [], w))\<rparr>"

definition sample_agent :: "action_record list \<Rightarrow> agent" where
  "sample_agent history = (fresh_agent None)\<lparr>ag_actionLog := history\<rparr>"

definition sample_entry :: action_record where
  "sample_entry = tool_record ''c:turn:1'' ''INSPECT_SOURCE_SURFACE'' ''d'' PLAN ''SOURCE_FILE''"

lemma agent_operation_allowed: "assertOwnerPolicyAllows ''AUTONOMOUS_AGENT_LOCAL'' = Inr ()"
  by code_simp

lemma sample_run:
  "\<exists>r a'. run_agent sample_config sample_platform sample_ports None (sample_agent history, ()) = Inr (r, a', ())
     \<and> ag_actionLog a' = history \<and> rr_terminationReason r = Agent_CANCELLED"
proof -
  have go: "classifyBudgetExhaustion (defaultAgentBudgetPolicy HOUR_1) (ZERO_AGENT_BUDGET_USAGE\<lparr>bu_wallTimeMs := 0\<rparr>) = CONTINUE"
    by code_simp
  show ?thesis
    by (simp add: run_agent_def agent_operation_allowed start_run_def run_loop.simps run_iteration_def sample_config_def sample_platform_def
      sample_ports_def sample_agent_def fresh_agent_def refreshWallTime_def go runTurn_def ask_reasoner_def charge_request_def Let_def
      apply_signals_def cancel_def finish_def ended_agent_def)
qed

section \<open>Accounting and limits\<close>

text \<open>C32: the bytes charged against the policy are at every end of a run the sums of the byte ledger, each
  byte charged once, and the state reported is that of the instance, with or without a checkpoint.\<close>

theorem run_charges_exactly:
  assumes "run_agent cfg pf ports limit (a, w) = Inr (r, a', w')" and "bytes_exact a"
  shows "bytes_exact a' \<and> rr_state r = snapshot cfg a' \<and> (\<forall>c. rr_checkpoint r = Some c \<longrightarrow> cp_state c = snapshot cfg a')"
proof -
  obtain reason c b v where "finish cfg pf ports reason c (b, v) = Inr (r, a', w')"
    using assms(1) by (auto simp: run_agent_def Let_def split: if_splits)
  then have "rr_state r = snapshot cfg a' \<and> (\<forall>c. rr_checkpoint r = Some c \<longrightarrow> cp_state c = snapshot cfg a')"
    by (cases rule: finish_cases) auto
  then show ?thesis using bytes.run_kept [OF assms] by blast
qed

lemma run_charges_exactly_witness:
  "\<exists>r a'. run_agent sample_config sample_platform sample_ports None (sample_agent [], ()) = Inr (r, a', ()) \<and> bytes_exact a'"
proof -
  obtain r a' where run: "run_agent sample_config sample_platform sample_ports None (sample_agent [], ()) = Inr (r, a', ())"
    using sample_run [of "[]"] by blast
  have "bytes_exact (sample_agent [])"
    by (simp add: bytes_exact_def sample_agent_def fresh_agent_def ZERO_AGENT_BUDGET_USAGE_def ZERO_AGENT_BYTE_LEDGER_def charged_defs)
  then show ?thesis using run_charges_exactly [OF run] run by blast
qed

text \<open>C30: in a run that starts within them, the six dimensions counted one by one (questions to the reasoner, tool actions, candidates,
  failures, consecutive failures and provider failures) end at most at the policy's limits, whatever the reasoner answers. The volumes
  (\<open>inputBytes\<close>, \<open>outputBytes\<close>, \<open>toolPayloadBytes\<close>, \<open>wallTimeMs\<close>) are charged before they are compared: the charge that passes their limit is
  the last one, and nothing is claimed of them here.\<close>

theorem run_respects_policy:
  assumes "run_agent cfg pf ports limit (a, w) = Inr (r, a', w')"
    and "within_policy (ac_policy cfg) Between (ag_usage a)"
  shows "int (bu_reasonerCalls (ag_usage a')) \<le> bp_reasonerCalls (ac_policy cfg)
    \<and> int (bu_toolActions (ag_usage a')) \<le> bp_toolActions (ac_policy cfg)
    \<and> int (bu_candidateCount (ag_usage a')) \<le> bp_candidateCap (ac_policy cfg)
    \<and> int (bu_failures (ag_usage a')) \<le> bp_failures (ac_policy cfg)
    \<and> int (bu_consecutiveFailures (ag_usage a')) \<le> bp_consecutiveFailures (ac_policy cfg)
    \<and> int (bu_providerFailures (ag_usage a')) \<le> bp_providerFailures (ac_policy cfg)"
  using counters.run_kept [OF assms] by (simp add: within_policy.simps)

lemma run_respects_policy_witness:
  "\<exists>r a'. run_agent sample_config sample_platform sample_ports None (sample_agent [], ()) = Inr (r, a', ())
     \<and> int (bu_reasonerCalls (ag_usage a')) \<le> bp_reasonerCalls (ac_policy sample_config)"
proof -
  obtain r a' where run: "run_agent sample_config sample_platform sample_ports None (sample_agent [], ()) = Inr (r, a', ())"
    using sample_run [of "[]"] by blast
  have "within_policy (ac_policy sample_config) Between (ag_usage (sample_agent []))"
    by (simp add: within_policy.simps sample_agent_def fresh_agent_def ZERO_AGENT_BUDGET_USAGE_def sample_config_def defaultAgentBudgetPolicy_def)
  then show ?thesis using run_respects_policy [OF run] run by blast
qed

text \<open>C34: the agent's state keeps its shape: references, targets and ids without repetition or empty
  text, the targets, the pending envelopes and the surface within their caps, each surface entry under its own path.\<close>

theorem agent_state_stays_wellformed:
  assumes "run_agent cfg pf ports limit (a, w) = Inr (r, a', w')" and "agent_wf a"
  shows "agent_wf a'"
  using assms by (rule shape.run_kept)

lemma agent_state_stays_wellformed_witness:
  "\<exists>r a'. run_agent sample_config sample_platform sample_ports None (sample_agent [], ()) = Inr (r, a', ()) \<and> agent_wf a'"
proof -
  obtain r a' where run: "run_agent sample_config sample_platform sample_ports None (sample_agent [], ()) = Inr (r, a', ())"
    using sample_run [of "[]"] by blast
  have "agent_wf (sample_agent [])"
    by (simp add: agent_wf_def sample_agent_def fresh_agent_def texts_ok_def surface_map_ok_def normalizeSurfaceEntries_def)
  then show ?thesis using agent_state_stays_wellformed [OF run] run by blast
qed

section \<open>The log\<close>

text \<open>C31: a call is never executed again once it failed for a lasting reason, was discarded before, or
  failed twice for a passing one: no executed entry of the log follows such entries with its fingerprint.\<close>

theorem exhausted_calls_never_rerun:
  assumes "run_agent cfg pf ports limit (a, w) = Inr (r, a', w')" and "never_repeats (ag_actionLog a)"
    and "ag_actionLog a' = before @ [e] @ after" and "executed_entry e"
  shows "list_all (\<lambda>p. actionFingerprint p = actionFingerprint e \<longrightarrow> cr_resultClass p \<noteq> ''DEDUPED_REPEAT'') before
    \<and> \<not> list_ex (failed_entry (actionFingerprint e) (\<lambda>d. d \<noteq> ''TRANSIENT_RETRYABLE'')) before
    \<and> length (filter (failed_entry (actionFingerprint e) (\<lambda>d. d = ''TRANSIENT_RETRYABLE'')) before) < TRANSIENT_ACTION_RETRY_BUDGET"
proof -
  have "never_repeats (ag_actionLog a')" by (rule log.run_kept [OF assms(1,2)])
  then have "\<not> exhausted_before before (actionFingerprint e)"
    using assms(3,4) by (auto simp: never_repeats_def list_all_iff nth_append dest!: bspec [of _ _ "length before"])
  then show ?thesis by (auto simp: exhausted_before_def detectExhaustedAction_iff list_all_iff list_ex_iff not_le)
qed

lemma exhausted_calls_never_rerun_witness:
  "\<exists>r a'. run_agent sample_config sample_platform sample_ports None (sample_agent [sample_entry], ()) = Inr (r, a', ())
     \<and> ag_actionLog a' = [] @ [sample_entry] @ [] \<and> executed_entry sample_entry
     \<and> length (filter (failed_entry (actionFingerprint sample_entry) (\<lambda>d. d = ''TRANSIENT_RETRYABLE'')) []) < TRANSIENT_ACTION_RETRY_BUDGET"
proof -
  obtain r a' where run: "run_agent sample_config sample_platform sample_ports None (sample_agent [sample_entry], ()) = Inr (r, a', ())"
    and entries: "ag_actionLog a' = [] @ [sample_entry] @ []" using sample_run [of "[sample_entry]"] by auto
  have e: "executed_entry sample_entry" by (simp add: executed_entry_def sample_entry_def tool_record_def plain_record_def)
  have "never_repeats (ag_actionLog (sample_agent [sample_entry]))"
    by (simp add: never_repeats_def exhausted_before_def detectRepeatedAction_def detectExhaustedAction_def sample_agent_def)
  then show ?thesis using exhausted_calls_never_rerun [OF run _ entries e] run entries e by blast
qed

section \<open>Checkpoints\<close>

text \<open>C33: a checkpoint measures itself: the bytes its ledger records are those recorded before plus the
  length in UTF-8 of the very document, that number included; and the search for that number always ends.\<close>

theorem checkpoint_measures_itself:
  assumes "\<And>n. dp_num pf (of_nat n) = nat_to_dec n"
  shows "createCheckpoint (dp_num pf) s turns \<noteq> Inl ''AGENT_CHECKPOINT_CORRUPT: checkpoint byte measurement did not converge''
    \<and> (\<forall>c. createCheckpoint (dp_num pf) s turns = Inr c \<longrightarrow>
         sn_byteLedger (cp_state c) = Some ((ledgerOf s)\<lparr>by_checkpointBytes :=
           by_checkpointBytes (ledgerOf s) + json_bytes (dp_num pf) (checkpoint_json c)\<rparr>))"
proof -
  have "sn_byteLedger (cp_state c) = Some ((ledgerOf s)\<lparr>by_checkpointBytes :=
           by_checkpointBytes (ledgerOf s) + json_bytes (dp_num pf) (checkpoint_json c)\<rparr>)"
    if made: "createCheckpoint (dp_num pf) s turns = Inr c" for c
  proof -
    obtain n where c: "c = checkpoint_with s (resumeCursorFor (sn_campaignId s) turns) n"
      and n: "n = by_checkpointBytes (ledgerOf s) + json_bytes (dp_num pf) (checkpoint_json c)"
      using createCheckpoint_Inr [OF made] by blast
    have "sn_byteLedger (cp_state c) = Some ((ledgerOf s)\<lparr>by_checkpointBytes := n\<rparr>)"
      by (subst c) (simp add: checkpoint_with_def withCheckpointBytes_def)
    then show ?thesis by (simp only: n [symmetric])
  qed
  then show ?thesis using finalize_converges [of "dp_num pf", OF assms] by (simp add: createCheckpoint_def)
qed

lemma checkpoint_measures_itself_witness:
  "createCheckpoint (dp_num sample_platform) (snapshot sample_config (sample_agent [sample_entry])) 2
     \<noteq> Inl ''AGENT_CHECKPOINT_CORRUPT: checkpoint byte measurement did not converge''"
proof -
  have "dp_num sample_platform (of_nat n) = nat_to_dec n" for n by (simp add: sample_platform_def)
  from checkpoint_measures_itself [OF this] show ?thesis by blast
qed

section \<open>Returning\<close>

definition secret_message :: "string \<Rightarrow> bool" where
  "secret_message e = starts_with ''AGENT_CHECKPOINT_SECRET_DETECTED: '' e"

lemma secrets_Inl: "assertCheckpointHasNoSecrets t = Inl e \<Longrightarrow> secret_message e"
  by (auto simp: assertCheckpointHasNoSecrets_def secret_message_def starts_with_def split: if_splits)

lemma createCheckpoint_Inl:
  assumes "\<And>n. num (of_nat n) = nat_to_dec n" and "createCheckpoint num s turns = Inl e"
  shows "secret_message e"
proof -
  let ?cursor = "resumeCursorFor (sn_campaignId s) turns"
  obtain n where "bytes_fixed_point CHECKPOINT_BYTES_FIXED_POINT_ITERATIONS
      (\<lambda>n. by_checkpointBytes (ledgerOf s) + json_bytes num (checkpoint_json (checkpoint_with s ?cursor n)))
      (by_checkpointBytes (ledgerOf s)) = Some n"
    using finalize_converges [OF assms(1), of s ?cursor] by (auto simp: finalizeCheckpoint_def Let_def split: option.splits)
  then show ?thesis using assms(2) secrets_Inl
    by (auto simp: createCheckpoint_def finalizeCheckpoint_def Let_def bind_res_def split: sum.splits)
qed

definition returns :: "'a checked \<Rightarrow> bool" where
  "returns x = (case x of Inr _ \<Rightarrow> True | Inl _ \<Rightarrow> False)"

lemma returns_simps [simp]: "returns (Inr x)" "\<not> returns (Inl e)"
  by (simp_all add: returns_def)

lemma returns_bind [intro]: "returns x \<Longrightarrow> (\<And>a. x = Inr a \<Longrightarrow> returns (f a)) \<Longrightarrow> returns (bind_res x f)"
  by (cases x) simp_all

lemma returns_iff: "returns x \<longleftrightarrow> (\<exists>a. x = Inr a)"
  by (cases x) simp_all

text \<open>An executor that never throws.\<close>

definition executor_total :: "'w agent_ports \<Rightarrow> bool" where
  "executor_total ports = (\<forall>c w. returns (pt_execute ports c w))"

lemma intent_returns: "executor_total ports \<Longrightarrow> returns (applyIntent cfg pf ports turnId i s)"
proof -
  assume total: "executor_total ports"
  have call: "returns (applyCallTool cfg pf ports toolId digest args turnId (a, w))" for toolId digest args a w
    using total by (auto simp: applyCallTool_def executor_total_def intro!: returns_bind)
  show ?thesis
    by (cases s; cases i) (auto simp: applyIntent_def call split: option.split)
qed

lemma intents_return: "executor_total ports \<Longrightarrow> returns (apply_intents cfg pf ports turnId is replanned s)"
proof (induction "is" arbitrary: replanned s)
  case (Cons i "is")
  obtain out a w where "applyIntent cfg pf ports turnId i s = Inr (out, a, w)"
    using intent_returns [OF Cons.prems, of cfg pf turnId i s] by (auto simp: returns_iff)
  then show ?case using Cons by (cases out) simp_all
qed simp

lemma turn_returns: "executor_total ports \<Longrightarrow> returns (runTurn cfg pf ports turnId s)"
proof -
  assume total: "executor_total ports"
  have applied: "returns (apply_response cfg pf ports turnId intents drafts (a, w))" for intents drafts a w
    unfolding apply_response_def by (auto simp: Let_def split: option.split intro!: returns_bind intents_return [OF total])
  have handled: "returns (handle_response cfg pf ports turnId response (a, w))" for response a w
    by (cases "validateReasonerTurnResponse (digest_platform.truncate pf) (validation_context_of cfg) response")
      (auto simp: handle_response_def Let_def applied)
  have asked: "returns (ask_reasoner cfg pf ports turnId request (a, w))" for request a w
    by (auto simp: ask_reasoner_def Let_def handled split: option.split prod.split call_result.split)
  show ?thesis by (cases s) (simp add: runTurn_def Let_def asked)
qed

lemma loop_returns: "executor_total ports \<Longrightarrow> returns (run_loop cfg pf ports maxTurns s)"
proof (induction cfg pf ports maxTurns s rule: run_loop.induct)
  case (1 cfg pf ports maxTurns s)
  have "returns (run_iteration cfg pf ports maxTurns s)"
    unfolding run_iteration_def by (auto simp: Let_def split: prod.split option.split intro!: returns_bind turn_returns [OF "1.prems"])
  then obtain t s1 where step: "run_iteration cfg pf ports maxTurns s = Inr (t, s1)" by (auto simp: returns_iff)
  then show ?case using "1.IH" [of "(t, s1)" t s1] "1.prems"
    by (cases t) (auto simp: run_loop.simps [of cfg pf ports maxTurns s])
qed

text \<open>C29: a run always returns: on an instance that has not terminated, with an executor that does not
  throw, it yields a result whatever reasoner, clock and operator do, within its number of turns; only the
  secret screening of its checkpoint can refuse.\<close>

theorem run_always_returns:
  assumes "ag_status (fst s) \<noteq> TERMINATED" and "executor_total ports" and "\<And>n. dp_num pf (of_nat n) = nat_to_dec n"
  shows "case run_agent cfg pf ports limit s of
      Inl e \<Rightarrow> secret_message e
    | Inr (r, a', w') \<Rightarrow> ag_terminationReason a' = Some (rr_terminationReason r)
        \<and> ag_status a' = (if rr_terminationReason r = Agent_PAUSED then PAUSED else TERMINATED)"
proof -
  have fin: "case finish cfg pf ports reason c (a, w) of Inl e \<Rightarrow> secret_message e
    | Inr (r, a', w') \<Rightarrow> ag_terminationReason a' = Some (rr_terminationReason r)
        \<and> ag_status a' = (if rr_terminationReason r = Agent_PAUSED then PAUSED else TERMINATED)" for reason c a w
  proof (cases "finish cfg pf ports reason c (a, w)")
    case (Inl e)
    then show ?thesis using createCheckpoint_Inl [OF assms(3)]
      by (auto simp: finish_def Let_def bind_res_def split: prod.splits if_splits sum.splits)
  next
    case (Inr x)
    then obtain r a' w' where r: "finish cfg pf ports reason c (a, w) = Inr (r, a', w')" by (cases x) auto
    from r have "ag_terminationReason a' = Some (rr_terminationReason r)
        \<and> ag_status a' = (if rr_terminationReason r = Agent_PAUSED then PAUSED else TERMINATED)"
      by (cases rule: finish_cases) (simp_all add: ended_agent_def accounted_agent_def)
    then show ?thesis by (simp add: r)
  qed
  obtain reason c a w where "run_loop cfg pf ports (case limit of None \<Rightarrow> ac_defaultMaxTurns cfg | Some n \<Rightarrow> n) (start_run ports s) = Inr (reason, c, a, w)"
    using loop_returns [OF assms(2)] by (metis returns_iff surj_pair)
  then show ?thesis using assms(1) fin by (cases s) (simp add: run_agent_def agent_operation_allowed Let_def)
qed

lemma run_always_returns_witness:
  "case run_agent sample_config sample_platform sample_ports (Some 2) (sample_agent [], ()) of
      Inl e \<Rightarrow> secret_message e
    | Inr (r, a', w') \<Rightarrow> ag_terminationReason a' = Some (rr_terminationReason r)
        \<and> ag_status a' = (if rr_terminationReason r = Agent_PAUSED then PAUSED else TERMINATED)"
proof (rule run_always_returns)
  show "ag_status (fst (sample_agent [], ())) \<noteq> TERMINATED" by (simp add: sample_agent_def fresh_agent_def)
  show "executor_total sample_ports" by (simp add: executor_total_def sample_ports_def)
  show "dp_num sample_platform (of_nat n) = nat_to_dec n" for n by (simp add: sample_platform_def)
qed

section \<open>Where the code loses something\<close>

text \<open>A run leaves the time of earlier runs of the same instance out: the base that its clock adds to never moves.\<close>

lemma wall_base_never_moves:
  assumes "run_agent cfg pf ports limit (a, w) = Inr (r, a', w')"
  shows "ag_wallBaseMs a' = ag_wallBaseMs a"
  using wall.run_kept [OF assms, of "ag_wallBaseMs a"] by simp

text \<open>A driver that throws every time is attributed as a run without a failed call.\<close>

lemma throwing_driver_is_valid: "pa_terminationClass (attributeProviderFailures le actionLog 0 n) = VALID_PROVIDER_RUN"
  by (simp add: attributeProviderFailures_def Let_def)

end
