(* ===== verification/Agent_Checkpoint_Codec.thy ===== *)
theory Agent_Checkpoint_Codec imports Agent_Properties begin

text \<open>
  The fail-closed parser of checkpoint documents, \<open>parseCheckpoint\<close> and \<open>parseResumeCursor\<close> of
  \<open>src/core/agentRuntime/checkpoint.ts\<close>, with the migration of version 1 budgets. A document is a
  JSON value with distinct keys, an accepted one is returned with its budget normalised, as the code
  does. \<open>Number(s)\<close> of a decimal text is exact here, without the rounding to a double.
\<close>

section \<open>Errors and guards\<close>

definition checkpoint_error :: "string \<Rightarrow> string \<Rightarrow> string" where
  "checkpoint_error code detail = ''AGENT_CHECKPOINT_'' @ code @ '': '' @ detail"

definition corrupt :: "string \<Rightarrow> 'a checked" where
  "corrupt detail = Inl (checkpoint_error ''CORRUPT'' detail)"

definition require :: "bool \<Rightarrow> string \<Rightarrow> unit checked" where
  "require ok detail = (if ok then Inr () else corrupt detail)"

definition boundedFoundVersion :: "json option \<Rightarrow> string" where
  "boundedFoundVersion v = (case v of
     Some (JStr s) \<Rightarrow> if s \<noteq> [] \<and> length s \<le> 80 \<and> list_all (\<lambda>c. is_letter c \<or> is_digit c \<or> c \<in> set ''_.:-'') s then s else ''UNRECOGNISED''
   | _ \<Rightarrow> ''UNRECOGNISED'')"

definition unsupportedVersion :: "string \<Rightarrow> json option \<Rightarrow> 'a checked" where
  "unsupportedVersion place v = (case v of
     Some (JStr s) \<Rightarrow>
       if s \<noteq> [] \<and> length s \<le> 200
       then Inl (checkpoint_error ''VERSION_UNSUPPORTED'' (place @ '' has an unsupported schema version: '' @ boundedFoundVersion v))
       else corrupt (place @ '' has an invalid schema version'')
   | _ \<Rightarrow> corrupt (place @ '' has an invalid schema version''))"

definition is_text :: "json option \<Rightarrow> bool" where
  "is_text v = (case v of Some (JStr s) \<Rightarrow> True | _ \<Rightarrow> False)"

definition is_text_or_null :: "json option \<Rightarrow> bool" where
  "is_text_or_null v = (v = Some JNull \<or> is_text v)"

definition is_filled_text :: "json option \<Rightarrow> bool" where
  "is_filled_text v = (case v of Some (JStr s) \<Rightarrow> s \<noteq> [] | _ \<Rightarrow> False)"

definition isStringArray :: "json option \<Rightarrow> bool" where
  "isStringArray v = (case v of Some (JArr xs) \<Rightarrow> list_all (\<lambda>x. is_text (Some x)) xs | _ \<Rightarrow> False)"

definition isPhase :: "json option \<Rightarrow> bool" where
  "isPhase v = (\<exists>p \<in> set AGENT_PHASES. v = Some (JStr (phase_text p)))"

definition AGENT_RUNTIME_STATUSES :: "agent_status list" where
  "AGENT_RUNTIME_STATUSES = [READY, RUNNING, PAUSED, CHECKPOINTING, TERMINATED]"

definition isStatus :: "json option \<Rightarrow> bool" where
  "isStatus v = (\<exists>s \<in> set AGENT_RUNTIME_STATUSES. v = Some (JStr (status_text s)))"

definition isFiniteNumber :: "json option \<Rightarrow> bool" where
  "isFiniteNumber v = (case v of Some (JNum q) \<Rightarrow> 0 \<le> q | _ \<Rightarrow> False)"

definition is_safe_count :: "json option \<Rightarrow> bool" where
  "is_safe_count v = (case v of Some (JNum q) \<Rightarrow> q = of_int \<lfloor>q\<rfloor> \<and> \<lfloor>q\<rfloor> \<le> max_safe_integer \<and> 0 \<le> q | _ \<Rightarrow> False)"

section \<open>The resume cursor\<close>

fun last_pivot :: "string \<Rightarrow> string \<Rightarrow> nat option" where
  "last_pivot marker [] = (if marker = [] then Some 0 else None)"
| "last_pivot marker (c # s) = (case last_pivot marker s of
     Some i \<Rightarrow> Some (Suc i)
   | None \<Rightarrow> if starts_with marker (c # s) then Some 0 else None)"

definition hex_digit_value :: "char \<Rightarrow> nat" where
  "hex_digit_value c = (if is_digit c then digit_value c else code_unit (lower_char c) - 87)"

definition radix_number :: "nat \<Rightarrow> (char \<Rightarrow> bool) \<Rightarrow> string \<Rightarrow> rat option" where
  "radix_number base ok ds = (if ds = [] \<or> \<not> list_all ok ds then None
     else Some (of_nat (foldl (\<lambda>v c. base * v + hex_digit_value c) 0 ds)))"

definition exponent_of :: "string \<Rightarrow> int option" where
  "exponent_of s =
     (let (sign, ds) = (case s of [] \<Rightarrow> (1, []) | c # r \<Rightarrow> if c = CHR ''-'' then (- 1, r) else if c = CHR ''+'' then (1, r) else (1, s))
      in if ds = [] \<or> \<not> list_all is_digit ds then None else Some (sign * int (dec_value ds)))"

definition decimal_number :: "string \<Rightarrow> rat option" where
  "decimal_number s =
     (let whole = takeWhile is_digit s; r = dropWhile is_digit s;
          (part, r2) = (case r of [] \<Rightarrow> ([], []) | c # t \<Rightarrow>
             if c = CHR ''.'' then (takeWhile is_digit t, dropWhile is_digit t) else ([], r));
          m = of_nat (dec_value whole) + of_nat (dec_value part) / 10 ^ length part
      in if whole = [] \<and> part = [] then None
         else case r2 of
           [] \<Rightarrow> Some m
         | c # t \<Rightarrow> if c \<noteq> CHR ''e'' \<and> c \<noteq> CHR ''E'' then None
             else case exponent_of t of None \<Rightarrow> None
               | Some e \<Rightarrow> Some (if 0 \<le> e then m * 10 ^ nat e else m / 10 ^ nat (- e)))"

definition js_number :: "string \<Rightarrow> rat option" where
  "js_number text =
     (let s = trim text
      in case s of
           [] \<Rightarrow> Some 0
         | c # r \<Rightarrow>
             if c = CHR ''+'' then decimal_number r
             else if c = CHR ''-'' then map_option uminus (decimal_number r)
             else if starts_with ''0x'' (lower s) then radix_number 16 (\<lambda>c. is_digit c \<or> lower_char c \<in> set ''abcdef'') (drop 2 s)
             else if starts_with ''0o'' (lower s) then radix_number 8 (\<lambda>c. c \<in> set ''01234567'') (drop 2 s)
             else if starts_with ''0b'' (lower s) then radix_number 2 (\<lambda>c. c \<in> set ''01'') (drop 2 s)
             else decimal_number s)"

definition parseResumeCursor :: "json \<Rightarrow> string \<Rightarrow> nat checked" where
  "parseResumeCursor cursor campaignId = (case cursor of
     JStr s \<Rightarrow>
       if s = [] \<or> 512 < length s then corrupt ''resumeCursor must be a non-empty string''
       else (case last_pivot '':turn:'' s of
           None \<Rightarrow> corrupt ''resumeCursor has no turn marker''
         | Some pivot \<Rightarrow>
             if pivot = 0 then corrupt ''resumeCursor has no turn marker''
             else if take pivot s \<noteq> campaignId then Inl (checkpoint_error ''CAMPAIGN_MISMATCH'' ''checkpoint belongs to another campaign'')
             else case js_number (drop (pivot + length '':turn:'') s) of
               None \<Rightarrow> corrupt ''resumeCursor turn counter is not a valid integer''
             | Some q \<Rightarrow> if q \<noteq> of_int \<lfloor>q\<rfloor> \<or> q < 0 \<or> 1000000 < q then corrupt ''resumeCursor turn counter is not a valid integer''
                 else Inr (nat \<lfloor>q\<rfloor>))
   | _ \<Rightarrow> corrupt ''resumeCursor must be a non-empty string'')"

section \<open>Budgets\<close>

definition V1_POLICY_KEYS :: "string list" where
  "V1_POLICY_KEYS = [''wallTimeMs'', ''reasonerCalls'', ''inputBytes'', ''outputBytes'', ''toolActions'', ''perActionTimeoutMs'',
     ''candidateCap'', ''retries'', ''consecutiveFailures'', ''providerFailures'']"

definition V1_USAGE_KEYS :: "string list" where
  "V1_USAGE_KEYS = [''wallTimeMs'', ''reasonerCalls'', ''inputBytes'', ''outputBytes'', ''toolActions'', ''candidateCount'', ''retries'',
     ''consecutiveFailures'', ''providerFailures'']"

definition POLICY_KEYS :: "string list" where
  "POLICY_KEYS = [''wallTimeMs'', ''reasonerCalls'', ''inputBytes'', ''outputBytes'', ''toolPayloadBytes'', ''toolActions'',
     ''perActionTimeoutMs'', ''candidateCap'', ''failures'', ''consecutiveFailures'', ''providerFailures'']"

definition USAGE_KEYS :: "string list" where
  "USAGE_KEYS = [''wallTimeMs'', ''reasonerCalls'', ''inputBytes'', ''outputBytes'', ''toolPayloadBytes'', ''toolActions'',
     ''candidateCount'', ''failures'', ''consecutiveFailures'', ''providerFailures'']"

type_synonym json_fields = "(string \<times> json) list"

definition normalizeBudgetFailureField :: "json_fields \<Rightarrow> json_fields" where
  "normalizeBudgetFailureField fs = (case map_of fs ''retries'' of
     None \<Rightarrow> fs
   | Some legacy \<Rightarrow>
       let rest = filter (\<lambda>(k, v). k \<noteq> ''retries'') fs
       in if isFiniteNumber (map_of rest ''failures'') then rest
          else if isFiniteNumber (Some legacy) then map_set rest ''failures'' legacy else rest)"

text \<open>A version 1 record may name the failure dimension either way: \<open>retries ?? failures\<close>.\<close>

definition v1_field :: "json_fields \<Rightarrow> string \<Rightarrow> json option" where
  "v1_field fs key =
     (if key = ''retries'' then (case map_of fs ''retries'' of None \<Rightarrow> map_of fs ''failures'' | Some JNull \<Rightarrow> map_of fs ''failures'' | v \<Rightarrow> v)
      else map_of fs key)"

fun ceiling_named :: "string \<Rightarrow> ceiling_name option" where
  "ceiling_named t = find (\<lambda>c. ceiling_text c = t) [HOUR_1, HOUR_4, HOUR_8, OVERNIGHT]"

definition check_numbers :: "string \<Rightarrow> (string \<Rightarrow> json option) \<Rightarrow> string list \<Rightarrow> unit checked" where
  "check_numbers place look keys = all_ok (\<lambda>key. require (isFiniteNumber (look key)) (place @ key @ '' is invalid'')) keys"

definition budget_document :: "json_fields \<Rightarrow> json_fields \<Rightarrow> json" where
  "budget_document policy usage = JObj [(''policy'', JObj policy), (''usage'', JObj usage)]"

definition parse_budget_v1 :: "string \<Rightarrow> json_fields \<Rightarrow> json_fields \<Rightarrow> json checked" where
  "parse_budget_v1 place policy usage =
     bind_res (check_numbers (place @ ''.budget.policy.'') (v1_field policy) V1_POLICY_KEYS) (\<lambda>_.
     case map_of policy ''ceilingName'' of
       Some (JStr name) \<Rightarrow>
         (case ceiling_named name of
            None \<Rightarrow> corrupt (place @ ''.budget.policy.ceilingName is not a known tier'')
          | Some tier \<Rightarrow>
              bind_res (check_numbers (place @ ''.budget.usage.'') (v1_field usage) V1_USAGE_KEYS) (\<lambda>_.
              let defaults = defaultAgentBudgetPolicy tier;
                  legacyPolicy = normalizeBudgetFailureField policy; legacyUsage = normalizeBudgetFailureField usage;
                  mixed = (case map_of legacyUsage ''outputBytes'' of None \<Rightarrow> JNull | Some v \<Rightarrow> v)
              in Inr (budget_document
                   (map_set (map_set (map_set legacyPolicy ''schemaVersion'' (JStr ''nightwatch.agent-budget.v2''))
                      ''outputBytes'' (limit_json (bp_outputBytes defaults))) ''toolPayloadBytes'' (limit_json (bp_toolPayloadBytes defaults)))
                   (map_set (map_set legacyUsage ''outputBytes'' (JNum 0)) ''toolPayloadBytes'' mixed))))
     | _ \<Rightarrow> corrupt (place @ ''.budget.policy.ceilingName is invalid''))"

definition parse_budget_v2 :: "string \<Rightarrow> json_fields \<Rightarrow> json_fields \<Rightarrow> json checked" where
  "parse_budget_v2 place policy usage =
     (let p = normalizeBudgetFailureField policy; u = normalizeBudgetFailureField usage
      in bind_res (check_numbers (place @ ''.budget.policy.'') (map_of p) POLICY_KEYS) (\<lambda>_.
         bind_res (require (is_text (map_of p ''ceilingName'')) (place @ ''.budget.policy.ceilingName is invalid'')) (\<lambda>_.
         bind_res (check_numbers (place @ ''.budget.usage.'') (map_of u) USAGE_KEYS) (\<lambda>_.
           Inr (budget_document p u)))))"

definition budget_pair :: "json option \<Rightarrow> (json_fields \<times> json_fields) option" where
  "budget_pair v = (case v of
     Some (JObj fs) \<Rightarrow> (case (map_of fs ''policy'', map_of fs ''usage'') of (Some (JObj p), Some (JObj u)) \<Rightarrow> Some (p, u) | _ \<Rightarrow> None)
   | _ \<Rightarrow> None)"

definition parseBudgetSnapshot :: "json option \<Rightarrow> string \<Rightarrow> json checked" where
  "parseBudgetSnapshot v place = (case budget_pair v of
     None \<Rightarrow> corrupt (place @ ''.budget is not a policy/usage pair'')
   | Some (policy, usage) \<Rightarrow>
       if map_of policy ''schemaVersion'' = Some (JStr ''nightwatch.agent-budget.v1'') then parse_budget_v1 place policy usage
       else if map_of policy ''schemaVersion'' \<noteq> Some (JStr ''nightwatch.agent-budget.v2'')
         then unsupportedVersion (place @ ''.budget.policy'') (map_of policy ''schemaVersion'')
       else parse_budget_v2 place policy usage)"

section \<open>Byte ledgers\<close>

definition AGENT_BYTE_LEDGER_COUNT_KEYS :: "string list" where
  "AGENT_BYTE_LEDGER_COUNT_KEYS = [''legacyInputBytes'', ''legacyOutputBytes'', ''legacyToolPayloadBytes'', ''renderedInputBytes'',
     ''requestMemoryBytes'', ''requestUntrustedBytes'', ''providerResponseBytes'', ''providerStderrBytes'', ''reasonerOutputBytes'',
     ''toolResultBytes'', ''toolEnvelopeBytes'', ''checkpointBytes'']"

definition ledger_document_ok :: "string list \<Rightarrow> json option \<Rightarrow> bool" where
  "ledger_document_ok keys v = (case v of
     Some (JObj fs) \<Rightarrow> map_of fs ''schemaVersion'' = Some (JStr ''nightwatch.agent-byte-ledger.v1'')
       \<and> list_all (\<lambda>key. is_safe_count (map_of fs key)) keys
   | _ \<Rightarrow> False)"

definition isAgentByteLedger :: "json option \<Rightarrow> bool" where
  "isAgentByteLedger v = ledger_document_ok AGENT_BYTE_LEDGER_COUNT_KEYS v"

definition isV1ByteLedger :: "json option \<Rightarrow> bool" where
  "isV1ByteLedger v = ledger_document_ok (filter (\<lambda>key. key \<noteq> ''legacyToolPayloadBytes'') AGENT_BYTE_LEDGER_COUNT_KEYS) v"

definition count_of :: "json option \<Rightarrow> string \<Rightarrow> nat" where
  "count_of v key = (case v of
     Some (JObj fs) \<Rightarrow> (case map_of fs key of Some (JNum q) \<Rightarrow> nat \<lfloor>q\<rfloor> | _ \<Rightarrow> 0)
   | _ \<Rightarrow> 0)"

text \<open>The ledger a checked document denotes.\<close>

definition ledger_of_document :: "json option \<Rightarrow> byte_ledger" where
  "ledger_of_document v = \<lparr>by_legacyInputBytes = count_of v ''legacyInputBytes'', by_legacyOutputBytes = count_of v ''legacyOutputBytes'',
     by_legacyToolPayloadBytes = count_of v ''legacyToolPayloadBytes'', by_renderedInputBytes = count_of v ''renderedInputBytes'',
     by_requestMemoryBytes = count_of v ''requestMemoryBytes'', by_requestUntrustedBytes = count_of v ''requestUntrustedBytes'',
     by_providerResponseBytes = count_of v ''providerResponseBytes'', by_providerStderrBytes = count_of v ''providerStderrBytes'',
     by_reasonerOutputBytes = count_of v ''reasonerOutputBytes'', by_toolResultBytes = count_of v ''toolResultBytes'',
     by_toolEnvelopeBytes = count_of v ''toolEnvelopeBytes'', by_checkpointBytes = count_of v ''checkpointBytes''\<rparr>"

definition usage_field :: "json \<Rightarrow> string \<Rightarrow> json option" where
  "usage_field budget key = (case budget_pair (Some budget) of None \<Rightarrow> None | Some (p, u) \<Rightarrow> map_of u key)"

definition check_ledger_v1 :: "json option \<Rightarrow> json option \<Rightarrow> unit checked" where
  "check_ledger_v1 ledger budgetValue =
     bind_res (require (isV1ByteLedger ledger) ''state.byteLedger is invalid'') (\<lambda>_.
     bind_res (parseBudgetSnapshot budgetValue ''state'') (\<lambda>budget.
     let l = ledger_of_document ledger
     in bind_res (require (usage_field budget ''inputBytes'' = Some (count_json (chargedInputBytes l)))
          ''state.byteLedger charged input does not reconcile with budget usage'') (\<lambda>_.
        require (usage_field budget ''toolPayloadBytes'' = Some (count_json (chargedOutputBytes l + by_toolResultBytes l)))
          ''state.byteLedger charged output does not reconcile with budget usage'')))"

definition check_ledger_v2 :: "json option \<Rightarrow> json option \<Rightarrow> unit checked" where
  "check_ledger_v2 ledger budgetValue =
     bind_res (require (isAgentByteLedger ledger) ''state.byteLedger is invalid'') (\<lambda>_.
     bind_res (parseBudgetSnapshot budgetValue ''state'') (\<lambda>budget.
     let l = ledger_of_document ledger
     in bind_res (require (usage_field budget ''inputBytes'' = Some (count_json (chargedInputBytes l)))
          ''state.byteLedger charged input does not reconcile with budget usage'') (\<lambda>_.
        bind_res (require (usage_field budget ''outputBytes'' = Some (count_json (chargedOutputBytes l)))
          ''state.byteLedger charged output does not reconcile with budget usage'') (\<lambda>_.
        require (usage_field budget ''toolPayloadBytes'' = Some (count_json (chargedToolPayloadBytes l)))
          ''state.byteLedger charged tool payload does not reconcile with budget usage''))))"

section \<open>States\<close>

definition check_hypothesis :: "json \<Rightarrow> unit checked" where
  "check_hypothesis item = require (case item of
       JObj fs \<Rightarrow> is_text (map_of fs ''hypothesisId'') \<and> is_text (map_of fs ''statement'')
         \<and> (case map_of fs ''evidenceRefs'' of Some (JArr xs) \<Rightarrow> True | _ \<Rightarrow> False)
     | _ \<Rightarrow> False) ''state.hypotheses entry is invalid''"

definition is_disposition :: "json option \<Rightarrow> bool" where
  "is_disposition v = (case v of Some (JStr d) \<Rightarrow> isActionFailureDisposition d | _ \<Rightarrow> False)"

definition check_action :: "json \<Rightarrow> unit checked" where
  "check_action item = (case item of
     JObj fs \<Rightarrow>
       if \<not> (is_text (map_of fs ''turnId'') \<and> isPhase (map_of fs ''phase'') \<and> is_text (map_of fs ''intentKind'')
            \<and> is_text_or_null (map_of fs ''toolId'') \<and> is_text_or_null (map_of fs ''argumentDigest'')
            \<and> is_text (map_of fs ''resultClass'') \<and> isStringArray (map_of fs ''evidenceRefs''))
       then corrupt ''state.actionLog entry is invalid''
       else if map_of fs ''target'' \<noteq> None \<and> \<not> is_text_or_null (map_of fs ''target'') then corrupt ''state.actionLog entry target is invalid''
       else if map_of fs ''salient'' \<noteq> None \<and> \<not> isStringArray (map_of fs ''salient'') then corrupt ''state.actionLog entry salient is invalid''
       else if map_of fs ''disposition'' \<noteq> None \<and> map_of fs ''disposition'' \<noteq> Some JNull \<and> \<not> is_disposition (map_of fs ''disposition'')
         then corrupt ''state.actionLog entry disposition is invalid''
       else Inr ()
   | _ \<Rightarrow> corrupt ''state.actionLog entry is invalid'')"

definition check_each :: "json option \<Rightarrow> (json \<Rightarrow> unit checked) \<Rightarrow> string \<Rightarrow> unit checked" where
  "check_each v check detail = (case v of Some (JArr items) \<Rightarrow> all_ok check items | _ \<Rightarrow> corrupt detail)"

definition check_surface :: "json option \<Rightarrow> unit checked" where
  "check_surface v = (case v of
     None \<Rightarrow> Inr ()
   | Some (JArr items) \<Rightarrow>
       let facts = normalizeToolMemoryFacts (Some (JObj [(''reproductionSurface'', JArr items)]));
           accepted = (case facts of None \<Rightarrow> [] | Some f \<Rightarrow> (case mf_reproductionSurface f of None \<Rightarrow> [] | Some es \<Rightarrow> es))
       in require (length accepted = length items) ''state.reproductionSurface entry is invalid''
   | _ \<Rightarrow> corrupt ''state.reproductionSurface is invalid'')"

definition budget_is_v1 :: "json option \<Rightarrow> bool" where
  "budget_is_v1 v = (case v of
     Some (JObj fs) \<Rightarrow> (case map_of fs ''policy'' of
         Some (JObj p) \<Rightarrow> map_of p ''schemaVersion'' = Some (JStr ''nightwatch.agent-budget.v1'') | _ \<Rightarrow> False)
   | _ \<Rightarrow> False)"

definition check_ledger :: "json_fields \<Rightarrow> unit checked" where
  "check_ledger fs =
     (let ledger = map_of fs ''byteLedger''
      in if ledger = None \<or> ledger = Some JNull then Inr ()
         else if budget_is_v1 (map_of fs ''budget'') then check_ledger_v1 ledger (map_of fs ''budget'')
         else check_ledger_v2 ledger (map_of fs ''budget''))"

definition check_head :: "json_fields \<Rightarrow> unit checked" where
  "check_head fs =
     bind_res (require (is_filled_text (map_of fs ''campaignId'')) ''state.campaignId is invalid'') (\<lambda>_.
     bind_res (require (isStatus (map_of fs ''status'')) ''state.status is invalid'') (\<lambda>_.
     bind_res (require (isPhase (map_of fs ''phase'')) ''state.phase is invalid'') (\<lambda>_.
     bind_res (check_each (map_of fs ''hypotheses'') check_hypothesis ''state.hypotheses is invalid'') (\<lambda>_.
     bind_res (check_each (map_of fs ''actionLog'') check_action ''state.actionLog is invalid'') (\<lambda>_.
     bind_res (require (map_of fs ''knownTargets'' = None \<or> isStringArray (map_of fs ''knownTargets'')) ''state.knownTargets is invalid'') (\<lambda>_.
     check_surface (map_of fs ''reproductionSurface'')))))))"

definition check_tail :: "json_fields \<Rightarrow> unit checked" where
  "check_tail fs =
     bind_res (require (isStringArray (map_of fs ''evidenceRefs'')) ''state.evidenceRefs is invalid'') (\<lambda>_.
     bind_res (require (isStringArray (map_of fs ''candidateIds'')) ''state.candidateIds is invalid'') (\<lambda>_.
     require (is_text_or_null (map_of fs ''terminationReason'')) ''state.terminationReason is invalid''))"

definition legacy_ledger_document :: "json \<Rightarrow> json \<Rightarrow> json \<Rightarrow> json" where
  "legacy_ledger_document inputBytes outputBytes toolPayloadBytes = (case ledger_json ZERO_AGENT_BYTE_LEDGER of
     JObj fs \<Rightarrow> JObj (map_set (map_set (map_set fs ''legacyInputBytes'' inputBytes) ''legacyOutputBytes'' outputBytes)
       ''legacyToolPayloadBytes'' toolPayloadBytes)
   | v \<Rightarrow> v)"

definition usage_value :: "json \<Rightarrow> string \<Rightarrow> json" where
  "usage_value budget key = (case usage_field budget key of None \<Rightarrow> JNull | Some v \<Rightarrow> v)"

definition parseRuntimeState :: "json option \<Rightarrow> json_fields checked" where
  "parseRuntimeState v = (case v of
     Some (JObj fs) \<Rightarrow>
       if map_of fs ''schemaVersion'' \<noteq> Some (JStr ''nightwatch.agent-runtime-state.v1'') then unsupportedVersion ''state'' (map_of fs ''schemaVersion'')
       else bind_res (check_head fs) (\<lambda>_. bind_res (check_ledger fs) (\<lambda>_. bind_res (check_tail fs) (\<lambda>_.
            bind_res (parseBudgetSnapshot (map_of fs ''budget'') ''state'') (\<lambda>budget.
              let migrated = map_set fs ''budget'' budget
              in Inr (if \<not> budget_is_v1 (map_of fs ''budget'') then migrated
                   else map_set migrated ''byteLedger'' (legacy_ledger_document (usage_value budget ''inputBytes'')
                          (usage_value budget ''outputBytes'') (usage_value budget ''toolPayloadBytes'')))))))
   | _ \<Rightarrow> corrupt ''state is not an object'')"

section \<open>Checkpoints\<close>

definition checkpoint_document :: "json \<Rightarrow> json \<Rightarrow> json \<Rightarrow> json" where
  "checkpoint_document campaignId state resumeCursor = JObj [(''schemaVersion'', JStr ''nightwatch.agent-checkpoint.v1''),
     (''campaignId'', campaignId), (''state'', state), (''resumeCursor'', resumeCursor)]"

definition parse_checkpoint_fields :: "(rat \<Rightarrow> string) \<Rightarrow> json_fields \<Rightarrow> json checked" where
  "parse_checkpoint_fields num fs =
     (if map_of fs ''schemaVersion'' \<noteq> Some (JStr ''nightwatch.agent-checkpoint.v1'')
      then unsupportedVersion ''checkpoint'' (map_of fs ''schemaVersion'')
      else case (map_of fs ''campaignId'', map_of fs ''resumeCursor'') of
        (Some (JStr (c # i)), Some (JStr (d # r))) \<Rightarrow>
          bind_res (parseRuntimeState (map_of fs ''state'')) (\<lambda>state.
            if map_of state ''campaignId'' \<noteq> Some (JStr (c # i))
            then Inl (checkpoint_error ''CAMPAIGN_MISMATCH'' ''checkpoint state belongs to another campaign'')
            else if \<not> contains '':turn:'' (d # r) then corrupt ''checkpoint resumeCursor is malformed''
            else let doc = checkpoint_document (JStr (c # i)) (JObj state) (JStr (d # r))
                 in bind_res (assertCheckpointHasNoSecrets (json_stringify num doc)) (\<lambda>_. Inr doc))
      | (Some (JStr (c # i)), _) \<Rightarrow> corrupt ''checkpoint resumeCursor is invalid''
      | _ \<Rightarrow> corrupt ''checkpoint campaignId is invalid'')"

definition parseCheckpoint :: "(rat \<Rightarrow> string) \<Rightarrow> json \<Rightarrow> json checked" where
  "parseCheckpoint num v = (case v of JObj fs \<Rightarrow> parse_checkpoint_fields num fs | _ \<Rightarrow> corrupt ''checkpoint is not an object'')"

text \<open>\<open>resumeFromCheckpoint\<close> up to the constructor: the state document and the turns it is given.\<close>

definition resume_document :: "(rat \<Rightarrow> string) \<Rightarrow> string \<Rightarrow> json \<Rightarrow> (json \<times> nat) checked" where
  "resume_document num campaignId v =
     bind_res (parseCheckpoint num v) (\<lambda>doc.
       case (json_field doc ''campaignId'', json_field doc ''state'', json_field doc ''resumeCursor'') of
         (Some owner, Some state, Some cursor) \<Rightarrow>
           if owner \<noteq> JStr campaignId then Inl (checkpoint_error ''CAMPAIGN_MISMATCH'' ''checkpoint belongs to another campaign'')
           else bind_res (parseResumeCursor cursor campaignId) (\<lambda>turns. Inr (state, turns))
       | _ \<Rightarrow> corrupt ''checkpoint is not an object'')"

end
