(* ===== verification/Agent_Checkpoint_Roundtrip.thy ===== *)
theory Agent_Checkpoint_Roundtrip imports Agent_Checkpoint_Codec begin

text \<open>
  What the agent writes, its parser accepts unchanged: the documents of the states a run can reach,
  their surface entries, log entries, budget and byte ledger, and the resume cursor.
\<close>

section \<open>Surface entries\<close>

definition canonical_entry :: "surface_entry \<Rightarrow> bool" where
  "canonical_entry e = (surface_entry_of (surface_json e) = Some e)"

lemma surface_entry_canonical:
  assumes "surface_entry_of item = Some e"
  shows "canonical_entry e"
proof -
  from assms obtain props path readiness refusal executorClass targetId where item: "item = JObj props"
    and path: "boundedMemoryString (map_of props ''sourcePath'') TOOL_MEMORY_targetChars = Some path"
    and refusal: "nullable_member SURFACE_REFUSAL_CLASSES (map_of props ''refusal'') = Some refusal"
    and executorClass: "nullable_member OWNER_LOCAL_EXECUTOR_KINDS (map_of props ''executorClass'') = Some executorClass"
    and targetId: "nullable_target (map_of props ''targetId'') = Some targetId"
    and ok: "readiness \<in> set SURFACE_READINESS_CLASSES \<and> surface_tuple_ok readiness executorClass refusal targetId"
    and e: "e = \<lparr>sf_sourcePath = path, sf_readiness = readiness, sf_executorClass = executorClass, sf_refusal = refusal, sf_targetId = targetId\<rparr>"
    by (auto simp: surface_entry_of_def split: json.split_asm option.split_asm if_split_asm prod.split_asm)
  have "boundedMemoryString (Some (JStr path)) TOOL_MEMORY_targetChars = Some path"
    using path by (auto simp: boundedMemoryString_def split: option.splits json.splits if_splits)
  moreover have "nullable_member vs v = Some r \<Longrightarrow> nullable_member vs (Some (nullable_json r)) = Some r" for vs v r
    by (auto simp: nullable_member_def nullable_json_def split: option.splits json.splits if_splits)
  moreover have "nullable_target (Some (nullable_json targetId)) = Some targetId"
    using targetId by (auto simp: nullable_target_def nullable_json_def split: option.splits json.splits)
  ultimately show ?thesis using ok refusal executorClass
    by (simp add: canonical_entry_def e surface_entry_of_def surface_json_def)
qed

lemma surface_fold_canonical:
  assumes "list_all surface_ok out"
  shows "list_all canonical_entry out \<Longrightarrow> list_all canonical_entry (foldl surface_step out items)"
  by (induction items arbitrary: out) (auto simp: surface_step_def surface_entry_canonical split: option.split)

lemma normalized_canonical: "normalizeSurfaceEntries v = Some es \<Longrightarrow> list_all canonical_entry es"
  using surface_fold_canonical [of "[]"] by (auto simp: normalizeSurfaceEntries_def Let_def split: option.splits json.splits if_splits)

lemma surface_fold_back:
  assumes "list_all canonical_entry es" "distinct (map sf_sourcePath (out @ es))" "length (out @ es) \<le> TOOL_MEMORY_reproductionSurface"
  shows "foldl surface_step out (map surface_json es) = out @ es"
  using assms
proof (induction es arbitrary: out)
  case (Cons e es)
  then have "surface_step out (surface_json e) = out @ [e]" by (auto simp: surface_step_def canonical_entry_def)
  then show ?case using Cons by simp
qed simp

section \<open>Documents\<close>

lemma text_simps [simp]: "is_text (Some (JStr s))" "is_text_or_null (Some (JStr s))" "is_text_or_null (Some JNull)"
  "is_text_or_null (Some (nullable_json v))" "isStringArray (Some (texts_json xs))" "isFiniteNumber (Some (count_json n))"
  "isFiniteNumber (Some (limit_json z)) \<longleftrightarrow> 0 \<le> z"
  by (auto simp: is_text_def is_text_or_null_def nullable_json_def isStringArray_def texts_json_def list_all_iff isFiniteNumber_def
      count_json_def limit_json_def split: option.split)

lemma phase_simps [simp]: "isPhase (Some (JStr (phase_text p)))" "isStatus (Some (JStr (status_text s)))"
  by (cases p; simp add: isPhase_def AGENT_PHASES_def) (cases s; simp add: isStatus_def AGENT_RUNTIME_STATUSES_def)

lemma check_hypothesis_json: "check_hypothesis (hypothesis_json h) = Inr ()"
  by (simp add: check_hypothesis_def hypothesis_json_def require_def texts_json_def)

definition entry_savable :: "action_record \<Rightarrow> bool" where
  "entry_savable r = (case cr_disposition r of None \<Rightarrow> True | Some d \<Rightarrow> isActionFailureDisposition d)"

lemma check_action_json: "entry_savable r \<Longrightarrow> check_action (action_record_json r) = Inr ()"
  by (cases "cr_salient r"; cases "cr_disposition r")
    (simp_all add: check_action_def action_record_json_def entry_savable_def is_disposition_def)

lemma budget_roundtrip:
  assumes "0 \<le> bu_wallTimeMs u" "list_all (\<lambda>limit. 0 \<le> limit) [bp_wallTimeMs p, bp_reasonerCalls p, bp_inputBytes p, bp_outputBytes p,
      bp_toolPayloadBytes p, bp_toolActions p, bp_perActionTimeoutMs p, bp_candidateCap p, bp_failures p, bp_consecutiveFailures p, bp_providerFailures p]"
  shows "parseBudgetSnapshot (Some (JObj [(''policy'', policy_json p), (''usage'', usage_json u)])) place
    = Inr (JObj [(''policy'', policy_json p), (''usage'', usage_json u)])"
  using assms
  by (simp add: parseBudgetSnapshot_def budget_pair_def policy_json_def usage_json_def parse_budget_v2_def normalizeBudgetFailureField_def
      check_numbers_def POLICY_KEYS_def USAGE_KEYS_def require_def budget_document_def Let_def)

lemma safe_count [simp]: "is_safe_count (Some (count_json n)) \<longleftrightarrow> int n \<le> max_safe_integer"
  by (simp add: is_safe_count_def count_json_def)

lemma ledger_json_ok: "ledger_safe l \<Longrightarrow> isAgentByteLedger (Some (ledger_json l))"
  by (simp add: isAgentByteLedger_def ledger_document_ok_def ledger_json_def AGENT_BYTE_LEDGER_COUNT_KEYS_def ledger_safe_def)

lemma count_of_json: "map_of fs k = Some (count_json n) \<Longrightarrow> count_of (Some (JObj fs)) k = n"
  by (simp add: count_of_def count_json_def)

lemma ledger_of_json: "ledger_of_document (Some (ledger_json l)) = l"
  by (cases l) (simp add: ledger_of_document_def ledger_json_def count_of_json)

section \<open>States\<close>

text \<open>A state whose document the parser takes: the numbers are numbers of bytes, and everything else is
  what a run keeps anyway.\<close>

definition state_savable :: "agent_snapshot \<Rightarrow> bool" where
  "state_savable s = (sn_campaignId s \<noteq> [] \<and> list_all entry_savable (sn_actionLog s)
     \<and> list_all canonical_entry (sn_reproductionSurface s) \<and> distinct (map sf_sourcePath (sn_reproductionSurface s))
     \<and> length (sn_reproductionSurface s) \<le> TOOL_MEMORY_reproductionSurface
     \<and> 0 \<le> bu_wallTimeMs (sn_usage s)
     \<and> list_all (\<lambda>limit. 0 \<le> limit) [bp_wallTimeMs (sn_policy s), bp_reasonerCalls (sn_policy s), bp_inputBytes (sn_policy s),
         bp_outputBytes (sn_policy s), bp_toolPayloadBytes (sn_policy s), bp_toolActions (sn_policy s), bp_perActionTimeoutMs (sn_policy s),
         bp_candidateCap (sn_policy s), bp_failures (sn_policy s), bp_consecutiveFailures (sn_policy s), bp_providerFailures (sn_policy s)]
     \<and> (case sn_byteLedger s of None \<Rightarrow> True | Some l \<Rightarrow> ledger_safe l \<and> bu_inputBytes (sn_usage s) = chargedInputBytes l
         \<and> bu_outputBytes (sn_usage s) = chargedOutputBytes l \<and> bu_toolPayloadBytes (sn_usage s) = chargedToolPayloadBytes l))"

definition budget_json :: "agent_snapshot \<Rightarrow> json" where
  "budget_json s = JObj [(''policy'', policy_json (sn_policy s)), (''usage'', usage_json (sn_usage s))]"

definition snapshot_fields :: "agent_snapshot \<Rightarrow> json_fields" where
  "snapshot_fields s = (case snapshot_json s of JObj fs \<Rightarrow> fs | _ \<Rightarrow> [])"

lemma snapshot_fields_json: "snapshot_json s = JObj (snapshot_fields s)"
  by (simp add: snapshot_fields_def snapshot_json_def)

lemma snapshot_lookup:
  "map_of (snapshot_fields s) ''schemaVersion'' = Some (JStr ''nightwatch.agent-runtime-state.v1'')"
  "map_of (snapshot_fields s) ''campaignId'' = Some (JStr (sn_campaignId s))"
  "map_of (snapshot_fields s) ''status'' = Some (JStr (status_text (sn_status s)))"
  "map_of (snapshot_fields s) ''phase'' = Some (JStr (phase_text (sn_phase s)))"
  "map_of (snapshot_fields s) ''hypotheses'' = Some (JArr (map hypothesis_json (sn_hypotheses s)))"
  "map_of (snapshot_fields s) ''actionLog'' = Some (JArr (map action_record_json (sn_actionLog s)))"
  "map_of (snapshot_fields s) ''evidenceRefs'' = Some (texts_json (sn_evidenceRefs s))"
  "map_of (snapshot_fields s) ''candidateIds'' = Some (texts_json (sn_candidateIds s))"
  "map_of (snapshot_fields s) ''knownTargets'' = Some (texts_json (sn_knownTargets s))"
  "map_of (snapshot_fields s) ''reproductionSurface''
     = (if sn_reproductionSurface s = [] then None else Some (JArr (map surface_json (sn_reproductionSurface s))))"
  "map_of (snapshot_fields s) ''byteLedger'' = map_option ledger_json (sn_byteLedger s)"
  "map_of (snapshot_fields s) ''budget'' = Some (budget_json s)"
  "map_of (snapshot_fields s) ''terminationReason'' = Some (nullable_json (map_option termination_text (sn_terminationReason s)))"
  by (simp_all add: snapshot_fields_def snapshot_json_def map_add_def budget_json_def split: option.split)

lemma surface_accepted:
  assumes "list_all canonical_entry es" "distinct (map sf_sourcePath es)" "length es \<le> TOOL_MEMORY_reproductionSurface"
  shows "check_surface (Some (JArr (map surface_json es))) = Inr ()"
proof -
  have "normalizeSurfaceEntries (Some (JArr (map surface_json es))) = (if es = [] then None else Some es)"
    using surface_fold_back [of es "[]"] assms by (simp add: normalizeSurfaceEntries_def)
  then show ?thesis
    by (auto simp: check_surface_def normalizeToolMemoryFacts_def require_def boundedMemoryString_def boundedMemoryList_def Let_def)
qed

lemma budget_of_state: "state_savable s \<Longrightarrow> parseBudgetSnapshot (Some (budget_json s)) ''state'' = Inr (budget_json s)"
  using budget_roundtrip [of "sn_usage s" "sn_policy s" "''state''"] by (simp add: state_savable_def budget_json_def)

lemma not_v1: "\<not> budget_is_v1 (Some (budget_json s))"
  by (simp add: budget_is_v1_def budget_json_def policy_json_def)

lemma usage_of_state:
  "usage_field (budget_json s) ''inputBytes'' = Some (count_json (bu_inputBytes (sn_usage s)))"
  "usage_field (budget_json s) ''outputBytes'' = Some (count_json (bu_outputBytes (sn_usage s)))"
  "usage_field (budget_json s) ''toolPayloadBytes'' = Some (count_json (bu_toolPayloadBytes (sn_usage s)))"
  by (simp_all add: usage_field_def budget_pair_def budget_json_def usage_json_def policy_json_def)

lemma ledger_accepted:
  assumes "state_savable s"
  shows "check_ledger (snapshot_fields s) = Inr ()"
proof (cases "sn_byteLedger s")
  case (Some l)
  have "ledger_json l \<noteq> JNull" by (simp add: ledger_json_def)
  then show ?thesis using assms Some budget_of_state [OF assms]
    by (simp add: check_ledger_def snapshot_lookup not_v1 check_ledger_v2_def ledger_json_ok ledger_of_json usage_of_state require_def
        state_savable_def Let_def)
qed (simp add: check_ledger_def snapshot_lookup)

lemma head_accepted: "state_savable s \<Longrightarrow> check_head (snapshot_fields s) = Inr ()"
  using surface_accepted [of "sn_reproductionSurface s"]
  by (auto simp: check_head_def snapshot_lookup require_def is_filled_text_def check_each_def check_hypothesis_json check_action_json
      state_savable_def list_all_iff check_surface_def [of None] neq_Nil_conv split: list.split)

lemma state_accepted:
  assumes "state_savable s"
  shows "parseRuntimeState (Some (snapshot_json s)) = Inr (snapshot_fields s)"
proof -
  have "map_set (snapshot_fields s) ''budget'' (budget_json s) = snapshot_fields s"
    by (simp add: map_set_def update_triv snapshot_lookup)
  then show ?thesis
    by (simp add: parseRuntimeState_def snapshot_fields_json snapshot_lookup head_accepted assms ledger_accepted check_tail_def require_def
        budget_of_state not_v1 Let_def)
qed

lemma created_screened:
  assumes "createCheckpoint num s turns = Inr c"
  shows "assertCheckpointHasNoSecrets (json_stringify num (checkpoint_json c)) = Inr ()"
  using assms by (auto simp: createCheckpoint_def finalizeCheckpoint_def Let_def split: option.splits)

lemma contains_marker: "contains p (s @ p @ t)"
proof (induction s)
  case Nil
  have "take (length p) (p @ t) = p" by simp
  then show ?case by (cases "p @ t") (auto simp: starts_with_def simp del: append_eq_append_conv2)
qed simp

lemma checkpoint_accepted:
  assumes "createCheckpoint num s turns = Inr c" "state_savable (cp_state c)" "sn_campaignId (cp_state c) = cp_campaignId c"
    "cp_resumeCursor c = resumeCursorFor (cp_campaignId c) turns"
  shows "parseCheckpoint num (checkpoint_json c) = Inr (checkpoint_json c)"
proof -
  obtain i j where i: "cp_campaignId c = i # j" using assms(2,3) by (cases "cp_campaignId c") (auto simp: state_savable_def)
  have cursor: "contains '':turn:'' (cp_resumeCursor c)"
    using contains_marker [of "'':turn:''" "cp_campaignId c" "nat_to_dec turns"] assms(4) by (simp add: resumeCursorFor_def)
  obtain d r where d: "cp_resumeCursor c = d # r" using assms(4) i by (simp add: resumeCursorFor_def)
  let ?doc = "checkpoint_document (JStr (i # j)) (JObj (snapshot_fields (cp_state c))) (JStr (d # r))"
  have doc: "checkpoint_json c = ?doc"
    by (simp add: checkpoint_document_def checkpoint_json_def snapshot_fields_json i d)
  have screened: "assertCheckpointHasNoSecrets (json_stringify num ?doc) = Inr ()"
    using created_screened [OF assms(1)] doc by simp
  have state: "parseRuntimeState (Some (JObj (snapshot_fields (cp_state c)))) = Inr (snapshot_fields (cp_state c))"
    using state_accepted [OF assms(2)] by (simp add: snapshot_fields_json)
  have owner: "map_of (snapshot_fields (cp_state c)) ''campaignId'' = Some (JStr (i # j))"
    using snapshot_lookup(2) [of "cp_state c"] assms(3) i by simp
  have cursor2: "contains '':turn:'' (d # r)" using cursor d by simp
  show ?thesis unfolding doc
    by (subst checkpoint_document_def)
      (simp add: parseCheckpoint_def parse_checkpoint_fields_def state owner cursor2 screened Let_def del: contains.simps json_stringify.simps)
qed

section \<open>The cursor\<close>

lemma last_pivot_after: "last_pivot m t = Some 0 \<Longrightarrow> last_pivot m (p @ t) = Some (length p)"
  by (induction p) simp_all

lemma pivot_of_marker:
  assumes "\<forall>c \<in> set ds. is_digit c"
  shows "last_pivot '':turn:'' ('':turn:'' @ ds) = Some 0"
proof -
  have colon: "CHR '':'' \<notin> set ds" and t: "CHR ''t'' \<notin> set ds" using assms by (auto simp: is_digit_def code_unit_def)
  have none: "CHR '':'' \<notin> set us \<Longrightarrow> last_pivot '':turn:'' us = None" for us
    by (induction us) (auto simp: starts_with_def)
  have "\<not> starts_with '':turn:'' (CHR '':'' # ds)" using t by (cases ds) (auto simp: starts_with_def)
  then show ?thesis using none [OF colon] by (simp add: starts_with_def)
qed

lemma trim_digits: "\<forall>c \<in> set ds. is_digit c \<Longrightarrow> trim ds = ds"
proof -
  have drop: "\<forall>c \<in> set us. is_digit c \<Longrightarrow> dropWhile is_space us = us" for us
    by (cases us) (auto simp: is_digit_def is_space_def)
  assume "\<forall>c \<in> set ds. is_digit c"
  then show ?thesis using drop [of ds] drop [of "rev ds"] by (simp add: trim_def)
qed

lemma js_number_digits: "js_number (nat_to_dec n) = Some (of_nat n)"
proof -
  have ds: "\<forall>c \<in> set (nat_to_dec n). is_digit c" using nat_to_dec_digits by blast
  obtain c r where cr: "nat_to_dec n = c # r" by (cases "nat_to_dec n") auto
  have low: "is_digit d \<Longrightarrow> lower_char d = d" for d by (auto simp: is_digit_def lower_char_def is_upper_letter_def)
  have lower: "lower (nat_to_dec n) = nat_to_dec n" using ds low by (simp add: lower_def map_idI)
  have letters: "starts_with [x, y] (nat_to_dec n) \<Longrightarrow> is_digit y" for x y
    using ds by (cases r) (auto simp: starts_with_def cr)
  have radix: "\<not> starts_with ''0x'' (nat_to_dec n)" "\<not> starts_with ''0o'' (nat_to_dec n)" "\<not> starts_with ''0b'' (nat_to_dec n)"
    using letters [of "CHR ''0''" "CHR ''x''"] letters [of "CHR ''0''" "CHR ''o''"] letters [of "CHR ''0''" "CHR ''b''"]
    by (auto simp: is_digit_def code_unit_def)
  have sign: "c \<noteq> CHR ''+''" "c \<noteq> CHR ''-''" using ds cr by (auto simp: is_digit_def code_unit_def)
  have tw: "takeWhile is_digit (nat_to_dec n) = nat_to_dec n" "dropWhile is_digit (nat_to_dec n) = []"
    using ds by (simp_all add: takeWhile_eq_all_conv dropWhile_eq_Nil_conv)
  have "decimal_number (nat_to_dec n) = Some (of_nat n)" by (simp add: decimal_number_def tw Let_def dec_value_def [of "[]"])
  moreover have "lower (c # r) = c # r" "trim (nat_to_dec n) = c # r" using lower trim_digits [OF ds] by (simp_all only: cr)
  ultimately show ?thesis using radix sign by (simp add: js_number_def cr Let_def)
qed

lemma cursor_roundtrip:
  assumes "campaignId \<noteq> []" "length (resumeCursorFor campaignId turns) \<le> 512" "turns \<le> 1000000"
  shows "parseResumeCursor (JStr (resumeCursorFor campaignId turns)) campaignId = Inr turns"
proof -
  have pivot: "last_pivot '':turn:'' (resumeCursorFor campaignId turns) = Some (length campaignId)"
    unfolding resumeCursorFor_def by (intro last_pivot_after pivot_of_marker) (simp add: nat_to_dec_digits)
  have rest: "drop (length campaignId + length '':turn:'') (resumeCursorFor campaignId turns) = nat_to_dec turns"
    by (simp add: resumeCursorFor_def)
  have owner: "take (length campaignId) (resumeCursorFor campaignId turns) = campaignId" by (simp add: resumeCursorFor_def)
  have "resumeCursorFor campaignId turns \<noteq> []" by (simp add: resumeCursorFor_def)
  then show ?thesis using assms
    by (simp add: parseResumeCursor_def pivot owner rest [simplified] js_number_digits)
qed

section \<open>What a run stores\<close>

definition storable :: "agent \<Rightarrow> bool" where
  "storable a = (list_all entry_savable (ag_actionLog a) \<and> list_all (\<lambda>(k, e). canonical_entry e) (ag_reproductionSurface a))"

lemma learned_surface:
  "ag_reproductionSurface (learn_facts toolId r a) = ag_reproductionSurface a \<or>
   (\<exists>facts es. to_memory r = Some facts \<and> mf_reproductionSurface facts = Some es
      \<and> ag_reproductionSurface (learn_facts toolId r a) = learn_surface es (ag_reproductionSurface a))"
proof (cases "to_memory r")
  case (Some facts)
  have same: "ag_reproductionSurface (case v of None \<Rightarrow> b | Some ts \<Rightarrow> learnTargets ts b) = ag_reproductionSurface b"
    "ag_reproductionSurface (case u of None \<Rightarrow> b | Some t \<Rightarrow> learnTargets [t] b) = ag_reproductionSurface b" for v u b
    by (simp_all split: option.split)
  show ?thesis using Some
    by (cases "mf_reproductionSurface facts") (simp_all add: learn_facts_def Let_def same)
qed (simp add: learn_facts_def)

lemma memory_canonical:
  "to_memory (normalizeToolResult raw) = Some facts \<Longrightarrow> mf_reproductionSurface facts = Some es \<Longrightarrow> list_all canonical_entry es"
  using normalized_canonical
  by (auto simp: normalizeToolResult_def normalizeToolMemoryFacts_def emptyToolResult_def Let_def split: json.splits option.splits if_splits)

lemma learn_surface_canonical:
  "list_all canonical_entry es \<Longrightarrow> list_all (\<lambda>(k, e). canonical_entry e) m \<Longrightarrow> list_all (\<lambda>(k, e). canonical_entry e) (learn_surface es m)"
proof (induction es arbitrary: m)
  case (Cons e es)
  have "list_all (\<lambda>(k, e). canonical_entry e) (map_set m (sf_sourcePath e) e)"
    using Cons.prems set_map_set_subset [of m "sf_sourcePath e" e] by (auto simp: list_all_iff)
  then show ?case using Cons by simp
qed simp

lemma storable_settled: "storable a \<Longrightarrow> storable (settle_tool pf toolId digest turnId raw a)"
proof (rule settle_tool_cases [where P = storable])
  assume a: "storable a"
  let ?r = "normalizeToolResult raw"
  have disposition: "case to_disposition ?r of None \<Rightarrow> True | Some d \<Rightarrow> isActionFailureDisposition d"
    by (auto simp: normalizeToolResult_def emptyToolResult_def normalizeActionFailureDisposition_def split: json.splits option.splits)
  have "list_all (\<lambda>(k, e). canonical_entry e) (ag_reproductionSurface (learn_facts toolId ?r b))"
    if "ag_reproductionSurface b = ag_reproductionSurface a" for b
    using learned_surface [of toolId ?r b] memory_canonical learn_surface_canonical a that by (auto simp: storable_def)
  then show "storable (settled_entry pf toolId digest turnId ?r a)"
    using a disposition by (simp add: storable_def settled_entry_def record_action_def entry_savable_def Let_def)
qed (simp add: storable_def)

interpretation storage: run_law cfg pf "\<lambda>st. storable" for cfg pf
proof (unfold_locales, goal_cases)
  case (18 a toolId digest turnId raw)
  then show ?case by (simp add: storable_settled)
qed (simp_all add: storable_def plain_update_defs plain_record_def tool_record_def entry_savable_def)

section \<open>From a run to its continuation\<close>

definition limits_ok :: "agent_policy \<Rightarrow> bool" where
  "limits_ok p = list_all (\<lambda>limit. 0 \<le> limit) [bp_wallTimeMs p, bp_reasonerCalls p, bp_inputBytes p, bp_outputBytes p,
     bp_toolPayloadBytes p, bp_toolActions p, bp_perActionTimeoutMs p, bp_candidateCap p, bp_failures p, bp_consecutiveFailures p,
     bp_providerFailures p]"

lemma map_set_all_fresh:
  "distinct (map fst m @ map sf_sourcePath es) \<Longrightarrow>
   foldl (\<lambda>m e. map_set m (sf_sourcePath e) e) m es = m @ map (\<lambda>e. (sf_sourcePath e, e)) es"
  by (induction es arbitrary: m) (auto simp: map_set_fresh)

lemma restored_back:
  assumes "agent_wf a" "ledger_safe (ag_byteLedger a)"
  shows "\<exists>b. restored_agent cfg (snapshot cfg a) turns = Inr b
    \<and> snapshot cfg b = (snapshot cfg a)\<lparr>sn_status := READY, sn_terminationReason := None\<rparr>"
proof -
  have own: "list_all (\<lambda>(k, e). k = sf_sourcePath e) (ag_reproductionSurface a)" and dist: "distinct (map fst (ag_reproductionSurface a))"
    using assms(1) by (simp_all add: agent_wf_def surface_map_ok_def)
  then have keys: "map sf_sourcePath (map snd (ag_reproductionSurface a)) = map fst (ag_reproductionSurface a)"
    by (auto simp: list_all_iff)
  have "foldl (\<lambda>m e. map_set m (sf_sourcePath e) e) [] (map snd (ag_reproductionSurface a))
      = map (\<lambda>e. (sf_sourcePath e, e)) (map snd (ag_reproductionSurface a))"
  proof -
    have "distinct (map sf_sourcePath (map snd (ag_reproductionSurface a)))" by (simp only: keys dist)
    then show ?thesis using map_set_all_fresh [of "[]" "map snd (ag_reproductionSurface a)"] by simp
  qed
  then show ?thesis using assms(2) by (simp add: restored_agent_def snapshot_def ledgerOf_def comp_def)
qed

lemma state_savable_of:
  assumes "storable a" "agent_wf a" "bytes_exact a" "ac_campaignId cfg \<noteq> []" "limits_ok (ac_policy cfg)"
    "ledger_safe (ag_byteLedger a)" "0 \<le> bu_wallTimeMs (ag_usage a)"
  shows "state_savable (snapshot cfg a)"
proof -
  have keys: "map (sf_sourcePath \<circ> snd) (ag_reproductionSurface a) = map fst (ag_reproductionSurface a)"
    using assms(2) by (auto simp: agent_wf_def surface_map_ok_def list_all_iff)
  have "distinct (map (sf_sourcePath \<circ> snd) (ag_reproductionSurface a))"
    unfolding keys using assms(2) by (simp add: agent_wf_def surface_map_ok_def)
  then show ?thesis using assms
    by (auto simp: state_savable_def snapshot_def storable_def agent_wf_def surface_map_ok_def bytes_exact_def limits_ok_def list_all_iff)
qed

end
