(* ===== verification/Agent_Checkpoint_Secrets.thy ===== *)
theory Agent_Checkpoint_Secrets imports Agent_Checkpoint_Roundtrip begin

text \<open>
  When the screening of a checkpoint passes: a document is free of secrets when none of its texts
  contains one of the words that every refused form needs. JSON punctuation never completes such a word.
\<close>

section \<open>Words across a separator\<close>

lemma starts_separated:
  assumes "x \<notin> set w"
  shows "starts_with w (s @ x # t) \<longleftrightarrow> starts_with w s"
proof (cases "length w \<le> length s")
  case False
  then obtain k where k: "length w - length s = Suc k" by (cases "length w - length s") auto
  have "x \<in> set (take (length w) (s @ x # t))" by (simp add: k)
  then have "take (length w) (s @ x # t) \<noteq> w" using assms by metis
  moreover have "length (take (length w) s) \<noteq> length w" using False by simp
  then have "take (length w) s \<noteq> w" by (rule contrapos_nn) simp
  ultimately show ?thesis by (simp add: starts_with_def)
qed (simp add: starts_with_def)

lemma contains_separated:
  assumes "x \<notin> set w" "w \<noteq> []"
  shows "contains w (s @ x # t) \<longleftrightarrow> contains w s \<or> contains w t"
proof (induction s)
  case Nil
  have "\<not> starts_with w (x # t)" using assms by (cases w) (auto simp: starts_with_def)
  then show ?case using assms by simp
next
  case (Cons c s)
  then show ?case using starts_separated [OF assms(1), of "c # s" t] by simp
qed

lemma starts_iff: "starts_with w s \<longleftrightarrow> (\<exists>b. s = w @ b)"
proof
  assume "starts_with w s"
  then have "s = w @ drop (length w) s" by (metis append_take_drop_id starts_with_def)
  then show "\<exists>b. s = w @ b" ..
qed (auto simp: starts_with_def)

lemma contains_iff: "contains w s \<longleftrightarrow> (\<exists>a b. s = a @ w @ b)"
proof
  show "contains w s \<Longrightarrow> \<exists>a b. s = a @ w @ b"
  proof (induction s)
    case (Cons c s)
    then consider b where "c # s = [] @ w @ b" | a b where "c # s = (c # a) @ w @ b" by (auto simp: starts_iff)
    then show ?case by cases blast+
  qed simp
qed (auto simp: contains_marker)

lemma contains_part: "contains w t \<Longrightarrow> contains w (a @ t @ b)"
proof -
  assume "contains w t"
  then obtain c d where "t = c @ w @ d" by (auto simp: contains_iff)
  then have "a @ t @ b = (a @ c) @ w @ (d @ b)" by simp
  then show ?thesis using contains_iff by blast
qed

section \<open>Clean texts\<close>

definition SECRET_WORDS :: "string list" where
  "SECRET_WORDS = [''credential'', ''cookie'', ''token'', ''secret'', ''password'', ''apikey'', ''api_key'', ''api-key'', ''auth'',
     ''bearer'', ''eyj'', ''akia'', ''-----begin'']"

definition clean :: "string \<Rightarrow> bool" where
  "clean t = list_all (\<lambda>w. \<not> contains w (lower t)) SECRET_WORDS"

lemma clean_part: "clean (a @ t @ b) \<Longrightarrow> clean t"
  using contains_part by (auto simp: clean_def list_all_iff lower_def)

lemma clean_start: "starts_with p t \<Longrightarrow> lower p \<in> set SECRET_WORDS \<Longrightarrow> \<not> clean t"
proof -
  assume "starts_with p t" "lower p \<in> set SECRET_WORDS"
  then show "\<not> clean t"
    using contains_marker [of "lower p" "[]"] by (fastforce simp: clean_def list_all_iff lower_def starts_iff)
qed

lemma punctuation_clean:
  assumes "x \<in> set ''{}[],:'' \<or> x = CHR 0x22"
  shows "clean (s @ x # t) \<longleftrightarrow> clean s \<and> clean t"
proof -
  have "lower_char x = x" using assms by (auto simp: lower_char_def is_upper_letter_def code_unit_def)
  moreover have "\<forall>w \<in> set SECRET_WORDS. x \<notin> set w \<and> w \<noteq> []" using assms by (auto simp: SECRET_WORDS_def)
  ultimately show ?thesis using contains_separated by (auto simp: clean_def list_all_iff lower_def)
qed

lemma clean_empty: "clean []"
  by (simp add: clean_def SECRET_WORDS_def lower_def)

lemma clean_screened:
  assumes "clean t"
  shows "assertCheckpointHasNoSecrets t = Inr ()"
proof -
  have rest: "clean u" if "u \<in> set (tails t)" for u
    using that clean_part [of _ u "[]"] assms by (auto simp: tails_iff)
  have words: "lower ''Bearer'' \<in> set SECRET_WORDS" "lower ''eyJ'' \<in> set SECRET_WORDS" "lower ''AKIA'' \<in> set SECRET_WORDS"
    "lower ''-----BEGIN'' \<in> set SECRET_WORDS"
    by code_simp+
  have key: "starts_with ''-----BEGIN '' u \<Longrightarrow> starts_with ''-----BEGIN'' u" for u by (auto simp: starts_iff)
  have "\<not> secret_at u" if "clean u" for u
    using clean_start [OF _ words(1)] clean_start [OF _ words(2)] clean_start [OF _ words(3)] clean_start [OF key words(4)] that
    by (auto simp: secret_at_def secret_bearer_at_def secret_jwt_at_def secret_key_at_def)
  then have echo: "\<not> looks_secret t" using rest by (auto simp: looks_secret_def search_def list_ex_iff)
  have "\<not> secret_key_pair_at u" if u: "clean u" for u
  proof (cases u)
    case (Cons c r)
    let ?body = "takeWhile (\<lambda>x. x \<noteq> CHR 0x22 \<and> x \<noteq> CHR 0x5C) r"
    have "clean ([c] @ ?body @ dropWhile (\<lambda>x. x \<noteq> CHR 0x22 \<and> x \<noteq> CHR 0x5C) r)" using u by (simp add: Cons)
    then have "clean ?body" by (rule clean_part)
    then have "\<not> list_ex (\<lambda>k. contains k (lower ?body))
        [''credential'', ''cookie'', ''token'', ''secret'', ''password'', ''apikey'', ''api_key'', ''api-key'', ''auth'']"
      by (simp add: clean_def SECRET_WORDS_def)
    then show ?thesis by (simp only: secret_key_pair_at_def Cons list.case Let_def simp_thms)
  qed (simp add: secret_key_pair_at_def)
  then have pair: "\<not> search secret_key_pair_at t" using rest by (auto simp: search_def list_ex_iff)
  have "\<not> contains (a @ ''secret'' @ b) (lower t)" for a b
  proof
    assume "contains (a @ ''secret'' @ b) (lower t)"
    then obtain c d where "lower t = (c @ a) @ ''secret'' @ (b @ d)" unfolding contains_iff by auto
    then have "contains ''secret'' (lower t)" unfolding contains_iff by blast
    then show False using assms by (simp add: clean_def SECRET_WORDS_def)
  qed
  from this [of "''customer''" "[]"] this [of "''customer_''" "[]"] this [of "''customer-''" "[]"]
  show ?thesis using echo pair by (simp add: assertCheckpointHasNoSecrets_def)
qed

section \<open>Clean documents\<close>

fun clean_json :: "(rat \<Rightarrow> string) \<Rightarrow> json \<Rightarrow> bool"
  and clean_items :: "(rat \<Rightarrow> string) \<Rightarrow> json list \<Rightarrow> bool"
  and clean_fields :: "(rat \<Rightarrow> string) \<Rightarrow> (string \<times> json) list \<Rightarrow> bool" where
  "clean_json num JNull = True"
| "clean_json num (JBool b) = True"
| "clean_json num (JNum q) = clean (num q)"
| "clean_json num (JStr s) = clean (concat (map escape_char s))"
| "clean_json num (JArr xs) = clean_items num xs"
| "clean_json num (JObj fs) = clean_fields num fs"
| "clean_items num [] = True"
| "clean_items num (x # xs) = (clean_json num x \<and> clean_items num xs)"
| "clean_fields num [] = True"
| "clean_fields num ((k, x) # fs) = (clean (concat (map escape_char k)) \<and> clean_json num x \<and> clean_fields num fs)"

lemma clean_wrapped: "x \<in> set ''{}[],:'' \<or> x = CHR 0x22 \<Longrightarrow> y \<in> set ''{}[],:'' \<or> y = CHR 0x22 \<Longrightarrow> clean (x # t @ [y]) \<longleftrightarrow> clean t"
  using punctuation_clean [of x "[]" "t @ [y]"] punctuation_clean [of y t "[]"] clean_empty by simp

lemma clean_joined: "list_all clean ts \<Longrightarrow> clean (join_with '','' ts)"
proof (induction ts)
  case (Cons t ts)
  then show ?case using punctuation_clean [of "CHR '',''" t "join_with '','' ts"] by (cases "ts = []") (simp_all add: join_with_Cons)
qed (simp add: clean_empty)

lemma clean_quoted: "clean (json_quote s) \<longleftrightarrow> clean (concat (map escape_char s))"
  by (simp add: json_quote_def clean_wrapped)

lemma clean_words: "clean ''null''" "clean ''true''" "clean ''false''"
  by (simp_all add: clean_def SECRET_WORDS_def lower_def lower_char_def is_upper_letter_def code_unit_def starts_with_def)

lemma clean_stringify:
  "clean_json num v \<Longrightarrow> clean (json_stringify num v)"
  "clean_items num xs \<Longrightarrow> list_all clean (stringify_items num xs)"
  "clean_fields num fs \<Longrightarrow> list_all clean (stringify_fields num fs)"
proof (induction num v and num xs and num fs rule: clean_json_clean_items_clean_fields.induct)
  case (10 num k x fs)
  then show ?case using punctuation_clean [of "CHR '':''" "json_quote k" "json_stringify num x"] by (simp add: clean_quoted)
qed (simp_all add: clean_words clean_quoted clean_wrapped clean_joined)


lemma clean_digits:
  assumes "\<forall>c \<in> set s. is_digit c"
  shows "clean s"
proof -
  have letter: "\<forall>w \<in> set SECRET_WORDS. \<exists>x \<in> set w. \<not> is_digit x"
    by (simp add: SECRET_WORDS_def is_digit_def code_unit_def)
  have "lower s = s" using assms unfolding lower_def by (intro map_idI) (auto simp: lower_char_def is_upper_letter_def is_digit_def)
  then show ?thesis using letter assms by (fastforce simp: clean_def list_all_iff contains_iff)
qed

lemma clean_number [simp]: "clean (nat_to_dec n)"
  by (rule clean_digits) (simp add: nat_to_dec_digits)

text \<open>A state whose texts are clean is saved: the measurement converges and the screening passes.\<close>

lemma clean_state_saved:
  assumes "\<And>n. num (of_nat n) = nat_to_dec n"
    and "\<And>n. clean_json num (checkpoint_json (checkpoint_with s (resumeCursorFor (sn_campaignId s) turns) n))"
  shows "\<exists>c. createCheckpoint num s turns = Inr c"
proof -
  have "\<exists>e. createCheckpoint num s turns = Inl e \<Longrightarrow> False"
    using finalize_converges [of num s "resumeCursorFor (sn_campaignId s) turns", OF assms(1)] clean_screened [OF clean_stringify(1) [OF assms(2)]]
    by (auto simp: createCheckpoint_def finalizeCheckpoint_def Let_def simp del: bytes_fixed_point.simps split: option.splits)
  then show ?thesis by (cases "createCheckpoint num s turns") auto
qed

section \<open>Deciding it for a text\<close>

lemma starts_eval: "starts_with [] s" "\<not> starts_with (x # p) []" "starts_with (x # p) (y # s) = (if x = y then starts_with p s else False)"
  by (auto simp: starts_with_def)

definition free_of_words :: "string \<Rightarrow> bool" where
  "free_of_words u = list_all (\<lambda>w. \<not> contains w u) SECRET_WORDS"

lemma clean_free: "clean t = free_of_words (lower t)"
  by (simp add: clean_def free_of_words_def)

lemma free_empty: "free_of_words []"
  by (simp add: free_of_words_def SECRET_WORDS_def)

text \<open>Only the words that begin with the first character matter; most characters begin none.\<close>

lemma free_first:
  "free_of_words (c # u) = (list_all (\<lambda>w. \<not> starts_with w u) (map tl (filter (\<lambda>w. hd w = c) SECRET_WORDS)) \<and> free_of_words u)"
proof -
  have "starts_with w (c # u) \<longleftrightarrow> hd w = c \<and> starts_with (tl w) u" if "w \<in> set SECRET_WORDS" for w
    using that by (cases w) (auto simp: SECRET_WORDS_def starts_with_def)
  then show ?thesis by (auto simp: free_of_words_def list_all_iff)
qed

lemma free_skips: "list_all (\<lambda>c. \<forall>u. free_of_words (c # u) = free_of_words u) ''dfghijklmnoqruvwxyz._:0123456789''"
  by (simp add: free_first SECRET_WORDS_def)

lemmas free_eval = free_empty free_skips [simplified]
  free_first [of "CHR ''a''", unfolded SECRET_WORDS_def, simplified] free_first [of "CHR ''b''", unfolded SECRET_WORDS_def, simplified]
  free_first [of "CHR ''c''", unfolded SECRET_WORDS_def, simplified] free_first [of "CHR ''e''", unfolded SECRET_WORDS_def, simplified]
  free_first [of "CHR ''p''", unfolded SECRET_WORDS_def, simplified] free_first [of "CHR ''s''", unfolded SECRET_WORDS_def, simplified]
  free_first [of "CHR ''t''", unfolded SECRET_WORDS_def, simplified] free_first [of "CHR ''-''", unfolded SECRET_WORDS_def, simplified]

lemma lower_letters: "map lower_char ''ABCDEFGHIJKLMNOPQRSTUVWXYZ'' = ''abcdefghijklmnopqrstuvwxyz''"
  "map lower_char ''abcdefghijklmnopqrstuvwxyz._:0123456789-'' = ''abcdefghijklmnopqrstuvwxyz._:0123456789-''"
  by code_simp+

lemma plain_letters:
  "map escape_char ''ABCDEFGHIJKLMNOPQRSTUVWXYZabcdefghijklmnopqrstuvwxyz._:0123456789-''
   = map (\<lambda>c. [c]) ''ABCDEFGHIJKLMNOPQRSTUVWXYZabcdefghijklmnopqrstuvwxyz._:0123456789-''"
  by code_simp

lemmas lower_eval = lower_def lower_letters [simplified]
lemmas plain_eval = plain_letters [simplified]

end
