(* ===== verification/Agent_Resume.thy ===== *)
theory Agent_Resume imports Agent_Checkpoint_Secrets begin

text \<open>
  The end of a run and its continuation: the checkpoint a run leaves, given to the parser and to
  \<open>resumeFromCheckpoint\<close>, brings the agent back exactly when its numbers are readable; with a sample of a campaign that is paused.
\<close>

section \<open>What a parsed checkpoint must satisfy\<close>

lemma cursor_limits:
  assumes "parseResumeCursor (JStr (resumeCursorFor campaignId turns)) campaignId = Inr n" "campaignId \<noteq> []"
  shows "length (resumeCursorFor campaignId turns) \<le> 512 \<and> turns \<le> 1000000"
proof -
  have pivot: "last_pivot '':turn:'' (resumeCursorFor campaignId turns) = Some (length campaignId)"
    unfolding resumeCursorFor_def by (intro last_pivot_after pivot_of_marker) (simp add: nat_to_dec_digits)
  have rest: "drop (length campaignId + length '':turn:'') (resumeCursorFor campaignId turns) = nat_to_dec turns"
    by (simp add: resumeCursorFor_def)
  show ?thesis using assms
    by (auto simp: parseResumeCursor_def pivot rest [simplified] js_number_digits corrupt_def not_less split: if_splits)
qed

lemma budget_limits:
  "parseBudgetSnapshot (Some (budget_json s)) place = Inr b \<Longrightarrow> 0 \<le> bu_wallTimeMs (sn_usage s) \<and> limits_ok (sn_policy s)"
  by (simp add: parseBudgetSnapshot_def budget_json_def budget_pair_def policy_json_def usage_json_def parse_budget_v2_def normalizeBudgetFailureField_def
      check_numbers_def POLICY_KEYS_def USAGE_KEYS_def require_def corrupt_def limits_ok_def Let_def split: if_splits)

lemma ledger_limits: "isAgentByteLedger (Some (ledger_json l)) \<Longrightarrow> ledger_safe l"
  by (simp add: isAgentByteLedger_def ledger_document_ok_def ledger_json_def AGENT_BYTE_LEDGER_COUNT_KEYS_def ledger_safe_def)

lemma state_limits:
  assumes "parseRuntimeState (Some (snapshot_json s)) = Inr fs" "sn_byteLedger s = Some l"
  shows "0 \<le> bu_wallTimeMs (sn_usage s) \<and> limits_ok (sn_policy s) \<and> ledger_safe l"
proof -
  from assms(1) obtain b where "check_ledger (snapshot_fields s) = Inr ()" "parseBudgetSnapshot (Some (budget_json s)) ''state'' = Inr b"
    by (auto simp: parseRuntimeState_def snapshot_fields_json snapshot_lookup Let_def)
  moreover have "ledger_json l \<noteq> JNull" by (simp add: ledger_json_def)
  ultimately show ?thesis using budget_limits ledger_limits assms(2)
    by (auto simp: check_ledger_def snapshot_lookup not_v1 check_ledger_v2_def require_def corrupt_def Let_def split: if_splits)
qed

lemma resume_limits:
  assumes "resume_document num i (checkpoint_json c) = Inr x" "cp_resumeCursor c = resumeCursorFor i turns" "i \<noteq> []"
    "sn_byteLedger (cp_state c) = Some l"
  shows "0 \<le> bu_wallTimeMs (sn_usage (cp_state c)) \<and> limits_ok (sn_policy (cp_state c)) \<and> ledger_safe l
    \<and> length (resumeCursorFor i turns) \<le> 512 \<and> turns \<le> 1000000"
proof -
  from assms(1) obtain doc where doc: "parseCheckpoint num (checkpoint_json c) = Inr doc"
    and rest: "(case (json_field doc ''campaignId'', json_field doc ''state'', json_field doc ''resumeCursor'') of
         (Some owner, Some state, Some cursor) \<Rightarrow>
           if owner \<noteq> JStr i then Inl (checkpoint_error ''CAMPAIGN_MISMATCH'' ''checkpoint belongs to another campaign'')
           else bind_res (parseResumeCursor cursor i) (\<lambda>turns. Inr (state, turns))
       | _ \<Rightarrow> corrupt ''checkpoint is not an object'') = Inr x"
    unfolding resume_document_def bind_res_Inr_iff by blast
  then obtain cursor n where fields: "json_field doc ''resumeCursor'' = Some cursor" "parseResumeCursor cursor i = Inr n"
    by (cases "json_field doc ''campaignId''"; cases "json_field doc ''state''"; cases "json_field doc ''resumeCursor''")
       (auto simp: corrupt_def split: if_splits)
  from doc obtain fs where fs: "parseRuntimeState (Some (snapshot_json (cp_state c))) = Inr fs"
    and cursor: "json_field doc ''resumeCursor'' = Some (JStr (cp_resumeCursor c))"
    by (auto simp: parseCheckpoint_def parse_checkpoint_fields_def checkpoint_json_def checkpoint_document_def unsupportedVersion_def corrupt_def Let_def
        split: list.splits if_splits)
  from cursor fields have "parseResumeCursor (JStr (resumeCursorFor i turns)) i = Inr n" using assms(2) by simp
  from cursor_limits [OF this assms(3)] state_limits [OF fs assms(4)] show ?thesis by blast
qed

text \<open>The run left a document of numbers the parser takes: no negative limit, no clock that went back, counts that are exact integers
  and a cursor of at most 512 characters and a million turns.\<close>

definition readable_end :: "agent_config \<Rightarrow> agent \<Rightarrow> bool" where
  "readable_end cfg a = (limits_ok (ac_policy cfg) \<and> ledger_safe (ag_byteLedger a) \<and> 0 \<le> bu_wallTimeMs (ag_usage a)
     \<and> length (resumeCursorFor (ac_campaignId cfg) (ag_turnBase a + ag_turnsThisRun a)) \<le> 512 \<and> ag_turnBase a + ag_turnsThisRun a \<le> 1000000)"

section \<open>A run that is continued\<close>

text \<open>C35: a run that ends with a checkpoint leaves a readable end, or its checkpoint is refused. The end is readable when the policy has no
  negative limit, the byte counts are exact integers of the language, the clock did not go back so far that the wall time is negative (the
  runtime does not clamp it), the cursor has at most 512 characters and the campaign at most a million turns. Then the parser accepts the
  document, returns the reported state unchanged with the turns completed, and an instance restored from it shows the same state, ready to
  run again. In every other case the parser throws.\<close>

theorem checkpoint_resumes:
  assumes "run_agent cfg pf ports limit (a, w) = Inr (r, a', w')" and "rr_checkpoint r = Some c"
    and "storable a" "agent_wf a" "bytes_exact a" and "ac_campaignId cfg \<noteq> []"
  shows "if readable_end cfg a'
    then resume_document (dp_num pf) (ac_campaignId cfg) (checkpoint_json c)
          = Inr (snapshot_json (rr_state r), ag_turnBase a' + ag_turnsThisRun a')
      \<and> (\<exists>b. restored_agent cfg (rr_state r) (ag_turnBase a' + ag_turnsThisRun a') = Inr b
          \<and> snapshot cfg b = (rr_state r)\<lparr>sn_status := READY, sn_terminationReason := None\<rparr>)
    else \<exists>e. resume_document (dp_num pf) (ac_campaignId cfg) (checkpoint_json c) = Inl e"
proof -
  let ?turns = "ag_turnBase a' + ag_turnsThisRun a'"
  have kept: "storable a'" "agent_wf a'" "bytes_exact a'"
    using storage.run_kept [OF assms(1,3)] shape.run_kept [OF assms(1,4)] bytes.run_kept [OF assms(1,5)] by blast+
  obtain reason k b v where "finish cfg pf ports reason k (b, v) = Inr (r, a', w')"
    using assms(1) by (auto simp: run_agent_def Let_def split: if_splits)
  then obtain a1 n where fin: "a' = accounted_agent cfg n (ended_agent reason a1)" "rr_state r = snapshot cfg a'" "cp_state c = snapshot cfg a'"
    and made: "createCheckpoint (dp_num pf) (snapshot cfg (ended_agent reason a1))
      (ag_turnBase (ended_agent reason a1) + ag_turnsThisRun (ended_agent reason a1)) = Inr c"
    using assms(2) by (cases rule: finish_cases) auto
  have turns: "ag_turnBase (ended_agent reason a1) + ag_turnsThisRun (ended_agent reason a1) = ?turns"
    by (simp add: fin(1) accounted_agent_def)
  have c: "cp_campaignId c = ac_campaignId cfg" "cp_resumeCursor c = resumeCursorFor (ac_campaignId cfg) ?turns"
  proof -
    obtain m where "c = checkpoint_with (snapshot cfg (ended_agent reason a1))
        (resumeCursorFor (sn_campaignId (snapshot cfg (ended_agent reason a1))) ?turns) m"
      using createCheckpoint_Inr [OF made] turns by metis
    then show "cp_campaignId c = ac_campaignId cfg" "cp_resumeCursor c = resumeCursorFor (ac_campaignId cfg) ?turns"
      by (simp_all add: checkpoint_with_def snapshot_def)
  qed
  show ?thesis
  proof (cases "readable_end cfg a'")
    case True
    then have ok: "limits_ok (ac_policy cfg)" "ledger_safe (ag_byteLedger a')" "0 \<le> bu_wallTimeMs (ag_usage a')"
        "length (resumeCursorFor (ac_campaignId cfg) ?turns) \<le> 512" "?turns \<le> 1000000" by (simp_all add: readable_end_def)
    have "parseCheckpoint (dp_num pf) (checkpoint_json c) = Inr (checkpoint_json c)"
      by (rule checkpoint_accepted [OF made]) (use state_savable_of [OF kept assms(6) ok(1-3)] fin c turns in \<open>simp_all add: snapshot_def\<close>)
    moreover have "parseResumeCursor (JStr (cp_resumeCursor c)) (ac_campaignId cfg) = Inr ?turns"
      using cursor_roundtrip [OF assms(6) ok(4,5)] c by simp
    ultimately have "resume_document (dp_num pf) (ac_campaignId cfg) (checkpoint_json c) = Inr (snapshot_json (rr_state r), ?turns)"
      by (simp add: resume_document_def checkpoint_json_def c(1) fin)
    then show ?thesis using True restored_back [OF kept(2) ok(2)] fin(2) by simp
  next
    case False
    have "resume_document (dp_num pf) (ac_campaignId cfg) (checkpoint_json c) \<noteq> Inr x" for x
    proof
      assume "resume_document (dp_num pf) (ac_campaignId cfg) (checkpoint_json c) = Inr x"
      from resume_limits [OF this c(2) assms(6), of "ag_byteLedger a'"] fin(3) False show False
        by (simp add: readable_end_def snapshot_def)
    qed
    then show ?thesis using False by (cases "resume_document (dp_num pf) (ac_campaignId cfg) (checkpoint_json c)") auto
  qed
qed

section \<open>A sample checkpoint\<close>

text \<open>The operator pauses the campaign before its first turn.\<close>

definition sample_stopping :: agent where
  "sample_stopping = (fresh_agent None)\<lparr>ag_pausedRequested := True\<rparr>"

definition sample_paused :: agent where
  "sample_paused = sample_stopping\<lparr>ag_status := PAUSED, ag_terminationReason := Some Agent_PAUSED, ag_runStartMs := Some 7\<rparr>"

lemma zero_text: "nat_to_dec 0 = ''0''"
  by code_simp

lemmas sample_document = sample_config_def sample_paused_def sample_stopping_def fresh_agent_def checkpoint_json_def checkpoint_with_def snapshot_def
  withCheckpointBytes_def snapshot_json_def usage_json_def policy_json_def ledger_json_def limit_json_def count_json_def texts_json_def
  nullable_json_def normalizeSurfaceEntries_def resumeCursorFor_def defaultAgentBudgetPolicy_def

lemma sample_clean:
  "clean_json (dp_num sample_platform) (checkpoint_json (checkpoint_with (snapshot sample_config sample_paused) (resumeCursorFor ''c'' 0) n))"
  by (simp add: sample_document sample_platform_def zero_text plain_eval) (simp add: clean_free lower_eval free_eval starts_eval)

lemma sample_saved:
  "\<exists>r c. run_agent sample_config sample_platform sample_ports None (sample_stopping, ()) = Inr (r, adopt_ledger c sample_paused, ())
     \<and> rr_checkpoint r = Some c \<and> createCheckpoint (dp_num sample_platform) (snapshot sample_config sample_paused) 0 = Inr c"
proof -
  have "dp_num sample_platform (of_nat n) = nat_to_dec n" for n by (simp add: sample_platform_def)
  moreover have "sn_campaignId (snapshot sample_config sample_paused) = ''c''" by (simp add: snapshot_def sample_config_def)
  ultimately obtain c where c: "createCheckpoint (dp_num sample_platform) (snapshot sample_config sample_paused) 0 = Inr c"
    using clean_state_saved [of "dp_num sample_platform" "snapshot sample_config sample_paused" 0] sample_clean by auto
  let ?started = "sample_stopping\<lparr>ag_status := RUNNING, ag_runStartMs := Some 7\<rparr>"
  have clock: "refreshWallTime sample_ports (?started, ()) = (?started, ())"
    by (simp add: refreshWallTime_def sample_ports_def sample_stopping_def fresh_agent_def ZERO_AGENT_BUDGET_USAGE_def)
  have loop: "run_loop sample_config sample_platform sample_ports 3 (?started, ()) = Inr (Agent_PAUSED, True, ?started, ())"
  proof -
    have "ag_pausedRequested ?started" "\<not> ag_cancelled ?started" by (simp_all add: sample_stopping_def fresh_agent_def)
    then show ?thesis by (subst run_loop.simps) (simp add: run_iteration_def)
  qed
  have ended: "ended_agent Agent_PAUSED ?started = sample_paused"
    by (simp add: ended_agent_def sample_paused_def)
  have turns: "ag_turnBase sample_paused + ag_turnsThisRun sample_paused = 0"
    by (simp add: sample_paused_def sample_stopping_def fresh_agent_def)
  have "run_agent sample_config sample_platform sample_ports None (sample_stopping, ())
      = finish sample_config sample_platform sample_ports Agent_PAUSED True (?started, ())"
    using loop by (simp add: run_agent_def agent_operation_allowed start_run_def sample_ports_def sample_config_def)
      (simp add: sample_stopping_def fresh_agent_def)
  then show ?thesis by (simp add: finish_def clock ended turns c)
qed

lemma utf8_length: "utf8Bytes s \<le> 2 * length s"
  by (induction s) (auto simp: utf8Bytes_def)

lemma digits_small: "digits n \<le> n + 1"
proof (induction n rule: less_induct)
  case (less n)
  show ?case
  proof (cases "n < 10")
    case False
    then show ?thesis using less.IH [of "n div 10"] by (simp add: digits_rec [of n])
  qed (simp add: digits_rec [of n])
qed

text \<open>How long a document can be.\<close>

fun json_size :: "(rat \<Rightarrow> string) \<Rightarrow> json \<Rightarrow> nat"
  and items_size :: "(rat \<Rightarrow> string) \<Rightarrow> json list \<Rightarrow> nat"
  and fields_size :: "(rat \<Rightarrow> string) \<Rightarrow> (string \<times> json) list \<Rightarrow> nat" where
  "json_size num JNull = 4"
| "json_size num (JBool b) = 5"
| "json_size num (JNum q) = length (num q)"
| "json_size num (JStr s) = 2 + 6 * length s"
| "json_size num (JArr xs) = 2 + items_size num xs"
| "json_size num (JObj fs) = 2 + fields_size num fs"
| "items_size num [] = 0"
| "items_size num (x # xs) = 1 + json_size num x + items_size num xs"
| "fields_size num [] = 0"
| "fields_size num ((k, x) # fs) = 4 + 6 * length k + json_size num x + fields_size num fs"

lemma quote_length: "length (json_quote s) \<le> 2 + 6 * length s"
proof -
  have "length (escape_char c) \<le> 6" for c by (simp add: escape_char_def)
  then have "length (concat (map escape_char s)) \<le> 6 * length s"
    by (induction s) (auto simp: add_le_mono)
  then show ?thesis by (simp add: json_quote_def)
qed

lemma joined_length: "length (join_with '','' ts) \<le> sum_list (map (\<lambda>t. 1 + length t) ts)"
proof (induction ts)
  case (Cons t ts)
  then show ?case by (cases "ts = []") (simp_all add: join_with_Cons)
qed simp

lemma stringify_length:
  "length (json_stringify num v) \<le> json_size num v"
  "sum_list (map (\<lambda>t. 1 + length t) (stringify_items num xs)) \<le> items_size num xs"
  "sum_list (map (\<lambda>t. 1 + length t) (stringify_fields num fs)) \<le> fields_size num fs"
proof (induction num v and num xs and num fs rule: json_size_items_size_fields_size.induct)
  case (5 num xs)
  then show ?case using joined_length [of "stringify_items num xs"] by simp
next
  case (6 num fs)
  then show ?case using joined_length [of "stringify_fields num fs"] by simp
next
  case (10 num k x fs)
  then show ?case using quote_length [of k] by simp
next
  case (4 num s)
  then show ?case using quote_length [of s] by simp
qed simp_all

lemma sample_ledger: "ledgerOf (snapshot sample_config sample_paused) = ZERO_AGENT_BYTE_LEDGER"
proof -
  have "ledger_safe ZERO_AGENT_BYTE_LEDGER" by (simp add: ledger_safe_def ZERO_AGENT_BYTE_LEDGER_def max_safe_integer_def)
  then show ?thesis by (simp add: ledgerOf_def snapshot_def sample_paused_def sample_stopping_def fresh_agent_def)
qed

lemma sample_numbers: "map (\<lambda>n. length (nat_to_dec n)) [0, 6, 8, 20, 200, 400, 120000, 160000, 3600000, 5000000, 64000000] = [1, 1, 1, 2, 3, 3, 6, 6, 7, 7, 8]"
  by (simp add: nat_to_dec.simps)

lemma sample_length:
  "json_size (dp_num sample_platform) (checkpoint_json (checkpoint_with (snapshot sample_config sample_paused) (resumeCursorFor ''c'' 0) n))
    \<le> 20000 + digits n"
  by (simp add: checkpoint_with_def sample_ledger) (simp add: sample_document sample_platform_def zero_text digits_def
      ZERO_AGENT_BYTE_LEDGER_def ZERO_AGENT_BUDGET_USAGE_def sample_numbers [simplified])

theorem checkpoint_resumes_witness:
  "\<exists>r a' c. run_agent sample_config sample_platform sample_ports None (sample_stopping, ()) = Inr (r, a', ()) \<and> rr_checkpoint r = Some c
    \<and> resume_document (dp_num sample_platform) ''c'' (checkpoint_json c) = Inr (snapshot_json (rr_state r), ag_turnBase a' + ag_turnsThisRun a')
    \<and> (\<exists>b. restored_agent sample_config (rr_state r) (ag_turnBase a' + ag_turnsThisRun a') = Inr b
        \<and> snapshot sample_config b = (rr_state r)\<lparr>sn_status := READY, sn_terminationReason := None\<rparr>)"
proof -
  obtain r c where run: "run_agent sample_config sample_platform sample_ports None (sample_stopping, ()) = Inr (r, adopt_ledger c sample_paused, ())"
    and some: "rr_checkpoint r = Some c" and made: "createCheckpoint (dp_num sample_platform) (snapshot sample_config sample_paused) 0 = Inr c"
    using sample_saved by blast
  let ?a = "adopt_ledger c sample_paused"
  have id: "sn_campaignId (snapshot sample_config sample_paused) = ''c''" by (simp add: snapshot_def sample_config_def)
  obtain n where c: "c = checkpoint_with (snapshot sample_config sample_paused) (resumeCursorFor ''c'' 0) n"
    and n: "n = json_bytes (dp_num sample_platform) (checkpoint_json c)"
    using createCheckpoint_Inr [OF made] by (auto simp: id sample_ledger ZERO_AGENT_BYTE_LEDGER_def)
  have small: "n \<le> 100000"
  proof -
    have "length (json_stringify (dp_num sample_platform) (checkpoint_json c)) \<le> 20000 + digits n"
      using stringify_length(1) sample_length unfolding c by (rule le_trans)
    then have "2 * length (json_stringify (dp_num sample_platform) (checkpoint_json c)) \<le> 40000 + 2 * digits n" by simp
    then have "n \<le> 40000 + 2 * digits n"
      using utf8_length [of "json_stringify (dp_num sample_platform) (checkpoint_json c)"] by (subst n) (simp add: json_bytes_def)
    moreover have "digits n \<le> n div 10 + 2" using digits_small [of "n div 10"] by (simp add: digits_rec [of n])
    moreover have "n div 10 * 10 \<le> n" by (rule div_times_less_eq_dividend)
    ultimately show ?thesis by linarith
  qed
  have a: "?a = sample_paused\<lparr>ag_byteLedger := ZERO_AGENT_BYTE_LEDGER\<lparr>by_checkpointBytes := n\<rparr>\<rparr>"
    by (simp add: adopt_ledger_def c checkpoint_with_def withCheckpointBytes_def sample_ledger)
  have "ledger_safe (ag_byteLedger ?a)" "0 \<le> bu_wallTimeMs (ag_usage ?a)" "ag_turnBase ?a + ag_turnsThisRun ?a = 0"
    unfolding a using small by (simp_all add: ledger_safe_def ZERO_AGENT_BYTE_LEDGER_def max_safe_integer_def sample_paused_def sample_stopping_def
        fresh_agent_def ZERO_AGENT_BUDGET_USAGE_def)
  moreover have "limits_ok (ac_policy sample_config)" by (simp add: limits_ok_def sample_config_def defaultAgentBudgetPolicy_def)
  moreover have cid: "ac_campaignId sample_config = ''c''" by (simp add: sample_config_def)
  moreover have "length (resumeCursorFor ''c'' 0) \<le> 512" by (simp add: resumeCursorFor_def nat_to_dec.simps)
  ultimately have "readable_end sample_config ?a" by (simp add: readable_end_def)
  moreover have "storable sample_stopping" "agent_wf sample_stopping" "bytes_exact sample_stopping"
    by (simp_all add: storable_def agent_wf_def bytes_exact_def sample_stopping_def fresh_agent_def texts_ok_def surface_map_ok_def
        normalizeSurfaceEntries_def ZERO_AGENT_BUDGET_USAGE_def ZERO_AGENT_BYTE_LEDGER_def charged_defs)
  ultimately show ?thesis using run some checkpoint_resumes [OF run some] cid by simp
qed

end
