(* ===== verification/Agent_Budget_Migration.thy ===== *)
theory Agent_Budget_Migration imports Agent_Checkpoint_Roundtrip begin

text \<open>
  The migration of version 1 budgets: what the parser returns it accepts again unchanged, and the
  bytes a version 1 campaign had charged are charged to the new dimension.
\<close>

lemma map_of_set [simp]: "map_of (map_set m k v) k' = (if k' = k then Some v else map_of m k')"
  by (simp add: map_set_def update_conv')

lemma map_of_drop: "map_of (filter (\<lambda>(k, v). k \<noteq> x) fs) k' = (if k' = x then None else map_of fs k')"
  by (induction fs) auto

section \<open>The failure dimension\<close>

lemma renamed_gone [simp]: "map_of (normalizeBudgetFailureField fs) ''retries'' = None"
  by (simp add: normalizeBudgetFailureField_def map_of_drop Let_def split: option.split)

lemma renamed_id [simp]: "map_of fs ''retries'' = None \<Longrightarrow> normalizeBudgetFailureField fs = fs"
  by (simp add: normalizeBudgetFailureField_def)

lemma renamed_other [simp]: "k \<noteq> ''retries'' \<Longrightarrow> k \<noteq> ''failures'' \<Longrightarrow> map_of (normalizeBudgetFailureField fs) k = map_of fs k"
  by (simp add: normalizeBudgetFailureField_def map_of_drop Let_def split: option.split)

lemma renamed_failures:
  assumes "isFiniteNumber (v1_field fs ''retries'')"
  shows "isFiniteNumber (map_of (normalizeBudgetFailureField fs) ''failures'')"
proof (cases "map_of fs ''retries''")
  case (Some legacy)
  then show ?thesis using assms
    by (cases legacy) (auto simp: normalizeBudgetFailureField_def map_of_drop v1_field_def Let_def)
qed (use assms in \<open>simp add: v1_field_def\<close>)

section \<open>Accepted again\<close>

lemma numbers_ok: "check_numbers place look keys = Inr u \<longleftrightarrow> (\<forall>k \<in> set keys. isFiniteNumber (look k))"
  by (simp add: check_numbers_def require_def corrupt_def)

lemma pair_document [simp]: "budget_pair (Some (budget_document p u)) = Some (p, u)"
  by (simp add: budget_pair_def budget_document_def)

lemma v2_accepts:
  assumes "map_of p ''retries'' = None" "map_of u ''retries'' = None" "map_of p ''schemaVersion'' = Some (JStr ''nightwatch.agent-budget.v2'')"
    "\<forall>k \<in> set POLICY_KEYS. isFiniteNumber (map_of p k)" "is_text (map_of p ''ceilingName'')" "\<forall>k \<in> set USAGE_KEYS. isFiniteNumber (map_of u k)"
  shows "parseBudgetSnapshot (Some (budget_document p u)) place = Inr (budget_document p u)"
proof -
  have "check_numbers (place @ ''.budget.policy.'') (map_of p) POLICY_KEYS = Inr ()" "check_numbers (place @ ''.budget.usage.'') (map_of u) USAGE_KEYS = Inr ()"
    using assms by (simp_all only: numbers_ok)
  then show ?thesis using assms(1,2,3,5) by (simp add: parseBudgetSnapshot_def parse_budget_v2_def require_def Let_def)
qed

text \<open>What a successful parse of version 1 returns.\<close>

definition migrated_policy :: "ceiling_name \<Rightarrow> json_fields \<Rightarrow> json_fields" where
  "migrated_policy tier policy = map_set (map_set (map_set (normalizeBudgetFailureField policy) ''schemaVersion'' (JStr ''nightwatch.agent-budget.v2''))
     ''outputBytes'' (limit_json (bp_outputBytes (defaultAgentBudgetPolicy tier))))
     ''toolPayloadBytes'' (limit_json (bp_toolPayloadBytes (defaultAgentBudgetPolicy tier)))"

definition migrated_usage :: "json_fields \<Rightarrow> json_fields" where
  "migrated_usage usage = map_set (map_set (normalizeBudgetFailureField usage) ''outputBytes'' (JNum 0))
     ''toolPayloadBytes'' (case map_of usage ''outputBytes'' of None \<Rightarrow> JNull | Some v \<Rightarrow> v)"

lemma v1_parsed:
  assumes "parse_budget_v1 place policy usage = Inr b"
  obtains name tier where "map_of policy ''ceilingName'' = Some (JStr name)" "ceiling_named name = Some tier"
    "\<forall>k \<in> set V1_POLICY_KEYS. isFiniteNumber (v1_field policy k)" "\<forall>k \<in> set V1_USAGE_KEYS. isFiniteNumber (v1_field usage k)"
    "b = budget_document (migrated_policy tier policy) (migrated_usage usage)"
proof -
  obtain u v where p: "check_numbers (place @ ''.budget.policy.'') (v1_field policy) V1_POLICY_KEYS = Inr u"
    and q: "check_numbers (place @ ''.budget.usage.'') (v1_field usage) V1_USAGE_KEYS = Inr v"
    and rest: "\<exists>name tier. map_of policy ''ceilingName'' = Some (JStr name) \<and> ceiling_named name = Some tier
      \<and> b = budget_document (migrated_policy tier policy) (migrated_usage usage)"
    using assms unfolding parse_budget_v1_def migrated_policy_def migrated_usage_def
    by (auto simp: corrupt_def Let_def simp del: ceiling_named.simps split: option.splits json.splits)
  then show ?thesis using that unfolding numbers_ok by blast
qed

lemma migrated_policy_ok:
  assumes "\<forall>k \<in> set V1_POLICY_KEYS. isFiniteNumber (v1_field policy k)"
  shows "\<forall>k \<in> set POLICY_KEYS. isFiniteNumber (map_of (migrated_policy tier policy) k)"
proof -
  have defaults: "0 \<le> bp_outputBytes (defaultAgentBudgetPolicy tier)" "0 \<le> bp_toolPayloadBytes (defaultAgentBudgetPolicy tier)"
    by (cases tier; simp add: defaultAgentBudgetPolicy_def)+
  have "isFiniteNumber (v1_field policy ''retries'')" using assms by (simp add: V1_POLICY_KEYS_def)
  from renamed_failures [OF this] show ?thesis
    using assms defaults by (simp add: migrated_policy_def POLICY_KEYS_def V1_POLICY_KEYS_def v1_field_def)
qed

lemma migrated_usage_ok:
  assumes "\<forall>k \<in> set V1_USAGE_KEYS. isFiniteNumber (v1_field usage k)"
  shows "\<forall>k \<in> set USAGE_KEYS. isFiniteNumber (map_of (migrated_usage usage) k)"
    and "map_of (migrated_usage usage) ''toolPayloadBytes'' = map_of usage ''outputBytes''"
proof -
  have out: "isFiniteNumber (map_of usage ''outputBytes'')" using assms by (simp add: V1_USAGE_KEYS_def v1_field_def)
  then obtain v where v: "map_of usage ''outputBytes'' = Some v" by (auto simp: isFiniteNumber_def split: option.splits)
  then show "map_of (migrated_usage usage) ''toolPayloadBytes'' = map_of usage ''outputBytes''" by (simp add: migrated_usage_def)
  have "isFiniteNumber (v1_field usage ''retries'')" using assms by (simp add: V1_USAGE_KEYS_def)
  from renamed_failures [OF this] show "\<forall>k \<in> set USAGE_KEYS. isFiniteNumber (map_of (migrated_usage usage) k)"
    using assms out v by (simp add: migrated_usage_def USAGE_KEYS_def V1_USAGE_KEYS_def v1_field_def isFiniteNumber_def [of "Some (JNum 0)"])
qed

section \<open>Idempotence\<close>

text \<open>C36: a budget the parser accepts is accepted again unchanged, whether it was migrated or not; and a migrated one has charged
  nothing to the transport, and to tool payload what version 1 had charged to output.\<close>

theorem budget_parse_idempotent:
  assumes "parseBudgetSnapshot v place = Inr b" "budget_pair v = Some (policy, usage)"
  shows "parseBudgetSnapshot (Some b) elsewhere = Inr b
    \<and> (map_of policy ''schemaVersion'' = Some (JStr ''nightwatch.agent-budget.v1'') \<longrightarrow>
      usage_field b ''outputBytes'' = Some (JNum 0) \<and> usage_field b ''toolPayloadBytes'' = map_of usage ''outputBytes''
      \<and> usage_field b ''inputBytes'' = map_of usage ''inputBytes'')"
proof (cases "map_of policy ''schemaVersion'' = Some (JStr ''nightwatch.agent-budget.v1'')")
  case True
  then have "parse_budget_v1 place policy usage = Inr b" using assms by (simp add: parseBudgetSnapshot_def)
  then obtain name tier where name: "map_of policy ''ceilingName'' = Some (JStr name)"
    and p: "\<forall>k \<in> set V1_POLICY_KEYS. isFiniteNumber (v1_field policy k)" and u: "\<forall>k \<in> set V1_USAGE_KEYS. isFiniteNumber (v1_field usage k)"
    and b: "b = budget_document (migrated_policy tier policy) (migrated_usage usage)"
    by (rule v1_parsed)
  have "parseBudgetSnapshot (Some b) elsewhere = Inr b" unfolding b
    by (rule v2_accepts [OF _ _ _ migrated_policy_ok [OF p] _ migrated_usage_ok(1) [OF u]])
      (simp_all add: migrated_policy_def migrated_usage_def name is_text_def)
  moreover have "usage_field b ''outputBytes'' = Some (JNum 0)" "usage_field b ''inputBytes'' = map_of usage ''inputBytes''"
    "usage_field b ''toolPayloadBytes'' = map_of usage ''outputBytes''"
    using migrated_usage_ok(2) [OF u] by (simp_all add: usage_field_def b) (simp_all add: migrated_usage_def)
  ultimately show ?thesis by simp
next
  case False
  let ?p = "normalizeBudgetFailureField policy" and ?u = "normalizeBudgetFailureField usage"
  have version: "map_of policy ''schemaVersion'' = Some (JStr ''nightwatch.agent-budget.v2'')"
    using assms False by (auto simp: parseBudgetSnapshot_def unsupportedVersion_def corrupt_def split: if_splits option.splits json.splits)
  then have parsed: "parse_budget_v2 place policy usage = Inr b" using assms by (simp add: parseBudgetSnapshot_def)
  obtain x y where "check_numbers (place @ ''.budget.policy.'') (map_of ?p) POLICY_KEYS = Inr x"
    "check_numbers (place @ ''.budget.usage.'') (map_of ?u) USAGE_KEYS = Inr y"
    and rest: "is_text (map_of ?p ''ceilingName'')" "b = budget_document ?p ?u"
    using parsed by (auto simp: parse_budget_v2_def Let_def require_def corrupt_def split: if_splits)
  then show ?thesis using False version v2_accepts [of ?p ?u] by (simp add: numbers_ok)
qed

definition sample_v1_policy :: json_fields where
  "sample_v1_policy = [(''schemaVersion'', JStr ''nightwatch.agent-budget.v1''), (''ceilingName'', JStr ''HOUR_1''), (''wallTimeMs'', JNum 9),
     (''reasonerCalls'', JNum 9), (''inputBytes'', JNum 9), (''outputBytes'', JNum 9), (''toolActions'', JNum 9), (''perActionTimeoutMs'', JNum 9),
     (''candidateCap'', JNum 9), (''retries'', JNum 9), (''consecutiveFailures'', JNum 9), (''providerFailures'', JNum 9)]"

definition sample_v1_usage :: "rat \<Rightarrow> json_fields" where
  "sample_v1_usage q = [(''wallTimeMs'', JNum 1), (''reasonerCalls'', JNum 1), (''inputBytes'', JNum q), (''outputBytes'', JNum 5), (''toolActions'', JNum 1),
     (''candidateCount'', JNum 1), (''retries'', JNum 1), (''consecutiveFailures'', JNum 1), (''providerFailures'', JNum 1)]"

lemma sample_v1_parsed:
  assumes "0 \<le> q"
  shows "parseBudgetSnapshot (Some (budget_document sample_v1_policy (sample_v1_usage q))) place
    = Inr (budget_document (migrated_policy HOUR_1 sample_v1_policy) (migrated_usage (sample_v1_usage q)))"
proof -
  have "check_numbers (place @ ''.budget.policy.'') (v1_field sample_v1_policy) V1_POLICY_KEYS = Inr ()"
    unfolding numbers_ok by (simp add: V1_POLICY_KEYS_def sample_v1_policy_def v1_field_def isFiniteNumber_def)
  moreover have "check_numbers (place @ ''.budget.usage.'') (v1_field (sample_v1_usage q)) V1_USAGE_KEYS = Inr ()"
    using assms unfolding numbers_ok by (simp add: V1_USAGE_KEYS_def sample_v1_usage_def v1_field_def isFiniteNumber_def)
  moreover have "map_of sample_v1_policy ''ceilingName'' = Some (JStr ''HOUR_1'')" "ceiling_named ''HOUR_1'' = Some HOUR_1"
    "map_of sample_v1_policy ''schemaVersion'' = Some (JStr ''nightwatch.agent-budget.v1'')"
    by (simp_all add: sample_v1_policy_def)
  ultimately show ?thesis
    by (simp add: parseBudgetSnapshot_def parse_budget_v1_def migrated_policy_def migrated_usage_def Let_def del: ceiling_named.simps)
qed

theorem budget_parse_idempotent_witness:
  "\<exists>b. parseBudgetSnapshot (Some b) ''state'' = Inr b \<and> usage_field b ''toolPayloadBytes'' = Some (JNum 5) \<and> usage_field b ''outputBytes'' = Some (JNum 0)"
  using budget_parse_idempotent [OF sample_v1_parsed [of 1 "''state''"] pair_document, of "''state''"]
  by (auto simp: sample_v1_policy_def sample_v1_usage_def)

text \<open>For the whole state this fails: a version 1 usage may be a fraction, and the ledger rebuilt from it is refused.\<close>

definition sample_v1_state :: "rat \<Rightarrow> json_fields" where
  "sample_v1_state q = [(''schemaVersion'', JStr ''nightwatch.agent-runtime-state.v1''), (''campaignId'', JStr ''c''), (''status'', JStr ''PAUSED''),
     (''phase'', JStr ''PLAN''), (''hypotheses'', JArr []), (''actionLog'', JArr []), (''evidenceRefs'', JArr []), (''candidateIds'', JArr []),
     (''budget'', budget_document sample_v1_policy (sample_v1_usage q)), (''terminationReason'', JNull)]"

lemma fraction_refused: "\<not> isAgentByteLedger (Some (legacy_ledger_document (JNum (1/2)) y z))"
proof
  assume "isAgentByteLedger (Some (legacy_ledger_document (JNum (1/2)) y z))"
  then have "is_safe_count (Some (JNum (1/2)))"
    unfolding isAgentByteLedger_def ledger_document_ok_def legacy_ledger_document_def ledger_json_def AGENT_BYTE_LEDGER_COUNT_KEYS_def
    by simp
  moreover have "\<lfloor>1 / 2 :: rat\<rfloor> = 0" by (simp add: floor_eq_iff)
  ultimately show False by (simp add: is_safe_count_def)
qed

lemma fractional_migration_refused:
  "\<exists>fs. parseRuntimeState (Some (JObj (sample_v1_state (1/2)))) = Inr fs
     \<and> parseRuntimeState (Some (JObj fs)) = corrupt ''state.byteLedger is invalid''"
proof -
  let ?b = "budget_document (migrated_policy HOUR_1 sample_v1_policy) (migrated_usage (sample_v1_usage (1/2)))"
  have parsed: "parseBudgetSnapshot (Some (budget_document sample_v1_policy (sample_v1_usage (1/2)))) ''state'' = Inr ?b"
    by (rule sample_v1_parsed) simp
  have old: "budget_is_v1 (Some (budget_document sample_v1_policy (sample_v1_usage (1/2))))"
    by (simp add: budget_is_v1_def budget_document_def sample_v1_policy_def)
  have new: "\<not> budget_is_v1 (Some ?b)" by (simp add: budget_is_v1_def budget_document_def migrated_policy_def)
  let ?l = "legacy_ledger_document (usage_value ?b ''inputBytes'') (usage_value ?b ''outputBytes'') (usage_value ?b ''toolPayloadBytes'')"
  have bytes: "usage_value ?b ''inputBytes'' = JNum (1/2)" by (simp add: usage_value_def usage_field_def migrated_usage_def sample_v1_usage_def)
  have head: "check_head (sample_v1_state q) = Inr ()" "check_tail (sample_v1_state q) = Inr ()" "check_ledger (sample_v1_state q) = Inr ()" for q
    by (simp_all add: check_head_def check_tail_def check_ledger_def sample_v1_state_def require_def is_filled_text_def isStatus_def isPhase_def
        AGENT_RUNTIME_STATUSES_def AGENT_PHASES_def check_each_def check_surface_def isStringArray_def is_text_or_null_def)
  let ?fs = "map_set (map_set (sample_v1_state (1/2)) ''budget'' ?b) ''byteLedger'' ?l"
  have first: "parseRuntimeState (Some (JObj (sample_v1_state (1/2)))) = Inr ?fs"
    using parsed old head by (simp add: parseRuntimeState_def Let_def) (simp add: sample_v1_state_def)
  have "map_of ?fs ''byteLedger'' = Some ?l" "?l \<noteq> JNull" "\<not> isAgentByteLedger (Some ?l)"
    by (simp_all add: bytes fraction_refused) (simp add: legacy_ledger_document_def ledger_json_def)
  then have "check_ledger ?fs = corrupt ''state.byteLedger is invalid''"
    using new by (simp add: check_ledger_def check_ledger_v2_def require_def corrupt_def)
  moreover have "check_head ?fs = check_head (sample_v1_state (1/2))" by (simp add: check_head_def)
  moreover have "map_of ?fs ''schemaVersion'' = Some (JStr ''nightwatch.agent-runtime-state.v1'')" by (simp add: sample_v1_state_def)
  ultimately have "parseRuntimeState (Some (JObj ?fs)) = corrupt ''state.byteLedger is invalid''"
    using head by (simp add: parseRuntimeState_def corrupt_def)
  then show ?thesis using first by blast
qed

end
