(* ===== verification/Agent_Spend.thy ===== *)
theory Agent_Spend imports Agent_Checkpoint_Codec begin

text \<open>
  The monetary ceiling of a metered campaign, \<open>src/core/agentRuntime/spendCeiling.ts\<close>: the declaration,
  the admission of a call before it is dispatched, of a run and of a resume, and what they promise
  together. Amounts and rates are exact rationals; the text of an amount is a parameter.
\<close>

section \<open>Declarations\<close>

record spend_ceiling =
  sc_maxSpendUsd :: rat
  sc_inputRate :: rat
  sc_outputRate :: rat
  sc_maxOutputTokensPerCall :: rat
  sc_maxBytesPerToken :: rat
  sc_worstCaseTokensPerByte :: rat
  sc_provider :: string
  sc_model :: string

datatype spend_code = SPEND_CEILING_UNAUTHORISED | SPEND_CEILING_REFUSED_BEFORE_REQUEST | SPEND_CEILING_RATE_CARD_INVALID
  | SPEND_CEILING_IDENTITY_MISMATCH | SPEND_OUTPUT_BOUND_UNENFORCEABLE | SPEND_CEILING_RESUME_ABSENT | SPEND_CEILING_RESUME_WIDENED
  | SPEND_CEILING_RESUME_MISMATCH

datatype spend_admission = Spend_Ok rat | Spend_Refused spend_code string

definition positiveFinite :: "json option \<Rightarrow> rat option" where
  "positiveFinite v = (case v of Some (JNum q) \<Rightarrow> if 0 < q then Some q else None | _ \<Rightarrow> None)"

definition nonNegativeFinite :: "json option \<Rightarrow> rat option" where
  "nonNegativeFinite v = (case v of Some (JNum q) \<Rightarrow> if 0 \<le> q then Some q else None | _ \<Rightarrow> None)"

definition stated_text :: "json option \<Rightarrow> string option" where
  "stated_text v = (case v of Some (JStr s) \<Rightarrow> if trim s \<noteq> [] then Some s else None | _ \<Rightarrow> None)"

definition member_of :: "json option \<Rightarrow> string \<Rightarrow> json option" where
  "member_of v key = (case v of Some (JObj fs) \<Rightarrow> map_of fs key | _ \<Rightarrow> None)"

text \<open>The declaration a value denotes, when it passes the check.\<close>

definition validateSpendCeiling :: "json option \<Rightarrow> spend_ceiling option" where
  "validateSpendCeiling v =
     (if member_of v ''schemaVersion'' \<noteq> Some (JStr ''nightwatch.spend-ceiling.v1'') then None
      else case (positiveFinite (member_of v ''maxSpendUsd''),
             nonNegativeFinite (member_of (member_of v ''rateCard'') ''inputUsdPerMillionTokens''),
             nonNegativeFinite (member_of (member_of v ''rateCard'') ''outputUsdPerMillionTokens''),
             positiveFinite (member_of v ''maxOutputTokensPerCall''), positiveFinite (member_of v ''maxBytesPerToken''),
             positiveFinite (member_of v ''worstCaseTokensPerByte''), stated_text (member_of v ''provider''),
             stated_text (member_of v ''model'')) of
        (Some cap, Some inputRate, Some outputRate, Some tokens, Some bytes, Some worst, Some provider, Some model) \<Rightarrow>
          Some \<lparr>sc_maxSpendUsd = cap, sc_inputRate = inputRate, sc_outputRate = outputRate, sc_maxOutputTokensPerCall = tokens,
            sc_maxBytesPerToken = bytes, sc_worstCaseTokensPerByte = worst, sc_provider = provider, sc_model = model\<rparr>
      | _ \<Rightarrow> None)"

text \<open>The same check of a value of the declared type.\<close>

definition ceiling_valid :: "spend_ceiling \<Rightarrow> bool" where
  "ceiling_valid c = (0 < sc_maxSpendUsd c \<and> 0 \<le> sc_inputRate c \<and> 0 \<le> sc_outputRate c \<and> 0 < sc_maxOutputTokensPerCall c
     \<and> 0 < sc_maxBytesPerToken c \<and> 0 < sc_worstCaseTokensPerByte c \<and> trim (sc_provider c) \<noteq> [] \<and> trim (sc_model c) \<noteq> [])"

section \<open>Worst cases\<close>

definition worstCaseTokensForBytes :: "spend_ceiling \<Rightarrow> rat \<Rightarrow> rat" where
  "worstCaseTokensForBytes c bytes = max 0 bytes * sc_worstCaseTokensPerByte c"

definition tokenCostUsd :: "rat \<Rightarrow> rat \<Rightarrow> rat" where
  "tokenCostUsd tokens usdPerMillionTokens = (tokens / 1000000) * usdPerMillionTokens"

definition committedSpendUsd :: "spend_ceiling \<Rightarrow> rat \<Rightarrow> rat \<Rightarrow> rat" where
  "committedSpendUsd c committedInputBytes committedOutputBytes =
     tokenCostUsd (worstCaseTokensForBytes c committedInputBytes) (sc_inputRate c)
     + tokenCostUsd (worstCaseTokensForBytes c committedOutputBytes) (sc_outputRate c)"

definition worstCaseCallCostUsd :: "spend_ceiling \<Rightarrow> rat \<Rightarrow> rat" where
  "worstCaseCallCostUsd c requestBytes =
     tokenCostUsd (worstCaseTokensForBytes c requestBytes) (sc_inputRate c) + tokenCostUsd (sc_maxOutputTokensPerCall c) (sc_outputRate c)"

section \<open>Admissions\<close>

definition admitProviderCall :: "(rat \<Rightarrow> string) \<Rightarrow> spend_ceiling \<Rightarrow> rat \<Rightarrow> rat \<Rightarrow> rat \<Rightarrow> spend_admission" where
  "admitProviderCall fixed6 c requestBytes committedInputBytes committedOutputBytes =
     (if \<not> ceiling_valid c then Spend_Refused SPEND_CEILING_UNAUTHORISED ''the declared spend ceiling is malformed; no metered call may be dispatched''
      else if requestBytes < 0 \<or> committedInputBytes < 0 \<or> committedOutputBytes < 0
      then Spend_Refused SPEND_CEILING_REFUSED_BEFORE_REQUEST ''the request envelope or committed usage is not a finite non-negative byte count''
      else let projectedUsd = committedSpendUsd c committedInputBytes committedOutputBytes + worstCaseCallCostUsd c requestBytes
        in if sc_maxSpendUsd c < projectedUsd
           then Spend_Refused SPEND_CEILING_REFUSED_BEFORE_REQUEST (''worst-case projected spend '' @ fixed6 projectedUsd
                  @ '' USD would exceed the authorized ceiling '' @ fixed6 (sc_maxSpendUsd c) @ '' USD; the request was not dispatched'')
           else Spend_Ok projectedUsd)"

definition admitRunSpendCeiling :: "json option \<Rightarrow> spend_admission" where
  "admitRunSpendCeiling v = (case validateSpendCeiling v of
     None \<Rightarrow> Spend_Refused SPEND_CEILING_UNAUTHORISED
       ''a metered run requires a declared monetary ceiling (schema nightwatch.spend-ceiling.v1) before any provider call''
   | Some c \<Rightarrow> Spend_Ok 0)"

definition stated_identity :: "string option \<Rightarrow> string" where
  "stated_identity v = (case v of None \<Rightarrow> [] | Some s \<Rightarrow> trim s)"

definition admitSpendCeilingIdentity :: "spend_ceiling \<Rightarrow> string option \<Rightarrow> string option \<Rightarrow> spend_admission" where
  "admitSpendCeilingIdentity c provider model =
     (if \<not> ceiling_valid c then Spend_Refused SPEND_CEILING_UNAUTHORISED ''the declared spend ceiling is malformed''
      else if stated_identity provider = [] \<or> stated_identity model = []
      then Spend_Refused SPEND_CEILING_IDENTITY_MISMATCH
        ''the run identity is absent; a metered run must state the provider and model the ceiling authorizes''
      else if stated_identity provider \<noteq> sc_provider c \<or> stated_identity model \<noteq> sc_model c
      then Spend_Refused SPEND_CEILING_IDENTITY_MISMATCH
        ''the resolved run identity disagrees with the provider/model this ceiling authorizes; a substitution never inherits the authorization''
      else Spend_Ok 0)"

definition admitMeteredRunSpendCeiling :: "json option \<Rightarrow> string option \<Rightarrow> string option \<Rightarrow> string option \<Rightarrow> spend_admission" where
  "admitMeteredRunSpendCeiling v provider model accountSideHardStop = (case validateSpendCeiling v of
     None \<Rightarrow> Spend_Refused SPEND_CEILING_UNAUTHORISED
       ''a metered run requires a valid declared monetary ceiling (schema nightwatch.spend-ceiling.v1) before any provider call''
   | Some c \<Rightarrow>
       if \<not> 0 < sc_inputRate c \<or> \<not> 0 < sc_outputRate c
       then Spend_Refused SPEND_CEILING_RATE_CARD_INVALID
         ''a metered run requires a metered rate card with positive input and output rates; a zero-rate declaration never bypasses enforcement''
       else case admitSpendCeilingIdentity c provider model of
         Spend_Refused code detail \<Rightarrow> Spend_Refused code detail
       | Spend_Ok q \<Rightarrow>
           if stated_identity accountSideHardStop = []
           then Spend_Refused SPEND_OUTPUT_BOUND_UNENFORCEABLE
             ''the harness cannot cap output tokens on the wire, so a metered run requires the account-side hard stop with its evidence reference before any provider call''
           else Spend_Ok 0)"

definition ceiling_widened :: "spend_ceiling \<Rightarrow> spend_ceiling \<Rightarrow> bool" where
  "ceiling_widened before after = (sc_maxSpendUsd before < sc_maxSpendUsd after \<or> sc_inputRate after < sc_inputRate before
     \<or> sc_outputRate after < sc_outputRate before \<or> sc_maxOutputTokensPerCall before < sc_maxOutputTokensPerCall after
     \<or> sc_worstCaseTokensPerByte after < sc_worstCaseTokensPerByte before \<or> sc_maxBytesPerToken before < sc_maxBytesPerToken after)"

definition admitResumedSpendCeiling :: "json option \<Rightarrow> json option \<Rightarrow> spend_admission" where
  "admitResumedSpendCeiling persisted supplied = (case validateSpendCeiling persisted of
     None \<Rightarrow> Spend_Refused SPEND_CEILING_RESUME_ABSENT
       ''the checkpoint carries no valid monetary ceiling; a metered resume is refused rather than assumed unlimited''
   | Some before \<Rightarrow>
       if supplied = None \<or> supplied = Some JNull
       then Spend_Refused SPEND_CEILING_RESUME_ABSENT ''a metered resume must re-supply the declared monetary ceiling''
       else case validateSpendCeiling supplied of
         None \<Rightarrow> Spend_Refused SPEND_CEILING_UNAUTHORISED ''the resume declaration is malformed''
       | Some after \<Rightarrow>
           if sc_provider after \<noteq> sc_provider before \<or> sc_model after \<noteq> sc_model before
           then Spend_Refused SPEND_CEILING_RESUME_MISMATCH
             ''the resume declaration names a different provider/model than the persisted ceiling''
           else if ceiling_widened before after
           then Spend_Refused SPEND_CEILING_RESUME_WIDENED
             ''the resume declaration widens the persisted ceiling; a pause never resets or loosens the authorized limits''
           else Spend_Ok 0)"

section \<open>Declarations on disk\<close>

definition ceiling_json :: "spend_ceiling \<Rightarrow> json" where
  "ceiling_json c = JObj [(''schemaVersion'', JStr ''nightwatch.spend-ceiling.v1''), (''maxSpendUsd'', JNum (sc_maxSpendUsd c)),
     (''rateCard'', JObj [(''inputUsdPerMillionTokens'', JNum (sc_inputRate c)), (''outputUsdPerMillionTokens'', JNum (sc_outputRate c))]),
     (''maxOutputTokensPerCall'', JNum (sc_maxOutputTokensPerCall c)), (''maxBytesPerToken'', JNum (sc_maxBytesPerToken c)),
     (''worstCaseTokensPerByte'', JNum (sc_worstCaseTokensPerByte c)), (''provider'', JStr (sc_provider c)), (''model'', JStr (sc_model c))]"

lemma ceiling_roundtrip: "validateSpendCeiling (Some (ceiling_json c)) = (if ceiling_valid c then Some c else None)"
  by (cases c) (simp add: validateSpendCeiling_def ceiling_json_def member_of_def positiveFinite_def nonNegativeFinite_def stated_text_def
      ceiling_valid_def)

lemma resume_iff:
  "admitResumedSpendCeiling (Some (ceiling_json before)) (Some (ceiling_json after)) = Spend_Ok 0 \<longleftrightarrow>
   ceiling_valid before \<and> ceiling_valid after \<and> sc_provider after = sc_provider before \<and> sc_model after = sc_model before
   \<and> \<not> ceiling_widened before after"
proof -
  have "ceiling_json after \<noteq> JNull" by (simp add: ceiling_json_def)
  then show ?thesis by (auto simp: admitResumedSpendCeiling_def ceiling_roundtrip)
qed

section \<open>A metered campaign\<close>

text \<open>One call: the bytes of its request and of its answer (\<open>None\<close>: the driver threw), the tokens billed for it and the amount billed.\<close>

record metered_call =
  mt_requestBytes :: rat
  mt_answerBytes :: "rat option"
  mt_inputTokens :: rat
  mt_outputTokens :: rat
  mt_billed :: rat

text \<open>What a declaration says of the provider: tokens per request byte, output per call, rates.\<close>

definition as_declared :: "spend_ceiling \<Rightarrow> metered_call \<Rightarrow> bool" where
  "as_declared c m = (0 \<le> mt_requestBytes m \<and> (\<forall>b. mt_answerBytes m = Some b \<longrightarrow> 0 \<le> b)
     \<and> mt_inputTokens m \<le> mt_requestBytes m * sc_worstCaseTokensPerByte c \<and> mt_outputTokens m \<le> sc_maxOutputTokensPerCall c
     \<and> mt_billed m \<le> tokenCostUsd (mt_inputTokens m) (sc_inputRate c) + tokenCostUsd (mt_outputTokens m) (sc_outputRate c))"

definition received_bytes :: "metered_call \<Rightarrow> rat" where
  "received_bytes m = (case mt_answerBytes m of None \<Rightarrow> 0 | Some b \<Rightarrow> b)"

text \<open>The price of the output tokens billed beyond those the received bytes can account for.\<close>

definition escaped :: "spend_ceiling \<Rightarrow> metered_call \<Rightarrow> rat" where
  "escaped c m = tokenCostUsd (max 0 (mt_outputTokens m - worstCaseTokensForBytes c (received_bytes m))) (sc_outputRate c)"

record meter =
  me_inputBytes :: rat
  me_outputBytes :: rat
  me_billed :: rat

definition fresh_meter :: meter where
  "fresh_meter = \<lparr>me_inputBytes = 0, me_outputBytes = 0, me_billed = 0\<rparr>"

text \<open>The turn of the agent as far as money is concerned: an admitted request is charged and dispatched; then its answer is charged, with
  or without success, unless the driver throws. What the provider bills is outside the program.\<close>

definition meter_dispatch :: "(rat \<Rightarrow> string) \<Rightarrow> spend_ceiling \<Rightarrow> meter \<Rightarrow> rat \<Rightarrow> meter option" where
  "meter_dispatch fixed6 c st requestBytes = (case admitProviderCall fixed6 c requestBytes (me_inputBytes st) (me_outputBytes st) of
     Spend_Refused code detail \<Rightarrow> None
   | Spend_Ok projected \<Rightarrow> Some (st\<lparr>me_inputBytes := me_inputBytes st + requestBytes\<rparr>))"

definition meter_answer :: "meter \<Rightarrow> rat option \<Rightarrow> meter" where
  "meter_answer st answer = (case answer of None \<Rightarrow> st | Some bytes \<Rightarrow> st\<lparr>me_outputBytes := me_outputBytes st + bytes\<rparr>)"

definition meter_call :: "(rat \<Rightarrow> string) \<Rightarrow> spend_ceiling \<Rightarrow> meter \<Rightarrow> metered_call \<Rightarrow> meter" where
  "meter_call fixed6 c st m = (case meter_dispatch fixed6 c st (mt_requestBytes m) of
     None \<Rightarrow> st
   | Some sent \<Rightarrow> meter_answer (sent\<lparr>me_billed := me_billed sent + mt_billed m\<rparr>) (mt_answerBytes m))"

lemma meter_call_eq:
  "meter_call fixed6 c st m = (case admitProviderCall fixed6 c (mt_requestBytes m) (me_inputBytes st) (me_outputBytes st) of
     Spend_Refused code detail \<Rightarrow> st
   | Spend_Ok projected \<Rightarrow> \<lparr>me_inputBytes = me_inputBytes st + mt_requestBytes m, me_outputBytes = me_outputBytes st + received_bytes m,
       me_billed = me_billed st + mt_billed m\<rparr>)"
  by (simp add: meter_call_def meter_dispatch_def meter_answer_def received_bytes_def split: spend_admission.split option.split)

fun meter_segments :: "(rat \<Rightarrow> string) \<Rightarrow> meter \<Rightarrow> (spend_ceiling \<times> metered_call list) list \<Rightarrow> meter" where
  "meter_segments fixed6 st [] = st"
| "meter_segments fixed6 st ((c, calls) # rest) = meter_segments fixed6 (foldl (meter_call fixed6 c) st calls) rest"

definition escaped_calls :: "spend_ceiling \<Rightarrow> metered_call list \<Rightarrow> rat" where
  "escaped_calls c calls = sum_list (map (escaped c) calls)"

definition escaped_total :: "(spend_ceiling \<times> metered_call list) list \<Rightarrow> rat" where
  "escaped_total segs = sum_list (map (\<lambda>(c, calls). escaped_calls c calls) segs)"

text \<open>Every segment is admitted as a resume of the one before it.\<close>

fun resumed_chain :: "spend_ceiling \<Rightarrow> (spend_ceiling \<times> metered_call list) list \<Rightarrow> bool" where
  "resumed_chain before [] = True"
| "resumed_chain before ((c, calls) # rest) =
     (admitResumedSpendCeiling (Some (ceiling_json before)) (Some (ceiling_json c)) = Spend_Ok 0 \<and> resumed_chain c rest)"

text \<open>\<open>e\<close> is the price of what has escaped so far.\<close>

definition meter_ok :: "spend_ceiling \<Rightarrow> rat \<Rightarrow> meter \<Rightarrow> bool" where
  "meter_ok c e st = (0 \<le> me_inputBytes st \<and> 0 \<le> me_outputBytes st
     \<and> me_billed st \<le> committedSpendUsd c (me_inputBytes st) (me_outputBytes st) + e)"

lemma token_cost_mono: "t \<le> u \<Longrightarrow> 0 \<le> r \<Longrightarrow> tokenCostUsd t r \<le> tokenCostUsd u r"
  by (simp add: tokenCostUsd_def divide_right_mono mult_right_mono)

lemma token_cost_mono2: "t \<le> u \<Longrightarrow> r \<le> s \<Longrightarrow> 0 \<le> u \<Longrightarrow> 0 \<le> r \<Longrightarrow> tokenCostUsd t r \<le> tokenCostUsd u s"
  unfolding tokenCostUsd_def by (intro mult_mono divide_right_mono) simp_all

lemma token_cost_add: "tokenCostUsd (t + u) r = tokenCostUsd t r + tokenCostUsd u r"
  by (simp add: tokenCostUsd_def algebra_simps add_divide_distrib)

lemma committed_add:
  assumes "0 \<le> i" "0 \<le> j" "0 \<le> p" "0 \<le> q"
  shows "committedSpendUsd c (i + p) (j + q) = committedSpendUsd c i j + committedSpendUsd c p q"
  using assms by (simp add: committedSpendUsd_def tokenCostUsd_def worstCaseTokensForBytes_def algebra_simps add_divide_distrib)

lemma received_nonneg: "as_declared c m \<Longrightarrow> 0 \<le> received_bytes m"
  by (auto simp: as_declared_def received_bytes_def split: option.split)

lemma escaped_nonneg: "ceiling_valid c \<Longrightarrow> 0 \<le> escaped c m"
  by (simp add: escaped_def ceiling_valid_def tokenCostUsd_def)

lemma billed_bounds:
  assumes "ceiling_valid c" "as_declared c m"
  shows "mt_billed m \<le> committedSpendUsd c (mt_requestBytes m) (received_bytes m) + escaped c m"
    and "mt_billed m \<le> worstCaseCallCostUsd c (mt_requestBytes m)"
proof -
  have rate: "0 \<le> sc_outputRate c" using assms(1) by (simp add: ceiling_valid_def)
  have input: "tokenCostUsd (mt_inputTokens m) (sc_inputRate c) \<le> tokenCostUsd (worstCaseTokensForBytes c (mt_requestBytes m)) (sc_inputRate c)"
    using assms by (intro token_cost_mono) (simp_all add: as_declared_def ceiling_valid_def worstCaseTokensForBytes_def)
  have "tokenCostUsd (mt_outputTokens m) (sc_outputRate c)
      \<le> tokenCostUsd (worstCaseTokensForBytes c (received_bytes m) + max 0 (mt_outputTokens m - worstCaseTokensForBytes c (received_bytes m))) (sc_outputRate c)"
    by (rule token_cost_mono [OF _ rate]) simp
  then have out_cost: "tokenCostUsd (mt_outputTokens m) (sc_outputRate c)
      \<le> tokenCostUsd (worstCaseTokensForBytes c (received_bytes m)) (sc_outputRate c) + escaped c m"
    by (simp add: token_cost_add escaped_def)
  have "tokenCostUsd (mt_outputTokens m) (sc_outputRate c) \<le> tokenCostUsd (sc_maxOutputTokensPerCall c) (sc_outputRate c)"
    using assms(2) by (intro token_cost_mono [OF _ rate]) (simp add: as_declared_def)
  then show "mt_billed m \<le> committedSpendUsd c (mt_requestBytes m) (received_bytes m) + escaped c m"
    "mt_billed m \<le> worstCaseCallCostUsd c (mt_requestBytes m)"
    using input out_cost assms(2) received_nonneg [OF assms(2)] by (auto simp: as_declared_def committedSpendUsd_def worstCaseCallCostUsd_def)
qed

lemma metered_step:
  assumes "ceiling_valid c" "as_declared c m" "meter_ok c e st" "me_billed st \<le> cap + e" "sc_maxSpendUsd c \<le> cap"
  shows "meter_ok c (e + escaped c m) (meter_call fixed6 c st m) \<and> me_billed (meter_call fixed6 c st m) \<le> cap + (e + escaped c m)"
proof (cases "admitProviderCall fixed6 c (mt_requestBytes m) (me_inputBytes st) (me_outputBytes st)")
  case (Spend_Ok q)
  then have "committedSpendUsd c (me_inputBytes st) (me_outputBytes st) + worstCaseCallCostUsd c (mt_requestBytes m) \<le> sc_maxSpendUsd c"
    by (auto simp: admitProviderCall_def Let_def split: if_splits)
  moreover have "committedSpendUsd c (me_inputBytes st + mt_requestBytes m) (me_outputBytes st + received_bytes m)
      = committedSpendUsd c (me_inputBytes st) (me_outputBytes st) + committedSpendUsd c (mt_requestBytes m) (received_bytes m)"
    using assms(2,3) received_nonneg [OF assms(2)] by (intro committed_add) (auto simp: meter_ok_def as_declared_def)
  ultimately show ?thesis
    using billed_bounds [OF assms(1,2)] assms(2,3,5) Spend_Ok received_nonneg [OF assms(2)] escaped_nonneg [OF assms(1), of m]
    by (auto simp: meter_call_eq meter_ok_def as_declared_def)
qed (use assms escaped_nonneg [OF assms(1), of m] in \<open>simp add: meter_call_eq meter_ok_def\<close>)

lemma metered_calls:
  assumes "ceiling_valid c" "sc_maxSpendUsd c \<le> cap" "list_all (as_declared c) calls" "meter_ok c e st" "me_billed st \<le> cap + e"
  shows "meter_ok c (e + escaped_calls c calls) (foldl (meter_call fixed6 c) st calls)
    \<and> me_billed (foldl (meter_call fixed6 c) st calls) \<le> cap + (e + escaped_calls c calls)"
  using assms(3-5)
proof (induction calls arbitrary: st e)
  case (Cons m calls)
  then show ?case using metered_step [OF assms(1), of m e st cap fixed6] assms(2) Cons.IH [of "e + escaped c m" "meter_call fixed6 c st m"]
    by (simp add: escaped_calls_def add.assoc)
qed (simp add: escaped_calls_def)

lemma committed_tightened:
  assumes "ceiling_valid before" "\<not> ceiling_widened before after" "meter_ok before e st"
  shows "meter_ok after e st"
proof -
  have "committedSpendUsd before (me_inputBytes st) (me_outputBytes st) \<le> committedSpendUsd after (me_inputBytes st) (me_outputBytes st)"
    unfolding committedSpendUsd_def worstCaseTokensForBytes_def using assms
    by (intro add_mono token_cost_mono2 mult_left_mono)
      (auto simp: ceiling_valid_def ceiling_widened_def meter_ok_def not_less intro: order_trans)
  then show ?thesis using assms(3) by (auto simp: meter_ok_def)
qed

lemma resumed_segments:
  assumes "resumed_chain before segs" "list_all (\<lambda>(c, calls). list_all (as_declared c) calls) segs" "ceiling_valid before"
    "meter_ok before e st" "me_billed st \<le> cap + e" "sc_maxSpendUsd before \<le> cap"
  shows "me_billed (meter_segments fixed6 st segs) \<le> cap + (e + escaped_total segs)"
  using assms
proof (induction segs arbitrary: before st e)
  case (Cons seg segs)
  obtain c calls where seg: "seg = (c, calls)" by force
  have c: "ceiling_valid c" "\<not> ceiling_widened before c" using Cons.prems(1) by (auto simp: seg resume_iff)
  have cap: "sc_maxSpendUsd c \<le> cap" using c(2) Cons.prems(6) by (simp add: ceiling_widened_def)
  have ok: "meter_ok c e st" by (rule committed_tightened [OF Cons.prems(3) c(2) Cons.prems(4)])
  show ?case using Cons.IH [of c "e + escaped_calls c calls"] Cons.prems metered_calls [OF c(1) cap _ ok Cons.prems(5)] c(1) cap
    by (simp add: seg escaped_total_def add.assoc)
qed (simp add: escaped_total_def)

text \<open>C37: however often a metered campaign is paused and resumed, as long as the provider keeps to what each declaration says of it (tokens
  per request byte, output per call, rates), the amount billed for all dispatched calls exceeds the first declared cap at most by the
  price of the output that was billed beyond what the received bytes account for. If there is no such output, the cap is kept.\<close>

theorem campaign_spend_within_ceiling:
  assumes "ceiling_valid c" "list_all (as_declared c) calls" "resumed_chain c segs" "list_all (\<lambda>(d, more). list_all (as_declared d) more) segs"
  shows "me_billed (meter_segments fixed6 fresh_meter ((c, calls) # segs)) \<le> sc_maxSpendUsd c + escaped_total ((c, calls) # segs)"
proof -
  have "meter_ok c 0 fresh_meter" "me_billed fresh_meter \<le> sc_maxSpendUsd c + 0"
    using assms(1) by (simp_all add: meter_ok_def fresh_meter_def ceiling_valid_def committedSpendUsd_def worstCaseTokensForBytes_def tokenCostUsd_def)
  from metered_calls [OF assms(1) order_refl assms(2) this] show ?thesis
    using resumed_segments [OF assms(3,4,1)] by (simp add: escaped_total_def)
qed

definition sample_ceiling :: "rat \<Rightarrow> spend_ceiling" where
  "sample_ceiling cap = \<lparr>sc_maxSpendUsd = cap, sc_inputRate = 1, sc_outputRate = 2, sc_maxOutputTokensPerCall = 500000, sc_maxBytesPerToken = 8,
     sc_worstCaseTokensPerByte = 1, sc_provider = ''p'', sc_model = ''m''\<rparr>"

definition sample_call :: metered_call where
  "sample_call = \<lparr>mt_requestBytes = 1000, mt_answerBytes = Some 500000, mt_inputTokens = 300, mt_outputTokens = 500000, mt_billed = 1\<rparr>"

lemma sample_ceiling_valid: "0 < cap \<Longrightarrow> ceiling_valid (sample_ceiling cap)"
  by (simp add: ceiling_valid_def sample_ceiling_def trim_def is_space_def code_unit_def)

theorem campaign_spend_within_ceiling_witness:
  "me_billed (meter_segments (\<lambda>q. []) fresh_meter [(sample_ceiling 5, [sample_call, sample_call]), (sample_ceiling 3, [sample_call, sample_call])])
     \<le> sc_maxSpendUsd (sample_ceiling 5)"
proof -
  have "me_billed (meter_segments (\<lambda>q. []) fresh_meter [(sample_ceiling 5, [sample_call, sample_call]), (sample_ceiling 3, [sample_call, sample_call])])
     \<le> sc_maxSpendUsd (sample_ceiling 5) + escaped_total [(sample_ceiling 5, [sample_call, sample_call]), (sample_ceiling 3, [sample_call, sample_call])]"
  proof (rule campaign_spend_within_ceiling)
    show "ceiling_valid (sample_ceiling 5)" by (rule sample_ceiling_valid) simp
    show "list_all (as_declared (sample_ceiling 5)) [sample_call, sample_call]"
      "list_all (\<lambda>(d, more). list_all (as_declared d) more) [(sample_ceiling 3, [sample_call, sample_call])]"
      by (simp_all add: as_declared_def sample_ceiling_def sample_call_def tokenCostUsd_def)
    have "\<not> ceiling_widened (sample_ceiling 5) (sample_ceiling 3)" by (simp add: ceiling_widened_def sample_ceiling_def)
    then show "resumed_chain (sample_ceiling 5) [(sample_ceiling 3, [sample_call, sample_call])]"
      using sample_ceiling_valid [of 5] sample_ceiling_valid [of 3] by (simp add: resume_iff) (simp add: sample_ceiling_def)
  qed
  moreover have "escaped_total [(sample_ceiling 5, [sample_call, sample_call]), (sample_ceiling 3, [sample_call, sample_call])] = 0"
    by (simp add: escaped_total_def escaped_calls_def escaped_def sample_call_def sample_ceiling_def received_bytes_def worstCaseTokensForBytes_def tokenCostUsd_def)
  ultimately show ?thesis by simp
qed

text \<open>The bound is sharp: output that is billed and never arrives (a driver that throws on a timeout) is not charged, so such calls are
  admitted for ever, each as the declaration describes it.\<close>

definition silent_call :: metered_call where
  "silent_call = \<lparr>mt_requestBytes = 0, mt_answerBytes = None, mt_inputTokens = 0, mt_outputTokens = 500000, mt_billed = 1\<rparr>"

lemma silent_calls_escape:
  "me_billed (foldl (meter_call fixed6 (sample_ceiling 5)) fresh_meter (replicate n silent_call)) = of_nat n
   \<and> as_declared (sample_ceiling 5) silent_call \<and> escaped (sample_ceiling 5) silent_call = mt_billed silent_call"
proof -
  have valid: "ceiling_valid (sample_ceiling 5)" by (rule sample_ceiling_valid) simp
  have silent: "received_bytes silent_call = 0" "mt_requestBytes silent_call = 0" "mt_billed silent_call = 1"
    by (simp_all add: received_bytes_def silent_call_def)
  have "worstCaseCallCostUsd (sample_ceiling 5) 0 = 1" "committedSpendUsd (sample_ceiling 5) 0 0 = 0" "sc_maxSpendUsd (sample_ceiling 5) = 5"
    by (simp_all add: sample_ceiling_def committedSpendUsd_def worstCaseCallCostUsd_def worstCaseTokensForBytes_def tokenCostUsd_def)
  then have step: "meter_call fixed6 (sample_ceiling 5) \<lparr>me_inputBytes = 0, me_outputBytes = 0, me_billed = q\<rparr> silent_call
      = \<lparr>me_inputBytes = 0, me_outputBytes = 0, me_billed = q + 1\<rparr>" for q
    using valid by (simp add: meter_call_eq admitProviderCall_def silent)
  have "foldl (meter_call fixed6 (sample_ceiling 5)) \<lparr>me_inputBytes = 0, me_outputBytes = 0, me_billed = q\<rparr> (replicate n silent_call)
      = \<lparr>me_inputBytes = 0, me_outputBytes = 0, me_billed = q + of_nat n\<rparr>" for q
    by (induction n arbitrary: q) (simp_all add: step)
  then show ?thesis
    by (simp add: fresh_meter_def) (simp add: as_declared_def escaped_def received_bytes_def sample_ceiling_def silent_call_def worstCaseTokensForBytes_def tokenCostUsd_def)
qed

text \<open>A declared identity with blanks around it is valid, and no run can ever agree with it.\<close>

lemma trim_trim: "trim (trim s) = trim s"
proof -
  let ?t = "dropWhile is_space s"
  let ?u = "dropWhile is_space (rev ?t)"
  have "dropWhile is_space (rev ?u) = rev ?u"
  proof (cases "?u = []")
    case False
    obtain v where v: "rev ?t = v @ ?u" by (metis takeWhile_dropWhile_id)
    then have t: "?t = rev ?u @ rev v" by (metis rev_append rev_rev_ident)
    have "?t \<noteq> []" by (metis False dropWhile.simps(1) rev.simps(1))
    then have "\<not> is_space (hd ?t)" by (rule hd_dropWhile)
    moreover obtain x w where w: "rev ?u = x # w" using False by (cases "rev ?u") (simp_all only: rev_is_Nil_conv)
    moreover have "hd ?t = x" using t unfolding w by (metis append_Cons list.sel(1))
    ultimately show ?thesis by simp
  next
    case True
    show ?thesis unfolding True by simp
  qed
  moreover have "dropWhile is_space ?u = ?u" by (rule dropWhile_idem)
  ultimately show ?thesis by (simp add: trim_def)
qed

lemma padded_identity_never_agrees:
  assumes "trim (sc_provider c) \<noteq> sc_provider c"
  shows "admitSpendCeilingIdentity c provider model \<noteq> Spend_Ok q"
proof -
  have "stated_identity provider \<noteq> sc_provider c"
  proof
    assume "stated_identity provider = sc_provider c"
    then have "trim (stated_identity provider) \<noteq> stated_identity provider" using assms by simp
    then show False using trim_trim by (cases provider) (simp_all add: stated_identity_def trim_def [of "[]"])
  qed
  then show ?thesis by (simp add: admitSpendCeilingIdentity_def)
qed

end
