(* ===== verification/Provider_Failover.thy ===== *)
theory Provider_Failover imports Agent_Spend begin

text \<open>
  The failover engine of \<open>src/core/currentSourceYield/providerResilience.ts\<close>: \<open>replayProviderFailures\<close>
  as a fold over the failure events, one step per event, with what a transition rests on.
\<close>

section \<open>Policies, events, transitions\<close>

record resilience_policy =
  rs_candidates :: "string list"
  rs_eligible :: "string list"
  rs_thresholds :: "(string \<times> int) list"
  rs_maxTransitions :: int
  rs_recoveryPermitted :: bool
  rs_recoveryProviders :: "string list option"

record failure_event =
  fe_class :: string
  fe_atEvent :: int

datatype transition_reason = FAILOVER_ELIGIBLE_THRESHOLD | RECOVERY_EXPLICIT_POLICY

record provider_transition =
  pv_sequence :: nat
  pv_atEvent :: int
  pv_from :: string
  pv_to :: string
  pv_triggerClass :: string
  pv_reason :: transition_reason

record failover =
  fo_activeIndex :: nat
  fo_streakClass :: "string option"
  fo_streakCount :: nat
  fo_used :: nat
  fo_exhausted :: bool
  fo_degraded :: "string list"
  fo_transitions :: "provider_transition list"
  fo_failures :: "(string \<times> (string \<times> nat) list) list"

record failover_replay =
  fr_transitions :: "provider_transition list"
  fr_activeProvider :: string
  fr_degradedProviders :: "string list"
  fr_exhausted :: bool
  fr_totalTransitions :: nat
  fr_failuresByProvider :: "(string \<times> (string \<times> nat) list) list"

section \<open>One event\<close>

definition candidate_at :: "resilience_policy \<Rightarrow> nat \<Rightarrow> string" where
  "candidate_at p i = (if i < length (rs_candidates p) then rs_candidates p ! i else [])"

definition bump :: "string \<Rightarrow> string \<Rightarrow> failover \<Rightarrow> failover" where
  "bump provider failureClass st =
     (let byClass = (case map_get (fo_failures st) provider of None \<Rightarrow> [] | Some m \<Rightarrow> m);
          seen = (case map_get byClass failureClass of None \<Rightarrow> 0 | Some n \<Rightarrow> n)
      in st\<lparr>fo_failures := map_set (fo_failures st) provider (map_set byClass failureClass (seen + 1))\<rparr>)"

text \<open>\<open>None\<close> is no threshold at all (infinity).\<close>

definition failover_threshold :: "resilience_policy \<Rightarrow> string \<Rightarrow> int option" where
  "failover_threshold p c = (case map_of (rs_thresholds p) c of Some n \<Rightarrow> Some n | None \<Rightarrow> map_of (rs_thresholds p) ''DEFAULT'')"

definition reset_streak :: "failover \<Rightarrow> failover" where
  "reset_streak st = st\<lparr>fo_streakClass := None, fo_streakCount := 0\<rparr>"

definition extend_streak :: "string \<Rightarrow> failover \<Rightarrow> failover" where
  "extend_streak c st = (if fo_streakClass st = Some c then st\<lparr>fo_streakCount := fo_streakCount st + 1\<rparr>
     else st\<lparr>fo_streakClass := Some c, fo_streakCount := 1\<rparr>)"

definition streak_reached :: "resilience_policy \<Rightarrow> string \<Rightarrow> nat \<Rightarrow> bool" where
  "streak_reached p c n = (case failover_threshold p c of None \<Rightarrow> False | Some limit \<Rightarrow> limit \<le> int n)"

definition degrade :: "string \<Rightarrow> failover \<Rightarrow> failover" where
  "degrade provider st = (if provider \<in> set (fo_degraded st) then st else st\<lparr>fo_degraded := fo_degraded st @ [provider]\<rparr>)"

definition move_to :: "resilience_policy \<Rightarrow> failure_event \<Rightarrow> transition_reason \<Rightarrow> nat \<Rightarrow> failover \<Rightarrow> failover" where
  "move_to p e reason i st = reset_streak (st\<lparr>fo_transitions := fo_transitions st @ [\<lparr>pv_sequence = length (fo_transitions st) + 1,
       pv_atEvent = fe_atEvent e, pv_from = candidate_at p (fo_activeIndex st), pv_to = candidate_at p i, pv_triggerClass = fe_class e,
       pv_reason = reason\<rparr>], fo_activeIndex := i, fo_used := fo_used st + 1\<rparr>)"

definition recoverable :: "resilience_policy \<Rightarrow> failover \<Rightarrow> nat option" where
  "recoverable p st =
     (let permitted = (if rs_recoveryPermitted p then (case rs_recoveryProviders p of None \<Rightarrow> [] | Some ps \<Rightarrow> ps) else [])
      in find (\<lambda>i. i \<noteq> fo_activeIndex st \<and> candidate_at p i \<in> set (fo_degraded st) \<and> candidate_at p i \<in> set permitted)
           [0..<length (rs_candidates p)])"

definition leave_provider :: "resilience_policy \<Rightarrow> failure_event \<Rightarrow> failover \<Rightarrow> failover" where
  "leave_provider p e st =
     (let st1 = degrade (candidate_at p (fo_activeIndex st)) st; nextIndex = fo_activeIndex st1 + 1; room = int (fo_used st1) < rs_maxTransitions p
      in if nextIndex < length (rs_candidates p) \<and> room then move_to p e FAILOVER_ELIGIBLE_THRESHOLD nextIndex st1
         else case recoverable p st1 of
           Some i \<Rightarrow> if room then move_to p e RECOVERY_EXPLICIT_POLICY i st1 else st1\<lparr>fo_exhausted := True\<rparr>
         | None \<Rightarrow> st1\<lparr>fo_exhausted := True\<rparr>)"

definition failover_step :: "resilience_policy \<Rightarrow> failover \<Rightarrow> failure_event \<Rightarrow> failover" where
  "failover_step p st e =
     (let st1 = bump (candidate_at p (fo_activeIndex st)) (fe_class e) st
      in if fo_exhausted st1 then st1
         else if fe_class e = ''VALID_PROVIDER_RESPONSE'' then reset_streak st1
         else if fe_class e \<notin> set (rs_eligible p) then reset_streak st1
         else let st2 = extend_streak (fe_class e) st1
           in if streak_reached p (fe_class e) (fo_streakCount st2) then leave_provider p e st2 else st2)"

section \<open>A replay\<close>

definition fresh_failover :: failover where
  "fresh_failover = \<lparr>fo_activeIndex = 0, fo_streakClass = None, fo_streakCount = 0, fo_used = 0, fo_exhausted = False, fo_degraded = [],
     fo_transitions = [], fo_failures = []\<rparr>"

definition failover_run :: "resilience_policy \<Rightarrow> failure_event list \<Rightarrow> failover" where
  "failover_run p es = foldl (failover_step p) fresh_failover es"

definition replayProviderFailures :: "resilience_policy \<Rightarrow> failure_event list \<Rightarrow> failover_replay" where
  "replayProviderFailures p es =
     (let st = failover_run p es
      in \<lparr>fr_transitions = fo_transitions st, fr_activeProvider = candidate_at p (fo_activeIndex st),
          fr_degradedProviders = sort_by str_le (fo_degraded st), fr_exhausted = fo_exhausted st,
          fr_totalTransitions = length (fo_transitions st), fr_failuresByProvider = fo_failures st\<rparr>)"

section \<open>The trail of transitions\<close>

fun chained :: "string \<Rightarrow> provider_transition list \<Rightarrow> string \<Rightarrow> bool" where
  "chained a [] b = (a = b)"
| "chained a (t # ts) b = (pv_from t = a \<and> chained (pv_to t) ts b)"

lemma chained_snoc: "chained a (ts @ [t]) b \<longleftrightarrow> chained a ts (pv_from t) \<and> pv_to t = b"
  by (induction ts arbitrary: a) auto

definition failures_seen :: "(string \<times> (string \<times> nat) list) list \<Rightarrow> nat" where
  "failures_seen m = sum_list (map (\<lambda>(provider, byClass). sum_list (map snd byClass)) m)"

text \<open>The state between events.\<close>

definition trail_ok :: "resilience_policy \<Rightarrow> failover \<Rightarrow> bool" where
  "trail_ok p st = (chained (candidate_at p 0) (fo_transitions st) (candidate_at p (fo_activeIndex st))
     \<and> fo_used st = length (fo_transitions st) \<and> int (fo_used st) \<le> max 0 (rs_maxTransitions p)
     \<and> map pv_sequence (fo_transitions st) = [1..<Suc (length (fo_transitions st))])"

lemma failover_fields [simp]:
  "fo_transitions (bump a c st) = fo_transitions st" "fo_activeIndex (bump a c st) = fo_activeIndex st" "fo_used (bump a c st) = fo_used st"
  "fo_exhausted (bump a c st) = fo_exhausted st" "fo_streakClass (bump a c st) = fo_streakClass st" "fo_streakCount (bump a c st) = fo_streakCount st"
  "fo_transitions (reset_streak st) = fo_transitions st" "fo_activeIndex (reset_streak st) = fo_activeIndex st" "fo_used (reset_streak st) = fo_used st"
  "fo_failures (reset_streak st) = fo_failures st" "fo_exhausted (reset_streak st) = fo_exhausted st"
  "fo_streakClass (reset_streak st) = None" "fo_streakCount (reset_streak st) = 0"
  "fo_transitions (extend_streak c st) = fo_transitions st" "fo_activeIndex (extend_streak c st) = fo_activeIndex st"
  "fo_used (extend_streak c st) = fo_used st" "fo_failures (extend_streak c st) = fo_failures st" "fo_exhausted (extend_streak c st) = fo_exhausted st"
  "fo_streakClass (extend_streak c st) = Some c"
  "fo_streakCount (extend_streak c st) = (if fo_streakClass st = Some c then fo_streakCount st + 1 else 1)"
  "fo_transitions (degrade a st) = fo_transitions st" "fo_activeIndex (degrade a st) = fo_activeIndex st" "fo_used (degrade a st) = fo_used st"
  "fo_failures (degrade a st) = fo_failures st" "fo_exhausted (degrade a st) = fo_exhausted st" "fo_streakClass (degrade a st) = fo_streakClass st"
  "fo_streakCount (degrade a st) = fo_streakCount st"
  by (simp_all add: bump_def reset_streak_def extend_streak_def degrade_def Let_def)

text \<open>Leaving a provider moves to another one or ends the replay.\<close>

lemma leave_provider_cases:
  obtains reason i where "leave_provider p e st = move_to p e reason i (degrade (candidate_at p (fo_activeIndex st)) st)" "int (fo_used st) < rs_maxTransitions p"
  | "leave_provider p e st = (degrade (candidate_at p (fo_activeIndex st)) st)\<lparr>fo_exhausted := True\<rparr>"
proof (cases "int (fo_used st) < rs_maxTransitions p")
  case room: True
  let ?st1 = "degrade (candidate_at p (fo_activeIndex st)) st"
  show ?thesis
  proof (cases "fo_activeIndex st + 1 < length (rs_candidates p)")
    case True
    then show ?thesis using that(1) [of FAILOVER_ELIGIBLE_THRESHOLD "fo_activeIndex st + 1"] room by (simp add: leave_provider_def)
  next
    case False
    then show ?thesis using that(1) [of RECOVERY_EXPLICIT_POLICY] that(2) room
      by (cases "recoverable p ?st1") (simp_all add: leave_provider_def)
  qed
next
  case False
  then show ?thesis using that(2) by (cases "recoverable p (degrade (candidate_at p (fo_activeIndex st)) st)") (simp_all add: leave_provider_def)
qed

lemma trail_leave: "trail_ok p st \<Longrightarrow> trail_ok p (leave_provider p e st)"
  by (cases rule: leave_provider_cases [of p e st]) (auto simp: trail_ok_def move_to_def chained_snoc)

lemma trail_unmoved [simp]: "trail_ok p (bump a c st) = trail_ok p st" "trail_ok p (reset_streak st) = trail_ok p st"
  "trail_ok p (extend_streak c st) = trail_ok p st"
  by (simp_all add: trail_ok_def)

text \<open>What one event can do: nothing but counting and the streak, or leaving the provider at the threshold.\<close>

lemma failover_step_cases:
  obtains "fo_exhausted st" "failover_step p st e = bump (candidate_at p (fo_activeIndex st)) (fe_class e) st"
  | "\<not> fo_exhausted st" "fe_class e = ''VALID_PROVIDER_RESPONSE'' \<or> fe_class e \<notin> set (rs_eligible p)"
    "failover_step p st e = reset_streak (bump (candidate_at p (fo_activeIndex st)) (fe_class e) st)"
  | st2 where "\<not> fo_exhausted st" "fe_class e \<noteq> ''VALID_PROVIDER_RESPONSE''" "fe_class e \<in> set (rs_eligible p)"
    "st2 = extend_streak (fe_class e) (bump (candidate_at p (fo_activeIndex st)) (fe_class e) st)"
    "failover_step p st e = (if streak_reached p (fe_class e) (fo_streakCount st2) then leave_provider p e st2 else st2)"
proof -
  let ?st1 = "bump (candidate_at p (fo_activeIndex st)) (fe_class e) st"
  show ?thesis
  proof (cases "fo_exhausted st")
    case True
    then show ?thesis using that(1) by (simp add: failover_step_def)
  next
    case live: False
    show ?thesis
    proof (cases "fe_class e = ''VALID_PROVIDER_RESPONSE'' \<or> fe_class e \<notin> set (rs_eligible p)")
      case True
      then show ?thesis using that(2) live by (auto simp: failover_step_def Let_def)
    next
      case False
      then show ?thesis using that(3) [of "extend_streak (fe_class e) ?st1"] live by (simp add: failover_step_def Let_def)
    qed
  qed
qed

lemma trail_step: "trail_ok p st \<Longrightarrow> trail_ok p (failover_step p st e)"
proof (cases rule: failover_step_cases [of st p e])
  case (3 st2)
  assume "trail_ok p st"
  then have "trail_ok p st2" by (simp add: 3(4))
  then show ?thesis using trail_leave by (simp add: 3(5))
qed simp_all

lemma trail_run: "trail_ok p (failover_run p es)"
proof -
  have "trail_ok p st \<Longrightarrow> trail_ok p (foldl (failover_step p) st es)" for st
    by (induction es arbitrary: st) (simp_all add: trail_step)
  moreover have "trail_ok p fresh_failover" by (simp add: trail_ok_def fresh_failover_def)
  ultimately show ?thesis by (simp add: failover_run_def)
qed

section \<open>Every event is counted\<close>

lemma sum_map_set:
  "sum_list (map (\<lambda>(k, v). f v) (map_set m k v)) + (case map_get m k of None \<Rightarrow> 0 | Some w \<Rightarrow> f w) = sum_list (map (\<lambda>(k, v). f v) m) + f v"
  for f :: "'a \<Rightarrow> nat"
  unfolding map_set_def map_get_def by (induction m) (auto split: option.split)

lemma failures_bumped: "failures_seen (fo_failures (bump a c st)) = failures_seen (fo_failures st) + 1"
proof -
  define byClass where "byClass = (case map_get (fo_failures st) a of None \<Rightarrow> [] | Some m \<Rightarrow> m)"
  define seen where "seen = (case map_get byClass c of None \<Rightarrow> 0 | Some n \<Rightarrow> n)"
  define total where "total m = sum_list (map (\<lambda>(k, v). v) m)" for m :: "(string \<times> nat) list"
  have total: "total = (\<lambda>m. sum_list (map snd m))" by (intro ext) (simp add: total_def split_def)
  have inner: "total (map_set byClass c (seen + 1)) = total byClass + 1"
    using sum_map_set [of "\<lambda>n. n" byClass c "seen + 1"] by (simp add: total_def seen_def split: option.splits)
  have "failures_seen (map_set (fo_failures st) a (map_set byClass c (seen + 1)))
      + (case map_get (fo_failures st) a of None \<Rightarrow> 0 | Some m \<Rightarrow> total m) = failures_seen (fo_failures st) + total (map_set byClass c (seen + 1))"
    using sum_map_set [of total "fo_failures st" a "map_set byClass c (seen + 1)"] by (simp add: failures_seen_def total)
  moreover have "(case map_get (fo_failures st) a of None \<Rightarrow> 0 | Some m \<Rightarrow> total m) = total byClass"
    by (simp add: byClass_def total split: option.split)
  ultimately show ?thesis using inner by (simp add: bump_def byClass_def seen_def Let_def)
qed

lemma failures_step: "failures_seen (fo_failures (failover_step p st e)) = failures_seen (fo_failures st) + 1"
proof (cases rule: failover_step_cases [of st p e])
  case (3 st2)
  have "fo_failures (leave_provider p e st2) = fo_failures st2"
    by (cases rule: leave_provider_cases [of p e st2]) (simp_all add: move_to_def)
  then show ?thesis by (simp add: 3(4,5) failures_bumped)
qed (simp_all add: failures_bumped)

lemma failures_run: "failures_seen (fo_failures (failover_run p es)) = length es"
proof -
  have "failures_seen (fo_failures (foldl (failover_step p) st es)) = failures_seen (fo_failures st) + length es" for st
    by (induction es arbitrary: st) (simp_all add: failures_step)
  then show ?thesis by (simp add: failover_run_def fresh_failover_def failures_seen_def)
qed

section \<open>Exhaustion\<close>

lemma exhausted_stays:
  "fo_exhausted st \<Longrightarrow> fo_exhausted (foldl (failover_step p) st es) \<and> fo_transitions (foldl (failover_step p) st es) = fo_transitions st
     \<and> fo_activeIndex (foldl (failover_step p) st es) = fo_activeIndex st"
  by (induction es arbitrary: st) (simp_all add: failover_step_def Let_def)

text \<open>C38: whatever failures arrive, the transitions form one unbroken numbered chain from the first candidate to the active provider,
  no more of them than the policy permits; every event is counted once; and once the replay is exhausted nothing moves any more.\<close>

theorem failover_trail:
  "chained (candidate_at p 0) (fr_transitions (replayProviderFailures p es)) (fr_activeProvider (replayProviderFailures p es))
   \<and> int (fr_totalTransitions (replayProviderFailures p es)) \<le> max 0 (rs_maxTransitions p)
   \<and> map pv_sequence (fr_transitions (replayProviderFailures p es)) = [1..<Suc (fr_totalTransitions (replayProviderFailures p es))]
   \<and> failures_seen (fr_failuresByProvider (replayProviderFailures p es)) = length es
   \<and> (fr_exhausted (replayProviderFailures p es) \<longrightarrow>
        fr_transitions (replayProviderFailures p (es @ later)) = fr_transitions (replayProviderFailures p es)
        \<and> fr_activeProvider (replayProviderFailures p (es @ later)) = fr_activeProvider (replayProviderFailures p es))"
proof -
  have "failover_run p (es @ later) = foldl (failover_step p) (failover_run p es) later" by (simp add: failover_run_def)
  then show ?thesis using trail_run [of p es] failures_run [of p es] exhausted_stays [of "failover_run p es" p later]
    by (auto simp: replayProviderFailures_def trail_ok_def Let_def)
qed

section \<open>What a transition rests on\<close>

text \<open>\<open>seg\<close> are the events since the transition before: it ends with as many failures of the trigger class in a row as its threshold.\<close>

definition completes_streak :: "resilience_policy \<Rightarrow> failure_event list \<Rightarrow> provider_transition \<Rightarrow> bool" where
  "completes_streak p seg t = (\<exists>pre run e. seg = pre @ run @ [e] \<and> list_all (\<lambda>x. fe_class x = pv_triggerClass t) (run @ [e])
     \<and> fe_atEvent e = pv_atEvent t \<and> streak_reached p (pv_triggerClass t) (length run + 1)
     \<and> pv_triggerClass t \<in> set (rs_eligible p) \<and> pv_triggerClass t \<noteq> ''VALID_PROVIDER_RESPONSE'')"

definition move_permitted :: "resilience_policy \<Rightarrow> provider_transition \<Rightarrow> bool" where
  "move_permitted p t = (case pv_reason t of
     FAILOVER_ELIGIBLE_THRESHOLD \<Rightarrow> (\<exists>i. Suc i < length (rs_candidates p) \<and> pv_from t = rs_candidates p ! i \<and> pv_to t = rs_candidates p ! Suc i)
   | RECOVERY_EXPLICIT_POLICY \<Rightarrow> rs_recoveryPermitted p \<and> pv_to t \<in> set (rs_candidates p)
       \<and> (case rs_recoveryProviders p of None \<Rightarrow> False | Some ps \<Rightarrow> pv_to t \<in> set ps))"

lemma recoverable_sound:
  assumes "recoverable p st = Some i"
  shows "i < length (rs_candidates p) \<and> rs_recoveryPermitted p \<and> (\<exists>ps. rs_recoveryProviders p = Some ps \<and> candidate_at p i \<in> set ps)"
proof -
  let ?permitted = "if rs_recoveryPermitted p then (case rs_recoveryProviders p of None \<Rightarrow> [] | Some ps \<Rightarrow> ps) else []"
  have found: "find (\<lambda>i. i \<noteq> fo_activeIndex st \<and> candidate_at p i \<in> set (fo_degraded st) \<and> candidate_at p i \<in> set ?permitted)
      [0..<length (rs_candidates p)] = Some i"
    using assms unfolding recoverable_def Let_def .
  then obtain us vs where split: "[0..<length (rs_candidates p)] = us @ i # vs" and permitted: "candidate_at p i \<in> set ?permitted"
    unfolding find_split by blast
  have "i \<in> set [0..<length (rs_candidates p)]" unfolding split by (rule in_set_conv_decomp [THEN iffD2]) blast
  moreover have "rs_recoveryPermitted p" using permitted by (rule contrapos_pp) simp
  ultimately show ?thesis using permitted by (cases "rs_recoveryProviders p") simp_all
qed

lemma leave_transitions:
  "(leave_provider p e st = (degrade (candidate_at p (fo_activeIndex st)) st)\<lparr>fo_exhausted := True\<rparr>)
   \<or> (\<exists>t. fo_transitions (leave_provider p e st) = fo_transitions st @ [t] \<and> pv_triggerClass t = fe_class e \<and> pv_atEvent t = fe_atEvent e
       \<and> move_permitted p t \<and> fo_streakCount (leave_provider p e st) = 0)"
proof -
  let ?st1 = "degrade (candidate_at p (fo_activeIndex st)) st"
  show ?thesis
  proof (cases "fo_activeIndex st + 1 < length (rs_candidates p) \<and> int (fo_used st) < rs_maxTransitions p")
    case True
    then have "leave_provider p e st = move_to p e FAILOVER_ELIGIBLE_THRESHOLD (fo_activeIndex st + 1) ?st1" by (simp add: leave_provider_def)
    then show ?thesis using True by (intro disjI2) (auto simp: move_to_def move_permitted_def candidate_at_def)
  next
    case no_next: False
    show ?thesis
    proof (cases "recoverable p ?st1")
      case None
      then show ?thesis using no_next by (auto simp: leave_provider_def Let_def)
    next
      case (Some i)
      note sound = recoverable_sound [OF Some]
      show ?thesis
      proof (cases "int (fo_used st) < rs_maxTransitions p")
        case True
        then have "leave_provider p e st = move_to p e RECOVERY_EXPLICIT_POLICY i ?st1" using Some no_next by (simp add: leave_provider_def)
        then show ?thesis using sound by (intro disjI2) (auto simp: move_to_def move_permitted_def candidate_at_def)
      next
        case False
        then show ?thesis using Some by (simp add: leave_provider_def)
      qed
    qed
  qed
qed

text \<open>\<open>rest\<close> are the events since the last transition; the last of them, as many as the streak counts, have its class.\<close>

definition streak_ok :: "failure_event list \<Rightarrow> failover \<Rightarrow> bool" where
  "streak_ok rest st = (fo_exhausted st \<or> (\<exists>pre run. rest = pre @ run \<and> length run = fo_streakCount st
     \<and> list_all (\<lambda>x. Some (fe_class x) = fo_streakClass st) run))"

definition founded :: "resilience_policy \<Rightarrow> failure_event list \<Rightarrow> failover \<Rightarrow> bool" where
  "founded p es st = (\<exists>segs rest. es = concat segs @ rest \<and> streak_ok rest st
     \<and> list_all2 (\<lambda>seg t. completes_streak p seg t \<and> move_permitted p t) segs (fo_transitions st))"

lemma streak_extended:
  assumes "streak_ok rest st" "\<not> fo_exhausted st"
  obtains pre run where "rest = pre @ run" "list_all (\<lambda>x. fe_class x = c) run" "fo_streakCount (extend_streak c st) = length run + 1"
proof (cases "fo_streakClass st = Some c")
  case True
  then show ?thesis using assms that by (auto simp: streak_ok_def)
next
  case False
  then show ?thesis using that [of rest "[]"] by simp
qed

text \<open>An event that moves nothing joins the events since the last transition.\<close>

lemma founded_quiet:
  assumes "es = concat segs @ rest" "list_all2 (\<lambda>seg t. completes_streak p seg t \<and> move_permitted p t) segs (fo_transitions st)"
    "fo_transitions st' = fo_transitions st" "streak_ok (rest @ [e]) st'"
  shows "founded p (es @ [e]) st'"
  unfolding founded_def using assms by (intro exI [of _ segs] exI [of _ "rest @ [e]"]) simp

lemma founded_step:
  assumes "founded p es st"
  shows "founded p (es @ [e]) (failover_step p st e)"
proof -
  obtain segs rest where es: "es = concat segs @ rest" and streak: "streak_ok rest st"
    and trail: "list_all2 (\<lambda>seg t. completes_streak p seg t \<and> move_permitted p t) segs (fo_transitions st)"
    using assms unfolding founded_def by blast
  note quiet = founded_quiet [OF es trail, of "failover_step p st e" e]
  show ?thesis
  proof (cases rule: failover_step_cases [of st p e])
    case (3 st2)
    let ?st1 = "bump (candidate_at p (fo_activeIndex st)) (fe_class e) st"
    have "streak_ok rest ?st1" "\<not> fo_exhausted ?st1" using streak 3(1) by (simp_all add: streak_ok_def)
    then obtain pre run where rest: "rest = pre @ run" and run: "list_all (\<lambda>x. fe_class x = fe_class e) run" and len: "fo_streakCount st2 = length run + 1"
      unfolding 3(4) by (rule streak_extended)
    have same: "fo_transitions st2 = fo_transitions st" by (simp add: 3(4))
    show ?thesis
    proof (cases "streak_reached p (fe_class e) (fo_streakCount st2)")
      case True
      then have step: "failover_step p st e = leave_provider p e st2" by (simp add: 3(5))
      consider (over) "fo_exhausted (leave_provider p e st2)" "fo_transitions (leave_provider p e st2) = fo_transitions st2"
        | (moved) t where "fo_transitions (leave_provider p e st2) = fo_transitions st2 @ [t]" "pv_triggerClass t = fe_class e"
            "pv_atEvent t = fe_atEvent e" "move_permitted p t" "fo_streakCount (leave_provider p e st2) = 0"
        using leave_transitions [of p e st2] by force
      then show ?thesis
      proof cases
        case over
        then show ?thesis using quiet by (simp add: step same streak_ok_def)
      next
        case (moved t)
        have "completes_streak p (rest @ [e]) t" unfolding completes_streak_def using 3(2,3) True run
          by (intro exI [of _ pre] exI [of _ run] exI [of _ e]) (simp add: moved(2,3) rest len)
        then have "list_all2 (\<lambda>seg t. completes_streak p seg t \<and> move_permitted p t) (segs @ [rest @ [e]]) (fo_transitions (leave_provider p e st2))"
          using trail moved(4) by (simp add: moved(1) same list_all2_appendI)
        moreover have "streak_ok [] (leave_provider p e st2)" by (simp add: streak_ok_def moved(5))
        ultimately show ?thesis unfolding founded_def step
          by (intro exI [of _ "segs @ [rest @ [e]]"] exI [of _ "[]"]) (simp add: es)
      qed
    next
      case False
      have "streak_ok (rest @ [e]) st2" unfolding streak_ok_def using run
        by (intro disjI2 exI [of _ pre] exI [of _ "run @ [e]"]) (simp add: rest len, simp add: 3(4) list_all_iff)
      then show ?thesis using False quiet by (simp add: 3(5) same)
    qed
  qed (use quiet in \<open>simp_all add: streak_ok_def\<close>)
qed

lemma founded_run: "founded p es (failover_run p es)"
proof (induction es rule: rev_induct)
  case Nil
  show ?case by (simp add: failover_run_def founded_def streak_ok_def fresh_failover_def)
next
  case (snoc e es)
  then show ?case using founded_step by (simp add: failover_run_def)
qed

text \<open>C39: the events of a replay fall into one stretch per transition and what is left. Each transition's own stretch, that is the
  events after the transition before it, ends with as many failures of one eligible class in a row as the policy's threshold for it, so
  that a provider is left for its own failures and never for those that already cost another its place; a failover moves exactly one step
  down the declared order and a recovery only to a provider the policy names.\<close>

theorem transition_rests_on_streak:
  "\<exists>segs rest. es = concat segs @ rest
     \<and> list_all2 (\<lambda>seg t. completes_streak p seg t \<and> move_permitted p t) segs (fr_transitions (replayProviderFailures p es))"
  using founded_run [of p es] by (auto simp: replayProviderFailures_def founded_def Let_def)

section \<open>A sample\<close>

definition sample_resilience :: resilience_policy where
  "sample_resilience = \<lparr>rs_candidates = [''a'', ''b''], rs_eligible = [''PROVIDER_ABSENT''], rs_thresholds = [(''DEFAULT'', 2)], rs_maxTransitions = 1,
     rs_recoveryPermitted = False, rs_recoveryProviders = None\<rparr>"

definition sample_failures :: "nat \<Rightarrow> failure_event list" where
  "sample_failures n = map (\<lambda>i. \<lparr>fe_class = ''PROVIDER_ABSENT'', fe_atEvent = int i\<rparr>) [0..<n]"

lemmas failover_eval = replayProviderFailures_def failover_run_def failover_step_def bump_def reset_streak_def extend_streak_def streak_reached_def
  failover_threshold_def leave_provider_def degrade_def move_to_def recoverable_def candidate_at_def fresh_failover_def Let_def map_get_def map_set_def

lemma sample_replays:
  "fr_transitions (replayProviderFailures sample_resilience (sample_failures 2)) =
     [\<lparr>pv_sequence = 1, pv_atEvent = 1, pv_from = ''a'', pv_to = ''b'', pv_triggerClass = ''PROVIDER_ABSENT'', pv_reason = FAILOVER_ELIGIBLE_THRESHOLD\<rparr>]"
  "fr_exhausted (replayProviderFailures sample_resilience (sample_failures 4))"
  by (simp_all add: failover_eval sample_resilience_def sample_failures_def upt_rec)

text \<open>Three failures in a row are one transition and a failure left over.\<close>

lemma third_failure_leaves_none:
  "length (fr_transitions (replayProviderFailures (sample_resilience\<lparr>rs_candidates := [''a'', ''b'', ''c''], rs_maxTransitions := 2\<rparr>) (sample_failures 3))) = 1"
  by (simp add: failover_eval sample_resilience_def sample_failures_def upt_rec)

theorem transition_rests_on_streak_witness:
  "\<exists>seg rest t. sample_failures 2 = seg @ rest \<and> pv_to t = ''b'' \<and> completes_streak sample_resilience seg t \<and> move_permitted sample_resilience t"
proof -
  obtain segs rest where es: "sample_failures 2 = concat segs @ rest"
    and segs: "list_all2 (\<lambda>seg t. completes_streak sample_resilience seg t \<and> move_permitted sample_resilience t) segs
      (fr_transitions (replayProviderFailures sample_resilience (sample_failures 2)))"
    using transition_rests_on_streak [of "sample_failures 2" sample_resilience] by blast
  from segs obtain seg where "segs = [seg]" unfolding sample_replays(1) by (auto simp only: list_all2_Cons2 list_all2_Nil2)
  with es segs show ?thesis unfolding sample_replays(1)
    by (intro exI [of _ seg] exI [of _ rest] exI [of _ "\<lparr>pv_sequence = 1, pv_atEvent = 1, pv_from = ''a'', pv_to = ''b'',
        pv_triggerClass = ''PROVIDER_ABSENT'', pv_reason = FAILOVER_ELIGIBLE_THRESHOLD\<rparr>"]) simp
qed

theorem failover_trail_witness:
  "fr_transitions (replayProviderFailures sample_resilience (sample_failures 4 @ sample_failures 3))
     = fr_transitions (replayProviderFailures sample_resilience (sample_failures 4))"
  using failover_trail [of sample_resilience "sample_failures 4" "sample_failures 3"] sample_replays(2) by blast

end
