(* ===== verification/Provider_Policy.thy ===== *)
theory Provider_Policy imports Provider_Failover begin

text \<open>
  The taxonomy of provider failures (\<open>src/core/agentProtocol/providerFailure.ts\<close>), the budget envelope
  a wave declares (\<open>src/core/agentRuntime/runtimeBudgetEnvelope.ts\<close>) and the validation of a
  resilience policy (\<open>src/core/currentSourceYield/providerResilience.ts\<close>). Raw provider text is
  searched with the two signal expressions, character by character.
\<close>

section \<open>Failure classes\<close>

definition PROVIDER_FAILURE_CLASSES :: "string list" where
  "PROVIDER_FAILURE_CLASSES = [''PROVIDER_ABSENT'', ''PROVIDER_PROBE_TIMEOUT'', ''PROVIDER_RUNTIME_TIMEOUT'', ''PROVIDER_NONZERO_EXIT'',
     ''PROVIDER_INVALID_STRUCTURED_RESPONSE'', ''PROVIDER_NAMESPACE_OR_QUOTA_UNAVAILABLE'', ''PROVIDER_AUTH_FAILURE'', ''LOCAL_CLI_FAILURE'',
     ''VALID_PROVIDER_RESPONSE'', ''UNKNOWN_EXTERNAL_PROVIDER_FAILURE'']"

datatype provider_signal = AUTH_SIGNAL | QUOTA_OR_NAMESPACE_SIGNAL

definition PROVIDER_SIGNAL_SCAN_MAX_CHARS :: nat where "PROVIDER_SIGNAL_SCAN_MAX_CHARS = 16384"

text \<open>\<open>[\s_-]*\<close>: the letters that follow it never match it, so it takes all it can.\<close>

definition after_gap :: "string \<Rightarrow> string" where
  "after_gap t = dropWhile (\<lambda>c. is_space c \<or> c = CHR ''_'' \<or> c = CHR ''-'') t"

text \<open>Words with gaps between them, at the start of a lower-case text: what follows them.\<close>

fun after_words :: "string list \<Rightarrow> string \<Rightarrow> string option" where
  "after_words [] t = Some t"
| "after_words (w # ws) t = (if starts_with w t then (if ws = [] then Some (drop (length w) t) else after_words ws (after_gap (drop (length w) t))) else None)"

definition words_at :: "string list \<Rightarrow> string \<Rightarrow> bool" where
  "words_at ws t = (after_words ws t \<noteq> None)"

definition code_at :: "string list \<Rightarrow> char option \<Rightarrow> string \<Rightarrow> bool" where
  "code_at codes before t = ((case before of None \<Rightarrow> True | Some c \<Rightarrow> \<not> is_digit c)
     \<and> list_ex (\<lambda>code. starts_with code t \<and> (case drop (length code) t of [] \<Rightarrow> True | c # r \<Rightarrow> \<not> is_digit c)) codes)"

definition auth_signal_at :: "char option \<Rightarrow> string \<Rightarrow> bool" where
  "auth_signal_at before t = (starts_with ''unauthorised'' t \<or> starts_with ''unauthorized'' t \<or> starts_with ''authentication'' t
     \<or> words_at [''invalid'', ''key''] t \<or> words_at [''invalid'', ''api'', ''key''] t
     \<or> list_ex (\<lambda>w. words_at [''api'', ''key'', w] t) [''invalid'', ''missing'', ''expired'']
     \<or> starts_with ''forbidden'' t \<or> starts_with ''credential'' t \<or> code_at [''401'', ''403''] before t)"

definition quota_signal_at :: "char option \<Rightarrow> string \<Rightarrow> bool" where
  "quota_signal_at before t = (starts_with ''quota'' t \<or> words_at [''rate'', ''limit''] t \<or> words_at [''too'', ''many'', ''requests''] t
     \<or> list_ex (\<lambda>w. words_at [''insufficient'', w] t) [''quota'', ''credit'', ''balance'']
     \<or> list_ex (\<lambda>w. words_at [''namespace'', w] t) [''unavailable'', ''disabled'', ''exhausted'']
     \<or> words_at [''namespace'', ''not'', ''found''] t \<or> code_at [''402'', ''429''] before t)"

text \<open>\<open>test\<close> tries every position, looking back one character.\<close>

fun search_from :: "(char option \<Rightarrow> string \<Rightarrow> bool) \<Rightarrow> char option \<Rightarrow> string \<Rightarrow> bool" where
  "search_from matches before [] = matches before []"
| "search_from matches before (c # s) = (matches before (c # s) \<or> search_from matches (Some c) s)"

definition providerSignalFromText :: "string option \<Rightarrow> provider_signal option" where
  "providerSignalFromText text = (case text of
     None \<Rightarrow> None
   | Some t \<Rightarrow>
       if t = [] then None
       else let bounded = lower (take PROVIDER_SIGNAL_SCAN_MAX_CHARS t)
         in if search_from auth_signal_at None bounded then Some AUTH_SIGNAL
            else if search_from quota_signal_at None bounded then Some QUOTA_OR_NAMESPACE_SIGNAL else None)"

datatype call_phase = PROBE | RUNTIME

record provider_outcome =
  pf_phase :: call_phase
  pf_ok :: "bool option"
  pf_reasonerClass :: "string option"
  pf_providerPresent :: "bool option"
  pf_spawnErrorCode :: "string option"
  pf_timedOut :: "bool option"
  pf_signalText :: "string option"
  pf_exitCode :: "int option"
  pf_durationMs :: "int option"
  pf_stdoutBytes :: "nat option"
  pf_stderrBytes :: "nat option"

record provider_evidence =
  pe_class :: string
  pe_phase :: call_phase
  pe_reasonerClass :: "string option"
  pe_signal :: "provider_signal option"
  pe_exitCode :: "int option"
  pe_durationMs :: "int option"
  pe_stdoutBytes :: nat
  pe_stderrBytes :: nat

definition TIMEOUT_CLASSES :: "string list" where
  "TIMEOUT_CLASSES = [''TIMEOUT'', ''HUNG_CHILD'', ''HUNG_GRANDCHILD'']"

definition INVALID_RESPONSE_CLASSES :: "string list" where
  "INVALID_RESPONSE_CLASSES = [''MALFORMED_OUTPUT'', ''GARBAGE_OUTPUT'', ''OVERSIZE_OUTPUT'', ''PARTIAL_OUTPUT'', ''SECRET_ECHO'',
     ''UNKNOWN_INTENT'', ''UNSAFE_INTENT'', ''UNKNOWN_TOOL'', ''UNAUTHORIZED_ENVIRONMENT'']"

definition timeoutClassFor :: "call_phase \<Rightarrow> string" where
  "timeoutClassFor phase = (case phase of PROBE \<Rightarrow> ''PROVIDER_PROBE_TIMEOUT'' | RUNTIME \<Rightarrow> ''PROVIDER_RUNTIME_TIMEOUT'')"

definition provider_class :: "provider_outcome \<Rightarrow> provider_signal option \<Rightarrow> string" where
  "provider_class i signal =
     (if pf_ok i = Some True then ''VALID_PROVIDER_RESPONSE''
      else if pf_providerPresent i = Some False then ''PROVIDER_ABSENT''
      else if pf_spawnErrorCode i = Some ''ENOENT'' then ''PROVIDER_ABSENT''
      else if pf_spawnErrorCode i \<noteq> None \<and> pf_spawnErrorCode i \<noteq> Some [] then ''LOCAL_CLI_FAILURE''
      else case pf_reasonerClass i of
        None \<Rightarrow> if pf_timedOut i = Some True then timeoutClassFor (pf_phase i) else ''UNKNOWN_EXTERNAL_PROVIDER_FAILURE''
      | Some r \<Rightarrow>
          if r \<in> set TIMEOUT_CLASSES then timeoutClassFor (pf_phase i)
          else if r = ''CLI_CRASH'' \<or> r = ''CANCELLED'' then ''LOCAL_CLI_FAILURE''
          else if r = ''NONZERO_EXIT'' \<or> r = ''PROVIDER_FAILURE'' then
            (if signal = Some AUTH_SIGNAL then ''PROVIDER_AUTH_FAILURE''
             else if signal = Some QUOTA_OR_NAMESPACE_SIGNAL then ''PROVIDER_NAMESPACE_OR_QUOTA_UNAVAILABLE''
             else if r = ''NONZERO_EXIT'' then ''PROVIDER_NONZERO_EXIT'' else ''UNKNOWN_EXTERNAL_PROVIDER_FAILURE'')
          else if r \<in> set INVALID_RESPONSE_CLASSES then ''PROVIDER_INVALID_STRUCTURED_RESPONSE''
          else ''UNKNOWN_EXTERNAL_PROVIDER_FAILURE'')"

definition classifyProviderFailure :: "provider_outcome \<Rightarrow> provider_evidence" where
  "classifyProviderFailure i =
     (let signal = providerSignalFromText (pf_signalText i)
      in \<lparr>pe_class = provider_class i signal, pe_phase = pf_phase i, pe_reasonerClass = pf_reasonerClass i, pe_signal = signal,
          pe_exitCode = pf_exitCode i, pe_durationMs = pf_durationMs i,
          pe_stdoutBytes = (case pf_stdoutBytes i of None \<Rightarrow> 0 | Some n \<Rightarrow> n),
          pe_stderrBytes = (case pf_stderrBytes i of None \<Rightarrow> 0 | Some n \<Rightarrow> n)\<rparr>)"

lemma classified_is_known: "pe_class (classifyProviderFailure i) \<in> set PROVIDER_FAILURE_CLASSES"
  by (cases "pf_phase i"; cases "pf_reasonerClass i")
    (simp_all add: classifyProviderFailure_def provider_class_def timeoutClassFor_def PROVIDER_FAILURE_CLASSES_def Let_def)

lemma valid_class_iff: "pe_class (classifyProviderFailure i) = ''VALID_PROVIDER_RESPONSE'' \<longleftrightarrow> pf_ok i = Some True"
  by (cases "pf_phase i"; cases "pf_reasonerClass i") (simp_all add: classifyProviderFailure_def provider_class_def timeoutClassFor_def Let_def)

section \<open>The budget envelope\<close>

record runtime_envelope =
  en_ceilingName :: ceiling_name
  en_reasonerCalls :: int
  en_toolActions :: int
  en_inputBytes :: int
  en_outputBytes :: int
  en_toolPayloadBytes :: int
  en_failures :: int
  en_consecutiveFailures :: int
  en_providerFailures :: int

definition RUNTIME_BUDGET_ENVELOPE_FIELDS :: "string list" where
  "RUNTIME_BUDGET_ENVELOPE_FIELDS = [''ceilingName'', ''reasonerCalls'', ''toolActions'', ''inputBytes'', ''outputBytes'', ''toolPayloadBytes'',
     ''failures'', ''consecutiveFailures'', ''providerFailures'']"

definition envelopeFromBudgetPolicy :: "agent_policy \<Rightarrow> runtime_envelope" where
  "envelopeFromBudgetPolicy p = \<lparr>en_ceilingName = bp_ceilingName p, en_reasonerCalls = bp_reasonerCalls p, en_toolActions = bp_toolActions p,
     en_inputBytes = bp_inputBytes p, en_outputBytes = bp_outputBytes p, en_toolPayloadBytes = bp_toolPayloadBytes p, en_failures = bp_failures p,
     en_consecutiveFailures = bp_consecutiveFailures p, en_providerFailures = bp_providerFailures p\<rparr>"

definition deriveRuntimeBudgetEnvelope :: "ceiling_name \<Rightarrow> runtime_envelope" where
  "deriveRuntimeBudgetEnvelope tier = envelopeFromBudgetPolicy (defaultAgentBudgetPolicy tier)"

definition envelope_fields :: "runtime_envelope \<Rightarrow> json_fields" where
  "envelope_fields d = [(''ceilingName'', JStr (ceiling_text (en_ceilingName d))), (''reasonerCalls'', limit_json (en_reasonerCalls d)),
     (''toolActions'', limit_json (en_toolActions d)), (''inputBytes'', limit_json (en_inputBytes d)), (''outputBytes'', limit_json (en_outputBytes d)),
     (''toolPayloadBytes'', limit_json (en_toolPayloadBytes d)), (''failures'', limit_json (en_failures d)),
     (''consecutiveFailures'', limit_json (en_consecutiveFailures d)), (''providerFailures'', limit_json (en_providerFailures d))]"

datatype envelope_check = Envelope_Ok | Envelope_Malformed string | Envelope_Mismatch "(string \<times> json \<times> json option) list"

definition normalized_envelope :: "json_fields \<Rightarrow> json_fields" where
  "normalized_envelope fs = (case (map_of fs ''failures'', map_of fs ''retries'') of (None, Some v) \<Rightarrow> map_set fs ''failures'' v | _ \<Rightarrow> fs)"

fun compare_fields :: "json_fields \<Rightarrow> runtime_envelope \<Rightarrow> (string \<times> json \<times> json option) list \<Rightarrow> string list \<Rightarrow> envelope_check" where
  "compare_fields declared derived mismatches [] = (if mismatches = [] then Envelope_Ok else Envelope_Mismatch mismatches)"
| "compare_fields declared derived mismatches (f # fs) = (case map_of declared f of
     None \<Rightarrow> Envelope_Malformed (''declared runtime budget envelope is missing field '' @ f)
   | Some v \<Rightarrow>
       let expected = map_of (envelope_fields derived) f
       in if f \<noteq> ''ceilingName'' \<and> \<not> is_safe_count (Some v)
          then Envelope_Malformed (''declared runtime budget envelope field '' @ f @ '' must be a non-negative integer'')
          else compare_fields declared derived (if Some v \<noteq> expected then mismatches @ [(f, v, expected)] else mismatches) fs)"

definition checkRuntimeBudgetEnvelope :: "json option \<Rightarrow> runtime_envelope \<Rightarrow> envelope_check" where
  "checkRuntimeBudgetEnvelope declared derived = (case declared of
     Some (JObj fs) \<Rightarrow>
       if map_of fs ''schemaVersion'' \<noteq> Some (JStr ''nightwatch.runtime-budget-envelope.v1'')
       then Envelope_Malformed ''declared runtime budget envelope schemaVersion must be nightwatch.runtime-budget-envelope.v1''
       else let n = normalized_envelope fs
         in (case find (\<lambda>k. k \<noteq> ''schemaVersion'' \<and> k \<noteq> ''retries'' \<and> k \<notin> set RUNTIME_BUDGET_ENVELOPE_FIELDS) (map fst n) of
               Some k \<Rightarrow> Envelope_Malformed (''declared runtime budget envelope has unknown field '' @ k)
             | None \<Rightarrow> compare_fields n derived [] RUNTIME_BUDGET_ENVELOPE_FIELDS)
   | _ \<Rightarrow> Envelope_Malformed ''declared runtime budget envelope is not an object'')"

lemma compared_ok:
  "compare_fields n d ms fs = Envelope_Ok \<Longrightarrow> ms = [] \<and> (\<forall>f \<in> set fs. map_of n f = map_of (envelope_fields d) f)"
proof (induction fs arbitrary: ms)
  case (Cons f fs)
  then obtain v where "map_of n f = Some v" by (auto split: option.splits)
  then show ?case using Cons by (fastforce simp: Let_def split: if_splits)
qed (auto split: if_splits)

text \<open>An accepted envelope is the engine's own, field by field.\<close>

lemma accepted_envelope_agrees:
  assumes "checkRuntimeBudgetEnvelope (Some (JObj fs)) d = Envelope_Ok" "f \<in> set RUNTIME_BUDGET_ENVELOPE_FIELDS"
  shows "map_of (normalized_envelope fs) f = map_of (envelope_fields d) f"
  using assms compared_ok [of "normalized_envelope fs" d "[]" RUNTIME_BUDGET_ENVELOPE_FIELDS]
  by (auto simp: checkRuntimeBudgetEnvelope_def Let_def split: if_splits option.splits)

section \<open>Policies on disk\<close>

definition safe_integer :: "json option \<Rightarrow> int option" where
  "safe_integer v = (case v of Some (JNum q) \<Rightarrow> if q = of_int \<lfloor>q\<rfloor> \<and> \<bar>\<lfloor>q\<rfloor>\<bar> \<le> max_safe_integer then Some \<lfloor>q\<rfloor> else None | _ \<Rightarrow> None)"

definition positiveInt :: "json option \<Rightarrow> bool" where
  "positiveInt v = (case safe_integer v of None \<Rightarrow> False | Some n \<Rightarrow> 0 < n)"

fun js_string :: "(rat \<Rightarrow> string) \<Rightarrow> json \<Rightarrow> string" where
  "js_string num JNull = ''null''"
| "js_string num (JBool b) = (if b then ''true'' else ''false'')"
| "js_string num (JNum q) = num q"
| "js_string num (JStr s) = s"
| "js_string num (JArr xs) = join_with '','' (map (\<lambda>x. if x = JNull then [] else js_string num x) xs)"
| "js_string num (JObj fs) = ''[object Object]''"

definition js_string_option :: "(rat \<Rightarrow> string) \<Rightarrow> json option \<Rightarrow> string" where
  "js_string_option num v = (case v of None \<Rightarrow> ''undefined'' | Some x \<Rightarrow> js_string num x)"

text \<open>\<open>includes\<close>: two parsed objects or arrays are never the same one.\<close>

definition js_includes :: "json list \<Rightarrow> json \<Rightarrow> bool" where
  "js_includes xs v = (case v of JArr ys \<Rightarrow> False | JObj fs \<Rightarrow> False | _ \<Rightarrow> v \<in> set xs)"

type_synonym violations = "(string \<times> string) list"

definition violated :: "bool \<Rightarrow> string \<Rightarrow> string \<Rightarrow> violations" where
  "violated bad code detail = (if bad then [(code, detail)] else [])"

definition array_of :: "json option \<Rightarrow> json list option" where
  "array_of v = (case v of Some (JArr xs) \<Rightarrow> Some xs | _ \<Rightarrow> None)"

fun candidate_violations :: "(rat \<Rightarrow> string) \<Rightarrow> nat \<Rightarrow> string list \<Rightarrow> json list \<Rightarrow> violations" where
  "candidate_violations num i seen [] = []"
| "candidate_violations num i seen (c # cs) =
     (let code = ''PROVIDER_POLICY_CANDIDATES_INVALID''; item = (\<lambda>k. member_of (Some c) k);
          ordinal = violated (item ''ordinal'' \<noteq> Some (count_json (i + 1))) code
            (''candidate ordinal '' @ js_string_option num (item ''ordinal'') @ '' != position '' @ nat_to_dec (i + 1))
      in if (case c of JObj fs \<Rightarrow> False | JArr xs \<Rightarrow> False | _ \<Rightarrow> True)
         then (code, ''candidate '' @ nat_to_dec i @ '' is malformed'') # candidate_violations num (i + 1) seen cs
         else if \<not> is_filled_text (item ''provider'') \<or> \<not> is_filled_text (item ''model'')
         then ordinal @ (code, ''candidate '' @ nat_to_dec i @ '' needs provider and model'') # candidate_violations num (i + 1) seen cs
         else let provider = js_string_option num (item ''provider'')
           in if provider \<in> set seen
              then ordinal @ (code, ''candidate '' @ provider @ '' appears more than once'') # candidate_violations num (i + 1) seen cs
              else ordinal @ candidate_violations num (i + 1) (provider # seen) cs)"

definition class_violations :: "(rat \<Rightarrow> string) \<Rightarrow> json option \<Rightarrow> violations" where
  "class_violations num failover = (case (array_of (member_of failover ''eligibleClasses''), array_of (member_of failover ''ineligibleClasses'')) of
     (Some eligible, Some ineligible) \<Rightarrow>
       if eligible = [] then [(''PROVIDER_POLICY_FAILOVER_INVALID'', ''eligibleClasses and ineligibleClasses must be declared arrays'')]
       else concat (map (\<lambda>x. violated (case x of JStr s \<Rightarrow> s \<notin> set PROVIDER_FAILURE_CLASSES \<or> s = ''VALID_PROVIDER_RESPONSE'' | _ \<Rightarrow> True)
               ''PROVIDER_POLICY_FAILOVER_INVALID'' (''unknown or invalid failure class '' @ js_string num x)) (eligible @ ineligible))
         @ concat (map (\<lambda>x. violated (js_includes ineligible x) ''PROVIDER_POLICY_FAILOVER_INVALID''
               (''class '' @ js_string num x @ '' is both eligible and ineligible'')) eligible)
   | _ \<Rightarrow> [(''PROVIDER_POLICY_FAILOVER_INVALID'', ''eligibleClasses and ineligibleClasses must be declared arrays'')])"

definition threshold_violations :: "json option \<Rightarrow> violations" where
  "threshold_violations thresholds = (case thresholds of
     Some (JObj entries) \<Rightarrow>
       concat (map (\<lambda>(key, v).
         violated (key \<noteq> ''DEFAULT'' \<and> key \<notin> set PROVIDER_FAILURE_CLASSES) ''PROVIDER_POLICY_THRESHOLDS_INVALID'' (''threshold names unknown class '' @ key)
         @ violated (\<not> positiveInt (Some v)) ''PROVIDER_POLICY_THRESHOLDS_INVALID'' (''threshold for '' @ key @ '' must be a positive integer'')) entries)
       @ violated (map_of entries ''DEFAULT'' = None) ''PROVIDER_POLICY_THRESHOLDS_INVALID'' ''a DEFAULT threshold is required''
   | _ \<Rightarrow> [(''PROVIDER_POLICY_THRESHOLDS_INVALID'', ''maxConsecutiveFailuresByClass must be an object'')])"

definition recovery_violations :: "json option \<Rightarrow> violations" where
  "recovery_violations recovery = (case member_of recovery ''permitted'' of
     Some (JBool b) \<Rightarrow>
       if \<not> b then []
       else violated (case member_of recovery ''providers'' of Some (JArr xs) \<Rightarrow> xs = [] \<or> list_ex (\<lambda>x. \<not> is_text (Some x)) xs | _ \<Rightarrow> True)
              ''PROVIDER_POLICY_RECOVERY_INVALID'' ''recovery permitted requires named providers''
         @ violated (stated_text (member_of recovery ''condition'') = None)
              ''PROVIDER_POLICY_RECOVERY_INVALID'' ''recovery permitted requires a stated condition''
   | _ \<Rightarrow> [(''PROVIDER_POLICY_RECOVERY_INVALID'', ''recovery.permitted must be a boolean'')])"

text \<open>The two facts that would make a later candidate unreachable, as the code states them.\<close>

definition reach_violations :: "(rat \<Rightarrow> string) \<Rightarrow> json option \<Rightarrow> json option \<Rightarrow> json option \<Rightarrow> nat \<Rightarrow> violations" where
  "reach_violations num failover retry envelope n =
     (let code = ''PROVIDER_POLICY_UNREACHABLE_CANDIDATES'';
          attempts = (case safe_integer (member_of retry ''attemptsPerCall'') of None \<Rightarrow> 0 | Some a \<Rightarrow> a);
          needed = (if 0 < attempts then attempts else 1) * int n
      in if n \<le> 1 then []
         else (case safe_integer (member_of failover ''maxTransitions'') of
             None \<Rightarrow> []
           | Some t \<Rightarrow> violated (t < int n - 1) code (''maxTransitions '' @ num (of_int t) @ '' cannot reach candidate '' @ nat_to_dec n @ '' of ''
               @ nat_to_dec n @ '' ('' @ nat_to_dec (n - 1) @ '' transitions are required)''))
           @ (case safe_integer (member_of envelope ''providerFailures'') of
             None \<Rightarrow> []
           | Some allowance \<Rightarrow> violated (allowance < needed) code (''reaching candidate '' @ nat_to_dec n @ '' needs at least ''
               @ num (of_int needed) @ '' failing calls but the envelope allows '' @ num (of_int allowance))))"

definition envelope_violations :: "json option \<Rightarrow> runtime_envelope option \<Rightarrow> violations" where
  "envelope_violations declared derived = (case derived of
     None \<Rightarrow> []
   | Some d \<Rightarrow> (case checkRuntimeBudgetEnvelope declared d of
       Envelope_Ok \<Rightarrow> []
     | Envelope_Malformed detail \<Rightarrow> [(''RUNTIME_BUDGET_ENVELOPE_MALFORMED'', detail)]
     | Envelope_Mismatch ms \<Rightarrow> [(''RUNTIME_BUDGET_ENVELOPE_MISMATCH'',
         ''budget envelope disagrees with the engine on '' @ join_with '', '' (map fst ms))]))"

text \<open>Reading a property of \<open>null\<close> throws; \<open>cli\<close>, \<open>timing\<close>, \<open>retryPolicy\<close>, \<open>recovery\<close> and, with several
  candidates, \<open>budgetEnvelope\<close> are only compared with \<open>undefined\<close> before they are read.\<close>

definition reads_null :: "json_fields \<Rightarrow> nat \<Rightarrow> bool" where
  "reads_null fs n = (list_ex (\<lambda>k. map_of fs k = Some JNull) [''cli'', ''timing'', ''retryPolicy'']
     \<or> member_of (map_of fs ''failover'') ''recovery'' = Some JNull \<or> (1 < n \<and> map_of fs ''budgetEnvelope'' = Some JNull))"

definition policy_violations :: "(rat \<Rightarrow> string) \<Rightarrow> json_fields \<Rightarrow> runtime_envelope option \<Rightarrow> violations" where
  "policy_violations num fs derived =
     (let look = map_of fs; failover = look ''failover''; timing = look ''timing''; retry = look ''retryPolicy''; cli = look ''cli'';
          candidates = array_of (look ''candidates''); recovery = member_of failover ''recovery''
      in violated (\<not> is_filled_text (member_of cli ''structuredResponseSchema'') \<or> member_of cli ''shell'' \<noteq> Some (JBool False))
           ''PROVIDER_POLICY_CLI_INVALID'' ''cli requires a structured response schema and shell=false''
       @ violated (\<not> positiveInt (member_of timing ''probeTimeoutMs'') \<or> \<not> positiveInt (member_of timing ''runtimeTimeoutMs''))
           ''PROVIDER_POLICY_TIMING_INVALID'' ''probeTimeoutMs and runtimeTimeoutMs must be positive integers''
       @ violated (case safe_integer (member_of retry ''attemptsPerCall'') of None \<Rightarrow> True | Some a \<Rightarrow> a < 0)
           ''PROVIDER_POLICY_RETRY_INVALID'' ''attemptsPerCall must be a non-negative integer''
       @ (case candidates of
            Some (c # cs) \<Rightarrow> candidate_violations num 0 [] (c # cs)
          | _ \<Rightarrow> [(''PROVIDER_POLICY_CANDIDATES_INVALID'', ''candidates must be a non-empty array'')])
       @ class_violations num failover
       @ threshold_violations (member_of failover ''maxConsecutiveFailuresByClass'')
       @ violated (case safe_integer (member_of failover ''maxTransitions'') of None \<Rightarrow> True | Some t \<Rightarrow> t < 0)
           ''PROVIDER_POLICY_TRANSITIONS_INVALID'' ''maxTransitions must be a non-negative integer''
       @ recovery_violations recovery
       @ violated (member_of failover ''exhaustionBehavior'' \<noteq> Some (JStr ''PROVIDER_BLOCKED''))
           ''PROVIDER_POLICY_EXHAUSTION_INVALID'' ''exhaustionBehavior must be PROVIDER_BLOCKED''
       @ reach_violations num failover retry (look ''budgetEnvelope'') (case candidates of None \<Rightarrow> 0 | Some cs \<Rightarrow> length cs)
       @ envelope_violations (look ''budgetEnvelope'') derived)"

definition validateProviderResiliencePolicy :: "(rat \<Rightarrow> string) \<Rightarrow> json option \<Rightarrow> runtime_envelope option \<Rightarrow> violations checked" where
  "validateProviderResiliencePolicy num v derived = (case v of
     Some (JObj fs) \<Rightarrow>
       if map_of fs ''schemaVersion'' \<noteq> Some (JStr ''nightwatch.provider-resilience-policy.v1'')
       then Inr [(''PROVIDER_POLICY_SCHEMA_UNSUPPORTED'', ''schemaVersion must be nightwatch.provider-resilience-policy.v1'')]
       else if reads_null fs (case array_of (map_of fs ''candidates'') of None \<Rightarrow> 0 | Some cs \<Rightarrow> length cs) then Inl ''TypeError''
       else Inr (policy_violations num fs derived)
   | _ \<Rightarrow> Inr [(''PROVIDER_POLICY_MALFORMED'', ''policy is not an object'')])"

text \<open>The policy the engine is given once the document passed.\<close>

definition text_or_empty :: "json option \<Rightarrow> string" where
  "text_or_empty v = (case v of Some (JStr s) \<Rightarrow> s | _ \<Rightarrow> [])"

definition array_or_empty :: "json option \<Rightarrow> json list" where
  "array_or_empty v = (case v of Some (JArr xs) \<Rightarrow> xs | _ \<Rightarrow> [])"

definition int_or_zero :: "json option \<Rightarrow> int" where
  "int_or_zero v = (case safe_integer v of None \<Rightarrow> 0 | Some n \<Rightarrow> n)"

definition policy_of_document :: "json_fields \<Rightarrow> resilience_policy" where
  "policy_of_document fs =
     (let failover = map_of fs ''failover''; recovery = member_of failover ''recovery''
      in \<lparr>rs_candidates = map (\<lambda>c. text_or_empty (member_of (Some c) ''provider'')) (array_or_empty (map_of fs ''candidates'')),
          rs_eligible = map (\<lambda>x. text_or_empty (Some x)) (array_or_empty (member_of failover ''eligibleClasses'')),
          rs_thresholds = (case member_of failover ''maxConsecutiveFailuresByClass'' of
            Some (JObj entries) \<Rightarrow> map (\<lambda>(k, v). (k, int_or_zero (Some v))) entries | _ \<Rightarrow> []),
          rs_maxTransitions = int_or_zero (member_of failover ''maxTransitions''),
          rs_recoveryPermitted = (member_of recovery ''permitted'' = Some (JBool True)),
          rs_recoveryProviders = map_option (map (\<lambda>x. text_or_empty (Some x))) (array_of (member_of recovery ''providers''))\<rparr>)"

end
