(* ===== verification/Provider_Properties.thy ===== *)
theory Provider_Properties imports Provider_Policy begin

text \<open>
  What a validated resilience policy promises of the failover engine, and what its validation misses.
\<close>

section \<open>A validated policy\<close>

lemma violated_Nil [simp]: "violated bad code detail = [] \<longleftrightarrow> \<not> bad"
  by (simp add: violated_def)

definition provider_of :: "json \<Rightarrow> string" where
  "provider_of c = text_or_empty (member_of (Some c) ''provider'')"

lemma filled_text:
  assumes "is_filled_text v"
  obtains s where "v = Some (JStr s)" "s \<noteq> []"
  using assms that by (auto simp: is_filled_text_def split: option.splits json.splits)

lemma candidates_fine:
  "candidate_violations num i seen cs = [] \<Longrightarrow>
   distinct (map provider_of cs) \<and> [] \<notin> set (map provider_of cs) \<and> set (map provider_of cs) \<inter> set seen = {}"
proof (induction cs arbitrary: i seen)
  case (Cons c cs)
  let ?item = "\<lambda>k. member_of (Some c) k"
  have filled: "is_filled_text (?item ''provider'')" using Cons.prems by (auto simp: Let_def split: if_splits)
  then obtain s where "?item ''provider'' = Some (JStr s)" "s \<noteq> []" by (rule filled_text)
  then have p: "js_string_option num (?item ''provider'') = provider_of c" "provider_of c \<noteq> []"
    by (simp_all add: provider_of_def js_string_option_def text_or_empty_def)
  have "provider_of c \<notin> set seen" "candidate_violations num (i + 1) (provider_of c # seen) cs = []"
    using Cons.prems p by (auto simp: Let_def split: if_splits)
  then show ?case using Cons.IH [of "i + 1" "provider_of c # seen"] p(2) by auto
qed simp

definition sound_policy :: "resilience_policy \<Rightarrow> bool" where
  "sound_policy p = (distinct (rs_candidates p) \<and> rs_candidates p \<noteq> [] \<and> [] \<notin> set (rs_candidates p)
     \<and> rs_eligible p \<noteq> [] \<and> ''VALID_PROVIDER_RESPONSE'' \<notin> set (rs_eligible p) \<and> set (rs_eligible p) \<subseteq> set PROVIDER_FAILURE_CLASSES
     \<and> list_all (\<lambda>(k, n). 0 < n) (rs_thresholds p) \<and> ''DEFAULT'' \<in> fst ` set (rs_thresholds p)
     \<and> int (length (rs_candidates p)) \<le> rs_maxTransitions p + 1)"

lemma eligible_fine:
  assumes "class_violations num failover = []"
  obtains xs where "array_or_empty (member_of failover ''eligibleClasses'') = xs" "xs \<noteq> []"
    "set (map (\<lambda>x. text_or_empty (Some x)) xs) \<subseteq> set PROVIDER_FAILURE_CLASSES - {''VALID_PROVIDER_RESPONSE''}"
proof -
  obtain xs ys where xs: "array_of (member_of failover ''eligibleClasses'') = Some xs" "array_of (member_of failover ''ineligibleClasses'') = Some ys"
    and ne: "xs \<noteq> []" using assms by (auto simp: class_violations_def split: option.splits if_splits)
  have ok: "\<forall>x \<in> set xs. \<exists>s. x = JStr s \<and> s \<in> set PROVIDER_FAILURE_CLASSES \<and> s \<noteq> ''VALID_PROVIDER_RESPONSE''"
  proof
    fix x assume x: "x \<in> set xs"
    have "\<not> (case x of JStr s \<Rightarrow> s \<notin> set PROVIDER_FAILURE_CLASSES \<or> s = ''VALID_PROVIDER_RESPONSE'' | _ \<Rightarrow> True)"
      using assms xs ne x by (simp add: class_violations_def)
    then show "\<exists>s. x = JStr s \<and> s \<in> set PROVIDER_FAILURE_CLASSES \<and> s \<noteq> ''VALID_PROVIDER_RESPONSE''" by (cases x) auto
  qed
  have "array_or_empty (member_of failover ''eligibleClasses'') = xs"
    using xs(1) by (auto simp: array_of_def array_or_empty_def split: option.splits json.splits)
  moreover have "set (map (\<lambda>x. text_or_empty (Some x)) xs) \<subseteq> set PROVIDER_FAILURE_CLASSES - {''VALID_PROVIDER_RESPONSE''}"
    using ok by (auto simp: text_or_empty_def)
  ultimately show ?thesis using that ne by blast
qed

lemma positive_int: "positiveInt v \<Longrightarrow> 0 < int_or_zero v"
  by (simp add: positiveInt_def int_or_zero_def split: option.splits)

lemma thresholds_fine:
  assumes "threshold_violations v = []"
  obtains entries where "v = Some (JObj entries)" "\<forall>(k, x) \<in> set entries. 0 < int_or_zero (Some x)" "''DEFAULT'' \<in> fst ` set entries"
proof -
  obtain entries where v: "v = Some (JObj entries)" using assms by (auto simp: threshold_violations_def split: option.splits json.splits)
  have "\<forall>(k, x) \<in> set entries. positiveInt (Some x)" "map_of entries ''DEFAULT'' \<noteq> None"
    using assms v by (auto simp: threshold_violations_def)
  then have "\<forall>(k, x) \<in> set entries. 0 < int_or_zero (Some x)" "''DEFAULT'' \<in> fst ` set entries"
    using positive_int by (auto simp: map_of_eq_None_iff)
  then show ?thesis using that v by blast
qed

lemma array_both: "array_of v = Some xs \<Longrightarrow> array_or_empty v = xs"
  by (auto simp: array_of_def array_or_empty_def split: option.splits json.splits)

lemma validated_policy_sound:
  assumes "validateProviderResiliencePolicy num (Some (JObj fs)) derived = Inr []"
  shows "sound_policy (policy_of_document fs)"
proof -
  let ?failover = "map_of fs ''failover''"
  have none: "policy_violations num fs derived = []"
    using assms by (auto simp: validateProviderResiliencePolicy_def split: if_splits)
  obtain c cs where cs: "array_of (map_of fs ''candidates'') = Some (c # cs)" and cand: "candidate_violations num 0 [] (c # cs) = []"
    using none by (auto simp: policy_violations_def Let_def split: option.splits list.splits)
  have cls: "class_violations num ?failover = []" and thr: "threshold_violations (member_of ?failover ''maxConsecutiveFailuresByClass'') = []"
    and reach: "reach_violations num ?failover (map_of fs ''retryPolicy'') (map_of fs ''budgetEnvelope'') (length (c # cs)) = []"
    and trans: "\<not> (case safe_integer (member_of ?failover ''maxTransitions'') of None \<Rightarrow> True | Some t \<Rightarrow> t < 0)"
    using none cs by (simp_all add: policy_violations_def Let_def)
  have candidates: "rs_candidates (policy_of_document fs) = map provider_of (c # cs)"
    using array_both [OF cs] by (simp add: policy_of_document_def provider_of_def Let_def)
  obtain xs where xs: "array_or_empty (member_of ?failover ''eligibleClasses'') = xs" "xs \<noteq> []"
    "set (map (\<lambda>x. text_or_empty (Some x)) xs) \<subseteq> set PROVIDER_FAILURE_CLASSES - {''VALID_PROVIDER_RESPONSE''}"
    by (rule eligible_fine [OF cls])
  have eligible: "rs_eligible (policy_of_document fs) = map (\<lambda>x. text_or_empty (Some x)) xs"
    by (simp add: policy_of_document_def xs(1) Let_def)
  obtain entries where e: "member_of ?failover ''maxConsecutiveFailuresByClass'' = Some (JObj entries)"
    "\<forall>(k, x) \<in> set entries. 0 < int_or_zero (Some x)" "''DEFAULT'' \<in> fst ` set entries" by (rule thresholds_fine [OF thr])
  have thresholds: "rs_thresholds (policy_of_document fs) = map (\<lambda>(k, v). (k, int_or_zero (Some v))) entries"
    by (simp add: policy_of_document_def e(1) Let_def)
  obtain t where t: "safe_integer (member_of ?failover ''maxTransitions'') = Some t" "0 \<le> t" using trans by (auto split: option.splits)
  then have "rs_maxTransitions (policy_of_document fs) = t" by (simp add: policy_of_document_def int_or_zero_def Let_def)
  moreover have "int (length (c # cs)) \<le> t + 1" using reach t by (auto simp: reach_violations_def Let_def split: if_splits)
  moreover have "distinct (map provider_of (c # cs))" "[] \<notin> set (map provider_of (c # cs))" using candidates_fine [OF cand] by blast+
  moreover have "list_all (\<lambda>(k, n). 0 < n) (rs_thresholds (policy_of_document fs))" "''DEFAULT'' \<in> fst ` set (rs_thresholds (policy_of_document fs))"
    using e(2,3) unfolding thresholds by (force simp: list_all_iff image_iff)+
  ultimately show ?thesis unfolding sound_policy_def candidates eligible using xs(2,3) by (auto simp del: list.map)
qed

section \<open>Every candidate can be reached\<close>

lemma sound_threshold:
  assumes "sound_policy p"
  obtains n where "failover_threshold p c = Some n" "0 < n"
proof -
  have positive: "0 < n" if "map_of (rs_thresholds p) k = Some n" for k n
    using assms map_of_SomeD [OF that] by (auto simp: sound_policy_def list_all_iff)
  have "map_of (rs_thresholds p) ''DEFAULT'' \<noteq> None" using assms by (simp add: sound_policy_def map_of_eq_None_iff)
  then obtain d where "map_of (rs_thresholds p) ''DEFAULT'' = Some d" by blast
  then show ?thesis using that positive by (cases "map_of (rs_thresholds p) c") (auto simp: failover_threshold_def)
qed

text \<open>Fewer failures than the threshold only lengthen the streak.\<close>

lemma streak_grows:
  assumes "fe_class e \<in> set (rs_eligible p)" "fe_class e \<noteq> ''VALID_PROVIDER_RESPONSE''" "failover_threshold p (fe_class e) = Some n" "int j < n"
    and "\<not> fo_exhausted st" "fo_streakCount st = 0" "fo_streakClass st = None"
  shows "let st' = foldl (failover_step p) st (replicate j e)
    in \<not> fo_exhausted st' \<and> fo_streakCount st' = j \<and> (0 < j \<longrightarrow> fo_streakClass st' = Some (fe_class e)) \<and> (j = 0 \<longrightarrow> fo_streakClass st' = None)
      \<and> fo_activeIndex st' = fo_activeIndex st \<and> fo_used st' = fo_used st"
  using assms(4)
proof (induction j)
  case (Suc j)
  let ?st' = "foldl (failover_step p) st (replicate j e)"
  have step: "foldl (failover_step p) st (replicate (Suc j) e) = failover_step p ?st' e"
    by (simp only: replicate_append_same [symmetric] replicate_Suc foldl_append foldl.simps)
  have ih: "\<not> fo_exhausted ?st'" "fo_streakCount ?st' = j" "0 < j \<longrightarrow> fo_streakClass ?st' = Some (fe_class e)" "j = 0 \<longrightarrow> fo_streakClass ?st' = None"
    "fo_activeIndex ?st' = fo_activeIndex st" "fo_used ?st' = fo_used st" using Suc by (simp_all add: Let_def)
  show ?case unfolding step using assms(1-3) ih Suc.prems
    by (cases "j = 0") (simp_all add: failover_step_def streak_reached_def Let_def)
qed (use assms in simp)

lemma one_failover:
  assumes "fe_class e \<in> set (rs_eligible p)" "fe_class e \<noteq> ''VALID_PROVIDER_RESPONSE''" "failover_threshold p (fe_class e) = Some n" "0 < n"
    and "\<not> fo_exhausted st" "fo_streakCount st = 0" "fo_streakClass st = None"
    and "Suc (fo_activeIndex st) < length (rs_candidates p)" "int (fo_used st) < rs_maxTransitions p"
  shows "let st' = foldl (failover_step p) st (replicate (nat n) e)
    in \<not> fo_exhausted st' \<and> fo_streakCount st' = 0 \<and> fo_streakClass st' = None \<and> fo_activeIndex st' = Suc (fo_activeIndex st)
      \<and> fo_used st' = Suc (fo_used st)"
proof -
  obtain j where j: "nat n = Suc j" using assms(4) by (cases "nat n") auto
  let ?st' = "foldl (failover_step p) st (replicate j e)"
  have step: "foldl (failover_step p) st (replicate (nat n) e) = failover_step p ?st' e"
    by (simp only: j replicate_append_same [symmetric] replicate_Suc foldl_append foldl.simps)
  have "int j < n" using j by linarith
  from streak_grows [OF assms(1-3) this assms(5-7)]
  have grown: "\<not> fo_exhausted ?st'" "fo_streakCount ?st' = j" "0 < j \<longrightarrow> fo_streakClass ?st' = Some (fe_class e)" "j = 0 \<longrightarrow> fo_streakClass ?st' = None"
    "fo_activeIndex ?st' = fo_activeIndex st" "fo_used ?st' = fo_used st" by (simp_all add: Let_def)
  have "n \<le> int (Suc j)" using j by linarith
  then show ?thesis unfolding step using assms(1-3,8,9) grown
    by (cases "j = 0") (simp_all add: failover_step_def streak_reached_def leave_provider_def move_to_def Let_def)
qed

lemma reach_candidate:
  assumes "sound_policy p" "c \<in> set (rs_eligible p)" "failover_threshold p c = Some n" "0 < n" "i < length (rs_candidates p)"
  shows "let st = failover_run p (replicate (i * nat n) \<lparr>fe_class = c, fe_atEvent = 0\<rparr>)
    in \<not> fo_exhausted st \<and> fo_streakCount st = 0 \<and> fo_streakClass st = None \<and> fo_activeIndex st = i \<and> fo_used st = i"
  using assms(5)
proof (induction i)
  case 0
  then show ?case by (simp add: failover_run_def fresh_failover_def)
next
  case (Suc i)
  let ?e = "\<lparr>fe_class = c, fe_atEvent = 0\<rparr>"
  let ?st = "failover_run p (replicate (i * nat n) ?e)"
  have split: "failover_run p (replicate (Suc i * nat n) ?e) = foldl (failover_step p) ?st (replicate (nat n) ?e)"
    by (simp add: failover_run_def add.commute [of "nat n"] replicate_add)
  have ih: "\<not> fo_exhausted ?st" "fo_streakCount ?st = 0" "fo_streakClass ?st = None" "fo_activeIndex ?st = i" "fo_used ?st = i"
    using Suc by (simp_all add: Let_def)
  have c: "c \<noteq> ''VALID_PROVIDER_RESPONSE''" using assms(1,2) by (auto simp: sound_policy_def)
  have "int i < rs_maxTransitions p" using assms(1) Suc.prems by (simp add: sound_policy_def)
  then show ?case unfolding split using one_failover [of ?e p n ?st] ih c assms(2-4) Suc.prems by (simp add: Let_def)
qed

text \<open>C40: a policy document that passes validation names distinct providers, and the engine can be brought to each of them: repeating one
  eligible failure as often as its threshold asks moves it down the whole declared order.\<close>

theorem validated_policy_reaches_all:
  assumes "validateProviderResiliencePolicy num (Some (JObj fs)) derived = Inr []" "i < length (rs_candidates (policy_of_document fs))"
  shows "distinct (rs_candidates (policy_of_document fs))
    \<and> (\<exists>es. fr_activeProvider (replayProviderFailures (policy_of_document fs) es) = rs_candidates (policy_of_document fs) ! i)"
proof -
  let ?p = "policy_of_document fs"
  have sound: "sound_policy ?p" by (rule validated_policy_sound [OF assms(1)])
  define c where "c = hd (rs_eligible ?p)"
  have c: "c \<in> set (rs_eligible ?p)" using sound by (simp add: sound_policy_def c_def)
  obtain n where n: "failover_threshold ?p c = Some n" "0 < n" by (rule sound_threshold [OF sound])
  have "fo_activeIndex (failover_run ?p (replicate (i * nat n) \<lparr>fe_class = c, fe_atEvent = 0\<rparr>)) = i"
    using reach_candidate [OF sound c n assms(2)] by (simp add: Let_def)
  then have "fr_activeProvider (replayProviderFailures ?p (replicate (i * nat n) \<lparr>fe_class = c, fe_atEvent = 0\<rparr>)) = rs_candidates ?p ! i"
    using assms(2) by (simp add: replayProviderFailures_def candidate_at_def Let_def)
  then show ?thesis using sound by (auto simp: sound_policy_def)
qed

section \<open>What the validation misses\<close>

text \<open>A failover costs as many failures as the threshold, and without recovery the active candidate is never ahead of the transitions made.\<close>

lemma cost_step:
  assumes "\<forall>c n. failover_threshold p c = Some n \<longrightarrow> int T \<le> n" "\<not> rs_recoveryPermitted p"
    and "T * fo_used st + fo_streakCount st \<le> k" "fo_activeIndex st \<le> fo_used st"
  shows "T * fo_used (failover_step p st e) + fo_streakCount (failover_step p st e) \<le> Suc k
    \<and> fo_activeIndex (failover_step p st e) \<le> fo_used (failover_step p st e)"
proof (cases rule: failover_step_cases [of st p e])
  case (3 st2)
  have grown: "T * fo_used st2 + fo_streakCount st2 \<le> Suc k" "fo_activeIndex st2 \<le> fo_used st2" using assms(3,4) by (simp_all add: 3(4))
  show ?thesis
  proof (cases "streak_reached p (fe_class e) (fo_streakCount st2)")
    case True
    then have "T \<le> fo_streakCount st2" using assms(1) by (force simp: streak_reached_def split: option.splits)
    moreover have "recoverable p st = None" for st
      using assms(2) recoverable_sound by (cases "recoverable p st") blast+
    ultimately show ?thesis using True grown by (simp add: 3(5) leave_provider_def move_to_def Let_def)
  qed (use grown in \<open>simp add: 3(5)\<close>)
qed (use assms(3,4) in simp_all)

lemma cost_run:
  assumes "\<forall>c n. failover_threshold p c = Some n \<longrightarrow> int T \<le> n" "\<not> rs_recoveryPermitted p"
  shows "T * fo_used (failover_run p es) + fo_streakCount (failover_run p es) \<le> length es \<and> fo_activeIndex (failover_run p es) \<le> fo_used (failover_run p es)"
proof (induction es rule: rev_induct)
  case Nil
  show ?case by (simp add: failover_run_def fresh_failover_def)
next
  case (snoc e es)
  then show ?case using cost_step [OF assms, where st = "failover_run p es" and k = "length es" and e = e] by (simp add: failover_run_def)
qed

definition sample_policy_document :: json_fields where
  "sample_policy_document = [(''schemaVersion'', JStr ''nightwatch.provider-resilience-policy.v1''),
     (''cli'', JObj [(''structuredResponseSchema'', JStr ''s''), (''shell'', JBool False)]),
     (''timing'', JObj [(''probeTimeoutMs'', JNum 1), (''runtimeTimeoutMs'', JNum 1)]),
     (''retryPolicy'', JObj [(''attemptsPerCall'', JNum 1)]),
     (''failover'', JObj [(''eligibleClasses'', JArr [JStr ''PROVIDER_ABSENT'']), (''ineligibleClasses'', JArr []),
        (''maxConsecutiveFailuresByClass'', JObj [(''DEFAULT'', JNum 5)]), (''maxTransitions'', JNum 2),
        (''recovery'', JObj [(''permitted'', JBool False)]), (''exhaustionBehavior'', JStr ''PROVIDER_BLOCKED'')]),
     (''budgetEnvelope'', JObj [(''providerFailures'', JNum 8)]),
     (''candidates'', JArr [JObj [(''ordinal'', JNum 1), (''provider'', JStr ''a''), (''model'', JStr ''m'')],
        JObj [(''ordinal'', JNum 2), (''provider'', JStr ''b''), (''model'', JStr ''m'')],
        JObj [(''ordinal'', JNum 3), (''provider'', JStr ''c''), (''model'', JStr ''m'')]])]"

lemma sample_policy_validated: "validateProviderResiliencePolicy num (Some (JObj sample_policy_document)) None = Inr []"
  by (simp add: validateProviderResiliencePolicy_def sample_policy_document_def reads_null_def array_of_def member_of_def policy_violations_def
      violated_def is_filled_text_def positiveInt_def safe_integer_def max_safe_integer_def class_violations_def threshold_violations_def
      recovery_violations_def reach_violations_def envelope_violations_def PROVIDER_FAILURE_CLASSES_def js_includes_def count_json_def
      js_string_option_def Let_def)

lemma sample_policy_engine:
  "policy_of_document sample_policy_document = \<lparr>rs_candidates = [''a'', ''b'', ''c''], rs_eligible = [''PROVIDER_ABSENT''], rs_thresholds = [(''DEFAULT'', 5)],
     rs_maxTransitions = 2, rs_recoveryPermitted = False, rs_recoveryProviders = None\<rparr>"
  by (simp add: policy_of_document_def sample_policy_document_def member_of_def array_or_empty_def array_of_def text_or_empty_def int_or_zero_def
      safe_integer_def max_safe_integer_def Let_def)

theorem validated_policy_reaches_all_witness:
  "\<exists>es. fr_activeProvider (replayProviderFailures (policy_of_document sample_policy_document) es) = ''c''"
  using validated_policy_reaches_all [OF sample_policy_validated [of "\<lambda>q. []"], of 2] by (simp add: sample_policy_engine)

text \<open>The allowance is compared with the attempts of a call and not with the thresholds: this policy passes, and eight failures, all
  the envelope allows, never bring the engine to its third candidate.\<close>

lemma validated_candidate_out_of_reach:
  assumes "length es \<le> 8"
  shows "fr_activeProvider (replayProviderFailures (policy_of_document sample_policy_document) es) \<noteq> ''c''"
proof -
  let ?p = "policy_of_document sample_policy_document"
  have "\<forall>c n. failover_threshold ?p c = Some n \<longrightarrow> int 5 \<le> n" "\<not> rs_recoveryPermitted ?p"
    by (auto simp: sample_policy_engine failover_threshold_def split: if_splits)
  from cost_run [OF this, of es] have "5 * fo_used (failover_run ?p es) \<le> 8" "fo_activeIndex (failover_run ?p es) \<le> fo_used (failover_run ?p es)"
    using assms by linarith+
  then have "fo_activeIndex (failover_run ?p es) \<le> 1" by linarith
  then show ?thesis
    by (cases "fo_activeIndex (failover_run ?p es)") (auto simp: replayProviderFailures_def candidate_at_def Let_def sample_policy_engine)
qed

text \<open>A policy whose \<open>cli\<close> is \<open>null\<close> makes the validator throw.\<close>

lemma null_section_throws:
  "validateProviderResiliencePolicy num (Some (JObj ((''cli'', JNull) # sample_policy_document))) None = Inl ''TypeError''"
  by (simp add: validateProviderResiliencePolicy_def sample_policy_document_def reads_null_def)

end
