(* ===== verification/Provider_Fingerprint.thy ===== *)
theory Provider_Fingerprint imports Provider_Policy begin

text \<open>
  The fingerprint of a resilience policy and the fields a mismatch names
  (\<open>src/core/currentSourceYield/providerResilience.ts\<close>). The two policies are separate documents,
  so two arrays or objects in them are never the same reference.
\<close>

definition policyFingerprintPayload :: "(rat \<Rightarrow> string) \<Rightarrow> json_fields \<Rightarrow> string" where
  "policyFingerprintPayload num policy = stableJsonSorted num str_le (JObj (filter (\<lambda>(k, v). k \<noteq> ''fingerprint'') policy))"

definition computeProviderResilienceFingerprint :: "(string \<Rightarrow> string) \<Rightarrow> (rat \<Rightarrow> string) \<Rightarrow> json_fields \<Rightarrow> string" where
  "computeProviderResilienceFingerprint sha num policy = ''sha256:'' @ take 24 (sha (policyFingerprintPayload num policy))"

definition item_at :: "json list \<Rightarrow> nat \<Rightarrow> json option" where
  "item_at xs i = (if i < length xs then Some (xs ! i) else None)"

definition sorted_keys :: "json_fields \<Rightarrow> json_fields \<Rightarrow> string list" where
  "sorted_keys fs gs = sort_by str_le (remdups (map fst fs @ map fst gs))"

definition identical :: "json option \<Rightarrow> json option \<Rightarrow> bool" where
  "identical l r = (case l of Some (JArr xs) \<Rightarrow> False | Some (JObj fs) \<Rightarrow> False | _ \<Rightarrow> l = r)"

definition weight :: "json option \<Rightarrow> nat" where
  "weight v = (case v of None \<Rightarrow> 0 | Some x \<Rightarrow> size x)"

lemma weight_item: "weight (item_at xs i) < size (JArr xs)"
  by (auto simp: weight_def item_at_def less_Suc_eq_le intro: size_list_estimation' [OF nth_mem])

lemma weight_field: "weight (map_of fs k) < size (JObj fs)"
proof (cases "map_of fs k")
  case (Some v)
  then have "(k, v) \<in> set fs" by (rule map_of_SomeD)
  then have "size v \<le> size_list (size_prod (\<lambda>x. 0) size) fs" by (rule size_list_estimation') simp
  then show ?thesis by (simp add: Some weight_def)
qed (simp add: weight_def)

lemma weight_items: "Some (JArr xs) = l \<Longrightarrow> weight (item_at xs i) < weight l" "Some (JObj fs) = l \<Longrightarrow> weight (map_of fs k) < weight l"
  using weight_item [of xs i] weight_field [of fs k] by (auto simp: weight_def [of "Some x" for x])

function collectPolicyFieldPaths :: "json option \<Rightarrow> json option \<Rightarrow> string \<Rightarrow> string list" where
  "collectPolicyFieldPaths l r prefix =
     (if identical l r then []
      else case (l, r) of
        (Some (JArr xs), Some (JArr ys)) \<Rightarrow>
          let paths = (if length xs \<noteq> length ys then [prefix @ ''.length''] else [])
                @ concat (map (\<lambda>i. collectPolicyFieldPaths (item_at xs i) (item_at ys i) (prefix @ ''['' @ nat_to_dec i @ '']''))
                    [0..<max (length xs) (length ys)])
          in if paths \<noteq> [] then paths else if prefix = [] then [] else [prefix]
      | (Some (JObj fs), Some (JObj gs)) \<Rightarrow>
          concat (map (\<lambda>k. collectPolicyFieldPaths (map_of fs k) (map_of gs k) (if prefix = [] then k else prefix @ ''.'' @ k)) (sorted_keys fs gs))
      | _ \<Rightarrow> if prefix = [] then [''policy''] else [prefix])"
  by pat_completeness auto

termination
proof (relation "measure (\<lambda>(l, r, p). weight l + weight r)", goal_cases)
  case 2
  then show ?case by (simp only: in_measure split_conv prod.inject) (intro add_strict_mono weight_items; simp)
next
  case 3
  then show ?case by (simp only: in_measure split_conv prod.inject) (intro add_strict_mono weight_items; simp)
qed simp

declare collectPolicyFieldPaths.simps [simp del]

definition assertPolicyFingerprintMatches ::
  "(string \<Rightarrow> string) \<Rightarrow> (rat \<Rightarrow> string) \<Rightarrow> string \<Rightarrow> json_fields \<Rightarrow> json_fields \<Rightarrow> (string \<times> string list, unit) result" where
  "assertPolicyFingerprintMatches sha num committedFingerprint committedPolicy current =
     (let recomputed = computeProviderResilienceFingerprint sha num current
      in if recomputed = committedFingerprint then Inr ()
         else let changed = filter (\<lambda>path. path \<noteq> ''fingerprint'') (collectPolicyFieldPaths (Some (JObj committedPolicy)) (Some (JObj current)) [])
           in Inl (''PROVIDER_POLICY_FINGERPRINT_MISMATCH: committed '' @ committedFingerprint @ '' != recomputed '' @ recomputed
                @ ''; changed fields: '' @ (if changed \<noteq> [] then join_with '', '' changed else ''unknown''), changed))"

lemma fingerprint_accepts: "assertPolicyFingerprintMatches sha num (computeProviderResilienceFingerprint sha num p) p p = Inr ()"
  by (simp add: assertPolicyFingerprintMatches_def Let_def)

lemma fingerprint_ignores_itself:
  "computeProviderResilienceFingerprint sha num (map_set p ''fingerprint'' v) = computeProviderResilienceFingerprint sha num p"
proof -
  have "filter (\<lambda>(k, v). k \<noteq> ''fingerprint'') (map_set p ''fingerprint'' v) = filter (\<lambda>(k, v). k \<noteq> ''fingerprint'') p"
    unfolding map_set_def by (induction p) auto
  then show ?thesis by (simp add: computeProviderResilienceFingerprint_def policyFingerprintPayload_def)
qed

text \<open>An array that did not change is named among the changed fields, so the message of a mismatch names every array of the policy.\<close>

lemma unchanged_array_is_named:
  "collectPolicyFieldPaths (Some (JObj [(''orderingCriteria'', JArr [JStr ''cost''])])) (Some (JObj [(''orderingCriteria'', JArr [JStr ''cost''])])) []
   = [''orderingCriteria'']"
  by (simp add: collectPolicyFieldPaths.simps identical_def sorted_keys_def sort_by_def item_at_def Let_def)

text \<open>Documents without arrays are compared exactly: what differs is named, and nothing else.\<close>

fun array_free :: "json \<Rightarrow> bool" where
  "array_free (JArr xs) = False"
| "array_free (JObj fs) = list_all (\<lambda>(k, v). array_free v) fs"
| "array_free v = True"

lemma same_document_unchanged: "array_free v \<Longrightarrow> collectPolicyFieldPaths (Some v) (Some v) prefix = []"
proof (induction v arbitrary: prefix)
  case (JObj fs)
  have "collectPolicyFieldPaths (map_of fs k) (map_of fs k) q = []" for k q
  proof (cases "map_of fs k")
    case None
    then show ?thesis by (simp add: collectPolicyFieldPaths.simps [of None None] identical_def)
  next
    case (Some x)
    then have "(k, x) \<in> set fs" by (rule map_of_SomeD)
    then show ?thesis using JObj by (fastforce simp: Some list_all_iff)
  qed
  then show ?case by (simp add: collectPolicyFieldPaths.simps [of "Some (JObj fs)"])
qed (simp_all add: collectPolicyFieldPaths.simps identical_def)

end
