(* ===== verification/Spec2Isabelle.thy ===== *)
theory Spec2Isabelle imports Egress_Properties Admission_Properties Admission_Tickets Address_Properties Production_Gate_Properties
  Minimality_Evidence Candidate_Lifecycle_Properties Campaign_Budget_Properties Shard_Plan_Properties
  Finding_Review_Properties Exploration_Replay Agent_Resume Agent_Budget_Migration
  Provider_Properties Provider_Fingerprint begin

text \<open>
  \<^bold>\<open>Night-watch: verification library.\<close>

  Night-watch drives browsers and API clients against web products in development environments
  (and, in one narrow lane, in production), looks for anomalies, minimises and reviews them, and
  must never do harm: every request is decided by policy, every action is read-only, every run is
  bounded and every piece of evidence can be replayed. The library models the decision kernels of
  \<open>src/src\<close> (paths below are relative to it) as executable HOL functions, one group of theories
  per subsystem, and proves what each kernel promises.

  \<^bold>\<open>How the code is rendered.\<close> A class is a record, its methods return it updated; a \<open>Map\<close> is an
  association list in insertion order (\<open>map_set\<close>), a \<open>Set\<close> a list without duplicates; a thrown
  error is the left side of a sum (\<open>checked\<close>, \<open>bind_res\<close>); a closed union is a datatype where the
  code computes it. Strings are character lists, persisted JSON is the datatype \<open>json\<close>; sorting
  is the stable \<open>sort_by\<close>. Platform services are parameters: \<open>URL\<close>, \<open>RegExp\<close> built at run time,
  SHA-256, the decimal text of numbers, \<open>localeCompare\<close>, the clock, replay callbacks, browser
  runtimes. Theorems hold for every instance of them; the witnesses give concrete ones.

  \<^bold>\<open>Prelude and interfaces.\<close> \<open>Prelude\<close> has the vocabulary above with its lemmas, \<open>Canonical_Digest\<close>
  canonical JSON, \<open>Runtime_Validation\<close> the guards of persisted JSON
  (\<open>core/campaign/runtimeValidation.ts\<close>). \<open>Interfaces\<close> states the contracts several components
  share as locales: \<open>revocable_authority\<close> (generations, grants, breakers), \<open>metered\<close> (bootstrap
  exemptions, the ledger, the campaign budget) and \<open>transition_table\<close> (the candidate lifecycle);
  \<open>egress_decider\<close> is the contract of the outbound policy towards canary and proxy and
  \<open>answering_runtime\<close> the one of a browser runtime towards the explorer.

  \<^bold>\<open>Egress.\<close> \<open>Safety_Types\<close>, \<open>Environment_Config\<close>, \<open>Outbound_Policy\<close>, \<open>Egress_Consumers\<close>,
  \<open>Egress_Properties\<close>: \<open>core/safety/{types,hosts,actions,outboundPolicy,canary}.ts\<close>,
  \<open>core/environment\<close>, \<open>proxy/policyAdapter.ts\<close>. An allowed request is listed, a validated
  configuration stops production, and the port gap of the validator.
  \<open>Address_Policy\<close>, \<open>Address_Text\<close>, \<open>Address_Properties\<close>: \<open>proxy/addressPolicy.ts\<close>; canonical
  text reparses, the prefix tests are intervals, admitted answers are dialable.

  \<^bold>\<open>Semantic admission.\<close> \<open>Endpoint_Routes\<close>, \<open>Causal_Generations\<close>, \<open>Admission\<close>,
  \<open>Admission_Tickets\<close>, \<open>Admission_Properties\<close>: \<open>core/safety/{provenRoutes, endpointSemantics,
  causalGenerations, bootstrapExemptions, semanticAdmission, admissionTickets}.ts\<close>. What an admitted
  request rests on, what a refusal costs, one-shot tickets.

  \<^bold>\<open>Production lane.\<close> \<open>Production_Ledger\<close>, \<open>Production_Grants\<close>, \<open>Production_Gate\<close>,
  \<open>Production_Gate_Properties\<close>: \<open>core/prodObserve/{budget, breakers, killSwitch, authorization,
  productionRunGate}.ts\<close> and the guards of \<open>core/prodPrivacy\<close> they call. The chain of 18 gates as a
  fold over its state; an allow rests on every gate, a denial leaves no slot, grants are one-shot.

  \<^bold>\<open>Triage.\<close> \<open>Minimizer\<close>, \<open>Minimizer_Properties\<close>, \<open>Minimality_Evidence\<close>:
  \<open>core/triage/{minimizer, executorNormalization, minimalityEvidence}.ts\<close>. Both loops are
  \<open>while_option\<close> and shown to end; the survivor reproduces, one-minimality is replayed.

  \<^bold>\<open>Exploration.\<close> \<open>Exploration_Types\<close>, \<open>_Random\<close>, \<open>_State\<close>, \<open>_Catalog\<close>, \<open>_Planner\<close>, \<open>_Engine\<close>,
  \<open>_Fixture\<close>, with \<open>_State_Properties\<close>, \<open>_Properties\<close>, \<open>_Replay\<close>: \<open>core/exploration/*.ts\<close>. The
  world of a runtime is a type variable; one iteration of the loop is \<open>explore_step\<close>, the loop a
  \<open>function\<close> whose measure is the number of actions still allowed. Only approved actions are executed
  (a runtime that refuses every other action cannot be told apart; that they are read-only an
  exact replay leaves to the validation of the catalog), the planner's choice fulfils every
  precondition, limits are kept, a successful run is clean, an exploration over a runtime whose answers
  can be stored returns exactly when its seed is canonical, a strict replay is exact.

  \<^bold>\<open>Campaign and review.\<close> \<open>Candidate_Lifecycle\<close>, \<open>Campaign_Budget\<close>, \<open>Shard_Plan\<close>, \<open>Finding_Review\<close>
  with their \<open>_Properties\<close>: \<open>core/campaign/{candidateLifecycle, budget}.ts\<close>,
  \<open>core/validation/shardPlan.ts\<close>, \<open>core/findingReview/lifecycle.ts\<close>. Short lifecycles, budgets
  kept under every interleaving (refining an abstract pool), covering shard plans, decisions that
  are final and receipts that verify.

  \<^bold>\<open>Autonomous agent.\<close> \<open>Agent_Protocol\<close> (owner policy, tool catalog, validation of a reasoner's answer),
  \<open>Agent_Budget\<close> (policies, usage, the byte ledger, history), \<open>Agent_Tool_Results\<close>, \<open>Agent_State\<close>
  (snapshots, creation of checkpoints), \<open>Agent_Runtime\<close> and \<open>Agent_Loop\<close> (construction, tool calls,
  intents, the turn, the loop, finish): \<open>core/policy/ownerScope.ts\<close>, \<open>core/agentProtocol/{intents,
  tools, closedVocabulary, validate, runtime}.ts\<close>, \<open>core/agentRuntime/{types, providerAttribution,
  checkpoint, runtime}.ts\<close>. The ports (clock, random numbers, sleep, reasoner, executor) are functions
  over a world of any type, and pauses and cancels arrive with the answers of the awaited ports;
  working memory and the admission of spend are parameters. The loop is a \<open>function\<close> whose measure is the
  number of turns still allowed. The locale \<open>turn_law\<close> says which facts hold of one turn at the
  places of the code that change the agent, \<open>run_law\<close> extends it to runs; \<open>Agent_Run_Laws\<close> interprets
  it for the byte ledger, the counters, the shape of the state, the action log and the clock,
  \<open>Agent_Checkpoint_Roundtrip\<close> for what can be stored. \<open>Agent_Checkpoints\<close> shows that the search for
  a checkpoint's size converges (a constant plus the digits of a number). \<open>Agent_Checkpoint_Codec\<close> is
  the fail-closed parser, \<open>Agent_Checkpoint_Secrets\<close> decides when the screening passes. Results
  (\<open>Agent_Properties\<close>, \<open>Agent_Resume\<close>, \<open>Agent_Budget_Migration\<close>): only permitted tools are executed,
  charges are exact, counted limits hold, exhausted calls are not repeated, every run returns, its
  checkpoint measures itself and is resumed or, when its numbers are out of range, refused, budget migration is idempotent.

  \<^bold>\<open>Reasoning providers.\<close> \<open>Agent_Spend\<close> models \<open>core/agentRuntime/spendCeiling.ts\<close> over exact rationals (the
  decimal text of an amount is a parameter) and composes it with the charging loop of the runtime:
  a metered campaign, resumed any number of times under a ceiling that never widens, with a provider
  that keeps to the declaration, passes the authorised amount at most by the price of output billed
  beyond what the received bytes account for (\<open>escaped\<close>); that this happens, the lemma
  \<open>silent_calls_escape\<close> shows.
  \<open>Provider_Failover\<close>, \<open>Provider_Policy\<close>, \<open>Provider_Fingerprint\<close>, \<open>Provider_Properties\<close> model
  \<open>core/currentSourceYield/providerResilience.ts\<close>, \<open>core/agentProtocol/providerFailure.ts\<close> and
  \<open>core/agentRuntime/runtimeBudgetEnvelope.ts\<close>: the replay of failures over the candidates (its
  trail is a chain, transitions are bounded, each rests on a streak of the provider's own failures), the
  classification of a failure, the validator of a policy (a validated policy reaches every candidate
  under the thresholds it names), and the comparison of a policy with its fingerprint.

  \<^bold>\<open>Bounds.\<close> No model runs on fuel: recursions are structural or carry a termination proof, and the
  two \<open>while_option\<close> loops are proved to return. Machine integers appear where the code depends
  on them: 64-bit words in the generator, masks of addresses, doubles that stop counting at 2 to
  the 53 in the lifecycle counter. Elsewhere numbers are integers or rationals.

  \<^bold>\<open>Not modelled.\<close> The browser driver and observers (\<open>browser\<close>), servers and user interfaces
  (\<open>controlCenter\<close>, \<open>ui\<close>, \<open>mcp\<close>, \<open>bin\<close>) and the proxy's sockets are input and output; the
  product catalogs are data; the orchestrators of \<open>core/campaign\<close>, the drivers around the
  agent (\<open>core/agentRuntime/localCampaign.ts\<close>, the processes of providers, working memory) and the \<open>selfDev\<close>, \<open>phase\<close> and
  benchmark tooling interleave file and process effects with the kernels
  modelled here. The manifest lists every part with its reason.
\<close>

end
